(* ===== verification/Collections.thy ===== *)
theory Collections
  imports Prelude
begin

text \<open>
  The containers of the Rust standard library that the modelled code relies on: total-order
  comparison, \<open>Iterator::max_by\<close>, \<open>slice::windows(2)\<close>, stable sorting with
  \<open>dedup_by_key\<close>, the ordered map \<open>BTreeMap\<close> as a key-sorted association list,
  and the counting fact behind every majority argument.
\<close>

section \<open>Comparison\<close>

datatype ordering = Less | Equal | Greater

definition cmp :: "'a::linorder \<Rightarrow> 'a \<Rightarrow> ordering" where
  "cmp x y = (if x < y then Less else if x = y then Equal else Greater)"

fun then_with :: "ordering \<Rightarrow> ordering \<Rightarrow> ordering" where
  "then_with Equal o2 = o2"
| "then_with o1 o2 = o1"

lemma cmp_simps [simp]:
  "cmp x y = Less \<longleftrightarrow> x < y"
  "cmp x y = Equal \<longleftrightarrow> x = y"
  "cmp x y = Greater \<longleftrightarrow> y < x"
  by (auto simp: cmp_def)

lemma then_with_eq_Greater [simp]:
  "then_with a b = Greater \<longleftrightarrow> a = Greater \<or> a = Equal \<and> b = Greater"
  by (cases a) auto

lemma then_with_eq_Equal [simp]: "then_with a b = Equal \<longleftrightarrow> a = Equal \<and> b = Equal"
  by (cases a) auto

text \<open>\<open>Iterator::max_by\<close> reduces from the left and keeps the later of two equal elements.\<close>

definition max_pick :: "('a \<Rightarrow> 'a \<Rightarrow> ordering) \<Rightarrow> 'a \<Rightarrow> 'a \<Rightarrow> 'a" where
  "max_pick c x y = (if c x y = Greater then x else y)"

fun max_by :: "('a \<Rightarrow> 'a \<Rightarrow> ordering) \<Rightarrow> 'a list \<Rightarrow> 'a option" where
  "max_by c [] = None"
| "max_by c (x # xs) = Some (foldl (max_pick c) x xs)"

text \<open>With a comparison that reads off a strict total order of keys, the winner is the greatest.\<close>

lemma foldl_max_pick:
  fixes key :: "'a \<Rightarrow> 'k::linorder"
  assumes c: "\<And>x y. c x y = Greater \<longleftrightarrow> key y < key x"
  shows "foldl (max_pick c) x xs \<in> set (x # xs)
    \<and> (\<forall>y\<in>set (x # xs). key y \<le> key (foldl (max_pick c) x xs))"
proof (induction xs arbitrary: x)
  case Nil
  then show ?case by simp
next
  case (Cons a xs)
  let ?p = "max_pick c x a"
  have p: "?p = x \<or> ?p = a" "key x \<le> key ?p" "key a \<le> key ?p"
    by (auto simp: max_pick_def c)
  let ?r = "foldl (max_pick c) ?p xs"
  from Cons.IH [of ?p] have r: "?r = ?p \<or> ?r \<in> set xs" "key ?p \<le> key ?r"
    "\<And>y. y \<in> set xs \<Longrightarrow> key y \<le> key ?r" by simp_all
  from p r(2) have "key x \<le> key ?r" "key a \<le> key ?r" by (blast intro: order_trans)+
  with r(1,3) p(1) show ?case by auto
qed

lemma max_by_Some:
  fixes key :: "'a \<Rightarrow> 'k::linorder"
  assumes c: "\<And>x y. c x y = Greater \<longleftrightarrow> key y < key x" and m: "max_by c xs = Some m"
  shows "m \<in> set xs" "y \<in> set xs \<Longrightarrow> key y \<le> key m"
proof -
  from m obtain z zs where xs: "xs = z # zs" "m = foldl (max_pick c) z zs"
    by (cases xs) simp_all
  have "m \<in> set xs \<and> (\<forall>y\<in>set xs. key y \<le> key m)"
    unfolding xs by (rule foldl_max_pick) (rule c)
  then show "m \<in> set xs" "y \<in> set xs \<Longrightarrow> key y \<le> key m" by blast+
qed

lemma max_by_None [simp]: "max_by c xs = None \<longleftrightarrow> xs = []"
  by (cases xs) auto

section \<open>Slices\<close>

fun windows2 :: "'a list \<Rightarrow> ('a \<times> 'a) list" where
  "windows2 (x # y # xs) = (x, y) # windows2 (y # xs)"
| "windows2 _ = []"

text \<open>The idiom \<open>windows(2).any(|pair| key(pair[0]) >= key(pair[1]))\<close> decides strict ascent.\<close>

definition ascending_by :: "('a \<Rightarrow> 'k::linorder) \<Rightarrow> 'a list \<Rightarrow> bool" where
  "ascending_by key xs \<longleftrightarrow> \<not> list_ex (\<lambda>(a, b). key b \<le> key a) (windows2 xs)"

lemma ascending_by_iff: "ascending_by key xs \<longleftrightarrow> sorted_wrt (<) (map key xs)"
proof (induction xs rule: windows2.induct)
  case (1 x y xs)
  have "ascending_by key (x # y # xs) \<longleftrightarrow> key x < key y \<and> ascending_by key (y # xs)"
    by (auto simp: ascending_by_def not_le)
  with 1 show ?case by (simp add: sorted_wrt2 del: sorted_wrt.simps)
qed (auto simp: ascending_by_def)

lemma ascending_by_distinct: "ascending_by key xs \<Longrightarrow> distinct (map key xs)"
  by (simp add: ascending_by_iff strict_sorted_iff)

lemma ascending_by_sorted: "ascending_by key xs \<Longrightarrow> sorted (map key xs)"
  by (simp add: ascending_by_iff strict_sorted_iff)

lemma ascending_by_inj:
  "ascending_by key xs \<Longrightarrow> x \<in> set xs \<Longrightarrow> y \<in> set xs \<Longrightarrow> key x = key y \<Longrightarrow> x = y"
  by (metis ascending_by_distinct distinct_map inj_onD)

fun dedup_by_key :: "('a \<Rightarrow> 'k) \<Rightarrow> 'a list \<Rightarrow> 'a list" where
  "dedup_by_key key (x # y # xs) =
    (if key x = key y then dedup_by_key key (x # xs) else x # dedup_by_key key (y # xs))"
| "dedup_by_key key xs = xs"

lemma dedup_hd: "xs \<noteq> [] \<Longrightarrow> dedup_by_key key xs \<noteq> [] \<and> hd (dedup_by_key key xs) = hd xs"
  by (induction key xs rule: dedup_by_key.induct) auto

lemma dedup_subset: "set (dedup_by_key key xs) \<subseteq> set xs"
  by (induction key xs rule: dedup_by_key.induct) auto

lemma dedup_keys: "key ` set (dedup_by_key key xs) = key ` set xs"
  by (induction key xs rule: dedup_by_key.induct) auto

text \<open>Sorting by a key and dropping adjacent duplicates leaves strictly ascending keys.\<close>

lemma dedup_ascending:
  "sorted (map key xs) \<Longrightarrow> ascending_by key (dedup_by_key key xs)"
proof (induction key xs rule: dedup_by_key.induct)
  case (1 key x y xs)
  show ?case
  proof (cases "key x = key y")
    case True
    with 1 show ?thesis by simp
  next
    case False
    have lt: "key x < key z" if "z \<in> set (dedup_by_key key (y # xs))" for z
    proof -
      from that dedup_subset have "z \<in> set (y # xs)" by fastforce
      with 1(3) have "key y \<le> key z" by auto
      moreover from 1(3) False have "key x < key y" by auto
      ultimately show ?thesis by simp
    qed
    have "ascending_by key (dedup_by_key key (y # xs))" using 1 False by simp
    with lt False show ?thesis by (auto simp: ascending_by_iff)
  qed
qed (auto simp: ascending_by_iff)

lemma dedup_ascending_id: "ascending_by key xs \<Longrightarrow> dedup_by_key key xs = xs"
  by (induction key xs rule: dedup_by_key.induct) (auto simp: ascending_by_iff)

definition sort_dedup :: "('a \<Rightarrow> 'k::linorder) \<Rightarrow> 'a list \<Rightarrow> 'a list" where
  "sort_dedup key xs = dedup_by_key key (sort_key key xs)"

lemma sort_dedup_ascending: "ascending_by key (sort_dedup key xs)"
  by (simp add: sort_dedup_def dedup_ascending)

lemma sort_dedup_keys: "key ` set (sort_dedup key xs) = key ` set xs"
  by (simp add: sort_dedup_def dedup_keys)

lemma sort_dedup_subset: "set (sort_dedup key xs) \<subseteq> set xs"
  using dedup_subset [of key "sort_key key xs"] by (simp add: sort_dedup_def)

lemma sort_dedup_id: "ascending_by key xs \<Longrightarrow> sort_dedup key xs = xs"
  by (simp add: sort_dedup_def ascending_by_sorted dedup_ascending_id
      sort_key_id_if_sorted)

lemma sort_dedup_idem [simp]: "sort_dedup key (sort_dedup key xs) = sort_dedup key xs"
  by (rule sort_dedup_id) (rule sort_dedup_ascending)

text \<open>The sort is stable and deduplication keeps the first, so a search by key finds the same element.\<close>

lemma dedup_find: "find (\<lambda>x. key x = k) (dedup_by_key key xs) = find (\<lambda>x. key x = k) xs"
  by (induction key xs rule: dedup_by_key.induct) auto

lemma find_filter: "find P xs = find P (filter P xs)"
  by (induction xs) auto

lemma sort_dedup_find: "find (\<lambda>x. key x = k) (sort_dedup key xs) = find (\<lambda>x. key x = k) xs"
  unfolding sort_dedup_def dedup_find by (metis find_filter sort_key_stable)

section \<open>Ordered maps\<close>

text \<open>
  A \<open>BTreeMap\<close> is its list of entries in ascending key order: equality of maps is
  equality of the lists, \<open>len\<close> is their length and iteration reads them in order.
\<close>

type_synonym ('k, 'v) btree_map = "('k \<times> 'v) list"

fun bt_insert :: "'k::linorder \<Rightarrow> 'v \<Rightarrow> ('k, 'v) btree_map \<Rightarrow> ('k, 'v) btree_map" where
  "bt_insert k v [] = [(k, v)]"
| "bt_insert k v ((k', v') # m) =
    (if k < k' then (k, v) # (k', v') # m
     else if k = k' then (k, v) # m
     else (k', v') # bt_insert k v m)"

definition bt_get :: "('k, 'v) btree_map \<Rightarrow> 'k \<Rightarrow> 'v option" where
  "bt_get m k = map_of m k"

definition bt_keys :: "('k, 'v) btree_map \<Rightarrow> 'k list" where
  "bt_keys m = map fst m"

definition bt_values :: "('k, 'v) btree_map \<Rightarrow> 'v list" where
  "bt_values m = map snd m"

definition bt_wf :: "('k::linorder, 'v) btree_map \<Rightarrow> bool" where
  "bt_wf m \<longleftrightarrow> sorted_wrt (<) (map fst m)"

definition bt_from_list :: "('k::linorder \<times> 'v) list \<Rightarrow> ('k, 'v) btree_map" where
  "bt_from_list es = foldl (\<lambda>m (k, v). bt_insert k v m) [] es"

lemma bt_get_empty [simp]: "bt_get [] = Map.empty"
  by (simp add: bt_get_def fun_eq_iff)

lemma bt_get_insert [simp]: "bt_get (bt_insert k v m) = (bt_get m)(k \<mapsto> v)"
  unfolding bt_get_def by (induction k v m rule: bt_insert.induct) (auto simp: fun_eq_iff)

lemma bt_get_map_of: "bt_get m = map_of m"
  by (simp add: bt_get_def fun_eq_iff)

lemma bt_get_finite [simp]: "finite (dom (bt_get m))"
  by (simp add: bt_get_map_of finite_dom_map_of)

lemma bt_insert_keys: "set (bt_keys (bt_insert k v m)) = insert k (set (bt_keys m))"
  unfolding bt_keys_def by (induction k v m rule: bt_insert.induct) auto

lemma bt_wf_empty [simp]: "bt_wf []"
  by (simp add: bt_wf_def)

lemma bt_wf_insert [simp]: "bt_wf m \<Longrightarrow> bt_wf (bt_insert k v m)"
proof (induction k v m rule: bt_insert.induct)
  case (2 k v k' v' m)
  have "set (map fst (bt_insert k v m)) = insert k (set (map fst m))"
    using bt_insert_keys [of k v m] by (simp add: bt_keys_def)
  with 2 show ?case
    unfolding bt_wf_def by (auto simp del: set_map)
qed (simp add: bt_wf_def)

lemma bt_wf_distinct: "bt_wf m \<Longrightarrow> distinct (map fst m)"
  by (simp add: bt_wf_def strict_sorted_iff)

lemma bt_get_iff: "bt_wf m \<Longrightarrow> bt_get m k = Some v \<longleftrightarrow> (k, v) \<in> set m"
  by (simp add: bt_get_def bt_wf_distinct)

lemma bt_ext:
  assumes "bt_wf m" "bt_wf m'" "bt_get m = bt_get m'"
  shows "m = m'"
proof (rule map_sorted_distinct_set_unique [of fst])
  have "p \<in> set m \<longleftrightarrow> p \<in> set m'" for p
    using assms bt_get_iff [of m "fst p" "snd p"] bt_get_iff [of m' "fst p" "snd p"] by simp
  then show eq: "set m = set m'" by blast
  from assms(1) show "inj_on fst (set m \<union> set m')"
    using bt_wf_distinct eq by (metis distinct_map sup.idem)
qed (use assms in \<open>simp_all add: bt_wf_def strict_sorted_iff\<close>)

lemma bt_length_card: "bt_wf m \<Longrightarrow> length m = card (dom (bt_get m))"
  by (metis bt_get_def bt_wf_distinct distinct_card dom_map_of_conv_image_fst length_map
      list.set_map ext)

lemma bt_fold_wf: "bt_wf m \<Longrightarrow> bt_wf (foldl (\<lambda>m (k, v). bt_insert k v m) m es)"
  by (induction es arbitrary: m) auto

lemma bt_from_list_wf [simp]: "bt_wf (bt_from_list es)"
  by (simp add: bt_from_list_def bt_fold_wf)

lemma bt_fold_get:
  "bt_get (foldl (\<lambda>m (k, v). bt_insert k v m) m es) = bt_get m ++ map_of (rev es)"
  by (induction es arbitrary: m) (auto simp: fun_eq_iff map_add_def split: option.splits)

lemma bt_from_list_get: "bt_get (bt_from_list es) = map_of (rev es)"
  by (simp add: bt_from_list_def bt_fold_get)

text \<open>\<open>BTreeMap::remove\<close>.\<close>

definition bt_remove :: "'k \<Rightarrow> ('k, 'v) btree_map \<Rightarrow> ('k, 'v) btree_map" where
  "bt_remove k m = filter (\<lambda>e. fst e \<noteq> k) m"

lemma bt_get_remove [simp]: "bt_get (bt_remove k m) = (bt_get m)(k := None)"
  unfolding bt_get_def bt_remove_def by (induction m) (auto simp: fun_eq_iff)

lemma bt_wf_remove [simp]: "bt_wf m \<Longrightarrow> bt_wf (bt_remove k m)"
  unfolding bt_wf_def bt_remove_def by (simp add: sorted_wrt_map sorted_wrt_filter)

lemma bt_remove_keys: "set (bt_keys (bt_remove k m)) = set (bt_keys m) - {k}"
  by (auto simp: bt_keys_def bt_remove_def)

section \<open>Counting\<close>

text \<open>Two subsets that together outnumber their universe share a member.\<close>

lemma overlap_of_counts:
  assumes "finite U" "A \<subseteq> U" "B \<subseteq> U" "card U < card A + card B"
  obtains x where "x \<in> A" "x \<in> B"
proof -
  have "A \<inter> B \<noteq> {}"
  proof
    assume "A \<inter> B = {}"
    then have "card (A \<union> B) = card A + card B"
      using assms(1-3) by (intro card_Un_disjoint) (auto intro: finite_subset)
    with assms card_mono [of U "A \<union> B"] show False by simp
  qed
  then show ?thesis using that by blast
qed

end
