(* ===== verification/Interfaces.thy ===== *)
theory Interfaces
  imports Collections "HOL-Library.Option_ord"
begin

text \<open>
  The contracts between components, as locales. Each is interpreted, in the theory of the
  component that provides it, on that component's own operations; the client lemmas proved here
  are then available there.

    \<^item> \<open>quorum_rule\<close>: a threshold such that any two sets of voters reaching it meet;
    \<^item> \<open>monotone_register\<close>: a write that either fails or never lowers the level held;
    \<^item> \<open>exclusive_register\<close>: moreover one level never holds two values;
    \<^item> \<open>invariant_machine\<close>: an operation set under which an invariant is stable;
    \<^item> \<open>fenced_machine\<close>: moreover an owner can change only when the fencing token grows.
\<close>

section \<open>Majorities\<close>

locale quorum_rule =
  fixes threshold :: "nat \<Rightarrow> nat"
  assumes majority: "0 < n \<Longrightarrow> n < 2 * threshold n"
    and attainable: "threshold n \<le> n"
begin

lemma quorums_meet:
  assumes "finite U" "U \<noteq> {}" "A \<subseteq> U" "B \<subseteq> U"
    and "threshold (card U) \<le> card A" "threshold (card U) \<le> card B"
  obtains p where "p \<in> A" "p \<in> B"
proof -
  have "card U < card A + card B"
    using majority [of "card U"] assms by (simp add: card_gt_0_iff)
  with assms(1,3,4) show ?thesis using that by (rule overlap_of_counts)
qed

lemma unanimous_is_quorum:
  "finite U \<Longrightarrow> threshold (card U) \<le> card U"
  by (rule attainable)

end

section \<open>Registers\<close>

locale monotone_register =
  fixes upd :: "'s \<Rightarrow> 'm \<Rightarrow> ('e, 's) result"
    and level :: "'s \<Rightarrow> 'g::linorder option"
  assumes upd_mono: "upd s m = Inr s' \<Longrightarrow> level s \<le> level s'"
begin

text \<open>A sequence of attempted writes: a rejected one leaves the register as it was.\<close>

definition attempt :: "'s \<Rightarrow> 'm \<Rightarrow> 's" where
  "attempt s m = (case upd s m of Inl _ \<Rightarrow> s | Inr s' \<Rightarrow> s')"

definition attempts :: "'s \<Rightarrow> 'm list \<Rightarrow> 's" where
  "attempts s ms = foldl attempt s ms"

lemma attempt_mono: "level s \<le> level (attempt s m)"
  by (auto simp: attempt_def upd_mono split: sum.splits)

lemma attempts_mono: "level s \<le> level (attempts s ms)"
  unfolding attempts_def
  by (induction ms arbitrary: s) (auto intro: order_trans [OF attempt_mono])

end

locale exclusive_register = monotone_register upd level
  for upd :: "'s \<Rightarrow> 'm \<Rightarrow> ('e, 's) result" and level :: "'s \<Rightarrow> 'g::linorder option" +
  fixes val :: "'s \<Rightarrow> 'v"
  assumes upd_agree:
    "upd s m = Inr s' \<Longrightarrow> level s = Some g \<Longrightarrow> level s' = Some g \<Longrightarrow> val s' = val s"
begin

lemma attempt_agree: "level s = Some g \<Longrightarrow> level (attempt s m) = Some g \<Longrightarrow> val (attempt s m) = val s"
  by (auto simp: attempt_def split: sum.splits dest: upd_agree)

lemma attempts_agree:
  assumes "level s = Some g" "level (attempts s ms) = Some g"
  shows "val (attempts s ms) = val s"
  using assms
proof (induction ms arbitrary: s)
  case (Cons m ms)
  from Cons.prems(1) have "Some g \<le> level (attempt s m)"
    using attempt_mono [of s m] by simp
  moreover from Cons.prems(2) have "level (attempt s m) \<le> Some g"
    using attempts_mono [of "attempt s m" ms] by (simp add: attempts_def)
  ultimately have "level (attempt s m) = Some g" by simp
  with Cons show ?case
    by (simp add: attempts_def attempt_agree)
qed (simp add: attempts_def)

end

section \<open>State machines\<close>

locale invariant_machine =
  fixes exec :: "'s \<Rightarrow> 'op \<Rightarrow> 's"
    and inv :: "'s \<Rightarrow> bool"
  assumes exec_inv: "inv s \<Longrightarrow> inv (exec s op)"
begin

definition run :: "'s \<Rightarrow> 'op list \<Rightarrow> 's" where
  "run s ops = foldl exec s ops"

lemma run_Nil [simp]: "run s [] = s"
  by (simp add: run_def)

lemma run_Cons [simp]: "run s (op # ops) = run (exec s op) ops"
  by (simp add: run_def)

lemma run_append: "run s (ops @ ops') = run (run s ops) ops'"
  by (simp add: run_def)

lemma run_inv: "inv s \<Longrightarrow> inv (run s ops)"
  by (induction ops arbitrary: s) (auto intro: exec_inv)

end

locale fenced_machine = invariant_machine exec inv
  for exec :: "'s \<Rightarrow> 'op \<Rightarrow> 's" and inv :: "'s \<Rightarrow> bool" +
  fixes token :: "'s \<Rightarrow> 'g::linorder"
    and owner :: "'s \<Rightarrow> 'p option"
  assumes token_mono: "inv s \<Longrightarrow> token s \<le> token (exec s op)"
    and owner_fenced:
      "inv s \<Longrightarrow> token (exec s op) = token s \<Longrightarrow> owner (exec s op) = None \<or> owner (exec s op) = owner s"
begin

lemma run_token_mono: "inv s \<Longrightarrow> token s \<le> token (run s ops)"
  by (induction ops arbitrary: s) (auto intro: order_trans token_mono exec_inv)

lemma run_owner_fenced:
  assumes "inv s" "token (run s ops) = token s"
  shows "owner (run s ops) = None \<or> owner (run s ops) = owner s"
  using assms
proof (induction ops arbitrary: s)
  case (Cons op ops)
  have i: "inv (exec s op)" using Cons.prems(1) by (rule exec_inv)
  have "token s \<le> token (exec s op)" using Cons.prems(1) by (rule token_mono)
  moreover have "token (exec s op) \<le> token s"
    using run_token_mono [OF i, of ops] Cons.prems(2) by simp
  ultimately have t: "token (exec s op) = token s" by simp
  from Cons.IH [OF i] Cons.prems(2) t
  have "owner (run (exec s op) ops) = None \<or> owner (run (exec s op) ops) = owner (exec s op)"
    by simp
  with owner_fenced [OF Cons.prems(1) t] show ?case by auto
qed simp

lemma one_owner_per_token:
  assumes "inv s" "owner (run s ops) = Some p" "owner (run s (ops @ ops')) = Some q"
    and "token (run s (ops @ ops')) = token (run s ops)"
  shows "p = q"
  using run_owner_fenced [OF run_inv [OF assms(1)], of ops ops'] assms(2-)
  by (simp add: run_append)

end

end
