(* ===== verification/Wire.thy ===== *)
theory Wire
  imports Interfaces
begin

text \<open>
  The serialisation layer under every record of \<open>swarm-protocol\<close>.

  Hashes, peer ids, world ids and keys are 32-byte arrays in the code; here they are 256-bit words,
  the bytes read most significant first, so the derived lexicographic order of the arrays is
  the order of the words.  The third-party crates (\<open>postcard\<close>, \<open>blake3\<close>,
  \<open>ed25519-dalek\<close>, \<open>hex\<close>) are the fields of a record \<open>host\<close> that every
  definition using them takes as an argument; what the code relies on is stated by the predicates at
  the end of the theory, which are hypotheses of the theorems that need them.

  Values handed to \<open>postcard\<close> are elements of \<open>sval\<close>, the part of the serde data model
  the records use.  Structs and tuples have the same wire form and are both \<open>STup\<close>; a
  fieldless enum is its variant index.  \<open>sty\<close> is the schema of a Rust type.
\<close>

section \<open>Identifiers\<close>

datatype Hash32 = Hash32 (hash_bits: bytes32)
datatype PeerId = PeerId (peer_bits: bytes32)
datatype WorldId = WorldId (world_bits: bytes32)

instantiation Hash32 :: linorder
begin

definition less_eq_Hash32 :: "Hash32 \<Rightarrow> Hash32 \<Rightarrow> bool" where
  "less_eq_Hash32 a b \<longleftrightarrow> hash_bits a \<le> hash_bits b"

definition less_Hash32 :: "Hash32 \<Rightarrow> Hash32 \<Rightarrow> bool" where
  "less_Hash32 a b \<longleftrightarrow> hash_bits a < hash_bits b"

instance
  by standard (auto simp: less_eq_Hash32_def less_Hash32_def Hash32.expand)

end

instantiation PeerId :: linorder
begin

definition less_eq_PeerId :: "PeerId \<Rightarrow> PeerId \<Rightarrow> bool" where
  "less_eq_PeerId a b \<longleftrightarrow> peer_bits a \<le> peer_bits b"

definition less_PeerId :: "PeerId \<Rightarrow> PeerId \<Rightarrow> bool" where
  "less_PeerId a b \<longleftrightarrow> peer_bits a < peer_bits b"

instance
  by standard (auto simp: less_eq_PeerId_def less_PeerId_def PeerId.expand)

end

instantiation WorldId :: linorder
begin

definition less_eq_WorldId :: "WorldId \<Rightarrow> WorldId \<Rightarrow> bool" where
  "less_eq_WorldId a b \<longleftrightarrow> world_bits a \<le> world_bits b"

definition less_WorldId :: "WorldId \<Rightarrow> WorldId \<Rightarrow> bool" where
  "less_WorldId a b \<longleftrightarrow> world_bits a < world_bits b"

instance
  by standard (auto simp: less_eq_WorldId_def less_WorldId_def WorldId.expand)

end

lemma PeerId_order [simp]:
  "PeerId a \<le> PeerId b \<longleftrightarrow> a \<le> b" "PeerId a < PeerId b \<longleftrightarrow> a < b"
  by (simp_all add: less_eq_PeerId_def less_PeerId_def)

text \<open>The 32 bytes of a word, most significant first, and back (\<open>Vec::try_into\<close> fails on
  any other length).\<close>

definition be_bytes :: "bytes32 \<Rightarrow> bytes" where
  "be_bytes w = map (\<lambda>i. ucast (drop_bit (8 * i) w)) (rev [0..<32])"

definition of_be_bytes :: "bytes \<Rightarrow> bytes32 option" where
  "of_be_bytes bs = (if length bs = 32 then Some (word_rcat bs) else None)"

lemma horner_sum_map: "horner_sum f a (map g xs) = horner_sum (\<lambda>x. f (g x)) a xs"
  by (induction xs) simp_all

lemma horner_sum_bytes:
  fixes a :: int
  shows "horner_sum (\<lambda>i. take_bit 8 (drop_bit (8 * i) a)) 256 [0..<n] = take_bit (8 * n) a"
proof (induction n arbitrary: a)
  case (Suc n)
  have "horner_sum (\<lambda>i. take_bit 8 (drop_bit (8 * i) a)) 256 [0..<Suc n] =
      take_bit 8 a + 256 * horner_sum (\<lambda>i. take_bit 8 (drop_bit (8 * i) (drop_bit 8 a))) 256 [0..<n]"
    by (subst upt_conv_Cons, simp, subst map_Suc_upt [symmetric])
      (simp add: horner_sum_map algebra_simps drop_bit_drop_bit del: upt_Suc)
  also have "\<dots> = take_bit 8 a + 256 * take_bit (8 * n) (drop_bit 8 a)"
    by (simp only: Suc.IH)
  also have "\<dots> = take_bit (8 * Suc n) a"
    by (simp add: take_bit_eq_mod drop_bit_eq_div power_add zmod_zmult2_eq)
  finally show ?case .
qed simp

lemma of_be_bytes_be_bytes [simp]: "of_be_bytes (be_bytes w) = Some w"
proof -
  have bound: "take_bit 256 (uint w) = uint w"
    using uint_lt2p [of w] by (simp add: take_bit_int_eq_self)
  have "horner_sum uint (2 ^ LENGTH(8)) (rev (be_bytes w)) =
      horner_sum (\<lambda>i. take_bit 8 (drop_bit (8 * i) (uint w))) 256 [0..<32]"
    by (simp add: be_bytes_def rev_map [symmetric] horner_sum_map unsigned_ucast_eq
        unsigned_drop_bit_eq bound o_def)
  also have "\<dots> = uint w"
    using horner_sum_bytes [of "uint w" 32] by (simp add: bound)
  finally have "word_rcat (be_bytes w) = w"
    by (simp add: word_rcat_def)
  then show ?thesis
    by (simp add: of_be_bytes_def) (simp add: be_bytes_def)
qed

lemma length_be_bytes [simp]: "length (be_bytes w) = 32"
  by (simp add: be_bytes_def)

lemma be_bytes_inj [simp]: "be_bytes v = be_bytes w \<longleftrightarrow> v = w"
  by (metis of_be_bytes_be_bytes option.inject)

section \<open>The serde data model\<close>

datatype sval =
    SBool bool
  | SU16 u16
  | SU64 u64
  | SArr32 bytes32
  | SBytes bytes
  | SStr string
  | SNone
  | SSome sval
  | SSeq "sval list"
  | STup "sval list"
  | SEnum nat

datatype sty =
    TBool
  | TU16
  | TU64
  | TArr32
  | TBytes
  | TStr
  | TOpt sty
  | TSeq sty
  | TTup "sty list"
  | TEnum nat

fun has_ty :: "sval \<Rightarrow> sty \<Rightarrow> bool"
  and has_tys :: "sval list \<Rightarrow> sty list \<Rightarrow> bool"
  and all_ty :: "sval list \<Rightarrow> sty \<Rightarrow> bool" where
  "has_ty (SBool b) t = (t = TBool)"
| "has_ty (SU16 n) t = (t = TU16)"
| "has_ty (SU64 n) t = (t = TU64)"
| "has_ty (SArr32 w) t = (t = TArr32)"
| "has_ty (SBytes b) t = (t = TBytes)"
| "has_ty (SStr s) t = (t = TStr)"
| "has_ty SNone t = (case t of TOpt u \<Rightarrow> True | _ \<Rightarrow> False)"
| "has_ty (SSome v) t = (case t of TOpt u \<Rightarrow> has_ty v u | _ \<Rightarrow> False)"
| "has_ty (SSeq vs) t = (case t of TSeq u \<Rightarrow> all_ty vs u | _ \<Rightarrow> False)"
| "has_ty (STup vs) t = (case t of TTup ts \<Rightarrow> has_tys vs ts | _ \<Rightarrow> False)"
| "has_ty (SEnum i) t = (case t of TEnum n \<Rightarrow> i < n | _ \<Rightarrow> False)"
| "has_tys [] ts = (ts = [])"
| "has_tys (v # vs) ts = (case ts of [] \<Rightarrow> False | t # us \<Rightarrow> has_ty v t \<and> has_tys vs us)"
| "all_ty [] t = True"
| "all_ty (v # vs) t = (has_ty v t \<and> all_ty vs t)"

lemma all_ty_iff [simp]: "all_ty vs t \<longleftrightarrow> (\<forall>v\<in>set vs. has_ty v t)"
  by (induction vs) auto

fun sopt :: "('a \<Rightarrow> sval) \<Rightarrow> 'a option \<Rightarrow> sval" where
  "sopt f None = SNone"
| "sopt f (Some x) = SSome (f x)"

definition sseq :: "('a \<Rightarrow> sval) \<Rightarrow> 'a list \<Rightarrow> sval" where
  "sseq f xs = SSeq (map f xs)"

definition sHash :: "Hash32 \<Rightarrow> sval" where "sHash h = SArr32 (hash_bits h)"
definition sPeer :: "PeerId \<Rightarrow> sval" where "sPeer p = SArr32 (peer_bits p)"
definition sWorld :: "WorldId \<Rightarrow> sval" where "sWorld w = SArr32 (world_bits w)"

lemma sopt_ty [simp]: "(\<And>x. has_ty (f x) t) \<Longrightarrow> has_ty (sopt f x) (TOpt t)"
  by (cases x) auto

lemma sseq_ty [simp]: "(\<And>x. has_ty (f x) t) \<Longrightarrow> has_ty (sseq f xs) (TSeq t)"
  by (auto simp: sseq_def)

lemma sid_ty [simp]:
  "has_ty (sHash h) TArr32" "has_ty (sPeer p) TArr32" "has_ty (sWorld w) TArr32"
  by (simp_all add: sHash_def sPeer_def sWorld_def)

lemma sid_inj [simp]:
  "sHash h = sHash h' \<longleftrightarrow> h = h'" "sPeer p = sPeer p' \<longleftrightarrow> p = p'" "sWorld w = sWorld w' \<longleftrightarrow> w = w'"
  by (auto simp: sHash_def sPeer_def sWorld_def intro: Hash32.expand PeerId.expand WorldId.expand)

lemma sopt_inj [simp]: "(\<And>x y. f x = f y \<longleftrightarrow> x = y) \<Longrightarrow> sopt f x = sopt f y \<longleftrightarrow> x = y"
  by (cases x; cases y) auto

lemma sseq_inj [simp]: "(\<And>x y. f x = f y \<longleftrightarrow> x = y) \<Longrightarrow> sseq f xs = sseq f ys \<longleftrightarrow> xs = ys"
  by (auto simp: sseq_def inj_on_def intro: map_injective)

section \<open>Third-party primitives\<close>

record host =
  postcard_to_allocvec :: "sval \<Rightarrow> bytes option"
  blake3 :: "bytes \<Rightarrow> bytes32"
  ed25519_public :: "bytes32 \<Rightarrow> bytes32"
  ed25519_sign :: "bytes32 \<Rightarrow> bytes \<Rightarrow> bytes"
  ed25519_key_ok :: "bytes32 \<Rightarrow> bool"
  ed25519_sig_ok :: "bytes \<Rightarrow> bool"
  ed25519_verify :: "bytes32 \<Rightarrow> bytes \<Rightarrow> bytes \<Rightarrow> bool"
  hex_encode :: "bytes \<Rightarrow> string"
  hex_decode :: "string \<Rightarrow> bytes option"

text \<open>\<open>postcard::from_bytes\<close> inverts \<open>postcard::to_allocvec\<close> at every type, so two values of
  one type never share an encoding.\<close>

definition postcard_faithful :: "host \<Rightarrow> bool" where
  "postcard_faithful H \<longleftrightarrow> (\<forall>t x y b. has_ty x t \<and> has_ty y t
     \<and> postcard_to_allocvec H x = Some b \<and> postcard_to_allocvec H y = Some b \<longrightarrow> x = y)"

text \<open>No two of the given messages collide under \<open>blake3\<close>.\<close>

definition collision_free :: "host \<Rightarrow> bytes set \<Rightarrow> bool" where
  "collision_free H M \<longleftrightarrow> inj_on (blake3 H) M"

text \<open>A signature made with a secret key is well formed and verifies under its public key.\<close>

definition ed25519_correct :: "host \<Rightarrow> bool" where
  "ed25519_correct H \<longleftrightarrow> (\<forall>sk m. ed25519_key_ok H (ed25519_public H sk)
     \<and> ed25519_sig_ok H (ed25519_sign H sk m)
     \<and> ed25519_verify H (ed25519_public H sk) m (ed25519_sign H sk m))"

text \<open>\<open>hex::encode\<close> writes lower-case hexadecimal digits and \<open>hex::decode\<close> inverts it.\<close>

definition hex_faithful :: "host \<Rightarrow> bool" where
  "hex_faithful H \<longleftrightarrow> (\<forall>b. hex_decode H (hex_encode H b) = Some b
    \<and> set (hex_encode H b) \<subseteq> set ''0123456789abcdef'')"

lemma postcard_faithfulD:
  "postcard_faithful H \<Longrightarrow> has_ty x t \<Longrightarrow> has_ty y t \<Longrightarrow> postcard_to_allocvec H x = Some b \<Longrightarrow>
    postcard_to_allocvec H y = Some b \<Longrightarrow> x = y"
  unfolding postcard_faithful_def by blast

lemma collision_freeD:
  "collision_free H M \<Longrightarrow> blake3 H a = blake3 H b \<Longrightarrow> a \<in> M \<Longrightarrow> b \<in> M \<Longrightarrow> a = b"
  by (simp add: collision_free_def inj_on_eq_iff)

section \<open>Canonical bytes and hashes\<close>

datatype ProtocolError = InvalidIdentifier string string | Encode

definition PROTOCOL_VERSION :: u16 where "PROTOCOL_VERSION = 1"
definition STORAGE_SCHEMA_VERSION :: u16 where "STORAGE_SCHEMA_VERSION = 1"

text \<open>A byte-string literal \<open>b"...\0"\<close>.\<close>

definition domain :: "string \<Rightarrow> bytes" where
  "domain s = map of_char s @ [0]"

definition to_allocvec :: "host \<Rightarrow> sval \<Rightarrow> (ProtocolError, bytes) result" where
  "to_allocvec H v = ok_or (postcard_to_allocvec H v) Encode"

definition from_domain_bytes :: "host \<Rightarrow> bytes \<Rightarrow> bytes \<Rightarrow> Hash32" where
  "from_domain_bytes H d b = Hash32 (blake3 H (d @ b))"

text \<open>The body every \<open>signing_bytes\<close> ends with: encode, then prefix the domain separator.\<close>

definition frame :: "host \<Rightarrow> bytes \<Rightarrow> sval \<Rightarrow> (ProtocolError, bytes) result" where
  "frame H d v = and_then (to_allocvec H v) (\<lambda>encoded. Ok (d @ encoded))"

lemma to_allocvec_eq_Ok [simp]: "to_allocvec H v = Inr b \<longleftrightarrow> postcard_to_allocvec H v = Some b"
  by (simp add: to_allocvec_def)

lemma frame_eq_Ok:
  "frame H d v = Inr b \<longleftrightarrow> (\<exists>e. postcard_to_allocvec H v = Some e \<and> b = d @ e)"
  by (auto simp: frame_def)

lemma frame_inj:
  assumes "postcard_faithful H" "has_ty x t" "has_ty y t"
    and "frame H d x = Inr b" "frame H d y = Inr b"
  shows "x = y"
  using assms by (auto simp: frame_eq_Ok dest: postcard_faithfulD)

text \<open>Domain separators end in their only NUL, so none is a proper prefix of another.\<close>

definition nul_free :: "string \<Rightarrow> bool" where
  "nul_free s \<longleftrightarrow> list_all (\<lambda>c. c \<noteq> CHR 0x00) s"

lemma of_char_less_256: "(of_char c :: nat) < 256"
proof -
  have "(of_char c :: nat) \<in> range of_char" by blast
  then show ?thesis by (simp add: range_nat_of_char)
qed

lemma of_char_byte_inj: "(of_char c :: u8) = of_char d \<longleftrightarrow> c = d"
proof
  assume "(of_char c :: u8) = of_char d"
  then have "unat (of_nat (of_char c) :: u8) = unat (of_nat (of_char d) :: u8)"
    by (simp only: of_nat_of_char)
  then have "(of_char c :: nat) = of_char d"
    by (simp add: unat_of_nat of_char_less_256)
  then show "c = d" by (simp only: of_char_eq_iff)
qed simp

lemma of_char_zero_iff: "(of_char c :: u8) = 0 \<longleftrightarrow> c = CHR 0x00"
  using of_char_byte_inj [of c "CHR 0x00"] by simp

lemma domain_prefix:
  assumes "nul_free s" "nul_free t" "domain s @ x = domain t @ y"
  shows "s = t \<and> x = y"
  using assms
proof (induction s arbitrary: t)
  case Nil
  then show ?case
    by (cases t) (auto simp: domain_def nul_free_def of_char_zero_iff dest: sym)
next
  case (Cons c s)
  then obtain d t' where t: "t = d # t'"
    by (cases t) (auto simp: domain_def nul_free_def of_char_zero_iff)
  have "(of_char c :: u8) = of_char d" using Cons.prems t by (simp add: domain_def)
  then have "c = d" by (simp only: of_char_byte_inj)
  with Cons t show ?case by (auto simp: domain_def nul_free_def)
qed

end
