(* ===== verification/ReferenceHost.thy ===== *)
theory ReferenceHost
  imports Wire
begin

text \<open>
  A concrete instance of the third-party primitives, used to show that the hypotheses about them can
  hold together.  The encoding is a prefix-free binary form of the serde data model, the hexadecimal
  codec is the usual one, and a signature is the key followed by the message.  The hash is a
  parameter: a witness chooses one that separates the few messages it speaks of.
\<close>

section \<open>A faithful encoding\<close>

definition bit_bytes :: "'a::len word \<Rightarrow> bytes" where
  "bit_bytes w = map (\<lambda>i. if bit w i then 1 else 0) [0..<LENGTH('a)]"

fun marked :: "('a \<Rightarrow> u8) \<Rightarrow> 'a list \<Rightarrow> bytes" where
  "marked f [] = [0]"
| "marked f (x # xs) = 1 # f x # marked f xs"

fun enc :: "sval \<Rightarrow> bytes" and encs :: "sval list \<Rightarrow> bytes" and encq :: "sval list \<Rightarrow> bytes" where
  "enc (SBool b) = [if b then 1 else 0]"
| "enc (SU16 n) = bit_bytes n"
| "enc (SU64 n) = bit_bytes n"
| "enc (SArr32 w) = be_bytes w"
| "enc (SBytes bs) = marked (\<lambda>b. b) bs"
| "enc (SStr s) = marked of_char s"
| "enc SNone = [0]"
| "enc (SSome v) = 1 # enc v"
| "enc (SSeq vs) = encq vs"
| "enc (STup vs) = encs vs"
| "enc (SEnum i) = replicate i 1 @ [0]"
| "encs [] = []"
| "encs (v # vs) = enc v @ encs vs"
| "encq [] = [0]"
| "encq (v # vs) = 1 # enc v @ encq vs"

lemma bit_bytes_inj: "bit_bytes v @ r = bit_bytes w @ s \<Longrightarrow> v = w \<and> r = s"
  for v w :: "'a::len word"
proof -
  assume "bit_bytes v @ r = bit_bytes w @ s"
  moreover have "length (bit_bytes v) = length (bit_bytes w)" by (simp add: bit_bytes_def)
  ultimately have eq: "bit_bytes v = bit_bytes w" "r = s" by auto
  from eq(1) have "bit v i = bit w i" if "i < LENGTH('a)" for i
    using that by (auto simp: bit_bytes_def split: if_splits)
  then have "v = w" by (rule bit_word_eqI)
  with eq(2) show ?thesis by simp
qed

lemma marked_inj: "(\<And>a b. f a = f b \<longleftrightarrow> a = b) \<Longrightarrow> marked f xs @ r = marked f ys @ s \<Longrightarrow> xs = ys \<and> r = s"
proof (induction xs arbitrary: ys)
  case Nil
  then show ?case by (cases ys) auto
next
  case (Cons x xs)
  then show ?case by (cases ys) auto
qed

lemma replicate_inj: "replicate i (1::u8) @ 0 # r = replicate j 1 @ 0 # s \<Longrightarrow> i = j \<and> r = s"
proof (induction i arbitrary: j)
  case 0
  then show ?case by (cases j) auto
next
  case (Suc i)
  then show ?case by (cases j) auto
qed

lemma typed_opt: "has_ty y (TOpt u) \<Longrightarrow> y = SNone \<or> (\<exists>w. y = SSome w \<and> has_ty w u)"
  by (cases y) simp_all

lemma typed_seq: "has_ty y (TSeq u) \<Longrightarrow> \<exists>ws. y = SSeq ws \<and> all_ty ws u"
  by (cases y) simp_all

lemma typed_tup: "has_ty y (TTup ts) \<Longrightarrow> \<exists>ws. y = STup ws \<and> has_tys ws ts"
  by (cases y) simp_all

lemma typed_cons: "has_tys ws (t # ts) \<Longrightarrow> \<exists>w ws'. ws = w # ws' \<and> has_ty w t \<and> has_tys ws' ts"
  by (cases ws) simp_all

lemma enc_prefix_free:
  "has_ty x t \<Longrightarrow> has_ty y t \<Longrightarrow> enc x @ r = enc y @ s \<Longrightarrow> x = y \<and> r = s"
  "has_tys vs ts \<Longrightarrow> has_tys ws ts \<Longrightarrow> encs vs @ r = encs ws @ s \<Longrightarrow> vs = ws \<and> r = s"
  "all_ty us u \<Longrightarrow> all_ty zs u \<Longrightarrow> encq us @ r = encq zs @ s \<Longrightarrow> us = zs \<and> r = s"
proof (induction x t and vs ts and us u arbitrary: y r s and ws r s and zs r s
    rule: has_ty_has_tys_all_ty.induct)
  case (1 b t)
  then show ?case by (cases y) (auto split: sty.splits if_splits)
next
  case (2 n t)
  then show ?case by (cases y) (auto dest: bit_bytes_inj split: sty.splits)
next
  case (3 n t)
  then show ?case by (cases y) (auto dest: bit_bytes_inj split: sty.splits)
next
  case (4 w t)
  then show ?case by (cases y) (auto split: sty.splits)
next
  case (5 b t)
  then show ?case by (cases y) (auto dest: marked_inj [rotated] split: sty.splits)
next
  case (6 str t)
  then show ?case by (cases y) (auto dest: marked_inj [rotated] simp: of_char_byte_inj split: sty.splits)
next
  case (7 t)
  then show ?case by (cases y) (auto split: sty.splits)
next
  case (8 v t)
  from "8.prems"(1) obtain u where t: "t = TOpt u" "has_ty v u" by (cases t) simp_all
  have "y \<noteq> SNone" using "8.prems"(3) by auto
  with "8.prems"(2) t(1) typed_opt obtain w where w: "y = SSome w" "has_ty w u" by blast
  from "8.prems"(3) w(1) have "enc v @ r = enc w @ s" by simp
  with "8.IH" [OF t(1,2) w(2)] w(1) show ?case by blast
next
  case (9 vs t)
  from "9.prems"(1) obtain u where t: "t = TSeq u" "all_ty vs u"
    by (cases t) (simp_all del: all_ty_iff)
  with "9.prems"(2) typed_seq obtain ws where w: "y = SSeq ws" "all_ty ws u" by blast
  from "9.prems"(3) w(1) have "encq vs @ r = encq ws @ s" by simp
  with "9.IH" [OF t(1,2) w(2)] w(1) show ?case by blast
next
  case (10 vs t)
  from "10.prems"(1) obtain ts where t: "t = TTup ts" "has_tys vs ts" by (cases t) simp_all
  with "10.prems"(2) typed_tup obtain ws where w: "y = STup ws" "has_tys ws ts" by blast
  from "10.prems"(3) w(1) have "encs vs @ r = encs ws @ s" by simp
  with "10.IH" [OF t(1,2) w(2)] w(1) show ?case by blast
next
  case (11 i t)
  then show ?case by (cases y) (auto dest: replicate_inj split: sty.splits)
next
  case (12 ts)
  then show ?case by (cases ws) auto
next
  case (13 v vs ts)
  from "13.prems"(1) obtain t us where t: "ts = t # us" "has_ty v t" "has_tys vs us"
    by (cases ts) simp_all
  with "13.prems"(2) typed_cons obtain w ws' where w: "ws = w # ws'" "has_ty w t" "has_tys ws' us"
    by blast
  from "13.prems"(3) w(1) have "enc v @ encs vs @ r = enc w @ encs ws' @ s" by simp
  with "13.IH"(1) [OF t(1,2) w(2)] have "v = w" "encs vs @ r = encs ws' @ s" by blast+
  with "13.IH"(2) [OF t(1,3) w(3)] w(1) show ?case by blast
next
  case (14 t)
  then show ?case by (cases zs) (simp_all del: all_ty_iff)
next
  case (15 v vs t)
  from "15.prems"(2,3) obtain w ws where w: "zs = w # ws" "has_ty w t" "all_ty ws t"
    by (cases zs) (simp_all del: all_ty_iff)
  from "15.prems"(1) have ty: "has_ty v t" "all_ty vs t" by (simp_all del: all_ty_iff)
  from "15.prems"(3) w(1) have "enc v @ encq vs @ r = enc w @ encq ws @ s" by simp
  with "15.IH"(1) [OF ty(1) w(2)] have "v = w" "encq vs @ r = encq ws @ s" by blast+
  with "15.IH"(2) [OF ty(2) w(3)] w(1) show ?case by blast
qed

section \<open>Hexadecimal text\<close>

definition hex_digit :: "nat \<Rightarrow> char" where
  "hex_digit n = ''0123456789abcdef'' ! n"

definition hex_value :: "char \<Rightarrow> nat option" where
  "hex_value c = find (\<lambda>n. hex_digit n = c) [0..<16]"

definition ref_hex_encode :: "bytes \<Rightarrow> string" where
  "ref_hex_encode bs = concat (map (\<lambda>b. [hex_digit (unat b div 16), hex_digit (unat b mod 16)]) bs)"

fun ref_hex_decode :: "string \<Rightarrow> bytes option" where
  "ref_hex_decode [] = Some []"
| "ref_hex_decode [c] = None"
| "ref_hex_decode (c # d # s) =
    (case (hex_value c, hex_value d, ref_hex_decode s) of
       (Some h, Some l, Some bs) \<Rightarrow> Some (word_of_nat (16 * h + l) # bs)
     | _ \<Rightarrow> None)"

lemma hex_digit_round_trip: "n < 16 \<Longrightarrow> hex_value (hex_digit n) = Some n"
proof -
  have "\<forall>n\<in>set [0..<16]. hex_value (hex_digit n) = Some n"
    by code_simp
  then show "n < 16 \<Longrightarrow> hex_value (hex_digit n) = Some n" by simp
qed

lemma byte_nibbles: "unat (b :: u8) div 16 < 16" "unat b mod 16 < 16"
  using unsigned_less [of b, where ?'a = nat] by auto

lemma ref_hex_digits: "set (ref_hex_encode bs) \<subseteq> set ''0123456789abcdef''"
proof -
  have digit: "hex_digit n \<in> set ''0123456789abcdef''" if "n < 16" for n
    unfolding hex_digit_def using that by (intro nth_mem) simp
  have "c \<in> hex_digit ` {..<16}" if "c \<in> set (ref_hex_encode bs)" for c
    using that by (auto simp: ref_hex_encode_def intro!: imageI byte_nibbles)
  with digit show ?thesis by blast
qed

lemma ref_hex_faithful: "ref_hex_decode (ref_hex_encode bs) = Some bs"
proof (induction bs)
  case (Cons b bs)
  then show ?case
    by (simp add: ref_hex_encode_def hex_digit_round_trip byte_nibbles)
qed (simp add: ref_hex_encode_def)

section \<open>The instance\<close>

definition reference_host :: "(bytes \<Rightarrow> bytes32) \<Rightarrow> host" where
  "reference_host h = \<lparr>postcard_to_allocvec = \<lambda>v. Some (enc v), blake3 = h,
    ed25519_public = \<lambda>sk. sk, ed25519_sign = \<lambda>sk m. be_bytes sk @ m,
    ed25519_key_ok = \<lambda>k. True, ed25519_sig_ok = \<lambda>s. True,
    ed25519_verify = \<lambda>k m s. s = be_bytes k @ m,
    hex_encode = ref_hex_encode, hex_decode = ref_hex_decode\<rparr>"

lemma reference_host_simps [simp]:
  "postcard_to_allocvec (reference_host h) v = Some (enc v)"
  "blake3 (reference_host h) = h"
  "ed25519_public (reference_host h) sk = sk"
  "ed25519_sign (reference_host h) sk m = be_bytes sk @ m"
  "ed25519_key_ok (reference_host h) k"
  "ed25519_sig_ok (reference_host h) s"
  "ed25519_verify (reference_host h) k m s \<longleftrightarrow> s = be_bytes k @ m"
  "hex_encode (reference_host h) = ref_hex_encode"
  "hex_decode (reference_host h) = ref_hex_decode"
  by (simp_all add: reference_host_def)

lemma reference_host_faithful [simp]: "postcard_faithful (reference_host h)"
  unfolding postcard_faithful_def using enc_prefix_free(1) [where r = "[]" and s = "[]"] by auto

lemma reference_host_signs [simp]: "ed25519_correct (reference_host h)"
  by (simp add: ed25519_correct_def)

lemma reference_host_hex [simp]: "hex_faithful (reference_host h)"
  using ref_hex_digits by (simp add: hex_faithful_def ref_hex_faithful)

end
