(* ===== verification/ProtocolV1.thy ===== *)
theory ProtocolV1
  imports ReferenceHost
begin

text \<open>
  The protocol records of \<open>crates/swarm-protocol/src/lib.rs\<close> and \<open>root.rs\<close>, each with
  its serialised form, signing bytes and hashes.  Record fields share one name space, so
  every field carries a short prefix for its struct (\<open>er_epoch_number\<close> is
  \<open>EpochRecordV1.epoch_number\<close>).  \<open>X_unsigned\<close> lists the components of the tuple that
  \<open>X::signing_bytes\<close> encodes, which is every field but the signature; \<open>X_sval\<close> is the
  whole record as serde derives it.  The codec lemmas say that a serialised record has the schema of
  its type and determines the record.
\<close>

section \<open>Domain separators\<close>

definition WORLD_GENESIS_DOMAIN :: bytes where "WORLD_GENESIS_DOMAIN = domain ''swarmcraft/world-genesis/v1''"
definition BLOB_HASH_DOMAIN :: bytes where "BLOB_HASH_DOMAIN = domain ''swarmcraft/blob/v1''"
definition SNAPSHOT_STATE_DOMAIN :: bytes where "SNAPSHOT_STATE_DOMAIN = domain ''swarmcraft/snapshot-state/v1''"
definition SNAPSHOT_SIGN_DOMAIN :: bytes where "SNAPSHOT_SIGN_DOMAIN = domain ''swarmcraft/snapshot-sign/v1''"
definition SNAPSHOT_HASH_DOMAIN :: bytes where "SNAPSHOT_HASH_DOMAIN = domain ''swarmcraft/snapshot/v1''"
definition PEER_HELLO_SIGN_DOMAIN :: bytes where "PEER_HELLO_SIGN_DOMAIN = domain ''swarmcraft/peer-hello/v1''"
definition EPOCH_SIGN_DOMAIN :: bytes where "EPOCH_SIGN_DOMAIN = domain ''swarmcraft/epoch/v1''"
definition INVITE_SIGN_DOMAIN :: bytes where "INVITE_SIGN_DOMAIN = domain ''swarmcraft/invite/v1''"
definition MEMBERSHIP_SIGN_DOMAIN :: bytes where "MEMBERSHIP_SIGN_DOMAIN = domain ''swarmcraft/membership/v1''"
definition MEMBERSHIP_HASH_DOMAIN :: bytes where "MEMBERSHIP_HASH_DOMAIN = domain ''swarmcraft/membership-record/v1''"
definition TRANSFER_SIGN_DOMAIN :: bytes where "TRANSFER_SIGN_DOMAIN = domain ''swarmcraft/authority-transfer/v1''"
definition LEASE_SIGN_DOMAIN :: bytes where "LEASE_SIGN_DOMAIN = domain ''swarmcraft/authority-lease-grant/v1''"
definition JOIN_SIGN_DOMAIN :: bytes where "JOIN_SIGN_DOMAIN = domain ''swarmcraft/join-request/v1''"
definition LEAVE_SIGN_DOMAIN :: bytes where "LEAVE_SIGN_DOMAIN = domain ''swarmcraft/leave-request/v1''"
definition SLEEP_SIGN_DOMAIN :: bytes where "SLEEP_SIGN_DOMAIN = domain ''swarmcraft/sleep-record/v1''"

section \<open>Identifiers as text\<close>

definition parse_32 :: "host \<Rightarrow> string \<Rightarrow> string \<Rightarrow> (ProtocolError, bytes32) result" where
  "parse_32 H kind value =
    and_then (ok_or (hex_decode H value) (InvalidIdentifier kind value)) (\<lambda>bytes.
    ok_or (of_be_bytes bytes) (InvalidIdentifier kind value))"

definition strip_prefix :: "string \<Rightarrow> string \<Rightarrow> string option" where
  "strip_prefix pre s = (if take (length pre) s = pre then Some (drop (length pre) s) else None)"

definition Hash32_to_hex :: "host \<Rightarrow> Hash32 \<Rightarrow> string" where
  "Hash32_to_hex H h = hex_encode H (be_bytes (hash_bits h))"

definition Hash32_from_str :: "host \<Rightarrow> string \<Rightarrow> (ProtocolError, Hash32) result" where
  "Hash32_from_str H s = and_then (parse_32 H ''hash'' s) (\<lambda>b. Ok (Hash32 b))"

definition PeerId_to_hex :: "host \<Rightarrow> PeerId \<Rightarrow> string" where
  "PeerId_to_hex H p = hex_encode H (be_bytes (peer_bits p))"

definition PeerId_display :: "host \<Rightarrow> PeerId \<Rightarrow> string" where
  "PeerId_display H p = ''scpeer:'' @ hex_encode H (be_bytes (peer_bits p))"

definition PeerId_from_str :: "host \<Rightarrow> string \<Rightarrow> (ProtocolError, PeerId) result" where
  "PeerId_from_str H value =
    (let raw = (case strip_prefix ''scpeer:'' value of Some raw \<Rightarrow> raw | None \<Rightarrow> value)
     in and_then (parse_32 H ''peer'' raw) (\<lambda>b. Ok (PeerId b)))"

definition WorldId_display :: "host \<Rightarrow> WorldId \<Rightarrow> string" where
  "WorldId_display H w = ''scworld:'' @ hex_encode H (be_bytes (world_bits w))"

definition WorldId_from_str :: "host \<Rightarrow> string \<Rightarrow> (ProtocolError, WorldId) result" where
  "WorldId_from_str H value =
    (let raw = (case strip_prefix ''scworld:'' value of Some raw \<Rightarrow> raw | None \<Rightarrow> value)
     in and_then (parse_32 H ''world'' raw) (\<lambda>b. Ok (WorldId b)))"

lemma parse_32_hex: "hex_faithful H \<Longrightarrow> parse_32 H kind (hex_encode H (be_bytes w)) = Ok w"
  by (simp add: parse_32_def hex_faithful_def)

lemma hex_never_prefixed:
  assumes "hex_faithful H"
  shows "strip_prefix (CHR ''s'' # pre) (hex_encode H b) = None"
proof -
  have "CHR ''s'' \<notin> set (hex_encode H b)"
  proof
    assume "CHR ''s'' \<in> set (hex_encode H b)"
    with assms have "CHR ''s'' \<in> set ''0123456789abcdef''"
      unfolding hex_faithful_def by blast
    then show False by simp
  qed
  then show ?thesis
    by (cases "hex_encode H b") (auto simp: strip_prefix_def)
qed

text \<open>
  Identifiers survive their text form: parsing what \<open>Display\<close> prints gives the identifier
  back, for hashes, peers and worlds, and a peer id is also accepted as bare hexadecimal.
\<close>

theorem identifier_round_trip:
  assumes "hex_faithful H"
  shows "Hash32_from_str H (Hash32_to_hex H h) = Ok h
    \<and> PeerId_from_str H (PeerId_display H p) = Ok p
    \<and> PeerId_from_str H (PeerId_to_hex H p) = Ok p
    \<and> WorldId_from_str H (WorldId_display H w) = Ok w"
  using hex_never_prefixed [OF assms, of "''cpeer:''"]
  by (simp add: Hash32_from_str_def Hash32_to_hex_def PeerId_from_str_def PeerId_display_def
      PeerId_to_hex_def WorldId_from_str_def WorldId_display_def parse_32_hex [OF assms])
    (simp add: strip_prefix_def parse_32_hex [OF assms])

theorem identifier_round_trip_witness:
  "PeerId_from_str (reference_host (\<lambda>_. 0)) (PeerId_display (reference_host (\<lambda>_. 0)) (PeerId 77)) = Ok (PeerId 77)"
  using identifier_round_trip [of "reference_host (\<lambda>_. 0)"] by simp

section \<open>Peer and world identity\<close>

definition peer_id_from_public_key :: "host \<Rightarrow> bytes32 \<Rightarrow> PeerId" where
  "peer_id_from_public_key H key = PeerId (blake3 H (be_bytes key))"

record WorldGenesisV1 =
  gen_protocol_version :: u16
  gen_minecraft_version :: string
  gen_fabric_loader_version :: string
  gen_compatibility_fingerprint :: Hash32
  gen_creation_nonce :: bytes32
  gen_creator_public_key :: bytes32
  gen_initial_membership :: "PeerId list"

definition WorldGenesisV1_sval :: "WorldGenesisV1 \<Rightarrow> sval" where
  "WorldGenesisV1_sval r = STup
    [SU16 (gen_protocol_version r), SStr (gen_minecraft_version r),
     SStr (gen_fabric_loader_version r), sHash (gen_compatibility_fingerprint r),
     SArr32 (gen_creation_nonce r), SArr32 (gen_creator_public_key r),
     sseq sPeer (gen_initial_membership r)]"

definition WorldGenesisV1_ty :: sty where
  "WorldGenesisV1_ty = TTup
    [TU16, TStr, TStr, TArr32, TArr32, TArr32, TSeq TArr32]"

lemma WorldGenesisV1_typed [simp]: "has_ty (WorldGenesisV1_sval r) WorldGenesisV1_ty"
  by (simp add: WorldGenesisV1_sval_def WorldGenesisV1_ty_def)

lemma WorldGenesisV1_inj [simp]: "WorldGenesisV1_sval r = WorldGenesisV1_sval s \<longleftrightarrow> r = s"
  by (cases r; cases s) (simp add: WorldGenesisV1_sval_def)

definition genesis_world_id :: "host \<Rightarrow> WorldGenesisV1 \<Rightarrow> (ProtocolError, WorldId) result" where
  "genesis_world_id H g = and_then (to_allocvec H (WorldGenesisV1_sval g))
    (\<lambda>bytes. Ok (WorldId (hash_bits (from_domain_bytes H WORLD_GENESIS_DOMAIN bytes))))"

section \<open>Snapshots\<close>

datatype BlobEncoding = Raw | Zstd

fun BlobEncoding_sval :: "BlobEncoding \<Rightarrow> sval" where
  "BlobEncoding_sval Raw = SEnum 0"
| "BlobEncoding_sval Zstd = SEnum 1"

definition BlobEncoding_ty :: sty where "BlobEncoding_ty = TEnum 2"

lemma BlobEncoding_typed [simp]: "has_ty (BlobEncoding_sval x) BlobEncoding_ty"
  by (cases x) (simp_all add: BlobEncoding_ty_def)

lemma BlobEncoding_inj [simp]: "BlobEncoding_sval x = BlobEncoding_sval y \<longleftrightarrow> x = y"
  by (cases x; cases y) simp_all

record BlobDescriptor =
  bd_hash :: Hash32
  bd_uncompressed_size :: u64
  bd_encoded_size :: u64
  bd_encoding :: BlobEncoding

definition BlobDescriptor_sval :: "BlobDescriptor \<Rightarrow> sval" where
  "BlobDescriptor_sval r = STup
    [sHash (bd_hash r), SU64 (bd_uncompressed_size r), SU64 (bd_encoded_size r),
     BlobEncoding_sval (bd_encoding r)]"

definition BlobDescriptor_ty :: sty where
  "BlobDescriptor_ty = TTup
    [TArr32, TU64, TU64, BlobEncoding_ty]"

lemma BlobDescriptor_typed [simp]: "has_ty (BlobDescriptor_sval r) BlobDescriptor_ty"
  by (simp add: BlobDescriptor_sval_def BlobDescriptor_ty_def)

lemma BlobDescriptor_inj [simp]: "BlobDescriptor_sval r = BlobDescriptor_sval s \<longleftrightarrow> r = s"
  by (cases r; cases s) (simp add: BlobDescriptor_sval_def)

definition hash_uncompressed :: "host \<Rightarrow> bytes \<Rightarrow> Hash32" where
  "hash_uncompressed H b = from_domain_bytes H BLOB_HASH_DOMAIN b"

record SnapshotEntry =
  se_path :: string
  se_blob :: BlobDescriptor

definition SnapshotEntry_sval :: "SnapshotEntry \<Rightarrow> sval" where
  "SnapshotEntry_sval r = STup
    [SStr (se_path r), BlobDescriptor_sval (se_blob r)]"

definition SnapshotEntry_ty :: sty where
  "SnapshotEntry_ty = TTup
    [TStr, BlobDescriptor_ty]"

lemma SnapshotEntry_typed [simp]: "has_ty (SnapshotEntry_sval r) SnapshotEntry_ty"
  by (simp add: SnapshotEntry_sval_def SnapshotEntry_ty_def)

lemma SnapshotEntry_inj [simp]: "SnapshotEntry_sval r = SnapshotEntry_sval s \<longleftrightarrow> r = s"
  by (cases r; cases s) (simp add: SnapshotEntry_sval_def)

definition snapshot_state_root :: "host \<Rightarrow> SnapshotEntry list \<Rightarrow> (ProtocolError, Hash32) result" where
  "snapshot_state_root H entries = and_then (to_allocvec H (sseq SnapshotEntry_sval entries))
    (\<lambda>bytes. Ok (from_domain_bytes H SNAPSHOT_STATE_DOMAIN bytes))"

record SnapshotManifestV1 =
  sm_protocol_version :: u16
  sm_world_id :: WorldId
  sm_snapshot_number :: u64
  sm_epoch :: u64
  sm_sequence :: u64
  sm_previous_snapshot_hash :: "Hash32 option"
  sm_entries :: "SnapshotEntry list"
  sm_state_root :: Hash32
  sm_authority_peer_id :: PeerId
  sm_authority_public_key :: bytes32
  sm_signature :: bytes

definition SnapshotManifestV1_unsigned :: "SnapshotManifestV1 \<Rightarrow> sval list" where
  "SnapshotManifestV1_unsigned r =
    [SU16 (sm_protocol_version r), sWorld (sm_world_id r),
     SU64 (sm_snapshot_number r), SU64 (sm_epoch r), SU64 (sm_sequence r),
     sopt sHash (sm_previous_snapshot_hash r),
     sseq SnapshotEntry_sval (sm_entries r), sHash (sm_state_root r),
     sPeer (sm_authority_peer_id r), SArr32 (sm_authority_public_key r)]"

definition SnapshotManifestV1_tys :: "sty list" where
  "SnapshotManifestV1_tys =
    [TU16, TArr32, TU64, TU64, TU64, TOpt TArr32, TSeq SnapshotEntry_ty, TArr32,
     TArr32, TArr32]"

definition SnapshotManifestV1_sval :: "SnapshotManifestV1 \<Rightarrow> sval" where
  "SnapshotManifestV1_sval r = STup (SnapshotManifestV1_unsigned r @ [SBytes (sm_signature r)])"

definition SnapshotManifestV1_ty :: sty where "SnapshotManifestV1_ty = TTup (SnapshotManifestV1_tys @ [TBytes])"

lemma SnapshotManifestV1_typed [simp]:
  "has_ty (STup (SnapshotManifestV1_unsigned r)) (TTup SnapshotManifestV1_tys)"
  "has_ty (SnapshotManifestV1_sval r) SnapshotManifestV1_ty"
  by (simp_all add: SnapshotManifestV1_unsigned_def SnapshotManifestV1_tys_def SnapshotManifestV1_sval_def SnapshotManifestV1_ty_def)

lemma SnapshotManifestV1_unsigned_inj:
  "SnapshotManifestV1_unsigned r = SnapshotManifestV1_unsigned s \<longleftrightarrow> r\<lparr>sm_signature := []\<rparr> = s\<lparr>sm_signature := []\<rparr>"
  by (cases r; cases s) (simp add: SnapshotManifestV1_unsigned_def)

lemma SnapshotManifestV1_inj [simp]: "SnapshotManifestV1_sval r = SnapshotManifestV1_sval s \<longleftrightarrow> r = s"
  by (cases r; cases s) (simp add: SnapshotManifestV1_unsigned_def SnapshotManifestV1_sval_def)

definition SnapshotManifestV1_signing_bytes :: "host \<Rightarrow> SnapshotManifestV1 \<Rightarrow> (ProtocolError, bytes) result" where
  "SnapshotManifestV1_signing_bytes H r = frame H SNAPSHOT_SIGN_DOMAIN (STup (SnapshotManifestV1_unsigned r))"

definition manifest_hash :: "host \<Rightarrow> SnapshotManifestV1 \<Rightarrow> (ProtocolError, Hash32) result" where
  "manifest_hash H m = and_then (to_allocvec H (SnapshotManifestV1_sval m))
    (\<lambda>bytes. Ok (from_domain_bytes H SNAPSHOT_HASH_DOMAIN bytes))"

section \<open>Epochs, leases and members\<close>

datatype EpochMode = Quorum | Solo | Recovery

fun EpochMode_sval :: "EpochMode \<Rightarrow> sval" where
  "EpochMode_sval Quorum = SEnum 0"
| "EpochMode_sval Solo = SEnum 1"
| "EpochMode_sval Recovery = SEnum 2"

definition EpochMode_ty :: sty where "EpochMode_ty = TEnum 3"

lemma EpochMode_typed [simp]: "has_ty (EpochMode_sval x) EpochMode_ty"
  by (cases x) (simp_all add: EpochMode_ty_def)

lemma EpochMode_inj [simp]: "EpochMode_sval x = EpochMode_sval y \<longleftrightarrow> x = y"
  by (cases x; cases y) simp_all

record EpochRecordV1 =
  er_protocol_version :: u16
  er_world_id :: WorldId
  er_epoch_number :: u64
  er_previous_epoch_hash :: "Hash32 option"
  er_base_state_hash :: Hash32
  er_authority_peer_id :: PeerId
  er_authority_public_key :: bytes32
  er_mode :: EpochMode
  er_fencing_token :: u64
  er_reason :: string
  er_signature :: bytes

definition EpochRecordV1_unsigned :: "EpochRecordV1 \<Rightarrow> sval list" where
  "EpochRecordV1_unsigned r =
    [SU16 (er_protocol_version r), sWorld (er_world_id r), SU64 (er_epoch_number r),
     sopt sHash (er_previous_epoch_hash r), sHash (er_base_state_hash r),
     sPeer (er_authority_peer_id r), SArr32 (er_authority_public_key r),
     EpochMode_sval (er_mode r), SU64 (er_fencing_token r), SStr (er_reason r)]"

definition EpochRecordV1_tys :: "sty list" where
  "EpochRecordV1_tys =
    [TU16, TArr32, TU64, TOpt TArr32, TArr32, TArr32, TArr32, EpochMode_ty, TU64, TStr]"

definition EpochRecordV1_sval :: "EpochRecordV1 \<Rightarrow> sval" where
  "EpochRecordV1_sval r = STup (EpochRecordV1_unsigned r @ [SBytes (er_signature r)])"

definition EpochRecordV1_ty :: sty where "EpochRecordV1_ty = TTup (EpochRecordV1_tys @ [TBytes])"

lemma EpochRecordV1_typed [simp]:
  "has_ty (STup (EpochRecordV1_unsigned r)) (TTup EpochRecordV1_tys)"
  "has_ty (EpochRecordV1_sval r) EpochRecordV1_ty"
  by (simp_all add: EpochRecordV1_unsigned_def EpochRecordV1_tys_def EpochRecordV1_sval_def EpochRecordV1_ty_def)

lemma EpochRecordV1_unsigned_inj:
  "EpochRecordV1_unsigned r = EpochRecordV1_unsigned s \<longleftrightarrow> r\<lparr>er_signature := []\<rparr> = s\<lparr>er_signature := []\<rparr>"
  by (cases r; cases s) (simp add: EpochRecordV1_unsigned_def)

lemma EpochRecordV1_inj [simp]: "EpochRecordV1_sval r = EpochRecordV1_sval s \<longleftrightarrow> r = s"
  by (cases r; cases s) (simp add: EpochRecordV1_unsigned_def EpochRecordV1_sval_def)

definition EpochRecordV1_signing_bytes :: "host \<Rightarrow> EpochRecordV1 \<Rightarrow> (ProtocolError, bytes) result" where
  "EpochRecordV1_signing_bytes H r = frame H EPOCH_SIGN_DOMAIN (STup (EpochRecordV1_unsigned r))"

record AuthorityLeaseV1 =
  al_world_id :: WorldId
  al_epoch :: u64
  al_fencing_token :: u64
  al_lease_duration_ms :: u64

record WorldMemberV1 =
  wm_peer_id :: PeerId
  wm_public_key :: bytes32
  wm_authority_eligible :: bool
  wm_banned :: bool

definition WorldMemberV1_sval :: "WorldMemberV1 \<Rightarrow> sval" where
  "WorldMemberV1_sval r = STup
    [sPeer (wm_peer_id r), SArr32 (wm_public_key r), SBool (wm_authority_eligible r),
     SBool (wm_banned r)]"

definition WorldMemberV1_ty :: sty where
  "WorldMemberV1_ty = TTup
    [TArr32, TArr32, TBool, TBool]"

lemma WorldMemberV1_typed [simp]: "has_ty (WorldMemberV1_sval r) WorldMemberV1_ty"
  by (simp add: WorldMemberV1_sval_def WorldMemberV1_ty_def)

lemma WorldMemberV1_inj [simp]: "WorldMemberV1_sval r = WorldMemberV1_sval s \<longleftrightarrow> r = s"
  by (cases r; cases s) (simp add: WorldMemberV1_sval_def)

record WorldDescriptorV1 =
  wd_protocol_version :: u16
  wd_world_id :: WorldId
  wd_compatibility_fingerprint :: Hash32
  wd_members :: "WorldMemberV1 list"
  wd_preferred_replication_factor :: u16

definition WorldDescriptorV1_sval :: "WorldDescriptorV1 \<Rightarrow> sval" where
  "WorldDescriptorV1_sval r = STup
    [SU16 (wd_protocol_version r), sWorld (wd_world_id r),
     sHash (wd_compatibility_fingerprint r), sseq WorldMemberV1_sval (wd_members r),
     SU16 (wd_preferred_replication_factor r)]"

definition WorldDescriptorV1_ty :: sty where
  "WorldDescriptorV1_ty = TTup
    [TU16, TArr32, TArr32, TSeq WorldMemberV1_ty, TU16]"

lemma WorldDescriptorV1_typed [simp]: "has_ty (WorldDescriptorV1_sval r) WorldDescriptorV1_ty"
  by (simp add: WorldDescriptorV1_sval_def WorldDescriptorV1_ty_def)

lemma WorldDescriptorV1_inj [simp]: "WorldDescriptorV1_sval r = WorldDescriptorV1_sval s \<longleftrightarrow> r = s"
  by (cases r; cases s) (simp add: WorldDescriptorV1_sval_def)

definition WorldDescriptorV1_normalize :: "WorldDescriptorV1 \<Rightarrow> WorldDescriptorV1" where
  "WorldDescriptorV1_normalize d = d\<lparr>wd_members := sort_dedup wm_peer_id (wd_members d)\<rparr>"

definition WorldDescriptorV1_member :: "WorldDescriptorV1 \<Rightarrow> PeerId \<Rightarrow> WorldMemberV1 option" where
  "WorldDescriptorV1_member d peer = find (\<lambda>m. wm_peer_id m = peer) (wd_members d)"

record MembershipRecordV1 =
  mr_protocol_version :: u16
  mr_world_id :: WorldId
  mr_epoch :: u64
  mr_sequence :: u64
  mr_previous_membership_hash :: "Hash32 option"
  mr_members :: "WorldMemberV1 list"
  mr_authority_peer_id :: PeerId
  mr_authority_public_key :: bytes32
  mr_signature :: bytes

definition MembershipRecordV1_unsigned :: "MembershipRecordV1 \<Rightarrow> sval list" where
  "MembershipRecordV1_unsigned r =
    [SU16 (mr_protocol_version r), sWorld (mr_world_id r), SU64 (mr_epoch r),
     SU64 (mr_sequence r), sopt sHash (mr_previous_membership_hash r),
     sseq WorldMemberV1_sval (mr_members r), sPeer (mr_authority_peer_id r),
     SArr32 (mr_authority_public_key r)]"

definition MembershipRecordV1_tys :: "sty list" where
  "MembershipRecordV1_tys =
    [TU16, TArr32, TU64, TU64, TOpt TArr32, TSeq WorldMemberV1_ty, TArr32, TArr32]"

definition MembershipRecordV1_sval :: "MembershipRecordV1 \<Rightarrow> sval" where
  "MembershipRecordV1_sval r = STup (MembershipRecordV1_unsigned r @ [SBytes (mr_signature r)])"

definition MembershipRecordV1_ty :: sty where "MembershipRecordV1_ty = TTup (MembershipRecordV1_tys @ [TBytes])"

lemma MembershipRecordV1_typed [simp]:
  "has_ty (STup (MembershipRecordV1_unsigned r)) (TTup MembershipRecordV1_tys)"
  "has_ty (MembershipRecordV1_sval r) MembershipRecordV1_ty"
  by (simp_all add: MembershipRecordV1_unsigned_def MembershipRecordV1_tys_def MembershipRecordV1_sval_def MembershipRecordV1_ty_def)

lemma MembershipRecordV1_unsigned_inj:
  "MembershipRecordV1_unsigned r = MembershipRecordV1_unsigned s \<longleftrightarrow> r\<lparr>mr_signature := []\<rparr> = s\<lparr>mr_signature := []\<rparr>"
  by (cases r; cases s) (simp add: MembershipRecordV1_unsigned_def)

lemma MembershipRecordV1_inj [simp]: "MembershipRecordV1_sval r = MembershipRecordV1_sval s \<longleftrightarrow> r = s"
  by (cases r; cases s) (simp add: MembershipRecordV1_unsigned_def MembershipRecordV1_sval_def)

definition MembershipRecordV1_signing_bytes :: "host \<Rightarrow> MembershipRecordV1 \<Rightarrow> (ProtocolError, bytes) result" where
  "MembershipRecordV1_signing_bytes H r = frame H MEMBERSHIP_SIGN_DOMAIN (STup (MembershipRecordV1_unsigned r))"

definition record_hash :: "host \<Rightarrow> MembershipRecordV1 \<Rightarrow> (ProtocolError, Hash32) result" where
  "record_hash H m = and_then (to_allocvec H (MembershipRecordV1_sval m))
    (\<lambda>encoded. Ok (from_domain_bytes H MEMBERSHIP_HASH_DOMAIN encoded))"

section \<open>Invites, transfers, lease grants and greetings\<close>

record InviteV1 =
  inv_protocol_version :: u16
  inv_world_id :: WorldId
  inv_display_name :: string
  inv_genesis :: WorldGenesisV1
  inv_inviter_peer_id :: PeerId
  inv_inviter_public_key :: bytes32
  inv_bootstrap_addrs :: "string list"
  inv_expires_unix_ms :: u64
  inv_nonce :: bytes32
  inv_signature :: bytes

definition InviteV1_unsigned :: "InviteV1 \<Rightarrow> sval list" where
  "InviteV1_unsigned r =
    [SU16 (inv_protocol_version r), sWorld (inv_world_id r),
     SStr (inv_display_name r), WorldGenesisV1_sval (inv_genesis r),
     sPeer (inv_inviter_peer_id r), SArr32 (inv_inviter_public_key r),
     sseq SStr (inv_bootstrap_addrs r), SU64 (inv_expires_unix_ms r),
     SArr32 (inv_nonce r)]"

definition InviteV1_tys :: "sty list" where
  "InviteV1_tys =
    [TU16, TArr32, TStr, WorldGenesisV1_ty, TArr32, TArr32, TSeq TStr, TU64, TArr32]"

definition InviteV1_sval :: "InviteV1 \<Rightarrow> sval" where
  "InviteV1_sval r = STup (InviteV1_unsigned r @ [SBytes (inv_signature r)])"

definition InviteV1_ty :: sty where "InviteV1_ty = TTup (InviteV1_tys @ [TBytes])"

lemma InviteV1_typed [simp]:
  "has_ty (STup (InviteV1_unsigned r)) (TTup InviteV1_tys)"
  "has_ty (InviteV1_sval r) InviteV1_ty"
  by (simp_all add: InviteV1_unsigned_def InviteV1_tys_def InviteV1_sval_def InviteV1_ty_def)

lemma InviteV1_unsigned_inj:
  "InviteV1_unsigned r = InviteV1_unsigned s \<longleftrightarrow> r\<lparr>inv_signature := []\<rparr> = s\<lparr>inv_signature := []\<rparr>"
  by (cases r; cases s) (simp add: InviteV1_unsigned_def)

lemma InviteV1_inj [simp]: "InviteV1_sval r = InviteV1_sval s \<longleftrightarrow> r = s"
  by (cases r; cases s) (simp add: InviteV1_unsigned_def InviteV1_sval_def)

definition InviteV1_signing_bytes :: "host \<Rightarrow> InviteV1 \<Rightarrow> (ProtocolError, bytes) result" where
  "InviteV1_signing_bytes H r = frame H INVITE_SIGN_DOMAIN (STup (InviteV1_unsigned r))"

datatype TransferPhase = Prepared | Accepted | Committed

fun TransferPhase_sval :: "TransferPhase \<Rightarrow> sval" where
  "TransferPhase_sval Prepared = SEnum 0"
| "TransferPhase_sval Accepted = SEnum 1"
| "TransferPhase_sval Committed = SEnum 2"

definition TransferPhase_ty :: sty where "TransferPhase_ty = TEnum 3"

lemma TransferPhase_typed [simp]: "has_ty (TransferPhase_sval x) TransferPhase_ty"
  by (cases x) (simp_all add: TransferPhase_ty_def)

lemma TransferPhase_inj [simp]: "TransferPhase_sval x = TransferPhase_sval y \<longleftrightarrow> x = y"
  by (cases x; cases y) simp_all

record AuthorityTransferV1 =
  at_protocol_version :: u16
  at_world_id :: WorldId
  at_from_peer_id :: PeerId
  at_to_peer_id :: PeerId
  at_base_snapshot_hash :: Hash32
  at_next_epoch :: u64
  at_next_fencing_token :: u64
  at_phase :: TransferPhase
  at_signer_peer_id :: PeerId
  at_signer_public_key :: bytes32
  at_signature :: bytes

definition AuthorityTransferV1_unsigned :: "AuthorityTransferV1 \<Rightarrow> sval list" where
  "AuthorityTransferV1_unsigned r =
    [SU16 (at_protocol_version r), sWorld (at_world_id r), sPeer (at_from_peer_id r),
     sPeer (at_to_peer_id r), sHash (at_base_snapshot_hash r),
     SU64 (at_next_epoch r), SU64 (at_next_fencing_token r),
     TransferPhase_sval (at_phase r), sPeer (at_signer_peer_id r),
     SArr32 (at_signer_public_key r)]"

definition AuthorityTransferV1_tys :: "sty list" where
  "AuthorityTransferV1_tys =
    [TU16, TArr32, TArr32, TArr32, TArr32, TU64, TU64, TransferPhase_ty, TArr32,
     TArr32]"

definition AuthorityTransferV1_sval :: "AuthorityTransferV1 \<Rightarrow> sval" where
  "AuthorityTransferV1_sval r = STup (AuthorityTransferV1_unsigned r @ [SBytes (at_signature r)])"

definition AuthorityTransferV1_ty :: sty where "AuthorityTransferV1_ty = TTup (AuthorityTransferV1_tys @ [TBytes])"

lemma AuthorityTransferV1_typed [simp]:
  "has_ty (STup (AuthorityTransferV1_unsigned r)) (TTup AuthorityTransferV1_tys)"
  "has_ty (AuthorityTransferV1_sval r) AuthorityTransferV1_ty"
  by (simp_all add: AuthorityTransferV1_unsigned_def AuthorityTransferV1_tys_def AuthorityTransferV1_sval_def AuthorityTransferV1_ty_def)

lemma AuthorityTransferV1_unsigned_inj:
  "AuthorityTransferV1_unsigned r = AuthorityTransferV1_unsigned s \<longleftrightarrow> r\<lparr>at_signature := []\<rparr> = s\<lparr>at_signature := []\<rparr>"
  by (cases r; cases s) (simp add: AuthorityTransferV1_unsigned_def)

lemma AuthorityTransferV1_inj [simp]: "AuthorityTransferV1_sval r = AuthorityTransferV1_sval s \<longleftrightarrow> r = s"
  by (cases r; cases s) (simp add: AuthorityTransferV1_unsigned_def AuthorityTransferV1_sval_def)

definition AuthorityTransferV1_signing_bytes :: "host \<Rightarrow> AuthorityTransferV1 \<Rightarrow> (ProtocolError, bytes) result" where
  "AuthorityTransferV1_signing_bytes H r = frame H TRANSFER_SIGN_DOMAIN (STup (AuthorityTransferV1_unsigned r))"

record AuthorityLeaseGrantV1 =
  lg_protocol_version :: u16
  lg_world_id :: WorldId
  lg_epoch :: u64
  lg_fencing_token :: u64
  lg_lease_duration_ms :: u64
  lg_authority_peer_id :: PeerId
  lg_authority_public_key :: bytes32
  lg_nonce :: bytes32
  lg_signature :: bytes

definition AuthorityLeaseGrantV1_unsigned :: "AuthorityLeaseGrantV1 \<Rightarrow> sval list" where
  "AuthorityLeaseGrantV1_unsigned r =
    [SU16 (lg_protocol_version r), sWorld (lg_world_id r), SU64 (lg_epoch r),
     SU64 (lg_fencing_token r), SU64 (lg_lease_duration_ms r),
     sPeer (lg_authority_peer_id r), SArr32 (lg_authority_public_key r),
     SArr32 (lg_nonce r)]"

definition AuthorityLeaseGrantV1_tys :: "sty list" where
  "AuthorityLeaseGrantV1_tys =
    [TU16, TArr32, TU64, TU64, TU64, TArr32, TArr32, TArr32]"

definition AuthorityLeaseGrantV1_sval :: "AuthorityLeaseGrantV1 \<Rightarrow> sval" where
  "AuthorityLeaseGrantV1_sval r = STup (AuthorityLeaseGrantV1_unsigned r @ [SBytes (lg_signature r)])"

definition AuthorityLeaseGrantV1_ty :: sty where "AuthorityLeaseGrantV1_ty = TTup (AuthorityLeaseGrantV1_tys @ [TBytes])"

lemma AuthorityLeaseGrantV1_typed [simp]:
  "has_ty (STup (AuthorityLeaseGrantV1_unsigned r)) (TTup AuthorityLeaseGrantV1_tys)"
  "has_ty (AuthorityLeaseGrantV1_sval r) AuthorityLeaseGrantV1_ty"
  by (simp_all add: AuthorityLeaseGrantV1_unsigned_def AuthorityLeaseGrantV1_tys_def AuthorityLeaseGrantV1_sval_def AuthorityLeaseGrantV1_ty_def)

lemma AuthorityLeaseGrantV1_unsigned_inj:
  "AuthorityLeaseGrantV1_unsigned r = AuthorityLeaseGrantV1_unsigned s \<longleftrightarrow> r\<lparr>lg_signature := []\<rparr> = s\<lparr>lg_signature := []\<rparr>"
  by (cases r; cases s) (simp add: AuthorityLeaseGrantV1_unsigned_def)

lemma AuthorityLeaseGrantV1_inj [simp]: "AuthorityLeaseGrantV1_sval r = AuthorityLeaseGrantV1_sval s \<longleftrightarrow> r = s"
  by (cases r; cases s) (simp add: AuthorityLeaseGrantV1_unsigned_def AuthorityLeaseGrantV1_sval_def)

definition AuthorityLeaseGrantV1_signing_bytes :: "host \<Rightarrow> AuthorityLeaseGrantV1 \<Rightarrow> (ProtocolError, bytes) result" where
  "AuthorityLeaseGrantV1_signing_bytes H r = frame H LEASE_SIGN_DOMAIN (STup (AuthorityLeaseGrantV1_unsigned r))"

record PeerHelloV1 =
  ph_peer_id :: PeerId
  ph_public_key :: bytes32
  ph_protocol_versions :: "u16 list"
  ph_capabilities :: "string list"
  ph_nonce :: bytes32
  ph_signature :: bytes

definition PeerHelloV1_unsigned :: "PeerHelloV1 \<Rightarrow> sval list" where
  "PeerHelloV1_unsigned r =
    [sPeer (ph_peer_id r), SArr32 (ph_public_key r),
     sseq SU16 (ph_protocol_versions r), sseq SStr (ph_capabilities r),
     SArr32 (ph_nonce r)]"

definition PeerHelloV1_tys :: "sty list" where
  "PeerHelloV1_tys =
    [TArr32, TArr32, TSeq TU16, TSeq TStr, TArr32]"

definition PeerHelloV1_sval :: "PeerHelloV1 \<Rightarrow> sval" where
  "PeerHelloV1_sval r = STup (PeerHelloV1_unsigned r @ [SBytes (ph_signature r)])"

definition PeerHelloV1_ty :: sty where "PeerHelloV1_ty = TTup (PeerHelloV1_tys @ [TBytes])"

lemma PeerHelloV1_typed [simp]:
  "has_ty (STup (PeerHelloV1_unsigned r)) (TTup PeerHelloV1_tys)"
  "has_ty (PeerHelloV1_sval r) PeerHelloV1_ty"
  by (simp_all add: PeerHelloV1_unsigned_def PeerHelloV1_tys_def PeerHelloV1_sval_def PeerHelloV1_ty_def)

lemma PeerHelloV1_unsigned_inj:
  "PeerHelloV1_unsigned r = PeerHelloV1_unsigned s \<longleftrightarrow> r\<lparr>ph_signature := []\<rparr> = s\<lparr>ph_signature := []\<rparr>"
  by (cases r; cases s) (simp add: PeerHelloV1_unsigned_def)

lemma PeerHelloV1_inj [simp]: "PeerHelloV1_sval r = PeerHelloV1_sval s \<longleftrightarrow> r = s"
  by (cases r; cases s) (simp add: PeerHelloV1_unsigned_def PeerHelloV1_sval_def)

definition PeerHelloV1_signing_bytes :: "host \<Rightarrow> PeerHelloV1 \<Rightarrow> (ProtocolError, bytes) result" where
  "PeerHelloV1_signing_bytes H r = frame H PEER_HELLO_SIGN_DOMAIN (STup (PeerHelloV1_unsigned r))"

record WorldStatusV1 =
  ws_world_id :: WorldId
  ws_epoch :: u64
  ws_sequence :: u64
  ws_latest_snapshot :: "Hash32 option"
  ws_state_hash :: "Hash32 option"
  ws_compatibility_fingerprint :: Hash32
  ws_authority_eligible :: bool

section \<open>Join, leave and sleep records\<close>

record JoinRequestV1 =
  jr_protocol_version :: u16
  jr_world_id :: WorldId
  jr_invite :: InviteV1
  jr_joining_member :: WorldMemberV1
  jr_nonce :: bytes32
  jr_signature :: bytes

definition JoinRequestV1_unsigned :: "JoinRequestV1 \<Rightarrow> sval list" where
  "JoinRequestV1_unsigned r =
    [SU16 (jr_protocol_version r), sWorld (jr_world_id r),
     InviteV1_sval (jr_invite r), WorldMemberV1_sval (jr_joining_member r),
     SArr32 (jr_nonce r)]"

definition JoinRequestV1_tys :: "sty list" where
  "JoinRequestV1_tys =
    [TU16, TArr32, InviteV1_ty, WorldMemberV1_ty, TArr32]"

definition JoinRequestV1_sval :: "JoinRequestV1 \<Rightarrow> sval" where
  "JoinRequestV1_sval r = STup (JoinRequestV1_unsigned r @ [SBytes (jr_signature r)])"

definition JoinRequestV1_ty :: sty where "JoinRequestV1_ty = TTup (JoinRequestV1_tys @ [TBytes])"

lemma JoinRequestV1_typed [simp]:
  "has_ty (STup (JoinRequestV1_unsigned r)) (TTup JoinRequestV1_tys)"
  "has_ty (JoinRequestV1_sval r) JoinRequestV1_ty"
  by (simp_all add: JoinRequestV1_unsigned_def JoinRequestV1_tys_def JoinRequestV1_sval_def JoinRequestV1_ty_def)

lemma JoinRequestV1_unsigned_inj:
  "JoinRequestV1_unsigned r = JoinRequestV1_unsigned s \<longleftrightarrow> r\<lparr>jr_signature := []\<rparr> = s\<lparr>jr_signature := []\<rparr>"
  by (cases r; cases s) (simp add: JoinRequestV1_unsigned_def)

lemma JoinRequestV1_inj [simp]: "JoinRequestV1_sval r = JoinRequestV1_sval s \<longleftrightarrow> r = s"
  by (cases r; cases s) (simp add: JoinRequestV1_unsigned_def JoinRequestV1_sval_def)

definition JoinRequestV1_validate_shape :: "host \<Rightarrow> JoinRequestV1 \<Rightarrow> bool" where
  "JoinRequestV1_validate_shape H r \<longleftrightarrow>
    jr_protocol_version r = PROTOCOL_VERSION
    \<and> inv_protocol_version (jr_invite r) = PROTOCOL_VERSION
    \<and> inv_world_id (jr_invite r) = jr_world_id r
    \<and> (case genesis_world_id H (inv_genesis (jr_invite r)) of
        Inl _ \<Rightarrow> False | Inr world \<Rightarrow> world = jr_world_id r)
    \<and> peer_id_from_public_key H (wm_public_key (jr_joining_member r)) = wm_peer_id (jr_joining_member r)
    \<and> \<not> wm_banned (jr_joining_member r)"

definition JoinRequestV1_signing_bytes :: "host \<Rightarrow> JoinRequestV1 \<Rightarrow> (ProtocolError, bytes) result" where
  "JoinRequestV1_signing_bytes H r = frame H JOIN_SIGN_DOMAIN (STup (JoinRequestV1_unsigned r))"

record LeaveRequestV1 =
  lv_protocol_version :: u16
  lv_world_id :: WorldId
  lv_membership_hash :: Hash32
  lv_leaving_peer_id :: PeerId
  lv_leaving_public_key :: bytes32
  lv_nonce :: bytes32
  lv_signature :: bytes

definition LeaveRequestV1_unsigned :: "LeaveRequestV1 \<Rightarrow> sval list" where
  "LeaveRequestV1_unsigned r =
    [SU16 (lv_protocol_version r), sWorld (lv_world_id r),
     sHash (lv_membership_hash r), sPeer (lv_leaving_peer_id r),
     SArr32 (lv_leaving_public_key r), SArr32 (lv_nonce r)]"

definition LeaveRequestV1_tys :: "sty list" where
  "LeaveRequestV1_tys =
    [TU16, TArr32, TArr32, TArr32, TArr32, TArr32]"

definition LeaveRequestV1_sval :: "LeaveRequestV1 \<Rightarrow> sval" where
  "LeaveRequestV1_sval r = STup (LeaveRequestV1_unsigned r @ [SBytes (lv_signature r)])"

definition LeaveRequestV1_ty :: sty where "LeaveRequestV1_ty = TTup (LeaveRequestV1_tys @ [TBytes])"

lemma LeaveRequestV1_typed [simp]:
  "has_ty (STup (LeaveRequestV1_unsigned r)) (TTup LeaveRequestV1_tys)"
  "has_ty (LeaveRequestV1_sval r) LeaveRequestV1_ty"
  by (simp_all add: LeaveRequestV1_unsigned_def LeaveRequestV1_tys_def LeaveRequestV1_sval_def LeaveRequestV1_ty_def)

lemma LeaveRequestV1_unsigned_inj:
  "LeaveRequestV1_unsigned r = LeaveRequestV1_unsigned s \<longleftrightarrow> r\<lparr>lv_signature := []\<rparr> = s\<lparr>lv_signature := []\<rparr>"
  by (cases r; cases s) (simp add: LeaveRequestV1_unsigned_def)

lemma LeaveRequestV1_inj [simp]: "LeaveRequestV1_sval r = LeaveRequestV1_sval s \<longleftrightarrow> r = s"
  by (cases r; cases s) (simp add: LeaveRequestV1_unsigned_def LeaveRequestV1_sval_def)

definition LeaveRequestV1_validate_shape :: "host \<Rightarrow> LeaveRequestV1 \<Rightarrow> bool" where
  "LeaveRequestV1_validate_shape H r \<longleftrightarrow>
    lv_protocol_version r = PROTOCOL_VERSION
    \<and> peer_id_from_public_key H (lv_leaving_public_key r) = lv_leaving_peer_id r"

definition LeaveRequestV1_signing_bytes :: "host \<Rightarrow> LeaveRequestV1 \<Rightarrow> (ProtocolError, bytes) result" where
  "LeaveRequestV1_signing_bytes H r = frame H LEAVE_SIGN_DOMAIN (STup (LeaveRequestV1_unsigned r))"

record SleepRecordV1 =
  sl_protocol_version :: u16
  sl_world_id :: WorldId
  sl_latest_snapshot_hash :: Hash32
  sl_epoch :: u64
  sl_fencing_token :: u64
  sl_authority_peer_id :: PeerId
  sl_authority_public_key :: bytes32
  sl_signature :: bytes

definition SleepRecordV1_unsigned :: "SleepRecordV1 \<Rightarrow> sval list" where
  "SleepRecordV1_unsigned r =
    [SU16 (sl_protocol_version r), sWorld (sl_world_id r),
     sHash (sl_latest_snapshot_hash r), SU64 (sl_epoch r), SU64 (sl_fencing_token r),
     sPeer (sl_authority_peer_id r), SArr32 (sl_authority_public_key r)]"

definition SleepRecordV1_tys :: "sty list" where
  "SleepRecordV1_tys =
    [TU16, TArr32, TArr32, TU64, TU64, TArr32, TArr32]"

definition SleepRecordV1_sval :: "SleepRecordV1 \<Rightarrow> sval" where
  "SleepRecordV1_sval r = STup (SleepRecordV1_unsigned r @ [SBytes (sl_signature r)])"

definition SleepRecordV1_ty :: sty where "SleepRecordV1_ty = TTup (SleepRecordV1_tys @ [TBytes])"

lemma SleepRecordV1_typed [simp]:
  "has_ty (STup (SleepRecordV1_unsigned r)) (TTup SleepRecordV1_tys)"
  "has_ty (SleepRecordV1_sval r) SleepRecordV1_ty"
  by (simp_all add: SleepRecordV1_unsigned_def SleepRecordV1_tys_def SleepRecordV1_sval_def SleepRecordV1_ty_def)

lemma SleepRecordV1_unsigned_inj:
  "SleepRecordV1_unsigned r = SleepRecordV1_unsigned s \<longleftrightarrow> r\<lparr>sl_signature := []\<rparr> = s\<lparr>sl_signature := []\<rparr>"
  by (cases r; cases s) (simp add: SleepRecordV1_unsigned_def)

lemma SleepRecordV1_inj [simp]: "SleepRecordV1_sval r = SleepRecordV1_sval s \<longleftrightarrow> r = s"
  by (cases r; cases s) (simp add: SleepRecordV1_unsigned_def SleepRecordV1_sval_def)

definition SleepRecordV1_signing_bytes :: "host \<Rightarrow> SleepRecordV1 \<Rightarrow> (ProtocolError, bytes) result" where
  "SleepRecordV1_signing_bytes H r = frame H SLEEP_SIGN_DOMAIN (STup (SleepRecordV1_unsigned r))"

end
