(* ===== verification/ProtocolV2.thy ===== *)
theory ProtocolV2
  imports ProtocolV1
begin

text \<open>
  The records of \<open>crates/swarm-protocol/src/v2.rs\<close>: runtime compatibility manifests and world
  configurations with their canonical normalisation, membership proposals, votes and
  certificates, recovery ballots, votes and certificates, and solo branches.  The layout follows
  \<open>ProtocolV1\<close>.  Checks of the source that call a fallible hash in the middle of a conjunction
  keep its short-circuit order: an encoding error surfaces only when the earlier conjuncts hold.
\<close>

section \<open>Domain separators\<close>

definition COMPATIBILITY_MANIFEST_DOMAIN :: bytes where "COMPATIBILITY_MANIFEST_DOMAIN = domain ''swarmcraft/compatibility-manifest/v1''"
definition WORLD_CONFIG_SIGN_DOMAIN :: bytes where "WORLD_CONFIG_SIGN_DOMAIN = domain ''swarmcraft/world-config-sign/v1''"
definition WORLD_CONFIG_HASH_DOMAIN :: bytes where "WORLD_CONFIG_HASH_DOMAIN = domain ''swarmcraft/world-config/v1''"
definition MEMBERSHIP_PROPOSAL_HASH_DOMAIN :: bytes where "MEMBERSHIP_PROPOSAL_HASH_DOMAIN = domain ''swarmcraft/membership-proposal/v1''"
definition MEMBERSHIP_VOTE_SIGN_DOMAIN :: bytes where "MEMBERSHIP_VOTE_SIGN_DOMAIN = domain ''swarmcraft/membership-vote-sign/v1''"
definition RECOVERY_BALLOT_SIGN_DOMAIN :: bytes where "RECOVERY_BALLOT_SIGN_DOMAIN = domain ''swarmcraft/recovery-ballot-sign/v1''"
definition RECOVERY_BALLOT_HASH_DOMAIN :: bytes where "RECOVERY_BALLOT_HASH_DOMAIN = domain ''swarmcraft/recovery-ballot/v1''"
definition RECOVERY_VOTE_SIGN_DOMAIN :: bytes where "RECOVERY_VOTE_SIGN_DOMAIN = domain ''swarmcraft/recovery-vote-sign/v1''"
definition SOLO_BRANCH_SIGN_DOMAIN :: bytes where "SOLO_BRANCH_SIGN_DOMAIN = domain ''swarmcraft/solo-branch-sign/v1''"
definition SOLO_BRANCH_HASH_DOMAIN :: bytes where "SOLO_BRANCH_HASH_DOMAIN = domain ''swarmcraft/solo-branch/v1''"

section \<open>Runtime compatibility\<close>

datatype ArtifactSideV1 = Server | Client | Both

fun ArtifactSideV1_sval :: "ArtifactSideV1 \<Rightarrow> sval" where
  "ArtifactSideV1_sval Server = SEnum 0"
| "ArtifactSideV1_sval Client = SEnum 1"
| "ArtifactSideV1_sval Both = SEnum 2"

definition ArtifactSideV1_ty :: sty where "ArtifactSideV1_ty = TEnum 3"

lemma ArtifactSideV1_typed [simp]: "has_ty (ArtifactSideV1_sval x) ArtifactSideV1_ty"
  by (cases x) (simp_all add: ArtifactSideV1_ty_def)

lemma ArtifactSideV1_inj [simp]: "ArtifactSideV1_sval x = ArtifactSideV1_sval y \<longleftrightarrow> x = y"
  by (cases x; cases y) simp_all

fun side_rank :: "ArtifactSideV1 \<Rightarrow> nat" where
  "side_rank Server = 0"
| "side_rank Client = 1"
| "side_rank Both = 2"

lemma side_rank_inj [simp]: "side_rank a = side_rank b \<longleftrightarrow> a = b"
  by (cases a; cases b) simp_all

instantiation ArtifactSideV1 :: linorder
begin

definition less_eq_ArtifactSideV1 :: "ArtifactSideV1 \<Rightarrow> ArtifactSideV1 \<Rightarrow> bool" where
  "less_eq_ArtifactSideV1 a b \<longleftrightarrow> side_rank a \<le> side_rank b"

definition less_ArtifactSideV1 :: "ArtifactSideV1 \<Rightarrow> ArtifactSideV1 \<Rightarrow> bool" where
  "less_ArtifactSideV1 a b \<longleftrightarrow> side_rank a < side_rank b"

instance
  by standard (auto simp: less_eq_ArtifactSideV1_def less_ArtifactSideV1_def)

end

record ArtifactRequirementV1 =
  ar_artifact_id :: string
  ar_version :: string
  ar_artifact_hash :: Hash32
  ar_side :: ArtifactSideV1
  ar_provider_hint :: "string option"

definition ArtifactRequirementV1_sval :: "ArtifactRequirementV1 \<Rightarrow> sval" where
  "ArtifactRequirementV1_sval r = STup
    [SStr (ar_artifact_id r), SStr (ar_version r), sHash (ar_artifact_hash r),
     ArtifactSideV1_sval (ar_side r), sopt SStr (ar_provider_hint r)]"

definition ArtifactRequirementV1_ty :: sty where
  "ArtifactRequirementV1_ty = TTup
    [TStr, TStr, TArr32, ArtifactSideV1_ty, TOpt TStr]"

lemma ArtifactRequirementV1_typed [simp]: "has_ty (ArtifactRequirementV1_sval r) ArtifactRequirementV1_ty"
  by (simp add: ArtifactRequirementV1_sval_def ArtifactRequirementV1_ty_def)

lemma ArtifactRequirementV1_inj [simp]: "ArtifactRequirementV1_sval r = ArtifactRequirementV1_sval s \<longleftrightarrow> r = s"
  by (cases r; cases s) (simp add: ArtifactRequirementV1_sval_def)

record RuntimeCompatibilityManifestV1 =
  rc_minecraft_version :: string
  rc_loader_id :: string
  rc_loader_version :: string
  rc_swarmcraft_protocol_version :: u16
  rc_fabric_adapter_version :: string
  rc_required_server_mods :: "ArtifactRequirementV1 list"
  rc_required_client_mods :: "ArtifactRequirementV1 list"
  rc_datapacks :: "ArtifactRequirementV1 list"

definition RuntimeCompatibilityManifestV1_sval :: "RuntimeCompatibilityManifestV1 \<Rightarrow> sval" where
  "RuntimeCompatibilityManifestV1_sval r = STup
    [SStr (rc_minecraft_version r), SStr (rc_loader_id r),
     SStr (rc_loader_version r), SU16 (rc_swarmcraft_protocol_version r),
     SStr (rc_fabric_adapter_version r),
     sseq ArtifactRequirementV1_sval (rc_required_server_mods r),
     sseq ArtifactRequirementV1_sval (rc_required_client_mods r),
     sseq ArtifactRequirementV1_sval (rc_datapacks r)]"

definition RuntimeCompatibilityManifestV1_ty :: sty where
  "RuntimeCompatibilityManifestV1_ty = TTup
    [TStr, TStr, TStr, TU16, TStr, TSeq ArtifactRequirementV1_ty,
     TSeq ArtifactRequirementV1_ty, TSeq ArtifactRequirementV1_ty]"

lemma RuntimeCompatibilityManifestV1_typed [simp]: "has_ty (RuntimeCompatibilityManifestV1_sval r) RuntimeCompatibilityManifestV1_ty"
  by (simp add: RuntimeCompatibilityManifestV1_sval_def RuntimeCompatibilityManifestV1_ty_def)

lemma RuntimeCompatibilityManifestV1_inj [simp]: "RuntimeCompatibilityManifestV1_sval r = RuntimeCompatibilityManifestV1_sval s \<longleftrightarrow> r = s"
  by (cases r; cases s) (simp add: RuntimeCompatibilityManifestV1_sval_def)

definition artifact_key :: "ArtifactRequirementV1 \<Rightarrow> string \<times> string \<times> Hash32 \<times> ArtifactSideV1 \<times> string option" where
  "artifact_key a = (ar_artifact_id a, ar_version a, ar_artifact_hash a, ar_side a, ar_provider_hint a)"

definition normalize_artifacts :: "ArtifactRequirementV1 list \<Rightarrow> ArtifactRequirementV1 list" where
  "normalize_artifacts = sort_dedup artifact_key"

definition RuntimeCompatibilityManifestV1_normalize ::
    "RuntimeCompatibilityManifestV1 \<Rightarrow> RuntimeCompatibilityManifestV1" where
  "RuntimeCompatibilityManifestV1_normalize m = m\<lparr>
    rc_required_server_mods := normalize_artifacts (rc_required_server_mods m),
    rc_required_client_mods := normalize_artifacts (rc_required_client_mods m),
    rc_datapacks := normalize_artifacts (rc_datapacks m)\<rparr>"

lemma artifact_key_inj [simp]: "artifact_key a = artifact_key b \<longleftrightarrow> a = b"
  by (cases a; cases b) (simp add: artifact_key_def)

lemma normalize_artifacts_idem [simp]:
  "normalize_artifacts (normalize_artifacts xs) = normalize_artifacts xs"
  by (simp add: normalize_artifacts_def)

lemma normalize_artifacts_set: "set (normalize_artifacts xs) = set xs"
proof -
  have "artifact_key ` set (normalize_artifacts xs) = artifact_key ` set xs"
    by (simp add: normalize_artifacts_def sort_dedup_keys)
  then show ?thesis by (simp add: inj_image_eq_iff inj_def)
qed

lemma normalize_artifacts_eq_iff:
  "normalize_artifacts xs = normalize_artifacts ys \<longleftrightarrow> set xs = set ys"
proof
  assume "set xs = set ys"
  then have "set (map artifact_key (normalize_artifacts xs)) = set (map artifact_key (normalize_artifacts ys))"
    by (simp add: normalize_artifacts_set)
  moreover have "sorted_wrt (<) (map artifact_key (normalize_artifacts zs))" for zs
    using sort_dedup_ascending [of artifact_key zs] by (simp add: normalize_artifacts_def ascending_by_iff)
  ultimately have "map artifact_key (normalize_artifacts xs) = map artifact_key (normalize_artifacts ys)"
    using strict_sorted_equal by blast
  then show "normalize_artifacts xs = normalize_artifacts ys"
    by (rule map_injective) (simp add: inj_def)
qed (metis normalize_artifacts_set)

section \<open>World configuration\<close>

datatype WorldVisibilityV1 = Private | Unlisted | Public

fun WorldVisibilityV1_sval :: "WorldVisibilityV1 \<Rightarrow> sval" where
  "WorldVisibilityV1_sval Private = SEnum 0"
| "WorldVisibilityV1_sval Unlisted = SEnum 1"
| "WorldVisibilityV1_sval Public = SEnum 2"

definition WorldVisibilityV1_ty :: sty where "WorldVisibilityV1_ty = TEnum 3"

lemma WorldVisibilityV1_typed [simp]: "has_ty (WorldVisibilityV1_sval x) WorldVisibilityV1_ty"
  by (cases x) (simp_all add: WorldVisibilityV1_ty_def)

lemma WorldVisibilityV1_inj [simp]: "WorldVisibilityV1_sval x = WorldVisibilityV1_sval y \<longleftrightarrow> x = y"
  by (cases x; cases y) simp_all

datatype MembershipPolicyV1 = InviteOnly | ApprovalRequired | Open

fun MembershipPolicyV1_sval :: "MembershipPolicyV1 \<Rightarrow> sval" where
  "MembershipPolicyV1_sval InviteOnly = SEnum 0"
| "MembershipPolicyV1_sval ApprovalRequired = SEnum 1"
| "MembershipPolicyV1_sval Open = SEnum 2"

definition MembershipPolicyV1_ty :: sty where "MembershipPolicyV1_ty = TEnum 3"

lemma MembershipPolicyV1_typed [simp]: "has_ty (MembershipPolicyV1_sval x) MembershipPolicyV1_ty"
  by (cases x) (simp_all add: MembershipPolicyV1_ty_def)

lemma MembershipPolicyV1_inj [simp]: "MembershipPolicyV1_sval x = MembershipPolicyV1_sval y \<longleftrightarrow> x = y"
  by (cases x; cases y) simp_all

record AuthorityPolicyV1 =
  ap_allow_solo_advancement :: bool
  ap_preferred_replication_factor :: u16

definition AuthorityPolicyV1_sval :: "AuthorityPolicyV1 \<Rightarrow> sval" where
  "AuthorityPolicyV1_sval r = STup
    [SBool (ap_allow_solo_advancement r), SU16 (ap_preferred_replication_factor r)]"

definition AuthorityPolicyV1_ty :: sty where
  "AuthorityPolicyV1_ty = TTup
    [TBool, TU16]"

lemma AuthorityPolicyV1_typed [simp]: "has_ty (AuthorityPolicyV1_sval r) AuthorityPolicyV1_ty"
  by (simp add: AuthorityPolicyV1_sval_def AuthorityPolicyV1_ty_def)

lemma AuthorityPolicyV1_inj [simp]: "AuthorityPolicyV1_sval r = AuthorityPolicyV1_sval s \<longleftrightarrow> r = s"
  by (cases r; cases s) (simp add: AuthorityPolicyV1_sval_def)

record WorldPresentationV1 =
  wp_name :: string
  wp_description :: string
  wp_tags :: "string list"
  wp_icon_hash :: "Hash32 option"
  wp_approximate_region :: "string option"

definition WorldPresentationV1_sval :: "WorldPresentationV1 \<Rightarrow> sval" where
  "WorldPresentationV1_sval r = STup
    [SStr (wp_name r), SStr (wp_description r), sseq SStr (wp_tags r),
     sopt sHash (wp_icon_hash r), sopt SStr (wp_approximate_region r)]"

definition WorldPresentationV1_ty :: sty where
  "WorldPresentationV1_ty = TTup
    [TStr, TStr, TSeq TStr, TOpt TArr32, TOpt TStr]"

lemma WorldPresentationV1_typed [simp]: "has_ty (WorldPresentationV1_sval r) WorldPresentationV1_ty"
  by (simp add: WorldPresentationV1_sval_def WorldPresentationV1_ty_def)

lemma WorldPresentationV1_inj [simp]: "WorldPresentationV1_sval r = WorldPresentationV1_sval s \<longleftrightarrow> r = s"
  by (cases r; cases s) (simp add: WorldPresentationV1_sval_def)

definition WorldPresentationV1_normalize :: "WorldPresentationV1 \<Rightarrow> WorldPresentationV1" where
  "WorldPresentationV1_normalize p = p\<lparr>wp_tags := sort_dedup (\<lambda>t. t) (wp_tags p)\<rparr>"

record WorldConfigV1 =
  wc_protocol_version :: u16
  wc_world_id :: WorldId
  wc_sequence :: u64
  wc_previous_config_hash :: "Hash32 option"
  wc_compatibility :: RuntimeCompatibilityManifestV1
  wc_visibility :: WorldVisibilityV1
  wc_authority_policy :: AuthorityPolicyV1
  wc_membership_policy :: MembershipPolicyV1
  wc_presentation :: WorldPresentationV1
  wc_authority_peer_id :: PeerId
  wc_authority_public_key :: bytes32
  wc_signature :: bytes

definition WorldConfigV1_unsigned :: "WorldConfigV1 \<Rightarrow> sval list" where
  "WorldConfigV1_unsigned r =
    [SU16 (wc_protocol_version r), sWorld (wc_world_id r), SU64 (wc_sequence r),
     sopt sHash (wc_previous_config_hash r),
     RuntimeCompatibilityManifestV1_sval (wc_compatibility r),
     WorldVisibilityV1_sval (wc_visibility r),
     AuthorityPolicyV1_sval (wc_authority_policy r),
     MembershipPolicyV1_sval (wc_membership_policy r),
     WorldPresentationV1_sval (wc_presentation r), sPeer (wc_authority_peer_id r),
     SArr32 (wc_authority_public_key r)]"

definition WorldConfigV1_tys :: "sty list" where
  "WorldConfigV1_tys =
    [TU16, TArr32, TU64, TOpt TArr32, RuntimeCompatibilityManifestV1_ty,
     WorldVisibilityV1_ty, AuthorityPolicyV1_ty, MembershipPolicyV1_ty,
     WorldPresentationV1_ty, TArr32, TArr32]"

definition WorldConfigV1_sval :: "WorldConfigV1 \<Rightarrow> sval" where
  "WorldConfigV1_sval r = STup (WorldConfigV1_unsigned r @ [SBytes (wc_signature r)])"

definition WorldConfigV1_ty :: sty where "WorldConfigV1_ty = TTup (WorldConfigV1_tys @ [TBytes])"

lemma WorldConfigV1_typed [simp]:
  "has_ty (STup (WorldConfigV1_unsigned r)) (TTup WorldConfigV1_tys)"
  "has_ty (WorldConfigV1_sval r) WorldConfigV1_ty"
  by (simp_all add: WorldConfigV1_unsigned_def WorldConfigV1_tys_def WorldConfigV1_sval_def WorldConfigV1_ty_def)

lemma WorldConfigV1_unsigned_inj:
  "WorldConfigV1_unsigned r = WorldConfigV1_unsigned s \<longleftrightarrow> r\<lparr>wc_signature := []\<rparr> = s\<lparr>wc_signature := []\<rparr>"
  by (cases r; cases s) (simp add: WorldConfigV1_unsigned_def)

lemma WorldConfigV1_inj [simp]: "WorldConfigV1_sval r = WorldConfigV1_sval s \<longleftrightarrow> r = s"
  by (cases r; cases s) (simp add: WorldConfigV1_unsigned_def WorldConfigV1_sval_def)

definition normalize_canonical :: "WorldConfigV1 \<Rightarrow> WorldConfigV1" where
  "normalize_canonical c = c\<lparr>
    wc_compatibility := RuntimeCompatibilityManifestV1_normalize (wc_compatibility c),
    wc_presentation := WorldPresentationV1_normalize (wc_presentation c)\<rparr>"

definition canonical_unsigned :: "host \<Rightarrow> WorldConfigV1 \<Rightarrow> (ProtocolError, bytes) result" where
  "canonical_unsigned H c =
    (let compatibility = RuntimeCompatibilityManifestV1_normalize (wc_compatibility c);
         presentation = WorldPresentationV1_normalize (wc_presentation c)
     in to_allocvec H (STup (WorldConfigV1_unsigned
          (c\<lparr>wc_compatibility := compatibility, wc_presentation := presentation\<rparr>))))"

definition WorldConfigV1_signing_bytes :: "host \<Rightarrow> WorldConfigV1 \<Rightarrow> (ProtocolError, bytes) result" where
  "WorldConfigV1_signing_bytes H c = and_then (canonical_unsigned H c)
    (\<lambda>encoded. Ok (WORLD_CONFIG_SIGN_DOMAIN @ encoded))"

definition config_hash :: "host \<Rightarrow> WorldConfigV1 \<Rightarrow> (ProtocolError, Hash32) result" where
  "config_hash H c = and_then (canonical_unsigned H c)
    (\<lambda>encoded. Ok (from_domain_bytes H WORLD_CONFIG_HASH_DOMAIN encoded))"

lemma WorldConfigV1_signing_bytes_frame:
  "WorldConfigV1_signing_bytes H c =
    frame H WORLD_CONFIG_SIGN_DOMAIN (STup (WorldConfigV1_unsigned (normalize_canonical c)))"
  by (simp add: WorldConfigV1_signing_bytes_def canonical_unsigned_def frame_def
      normalize_canonical_def)

lemma normalize_idem [simp]:
  "RuntimeCompatibilityManifestV1_normalize (RuntimeCompatibilityManifestV1_normalize m) =
    RuntimeCompatibilityManifestV1_normalize m"
  "WorldPresentationV1_normalize (WorldPresentationV1_normalize p) = WorldPresentationV1_normalize p"
  "normalize_canonical (normalize_canonical c) = normalize_canonical c"
  by (simp_all add: RuntimeCompatibilityManifestV1_normalize_def WorldPresentationV1_normalize_def
      normalize_canonical_def)

section \<open>Membership consensus records\<close>

record MembershipProposalV1 =
  mp_previous :: MembershipRecordV1
  mp_proposed :: MembershipRecordV1

definition MembershipProposalV1_sval :: "MembershipProposalV1 \<Rightarrow> sval" where
  "MembershipProposalV1_sval r = STup
    [MembershipRecordV1_sval (mp_previous r), MembershipRecordV1_sval (mp_proposed r)]"

definition MembershipProposalV1_ty :: sty where
  "MembershipProposalV1_ty = TTup
    [MembershipRecordV1_ty, MembershipRecordV1_ty]"

lemma MembershipProposalV1_typed [simp]: "has_ty (MembershipProposalV1_sval r) MembershipProposalV1_ty"
  by (simp add: MembershipProposalV1_sval_def MembershipProposalV1_ty_def)

lemma MembershipProposalV1_inj [simp]: "MembershipProposalV1_sval r = MembershipProposalV1_sval s \<longleftrightarrow> r = s"
  by (cases r; cases s) (simp add: MembershipProposalV1_sval_def)

definition MembershipProposalV1_validate_shape ::
    "host \<Rightarrow> MembershipProposalV1 \<Rightarrow> (ProtocolError, bool) result" where
  "MembershipProposalV1_validate_shape H p =
    (let previous = mp_previous p; proposed = mp_proposed p in
     if mr_protocol_version previous = PROTOCOL_VERSION
       \<and> mr_protocol_version proposed = PROTOCOL_VERSION
       \<and> mr_world_id previous = mr_world_id proposed
       \<and> mr_epoch previous = mr_epoch proposed
       \<and> checked_add (mr_sequence previous) 1 = Some (mr_sequence proposed)
     then and_then (record_hash H previous) (\<lambda>h.
       Ok (mr_previous_membership_hash proposed = Some h
         \<and> mr_authority_peer_id previous = mr_authority_peer_id proposed
         \<and> mr_authority_public_key previous = mr_authority_public_key proposed
         \<and> mr_members proposed \<noteq> []))
     else Ok False)"

definition proposal_hash :: "host \<Rightarrow> MembershipProposalV1 \<Rightarrow> (ProtocolError, Hash32) result" where
  "proposal_hash H p =
    and_then (record_hash H (mp_previous p)) (\<lambda>previous.
    and_then (record_hash H (mp_proposed p)) (\<lambda>proposed.
    and_then (to_allocvec H (STup [sHash previous, sHash proposed])) (\<lambda>bytes.
    Ok (from_domain_bytes H MEMBERSHIP_PROPOSAL_HASH_DOMAIN bytes))))"

record MembershipVoteV1 =
  mv_protocol_version :: u16
  mv_world_id :: WorldId
  mv_previous_membership_hash :: Hash32
  mv_proposed_membership_hash :: Hash32
  mv_proposed_sequence :: u64
  mv_voter_peer_id :: PeerId
  mv_voter_public_key :: bytes32
  mv_signature :: bytes

definition MembershipVoteV1_unsigned :: "MembershipVoteV1 \<Rightarrow> sval list" where
  "MembershipVoteV1_unsigned r =
    [SU16 (mv_protocol_version r), sWorld (mv_world_id r),
     sHash (mv_previous_membership_hash r), sHash (mv_proposed_membership_hash r),
     SU64 (mv_proposed_sequence r), sPeer (mv_voter_peer_id r),
     SArr32 (mv_voter_public_key r)]"

definition MembershipVoteV1_tys :: "sty list" where
  "MembershipVoteV1_tys =
    [TU16, TArr32, TArr32, TArr32, TU64, TArr32, TArr32]"

definition MembershipVoteV1_sval :: "MembershipVoteV1 \<Rightarrow> sval" where
  "MembershipVoteV1_sval r = STup (MembershipVoteV1_unsigned r @ [SBytes (mv_signature r)])"

definition MembershipVoteV1_ty :: sty where "MembershipVoteV1_ty = TTup (MembershipVoteV1_tys @ [TBytes])"

lemma MembershipVoteV1_typed [simp]:
  "has_ty (STup (MembershipVoteV1_unsigned r)) (TTup MembershipVoteV1_tys)"
  "has_ty (MembershipVoteV1_sval r) MembershipVoteV1_ty"
  by (simp_all add: MembershipVoteV1_unsigned_def MembershipVoteV1_tys_def MembershipVoteV1_sval_def MembershipVoteV1_ty_def)

lemma MembershipVoteV1_unsigned_inj:
  "MembershipVoteV1_unsigned r = MembershipVoteV1_unsigned s \<longleftrightarrow> r\<lparr>mv_signature := []\<rparr> = s\<lparr>mv_signature := []\<rparr>"
  by (cases r; cases s) (simp add: MembershipVoteV1_unsigned_def)

lemma MembershipVoteV1_inj [simp]: "MembershipVoteV1_sval r = MembershipVoteV1_sval s \<longleftrightarrow> r = s"
  by (cases r; cases s) (simp add: MembershipVoteV1_unsigned_def MembershipVoteV1_sval_def)

definition MembershipVoteV1_signing_bytes :: "host \<Rightarrow> MembershipVoteV1 \<Rightarrow> (ProtocolError, bytes) result" where
  "MembershipVoteV1_signing_bytes H r = frame H MEMBERSHIP_VOTE_SIGN_DOMAIN (STup (MembershipVoteV1_unsigned r))"

definition matches_proposal ::
    "host \<Rightarrow> MembershipVoteV1 \<Rightarrow> MembershipProposalV1 \<Rightarrow> (ProtocolError, bool) result" where
  "matches_proposal H v p =
    (if mv_protocol_version v = PROTOCOL_VERSION \<and> mv_world_id v = mr_world_id (mp_proposed p)
     then and_then (record_hash H (mp_previous p)) (\<lambda>previous.
       if mv_previous_membership_hash v = previous
       then and_then (record_hash H (mp_proposed p)) (\<lambda>proposed.
         Ok (mv_proposed_membership_hash v = proposed
           \<and> mv_proposed_sequence v = mr_sequence (mp_proposed p)))
       else Ok False)
     else Ok False)"

record MembershipCertificateV1 =
  mc_proposal :: MembershipProposalV1
  mc_votes :: "MembershipVoteV1 list"

definition MembershipCertificateV1_sval :: "MembershipCertificateV1 \<Rightarrow> sval" where
  "MembershipCertificateV1_sval r = STup
    [MembershipProposalV1_sval (mc_proposal r),
     sseq MembershipVoteV1_sval (mc_votes r)]"

definition MembershipCertificateV1_ty :: sty where
  "MembershipCertificateV1_ty = TTup
    [MembershipProposalV1_ty, TSeq MembershipVoteV1_ty]"

lemma MembershipCertificateV1_typed [simp]: "has_ty (MembershipCertificateV1_sval r) MembershipCertificateV1_ty"
  by (simp add: MembershipCertificateV1_sval_def MembershipCertificateV1_ty_def)

lemma MembershipCertificateV1_inj [simp]: "MembershipCertificateV1_sval r = MembershipCertificateV1_sval s \<longleftrightarrow> r = s"
  by (cases r; cases s) (simp add: MembershipCertificateV1_sval_def)

section \<open>Recovery consensus records\<close>

record RecoveryBallotV1 =
  rb_protocol_version :: u16
  rb_world_id :: WorldId
  rb_base_epoch :: u64
  rb_base_fencing_token :: u64
  rb_target_epoch :: u64
  rb_target_fencing_token :: u64
  rb_round :: u64
  rb_candidate_peer_id :: PeerId
  rb_candidate_public_key :: bytes32
  rb_base_snapshot_hash :: Hash32
  rb_base_state_hash :: Hash32
  rb_membership_hash :: Hash32
  rb_signature :: bytes

definition RecoveryBallotV1_unsigned :: "RecoveryBallotV1 \<Rightarrow> sval list" where
  "RecoveryBallotV1_unsigned r =
    [SU16 (rb_protocol_version r), sWorld (rb_world_id r), SU64 (rb_base_epoch r),
     SU64 (rb_base_fencing_token r), SU64 (rb_target_epoch r),
     SU64 (rb_target_fencing_token r), SU64 (rb_round r),
     sPeer (rb_candidate_peer_id r), SArr32 (rb_candidate_public_key r),
     sHash (rb_base_snapshot_hash r), sHash (rb_base_state_hash r),
     sHash (rb_membership_hash r)]"

definition RecoveryBallotV1_tys :: "sty list" where
  "RecoveryBallotV1_tys =
    [TU16, TArr32, TU64, TU64, TU64, TU64, TU64, TArr32, TArr32, TArr32, TArr32,
     TArr32]"

definition RecoveryBallotV1_sval :: "RecoveryBallotV1 \<Rightarrow> sval" where
  "RecoveryBallotV1_sval r = STup (RecoveryBallotV1_unsigned r @ [SBytes (rb_signature r)])"

definition RecoveryBallotV1_ty :: sty where "RecoveryBallotV1_ty = TTup (RecoveryBallotV1_tys @ [TBytes])"

lemma RecoveryBallotV1_typed [simp]:
  "has_ty (STup (RecoveryBallotV1_unsigned r)) (TTup RecoveryBallotV1_tys)"
  "has_ty (RecoveryBallotV1_sval r) RecoveryBallotV1_ty"
  by (simp_all add: RecoveryBallotV1_unsigned_def RecoveryBallotV1_tys_def RecoveryBallotV1_sval_def RecoveryBallotV1_ty_def)

lemma RecoveryBallotV1_unsigned_inj:
  "RecoveryBallotV1_unsigned r = RecoveryBallotV1_unsigned s \<longleftrightarrow> r\<lparr>rb_signature := []\<rparr> = s\<lparr>rb_signature := []\<rparr>"
  by (cases r; cases s) (simp add: RecoveryBallotV1_unsigned_def)

lemma RecoveryBallotV1_inj [simp]: "RecoveryBallotV1_sval r = RecoveryBallotV1_sval s \<longleftrightarrow> r = s"
  by (cases r; cases s) (simp add: RecoveryBallotV1_unsigned_def RecoveryBallotV1_sval_def)

definition RecoveryBallotV1_signing_bytes :: "host \<Rightarrow> RecoveryBallotV1 \<Rightarrow> (ProtocolError, bytes) result" where
  "RecoveryBallotV1_signing_bytes H r = frame H RECOVERY_BALLOT_SIGN_DOMAIN (STup (RecoveryBallotV1_unsigned r))"

definition ballot_hash :: "host \<Rightarrow> RecoveryBallotV1 \<Rightarrow> (ProtocolError, Hash32) result" where
  "ballot_hash H b = and_then (RecoveryBallotV1_signing_bytes H b)
    (\<lambda>bytes. Ok (from_domain_bytes H RECOVERY_BALLOT_HASH_DOMAIN bytes))"

definition generation_is_well_formed :: "RecoveryBallotV1 \<Rightarrow> bool" where
  "generation_is_well_formed b \<longleftrightarrow>
    rb_protocol_version b = PROTOCOL_VERSION
    \<and> checked_add (rb_base_epoch b) 1 = Some (rb_target_epoch b)
    \<and> checked_add (rb_base_fencing_token b) 1 = Some (rb_target_fencing_token b)
    \<and> rb_round b > 0"

record RecoveryVoteV1 =
  rv_protocol_version :: u16
  rv_world_id :: WorldId
  rv_ballot_hash :: Hash32
  rv_base_epoch :: u64
  rv_target_epoch :: u64
  rv_round :: u64
  rv_candidate_peer_id :: PeerId
  rv_voter_peer_id :: PeerId
  rv_voter_public_key :: bytes32
  rv_signature :: bytes

definition RecoveryVoteV1_unsigned :: "RecoveryVoteV1 \<Rightarrow> sval list" where
  "RecoveryVoteV1_unsigned r =
    [SU16 (rv_protocol_version r), sWorld (rv_world_id r), sHash (rv_ballot_hash r),
     SU64 (rv_base_epoch r), SU64 (rv_target_epoch r), SU64 (rv_round r),
     sPeer (rv_candidate_peer_id r), sPeer (rv_voter_peer_id r),
     SArr32 (rv_voter_public_key r)]"

definition RecoveryVoteV1_tys :: "sty list" where
  "RecoveryVoteV1_tys =
    [TU16, TArr32, TArr32, TU64, TU64, TU64, TArr32, TArr32, TArr32]"

definition RecoveryVoteV1_sval :: "RecoveryVoteV1 \<Rightarrow> sval" where
  "RecoveryVoteV1_sval r = STup (RecoveryVoteV1_unsigned r @ [SBytes (rv_signature r)])"

definition RecoveryVoteV1_ty :: sty where "RecoveryVoteV1_ty = TTup (RecoveryVoteV1_tys @ [TBytes])"

lemma RecoveryVoteV1_typed [simp]:
  "has_ty (STup (RecoveryVoteV1_unsigned r)) (TTup RecoveryVoteV1_tys)"
  "has_ty (RecoveryVoteV1_sval r) RecoveryVoteV1_ty"
  by (simp_all add: RecoveryVoteV1_unsigned_def RecoveryVoteV1_tys_def RecoveryVoteV1_sval_def RecoveryVoteV1_ty_def)

lemma RecoveryVoteV1_unsigned_inj:
  "RecoveryVoteV1_unsigned r = RecoveryVoteV1_unsigned s \<longleftrightarrow> r\<lparr>rv_signature := []\<rparr> = s\<lparr>rv_signature := []\<rparr>"
  by (cases r; cases s) (simp add: RecoveryVoteV1_unsigned_def)

lemma RecoveryVoteV1_inj [simp]: "RecoveryVoteV1_sval r = RecoveryVoteV1_sval s \<longleftrightarrow> r = s"
  by (cases r; cases s) (simp add: RecoveryVoteV1_unsigned_def RecoveryVoteV1_sval_def)

definition RecoveryVoteV1_signing_bytes :: "host \<Rightarrow> RecoveryVoteV1 \<Rightarrow> (ProtocolError, bytes) result" where
  "RecoveryVoteV1_signing_bytes H r = frame H RECOVERY_VOTE_SIGN_DOMAIN (STup (RecoveryVoteV1_unsigned r))"

definition matches_ballot ::
    "host \<Rightarrow> RecoveryVoteV1 \<Rightarrow> RecoveryBallotV1 \<Rightarrow> (ProtocolError, bool) result" where
  "matches_ballot H v b =
    (if rv_protocol_version v = rb_protocol_version b \<and> rv_world_id v = rb_world_id b
     then and_then (ballot_hash H b) (\<lambda>h.
       Ok (rv_ballot_hash v = h
         \<and> rv_base_epoch v = rb_base_epoch b
         \<and> rv_target_epoch v = rb_target_epoch b
         \<and> rv_round v = rb_round b
         \<and> rv_candidate_peer_id v = rb_candidate_peer_id b))
     else Ok False)"

record RecoveryCertificateV1 =
  rcert_ballot :: RecoveryBallotV1
  rcert_votes :: "RecoveryVoteV1 list"

definition RecoveryCertificateV1_sval :: "RecoveryCertificateV1 \<Rightarrow> sval" where
  "RecoveryCertificateV1_sval r = STup
    [RecoveryBallotV1_sval (rcert_ballot r), sseq RecoveryVoteV1_sval (rcert_votes r)]"

definition RecoveryCertificateV1_ty :: sty where
  "RecoveryCertificateV1_ty = TTup
    [RecoveryBallotV1_ty, TSeq RecoveryVoteV1_ty]"

lemma RecoveryCertificateV1_typed [simp]: "has_ty (RecoveryCertificateV1_sval r) RecoveryCertificateV1_ty"
  by (simp add: RecoveryCertificateV1_sval_def RecoveryCertificateV1_ty_def)

lemma RecoveryCertificateV1_inj [simp]: "RecoveryCertificateV1_sval r = RecoveryCertificateV1_sval s \<longleftrightarrow> r = s"
  by (cases r; cases s) (simp add: RecoveryCertificateV1_sval_def)

definition unique_voters :: "RecoveryCertificateV1 \<Rightarrow> PeerId set" where
  "unique_voters c = set (map rv_voter_peer_id (rcert_votes c))"

section \<open>Solo branches\<close>

datatype WorldSafetyLevelV1 = Canonical | Replicated | QuorumConfirmed | SoloUnreplicated | Conflict

fun WorldSafetyLevelV1_sval :: "WorldSafetyLevelV1 \<Rightarrow> sval" where
  "WorldSafetyLevelV1_sval Canonical = SEnum 0"
| "WorldSafetyLevelV1_sval Replicated = SEnum 1"
| "WorldSafetyLevelV1_sval QuorumConfirmed = SEnum 2"
| "WorldSafetyLevelV1_sval SoloUnreplicated = SEnum 3"
| "WorldSafetyLevelV1_sval Conflict = SEnum 4"

definition WorldSafetyLevelV1_ty :: sty where "WorldSafetyLevelV1_ty = TEnum 5"

lemma WorldSafetyLevelV1_typed [simp]: "has_ty (WorldSafetyLevelV1_sval x) WorldSafetyLevelV1_ty"
  by (cases x) (simp_all add: WorldSafetyLevelV1_ty_def)

lemma WorldSafetyLevelV1_inj [simp]: "WorldSafetyLevelV1_sval x = WorldSafetyLevelV1_sval y \<longleftrightarrow> x = y"
  by (cases x; cases y) simp_all

record SoloBranchV1 =
  sb_protocol_version :: u16
  sb_world_id :: WorldId
  sb_base_snapshot_hash :: Hash32
  sb_base_epoch :: u64
  sb_head_snapshot_hash :: Hash32
  sb_head_epoch :: u64
  sb_head_sequence :: u64
  sb_state_hash :: Hash32
  sb_authority_peer_id :: PeerId
  sb_authority_public_key :: bytes32
  sb_signature :: bytes

definition SoloBranchV1_unsigned :: "SoloBranchV1 \<Rightarrow> sval list" where
  "SoloBranchV1_unsigned r =
    [SU16 (sb_protocol_version r), sWorld (sb_world_id r),
     sHash (sb_base_snapshot_hash r), SU64 (sb_base_epoch r),
     sHash (sb_head_snapshot_hash r), SU64 (sb_head_epoch r),
     SU64 (sb_head_sequence r), sHash (sb_state_hash r),
     sPeer (sb_authority_peer_id r), SArr32 (sb_authority_public_key r)]"

definition SoloBranchV1_tys :: "sty list" where
  "SoloBranchV1_tys =
    [TU16, TArr32, TArr32, TU64, TArr32, TU64, TU64, TArr32, TArr32, TArr32]"

definition SoloBranchV1_sval :: "SoloBranchV1 \<Rightarrow> sval" where
  "SoloBranchV1_sval r = STup (SoloBranchV1_unsigned r @ [SBytes (sb_signature r)])"

definition SoloBranchV1_ty :: sty where "SoloBranchV1_ty = TTup (SoloBranchV1_tys @ [TBytes])"

lemma SoloBranchV1_typed [simp]:
  "has_ty (STup (SoloBranchV1_unsigned r)) (TTup SoloBranchV1_tys)"
  "has_ty (SoloBranchV1_sval r) SoloBranchV1_ty"
  by (simp_all add: SoloBranchV1_unsigned_def SoloBranchV1_tys_def SoloBranchV1_sval_def SoloBranchV1_ty_def)

lemma SoloBranchV1_unsigned_inj:
  "SoloBranchV1_unsigned r = SoloBranchV1_unsigned s \<longleftrightarrow> r\<lparr>sb_signature := []\<rparr> = s\<lparr>sb_signature := []\<rparr>"
  by (cases r; cases s) (simp add: SoloBranchV1_unsigned_def)

lemma SoloBranchV1_inj [simp]: "SoloBranchV1_sval r = SoloBranchV1_sval s \<longleftrightarrow> r = s"
  by (cases r; cases s) (simp add: SoloBranchV1_unsigned_def SoloBranchV1_sval_def)

definition SoloBranchV1_signing_bytes :: "host \<Rightarrow> SoloBranchV1 \<Rightarrow> (ProtocolError, bytes) result" where
  "SoloBranchV1_signing_bytes H r = frame H SOLO_BRANCH_SIGN_DOMAIN (STup (SoloBranchV1_unsigned r))"

definition branch_hash :: "host \<Rightarrow> SoloBranchV1 \<Rightarrow> (ProtocolError, Hash32) result" where
  "branch_hash H b = and_then (SoloBranchV1_signing_bytes H b)
    (\<lambda>bytes. Ok (from_domain_bytes H SOLO_BRANCH_HASH_DOMAIN bytes))"

section \<open>What the matching checks establish\<close>

lemma validate_shape_iff:
  "MembershipProposalV1_validate_shape H p = Inr True \<longleftrightarrow>
    mr_protocol_version (mp_previous p) = PROTOCOL_VERSION
    \<and> mr_protocol_version (mp_proposed p) = PROTOCOL_VERSION
    \<and> mr_world_id (mp_previous p) = mr_world_id (mp_proposed p)
    \<and> mr_epoch (mp_previous p) = mr_epoch (mp_proposed p)
    \<and> checked_add (mr_sequence (mp_previous p)) 1 = Some (mr_sequence (mp_proposed p))
    \<and> (\<exists>h. record_hash H (mp_previous p) = Inr h \<and> mr_previous_membership_hash (mp_proposed p) = Some h)
    \<and> mr_authority_peer_id (mp_previous p) = mr_authority_peer_id (mp_proposed p)
    \<and> mr_authority_public_key (mp_previous p) = mr_authority_public_key (mp_proposed p)
    \<and> mr_members (mp_proposed p) \<noteq> []"
  by (auto simp: MembershipProposalV1_validate_shape_def Let_def)

lemma matches_proposal_iff:
  "matches_proposal H v p = Inr True \<longleftrightarrow>
    mv_protocol_version v = PROTOCOL_VERSION \<and> mv_world_id v = mr_world_id (mp_proposed p)
    \<and> record_hash H (mp_previous p) = Inr (mv_previous_membership_hash v)
    \<and> record_hash H (mp_proposed p) = Inr (mv_proposed_membership_hash v)
    \<and> mv_proposed_sequence v = mr_sequence (mp_proposed p)"
  by (auto simp: matches_proposal_def split: if_splits)

lemma matches_ballot_iff:
  "matches_ballot H v b = Inr True \<longleftrightarrow>
    rv_protocol_version v = rb_protocol_version b \<and> rv_world_id v = rb_world_id b
    \<and> ballot_hash H b = Inr (rv_ballot_hash v)
    \<and> rv_base_epoch v = rb_base_epoch b \<and> rv_target_epoch v = rb_target_epoch b
    \<and> rv_round v = rb_round b \<and> rv_candidate_peer_id v = rb_candidate_peer_id b"
  by (auto simp: matches_ballot_def)

end
