(* ===== verification/DiscoveryRecords.thy ===== *)
theory DiscoveryRecords
  imports ProtocolV2
begin

text \<open>
  The records of \<open>crates/swarm-protocol/src/discovery.rs\<close>: public world announcements, the
  membership proof and freshness challenge exchanged on first contact, and friend presence.
\<close>

definition WORLD_ANNOUNCEMENT_SIGN_DOMAIN :: bytes where "WORLD_ANNOUNCEMENT_SIGN_DOMAIN = domain ''swarmcraft/world-announcement/v1''"
definition WORLD_ANNOUNCEMENT_HASH_DOMAIN :: bytes where "WORLD_ANNOUNCEMENT_HASH_DOMAIN = domain ''swarmcraft/world-announcement-hash/v1''"
definition DISCOVERY_FRESHNESS_VOTE_SIGN_DOMAIN :: bytes where "DISCOVERY_FRESHNESS_VOTE_SIGN_DOMAIN = domain ''swarmcraft/discovery-freshness-vote/v1''"
definition FRIEND_PRESENCE_SIGN_DOMAIN :: bytes where "FRIEND_PRESENCE_SIGN_DOMAIN = domain ''swarmcraft/friend-presence/v1''"

record DiscoveryCompatibilityV1 =
  dc_minecraft_version :: string
  dc_loader_id :: string
  dc_loader_version :: string
  dc_fabric_adapter_version :: string
  dc_compatibility_fingerprint :: Hash32

definition DiscoveryCompatibilityV1_sval :: "DiscoveryCompatibilityV1 \<Rightarrow> sval" where
  "DiscoveryCompatibilityV1_sval r = STup
    [SStr (dc_minecraft_version r), SStr (dc_loader_id r),
     SStr (dc_loader_version r), SStr (dc_fabric_adapter_version r),
     sHash (dc_compatibility_fingerprint r)]"

definition DiscoveryCompatibilityV1_ty :: sty where
  "DiscoveryCompatibilityV1_ty = TTup
    [TStr, TStr, TStr, TStr, TArr32]"

lemma DiscoveryCompatibilityV1_typed [simp]: "has_ty (DiscoveryCompatibilityV1_sval r) DiscoveryCompatibilityV1_ty"
  by (simp add: DiscoveryCompatibilityV1_sval_def DiscoveryCompatibilityV1_ty_def)

lemma DiscoveryCompatibilityV1_inj [simp]: "DiscoveryCompatibilityV1_sval r = DiscoveryCompatibilityV1_sval s \<longleftrightarrow> r = s"
  by (cases r; cases s) (simp add: DiscoveryCompatibilityV1_sval_def)

record DiscoveryFilterV1 =
  df_query :: "string option"
  df_minecraft_version :: "string option"
  df_loader_id :: "string option"
  df_loader_version :: "string option"
  df_tags :: "string list"
  df_approximate_region :: "string option"
  df_limit :: u16

record DiscoveryCanonicalHeadV1 =
  ch_snapshot_number :: u64
  ch_manifest_hash :: Hash32
  ch_epoch :: u64
  ch_sequence :: u64

definition DiscoveryCanonicalHeadV1_sval :: "DiscoveryCanonicalHeadV1 \<Rightarrow> sval" where
  "DiscoveryCanonicalHeadV1_sval r = STup
    [SU64 (ch_snapshot_number r), sHash (ch_manifest_hash r), SU64 (ch_epoch r),
     SU64 (ch_sequence r)]"

definition DiscoveryCanonicalHeadV1_ty :: sty where
  "DiscoveryCanonicalHeadV1_ty = TTup
    [TU64, TArr32, TU64, TU64]"

lemma DiscoveryCanonicalHeadV1_typed [simp]: "has_ty (DiscoveryCanonicalHeadV1_sval r) DiscoveryCanonicalHeadV1_ty"
  by (simp add: DiscoveryCanonicalHeadV1_sval_def DiscoveryCanonicalHeadV1_ty_def)

lemma DiscoveryCanonicalHeadV1_inj [simp]: "DiscoveryCanonicalHeadV1_sval r = DiscoveryCanonicalHeadV1_sval s \<longleftrightarrow> r = s"
  by (cases r; cases s) (simp add: DiscoveryCanonicalHeadV1_sval_def)

record WorldAnnouncementV1 =
  wa_protocol_version :: u16
  wa_world_id :: WorldId
  wa_presentation :: WorldPresentationV1
  wa_compatibility :: DiscoveryCompatibilityV1
  wa_visibility :: WorldVisibilityV1
  wa_membership_policy :: MembershipPolicyV1
  wa_config_sequence :: u64
  wa_config_hash :: Hash32
  wa_membership_sequence :: u64
  wa_membership_hash :: Hash32
  wa_authority_epoch :: u64
  wa_fencing_token :: u64
  wa_canonical_head :: "DiscoveryCanonicalHeadV1 option"
  wa_announcement_sequence :: u64
  wa_issued_unix_ms :: u64
  wa_expires_unix_ms :: u64
  wa_announcer_peer_id :: PeerId
  wa_announcer_public_key :: bytes32
  wa_signature :: bytes

definition WorldAnnouncementV1_unsigned :: "WorldAnnouncementV1 \<Rightarrow> sval list" where
  "WorldAnnouncementV1_unsigned r =
    [SU16 (wa_protocol_version r), sWorld (wa_world_id r),
     WorldPresentationV1_sval (wa_presentation r),
     DiscoveryCompatibilityV1_sval (wa_compatibility r),
     WorldVisibilityV1_sval (wa_visibility r),
     MembershipPolicyV1_sval (wa_membership_policy r), SU64 (wa_config_sequence r),
     sHash (wa_config_hash r), SU64 (wa_membership_sequence r),
     sHash (wa_membership_hash r), SU64 (wa_authority_epoch r),
     SU64 (wa_fencing_token r),
     sopt DiscoveryCanonicalHeadV1_sval (wa_canonical_head r),
     SU64 (wa_announcement_sequence r), SU64 (wa_issued_unix_ms r),
     SU64 (wa_expires_unix_ms r), sPeer (wa_announcer_peer_id r),
     SArr32 (wa_announcer_public_key r)]"

definition WorldAnnouncementV1_tys :: "sty list" where
  "WorldAnnouncementV1_tys =
    [TU16, TArr32, WorldPresentationV1_ty, DiscoveryCompatibilityV1_ty,
     WorldVisibilityV1_ty, MembershipPolicyV1_ty, TU64, TArr32, TU64, TArr32, TU64,
     TU64, TOpt DiscoveryCanonicalHeadV1_ty, TU64, TU64, TU64, TArr32, TArr32]"

definition WorldAnnouncementV1_sval :: "WorldAnnouncementV1 \<Rightarrow> sval" where
  "WorldAnnouncementV1_sval r = STup (WorldAnnouncementV1_unsigned r @ [SBytes (wa_signature r)])"

definition WorldAnnouncementV1_ty :: sty where "WorldAnnouncementV1_ty = TTup (WorldAnnouncementV1_tys @ [TBytes])"

lemma WorldAnnouncementV1_typed [simp]:
  "has_ty (STup (WorldAnnouncementV1_unsigned r)) (TTup WorldAnnouncementV1_tys)"
  "has_ty (WorldAnnouncementV1_sval r) WorldAnnouncementV1_ty"
  by (simp_all add: WorldAnnouncementV1_unsigned_def WorldAnnouncementV1_tys_def WorldAnnouncementV1_sval_def WorldAnnouncementV1_ty_def)

lemma WorldAnnouncementV1_unsigned_inj:
  "WorldAnnouncementV1_unsigned r = WorldAnnouncementV1_unsigned s \<longleftrightarrow> r\<lparr>wa_signature := []\<rparr> = s\<lparr>wa_signature := []\<rparr>"
  by (cases r; cases s) (simp add: WorldAnnouncementV1_unsigned_def)

lemma WorldAnnouncementV1_inj [simp]: "WorldAnnouncementV1_sval r = WorldAnnouncementV1_sval s \<longleftrightarrow> r = s"
  by (cases r; cases s) (simp add: WorldAnnouncementV1_unsigned_def WorldAnnouncementV1_sval_def)

definition WorldAnnouncementV1_signing_bytes ::
    "host \<Rightarrow> WorldAnnouncementV1 \<Rightarrow> (ProtocolError, bytes) result" where
  "WorldAnnouncementV1_signing_bytes H r =
    (let presentation = WorldPresentationV1_normalize (wa_presentation r)
     in frame H WORLD_ANNOUNCEMENT_SIGN_DOMAIN (STup [
       STup [SU16 (wa_protocol_version r), sWorld (wa_world_id r),
             WorldPresentationV1_sval presentation,
             DiscoveryCompatibilityV1_sval (wa_compatibility r),
             WorldVisibilityV1_sval (wa_visibility r),
             MembershipPolicyV1_sval (wa_membership_policy r),
             SU64 (wa_config_sequence r), sHash (wa_config_hash r),
             SU64 (wa_membership_sequence r), sHash (wa_membership_hash r),
             SU64 (wa_authority_epoch r), SU64 (wa_fencing_token r)],
       STup [sopt DiscoveryCanonicalHeadV1_sval (wa_canonical_head r),
             SU64 (wa_announcement_sequence r), SU64 (wa_issued_unix_ms r),
             SU64 (wa_expires_unix_ms r), sPeer (wa_announcer_peer_id r),
             SArr32 (wa_announcer_public_key r)]]))"

definition is_discoverable_visibility :: "WorldAnnouncementV1 \<Rightarrow> bool" where
  "is_discoverable_visibility r \<longleftrightarrow> wa_visibility r = Public \<or> wa_visibility r = Unlisted"

definition announcement_hash :: "host \<Rightarrow> WorldAnnouncementV1 \<Rightarrow> (ProtocolError, Hash32) result" where
  "announcement_hash H r = and_then (to_allocvec H (WorldAnnouncementV1_sval r))
    (\<lambda>encoded. Ok (from_domain_bytes H WORLD_ANNOUNCEMENT_HASH_DOMAIN encoded))"

text \<open>The nested tuple carries the same information as the flat list of fields.\<close>

definition announcement_tuple :: "WorldAnnouncementV1 \<Rightarrow> sval" where
  "announcement_tuple r = (let vs = WorldAnnouncementV1_unsigned r
    in STup [STup (take 12 vs), STup (drop 12 vs)])"

lemma announcement_tuple_typed [simp]:
  "has_ty (announcement_tuple r) (TTup [TTup (take 12 WorldAnnouncementV1_tys), TTup (drop 12 WorldAnnouncementV1_tys)])"
  by (simp add: announcement_tuple_def WorldAnnouncementV1_unsigned_def WorldAnnouncementV1_tys_def)

lemma announcement_tuple_inj:
  "announcement_tuple r = announcement_tuple s \<longleftrightarrow>
    r\<lparr>wa_signature := []\<rparr> = s\<lparr>wa_signature := []\<rparr>"
  unfolding WorldAnnouncementV1_unsigned_inj [symmetric]
  by (simp add: announcement_tuple_def Let_def) (metis append_take_drop_id)

lemma WorldAnnouncementV1_signing_bytes_frame:
  "WorldAnnouncementV1_signing_bytes H r = frame H WORLD_ANNOUNCEMENT_SIGN_DOMAIN
    (announcement_tuple (r\<lparr>wa_presentation := WorldPresentationV1_normalize (wa_presentation r)\<rparr>))"
  by (simp add: WorldAnnouncementV1_signing_bytes_def announcement_tuple_def
      WorldAnnouncementV1_unsigned_def)

section \<open>First-contact proof and freshness\<close>

record DiscoveryMembershipProofV1 =
  dm_protocol_version :: u16
  dm_world_id :: WorldId
  dm_genesis :: WorldGenesisV1
  dm_initial_membership :: MembershipRecordV1
  dm_membership_certificates :: "MembershipCertificateV1 list"
  dm_current_membership :: MembershipRecordV1
  dm_pending_membership :: "MembershipProposalV1 option"

record DiscoveryFreshnessChallengeV1 =
  fc_protocol_version :: u16
  fc_verifier_peer_id :: PeerId
  fc_nonce :: bytes32
  fc_world_id :: WorldId
  fc_announcement_hash :: Hash32
  fc_membership_sequence :: u64
  fc_membership_hash :: Hash32
  fc_pending_membership_proposal_hash :: "Hash32 option"
  fc_authority_peer_id :: PeerId
  fc_authority_epoch :: u64
  fc_fencing_token :: u64
  fc_config_sequence :: u64
  fc_config_hash :: Hash32
  fc_canonical_head :: "DiscoveryCanonicalHeadV1 option"
  fc_issued_unix_ms :: u64
  fc_expires_unix_ms :: u64

definition DiscoveryFreshnessChallengeV1_sval :: "DiscoveryFreshnessChallengeV1 \<Rightarrow> sval" where
  "DiscoveryFreshnessChallengeV1_sval r = STup
    [SU16 (fc_protocol_version r), sPeer (fc_verifier_peer_id r),
     SArr32 (fc_nonce r), sWorld (fc_world_id r), sHash (fc_announcement_hash r),
     SU64 (fc_membership_sequence r), sHash (fc_membership_hash r),
     sopt sHash (fc_pending_membership_proposal_hash r),
     sPeer (fc_authority_peer_id r), SU64 (fc_authority_epoch r),
     SU64 (fc_fencing_token r), SU64 (fc_config_sequence r),
     sHash (fc_config_hash r),
     sopt DiscoveryCanonicalHeadV1_sval (fc_canonical_head r),
     SU64 (fc_issued_unix_ms r), SU64 (fc_expires_unix_ms r)]"

definition DiscoveryFreshnessChallengeV1_ty :: sty where
  "DiscoveryFreshnessChallengeV1_ty = TTup
    [TU16, TArr32, TArr32, TArr32, TArr32, TU64, TArr32, TOpt TArr32, TArr32, TU64,
     TU64, TU64, TArr32, TOpt DiscoveryCanonicalHeadV1_ty, TU64, TU64]"

lemma DiscoveryFreshnessChallengeV1_typed [simp]: "has_ty (DiscoveryFreshnessChallengeV1_sval r) DiscoveryFreshnessChallengeV1_ty"
  by (simp add: DiscoveryFreshnessChallengeV1_sval_def DiscoveryFreshnessChallengeV1_ty_def)

lemma DiscoveryFreshnessChallengeV1_inj [simp]: "DiscoveryFreshnessChallengeV1_sval r = DiscoveryFreshnessChallengeV1_sval s \<longleftrightarrow> r = s"
  by (cases r; cases s) (simp add: DiscoveryFreshnessChallengeV1_sval_def)

record DiscoveryFreshnessVoteV1 =
  fv_challenge :: DiscoveryFreshnessChallengeV1
  fv_voter_peer_id :: PeerId
  fv_voter_public_key :: bytes32
  fv_signature :: bytes

definition DiscoveryFreshnessVoteV1_unsigned :: "DiscoveryFreshnessVoteV1 \<Rightarrow> sval list" where
  "DiscoveryFreshnessVoteV1_unsigned r =
    [DiscoveryFreshnessChallengeV1_sval (fv_challenge r), sPeer (fv_voter_peer_id r),
     SArr32 (fv_voter_public_key r)]"

definition DiscoveryFreshnessVoteV1_tys :: "sty list" where
  "DiscoveryFreshnessVoteV1_tys =
    [DiscoveryFreshnessChallengeV1_ty, TArr32, TArr32]"

definition DiscoveryFreshnessVoteV1_sval :: "DiscoveryFreshnessVoteV1 \<Rightarrow> sval" where
  "DiscoveryFreshnessVoteV1_sval r = STup (DiscoveryFreshnessVoteV1_unsigned r @ [SBytes (fv_signature r)])"

definition DiscoveryFreshnessVoteV1_ty :: sty where "DiscoveryFreshnessVoteV1_ty = TTup (DiscoveryFreshnessVoteV1_tys @ [TBytes])"

lemma DiscoveryFreshnessVoteV1_typed [simp]:
  "has_ty (STup (DiscoveryFreshnessVoteV1_unsigned r)) (TTup DiscoveryFreshnessVoteV1_tys)"
  "has_ty (DiscoveryFreshnessVoteV1_sval r) DiscoveryFreshnessVoteV1_ty"
  by (simp_all add: DiscoveryFreshnessVoteV1_unsigned_def DiscoveryFreshnessVoteV1_tys_def DiscoveryFreshnessVoteV1_sval_def DiscoveryFreshnessVoteV1_ty_def)

lemma DiscoveryFreshnessVoteV1_unsigned_inj:
  "DiscoveryFreshnessVoteV1_unsigned r = DiscoveryFreshnessVoteV1_unsigned s \<longleftrightarrow> r\<lparr>fv_signature := []\<rparr> = s\<lparr>fv_signature := []\<rparr>"
  by (cases r; cases s) (simp add: DiscoveryFreshnessVoteV1_unsigned_def)

lemma DiscoveryFreshnessVoteV1_inj [simp]: "DiscoveryFreshnessVoteV1_sval r = DiscoveryFreshnessVoteV1_sval s \<longleftrightarrow> r = s"
  by (cases r; cases s) (simp add: DiscoveryFreshnessVoteV1_unsigned_def DiscoveryFreshnessVoteV1_sval_def)

definition DiscoveryFreshnessVoteV1_signing_bytes :: "host \<Rightarrow> DiscoveryFreshnessVoteV1 \<Rightarrow> (ProtocolError, bytes) result" where
  "DiscoveryFreshnessVoteV1_signing_bytes H r = frame H DISCOVERY_FRESHNESS_VOTE_SIGN_DOMAIN (STup (DiscoveryFreshnessVoteV1_unsigned r))"

record FriendPresenceV1 =
  fp_protocol_version :: u16
  fp_peer_id :: PeerId
  fp_public_key :: bytes32
  fp_requester_peer_id :: PeerId
  fp_nonce :: bytes32
  fp_issued_unix_ms :: u64
  fp_expires_unix_ms :: u64
  fp_signature :: bytes

definition FriendPresenceV1_unsigned :: "FriendPresenceV1 \<Rightarrow> sval list" where
  "FriendPresenceV1_unsigned r =
    [SU16 (fp_protocol_version r), sPeer (fp_peer_id r), SArr32 (fp_public_key r),
     sPeer (fp_requester_peer_id r), SArr32 (fp_nonce r), SU64 (fp_issued_unix_ms r),
     SU64 (fp_expires_unix_ms r)]"

definition FriendPresenceV1_tys :: "sty list" where
  "FriendPresenceV1_tys =
    [TU16, TArr32, TArr32, TArr32, TArr32, TU64, TU64]"

definition FriendPresenceV1_sval :: "FriendPresenceV1 \<Rightarrow> sval" where
  "FriendPresenceV1_sval r = STup (FriendPresenceV1_unsigned r @ [SBytes (fp_signature r)])"

definition FriendPresenceV1_ty :: sty where "FriendPresenceV1_ty = TTup (FriendPresenceV1_tys @ [TBytes])"

lemma FriendPresenceV1_typed [simp]:
  "has_ty (STup (FriendPresenceV1_unsigned r)) (TTup FriendPresenceV1_tys)"
  "has_ty (FriendPresenceV1_sval r) FriendPresenceV1_ty"
  by (simp_all add: FriendPresenceV1_unsigned_def FriendPresenceV1_tys_def FriendPresenceV1_sval_def FriendPresenceV1_ty_def)

lemma FriendPresenceV1_unsigned_inj:
  "FriendPresenceV1_unsigned r = FriendPresenceV1_unsigned s \<longleftrightarrow> r\<lparr>fp_signature := []\<rparr> = s\<lparr>fp_signature := []\<rparr>"
  by (cases r; cases s) (simp add: FriendPresenceV1_unsigned_def)

lemma FriendPresenceV1_inj [simp]: "FriendPresenceV1_sval r = FriendPresenceV1_sval s \<longleftrightarrow> r = s"
  by (cases r; cases s) (simp add: FriendPresenceV1_unsigned_def FriendPresenceV1_sval_def)

definition FriendPresenceV1_signing_bytes :: "host \<Rightarrow> FriendPresenceV1 \<Rightarrow> (ProtocolError, bytes) result" where
  "FriendPresenceV1_signing_bytes H r = frame H FRIEND_PRESENCE_SIGN_DOMAIN (STup (FriendPresenceV1_unsigned r))"

definition protocol_is_supported :: "FriendPresenceV1 \<Rightarrow> bool" where
  "protocol_is_supported p \<longleftrightarrow> fp_protocol_version p = PROTOCOL_VERSION"

end
