(* ===== verification/Semantics.thy ===== *)
theory Semantics
  imports DiscoveryRecords
begin

text \<open>
  \<open>crates/swarm-protocol/src/semantics.rs\<close>: the stateless validators that run before any
  signature is made or checked, the compatibility fingerprint they guard, and what acceptance by
  each of them means.
\<close>

section \<open>Error texts\<close>

fun show_nat :: "nat \<Rightarrow> string" where
  "show_nat n = (if n < 10 then [char_of (48 + n)] else show_nat (n div 10) @ [char_of (48 + n mod 10)])"

declare show_nat.simps [simp del]

fun show_side :: "ArtifactSideV1 \<Rightarrow> string" where
  "show_side Server = ''Server''"
| "show_side Client = ''Client''"
| "show_side Both = ''Both''"

definition semantic_error :: "string \<Rightarrow> string \<Rightarrow> ProtocolError" where
  "semantic_error record_name detail = InvalidIdentifier record_name detail"

section \<open>Shared requirements\<close>

definition require_protocol_version :: "string \<Rightarrow> u16 \<Rightarrow> (ProtocolError, unit) result" where
  "require_protocol_version record_name version = ensure (version = PROTOCOL_VERSION)
    (semantic_error record_name (''unsupported protocol version '' @ show_nat (unat version)
      @ ''; expected '' @ show_nat (unat PROTOCOL_VERSION)))"

definition require_strict_peer_order :: "string \<Rightarrow> WorldMemberV1 list \<Rightarrow> (ProtocolError, unit) result" where
  "require_strict_peer_order record_name members =
    (if members = [] then Err (semantic_error record_name ''member set must not be empty'')
     else if list_ex (\<lambda>(a, b). wm_peer_id b \<le> wm_peer_id a) (windows2 members)
     then Err (semantic_error record_name ''members must be strictly ordered by peer_id with no duplicates'')
     else Ok ())"

definition require_strict_peer_id_order :: "string \<Rightarrow> PeerId list \<Rightarrow> (ProtocolError, unit) result" where
  "require_strict_peer_id_order record_name peers =
    (if peers = [] then Err (semantic_error record_name ''initial membership must not be empty'')
     else if list_ex (\<lambda>(a, b). b \<le> a) (windows2 peers)
     then Err (semantic_error record_name ''initial membership must be strictly ordered with no duplicates'')
     else Ok ())"

definition require_snapshot_entry_order :: "SnapshotEntry list \<Rightarrow> (ProtocolError, unit) result" where
  "require_snapshot_entry_order entries =
    (if list_ex (\<lambda>(a, b). se_path b \<le> se_path a) (windows2 entries)
     then Err (semantic_error ''snapshot manifest'' ''entries must be strictly ordered by path with no duplicates'')
     else Ok ())"

definition artifact_identity :: "ArtifactRequirementV1 \<Rightarrow> string \<times> string \<times> Hash32 \<times> ArtifactSideV1" where
  "artifact_identity a = (ar_artifact_id a, ar_version a, ar_artifact_hash a, ar_side a)"

definition require_unique_artifact_keys ::
    "string \<Rightarrow> ArtifactRequirementV1 list \<Rightarrow> (ProtocolError, unit) result" where
  "require_unique_artifact_keys record_name values =
    and_then (try_fold (\<lambda>seen value.
        if artifact_identity value \<in> seen
        then Err (semantic_error record_name (''duplicate runtime artifact requirement '' @ ar_artifact_id value
          @ '' '' @ ar_version value @ '' '' @ show_side (ar_side value)
          @ ''; provider_hint cannot disambiguate canonical identity''))
        else Ok (insert (artifact_identity value) seen)) {} values)
      (\<lambda>_. Ok ())"

section \<open>Record validators\<close>

definition WorldGenesisV1_validate_semantics :: "WorldGenesisV1 \<Rightarrow> (ProtocolError, unit) result" where
  "WorldGenesisV1_validate_semantics g =
    and_then (require_protocol_version ''world genesis'' (gen_protocol_version g)) (\<lambda>_.
    require_strict_peer_id_order ''world genesis'' (gen_initial_membership g))"

definition SnapshotManifestV1_validate_semantics ::
    "host \<Rightarrow> SnapshotManifestV1 \<Rightarrow> (ProtocolError, unit) result" where
  "SnapshotManifestV1_validate_semantics H m =
    and_then (require_protocol_version ''snapshot manifest'' (sm_protocol_version m)) (\<lambda>_.
    and_then (require_snapshot_entry_order (sm_entries m)) (\<lambda>_.
    and_then (snapshot_state_root H (sm_entries m)) (\<lambda>root.
    ensure (root = sm_state_root m)
      (semantic_error ''snapshot manifest'' ''state_root does not match canonical entries''))))"

definition EpochRecordV1_validate_semantics :: "EpochRecordV1 \<Rightarrow> (ProtocolError, unit) result" where
  "EpochRecordV1_validate_semantics r = require_protocol_version ''epoch record'' (er_protocol_version r)"

definition WorldDescriptorV1_validate_semantics :: "WorldDescriptorV1 \<Rightarrow> (ProtocolError, unit) result" where
  "WorldDescriptorV1_validate_semantics d =
    and_then (require_protocol_version ''world descriptor'' (wd_protocol_version d)) (\<lambda>_.
    require_strict_peer_order ''world descriptor'' (wd_members d))"

definition MembershipRecordV1_validate_semantics :: "MembershipRecordV1 \<Rightarrow> (ProtocolError, unit) result" where
  "MembershipRecordV1_validate_semantics m =
    and_then (require_protocol_version ''membership record'' (mr_protocol_version m)) (\<lambda>_.
    require_strict_peer_order ''membership record'' (mr_members m))"

definition InviteV1_validate_semantics :: "host \<Rightarrow> InviteV1 \<Rightarrow> (ProtocolError, unit) result" where
  "InviteV1_validate_semantics H i =
    and_then (require_protocol_version ''invite'' (inv_protocol_version i)) (\<lambda>_.
    and_then (WorldGenesisV1_validate_semantics (inv_genesis i)) (\<lambda>_.
    and_then (genesis_world_id H (inv_genesis i)) (\<lambda>world.
    ensure (world = inv_world_id i) (semantic_error ''invite'' ''world_id does not match genesis''))))"

definition AuthorityTransferV1_validate_semantics :: "AuthorityTransferV1 \<Rightarrow> (ProtocolError, unit) result" where
  "AuthorityTransferV1_validate_semantics t =
    require_protocol_version ''authority transfer'' (at_protocol_version t)"

definition AuthorityLeaseGrantV1_validate_semantics :: "AuthorityLeaseGrantV1 \<Rightarrow> (ProtocolError, unit) result" where
  "AuthorityLeaseGrantV1_validate_semantics g =
    require_protocol_version ''authority lease grant'' (lg_protocol_version g)"

definition JoinRequestV1_validate_semantics :: "host \<Rightarrow> JoinRequestV1 \<Rightarrow> (ProtocolError, unit) result" where
  "JoinRequestV1_validate_semantics H r =
    (if \<not> JoinRequestV1_validate_shape H r
     then Err (semantic_error ''join request'' ''record shape or protocol version is invalid'')
     else InviteV1_validate_semantics H (jr_invite r))"

definition LeaveRequestV1_validate_semantics :: "host \<Rightarrow> LeaveRequestV1 \<Rightarrow> (ProtocolError, unit) result" where
  "LeaveRequestV1_validate_semantics H r =
    (if \<not> LeaveRequestV1_validate_shape H r
     then Err (semantic_error ''leave request'' ''record shape or protocol version is invalid'')
     else Ok ())"

definition SleepRecordV1_validate_semantics :: "SleepRecordV1 \<Rightarrow> (ProtocolError, unit) result" where
  "SleepRecordV1_validate_semantics r = require_protocol_version ''sleep record'' (sl_protocol_version r)"

definition RuntimeCompatibilityManifestV1_validate_semantics ::
    "RuntimeCompatibilityManifestV1 \<Rightarrow> (ProtocolError, unit) result" where
  "RuntimeCompatibilityManifestV1_validate_semantics m =
    and_then (require_protocol_version ''runtime compatibility manifest'' (rc_swarmcraft_protocol_version m)) (\<lambda>_.
    and_then (require_unique_artifact_keys ''server mod requirements'' (rc_required_server_mods m)) (\<lambda>_.
    and_then (require_unique_artifact_keys ''client mod requirements'' (rc_required_client_mods m)) (\<lambda>_.
    require_unique_artifact_keys ''datapack requirements'' (rc_datapacks m))))"

definition WorldConfigV1_validate_semantics :: "WorldConfigV1 \<Rightarrow> (ProtocolError, unit) result" where
  "WorldConfigV1_validate_semantics c =
    and_then (require_protocol_version ''world config'' (wc_protocol_version c)) (\<lambda>_.
    RuntimeCompatibilityManifestV1_validate_semantics (wc_compatibility c))"

definition MembershipVoteV1_validate_semantics :: "MembershipVoteV1 \<Rightarrow> (ProtocolError, unit) result" where
  "MembershipVoteV1_validate_semantics v = require_protocol_version ''membership vote'' (mv_protocol_version v)"

definition RecoveryBallotV1_validate_semantics :: "RecoveryBallotV1 \<Rightarrow> (ProtocolError, unit) result" where
  "RecoveryBallotV1_validate_semantics b =
    and_then (require_protocol_version ''recovery ballot'' (rb_protocol_version b)) (\<lambda>_.
    ensure (generation_is_well_formed b)
      (semantic_error ''recovery ballot'' ''authority generation is not a strict next generation''))"

definition RecoveryVoteV1_validate_semantics :: "RecoveryVoteV1 \<Rightarrow> (ProtocolError, unit) result" where
  "RecoveryVoteV1_validate_semantics v = require_protocol_version ''recovery vote'' (rv_protocol_version v)"

definition SoloBranchV1_validate_semantics :: "SoloBranchV1 \<Rightarrow> (ProtocolError, unit) result" where
  "SoloBranchV1_validate_semantics b = require_protocol_version ''solo branch'' (sb_protocol_version b)"

definition fingerprint :: "host \<Rightarrow> RuntimeCompatibilityManifestV1 \<Rightarrow> (ProtocolError, Hash32) result" where
  "fingerprint H m =
    and_then (RuntimeCompatibilityManifestV1_validate_semantics m) (\<lambda>_.
    let normalized = RuntimeCompatibilityManifestV1_normalize m
    in and_then (to_allocvec H (RuntimeCompatibilityManifestV1_sval normalized)) (\<lambda>bytes.
    Ok (from_domain_bytes H COMPATIBILITY_MANIFEST_DOMAIN bytes)))"

definition compatibility_fingerprint :: "host \<Rightarrow> WorldConfigV1 \<Rightarrow> (ProtocolError, Hash32) result" where
  "compatibility_fingerprint H c = fingerprint H (wc_compatibility c)"

section \<open>What acceptance means\<close>

lemma require_protocol_version_Ok [simp]:
  "require_protocol_version name v = Ok u \<longleftrightarrow> v = PROTOCOL_VERSION"
  by (simp add: require_protocol_version_def)

lemma require_strict_peer_order_Ok [simp]:
  "require_strict_peer_order name ms = Ok u \<longleftrightarrow> ms \<noteq> [] \<and> ascending_by wm_peer_id ms"
  by (auto simp: require_strict_peer_order_def ascending_by_def)

lemma require_strict_peer_id_order_Ok [simp]:
  "require_strict_peer_id_order name ps = Ok u \<longleftrightarrow> ps \<noteq> [] \<and> ascending_by (\<lambda>p. p) ps"
  by (auto simp: require_strict_peer_id_order_def ascending_by_def)

lemma require_snapshot_entry_order_Ok [simp]:
  "require_snapshot_entry_order es = Ok u \<longleftrightarrow> ascending_by se_path es"
  by (auto simp: require_snapshot_entry_order_def ascending_by_def)

lemma unique_keys_fold:
  "(\<exists>t. try_fold (\<lambda>seen v. if key v \<in> seen then Err (e v) else Ok (insert (key v) seen)) s vs = Ok t)
    \<longleftrightarrow> distinct (map key vs) \<and> s \<inter> key ` set vs = {}"
  by (induction vs arbitrary: s) auto

lemma require_unique_artifact_keys_Ok [simp]:
  "require_unique_artifact_keys name vs = Ok u \<longleftrightarrow> distinct (map artifact_identity vs)"
  by (simp add: require_unique_artifact_keys_def unique_keys_fold)

lemmas validate_semantics_defs =
  WorldGenesisV1_validate_semantics_def SnapshotManifestV1_validate_semantics_def
  EpochRecordV1_validate_semantics_def WorldDescriptorV1_validate_semantics_def
  MembershipRecordV1_validate_semantics_def InviteV1_validate_semantics_def
  AuthorityTransferV1_validate_semantics_def AuthorityLeaseGrantV1_validate_semantics_def
  JoinRequestV1_validate_semantics_def LeaveRequestV1_validate_semantics_def
  SleepRecordV1_validate_semantics_def RuntimeCompatibilityManifestV1_validate_semantics_def
  WorldConfigV1_validate_semantics_def MembershipVoteV1_validate_semantics_def
  RecoveryBallotV1_validate_semantics_def RecoveryVoteV1_validate_semantics_def
  SoloBranchV1_validate_semantics_def

text \<open>
  C40. Normalising a world descriptor repairs its member order and nothing else: the result
  passes validation exactly when the version is supported and there is a member, looking up any peer
  finds the same member as before (the first of several entries for one peer), and a descriptor
  that already validates is left unchanged.
\<close>

theorem descriptor_normalize_canonical:
  "(is_ok (WorldDescriptorV1_validate_semantics (WorldDescriptorV1_normalize d)) \<longleftrightarrow>
      wd_protocol_version d = PROTOCOL_VERSION \<and> wd_members d \<noteq> [])
   \<and> WorldDescriptorV1_member (WorldDescriptorV1_normalize d) p = WorldDescriptorV1_member d p
   \<and> (is_ok (WorldDescriptorV1_validate_semantics d) \<longrightarrow> WorldDescriptorV1_normalize d = d)"
proof -
  have "sort_dedup wm_peer_id ms \<noteq> [] \<longleftrightarrow> ms \<noteq> []" for ms
    using sort_dedup_keys [of wm_peer_id ms] by (metis image_is_empty set_empty)
  then show ?thesis
    by (auto simp: WorldDescriptorV1_normalize_def WorldDescriptorV1_member_def is_ok_iff
        validate_semantics_defs sort_dedup_ascending sort_dedup_find sort_dedup_id)
qed

abbreviation sample_member :: "bytes32 \<Rightarrow> WorldMemberV1" where
  "sample_member k \<equiv> \<lparr>wm_peer_id = PeerId k, wm_public_key = k, wm_authority_eligible = True, wm_banned = False\<rparr>"

theorem descriptor_normalize_canonical_witness:
  "WorldDescriptorV1_normalize \<lparr>wd_protocol_version = 1, wd_world_id = WorldId 7,
      wd_compatibility_fingerprint = Hash32 0, wd_members = [sample_member 5, sample_member 7],
      wd_preferred_replication_factor = 2\<rparr>
    = \<lparr>wd_protocol_version = 1, wd_world_id = WorldId 7,
      wd_compatibility_fingerprint = Hash32 0, wd_members = [sample_member 5, sample_member 7],
      wd_preferred_replication_factor = 2\<rparr>"
  using descriptor_normalize_canonical [of "\<lparr>wd_protocol_version = 1, wd_world_id = WorldId 7,
      wd_compatibility_fingerprint = Hash32 0, wd_members = [sample_member 5, sample_member 7],
      wd_preferred_replication_factor = 2\<rparr>"]
  by (simp add: validate_semantics_defs is_ok_iff ascending_by_def PROTOCOL_VERSION_def)

end
