(* ===== verification/Identity.thy ===== *)
theory Identity
  imports Semantics
begin

text \<open>
  \<open>crates/swarm-core/src\<close> (\<open>lib.rs\<close>, \<open>protocol_v2.rs\<close>, \<open>lifecycle.rs\<close>):
  peer identities and the signing and verification of protocol records.  A \<open>sign_x\<close> function
  mutates its record; the model returns the signed record in the \<open>Ok\<close> branch (every caller drops the
  record when signing fails).  Nonces drawn from the operating system are arguments.

  The locale \<open>signed_record\<close> is the contract of one signable kind: how the signer's fields are
  set, what is validated and which bytes are signed, none of which may depend on the signature
  itself.  It is interpreted for every kind the crate signs and verifies.
\<close>

section \<open>Identities\<close>

datatype CoreError =
    DataDirectoryUnavailable
  | Io
  | InvalidIdentityKey nat
  | PeerIdentityMismatch
  | SignatureInvalid
  | Protocol ProtocolError

record PeerIdentity =
  signing_key :: bytes32

definition from_secret_bytes :: "bytes32 \<Rightarrow> PeerIdentity" where
  "from_secret_bytes secret = \<lparr>signing_key = secret\<rparr>"

text \<open>\<open>load_or_create\<close> on the bytes of an existing key file (\<open>Some\<close>), or with a freshly
  generated secret when there is none, which it then stores.\<close>

definition load_or_create :: "bytes option \<Rightarrow> bytes32 \<Rightarrow> (CoreError, PeerIdentity \<times> bytes option) result" where
  "load_or_create key_file fresh =
    (case key_file of
       Some bytes \<Rightarrow> and_then (ok_or (of_be_bytes bytes) (InvalidIdentityKey (length bytes)))
         (\<lambda>secret. Ok (from_secret_bytes secret, key_file))
     | None \<Rightarrow> Ok (from_secret_bytes fresh, Some (be_bytes fresh)))"

definition public_key :: "host \<Rightarrow> PeerIdentity \<Rightarrow> bytes32" where
  "public_key H i = ed25519_public H (signing_key i)"

definition peer_id :: "host \<Rightarrow> PeerIdentity \<Rightarrow> PeerId" where
  "peer_id H i = peer_id_from_public_key H (public_key H i)"

definition identity_sign :: "host \<Rightarrow> PeerIdentity \<Rightarrow> bytes \<Rightarrow> bytes" where
  "identity_sign H i message = ed25519_sign H (signing_key i) message"

definition verify_signature :: "host \<Rightarrow> PeerId \<Rightarrow> bytes32 \<Rightarrow> bytes \<Rightarrow> bytes \<Rightarrow> (CoreError, unit) result" where
  "verify_signature H expected_peer key message sig =
    (if peer_id_from_public_key H key \<noteq> expected_peer then Err PeerIdentityMismatch
     else if \<not> ed25519_key_ok H key then Err SignatureInvalid
     else if \<not> ed25519_sig_ok H sig then Err SignatureInvalid
     else if \<not> ed25519_verify H key message sig then Err SignatureInvalid
     else Ok ())"

section \<open>Signing and verifying records\<close>

definition sign_snapshot :: "host \<Rightarrow> PeerIdentity \<Rightarrow> SnapshotManifestV1 \<Rightarrow> (CoreError, SnapshotManifestV1) result" where
  "sign_snapshot H i m =
    (let m1 = m\<lparr>sm_authority_public_key := public_key H i, sm_authority_peer_id := peer_id H i\<rparr>
     in and_then (map_err Protocol (SnapshotManifestV1_validate_semantics H m1)) (\<lambda>_.
     let cleared = m1\<lparr>sm_signature := []\<rparr>
     in and_then (map_err Protocol (SnapshotManifestV1_signing_bytes H cleared)) (\<lambda>message.
     Ok (cleared\<lparr>sm_signature := identity_sign H i message\<rparr>))))"

definition verify_snapshot_signature :: "host \<Rightarrow> SnapshotManifestV1 \<Rightarrow> (CoreError, unit) result" where
  "verify_snapshot_signature H m =
    and_then (map_err Protocol (SnapshotManifestV1_validate_semantics H m)) (\<lambda>_.
    and_then (map_err Protocol (SnapshotManifestV1_signing_bytes H m)) (\<lambda>message.
    verify_signature H (sm_authority_peer_id m) (sm_authority_public_key m) message (sm_signature m)))"

definition sign_membership :: "host \<Rightarrow> PeerIdentity \<Rightarrow> MembershipRecordV1 \<Rightarrow> (CoreError, MembershipRecordV1) result" where
  "sign_membership H i m =
    (let m1 = m\<lparr>mr_authority_public_key := public_key H i, mr_authority_peer_id := peer_id H i\<rparr>
     in and_then (map_err Protocol (MembershipRecordV1_validate_semantics m1)) (\<lambda>_.
     let cleared = m1\<lparr>mr_signature := []\<rparr>
     in and_then (map_err Protocol (MembershipRecordV1_signing_bytes H cleared)) (\<lambda>message.
     Ok (cleared\<lparr>mr_signature := identity_sign H i message\<rparr>))))"

definition verify_membership_signature :: "host \<Rightarrow> MembershipRecordV1 \<Rightarrow> (CoreError, unit) result" where
  "verify_membership_signature H m =
    and_then (map_err Protocol (MembershipRecordV1_validate_semantics m)) (\<lambda>_.
    and_then (map_err Protocol (MembershipRecordV1_signing_bytes H m)) (\<lambda>message.
    verify_signature H (mr_authority_peer_id m) (mr_authority_public_key m) message (mr_signature m)))"

definition sign_invite :: "host \<Rightarrow> PeerIdentity \<Rightarrow> InviteV1 \<Rightarrow> (CoreError, InviteV1) result" where
  "sign_invite H i m =
    (let m1 = m\<lparr>inv_inviter_public_key := public_key H i, inv_inviter_peer_id := peer_id H i\<rparr>
     in and_then (map_err Protocol (InviteV1_validate_semantics H m1)) (\<lambda>_.
     let cleared = m1\<lparr>inv_signature := []\<rparr>
     in and_then (map_err Protocol (InviteV1_signing_bytes H cleared)) (\<lambda>message.
     Ok (cleared\<lparr>inv_signature := identity_sign H i message\<rparr>))))"

definition verify_invite_signature :: "host \<Rightarrow> InviteV1 \<Rightarrow> (CoreError, unit) result" where
  "verify_invite_signature H m =
    and_then (map_err Protocol (InviteV1_validate_semantics H m)) (\<lambda>_.
    and_then (map_err Protocol (InviteV1_signing_bytes H m)) (\<lambda>message.
    verify_signature H (inv_inviter_peer_id m) (inv_inviter_public_key m) message (inv_signature m)))"

definition sign_transfer :: "host \<Rightarrow> PeerIdentity \<Rightarrow> AuthorityTransferV1 \<Rightarrow> (CoreError, AuthorityTransferV1) result" where
  "sign_transfer H i t =
    (let t1 = t\<lparr>at_signer_public_key := public_key H i, at_signer_peer_id := peer_id H i\<rparr>
     in and_then (map_err Protocol (AuthorityTransferV1_validate_semantics t1)) (\<lambda>_.
     let cleared = t1\<lparr>at_signature := []\<rparr>
     in and_then (map_err Protocol (AuthorityTransferV1_signing_bytes H cleared)) (\<lambda>message.
     Ok (cleared\<lparr>at_signature := identity_sign H i message\<rparr>))))"

definition verify_transfer_signature :: "host \<Rightarrow> AuthorityTransferV1 \<Rightarrow> (CoreError, unit) result" where
  "verify_transfer_signature H t =
    and_then (map_err Protocol (AuthorityTransferV1_validate_semantics t)) (\<lambda>_.
    and_then (map_err Protocol (AuthorityTransferV1_signing_bytes H t)) (\<lambda>message.
    verify_signature H (at_signer_peer_id t) (at_signer_public_key t) message (at_signature t)))"

definition sign_lease :: "host \<Rightarrow> PeerIdentity \<Rightarrow> AuthorityLeaseGrantV1 \<Rightarrow> (CoreError, AuthorityLeaseGrantV1) result" where
  "sign_lease H i g =
    (let g1 = g\<lparr>lg_authority_public_key := public_key H i, lg_authority_peer_id := peer_id H i\<rparr>
     in and_then (map_err Protocol (AuthorityLeaseGrantV1_validate_semantics g1)) (\<lambda>_.
     let cleared = g1\<lparr>lg_signature := []\<rparr>
     in and_then (map_err Protocol (AuthorityLeaseGrantV1_signing_bytes H cleared)) (\<lambda>message.
     Ok (cleared\<lparr>lg_signature := identity_sign H i message\<rparr>))))"

definition verify_lease_signature :: "host \<Rightarrow> AuthorityLeaseGrantV1 \<Rightarrow> (CoreError, unit) result" where
  "verify_lease_signature H g =
    and_then (map_err Protocol (AuthorityLeaseGrantV1_validate_semantics g)) (\<lambda>_.
    and_then (map_err Protocol (AuthorityLeaseGrantV1_signing_bytes H g)) (\<lambda>message.
    verify_signature H (lg_authority_peer_id g) (lg_authority_public_key g) message (lg_signature g)))"

definition sign_recovery_ballot :: "host \<Rightarrow> PeerIdentity \<Rightarrow> RecoveryBallotV1 \<Rightarrow> (CoreError, RecoveryBallotV1) result" where
  "sign_recovery_ballot H i b =
    (let b1 = b\<lparr>rb_candidate_public_key := public_key H i, rb_candidate_peer_id := peer_id H i\<rparr>
     in and_then (map_err Protocol (RecoveryBallotV1_validate_semantics b1)) (\<lambda>_.
     let cleared = b1\<lparr>rb_signature := []\<rparr>
     in and_then (map_err Protocol (RecoveryBallotV1_signing_bytes H cleared)) (\<lambda>message.
     Ok (cleared\<lparr>rb_signature := identity_sign H i message\<rparr>))))"

definition verify_recovery_ballot_signature :: "host \<Rightarrow> RecoveryBallotV1 \<Rightarrow> (CoreError, unit) result" where
  "verify_recovery_ballot_signature H b =
    and_then (map_err Protocol (RecoveryBallotV1_validate_semantics b)) (\<lambda>_.
    and_then (map_err Protocol (RecoveryBallotV1_signing_bytes H b)) (\<lambda>message.
    verify_signature H (rb_candidate_peer_id b) (rb_candidate_public_key b) message (rb_signature b)))"

definition sign_recovery_vote :: "host \<Rightarrow> PeerIdentity \<Rightarrow> RecoveryVoteV1 \<Rightarrow> (CoreError, RecoveryVoteV1) result" where
  "sign_recovery_vote H i v =
    (let v1 = v\<lparr>rv_voter_public_key := public_key H i, rv_voter_peer_id := peer_id H i\<rparr>
     in and_then (map_err Protocol (RecoveryVoteV1_validate_semantics v1)) (\<lambda>_.
     let cleared = v1\<lparr>rv_signature := []\<rparr>
     in and_then (map_err Protocol (RecoveryVoteV1_signing_bytes H cleared)) (\<lambda>message.
     Ok (cleared\<lparr>rv_signature := identity_sign H i message\<rparr>))))"

definition verify_recovery_vote_signature :: "host \<Rightarrow> RecoveryVoteV1 \<Rightarrow> (CoreError, unit) result" where
  "verify_recovery_vote_signature H v =
    and_then (map_err Protocol (RecoveryVoteV1_validate_semantics v)) (\<lambda>_.
    and_then (map_err Protocol (RecoveryVoteV1_signing_bytes H v)) (\<lambda>message.
    verify_signature H (rv_voter_peer_id v) (rv_voter_public_key v) message (rv_signature v)))"

definition sign_world_config :: "host \<Rightarrow> PeerIdentity \<Rightarrow> WorldConfigV1 \<Rightarrow> (CoreError, WorldConfigV1) result" where
  "sign_world_config H i c =
    (let c1 = normalize_canonical c;
         c2 = c1\<lparr>wc_authority_peer_id := peer_id H i, wc_authority_public_key := public_key H i\<rparr>
     in and_then (map_err Protocol (WorldConfigV1_validate_semantics c2)) (\<lambda>_.
     let cleared = c2\<lparr>wc_signature := []\<rparr>
     in and_then (map_err Protocol (WorldConfigV1_signing_bytes H cleared)) (\<lambda>message.
     Ok (cleared\<lparr>wc_signature := identity_sign H i message\<rparr>))))"

definition verify_world_config_signature :: "host \<Rightarrow> WorldConfigV1 \<Rightarrow> (CoreError, unit) result" where
  "verify_world_config_signature H c =
    and_then (map_err Protocol (WorldConfigV1_validate_semantics c)) (\<lambda>_.
    and_then (map_err Protocol (WorldConfigV1_signing_bytes H c)) (\<lambda>message.
    verify_signature H (wc_authority_peer_id c) (wc_authority_public_key c) message (wc_signature c)))"

definition sign_solo_branch :: "host \<Rightarrow> PeerIdentity \<Rightarrow> SoloBranchV1 \<Rightarrow> (CoreError, SoloBranchV1) result" where
  "sign_solo_branch H i b =
    (let b1 = b\<lparr>sb_authority_public_key := public_key H i, sb_authority_peer_id := peer_id H i\<rparr>
     in and_then (map_err Protocol (SoloBranchV1_validate_semantics b1)) (\<lambda>_.
     let cleared = b1\<lparr>sb_signature := []\<rparr>
     in and_then (map_err Protocol (SoloBranchV1_signing_bytes H cleared)) (\<lambda>message.
     Ok (cleared\<lparr>sb_signature := identity_sign H i message\<rparr>))))"

definition verify_solo_branch_signature :: "host \<Rightarrow> SoloBranchV1 \<Rightarrow> (CoreError, unit) result" where
  "verify_solo_branch_signature H b =
    and_then (map_err Protocol (SoloBranchV1_validate_semantics b)) (\<lambda>_.
    and_then (map_err Protocol (SoloBranchV1_signing_bytes H b)) (\<lambda>message.
    verify_signature H (sb_authority_peer_id b) (sb_authority_public_key b) message (sb_signature b)))"

definition sign_leave_request :: "host \<Rightarrow> PeerIdentity \<Rightarrow> LeaveRequestV1 \<Rightarrow> (CoreError, LeaveRequestV1) result" where
  "sign_leave_request H i r =
    (let r1 = r\<lparr>lv_leaving_public_key := public_key H i, lv_leaving_peer_id := peer_id H i\<rparr>
     in and_then (map_err Protocol (LeaveRequestV1_validate_semantics H r1)) (\<lambda>_.
     let cleared = r1\<lparr>lv_signature := []\<rparr>
     in and_then (map_err Protocol (LeaveRequestV1_signing_bytes H cleared)) (\<lambda>message.
     Ok (cleared\<lparr>lv_signature := identity_sign H i message\<rparr>))))"

definition verify_leave_request_signature :: "host \<Rightarrow> LeaveRequestV1 \<Rightarrow> (CoreError, unit) result" where
  "verify_leave_request_signature H r =
    and_then (map_err Protocol (LeaveRequestV1_validate_semantics H r)) (\<lambda>_.
    and_then (map_err Protocol (LeaveRequestV1_signing_bytes H r)) (\<lambda>message.
    verify_signature H (lv_leaving_peer_id r) (lv_leaving_public_key r) message (lv_signature r)))"

definition sign_sleep_record :: "host \<Rightarrow> PeerIdentity \<Rightarrow> SleepRecordV1 \<Rightarrow> (CoreError, SleepRecordV1) result" where
  "sign_sleep_record H i r =
    (let r1 = r\<lparr>sl_authority_public_key := public_key H i, sl_authority_peer_id := peer_id H i\<rparr>
     in and_then (map_err Protocol (SleepRecordV1_validate_semantics r1)) (\<lambda>_.
     let cleared = r1\<lparr>sl_signature := []\<rparr>
     in and_then (map_err Protocol (SleepRecordV1_signing_bytes H cleared)) (\<lambda>message.
     Ok (cleared\<lparr>sl_signature := identity_sign H i message\<rparr>))))"

definition verify_sleep_record_signature :: "host \<Rightarrow> SleepRecordV1 \<Rightarrow> (CoreError, unit) result" where
  "verify_sleep_record_signature H r =
    and_then (map_err Protocol (SleepRecordV1_validate_semantics r)) (\<lambda>_.
    and_then (map_err Protocol (SleepRecordV1_signing_bytes H r)) (\<lambda>message.
    verify_signature H (sl_authority_peer_id r) (sl_authority_public_key r) message (sl_signature r)))"

definition sign_join_request :: "host \<Rightarrow> PeerIdentity \<Rightarrow> JoinRequestV1 \<Rightarrow> (CoreError, JoinRequestV1) result" where
  "sign_join_request H i r =
    (let r1 = r\<lparr>jr_joining_member := (jr_joining_member r)\<lparr>
           wm_peer_id := peer_id H i, wm_public_key := public_key H i\<rparr>\<rparr>
     in and_then (map_err Protocol (JoinRequestV1_validate_semantics H r1)) (\<lambda>_.
     let cleared = r1\<lparr>jr_signature := []\<rparr>
     in and_then (map_err Protocol (JoinRequestV1_signing_bytes H cleared)) (\<lambda>message.
     Ok (cleared\<lparr>jr_signature := identity_sign H i message\<rparr>))))"

definition verify_join_request_signature :: "host \<Rightarrow> JoinRequestV1 \<Rightarrow> (CoreError, unit) result" where
  "verify_join_request_signature H r =
    and_then (map_err Protocol (JoinRequestV1_validate_semantics H r)) (\<lambda>_.
    and_then (map_err Protocol (JoinRequestV1_signing_bytes H r)) (\<lambda>message.
    verify_signature H (wm_peer_id (jr_joining_member r)) (wm_public_key (jr_joining_member r)) message
      (jr_signature r)))"

definition signed_peer_hello :: "host \<Rightarrow> PeerIdentity \<Rightarrow> string list \<Rightarrow> bytes32 \<Rightarrow> (CoreError, PeerHelloV1) result" where
  "signed_peer_hello H i capabilities nonce =
    (let hello = \<lparr>ph_peer_id = peer_id H i, ph_public_key = public_key H i,
           ph_protocol_versions = [PROTOCOL_VERSION], ph_capabilities = capabilities,
           ph_nonce = nonce, ph_signature = []\<rparr>
     in and_then (map_err Protocol (PeerHelloV1_signing_bytes H hello)) (\<lambda>message.
     Ok (hello\<lparr>ph_signature := identity_sign H i message\<rparr>)))"

section \<open>World genesis\<close>

definition create_world_genesis_with_fingerprint ::
    "host \<Rightarrow> PeerIdentity \<Rightarrow> string \<Rightarrow> string \<Rightarrow> Hash32 \<Rightarrow> bytes32 \<Rightarrow> (CoreError, WorldId \<times> WorldGenesisV1) result" where
  "create_world_genesis_with_fingerprint H i minecraft_version fabric_loader_version fp nonce =
    (let genesis = \<lparr>gen_protocol_version = PROTOCOL_VERSION, gen_minecraft_version = minecraft_version,
           gen_fabric_loader_version = fabric_loader_version, gen_compatibility_fingerprint = fp,
           gen_creation_nonce = nonce, gen_creator_public_key = public_key H i,
           gen_initial_membership = [peer_id H i]\<rparr>
     in and_then (map_err Protocol (WorldGenesisV1_validate_semantics genesis)) (\<lambda>_.
     and_then (map_err Protocol (genesis_world_id H genesis)) (\<lambda>world_id.
     Ok (world_id, genesis))))"

definition create_world_genesis ::
    "host \<Rightarrow> PeerIdentity \<Rightarrow> string \<Rightarrow> string \<Rightarrow> bytes \<Rightarrow> bytes32 \<Rightarrow> (CoreError, WorldId \<times> WorldGenesisV1) result" where
  "create_world_genesis H i minecraft_version fabric_loader_version compatibility_material nonce =
    (let genesis = \<lparr>gen_protocol_version = PROTOCOL_VERSION, gen_minecraft_version = minecraft_version,
           gen_fabric_loader_version = fabric_loader_version,
           gen_compatibility_fingerprint = Hash32 (blake3 H compatibility_material),
           gen_creation_nonce = nonce, gen_creator_public_key = public_key H i,
           gen_initial_membership = [peer_id H i]\<rparr>
     in and_then (map_err Protocol (WorldGenesisV1_validate_semantics genesis)) (\<lambda>_.
     and_then (map_err Protocol (genesis_world_id H genesis)) (\<lambda>world_id.
     Ok (world_id, genesis))))"

section \<open>The contract of a signable kind\<close>

lemma verify_signature_Ok [simp]:
  "verify_signature H p key msg sig = Ok u \<longleftrightarrow>
    peer_id_from_public_key H key = p \<and> ed25519_key_ok H key \<and> ed25519_sig_ok H sig
    \<and> ed25519_verify H key msg sig"
  by (auto simp: verify_signature_def)

locale signed_record =
  fixes prepare :: "host \<Rightarrow> PeerIdentity \<Rightarrow> 'r \<Rightarrow> 'r"
    and semantics :: "host \<Rightarrow> 'r \<Rightarrow> (ProtocolError, unit) result"
    and message :: "host \<Rightarrow> 'r \<Rightarrow> (ProtocolError, bytes) result"
    and signer_peer :: "'r \<Rightarrow> PeerId"
    and signer_key :: "'r \<Rightarrow> bytes32"
    and signature :: "'r \<Rightarrow> bytes"
    and set_signature :: "bytes \<Rightarrow> 'r \<Rightarrow> 'r"
    and sign_record :: "host \<Rightarrow> PeerIdentity \<Rightarrow> 'r \<Rightarrow> (CoreError, 'r) result"
    and verify_record :: "host \<Rightarrow> 'r \<Rightarrow> (CoreError, unit) result"
  assumes semantics_unsigned: "semantics H (set_signature s r) = semantics H r"
    and message_unsigned: "message H (set_signature s r) = message H r"
    and signer_unsigned: "signer_peer (set_signature s r) = signer_peer r"
      "signer_key (set_signature s r) = signer_key r"
    and signature_set: "signature (set_signature s r) = s"
    and prepared_signer: "signer_peer (prepare H i r) = peer_id H i" "signer_key (prepare H i r) = public_key H i"
    and sign_Ok: "sign_record H i r = Inr r' \<longleftrightarrow> semantics H (prepare H i r) = Inr ()
      \<and> (\<exists>m. message H (prepare H i r) = Inr m \<and> r' = set_signature (identity_sign H i m) (prepare H i r))"
    and verify_Ok: "verify_record H r = Inr () \<longleftrightarrow> semantics H r = Inr ()
      \<and> (\<exists>m. message H r = Inr m \<and> verify_signature H (signer_peer r) (signer_key r) m (signature r) = Inr ())"
begin

lemma sign_then_verify:
  assumes "ed25519_correct H" "sign_record H i r = Inr r'"
  shows "verify_record H r' = Inr ()"
  using assms
  by (auto simp: sign_Ok verify_Ok semantics_unsigned message_unsigned signer_unsigned signature_set
      prepared_signer ed25519_correct_def public_key_def peer_id_def identity_sign_def)

lemma verified_signer:
  assumes "verify_record H r = Inr ()"
  shows "signer_peer r = peer_id_from_public_key H (signer_key r)"
    and "\<exists>m. message H r = Inr m \<and> ed25519_verify H (signer_key r) m (signature r)"
  using assms by (auto simp: verify_Ok)

end

section \<open>Every signed kind honours the contract\<close>

interpretation snapshot_sig: signed_record
  "\<lambda>H i r. r\<lparr>sm_authority_public_key := public_key H i, sm_authority_peer_id := peer_id H i\<rparr>"
  SnapshotManifestV1_validate_semantics
  SnapshotManifestV1_signing_bytes sm_authority_peer_id sm_authority_public_key sm_signature "\<lambda>s r. r\<lparr>sm_signature := s\<rparr>"
  sign_snapshot verify_snapshot_signature
  by unfold_locales (auto simp: sign_snapshot_def verify_snapshot_signature_def SnapshotManifestV1_signing_bytes_def
      SnapshotManifestV1_unsigned_def SnapshotManifestV1_validate_semantics_def)

interpretation membership_sig: signed_record
  "\<lambda>H i r. r\<lparr>mr_authority_public_key := public_key H i, mr_authority_peer_id := peer_id H i\<rparr>"
  "\<lambda>H. MembershipRecordV1_validate_semantics"
  MembershipRecordV1_signing_bytes mr_authority_peer_id mr_authority_public_key mr_signature "\<lambda>s r. r\<lparr>mr_signature := s\<rparr>"
  sign_membership verify_membership_signature
  by unfold_locales (auto simp: sign_membership_def verify_membership_signature_def MembershipRecordV1_signing_bytes_def
      MembershipRecordV1_unsigned_def MembershipRecordV1_validate_semantics_def)

interpretation invite_sig: signed_record
  "\<lambda>H i r. r\<lparr>inv_inviter_public_key := public_key H i, inv_inviter_peer_id := peer_id H i\<rparr>"
  InviteV1_validate_semantics
  InviteV1_signing_bytes inv_inviter_peer_id inv_inviter_public_key inv_signature "\<lambda>s r. r\<lparr>inv_signature := s\<rparr>"
  sign_invite verify_invite_signature
  by unfold_locales (auto simp: sign_invite_def verify_invite_signature_def InviteV1_signing_bytes_def
      InviteV1_unsigned_def InviteV1_validate_semantics_def)

interpretation transfer_sig: signed_record
  "\<lambda>H i r. r\<lparr>at_signer_public_key := public_key H i, at_signer_peer_id := peer_id H i\<rparr>"
  "\<lambda>H. AuthorityTransferV1_validate_semantics"
  AuthorityTransferV1_signing_bytes at_signer_peer_id at_signer_public_key at_signature "\<lambda>s r. r\<lparr>at_signature := s\<rparr>"
  sign_transfer verify_transfer_signature
  by unfold_locales (auto simp: sign_transfer_def verify_transfer_signature_def AuthorityTransferV1_signing_bytes_def
      AuthorityTransferV1_unsigned_def AuthorityTransferV1_validate_semantics_def)

interpretation lease_sig: signed_record
  "\<lambda>H i r. r\<lparr>lg_authority_public_key := public_key H i, lg_authority_peer_id := peer_id H i\<rparr>"
  "\<lambda>H. AuthorityLeaseGrantV1_validate_semantics"
  AuthorityLeaseGrantV1_signing_bytes lg_authority_peer_id lg_authority_public_key lg_signature "\<lambda>s r. r\<lparr>lg_signature := s\<rparr>"
  sign_lease verify_lease_signature
  by unfold_locales (auto simp: sign_lease_def verify_lease_signature_def AuthorityLeaseGrantV1_signing_bytes_def
      AuthorityLeaseGrantV1_unsigned_def AuthorityLeaseGrantV1_validate_semantics_def)

interpretation ballot_sig: signed_record
  "\<lambda>H i r. r\<lparr>rb_candidate_public_key := public_key H i, rb_candidate_peer_id := peer_id H i\<rparr>"
  "\<lambda>H. RecoveryBallotV1_validate_semantics"
  RecoveryBallotV1_signing_bytes rb_candidate_peer_id rb_candidate_public_key rb_signature "\<lambda>s r. r\<lparr>rb_signature := s\<rparr>"
  sign_recovery_ballot verify_recovery_ballot_signature
  by unfold_locales (auto simp: sign_recovery_ballot_def verify_recovery_ballot_signature_def RecoveryBallotV1_signing_bytes_def
      RecoveryBallotV1_unsigned_def RecoveryBallotV1_validate_semantics_def generation_is_well_formed_def)

interpretation vote_sig: signed_record
  "\<lambda>H i r. r\<lparr>rv_voter_public_key := public_key H i, rv_voter_peer_id := peer_id H i\<rparr>"
  "\<lambda>H. RecoveryVoteV1_validate_semantics"
  RecoveryVoteV1_signing_bytes rv_voter_peer_id rv_voter_public_key rv_signature "\<lambda>s r. r\<lparr>rv_signature := s\<rparr>"
  sign_recovery_vote verify_recovery_vote_signature
  by unfold_locales (auto simp: sign_recovery_vote_def verify_recovery_vote_signature_def RecoveryVoteV1_signing_bytes_def
      RecoveryVoteV1_unsigned_def RecoveryVoteV1_validate_semantics_def)

interpretation config_sig: signed_record
  "\<lambda>H i c. (normalize_canonical c)\<lparr>wc_authority_peer_id := peer_id H i, wc_authority_public_key := public_key H i\<rparr>"
  "\<lambda>H. WorldConfigV1_validate_semantics"
  WorldConfigV1_signing_bytes wc_authority_peer_id wc_authority_public_key wc_signature "\<lambda>s r. r\<lparr>wc_signature := s\<rparr>"
  sign_world_config verify_world_config_signature
  by unfold_locales (auto simp: sign_world_config_def verify_world_config_signature_def WorldConfigV1_signing_bytes_def
      WorldConfigV1_unsigned_def WorldConfigV1_validate_semantics_def canonical_unsigned_def Let_def)

interpretation branch_sig: signed_record
  "\<lambda>H i r. r\<lparr>sb_authority_public_key := public_key H i, sb_authority_peer_id := peer_id H i\<rparr>"
  "\<lambda>H. SoloBranchV1_validate_semantics"
  SoloBranchV1_signing_bytes sb_authority_peer_id sb_authority_public_key sb_signature "\<lambda>s r. r\<lparr>sb_signature := s\<rparr>"
  sign_solo_branch verify_solo_branch_signature
  by unfold_locales (auto simp: sign_solo_branch_def verify_solo_branch_signature_def SoloBranchV1_signing_bytes_def
      SoloBranchV1_unsigned_def SoloBranchV1_validate_semantics_def)

interpretation leave_sig: signed_record
  "\<lambda>H i r. r\<lparr>lv_leaving_public_key := public_key H i, lv_leaving_peer_id := peer_id H i\<rparr>"
  LeaveRequestV1_validate_semantics
  LeaveRequestV1_signing_bytes lv_leaving_peer_id lv_leaving_public_key lv_signature "\<lambda>s r. r\<lparr>lv_signature := s\<rparr>"
  sign_leave_request verify_leave_request_signature
  by unfold_locales (auto simp: sign_leave_request_def verify_leave_request_signature_def LeaveRequestV1_signing_bytes_def
      LeaveRequestV1_unsigned_def LeaveRequestV1_validate_semantics_def LeaveRequestV1_validate_shape_def)

interpretation sleep_sig: signed_record
  "\<lambda>H i r. r\<lparr>sl_authority_public_key := public_key H i, sl_authority_peer_id := peer_id H i\<rparr>"
  "\<lambda>H. SleepRecordV1_validate_semantics"
  SleepRecordV1_signing_bytes sl_authority_peer_id sl_authority_public_key sl_signature "\<lambda>s r. r\<lparr>sl_signature := s\<rparr>"
  sign_sleep_record verify_sleep_record_signature
  by unfold_locales (auto simp: sign_sleep_record_def verify_sleep_record_signature_def SleepRecordV1_signing_bytes_def
      SleepRecordV1_unsigned_def SleepRecordV1_validate_semantics_def)

interpretation join_sig: signed_record
  "\<lambda>H i r. r\<lparr>jr_joining_member := (jr_joining_member r)\<lparr>wm_peer_id := peer_id H i, wm_public_key := public_key H i\<rparr>\<rparr>"
  JoinRequestV1_validate_semantics
  JoinRequestV1_signing_bytes "\<lambda>r. wm_peer_id (jr_joining_member r)" "\<lambda>r. wm_public_key (jr_joining_member r)"
  jr_signature "\<lambda>s r. r\<lparr>jr_signature := s\<rparr>"
  sign_join_request verify_join_request_signature
  by unfold_locales (auto simp: sign_join_request_def verify_join_request_signature_def
      JoinRequestV1_signing_bytes_def JoinRequestV1_unsigned_def JoinRequestV1_validate_semantics_def
      JoinRequestV1_validate_shape_def Let_def split: sum.splits)

section \<open>Identity files and world creation\<close>


text \<open>
  Worlds created with different nonces are different worlds: under a faithful encoding
  and no hash collision between the two genesis records, the identifiers differ, and each identifier
  is the one any verifier recomputes from the genesis, whose only initial member is the creator.
\<close>

theorem created_worlds_are_distinct:
  assumes "postcard_faithful H"
    and "create_world_genesis H i mc fl material n = Ok (w, g)"
    and "create_world_genesis H j mc' fl' material' n' = Ok (w', g')"
    and "collision_free H {WORLD_GENESIS_DOMAIN @ b |b. postcard_to_allocvec H (WorldGenesisV1_sval g) = Some b
           \<or> postcard_to_allocvec H (WorldGenesisV1_sval g') = Some b}"
    and "n \<noteq> n'"
  shows "w \<noteq> w' \<and> genesis_world_id H g = Ok w
    \<and> gen_initial_membership g = [peer_id_from_public_key H (gen_creator_public_key g)]"
proof -
  from assms(2) obtain b where b: "postcard_to_allocvec H (WorldGenesisV1_sval g) = Some b"
      "w = WorldId (blake3 H (WORLD_GENESIS_DOMAIN @ b))" and g: "gen_creation_nonce g = n"
      "gen_initial_membership g = [peer_id_from_public_key H (gen_creator_public_key g)]"
    by (auto simp: create_world_genesis_def genesis_world_id_def from_domain_bytes_def Let_def peer_id_def)
  from assms(3) obtain b' where b': "postcard_to_allocvec H (WorldGenesisV1_sval g') = Some b'"
      "w' = WorldId (blake3 H (WORLD_GENESIS_DOMAIN @ b'))" and g': "gen_creation_nonce g' = n'"
    by (auto simp: create_world_genesis_def genesis_world_id_def from_domain_bytes_def Let_def)
  have "w \<noteq> w'"
  proof
    assume "w = w'"
    then have "WORLD_GENESIS_DOMAIN @ b = WORLD_GENESIS_DOMAIN @ b'"
      using b b' by (intro collision_freeD [OF assms(4)]) auto
    then have "WorldGenesisV1_sval g = WorldGenesisV1_sval g'"
      using postcard_faithfulD [OF assms(1) WorldGenesisV1_typed WorldGenesisV1_typed b(1)] b' by simp
    with g(1) g' assms(5) show False by simp
  qed
  with b g(2) show ?thesis by (simp add: genesis_world_id_def from_domain_bytes_def)
qed

abbreviation sample_genesis :: "bytes32 \<Rightarrow> WorldGenesisV1" where
  "sample_genesis nonce \<equiv> \<lparr>gen_protocol_version = PROTOCOL_VERSION, gen_minecraft_version = ''1.21'',
    gen_fabric_loader_version = ''0.17'', gen_compatibility_fingerprint = Hash32 2,
    gen_creation_nonce = nonce, gen_creator_public_key = 9, gen_initial_membership = [PeerId 2]\<rparr>"

definition sample_hash :: "bytes \<Rightarrow> bytes32" where
  "sample_hash m = (if m = WORLD_GENESIS_DOMAIN @ enc (WorldGenesisV1_sval (sample_genesis 5)) then 1 else 2)"

lemma sample_hash_short: "length m \<le> 32 \<Longrightarrow> sample_hash m = 2"
  by (auto simp: sample_hash_def WorldGenesisV1_sval_def WORLD_GENESIS_DOMAIN_def domain_def sHash_def)

lemma sample_world_created:
  "create_world_genesis (reference_host sample_hash) \<lparr>signing_key = 9\<rparr> ''1.21'' ''0.17'' [] n =
    Ok (WorldId (sample_hash (WORLD_GENESIS_DOMAIN @ enc (WorldGenesisV1_sval (sample_genesis n)))), sample_genesis n)"
  by (simp add: create_world_genesis_def public_key_def peer_id_def peer_id_from_public_key_def sample_hash_short
      validate_semantics_defs ascending_by_def genesis_world_id_def to_allocvec_def from_domain_bytes_def
      require_protocol_version_def require_strict_peer_id_order_def Let_def)

theorem created_worlds_are_distinct_witness:
  "\<exists>w g w' g'. create_world_genesis (reference_host sample_hash) \<lparr>signing_key = 9\<rparr> ''1.21'' ''0.17'' [] 5 = Ok (w, g)
    \<and> create_world_genesis (reference_host sample_hash) \<lparr>signing_key = 9\<rparr> ''1.21'' ''0.17'' [] 6 = Ok (w', g')
    \<and> w \<noteq> w'"
proof -
  have "WorldGenesisV1_sval (sample_genesis 5) \<noteq> WorldGenesisV1_sval (sample_genesis 6)" by simp
  then have "enc (WorldGenesisV1_sval (sample_genesis 5)) \<noteq> enc (WorldGenesisV1_sval (sample_genesis 6))"
    using enc_prefix_free(1) [OF WorldGenesisV1_typed WorldGenesisV1_typed, where r = "[]" and s = "[]"] by force
  then have fresh: "collision_free (reference_host sample_hash)
      {WORLD_GENESIS_DOMAIN @ b |b. postcard_to_allocvec (reference_host sample_hash) (WorldGenesisV1_sval (sample_genesis 5)) = Some b
        \<or> postcard_to_allocvec (reference_host sample_hash) (WorldGenesisV1_sval (sample_genesis 6)) = Some b}"
    by (auto simp: collision_free_def inj_on_def sample_hash_def)
  have "WorldId (sample_hash (WORLD_GENESIS_DOMAIN @ enc (WorldGenesisV1_sval (sample_genesis 5))))
    \<noteq> WorldId (sample_hash (WORLD_GENESIS_DOMAIN @ enc (WorldGenesisV1_sval (sample_genesis 6))))"
    by (rule conjunct1 [OF created_worlds_are_distinct
          [OF reference_host_faithful sample_world_created sample_world_created fresh]]) simp
  with sample_world_created show ?thesis by blast
qed

end
