(* ===== verification/Discovery.thy ===== *)
theory Discovery
  imports Identity
begin

text \<open>
  \<open>crates/swarm-core/src/discovery.rs\<close>: signing and verification of discovery records, the
  genesis-anchored membership proof, freshness challenges, and the two replay guards.  Clocks are
  arguments in milliseconds.
\<close>

section \<open>Limits and errors\<close>

definition WORLD_ANNOUNCEMENT_MAX_LIFETIME_MS :: u64 where "WORLD_ANNOUNCEMENT_MAX_LIFETIME_MS = 600000"
definition FRIEND_PRESENCE_MAX_LIFETIME_MS :: u64 where "FRIEND_PRESENCE_MAX_LIFETIME_MS = 60000"
definition DISCOVERY_CLOCK_SKEW_MS :: u64 where "DISCOVERY_CLOCK_SKEW_MS = 60000"
definition DISCOVERY_FRESHNESS_MAX_LIFETIME_MS :: u64 where "DISCOVERY_FRESHNESS_MAX_LIFETIME_MS = 15000"
definition MAX_DISCOVERY_MEMBERSHIP_CERTIFICATES :: nat where "MAX_DISCOVERY_MEMBERSHIP_CERTIFICATES = 256"
definition MAX_DISCOVERY_MEMBERS :: nat where "MAX_DISCOVERY_MEMBERS = 1024"
definition MAX_DISCOVERY_FRESHNESS_VOTES :: nat where "MAX_DISCOVERY_FRESHNESS_VOTES = 1024"

datatype DiscoveryRecordError =
    ProtocolMismatch
  | PrivateWorld
  | InvalidLifetime
  | Expired
  | FutureIssued
  | Replay
  | PresenceRequesterMismatch
  | PresenceNonceMismatch
  | InvalidSignature
  | InvalidMembershipProof
  | FreshnessStateMismatch
  | FreshnessReplay

section \<open>Lifetimes\<close>

definition validate_lifetime :: "u64 \<Rightarrow> u64 \<Rightarrow> u64 \<Rightarrow> u64 \<Rightarrow> (DiscoveryRecordError, unit) result" where
  "validate_lifetime issued_unix_ms expires_unix_ms max_lifetime_ms now_unix_ms =
    (if expires_unix_ms \<le> issued_unix_ms
        \<or> max_lifetime_ms < saturating_sub expires_unix_ms issued_unix_ms then Err InvalidLifetime
     else if saturating_add now_unix_ms DISCOVERY_CLOCK_SKEW_MS < issued_unix_ms then Err FutureIssued
     else if expires_unix_ms < now_unix_ms then Err Expired
     else Ok ())"

section \<open>Announcements and presence\<close>

definition sign_world_announcement ::
    "host \<Rightarrow> PeerIdentity \<Rightarrow> WorldAnnouncementV1 \<Rightarrow> (CoreError, WorldAnnouncementV1) result" where
  "sign_world_announcement H i a =
    (let a1 = a\<lparr>wa_announcer_peer_id := peer_id H i, wa_announcer_public_key := public_key H i,
           wa_signature := []\<rparr>
     in and_then (map_err Protocol (WorldAnnouncementV1_signing_bytes H a1)) (\<lambda>message.
     Ok (a1\<lparr>wa_signature := identity_sign H i message\<rparr>)))"

definition verify_world_announcement ::
    "host \<Rightarrow> WorldAnnouncementV1 \<Rightarrow> u64 \<Rightarrow> (DiscoveryRecordError, unit) result" where
  "verify_world_announcement H a now_unix_ms =
    (if wa_protocol_version a \<noteq> PROTOCOL_VERSION then Err ProtocolMismatch
     else if wa_visibility a = Private then Err PrivateWorld
     else and_then (validate_lifetime (wa_issued_unix_ms a) (wa_expires_unix_ms a)
         WORLD_ANNOUNCEMENT_MAX_LIFETIME_MS now_unix_ms) (\<lambda>_.
     and_then (map_err (\<lambda>_. InvalidSignature) (WorldAnnouncementV1_signing_bytes H a)) (\<lambda>message.
     map_err (\<lambda>_. InvalidSignature)
       (verify_signature H (wa_announcer_peer_id a) (wa_announcer_public_key a) message (wa_signature a)))))"

definition sign_friend_presence ::
    "host \<Rightarrow> PeerIdentity \<Rightarrow> FriendPresenceV1 \<Rightarrow> (CoreError, FriendPresenceV1) result" where
  "sign_friend_presence H i p =
    (let p1 = p\<lparr>fp_peer_id := peer_id H i, fp_public_key := public_key H i, fp_signature := []\<rparr>
     in and_then (map_err Protocol (FriendPresenceV1_signing_bytes H p1)) (\<lambda>message.
     Ok (p1\<lparr>fp_signature := identity_sign H i message\<rparr>)))"

definition verify_friend_presence ::
    "host \<Rightarrow> FriendPresenceV1 \<Rightarrow> PeerId \<Rightarrow> PeerId \<Rightarrow> bytes32 \<Rightarrow> u64 \<Rightarrow> (DiscoveryRecordError, unit) result" where
  "verify_friend_presence H p expected_peer requester_peer nonce now_unix_ms =
    (if fp_protocol_version p \<noteq> PROTOCOL_VERSION \<or> fp_peer_id p \<noteq> expected_peer then Err ProtocolMismatch
     else if fp_requester_peer_id p \<noteq> requester_peer then Err PresenceRequesterMismatch
     else if fp_nonce p \<noteq> nonce then Err PresenceNonceMismatch
     else and_then (validate_lifetime (fp_issued_unix_ms p) (fp_expires_unix_ms p)
         FRIEND_PRESENCE_MAX_LIFETIME_MS now_unix_ms) (\<lambda>_.
     and_then (map_err (\<lambda>_. InvalidSignature) (FriendPresenceV1_signing_bytes H p)) (\<lambda>message.
     map_err (\<lambda>_. InvalidSignature)
       (verify_signature H (fp_peer_id p) (fp_public_key p) message (fp_signature p)))))"

section \<open>The membership proof\<close>

text \<open>The loop over the votes of one certificate: each matches the proposal, voters are distinct and
  ascend, and each signature verifies.  The state is the set of voters seen and the last one.\<close>

definition check_proof_vote :: "host \<Rightarrow> MembershipProposalV1 \<Rightarrow> PeerId set \<times> PeerId option \<Rightarrow> MembershipVoteV1
    \<Rightarrow> (DiscoveryRecordError, PeerId set \<times> PeerId option) result" where
  "check_proof_vote H proposal st vote =
    (case st of (seen, last_voter) \<Rightarrow>
     if matches_proposal H vote proposal \<noteq> Ok True
        \<or> mv_voter_peer_id vote \<in> seen
        \<or> (case last_voter of None \<Rightarrow> False | Some peer \<Rightarrow> mv_voter_peer_id vote \<le> peer)
     then Err InvalidMembershipProof
     else and_then (map_err (\<lambda>_. InvalidMembershipProof) (MembershipVoteV1_signing_bytes H vote)) (\<lambda>message.
       and_then (map_err (\<lambda>_. InvalidMembershipProof)
         (verify_signature H (mv_voter_peer_id vote) (mv_voter_public_key vote) message (mv_signature vote)))
       (\<lambda>_. Ok (insert (mv_voter_peer_id vote) seen, Some (mv_voter_peer_id vote)))))"

definition check_proof_certificate :: "host \<Rightarrow> WorldId \<Rightarrow> u64 option \<Rightarrow> MembershipCertificateV1
    \<Rightarrow> (DiscoveryRecordError, u64 option) result" where
  "check_proof_certificate H world last_sequence certificate =
    (let proposal = mc_proposal certificate; previous = mp_previous proposal; proposed = mp_proposed proposal in
     if MembershipProposalV1_validate_shape H proposal \<noteq> Ok True
        \<or> mr_world_id previous \<noteq> world
        \<or> mr_world_id proposed \<noteq> world
        \<or> \<not> is_ok (MembershipRecordV1_validate_semantics previous)
        \<or> \<not> is_ok (MembershipRecordV1_validate_semantics proposed)
        \<or> (case last_sequence of None \<Rightarrow> False | Some s \<Rightarrow> mr_sequence proposed \<le> s)
     then Err InvalidMembershipProof
     else
       and_then (map_err (\<lambda>_. InvalidMembershipProof) (verify_membership_signature H previous)) (\<lambda>_.
       and_then (map_err (\<lambda>_. InvalidMembershipProof) (verify_membership_signature H proposed)) (\<lambda>_.
       and_then (try_fold (check_proof_vote H proposal) ({}, None) (mc_votes certificate)) (\<lambda>_.
       Ok (Some (mr_sequence proposed))))))"

definition verify_discovery_membership_proof ::
    "host \<Rightarrow> WorldAnnouncementV1 \<Rightarrow> DiscoveryMembershipProofV1 \<Rightarrow> (DiscoveryRecordError, unit) result" where
  "verify_discovery_membership_proof H announcement proof =
    (let initial = dm_initial_membership proof; current = dm_current_membership proof;
         genesis = dm_genesis proof in
     if dm_protocol_version proof \<noteq> PROTOCOL_VERSION \<or> dm_world_id proof \<noteq> wa_world_id announcement
     then Err ProtocolMismatch
     else if MAX_DISCOVERY_MEMBERSHIP_CERTIFICATES < length (dm_membership_certificates proof)
        \<or> result_ok (genesis_world_id H genesis) \<noteq> Some (dm_world_id proof)
        \<or> \<not> is_ok (WorldGenesisV1_validate_semantics genesis)
        \<or> MAX_DISCOVERY_MEMBERS < length (mr_members initial)
        \<or> MAX_DISCOVERY_MEMBERS < length (mr_members current)
        \<or> (case dm_pending_membership proof of None \<Rightarrow> False
           | Some p \<Rightarrow> MAX_DISCOVERY_MEMBERS < length (mr_members (mp_previous p))
               \<or> MAX_DISCOVERY_MEMBERS < length (mr_members (mp_proposed p)))
        \<or> list_ex (\<lambda>c. MAX_DISCOVERY_MEMBERS < length (mr_members (mp_previous (mc_proposal c)))
             \<or> MAX_DISCOVERY_MEMBERS < length (mr_members (mp_proposed (mc_proposal c)))
             \<or> MAX_DISCOVERY_FRESHNESS_VOTES < length (mc_votes c)) (dm_membership_certificates proof)
     then Err InvalidMembershipProof
     else if \<not> is_ok (MembershipRecordV1_validate_semantics initial)
        \<or> \<not> is_ok (MembershipRecordV1_validate_semantics current)
        \<or> mr_protocol_version initial \<noteq> PROTOCOL_VERSION
        \<or> mr_world_id initial \<noteq> dm_world_id proof
        \<or> mr_sequence initial \<noteq> 0
        \<or> mr_previous_membership_hash initial \<noteq> None
        \<or> mr_authority_public_key initial \<noteq> gen_creator_public_key genesis
        \<or> mr_authority_peer_id initial \<noteq> peer_id_from_public_key H (gen_creator_public_key genesis)
     then Err InvalidMembershipProof
     else
       and_then (map_err (\<lambda>_. InvalidMembershipProof) (verify_membership_signature H initial)) (\<lambda>_.
       let genesis_members = set (gen_initial_membership genesis);
           initial_members = set (map wm_peer_id (mr_members initial)) in
       if card genesis_members \<noteq> length (gen_initial_membership genesis)
          \<or> card initial_members \<noteq> length (mr_members initial)
          \<or> genesis_members \<noteq> initial_members
          \<or> list_ex (\<lambda>m. peer_id_from_public_key H (wm_public_key m) \<noteq> wm_peer_id m) (mr_members initial)
       then Err InvalidMembershipProof
       else
         and_then (try_fold (check_proof_certificate H (dm_world_id proof)) None
           (dm_membership_certificates proof)) (\<lambda>last_sequence.
         and_then (map_err (\<lambda>_. InvalidMembershipProof) (verify_membership_signature H current)) (\<lambda>_.
         if mr_world_id current \<noteq> dm_world_id proof
            \<or> (case last_sequence of None \<Rightarrow> False | Some s \<Rightarrow> mr_sequence current < s)
            \<or> mr_sequence current \<noteq> wa_membership_sequence announcement
            \<or> result_ok (record_hash H current) \<noteq> Some (wa_membership_hash announcement)
            \<or> mr_authority_peer_id current \<noteq> wa_announcer_peer_id announcement
            \<or> mr_authority_public_key current \<noteq> wa_announcer_public_key announcement
            \<or> mr_epoch current \<noteq> wa_authority_epoch announcement
            \<or> \<not> list_ex (\<lambda>m. wm_peer_id m = mr_authority_peer_id current
                 \<and> wm_public_key m = mr_authority_public_key current \<and> \<not> wm_banned m) (mr_members current)
         then Err InvalidMembershipProof
         else Ok ()))))"

section \<open>Freshness\<close>

definition sign_discovery_freshness_vote ::
    "host \<Rightarrow> PeerIdentity \<Rightarrow> DiscoveryFreshnessChallengeV1 \<Rightarrow> (CoreError, DiscoveryFreshnessVoteV1) result" where
  "sign_discovery_freshness_vote H i challenge =
    (let vote = \<lparr>fv_challenge = challenge, fv_voter_peer_id = peer_id H i,
           fv_voter_public_key = public_key H i, fv_signature = []\<rparr>
     in and_then (map_err Protocol (DiscoveryFreshnessVoteV1_signing_bytes H vote)) (\<lambda>message.
     Ok (vote\<lparr>fv_signature := identity_sign H i message\<rparr>)))"

definition verify_discovery_freshness_vote ::
    "host \<Rightarrow> DiscoveryFreshnessVoteV1 \<Rightarrow> DiscoveryFreshnessChallengeV1 \<Rightarrow> (DiscoveryRecordError, unit) result" where
  "verify_discovery_freshness_vote H vote expected =
    (if fv_challenge vote \<noteq> expected
        \<or> peer_id_from_public_key H (fv_voter_public_key vote) \<noteq> fv_voter_peer_id vote
     then Err FreshnessStateMismatch
     else and_then (map_err (\<lambda>_. InvalidSignature) (DiscoveryFreshnessVoteV1_signing_bytes H vote)) (\<lambda>message.
     map_err (\<lambda>_. InvalidSignature)
       (verify_signature H (fv_voter_peer_id vote) (fv_voter_public_key vote) message (fv_signature vote))))"

definition verify_discovery_freshness_challenge ::
    "host \<Rightarrow> WorldAnnouncementV1 \<Rightarrow> DiscoveryMembershipProofV1 \<Rightarrow> DiscoveryFreshnessChallengeV1
      \<Rightarrow> PeerId \<Rightarrow> bytes32 \<Rightarrow> u64 \<Rightarrow> (DiscoveryRecordError, unit) result" where
  "verify_discovery_freshness_challenge H announcement proof challenge verifier_peer_id nonce now_unix_ms =
    and_then (verify_discovery_membership_proof H announcement proof) (\<lambda>_.
    and_then (case dm_pending_membership proof of
        None \<Rightarrow> Ok None
      | Some p \<Rightarrow> and_then (map_err (\<lambda>_. InvalidMembershipProof) (proposal_hash H p)) (\<lambda>h. Ok (Some h)))
      (\<lambda>pending_hash.
    if fc_protocol_version challenge \<noteq> PROTOCOL_VERSION
       \<or> fc_verifier_peer_id challenge \<noteq> verifier_peer_id
       \<or> fc_nonce challenge \<noteq> nonce
       \<or> fc_world_id challenge \<noteq> wa_world_id announcement
    then Err FreshnessStateMismatch
    else and_then (map_err (\<lambda>_. InvalidSignature) (announcement_hash H announcement)) (\<lambda>hash.
    if fc_announcement_hash challenge \<noteq> hash
       \<or> fc_membership_sequence challenge \<noteq> wa_membership_sequence announcement
       \<or> fc_membership_hash challenge \<noteq> wa_membership_hash announcement
       \<or> fc_pending_membership_proposal_hash challenge \<noteq> pending_hash
       \<or> fc_authority_peer_id challenge \<noteq> wa_announcer_peer_id announcement
       \<or> fc_authority_epoch challenge \<noteq> wa_authority_epoch announcement
       \<or> fc_fencing_token challenge \<noteq> wa_fencing_token announcement
       \<or> fc_config_sequence challenge \<noteq> wa_config_sequence announcement
       \<or> fc_config_hash challenge \<noteq> wa_config_hash announcement
       \<or> fc_canonical_head challenge \<noteq> wa_canonical_head announcement
    then Err FreshnessStateMismatch
    else validate_lifetime (fc_issued_unix_ms challenge) (fc_expires_unix_ms challenge)
      DISCOVERY_FRESHNESS_MAX_LIFETIME_MS now_unix_ms)))"

section \<open>Replay guards\<close>

record DiscoveryFreshnessReplayGuard =
  frg_accepted :: "(PeerId \<times> bytes32) set"

definition freshness_accept :: "DiscoveryFreshnessReplayGuard \<Rightarrow> DiscoveryFreshnessChallengeV1
    \<Rightarrow> (DiscoveryRecordError, DiscoveryFreshnessReplayGuard) result" where
  "freshness_accept g challenge =
    (let key = (fc_verifier_peer_id challenge, fc_nonce challenge) in
     if key \<in> frg_accepted g then Err FreshnessReplay
     else Ok (g\<lparr>frg_accepted := insert key (frg_accepted g)\<rparr>))"

record AnnouncementReplayGuard =
  arg_highest :: "WorldId \<rightharpoonup> u64 \<times> u64"

definition announcement_accept :: "AnnouncementReplayGuard \<Rightarrow> WorldAnnouncementV1
    \<Rightarrow> (DiscoveryRecordError, AnnouncementReplayGuard) result" where
  "announcement_accept g announcement =
    (let generation = (wa_authority_epoch announcement, wa_announcement_sequence announcement) in
     if (case arg_highest g (wa_world_id announcement) of None \<Rightarrow> False | Some current \<Rightarrow> generation \<le> current)
     then Err Replay
     else Ok (g\<lparr>arg_highest := (arg_highest g)(wa_world_id announcement \<mapsto> generation)\<rparr>))"

section \<open>Lifetimes bound acceptance\<close>

lemma validate_lifetime_Ok [simp]:
  "validate_lifetime issued expires limit now = Ok u \<longleftrightarrow>
    unat issued < unat expires \<and> unat expires - unat issued \<le> unat limit
    \<and> unat issued \<le> min (unat now + 60000) (2 ^ 64 - 1) \<and> unat now \<le> unat expires"
proof -
  have "unat (60000 :: u64) = 60000" by simp
  then show ?thesis
    by (auto simp: validate_lifetime_def word_less_nat_alt word_le_nat_alt unat_saturating_sub
        unat_saturating_add DISCOVERY_CLOCK_SKEW_MS_def not_less split: if_splits)
qed

lemma verify_world_announcement_Ok:
  "verify_world_announcement H a now = Ok u \<longleftrightarrow>
    wa_protocol_version a = PROTOCOL_VERSION \<and> wa_visibility a \<noteq> Private
    \<and> validate_lifetime (wa_issued_unix_ms a) (wa_expires_unix_ms a) WORLD_ANNOUNCEMENT_MAX_LIFETIME_MS now = Ok ()
    \<and> (\<exists>m. WorldAnnouncementV1_signing_bytes H a = Ok m
        \<and> verify_signature H (wa_announcer_peer_id a) (wa_announcer_public_key a) m (wa_signature a) = Ok ())"
  by (auto simp: verify_world_announcement_def)

text \<open>
  A signed world announcement is only good for eleven minutes: any two instants at which it
  verifies are at most the ten-minute lifetime plus the one-minute clock skew apart, however its issue and
  expiry times were chosen; and no private world is ever accepted.
\<close>

theorem announcement_acceptance_window:
  assumes "verify_world_announcement H a now = Ok ()" "verify_world_announcement H a later = Ok ()"
  shows "unat later \<le> unat now + 660000 \<and> is_discoverable_visibility a"
proof -
  have limit: "unat WORLD_ANNOUNCEMENT_MAX_LIFETIME_MS = 600000"
    by (simp add: WORLD_ANNOUNCEMENT_MAX_LIFETIME_MS_def)
  from assms have "unat later \<le> unat now + 660000"
    by (auto simp: verify_world_announcement_Ok limit)
  moreover have "is_discoverable_visibility a"
    using assms(1) by (cases "wa_visibility a") (auto simp: verify_world_announcement_Ok is_discoverable_visibility_def)
  ultimately show ?thesis by blast
qed

lemma signed_announcement_verifies:
  assumes "ed25519_correct H" "sign_world_announcement H i a = Ok a'"
    and "wa_protocol_version a = PROTOCOL_VERSION" "wa_visibility a \<noteq> Private"
    and "validate_lifetime (wa_issued_unix_ms a) (wa_expires_unix_ms a) WORLD_ANNOUNCEMENT_MAX_LIFETIME_MS now = Ok ()"
  shows "verify_world_announcement H a' now = Ok ()"
  using assms
  by (auto simp: sign_world_announcement_def verify_world_announcement_Ok ed25519_correct_def
      public_key_def peer_id_def identity_sign_def WorldAnnouncementV1_signing_bytes_def Let_def
      simp del: validate_lifetime_Ok)

abbreviation sample_announcement :: WorldAnnouncementV1 where
  "sample_announcement \<equiv> \<lparr>wa_protocol_version = PROTOCOL_VERSION, wa_world_id = WorldId 1,
    wa_presentation = \<lparr>wp_name = ''w'', wp_description = [], wp_tags = [], wp_icon_hash = None, wp_approximate_region = None\<rparr>,
    wa_compatibility = \<lparr>dc_minecraft_version = [], dc_loader_id = [], dc_loader_version = [],
      dc_fabric_adapter_version = [], dc_compatibility_fingerprint = Hash32 0\<rparr>,
    wa_visibility = Public, wa_membership_policy = Open, wa_config_sequence = 1, wa_config_hash = Hash32 0,
    wa_membership_sequence = 0, wa_membership_hash = Hash32 0, wa_authority_epoch = 1, wa_fencing_token = 1,
    wa_canonical_head = None, wa_announcement_sequence = 1, wa_issued_unix_ms = 1000, wa_expires_unix_ms = 5000,
    wa_announcer_peer_id = PeerId 0, wa_announcer_public_key = 0, wa_signature = []\<rparr>"

theorem announcement_acceptance_window_witness:
  "\<exists>a. verify_world_announcement (reference_host (\<lambda>_. 0)) a 1000 = Ok ()
    \<and> verify_world_announcement (reference_host (\<lambda>_. 0)) a 5000 = Ok ()
    \<and> unat (5000 :: u64) \<le> unat (1000 :: u64) + 660000"
proof -
  obtain a where a: "sign_world_announcement (reference_host (\<lambda>_. 0)) \<lparr>signing_key = 9\<rparr> sample_announcement = Ok a"
    by (simp add: sign_world_announcement_def Let_def WorldAnnouncementV1_signing_bytes_def frame_def to_allocvec_def)
  have "verify_world_announcement (reference_host (\<lambda>_. 0)) a now = Ok ()" if "now = 1000 \<or> now = 5000" for now
    using that by (intro signed_announcement_verifies [OF reference_host_signs a])
      (auto simp: WORLD_ANNOUNCEMENT_MAX_LIFETIME_MS_def)
  with announcement_acceptance_window [of "reference_host (\<lambda>_. 0)" a 1000 5000] show ?thesis
    by blast
qed

section \<open>Replays\<close>

lemma announcement_accept_Ok:
  "announcement_accept g a = Ok g' \<longleftrightarrow>
    arg_highest g (wa_world_id a) < Some (wa_authority_epoch a, wa_announcement_sequence a)
    \<and> g' = g\<lparr>arg_highest := (arg_highest g)(wa_world_id a \<mapsto> (wa_authority_epoch a, wa_announcement_sequence a))\<rparr>"
  by (cases "arg_highest g (wa_world_id a)") (auto simp: announcement_accept_def Let_def not_le)

interpretation replay: monotone_register announcement_accept "\<lambda>g. arg_highest g w" for w
  by unfold_locales (auto simp: announcement_accept_Ok)

text \<open>
  The announcement guard never lets a world regress: once an announcement has been accepted,
  no announcement of that world at the same or an older (epoch, sequence) is accepted again, whatever was
  offered in between.
\<close>

theorem announcement_replay_rejected:
  assumes "announcement_accept g a = Ok g'"
    and "wa_world_id b = wa_world_id a"
    and "(wa_authority_epoch b, wa_announcement_sequence b) \<le> (wa_authority_epoch a, wa_announcement_sequence a)"
  shows "announcement_accept (replay.attempts g' offers) b = Err Replay"
proof -
  have "arg_highest g' (wa_world_id a) = Some (wa_authority_epoch a, wa_announcement_sequence a)"
    using assms(1) by (simp add: announcement_accept_Ok)
  with replay.attempts_mono [of g' "wa_world_id a" offers]
  have "Some (wa_authority_epoch a, wa_announcement_sequence a)
      \<le> arg_highest (replay.attempts g' offers) (wa_world_id a)" by simp
  moreover have "Some (wa_authority_epoch b, wa_announcement_sequence b)
      \<le> Some (wa_authority_epoch a, wa_announcement_sequence a)"
    using assms(3) by (simp del: less_eq_prod_simp)
  ultimately have "Some (wa_authority_epoch b, wa_announcement_sequence b)
      \<le> arg_highest (replay.attempts g' offers) (wa_world_id b)"
    unfolding assms(2) by (rule order_trans [rotated])
  then show ?thesis
    by (cases "arg_highest (replay.attempts g' offers) (wa_world_id b)")
      (simp_all add: announcement_accept_def del: less_eq_prod_simp)
qed

theorem announcement_replay_rejected_witness:
  "announcement_accept (replay.attempts \<lparr>arg_highest = Map.empty(WorldId 1 \<mapsto> (1, 1))\<rparr> []) sample_announcement = Err Replay"
  by (rule announcement_replay_rejected [of "\<lparr>arg_highest = Map.empty\<rparr>" sample_announcement])
    (simp_all add: announcement_accept_def)

lemma freshness_accept_Ok:
  "freshness_accept g c = Ok g' \<longleftrightarrow> (fc_verifier_peer_id c, fc_nonce c) \<notin> frg_accepted g
    \<and> g' = g\<lparr>frg_accepted := insert (fc_verifier_peer_id c, fc_nonce c) (frg_accepted g)\<rparr>"
  by (auto simp: freshness_accept_def Let_def)

interpretation nonce_guard: monotone_register freshness_accept "\<lambda>g. Some (key \<in> frg_accepted g)" for key
  by unfold_locales (auto simp: freshness_accept_Ok)

text \<open>
  A freshness challenge is accepted at most once: after it has been accepted, the guard rejects
  every challenge with the same verifier and nonce, whatever was offered in between.
\<close>

theorem freshness_nonce_single_use:
  assumes "freshness_accept g c = Ok g'"
    and "fc_verifier_peer_id d = fc_verifier_peer_id c" "fc_nonce d = fc_nonce c"
  shows "freshness_accept (nonce_guard.attempts g' offers) d = Err FreshnessReplay"
proof -
  have "(fc_verifier_peer_id c, fc_nonce c) \<in> frg_accepted g'"
    using assms(1) by (simp add: freshness_accept_Ok)
  with nonce_guard.attempts_mono [of "(fc_verifier_peer_id c, fc_nonce c)" g' offers]
  have "(fc_verifier_peer_id c, fc_nonce c) \<in> frg_accepted (nonce_guard.attempts g' offers)"
    by simp
  with assms(2,3) show ?thesis by (simp add: freshness_accept_def)
qed

abbreviation sample_challenge :: DiscoveryFreshnessChallengeV1 where
  "sample_challenge \<equiv> \<lparr>fc_protocol_version = 1, fc_verifier_peer_id = PeerId 4, fc_nonce = 8, fc_world_id = WorldId 1,
    fc_announcement_hash = Hash32 0, fc_membership_sequence = 0, fc_membership_hash = Hash32 0,
    fc_pending_membership_proposal_hash = None, fc_authority_peer_id = PeerId 0, fc_authority_epoch = 1,
    fc_fencing_token = 1, fc_config_sequence = 1, fc_config_hash = Hash32 0, fc_canonical_head = None,
    fc_issued_unix_ms = 1000, fc_expires_unix_ms = 2000\<rparr>"

theorem freshness_nonce_single_use_witness:
  "freshness_accept (nonce_guard.attempts \<lparr>frg_accepted = {(PeerId 4, 8)}\<rparr> []) sample_challenge = Err FreshnessReplay"
  by (rule freshness_nonce_single_use [of "\<lparr>frg_accepted = {}\<rparr>" sample_challenge])
    (simp_all add: freshness_accept_def)

section \<open>What a membership proof proves\<close>

lemma sorted_wrt_less_last_le: "sorted_wrt (<) (xs :: 'a::order list) \<Longrightarrow> x \<in> set xs \<Longrightarrow> x \<le> last xs"
  by (induction xs rule: rev_induct) (auto simp: sorted_wrt_append less_imp_le)

lemma proof_votes_sound:
  assumes "try_fold (check_proof_vote H p) (seen, prev) vs = Ok st"
  shows "(\<forall>v\<in>set vs. matches_proposal H v p = Ok True
      \<and> (\<exists>m. MembershipVoteV1_signing_bytes H v = Ok m
        \<and> verify_signature H (mv_voter_peer_id v) (mv_voter_public_key v) m (mv_signature v) = Ok ()))
    \<and> sorted_wrt (<) (map mv_voter_peer_id vs)
    \<and> (\<forall>q. prev = Some q \<longrightarrow> (\<forall>v\<in>set vs. q < mv_voter_peer_id v))"
  using assms
proof (induction vs arbitrary: seen prev)
  case (Cons v vs)
  from Cons.prems obtain st' where v: "check_proof_vote H p (seen, prev) v = Ok st'"
    and rest: "try_fold (check_proof_vote H p) st' vs = Ok st" by auto
  from v have st': "st' = (insert (mv_voter_peer_id v) seen, Some (mv_voter_peer_id v))"
    by (auto simp: check_proof_vote_def split: if_splits)
  from Cons.IH [OF rest [unfolded st']] v show ?case
    by (auto simp: check_proof_vote_def simp del: verify_signature_Ok split: if_splits)
qed simp

definition certificate_sequence :: "MembershipCertificateV1 \<Rightarrow> u64" where
  "certificate_sequence c = mr_sequence (mp_proposed (mc_proposal c))"

definition certificate_authentic :: "host \<Rightarrow> WorldId \<Rightarrow> MembershipCertificateV1 \<Rightarrow> bool" where
  "certificate_authentic H w c \<longleftrightarrow>
    MembershipProposalV1_validate_shape H (mc_proposal c) = Ok True
    \<and> mr_world_id (mp_previous (mc_proposal c)) = w \<and> mr_world_id (mp_proposed (mc_proposal c)) = w
    \<and> verify_membership_signature H (mp_previous (mc_proposal c)) = Ok ()
    \<and> verify_membership_signature H (mp_proposed (mc_proposal c)) = Ok ()
    \<and> distinct (map mv_voter_peer_id (mc_votes c))
    \<and> list_all (\<lambda>v. matches_proposal H v (mc_proposal c) = Ok True
        \<and> (\<exists>m. MembershipVoteV1_signing_bytes H v = Ok m
          \<and> verify_signature H (mv_voter_peer_id v) (mv_voter_public_key v) m (mv_signature v) = Ok ()))
      (mc_votes c)"

lemma check_proof_certificate_sound:
  assumes "check_proof_certificate H w prev c = Ok s"
  shows "certificate_authentic H w c" "s = Some (certificate_sequence c)"
    "prev = Some q \<Longrightarrow> q < certificate_sequence c"
proof -
  from assms obtain st where votes: "try_fold (check_proof_vote H (mc_proposal c)) ({}, None) (mc_votes c) = Ok st"
    by (auto simp: check_proof_certificate_def Let_def split: if_splits)
  note proof_votes_sound [OF votes]
  then show "certificate_authentic H w c"
    using assms
    by (auto simp: check_proof_certificate_def certificate_authentic_def Let_def list_all_iff
        strict_sorted_iff simp del: verify_signature_Ok split: if_splits)
  show "s = Some (certificate_sequence c)" "prev = Some q \<Longrightarrow> q < certificate_sequence c"
    using assms by (auto simp: check_proof_certificate_def certificate_sequence_def Let_def not_le split: if_splits)
qed

lemma proof_certificates_sound:
  assumes "try_fold (check_proof_certificate H w) prev cs = Ok r"
  shows "list_all (certificate_authentic H w) cs \<and> sorted_wrt (<) (map certificate_sequence cs)
    \<and> (\<forall>q. prev = Some q \<longrightarrow> (\<forall>c\<in>set cs. q < certificate_sequence c))
    \<and> r = (if cs = [] then prev else Some (certificate_sequence (last cs)))"
  using assms
proof (induction cs arbitrary: prev)
  case (Cons c cs)
  from Cons.prems obtain s where c: "check_proof_certificate H w prev c = Ok s"
    and rest: "try_fold (check_proof_certificate H w) s cs = Ok r" by auto
  note c' = check_proof_certificate_sound [OF c]
  have "q < certificate_sequence d" if "prev = Some q" "d \<in> set (c # cs)" for q d
    using c'(2) c'(3) [OF that(1)] that(2) Cons.IH [OF rest] by (auto intro: less_trans)
  with Cons.IH [OF rest] c'(1,2) show ?case by auto
qed simp

text \<open>
  C20. An accepted membership proof is anchored in the genesis and bound to the announcement: the
  genesis hashes to the announced world, the initial membership is signed by the world's creator and lists
  exactly the genesis members, every certificate carries distinct, authentic voters for a
  well-formed proposal of this world with strictly increasing sequences, and the current membership is
  signed by the announcer, an unbanned member, at the announced sequence and hash and not older
  than the last certificate.
\<close>

theorem membership_proof_sound:
  assumes "verify_discovery_membership_proof H a pf = Ok ()"
  shows "genesis_world_id H (dm_genesis pf) = Ok (wa_world_id a)
    \<and> verify_membership_signature H (dm_initial_membership pf) = Ok ()
    \<and> mr_authority_public_key (dm_initial_membership pf) = gen_creator_public_key (dm_genesis pf)
    \<and> set (map wm_peer_id (mr_members (dm_initial_membership pf))) = set (gen_initial_membership (dm_genesis pf))
    \<and> list_all (certificate_authentic H (wa_world_id a)) (dm_membership_certificates pf)
    \<and> sorted_wrt (<) (map certificate_sequence (dm_membership_certificates pf))
    \<and> verify_membership_signature H (dm_current_membership pf) = Ok ()
    \<and> mr_world_id (dm_current_membership pf) = wa_world_id a
    \<and> mr_sequence (dm_current_membership pf) = wa_membership_sequence a
    \<and> record_hash H (dm_current_membership pf) = Ok (wa_membership_hash a)
    \<and> list_ex (\<lambda>m. wm_peer_id m = wa_announcer_peer_id a \<and> wm_public_key m = wa_announcer_public_key a
        \<and> \<not> wm_banned m) (mr_members (dm_current_membership pf))
    \<and> list_all (\<lambda>c. certificate_sequence c \<le> wa_membership_sequence a) (dm_membership_certificates pf)"
proof -
  note open_defs = verify_discovery_membership_proof_def Let_def guard_eq_Ok and_then_eq_Ok
    map_err_eq_Ok de_Morgan_disj not_not result_ok_eq_Some
  from assms have world: "dm_world_id pf = wa_world_id a" by (simp only: open_defs)
  from assms have rest: "genesis_world_id H (dm_genesis pf) = Ok (wa_world_id a)
      \<and> verify_membership_signature H (dm_initial_membership pf) = Ok ()
      \<and> mr_authority_public_key (dm_initial_membership pf) = gen_creator_public_key (dm_genesis pf)
      \<and> set (map wm_peer_id (mr_members (dm_initial_membership pf))) = set (gen_initial_membership (dm_genesis pf))
      \<and> verify_membership_signature H (dm_current_membership pf) = Ok ()
      \<and> mr_world_id (dm_current_membership pf) = wa_world_id a
      \<and> mr_sequence (dm_current_membership pf) = wa_membership_sequence a
      \<and> record_hash H (dm_current_membership pf) = Ok (wa_membership_hash a)
      \<and> list_ex (\<lambda>m. wm_peer_id m = wa_announcer_peer_id a \<and> wm_public_key m = wa_announcer_public_key a
        \<and> \<not> wm_banned m) (mr_members (dm_current_membership pf))"
    by (simp only: open_defs) (elim conjE exE, simp)
  from assms have "\<exists>r. try_fold (check_proof_certificate H (wa_world_id a)) None
      (dm_membership_certificates pf) = Ok r \<and> \<not> (case r of None \<Rightarrow> False | Some s \<Rightarrow> wa_membership_sequence a < s)"
    unfolding world [symmetric] by (simp only: open_defs) (elim conjE exE, metis)
  then obtain r where r: "try_fold (check_proof_certificate H (wa_world_id a)) None
      (dm_membership_certificates pf) = Ok r"
    and fresh: "\<And>s. r = Some s \<Longrightarrow> s \<le> wa_membership_sequence a"
    by (auto simp: not_less split: option.splits)
  note certs = proof_certificates_sound [OF r]
  have "certificate_sequence c \<le> wa_membership_sequence a" if "c \<in> set (dm_membership_certificates pf)" for c
  proof -
    from that have "dm_membership_certificates pf \<noteq> []" by auto
    then have "certificate_sequence c \<le> certificate_sequence (last (dm_membership_certificates pf))"
      using that certs sorted_wrt_less_last_le
        [of "map certificate_sequence (dm_membership_certificates pf)" "certificate_sequence c"]
      by (simp add: last_map)
    also have "\<dots> \<le> wa_membership_sequence a"
      using that certs by (intro fresh) auto
    finally show ?thesis .
  qed
  with rest certs show ?thesis by (simp add: list_all_iff)
qed

abbreviation sample_membership :: MembershipRecordV1 where
  "sample_membership \<equiv> \<lparr>mr_protocol_version = PROTOCOL_VERSION, mr_world_id = WorldId 0, mr_epoch = 1, mr_sequence = 0,
    mr_previous_membership_hash = None, mr_members = [\<lparr>wm_peer_id = PeerId 0, wm_public_key = 9,
      wm_authority_eligible = True, wm_banned = False\<rparr>],
    mr_authority_peer_id = PeerId 0, mr_authority_public_key = 9, mr_signature = []\<rparr>"

abbreviation sample_proof :: "MembershipRecordV1 \<Rightarrow> DiscoveryMembershipProofV1" where
  "sample_proof m \<equiv> \<lparr>dm_protocol_version = PROTOCOL_VERSION, dm_world_id = WorldId 0,
    dm_genesis = \<lparr>gen_protocol_version = PROTOCOL_VERSION, gen_minecraft_version = [], gen_fabric_loader_version = [],
      gen_compatibility_fingerprint = Hash32 0, gen_creation_nonce = 5, gen_creator_public_key = 9,
      gen_initial_membership = [PeerId 0]\<rparr>,
    dm_initial_membership = m, dm_membership_certificates = [], dm_current_membership = m,
    dm_pending_membership = None\<rparr>"

lemma sample_proof_accepted:
  assumes "sign_membership (reference_host (\<lambda>_. 0)) \<lparr>signing_key = 9\<rparr> sample_membership = Ok m"
  shows "verify_discovery_membership_proof (reference_host (\<lambda>_. 0))
    (sample_announcement\<lparr>wa_world_id := WorldId 0, wa_announcer_public_key := 9\<rparr>) (sample_proof m) = Ok ()"
proof -
  have "verify_membership_signature (reference_host (\<lambda>_. 0)) m = Ok ()"
    using assms by (rule membership_sig.sign_then_verify [OF reference_host_signs])
  moreover obtain s where "m = sample_membership\<lparr>mr_signature := s\<rparr>"
    using assms by (auto simp: membership_sig.sign_Ok peer_id_def public_key_def peer_id_from_public_key_def)
  ultimately show ?thesis
    by (simp add: verify_discovery_membership_proof_def genesis_world_id_def record_hash_def to_allocvec_def
        from_domain_bytes_def is_ok_iff validate_semantics_defs ascending_by_def peer_id_from_public_key_def
        MAX_DISCOVERY_MEMBERSHIP_CERTIFICATES_def MAX_DISCOVERY_MEMBERS_def)
qed

theorem membership_proof_sound_witness:
  "\<exists>a pf. verify_discovery_membership_proof (reference_host (\<lambda>_. 0)) a pf = Ok ()
    \<and> genesis_world_id (reference_host (\<lambda>_. 0)) (dm_genesis pf) = Ok (wa_world_id a)"
proof -
  obtain m where m: "sign_membership (reference_host (\<lambda>_. 0)) \<lparr>signing_key = 9\<rparr> sample_membership = Ok m"
    by (simp add: sign_membership_def Let_def MembershipRecordV1_signing_bytes_def frame_def to_allocvec_def
        validate_semantics_defs require_protocol_version_def require_strict_peer_order_def)
  with membership_proof_sound [OF sample_proof_accepted [OF m]] sample_proof_accepted [OF m]
  show ?thesis by blast
qed

end
