(* ===== verification/Authority.thy ===== *)
theory Authority
  imports Wire
begin

text \<open>
  \<open>crates/swarm-consensus/src/lib.rs\<close>: authority election, the majority rule, authority
  generations, observed leases, divergence checks and fencing tokens.

  An operation on \<open>&mut self\<close> that leaves the receiver untouched on every error path returns
  the updated receiver inside the \<open>Ok\<close> branch.
\<close>

section \<open>Election\<close>

record AuthorityCandidate =
  ac_peer_id :: PeerId
  ac_accepted_epoch :: u64
  ac_canonical_sequence :: u64
  ac_snapshot_complete :: bool
  ac_compatible :: bool
  ac_authority_eligible :: bool
  ac_banned :: bool

datatype ElectionError = NoEligibleCandidate | QuorumUnavailable nat nat

definition electable :: "AuthorityCandidate \<Rightarrow> bool" where
  "electable c \<longleftrightarrow> ac_compatible c \<and> ac_authority_eligible c \<and> ac_snapshot_complete c \<and> \<not> ac_banned c"

definition candidate_cmp :: "AuthorityCandidate \<Rightarrow> AuthorityCandidate \<Rightarrow> ordering" where
  "candidate_cmp a b = then_with (then_with
    (cmp (ac_accepted_epoch a) (ac_accepted_epoch b))
    (cmp (ac_canonical_sequence a) (ac_canonical_sequence b)))
    (cmp (ac_peer_id b) (ac_peer_id a))"

definition elect_authority :: "AuthorityCandidate list \<Rightarrow> (ElectionError, PeerId) result" where
  "elect_authority candidates =
    ok_or (map_option ac_peer_id (max_by candidate_cmp (filter electable candidates))) NoEligibleCandidate"

definition quorum_size :: "nat \<Rightarrow> nat" where
  "quorum_size member_count = (if member_count = 0 then 0 else member_count div 2 + 1)"

definition has_quorum :: "nat \<Rightarrow> nat \<Rightarrow> bool" where
  "has_quorum member_count visible_member_count \<longleftrightarrow>
    member_count \<noteq> 0 \<and> quorum_size member_count \<le> visible_member_count"

definition elect_authority_with_quorum ::
    "nat \<Rightarrow> AuthorityCandidate list \<Rightarrow> (ElectionError, PeerId) result" where
  "elect_authority_with_quorum canonical_member_count visible_candidates =
    (if \<not> has_quorum canonical_member_count (length visible_candidates)
     then Err (QuorumUnavailable (length visible_candidates) canonical_member_count)
     else elect_authority visible_candidates)"

section \<open>Authority generations\<close>

datatype AuthorityGeneration = AuthorityGeneration (ag_epoch: u64) (ag_fencing_token: u64)

instantiation AuthorityGeneration :: linorder
begin

definition less_eq_AuthorityGeneration :: "AuthorityGeneration \<Rightarrow> AuthorityGeneration \<Rightarrow> bool" where
  "less_eq_AuthorityGeneration a b \<longleftrightarrow>
    (ag_epoch a, ag_fencing_token a) \<le> (ag_epoch b, ag_fencing_token b)"

definition less_AuthorityGeneration :: "AuthorityGeneration \<Rightarrow> AuthorityGeneration \<Rightarrow> bool" where
  "less_AuthorityGeneration a b \<longleftrightarrow>
    (ag_epoch a, ag_fencing_token a) < (ag_epoch b, ag_fencing_token b)"

instance
  by standard (auto simp: less_eq_AuthorityGeneration_def less_AuthorityGeneration_def
      AuthorityGeneration.expand)

end

datatype GenerationError = EpochExhausted | FencingTokenExhausted

definition checked_next :: "AuthorityGeneration \<Rightarrow> (GenerationError, AuthorityGeneration) result" where
  "checked_next g =
    and_then (ok_or (checked_add (ag_epoch g) 1) EpochExhausted) (\<lambda>epoch.
    and_then (ok_or (checked_add (ag_fencing_token g) 1) FencingTokenExhausted) (\<lambda>fencing_token.
    Ok (AuthorityGeneration epoch fencing_token)))"

section \<open>Observed leases\<close>

record ObservedLease =
  ol_generation :: AuthorityGeneration
  ol_expires_at_millis :: u64

record LeaseTracker =
  lt_observed :: "ObservedLease option"

datatype LeaseError = ZeroDuration | StaleGeneration AuthorityGeneration AuthorityGeneration

definition LeaseTracker_default :: LeaseTracker where
  "LeaseTracker_default = \<lparr>lt_observed = None\<rparr>"

definition observe :: "LeaseTracker \<Rightarrow> AuthorityGeneration \<Rightarrow> u64 \<Rightarrow> u64
    \<Rightarrow> (LeaseError, ObservedLease \<times> LeaseTracker) result" where
  "observe t generation lease_duration_ms monotonic_now_ms =
    (if lease_duration_ms = 0 then Err ZeroDuration
     else and_then
       (case lt_observed t of
          Some current \<Rightarrow> ensure (\<not> generation < ol_generation current)
            (StaleGeneration generation (ol_generation current))
        | None \<Rightarrow> Ok ())
       (\<lambda>_. let observed = \<lparr>ol_generation = generation,
                   ol_expires_at_millis = saturating_add monotonic_now_ms lease_duration_ms\<rparr>
            in Ok (observed, t\<lparr>lt_observed := Some observed\<rparr>)))"

definition is_expired :: "LeaseTracker \<Rightarrow> u64 \<Rightarrow> bool" where
  "is_expired t monotonic_now_ms =
    (case lt_observed t of
       Some lease \<Rightarrow> ol_expires_at_millis lease \<le> monotonic_now_ms
     | None \<Rightarrow> True)"

section \<open>Canonical history\<close>

record CanonicalState =
  cs_epoch :: u64
  cs_sequence :: u64
  cs_state_hash :: Hash32

datatype HistoryError = Diverged u64 u64 Hash32 Hash32

definition compare_canonical_state ::
    "CanonicalState \<Rightarrow> CanonicalState \<Rightarrow> (HistoryError, ordering) result" where
  "compare_canonical_state local remote =
    (if cs_epoch local = cs_epoch remote \<and> cs_sequence local = cs_sequence remote
        \<and> cs_state_hash local \<noteq> cs_state_hash remote
     then Err (Diverged (cs_epoch local) (cs_sequence local) (cs_state_hash local) (cs_state_hash remote))
     else Ok (cmp (cs_epoch local, cs_sequence local) (cs_epoch remote, cs_sequence remote)))"

section \<open>Fencing\<close>

datatype FencingState = FencingState (accepted_token: u64)

datatype FencingError = Stale u64 u64 | Future u64 u64 | NonMonotonic u64 u64

definition validate_write :: "FencingState \<Rightarrow> u64 \<Rightarrow> (FencingError, unit) result" where
  "validate_write s token =
    (case cmp token (accepted_token s) of
       Less \<Rightarrow> Err (Stale token (accepted_token s))
     | Greater \<Rightarrow> Err (Future token (accepted_token s))
     | Equal \<Rightarrow> Ok ())"

definition advance :: "FencingState \<Rightarrow> u64 \<Rightarrow> (FencingError, FencingState) result" where
  "advance s new_token =
    (if new_token \<le> accepted_token s then Err (NonMonotonic new_token (accepted_token s))
     else Ok (FencingState new_token))"

section \<open>The majority rule\<close>

interpretation quorum: quorum_rule quorum_size
  by unfold_locales (auto simp: quorum_size_def)

lemma has_quorum_iff: "has_quorum n k \<longleftrightarrow> 0 < n \<and> n < 2 * k"
  by (auto simp: has_quorum_def quorum_size_def)



section \<open>The election winner\<close>

text \<open>The rank the comparison reads off; the lower peer id wins a tie, so its order is reversed.\<close>

definition candidate_rank :: "AuthorityCandidate \<Rightarrow> u64 \<times> u64 \<times> int" where
  "candidate_rank c = (ac_accepted_epoch c, ac_canonical_sequence c, - uint (peer_bits (ac_peer_id c)))"

lemma candidate_cmp_rank: "candidate_cmp x y = Greater \<longleftrightarrow> candidate_rank y < candidate_rank x"
  by (auto simp: candidate_cmp_def candidate_rank_def less_PeerId_def word_less_alt
      order_le_less)

lemma candidate_rank_peer: "candidate_rank x = candidate_rank y \<Longrightarrow> ac_peer_id x = ac_peer_id y"
  by (rule PeerId.expand) (simp add: candidate_rank_def word_uint_eq_iff)

lemma elect_authority_Ok_iff:
  "elect_authority cs = Ok p \<longleftrightarrow>
    (\<exists>c\<in>set cs. electable c \<and> ac_peer_id c = p
      \<and> (\<forall>d\<in>set cs. electable d \<longrightarrow> candidate_rank d \<le> candidate_rank c))"
  (is "_ = ?R")
proof
  assume "elect_authority cs = Ok p"
  then obtain c where c: "max_by candidate_cmp (filter electable cs) = Some c" "ac_peer_id c = p"
    by (auto simp: elect_authority_def)
  show ?R
    using max_by_Some [OF candidate_cmp_rank c(1)] c(2) by auto
next
  assume ?R
  then obtain c where c: "c \<in> set cs" "electable c" "ac_peer_id c = p"
    and top: "\<And>d. d \<in> set cs \<Longrightarrow> electable d \<Longrightarrow> candidate_rank d \<le> candidate_rank c" by blast
  then have "filter electable cs \<noteq> []" by (auto simp: filter_empty_conv)
  then obtain m where m: "max_by candidate_cmp (filter electable cs) = Some m"
    by (meson max_by_None not_None_eq)
  note max = max_by_Some [OF candidate_cmp_rank m]
  have "candidate_rank c = candidate_rank m"
    using max(1) max(2) [of c] top [of m] c by (auto intro: antisym)
  then have "ac_peer_id m = p" using c(3) candidate_rank_peer by metis
  with m show "elect_authority cs = Ok p" by (simp add: elect_authority_def)
qed

lemma elect_authority_Err_iff:
  "elect_authority cs = Err e \<longleftrightarrow> e = NoEligibleCandidate \<and> (\<forall>c\<in>set cs. \<not> electable c)"
  by (auto simp: elect_authority_def filter_empty_conv)

text \<open>
  C34. The election is deterministic over what is known of the candidates: it depends only on
  the set of candidates and never on the order in which a node learnt of them, so two nodes with the
  same view elect the same peer or fail with the same error.
\<close>

theorem elect_authority_order_independent:
  "set cs = set ds \<Longrightarrow> elect_authority cs = elect_authority ds"
proof (cases "elect_authority cs")
  case (Inl e)
  assume "set cs = set ds"
  with Inl have "elect_authority ds = Err e" by (simp add: elect_authority_Err_iff)
  with Inl show ?thesis by simp
next
  case (Inr p)
  assume "set cs = set ds"
  with Inr have "elect_authority ds = Ok p" by (simp add: elect_authority_Ok_iff)
  with Inr show ?thesis by simp
qed

abbreviation sample_candidate :: "bytes32 \<Rightarrow> u64 \<Rightarrow> u64 \<Rightarrow> AuthorityCandidate" where
  "sample_candidate peer epoch sequence \<equiv> \<lparr>ac_peer_id = PeerId peer, ac_accepted_epoch = epoch,
    ac_canonical_sequence = sequence, ac_snapshot_complete = True, ac_compatible = True,
    ac_authority_eligible = True, ac_banned = False\<rparr>"

theorem elect_authority_order_independent_witness:
  "elect_authority [sample_candidate 7 3 9, sample_candidate 5 3 9] =
    elect_authority [sample_candidate 5 3 9, sample_candidate 7 3 9]"
  by (rule elect_authority_order_independent) auto

text \<open>
  Crash election is safe and optimal: it succeeds exactly when the visible candidates are a
  majority of the canonical members and one of them is electable, and then it names the
  electable candidate with the greatest (epoch, sequence), the lowest peer id among equals.
\<close>

theorem quorum_election_is_best:
  "elect_authority_with_quorum n cs = Ok p \<longleftrightarrow>
    0 < n \<and> n < 2 * length cs
    \<and> (\<exists>c\<in>set cs. electable c \<and> ac_peer_id c = p
      \<and> (\<forall>d\<in>set cs. electable d \<longrightarrow>
            (ac_accepted_epoch d, ac_canonical_sequence d) < (ac_accepted_epoch c, ac_canonical_sequence c)
          \<or> (ac_accepted_epoch d, ac_canonical_sequence d) = (ac_accepted_epoch c, ac_canonical_sequence c)
             \<and> p \<le> ac_peer_id d))"
proof -
  have rank: "candidate_rank d \<le> candidate_rank c \<longleftrightarrow>
      (ac_accepted_epoch d, ac_canonical_sequence d) < (ac_accepted_epoch c, ac_canonical_sequence c)
    \<or> (ac_accepted_epoch d, ac_canonical_sequence d) = (ac_accepted_epoch c, ac_canonical_sequence c)
      \<and> ac_peer_id c \<le> ac_peer_id d" for c d
    by (auto simp: candidate_rank_def less_eq_PeerId_def word_le_def [of "peer_bits _"])
  show ?thesis
    unfolding elect_authority_with_quorum_def
    by (cases "has_quorum n (length cs)")
      (auto simp: has_quorum_iff elect_authority_Ok_iff rank)
qed

theorem quorum_election_is_best_witness:
  "elect_authority_with_quorum 3 [sample_candidate 7 3 9, sample_candidate 5 3 9] = Ok (PeerId 5)"
  using quorum_election_is_best
    [of 3 "[sample_candidate 7 3 9, sample_candidate 5 3 9]" "PeerId 5"]
  by (simp add: electable_def)

section \<open>Generations and leases\<close>

lemma generation_less_iff:
  "AuthorityGeneration e f < AuthorityGeneration e' f' \<longleftrightarrow> e < e' \<or> e = e' \<and> f < f'"
  by (auto simp: less_AuthorityGeneration_def order_le_less)

lemma checked_next_Ok_iff:
  "checked_next g = Ok g' \<longleftrightarrow> unat (ag_epoch g') = unat (ag_epoch g) + 1
    \<and> unat (ag_fencing_token g') = unat (ag_fencing_token g) + 1"
  by (cases g') (auto simp: checked_next_def checked_add_Some_iff)

text \<open>
  The next authority generation exists exactly when neither counter is at \<open>u64::MAX\<close>; it
  then raises both by one, without wrapping, and is strictly greater.  At exhaustion the code
  fails closed with the error of the first exhausted counter.
\<close>

theorem checked_next_strict_or_exhausted:
  "checked_next g =
    (if ag_epoch g = - 1 then Err EpochExhausted
     else if ag_fencing_token g = - 1 then Err FencingTokenExhausted
     else Ok (AuthorityGeneration (ag_epoch g + 1) (ag_fencing_token g + 1)))
   \<and> (is_ok (checked_next g) = (\<exists>g'. checked_next g = Ok g' \<and> g < g'
        \<and> unat (ag_epoch g') = unat (ag_epoch g) + 1
        \<and> unat (ag_fencing_token g') = unat (ag_fencing_token g) + 1))"
proof
  show "checked_next g =
    (if ag_epoch g = - 1 then Err EpochExhausted
     else if ag_fencing_token g = - 1 then Err FencingTokenExhausted
     else Ok (AuthorityGeneration (ag_epoch g + 1) (ag_fencing_token g + 1)))"
    by (auto simp: checked_next_def checked_succ_None [symmetric] checked_add_def split: if_splits)
  have "g < g'" if "checked_next g = Ok g'" for g'
    using that by (cases g; cases g')
      (auto simp: checked_next_def generation_less_iff dest: checked_succ_less)
  then show "is_ok (checked_next g) = (\<exists>g'. checked_next g = Ok g' \<and> g < g'
        \<and> unat (ag_epoch g') = unat (ag_epoch g) + 1
        \<and> unat (ag_fencing_token g') = unat (ag_fencing_token g) + 1)"
    by (auto simp: is_ok_iff checked_next_Ok_iff)
qed

definition lease_step :: "LeaseTracker \<Rightarrow> AuthorityGeneration \<times> u64 \<times> u64 \<Rightarrow> (LeaseError, LeaseTracker) result" where
  "lease_step t m = (case m of (g, d, now) \<Rightarrow> and_then (observe t g d now) (\<lambda>r. Ok (snd r)))"

definition lease_generation :: "LeaseTracker \<Rightarrow> AuthorityGeneration option" where
  "lease_generation t = map_option ol_generation (lt_observed t)"

lemma observe_Ok_iff:
  "observe t g d now = Ok (ob, t') \<longleftrightarrow>
    d \<noteq> 0 \<and> lease_generation t \<le> Some g
    \<and> ob = \<lparr>ol_generation = g, ol_expires_at_millis = saturating_add now d\<rparr>
    \<and> t' = t\<lparr>lt_observed := Some ob\<rparr>"
  by (auto simp: observe_def lease_generation_def Let_def not_less split: option.splits)

interpretation lease: monotone_register lease_step lease_generation
  by unfold_locales
    (auto simp: lease_step_def observe_Ok_iff split: prod.splits, simp add: lease_generation_def)

text \<open>
  A node's view of the authority lease never goes back to an older generation, whatever
  leases it is shown and in whatever order; and right after a lease is accepted it is unexpired at
  every instant before the granted duration has elapsed (saturating at the end of the clock)
  and expired from then on.
\<close>

theorem lease_tracker_monotone_and_exact:
  "lease_generation t \<le> lease_generation (lease.attempts t ms)
   \<and> (observe t g d now = Ok (ob, t') \<longrightarrow>
       (\<forall>m. is_expired t' m \<longleftrightarrow> min (unat now + unat d) (2 ^ 64 - 1) \<le> unat m))"
  using lease.attempts_mono
  by (auto simp: observe_Ok_iff is_expired_def word_le_nat_alt unat_saturating_add)

theorem lease_tracker_monotone_and_exact_witness:
  "is_expired (snd (\<lparr>ol_generation = AuthorityGeneration 1 1, ol_expires_at_millis = 15\<rparr>,
      \<lparr>lt_observed = Some \<lparr>ol_generation = AuthorityGeneration 1 1, ol_expires_at_millis = 15\<rparr>\<rparr>)) 15
   \<and> observe LeaseTracker_default (AuthorityGeneration 1 1) 10 5 =
      Ok (\<lparr>ol_generation = AuthorityGeneration 1 1, ol_expires_at_millis = 15\<rparr>,
        \<lparr>lt_observed = Some \<lparr>ol_generation = AuthorityGeneration 1 1, ol_expires_at_millis = 15\<rparr>\<rparr>)"
proof -
  have *: "observe LeaseTracker_default (AuthorityGeneration 1 1) 10 5 =
      Ok (\<lparr>ol_generation = AuthorityGeneration 1 1, ol_expires_at_millis = 15\<rparr>,
        \<lparr>lt_observed = Some \<lparr>ol_generation = AuthorityGeneration 1 1, ol_expires_at_millis = 15\<rparr>\<rparr>)"
    by (simp add: observe_def LeaseTracker_default_def saturating_add_def Let_def)
  with lease_tracker_monotone_and_exact [of LeaseTracker_default "[]" "AuthorityGeneration 1 1" 10 5]
  show ?thesis by auto
qed

section \<open>Divergence\<close>

fun ordering_reverse :: "ordering \<Rightarrow> ordering" where
  "ordering_reverse Less = Greater"
| "ordering_reverse Equal = Equal"
| "ordering_reverse Greater = Less"

text \<open>
  Comparing canonical states detects every divergence and nothing else: it fails exactly
  when the two states sit at the same epoch and sequence with different hashes; otherwise it
  reports the order of (epoch, sequence), and swapping the arguments reverses the report.
\<close>

theorem compare_canonical_state_detects_divergence:
  "(is_ok (compare_canonical_state a b) \<longleftrightarrow>
      \<not> (cs_epoch a = cs_epoch b \<and> cs_sequence a = cs_sequence b \<and> cs_state_hash a \<noteq> cs_state_hash b))
   \<and> (compare_canonical_state a b = Ok r \<longleftrightarrow> compare_canonical_state b a = Ok (ordering_reverse r))
   \<and> (compare_canonical_state a b = Ok Equal \<longleftrightarrow> a = b)"
proof -
  have "compare_canonical_state a b = Ok r \<longleftrightarrow> compare_canonical_state b a = Ok (ordering_reverse r)"
    by (cases r) (auto simp: compare_canonical_state_def)
  then show ?thesis
    by (cases a; cases b) (auto simp: compare_canonical_state_def)
qed

section \<open>Fencing\<close>

lemma validate_write_Ok [simp]: "validate_write s t = Ok u \<longleftrightarrow> t = accepted_token s"
  by (auto simp: validate_write_def split: ordering.splits)

lemma advance_Ok [simp]: "advance s n = Ok s' \<longleftrightarrow> accepted_token s < n \<and> s' = FencingState n"
  by (auto simp: advance_def)

lemma validate_write_stale: "t < accepted_token s \<Longrightarrow> validate_write s t = Err (Stale t (accepted_token s))"
  by (simp add: validate_write_def cmp_def)

interpretation fence: monotone_register advance "\<lambda>s. Some (accepted_token s)"
  by unfold_locales auto

text \<open>
  C35. Fencing is permanent: once a writer's token has been superseded by an advance, that
  writer is rejected as stale after any further sequence of advances, accepted or not.
\<close>

theorem fenced_writer_never_returns:
  assumes "validate_write s t = Ok ()" "advance s n = Ok s'"
  shows "validate_write (fence.attempts s' ns) t = Err (Stale t (accepted_token (fence.attempts s' ns)))"
  using assms fence.attempts_mono [of s' ns] by (intro validate_write_stale) auto

theorem fenced_writer_never_returns_witness:
  "validate_write (fence.attempts (FencingState 5) [4, 9]) 3 = Err (Stale 3 9)"
  using fenced_writer_never_returns [of "FencingState 3" 3 5 "FencingState 5" "[4, 9]"]
  by (simp add: fence.attempts_def fence.attempt_def advance_def)

end
