(* ===== verification/MembershipConsensus.thy ===== *)
theory MembershipConsensus
  imports Authority DiscoveryRecords
begin

text \<open>
  \<open>crates/swarm-consensus/src/membership.rs\<close>: joint consensus over membership changes.  A change
  of the voter set is certified by a majority of the old voters and a majority of the new ones; the
  discovery proof chains such certificates from the genesis voters to the current ones, and the freshness
  quorum applies the same rule to live signatures.
\<close>

datatype MembershipConsensusError =
    MalformedProposal
  | DuplicateMember PeerId
  | AuthorityNotActive
  | VoteMismatch
  | UnknownVoter
  | VoterKeyMismatch
  | OldQuorumUnavailable nat nat
  | NewQuorumUnavailable nat nat
  | CurrentQuorumUnavailable nat nat
  | MalformedMembershipHistory
  | NonCanonicalSignerSet

type_synonym voters = "(PeerId, bytes32) btree_map"

section \<open>Voters and proposals\<close>

definition active_voter :: "PeerId set \<times> voters \<Rightarrow> WorldMemberV1
    \<Rightarrow> (MembershipConsensusError, PeerId set \<times> voters) result" where
  "active_voter st member =
    (case st of (all, active) \<Rightarrow>
     if wm_peer_id member \<in> all then Err (DuplicateMember (wm_peer_id member))
     else Ok (insert (wm_peer_id member) all,
       if \<not> wm_banned member then bt_insert (wm_peer_id member) (wm_public_key member) active else active))"

definition active_voters :: "WorldMemberV1 list \<Rightarrow> (MembershipConsensusError, voters) result" where
  "active_voters members = and_then (try_fold active_voter ({}, []) members) (\<lambda>(all, active). Ok active)"

definition validate_membership_proposal_shape ::
    "host \<Rightarrow> MembershipProposalV1 \<Rightarrow> (MembershipConsensusError, unit) result" where
  "validate_membership_proposal_shape H proposal =
    (if MembershipProposalV1_validate_shape H proposal \<noteq> Ok True then Err MalformedProposal
     else
       and_then (active_voters (mr_members (mp_previous proposal))) (\<lambda>old.
       and_then (active_voters (mr_members (mp_proposed proposal))) (\<lambda>new.
       let authority = mr_authority_peer_id (mp_previous proposal);
           key = mr_authority_public_key (mp_previous proposal) in
       ensure (\<not> (bt_get old authority \<noteq> Some key \<or> bt_get new authority \<noteq> Some key)) AuthorityNotActive)))"

section \<open>Certificates\<close>

definition count_membership_vote :: "host \<Rightarrow> MembershipProposalV1 \<Rightarrow> voters \<Rightarrow> voters \<Rightarrow> PeerId set \<times> nat \<times> nat
    \<Rightarrow> MembershipVoteV1 \<Rightarrow> (MembershipConsensusError, PeerId set \<times> nat \<times> nat) result" where
  "count_membership_vote H proposal old new st vote =
    (case st of (seen, old_votes, new_votes) \<Rightarrow>
     if matches_proposal H vote proposal \<noteq> Ok True then Err VoteMismatch
     else if mv_voter_peer_id vote \<in> seen then Ok (seen, old_votes, new_votes)
     else
       let old_key = bt_get old (mv_voter_peer_id vote); new_key = bt_get new (mv_voter_peer_id vote) in
       and_then (ok_or (case old_key of Some k \<Rightarrow> Some k | None \<Rightarrow> new_key) UnknownVoter) (\<lambda>expected.
       if (case old_key of None \<Rightarrow> False | Some k \<Rightarrow> k \<noteq> mv_voter_public_key vote)
          \<or> (case new_key of None \<Rightarrow> False | Some k \<Rightarrow> k \<noteq> mv_voter_public_key vote)
          \<or> expected \<noteq> mv_voter_public_key vote
       then Err VoterKeyMismatch
       else Ok (insert (mv_voter_peer_id vote) seen,
         if old_key \<noteq> None then old_votes + 1 else old_votes,
         if new_key \<noteq> None then new_votes + 1 else new_votes)))"

definition validate_membership_certificate_shape ::
    "host \<Rightarrow> MembershipCertificateV1 \<Rightarrow> (MembershipConsensusError, unit) result" where
  "validate_membership_certificate_shape H certificate =
    (let proposal = mc_proposal certificate in
     and_then (validate_membership_proposal_shape H proposal) (\<lambda>_.
     and_then (active_voters (mr_members (mp_previous proposal))) (\<lambda>old.
     and_then (active_voters (mr_members (mp_proposed proposal))) (\<lambda>new.
     and_then (try_fold (count_membership_vote H proposal old new) ({}, 0, 0) (mc_votes certificate))
       (\<lambda>(seen, old_votes, new_votes).
     if old_votes < quorum_size (length old) then Err (OldQuorumUnavailable old_votes (quorum_size (length old)))
     else if new_votes < quorum_size (length new) then Err (NewQuorumUnavailable new_votes (quorum_size (length new)))
     else Ok ())))))"

section \<open>Discovery history and freshness\<close>

definition members_are_canonical :: "WorldMemberV1 list \<Rightarrow> bool" where
  "members_are_canonical members \<longleftrightarrow> list_all (\<lambda>(a, b). wm_peer_id a < wm_peer_id b) (windows2 members)"

definition extend_history :: "host \<Rightarrow> WorldId \<Rightarrow> voters \<times> u64 \<Rightarrow> MembershipCertificateV1
    \<Rightarrow> (MembershipConsensusError, voters \<times> u64) result" where
  "extend_history H world st certificate =
    (case st of (voters, last_sequence) \<Rightarrow>
     let proposal = mc_proposal certificate in
     and_then (validate_membership_certificate_shape H certificate) (\<lambda>_.
     if mr_world_id (mp_previous proposal) \<noteq> world
        \<or> mr_world_id (mp_proposed proposal) \<noteq> world
        \<or> mr_sequence (mp_proposed proposal) \<le> last_sequence
     then Err MalformedMembershipHistory
     else
       and_then (active_voters (mr_members (mp_previous proposal))) (\<lambda>previous.
       if previous \<noteq> voters then Err MalformedMembershipHistory
       else and_then (active_voters (mr_members (mp_proposed proposal))) (\<lambda>voters'.
         Ok (voters', mr_sequence (mp_proposed proposal))))))"

definition validate_discovery_membership_proof_shape ::
    "host \<Rightarrow> DiscoveryMembershipProofV1 \<Rightarrow> (MembershipConsensusError, unit) result" where
  "validate_discovery_membership_proof_shape H proof =
    (let initial = dm_initial_membership proof; current = dm_current_membership proof in
     if \<not> members_are_canonical (mr_members initial)
        \<or> \<not> members_are_canonical (mr_members current)
        \<or> list_ex (\<lambda>c. \<not> members_are_canonical (mr_members (mp_previous (mc_proposal c)))
             \<or> \<not> members_are_canonical (mr_members (mp_proposed (mc_proposal c)))) (dm_membership_certificates proof)
        \<or> (case dm_pending_membership proof of None \<Rightarrow> False
           | Some p \<Rightarrow> \<not> members_are_canonical (mr_members (mp_previous p))
               \<or> \<not> members_are_canonical (mr_members (mp_proposed p)))
     then Err MalformedMembershipHistory
     else if mr_world_id initial \<noteq> dm_world_id proof \<or> mr_world_id current \<noteq> dm_world_id proof
     then Err MalformedMembershipHistory
     else
       and_then (active_voters (mr_members initial)) (\<lambda>voters.
       and_then (try_fold (extend_history H (dm_world_id proof)) (voters, mr_sequence initial)
         (dm_membership_certificates proof)) (\<lambda>(voters, last_sequence).
       if mr_sequence current < last_sequence then Err MalformedMembershipHistory
       else and_then (active_voters (mr_members current)) (\<lambda>current_voters.
       if current_voters \<noteq> voters then Err MalformedMembershipHistory
       else case dm_pending_membership proof of
           None \<Rightarrow> Ok ()
         | Some proposal \<Rightarrow>
             and_then (validate_membership_proposal_shape H proposal) (\<lambda>_.
             ensure (mp_previous proposal = current) MalformedMembershipHistory)))))"

definition collect_signer :: "PeerId option \<times> voters \<Rightarrow> DiscoveryFreshnessVoteV1
    \<Rightarrow> (MembershipConsensusError, PeerId option \<times> voters) result" where
  "collect_signer st vote =
    (case st of (prev, signers) \<Rightarrow>
     if (case prev of None \<Rightarrow> False | Some peer \<Rightarrow> fv_voter_peer_id vote \<le> peer) then Err NonCanonicalSignerSet
     else Ok (Some (fv_voter_peer_id vote), bt_insert (fv_voter_peer_id vote) (fv_voter_public_key vote) signers))"

definition count_joint_signer :: "voters \<Rightarrow> voters \<Rightarrow> nat \<times> nat \<Rightarrow> PeerId \<times> bytes32
    \<Rightarrow> (MembershipConsensusError, nat \<times> nat) result" where
  "count_joint_signer old new st signer =
    (case (st, signer) of ((old_votes, new_votes), (peer, key)) \<Rightarrow>
     let old_key = bt_get old peer; new_key = bt_get new peer in
     if old_key = None \<and> new_key = None then Err UnknownVoter
     else if (case old_key of None \<Rightarrow> False | Some expected \<Rightarrow> expected \<noteq> key)
        \<or> (case new_key of None \<Rightarrow> False | Some expected \<Rightarrow> expected \<noteq> key) then Err VoterKeyMismatch
     else Ok (old_votes + (if old_key \<noteq> None then 1 else 0), new_votes + (if new_key \<noteq> None then 1 else 0)))"

definition count_current_signer :: "voters \<Rightarrow> nat \<Rightarrow> PeerId \<times> bytes32
    \<Rightarrow> (MembershipConsensusError, nat) result" where
  "count_current_signer current count signer =
    (case signer of (peer, key) \<Rightarrow>
     and_then (ok_or (bt_get current peer) UnknownVoter) (\<lambda>expected.
     if expected \<noteq> key then Err VoterKeyMismatch else Ok (count + 1)))"

definition validate_discovery_freshness_quorum ::
    "host \<Rightarrow> DiscoveryMembershipProofV1 \<Rightarrow> DiscoveryFreshnessVoteV1 list \<Rightarrow> (MembershipConsensusError, unit) result" where
  "validate_discovery_freshness_quorum H proof votes =
    and_then (validate_discovery_membership_proof_shape H proof) (\<lambda>_.
    if 1024 < length votes then Err NonCanonicalSignerSet
    else and_then (try_fold collect_signer (None, []) votes) (\<lambda>(prev, signers).
    case dm_pending_membership proof of
      Some proposal \<Rightarrow>
        and_then (active_voters (mr_members (mp_previous proposal))) (\<lambda>old.
        and_then (active_voters (mr_members (mp_proposed proposal))) (\<lambda>new.
        and_then (try_fold (count_joint_signer old new) (0, 0) signers) (\<lambda>(old_votes, new_votes).
        if old_votes < quorum_size (length old) then Err (OldQuorumUnavailable old_votes (quorum_size (length old)))
        else if new_votes < quorum_size (length new) then Err (NewQuorumUnavailable new_votes (quorum_size (length new)))
        else Ok ())))
    | None \<Rightarrow>
        and_then (active_voters (mr_members (dm_current_membership proof))) (\<lambda>current.
        and_then (try_fold (count_current_signer current) 0 signers) (\<lambda>count.
        if count < quorum_size (length current)
        then Err (CurrentQuorumUnavailable count (quorum_size (length current)))
        else Ok ()))))"

definition membership_vote_for ::
    "host \<Rightarrow> MembershipProposalV1 \<Rightarrow> PeerId \<Rightarrow> bytes32 \<Rightarrow> (ProtocolError, MembershipVoteV1) result" where
  "membership_vote_for H proposal voter_peer_id voter_public_key =
    and_then (record_hash H (mp_previous proposal)) (\<lambda>previous.
    and_then (record_hash H (mp_proposed proposal)) (\<lambda>proposed.
    Ok \<lparr>mv_protocol_version = PROTOCOL_VERSION, mv_world_id = mr_world_id (mp_proposed proposal),
        mv_previous_membership_hash = previous, mv_proposed_membership_hash = proposed,
        mv_proposed_sequence = mr_sequence (mp_proposed proposal), mv_voter_peer_id = voter_peer_id,
        mv_voter_public_key = voter_public_key, mv_signature = []\<rparr>))"

section \<open>The voter map\<close>

definition is_voter :: "WorldMemberV1 list \<Rightarrow> PeerId \<Rightarrow> bytes32 \<Rightarrow> bool" where
  "is_voter ms p k \<longleftrightarrow> list_ex (\<lambda>m. wm_peer_id m = p \<and> wm_public_key m = k \<and> \<not> wm_banned m) ms"

lemma active_voter_Ok:
  "active_voter (all, active) m = Ok st \<longleftrightarrow> wm_peer_id m \<notin> all
    \<and> st = (insert (wm_peer_id m) all,
        if \<not> wm_banned m then bt_insert (wm_peer_id m) (wm_public_key m) active else active)"
  by (auto simp: active_voter_def)

lemma active_voter_fold:
  assumes "try_fold active_voter (all, active) ms = Ok (all', active')" "bt_wf active"
    and "\<And>p k. bt_get active p = Some k \<Longrightarrow> p \<in> all"
  shows "bt_wf active' \<and> distinct (map wm_peer_id ms) \<and> wm_peer_id ` set ms \<inter> all = {}
    \<and> (\<forall>p k. bt_get active' p = Some k \<longleftrightarrow> bt_get active p = Some k \<or> is_voter ms p k)"
  using assms
proof (induction ms arbitrary: all active)
  case Nil
  then show ?case by (simp add: is_voter_def)
next
  case (Cons m ms)
  let ?active = "if \<not> wm_banned m then bt_insert (wm_peer_id m) (wm_public_key m) active else active"
  from Cons.prems(1) have new: "wm_peer_id m \<notin> all"
    and rest: "try_fold active_voter (insert (wm_peer_id m) all, ?active) ms = Ok (all', active')"
    by (auto simp: active_voter_Ok)
  have fresh: "bt_get active (wm_peer_id m) = None"
    using Cons.prems(3) new by (cases "bt_get active (wm_peer_id m)") auto
  have IH: "bt_wf active' \<and> distinct (map wm_peer_id ms) \<and> wm_peer_id ` set ms \<inter> insert (wm_peer_id m) all = {}
      \<and> (\<forall>p k. bt_get active' p = Some k \<longleftrightarrow> bt_get ?active p = Some k \<or> is_voter ms p k)"
    by (rule Cons.IH [OF rest]) (use Cons.prems in \<open>auto split: if_splits\<close>)
  show ?case
    using IH new fresh by (auto simp: is_voter_def split: if_splits)
qed

lemma active_voters_Ok:
  assumes "active_voters ms = Ok vs"
  shows "bt_wf vs" "distinct (map wm_peer_id ms)" "bt_get vs p = Some k \<longleftrightarrow> is_voter ms p k"
  using assms active_voter_fold [of "{}" "[]" ms] by (auto simp: active_voters_def)

lemma active_voters_card: "active_voters ms = Ok vs \<Longrightarrow> length vs = card (dom (bt_get vs))"
  by (rule bt_length_card) (rule active_voters_Ok)

section \<open>Counting votes\<close>

text \<open>The voters of a list of votes that belong to a voter map.\<close>

definition voting_in :: "voters \<Rightarrow> MembershipVoteV1 list \<Rightarrow> PeerId set" where
  "voting_in vs votes = set (map mv_voter_peer_id votes) \<inter> dom (bt_get vs)"

lemma count_membership_vote_Ok:
  "count_membership_vote H p old new (seen, m, n) v = Ok st \<longleftrightarrow>
    matches_proposal H v p = Ok True
    \<and> (if mv_voter_peer_id v \<in> seen then st = (seen, m, n)
       else (bt_get old (mv_voter_peer_id v) \<noteq> None \<or> bt_get new (mv_voter_peer_id v) \<noteq> None)
         \<and> bt_get old (mv_voter_peer_id v) \<in> {None, Some (mv_voter_public_key v)}
         \<and> bt_get new (mv_voter_peer_id v) \<in> {None, Some (mv_voter_public_key v)}
         \<and> st = (insert (mv_voter_peer_id v) seen,
             m + (if mv_voter_peer_id v \<in> dom (bt_get old) then 1 else 0),
             n + (if mv_voter_peer_id v \<in> dom (bt_get new) then 1 else 0)))"
  by (cases "bt_get old (mv_voter_peer_id v)"; cases "bt_get new (mv_voter_peer_id v)")
    (auto simp: count_membership_vote_def Let_def)

lemma count_membership_votes:
  assumes "try_fold (count_membership_vote H p old new) (seen, m, n) vs = Ok (seen', m', n')"
    and "finite seen" "m = card (seen \<inter> dom (bt_get old))" "n = card (seen \<inter> dom (bt_get new))"
  shows "list_all (\<lambda>v. matches_proposal H v p = Ok True) vs
    \<and> seen' = seen \<union> set (map mv_voter_peer_id vs)
    \<and> m' = card (seen' \<inter> dom (bt_get old)) \<and> n' = card (seen' \<inter> dom (bt_get new))"
  using assms
proof (induction vs arbitrary: seen m n)
  case (Cons v vs)
  from Cons.prems(1) obtain s1 m1 n1 where
    step: "count_membership_vote H p old new (seen, m, n) v = Ok (s1, m1, n1)" and
    rest: "try_fold (count_membership_vote H p old new) (s1, m1, n1) vs = Ok (seen', m', n')"
    by auto
  from step Cons.prems(2-4) have "s1 = insert (mv_voter_peer_id v) seen" "finite s1"
    "m1 = card (s1 \<inter> dom (bt_get old))" "n1 = card (s1 \<inter> dom (bt_get new))"
    by (auto simp: count_membership_vote_Ok insert_absorb split: if_splits)
  with Cons.IH [OF rest] step show ?case
    by (auto simp: count_membership_vote_Ok)
qed simp

lemma certificate_quorums:
  assumes "validate_membership_certificate_shape H c = Ok ()"
  shows "\<exists>old new. active_voters (mr_members (mp_previous (mc_proposal c))) = Ok old
    \<and> active_voters (mr_members (mp_proposed (mc_proposal c))) = Ok new
    \<and> quorum_size (card (dom (bt_get old))) \<le> card (voting_in old (mc_votes c))
    \<and> quorum_size (card (dom (bt_get new))) \<le> card (voting_in new (mc_votes c))"
proof -
  from assms obtain old new seen m n where
    old: "active_voters (mr_members (mp_previous (mc_proposal c))) = Ok old" and
    new: "active_voters (mr_members (mp_proposed (mc_proposal c))) = Ok new" and
    votes: "try_fold (count_membership_vote H (mc_proposal c) old new) ({}, 0, 0) (mc_votes c) = Ok (seen, m, n)" and
    q: "quorum_size (length old) \<le> m" "quorum_size (length new) \<le> n"
    by (auto simp: validate_membership_certificate_shape_def Let_def not_less)
  have "seen = set (map mv_voter_peer_id (mc_votes c))"
    "m = card (seen \<inter> dom (bt_get old))" "n = card (seen \<inter> dom (bt_get new))"
    using count_membership_votes [OF votes] by simp_all
  with old new q show ?thesis
    by (auto simp: active_voters_card voting_in_def)
qed

text \<open>
  C13. Joint consensus: any two certified membership changes that have a configuration in common
  share a voter of that configuration.  In particular two certificates that leave the same membership
  cannot be backed by disjoint groups, and each certificate in a chain overlaps its successor.
\<close>

theorem membership_certificates_intersect:
  assumes "validate_membership_certificate_shape H c = Ok ()" "validate_membership_certificate_shape H d = Ok ()"
    and "cfg \<in> {mr_members (mp_previous (mc_proposal c)), mr_members (mp_proposed (mc_proposal c))}"
    and "cfg \<in> {mr_members (mp_previous (mc_proposal d)), mr_members (mp_proposed (mc_proposal d))}"
  shows "\<exists>p k. is_voter cfg p k \<and> p \<in> mv_voter_peer_id ` set (mc_votes c) \<and> p \<in> mv_voter_peer_id ` set (mc_votes d)"
proof -
  obtain vs where vs: "active_voters cfg = Ok vs"
    "quorum_size (card (dom (bt_get vs))) \<le> card (voting_in vs (mc_votes c))"
    using certificate_quorums [OF assms(1)] assms(3) by auto
  have q: "quorum_size (card (dom (bt_get vs))) \<le> card (voting_in vs (mc_votes d))"
    using certificate_quorums [OF assms(2)] assms(4) vs(1) by auto
  have "bt_get vs (mr_authority_peer_id (mp_previous (mc_proposal c))) \<noteq> None"
    using assms(1,3) vs(1)
    by (auto simp: validate_membership_certificate_shape_def validate_membership_proposal_shape_def Let_def)
  then have ne: "dom (bt_get vs) \<noteq> {}" by auto
  have sub: "voting_in vs votes \<subseteq> dom (bt_get vs)" for votes by (simp add: voting_in_def)
  obtain p where "p \<in> voting_in vs (mc_votes c)" "p \<in> voting_in vs (mc_votes d)"
    by (rule quorum.quorums_meet [OF bt_get_finite ne sub sub vs(2) q])
  then show ?thesis
    using active_voters_Ok(3) [OF vs(1)] by (fastforce simp: voting_in_def)
qed

abbreviation sample_record :: "u64 \<Rightarrow> Hash32 option \<Rightarrow> MembershipRecordV1" where
  "sample_record n h \<equiv> \<lparr>mr_protocol_version = PROTOCOL_VERSION, mr_world_id = WorldId 1, mr_epoch = 1,
    mr_sequence = n, mr_previous_membership_hash = h,
    mr_members = [\<lparr>wm_peer_id = PeerId 5, wm_public_key = 9, wm_authority_eligible = True, wm_banned = False\<rparr>],
    mr_authority_peer_id = PeerId 5, mr_authority_public_key = 9, mr_signature = []\<rparr>"

abbreviation sample_certificate :: MembershipCertificateV1 where
  "sample_certificate \<equiv> \<lparr>mc_proposal = \<lparr>mp_previous = sample_record 0 None, mp_proposed = sample_record 1 (Some (Hash32 0))\<rparr>,
    mc_votes = [\<lparr>mv_protocol_version = PROTOCOL_VERSION, mv_world_id = WorldId 1,
      mv_previous_membership_hash = Hash32 0, mv_proposed_membership_hash = Hash32 0, mv_proposed_sequence = 1,
      mv_voter_peer_id = PeerId 5, mv_voter_public_key = 9, mv_signature = []\<rparr>]\<rparr>"

lemma sample_record_hash: "record_hash (reference_host (\<lambda>_. 0)) m = Ok (Hash32 0)"
  by (simp add: record_hash_def to_allocvec_def from_domain_bytes_def)

lemma sample_certificate_valid:
  "validate_membership_certificate_shape (reference_host (\<lambda>_. 0)) sample_certificate = Ok ()"
  by (simp add: validate_membership_certificate_shape_def validate_membership_proposal_shape_def
      MembershipProposalV1_validate_shape_def active_voters_def active_voter_def count_membership_vote_def
      matches_proposal_def sample_record_hash quorum_size_def checked_add_def bt_get_def)

theorem membership_certificates_intersect_witness:
  "\<exists>p k. is_voter (mr_members (sample_record 0 None)) p k
    \<and> p \<in> mv_voter_peer_id ` set (mc_votes sample_certificate)
    \<and> p \<in> mv_voter_peer_id ` set (mc_votes sample_certificate)"
  by (rule membership_certificates_intersect [OF sample_certificate_valid sample_certificate_valid]) simp_all

section \<open>Certified histories\<close>

inductive certified_step :: "host \<Rightarrow> voters \<Rightarrow> voters \<Rightarrow> bool" for H where
  certified: "validate_membership_certificate_shape H c = Ok () \<Longrightarrow>
    active_voters (mr_members (mp_previous (mc_proposal c))) = Ok vs \<Longrightarrow>
    active_voters (mr_members (mp_proposed (mc_proposal c))) = Ok vs' \<Longrightarrow> certified_step H vs vs'"

inductive_cases certified_stepE: "certified_step H vs vs'"

lemma extend_history_Ok:
  assumes "extend_history H w (vs, n) c = Ok (vs', n')"
  shows "certified_step H vs vs'" "n < n'"
  using assms by (auto simp: extend_history_def Let_def not_le intro: certified)

lemma extend_history_chain:
  "try_fold (extend_history H w) (vs, n) cs = Ok (vs', n') \<Longrightarrow> (certified_step H)\<^sup>*\<^sup>* vs vs' \<and> n \<le> n'"
proof (induction cs arbitrary: vs n)
  case (Cons c cs)
  then obtain vs1 n1 where step: "extend_history H w (vs, n) c = Ok (vs1, n1)"
    and rest: "try_fold (extend_history H w) (vs1, n1) cs = Ok (vs', n')" by auto
  from Cons.IH [OF rest] extend_history_Ok [OF step] show ?case
    by (auto intro: converse_rtranclp_into_rtranclp)
qed simp


abbreviation sample_history :: DiscoveryMembershipProofV1 where
  "sample_history \<equiv> \<lparr>dm_protocol_version = PROTOCOL_VERSION, dm_world_id = WorldId 1,
    dm_genesis = \<lparr>gen_protocol_version = PROTOCOL_VERSION, gen_minecraft_version = [], gen_fabric_loader_version = [],
      gen_compatibility_fingerprint = Hash32 0, gen_creation_nonce = 5, gen_creator_public_key = 9,
      gen_initial_membership = [PeerId 5]\<rparr>,
    dm_initial_membership = sample_record 0 None, dm_membership_certificates = [sample_certificate],
    dm_current_membership = sample_record 1 (Some (Hash32 0)), dm_pending_membership = None\<rparr>"

lemma sample_history_valid:
  "validate_discovery_membership_proof_shape (reference_host (\<lambda>_. 0)) sample_history = Ok ()"
  by (simp add: validate_discovery_membership_proof_shape_def members_are_canonical_def extend_history_def
      sample_certificate_valid active_voters_def active_voter_def)


section \<open>Freshness quorums\<close>

definition signer_entry :: "DiscoveryFreshnessVoteV1 \<Rightarrow> PeerId \<times> bytes32" where
  "signer_entry v = (fv_voter_peer_id v, fv_voter_public_key v)"

lemma bt_insert_append: "(\<And>e. e \<in> set m \<Longrightarrow> fst e < k) \<Longrightarrow> bt_insert k v m = m @ [(k, v)]"
proof (induction m)
  case (Cons e m)
  from Cons.prems [of e] have "fst e < k" by simp
  with Cons show ?case by (cases e) auto
qed simp

lemma collect_signer_Ok:
  "collect_signer (prev, signers) v = Ok st \<longleftrightarrow> (\<forall>q. prev = Some q \<longrightarrow> q < fv_voter_peer_id v)
    \<and> st = (Some (fv_voter_peer_id v), bt_insert (fv_voter_peer_id v) (fv_voter_public_key v) signers)"
  by (auto simp: collect_signer_def not_le split: option.splits)

lemma collect_signers:
  assumes "try_fold collect_signer (prev, signers) votes = Ok (prev', signers')"
    and "\<And>e. e \<in> set signers \<Longrightarrow> (\<exists>q. prev = Some q \<and> fst e \<le> q)"
  shows "signers' = signers @ map signer_entry votes \<and> sorted_wrt (<) (map fv_voter_peer_id votes)
    \<and> (\<forall>q. prev = Some q \<longrightarrow> (\<forall>v\<in>set votes. q < fv_voter_peer_id v))"
  using assms
proof (induction votes arbitrary: prev signers)
  case (Cons v votes)
  let ?s = "signers @ [signer_entry v]"
  from Cons.prems(1) have above: "\<And>q. prev = Some q \<Longrightarrow> q < fv_voter_peer_id v"
    by (auto simp: collect_signer_Ok)
  then have "bt_insert (fv_voter_peer_id v) (fv_voter_public_key v) signers = ?s"
    unfolding signer_entry_def using Cons.prems(2) by (intro bt_insert_append) (metis order_le_less_trans)
  with Cons.prems(1) have rest: "try_fold collect_signer (Some (fv_voter_peer_id v), ?s) votes = Ok (prev', signers')"
    by (auto simp: collect_signer_Ok)
  have "\<And>e. e \<in> set ?s \<Longrightarrow> \<exists>q. Some (fv_voter_peer_id v) = Some q \<and> fst e \<le> q"
    using above Cons.prems(2) by (fastforce simp: signer_entry_def)
  from Cons.IH [OF rest this] above show ?case
    by (auto intro: less_trans)
qed simp

lemma count_joint_signer_Ok:
  "count_joint_signer old new (m, n) e = Ok st \<longleftrightarrow>
    (bt_get old (fst e) \<noteq> None \<or> bt_get new (fst e) \<noteq> None)
    \<and> bt_get old (fst e) \<in> {None, Some (snd e)} \<and> bt_get new (fst e) \<in> {None, Some (snd e)}
    \<and> st = (m + (if fst e \<in> dom (bt_get old) then 1 else 0), n + (if fst e \<in> dom (bt_get new) then 1 else 0))"
  by (cases e; cases "bt_get old (fst e)"; cases "bt_get new (fst e)") (auto simp: count_joint_signer_def Let_def)

lemma count_joint_signers:
  assumes "try_fold (count_joint_signer old new) (m, n) ss = Ok (m', n')"
  shows "m' = m + length (filter (\<lambda>e. fst e \<in> dom (bt_get old)) ss)
    \<and> n' = n + length (filter (\<lambda>e. fst e \<in> dom (bt_get new)) ss)"
  using assms
proof (induction ss arbitrary: m n)
  case (Cons e ss)
  from Cons.prems have "try_fold (count_joint_signer old new)
      (m + (if fst e \<in> dom (bt_get old) then 1 else 0), n + (if fst e \<in> dom (bt_get new) then 1 else 0)) ss = Ok (m', n')"
    by (auto simp: count_joint_signer_Ok)
  from Cons.IH [OF this] show ?case by simp
qed simp

lemma count_current_signers:
  "try_fold (count_current_signer vs) n ss = Ok n' \<longleftrightarrow>
    n' = n + length ss \<and> (\<forall>(p, k)\<in>set ss. bt_get vs p = Some k)"
  by (induction ss arbitrary: n) (auto simp: count_current_signer_def)

lemma signers_in_card:
  assumes "sorted_wrt (<) (map fv_voter_peer_id votes)"
  shows "length (filter (\<lambda>e. fst e \<in> D) (map signer_entry votes)) = card (set (map fv_voter_peer_id votes) \<inter> D)"
proof -
  have "length (filter (\<lambda>e. fst e \<in> D) (map signer_entry votes)) =
      length (filter (\<lambda>p. p \<in> D) (map fv_voter_peer_id votes))"
    by (induction votes) (auto simp: signer_entry_def)
  also have "\<dots> = card (set (filter (\<lambda>p. p \<in> D) (map fv_voter_peer_id votes)))"
    using assms by (metis distinct_card distinct_filter strict_sorted_iff)
  also have "set (filter (\<lambda>p. p \<in> D) (map fv_voter_peer_id votes)) = set (map fv_voter_peer_id votes) \<inter> D"
    by auto
  finally show ?thesis .
qed

text \<open>
  C31. A freshness quorum is a real majority: the signers are distinct members with the right
  keys; with no pending change they reach the quorum of the current voters, and while a membership change is
  pending they reach both the old and the new quorum.
\<close>

theorem freshness_quorum_is_majority:
  assumes "validate_discovery_freshness_quorum H pf votes = Ok ()"
  shows "distinct (map fv_voter_peer_id votes)
    \<and> (case dm_pending_membership pf of
        None \<Rightarrow> \<exists>vs. active_voters (mr_members (dm_current_membership pf)) = Ok vs
          \<and> list_all (\<lambda>v. bt_get vs (fv_voter_peer_id v) = Some (fv_voter_public_key v)) votes
          \<and> quorum_size (card (dom (bt_get vs))) \<le> length votes
      | Some p \<Rightarrow> \<exists>old new. active_voters (mr_members (mp_previous p)) = Ok old
          \<and> active_voters (mr_members (mp_proposed p)) = Ok new
          \<and> quorum_size (card (dom (bt_get old))) \<le> card (set (map fv_voter_peer_id votes) \<inter> dom (bt_get old))
          \<and> quorum_size (card (dom (bt_get new))) \<le> card (set (map fv_voter_peer_id votes) \<inter> dom (bt_get new)))"
proof -
  from assms obtain prev ss where fold: "try_fold collect_signer (None, []) votes = Ok (prev, ss)"
    by (auto simp: validate_discovery_freshness_quorum_def)
  with collect_signers [OF fold] have sorted: "sorted_wrt (<) (map fv_voter_peer_id votes)"
    and signers: "try_fold collect_signer (None, []) votes = Ok (prev, map signer_entry votes)" by auto
  show ?thesis
  proof (cases "dm_pending_membership pf")
    case None
    with assms signers obtain vs count where
      "active_voters (mr_members (dm_current_membership pf)) = Ok vs"
      "try_fold (count_current_signer vs) 0 (map signer_entry votes) = Ok count"
      "quorum_size (length vs) \<le> count"
      by (auto simp: validate_discovery_freshness_quorum_def not_less)
    with None sorted show ?thesis
      by (auto simp: count_current_signers signer_entry_def active_voters_card strict_sorted_iff list_all_iff)
  next
    case (Some p)
    with assms signers obtain old new m n where
      v: "active_voters (mr_members (mp_previous p)) = Ok old" "active_voters (mr_members (mp_proposed p)) = Ok new" and
      c: "try_fold (count_joint_signer old new) (0, 0) (map signer_entry votes) = Ok (m, n)" and
      q: "quorum_size (length old) \<le> m" "quorum_size (length new) \<le> n"
      by (auto simp: validate_discovery_freshness_quorum_def not_less)
    have "m = card (set (map fv_voter_peer_id votes) \<inter> dom (bt_get old))"
      "n = card (set (map fv_voter_peer_id votes) \<inter> dom (bt_get new))"
      using count_joint_signers [OF c] signers_in_card [OF sorted] by simp_all
    with q Some v sorted show ?thesis
      by (auto simp: active_voters_card strict_sorted_iff)
  qed
qed

abbreviation sample_freshness_vote :: DiscoveryFreshnessVoteV1 where
  "sample_freshness_vote \<equiv> \<lparr>fv_challenge = \<lparr>fc_protocol_version = 1, fc_verifier_peer_id = PeerId 4, fc_nonce = 8,
      fc_world_id = WorldId 1, fc_announcement_hash = Hash32 0, fc_membership_sequence = 0, fc_membership_hash = Hash32 0,
      fc_pending_membership_proposal_hash = None, fc_authority_peer_id = PeerId 0, fc_authority_epoch = 1,
      fc_fencing_token = 1, fc_config_sequence = 1, fc_config_hash = Hash32 0, fc_canonical_head = None,
      fc_issued_unix_ms = 1000, fc_expires_unix_ms = 2000\<rparr>,
    fv_voter_peer_id = PeerId 5, fv_voter_public_key = 9, fv_signature = []\<rparr>"

theorem freshness_quorum_is_majority_witness:
  "\<exists>vs. active_voters (mr_members (dm_current_membership sample_history)) = Ok vs
    \<and> list_all (\<lambda>v. bt_get vs (fv_voter_peer_id v) = Some (fv_voter_public_key v)) [sample_freshness_vote]"
proof -
  have "validate_discovery_freshness_quorum (reference_host (\<lambda>_. 0)) sample_history [sample_freshness_vote] = Ok ()"
    by (simp add: validate_discovery_freshness_quorum_def sample_history_valid collect_signer_def active_voters_def
        active_voter_def count_current_signer_def bt_get_def quorum_size_def)
  from freshness_quorum_is_majority [OF this] show ?thesis by auto
qed

end
