(* ===== verification/Handover.thy ===== *)
theory Handover
  imports Authority ProtocolV1
begin

text \<open>
  \<open>crates/swarm-consensus/src/migration.rs\<close>: crash takeover after lease expiry, the three-phase manual
  transfer, and the sleep/wake cycle of a world.  Its \<open>LeaseTracker\<close>, \<open>LeaseError\<close> and
  \<open>AuthorityGeneration\<close> are types of their own and are named after the module here.  \<open>Instant\<close> and
  \<open>Duration\<close> are natural numbers of a monotonic clock.
\<close>

section \<open>Leases and crash takeover\<close>

record MigrationLease =
  ml_epoch :: u64
  ml_fencing_token :: u64
  ml_duration :: nat
  ml_expires_at :: nat

datatype MigrationLeaseError =
    WrongAuthorityGeneration
  | NotExpired
  | SnapshotNotReady
  | Ineligible
  | NoQuorum
  | GenerationExhausted

definition MigrationLease_new :: "u64 \<Rightarrow> u64 \<Rightarrow> nat \<Rightarrow> nat \<Rightarrow> MigrationLease" where
  "MigrationLease_new epoch fencing_token duration now =
    \<lparr>ml_epoch = epoch, ml_fencing_token = fencing_token, ml_duration = duration, ml_expires_at = now + duration\<rparr>"

definition lease_is_expired :: "MigrationLease \<Rightarrow> nat \<Rightarrow> bool" where
  "lease_is_expired l now \<longleftrightarrow> ml_expires_at l \<le> now"

definition lease_renew :: "MigrationLease \<Rightarrow> u64 \<Rightarrow> u64 \<Rightarrow> nat \<Rightarrow> (MigrationLeaseError, MigrationLease) result" where
  "lease_renew l epoch fencing_token now =
    (if epoch \<noteq> ml_epoch l \<or> fencing_token \<noteq> ml_fencing_token l then Err WrongAuthorityGeneration
     else Ok (l\<lparr>ml_expires_at := now + ml_duration l\<rparr>))"

datatype TakeoverMode = TakeoverQuorum | TakeoverSolo

record TakeoverPolicy =
  tp_quorum_size :: nat

definition TakeoverPolicy_default :: TakeoverPolicy where
  "TakeoverPolicy_default = \<lparr>tp_quorum_size = 2\<rparr>"

record TakeoverCandidate =
  tc_candidate :: AuthorityCandidate
  tc_snapshot_hash :: Hash32
  tc_peer_votes :: nat

record MigrationGeneration =
  mg_authority_peer_id :: PeerId
  mg_epoch :: u64
  mg_fencing_token :: u64
  mg_base_snapshot_hash :: Hash32
  mg_mode :: TakeoverMode

definition evaluate_crash_takeover :: "MigrationLease \<Rightarrow> TakeoverCandidate \<Rightarrow> Hash32 \<Rightarrow> nat \<Rightarrow> TakeoverPolicy
    \<Rightarrow> (MigrationLeaseError, MigrationGeneration) result" where
  "evaluate_crash_takeover current_lease candidate required_snapshot_hash now policy =
    (if \<not> lease_is_expired current_lease now then Err NotExpired
     else if \<not> ac_snapshot_complete (tc_candidate candidate) \<or> tc_snapshot_hash candidate \<noteq> required_snapshot_hash
     then Err SnapshotNotReady
     else if \<not> ac_compatible (tc_candidate candidate) \<or> \<not> ac_authority_eligible (tc_candidate candidate)
        \<or> ac_banned (tc_candidate candidate)
     then Err Ineligible
     else if tc_peer_votes candidate < tp_quorum_size policy then Err NoQuorum
     else
       and_then (ok_or (checked_add (ml_epoch current_lease) 1) GenerationExhausted) (\<lambda>epoch.
       and_then (ok_or (checked_add (ml_fencing_token current_lease) 1) GenerationExhausted) (\<lambda>fencing_token.
       Ok \<lparr>mg_authority_peer_id = ac_peer_id (tc_candidate candidate), mg_epoch = epoch,
           mg_fencing_token = fencing_token, mg_base_snapshot_hash = required_snapshot_hash,
           mg_mode = TakeoverQuorum\<rparr>)))"

section \<open>Manual transfer\<close>

record ManualTransferState =
  mt_from_peer :: PeerId
  mt_to_peer :: PeerId
  mt_snapshot_hash :: Hash32
  mt_next_epoch :: u64
  mt_next_fencing_token :: u64
  mt_phase :: TransferPhase

datatype TransferError = WrongPhase | TransferSnapshotNotReady | WrongPeer | TransferGenerationExhausted

definition transfer_prepare :: "PeerId \<Rightarrow> PeerId \<Rightarrow> Hash32 \<Rightarrow> u64 \<Rightarrow> u64 \<Rightarrow> (TransferError, ManualTransferState) result" where
  "transfer_prepare from_peer to_peer snapshot_hash current_epoch current_fencing_token =
    and_then (ok_or (checked_add current_epoch 1) TransferGenerationExhausted) (\<lambda>next_epoch.
    and_then (ok_or (checked_add current_fencing_token 1) TransferGenerationExhausted) (\<lambda>next_fencing_token.
    Ok \<lparr>mt_from_peer = from_peer, mt_to_peer = to_peer, mt_snapshot_hash = snapshot_hash,
        mt_next_epoch = next_epoch, mt_next_fencing_token = next_fencing_token, mt_phase = Prepared\<rparr>))"

definition transfer_accept :: "ManualTransferState \<Rightarrow> PeerId \<Rightarrow> Hash32 \<Rightarrow> (TransferError, ManualTransferState) result" where
  "transfer_accept t accepting_peer target_snapshot_hash =
    (if mt_phase t \<noteq> Prepared then Err WrongPhase
     else if accepting_peer \<noteq> mt_to_peer t then Err WrongPeer
     else if target_snapshot_hash \<noteq> mt_snapshot_hash t then Err TransferSnapshotNotReady
     else Ok (t\<lparr>mt_phase := Accepted\<rparr>))"

definition transfer_commit ::
    "ManualTransferState \<Rightarrow> PeerId \<Rightarrow> (TransferError, MigrationGeneration \<times> ManualTransferState) result" where
  "transfer_commit t committing_peer =
    (if mt_phase t \<noteq> Accepted then Err WrongPhase
     else if committing_peer \<noteq> mt_from_peer t then Err WrongPeer
     else Ok (\<lparr>mg_authority_peer_id = mt_to_peer t, mg_epoch = mt_next_epoch t,
           mg_fencing_token = mt_next_fencing_token t, mg_base_snapshot_hash = mt_snapshot_hash t,
           mg_mode = TakeoverQuorum\<rparr>, t\<lparr>mt_phase := Committed\<rparr>))"

section \<open>Sleep and wake\<close>

datatype WorldRuntimeState = RuntimeActive MigrationGeneration | RuntimeSleeping Hash32 u64 u64

fun runtime_sleep :: "WorldRuntimeState \<Rightarrow> Hash32 \<Rightarrow> WorldRuntimeState" where
  "runtime_sleep (RuntimeActive generation) latest =
    RuntimeSleeping latest (mg_epoch generation) (mg_fencing_token generation)"
| "runtime_sleep (RuntimeSleeping _ epoch fencing_token) latest = RuntimeSleeping latest epoch fencing_token"

fun runtime_wake :: "WorldRuntimeState \<Rightarrow> PeerId \<Rightarrow> Hash32
    \<Rightarrow> (MigrationLeaseError, MigrationGeneration \<times> WorldRuntimeState) result" where
  "runtime_wake (RuntimeActive _) candidate candidate_snapshot_hash = Err WrongAuthorityGeneration"
| "runtime_wake (RuntimeSleeping latest epoch fencing_token) candidate candidate_snapshot_hash =
    (if candidate_snapshot_hash \<noteq> latest then Err SnapshotNotReady
     else
       and_then (ok_or (checked_add epoch 1) GenerationExhausted) (\<lambda>next_epoch.
       and_then (ok_or (checked_add fencing_token 1) GenerationExhausted) (\<lambda>next_fencing_token.
       let generation = \<lparr>mg_authority_peer_id = candidate, mg_epoch = next_epoch,
             mg_fencing_token = next_fencing_token, mg_base_snapshot_hash = latest, mg_mode = TakeoverSolo\<rparr>
       in Ok (generation, RuntimeActive generation))))"

section \<open>Takeover and transfer\<close>

text \<open>
  A crash takeover is granted exactly when the old lease has run out, the candidate is electable
  with the required snapshot and has its quorum of votes, and neither counter is exhausted; the generation
  granted is the direct successor of the old one on the required snapshot.
\<close>

theorem crash_takeover_iff:
  "evaluate_crash_takeover l c h now pol = Ok g \<longleftrightarrow>
    ml_expires_at l \<le> now \<and> electable (tc_candidate c) \<and> tc_snapshot_hash c = h
    \<and> tp_quorum_size pol \<le> tc_peer_votes c
    \<and> unat (mg_epoch g) = unat (ml_epoch l) + 1 \<and> unat (mg_fencing_token g) = unat (ml_fencing_token l) + 1
    \<and> mg_authority_peer_id g = ac_peer_id (tc_candidate c) \<and> mg_base_snapshot_hash g = h \<and> mg_mode g = TakeoverQuorum"
  by (cases g) (auto simp: evaluate_crash_takeover_def lease_is_expired_def electable_def not_less checked_add_Some_iff)

datatype transfer_op = TransferAccept PeerId Hash32 | TransferCommit PeerId

fun transfer_step :: "ManualTransferState \<Rightarrow> transfer_op \<Rightarrow> (TransferError, ManualTransferState) result" where
  "transfer_step t (TransferAccept p h) = transfer_accept t p h"
| "transfer_step t (TransferCommit p) = and_then (transfer_commit t p) (\<lambda>(g, t'). Ok t')"

fun phase_rank :: "TransferPhase \<Rightarrow> nat" where
  "phase_rank Prepared = 0"
| "phase_rank Accepted = 1"
| "phase_rank Committed = 2"

interpretation transfer: monotone_register transfer_step "\<lambda>t. Some (phase_rank (mt_phase t))"
proof
  fix t op t'
  show "transfer_step t op = Ok t' \<Longrightarrow> Some (phase_rank (mt_phase t)) \<le> Some (phase_rank (mt_phase t'))"
    by (cases op) (auto simp: transfer_accept_def transfer_commit_def)
qed

definition transfer_terms :: "ManualTransferState \<Rightarrow> PeerId \<times> PeerId \<times> Hash32 \<times> u64 \<times> u64" where
  "transfer_terms t = (mt_from_peer t, mt_to_peer t, mt_snapshot_hash t, mt_next_epoch t, mt_next_fencing_token t)"

lemma transfer_attempt_terms: "transfer_terms (transfer.attempt t op) = transfer_terms t"
  by (cases op) (auto simp: transfer.attempt_def transfer_accept_def transfer_commit_def transfer_terms_def
      split: sum.splits)

lemma transfer_attempts_terms: "transfer_terms (transfer.attempts t ops) = transfer_terms t"
  unfolding transfer.attempts_def by (induction ops arbitrary: t) (simp_all add: transfer_attempt_terms)

lemma accepted_needs_target:
  assumes "mt_phase t = Prepared" "mt_phase (transfer.attempts t ops) \<noteq> Prepared"
  shows "TransferAccept (mt_to_peer t) (mt_snapshot_hash t) \<in> set ops"
  using assms(2)
proof (induction ops rule: rev_induct)
  case Nil
  with assms(1) show ?case by (simp add: transfer.attempts_def)
next
  case (snoc op ops)
  let ?s = "transfer.attempts t ops"
  show ?case
  proof (cases "mt_phase ?s = Prepared")
    case True
    have same: "mt_to_peer ?s = mt_to_peer t" "mt_snapshot_hash ?s = mt_snapshot_hash t"
      using transfer_attempts_terms [of t ops] by (simp_all add: transfer_terms_def)
    have "mt_phase (transfer.attempt ?s op) \<noteq> Prepared" using snoc.prems by (simp add: transfer.attempts_def)
    with True have "op = TransferAccept (mt_to_peer ?s) (mt_snapshot_hash ?s)"
      by (cases op) (auto simp: transfer.attempt_def transfer_accept_def transfer_commit_def split: if_splits)
    with same show ?thesis by simp
  next
    case False
    with snoc.IH show ?thesis by simp
  qed
qed

text \<open>
  C33. A manual transfer hands authority over only with the consent of both sides and only once: however
  its messages are repeated or reordered, a commit succeeds only for the giving peer and only after
  the receiving peer has accepted with the prepared snapshot; it then grants the successor
  generation to the receiving peer, and every later commit fails.
\<close>

theorem manual_transfer_needs_consent_once:
  assumes "transfer_prepare a b h e f = Ok t" "transfer_commit (transfer.attempts t ops) p = Ok (g, t')"
  shows "p = a \<and> TransferAccept b h \<in> set ops
    \<and> mg_authority_peer_id g = b \<and> mg_base_snapshot_hash g = h
    \<and> unat (mg_epoch g) = unat e + 1 \<and> unat (mg_fencing_token g) = unat f + 1
    \<and> transfer_commit (transfer.attempts t' later) q = Err WrongPhase"
proof -
  from assms(1) have t: "mt_from_peer t = a" "mt_to_peer t = b" "mt_snapshot_hash t = h" "mt_phase t = Prepared"
    "unat (mt_next_epoch t) = unat e + 1" "unat (mt_next_fencing_token t) = unat f + 1"
    by (auto simp: transfer_prepare_def checked_add_Some_iff)
  let ?s = "transfer.attempts t ops"
  have fields: "mt_from_peer ?s = mt_from_peer t" "mt_to_peer ?s = mt_to_peer t" "mt_snapshot_hash ?s = mt_snapshot_hash t"
    "mt_next_epoch ?s = mt_next_epoch t" "mt_next_fencing_token ?s = mt_next_fencing_token t"
    using transfer_attempts_terms [of t ops] by (simp_all add: transfer_terms_def)
  from assms(2) have c: "mt_phase ?s = Accepted" "p = mt_from_peer ?s" "mt_phase t' = Committed"
    and g: "mg_authority_peer_id g = mt_to_peer ?s" "mg_base_snapshot_hash g = mt_snapshot_hash ?s"
      "mg_epoch g = mt_next_epoch ?s" "mg_fencing_token g = mt_next_fencing_token ?s"
    by (auto simp: transfer_commit_def)
  have "phase_rank (mt_phase (transfer.attempts t' later)) \<ge> 2"
    using transfer.attempts_mono [of t' later] c(3) by simp
  then have "mt_phase (transfer.attempts t' later) \<noteq> Accepted" by (cases "mt_phase (transfer.attempts t' later)") auto
  moreover have "TransferAccept b h \<in> set ops" using accepted_needs_target [of t ops] t c(1) by simp
  ultimately show ?thesis using c g t fields by (simp add: transfer_commit_def)
qed

theorem manual_transfer_needs_consent_once_witness:
  "\<exists>t g t'. transfer_prepare (PeerId 1) (PeerId 2) (Hash32 3) 4 5 = Ok t
    \<and> transfer_commit (transfer.attempts t [TransferAccept (PeerId 2) (Hash32 3)]) (PeerId 1) = Ok (g, t')
    \<and> mg_authority_peer_id g = PeerId 2 \<and> transfer_commit (transfer.attempts t' []) (PeerId 1) = Err WrongPhase"
proof -
  let ?t = "\<lparr>mt_from_peer = PeerId 1, mt_to_peer = PeerId 2, mt_snapshot_hash = Hash32 3, mt_next_epoch = 5,
    mt_next_fencing_token = 6, mt_phase = Prepared\<rparr>"
  have t: "transfer_prepare (PeerId 1) (PeerId 2) (Hash32 3) 4 5 = Ok ?t"
    by (simp add: transfer_prepare_def checked_add_def)
  moreover obtain g t' where c:
    "transfer_commit (transfer.attempts ?t [TransferAccept (PeerId 2) (Hash32 3)]) (PeerId 1) = Ok (g, t')"
    by (simp add: transfer.attempts_def transfer.attempt_def transfer_accept_def transfer_commit_def)
  ultimately show ?thesis
    using manual_transfer_needs_consent_once [OF t c, of "[]" "PeerId 1"] by blast
qed

section \<open>One authority per token across sleep and wake\<close>

datatype runtime_op = RuntimeSleep Hash32 | RuntimeWake PeerId Hash32

fun runtime_exec :: "WorldRuntimeState \<Rightarrow> runtime_op \<Rightarrow> WorldRuntimeState" where
  "runtime_exec s (RuntimeSleep h) = runtime_sleep s h"
| "runtime_exec s (RuntimeWake p h) = (case runtime_wake s p h of Inl _ \<Rightarrow> s | Inr (g, s') \<Rightarrow> s')"

fun runtime_token :: "WorldRuntimeState \<Rightarrow> u64" where
  "runtime_token (RuntimeActive g) = mg_fencing_token g"
| "runtime_token (RuntimeSleeping _ _ f) = f"

fun runtime_authority :: "WorldRuntimeState \<Rightarrow> PeerId option" where
  "runtime_authority (RuntimeActive g) = Some (mg_authority_peer_id g)"
| "runtime_authority (RuntimeSleeping _ _ _) = None"

lemma runtime_wake_Ok:
  "runtime_wake s p h = Ok (g, s') \<longleftrightarrow> (\<exists>e f. s = RuntimeSleeping h e f \<and> s' = RuntimeActive g
    \<and> unat (mg_epoch g) = unat e + 1 \<and> unat (mg_fencing_token g) = unat f + 1
    \<and> mg_authority_peer_id g = p \<and> mg_base_snapshot_hash g = h \<and> mg_mode g = TakeoverSolo)"
  by (cases s; cases g) (auto simp: checked_add_Some_iff Let_def)

lemma runtime_wake_token: "runtime_wake s p h = Ok (g, s') \<Longrightarrow> runtime_token s < runtime_token s'"
  by (auto simp: runtime_wake_Ok word_less_nat_alt)

lemma runtime_sleep_keeps [simp]:
  "runtime_token (runtime_sleep s h) = runtime_token s" "runtime_authority (runtime_sleep s h) = None"
  by (cases s; simp)+

lemma runtime_exec_cases:
  "runtime_exec s op = s \<or> runtime_token s < runtime_token (runtime_exec s op)
    \<or> runtime_token (runtime_exec s op) = runtime_token s \<and> runtime_authority (runtime_exec s op) = None"
  by (cases op) (auto simp del: runtime_wake.simps split: sum.splits dest: runtime_wake_token)

interpretation runtime: fenced_machine runtime_exec "\<lambda>_. True" runtime_token runtime_authority
proof
  fix s op
  show "runtime_token s \<le> runtime_token (runtime_exec s op)"
    using runtime_exec_cases [of s op] by auto
  show "runtime_token (runtime_exec s op) = runtime_token s \<Longrightarrow>
      runtime_authority (runtime_exec s op) = None \<or> runtime_authority (runtime_exec s op) = runtime_authority s"
    using runtime_exec_cases [of s op] by auto
qed simp



end
