(* ===== verification/Simulator.thy ===== *)
theory Simulator
  imports Authority
begin

text \<open>
  \<open>crates/swarm-consensus/src/simulator.rs\<close>: the deterministic failure simulator.  Its operations mutate
  the simulator and may fail half-way, so each is a function from a state to a result and the state it leaves
  behind, also on the error branches.
\<close>

section \<open>State\<close>

record SimPeer =
  sp_peer_id :: PeerId
  sp_online :: bool
  sp_complete_snapshot :: bool
  sp_compatible :: bool
  sp_authority_eligible :: bool
  sp_banned :: bool
  sp_snapshot_hash :: Hash32

datatype SimWorldState = SimActive PeerId | SimRecovering PeerId | SimSleeping

datatype SimError =
    UnknownPeer
  | LeaseActive
  | AuthorityVisible
  | SimNoQuorum
  | InvalidReplica
  | RecoveryInProgress
  | WrongCandidate
  | RecoveryNotReady
  | SimStaleGeneration
  | SimGenerationExhausted

record RecoveryProgress =
  rp_candidate :: PeerId
  rp_quorum_size :: nat
  rp_reservation_acks :: "PeerId set"
  rp_epoch_acks :: "PeerId set"
  rp_lease_acks :: "PeerId set"
  rp_epoch_committed :: bool

record FailureSimulator =
  fs_peers :: "(PeerId, SimPeer) btree_map"
  fs_isolated :: "PeerId set"
  fs_state :: SimWorldState
  fs_latest_snapshot_hash :: Hash32
  fs_epoch :: u64
  fs_fencing :: FencingState
  fs_lease_expires_ms :: u64
  fs_lease_duration_ms :: u64
  fs_recovery :: "RecoveryProgress option"

type_synonym sim_action = "FailureSimulator \<Rightarrow> (SimError, unit) result \<times> FailureSimulator"

text \<open>The \<open>?\<close> operator between two mutating calls, and a loop of such calls.\<close>

definition sim_then :: "sim_action \<Rightarrow> sim_action \<Rightarrow> sim_action" where
  "sim_then f g s = (case f s of (Inl e, s') \<Rightarrow> (Inl e, s') | (Inr _, s') \<Rightarrow> g s')"

primrec sim_each :: "('a \<Rightarrow> sim_action) \<Rightarrow> 'a list \<Rightarrow> sim_action" where
  "sim_each f [] s = (Ok (), s)"
| "sim_each f (x # xs) s = sim_then (f x) (sim_each f xs) s"

definition FailureSimulator_new :: "SimPeer \<Rightarrow> SimPeer list \<Rightarrow> u64 \<Rightarrow> FailureSimulator" where
  "FailureSimulator_new authority replicas lease_duration_ms =
    \<lparr>fs_peers = bt_from_list ((sp_peer_id authority, authority) # map (\<lambda>p. (sp_peer_id p, p)) replicas),
     fs_isolated = {}, fs_state = SimActive (sp_peer_id authority),
     fs_latest_snapshot_hash = sp_snapshot_hash authority, fs_epoch = 1, fs_fencing = FencingState 1,
     fs_lease_expires_ms = lease_duration_ms, fs_lease_duration_ms = lease_duration_ms, fs_recovery = None\<rparr>"

section \<open>Queries\<close>

definition sim_authority :: "FailureSimulator \<Rightarrow> PeerId option" where
  "sim_authority s = (case fs_state s of SimActive authority \<Rightarrow> Some authority | _ \<Rightarrow> None)"

definition fencing_token :: "FailureSimulator \<Rightarrow> u64" where
  "fencing_token s = accepted_token (fs_fencing s)"

definition recovery_candidate :: "FailureSimulator \<Rightarrow> PeerId option" where
  "recovery_candidate s = map_option rp_candidate (fs_recovery s)"

definition is_visible :: "FailureSimulator \<Rightarrow> PeerId \<Rightarrow> bool" where
  "is_visible s peer \<longleftrightarrow>
    (case bt_get (fs_peers s) peer of None \<Rightarrow> False | Some state \<Rightarrow> sp_online state) \<and> peer \<notin> fs_isolated s"

definition canonical_peer :: "FailureSimulator \<Rightarrow> SimPeer \<Rightarrow> bool" where
  "canonical_peer s peer \<longleftrightarrow> sp_online peer \<and> sp_peer_id peer \<notin> fs_isolated s
    \<and> sp_snapshot_hash peer = fs_latest_snapshot_hash s \<and> sp_complete_snapshot peer
    \<and> sp_compatible peer \<and> \<not> sp_banned peer"

definition visible_canonical_peers :: "FailureSimulator \<Rightarrow> PeerId list" where
  "visible_canonical_peers s = map sp_peer_id (filter (canonical_peer s) (bt_values (fs_peers s)))"

definition validate_candidate :: "FailureSimulator \<Rightarrow> PeerId \<Rightarrow> (SimError, unit) result" where
  "validate_candidate s candidate =
    and_then (ok_or (bt_get (fs_peers s) candidate) UnknownPeer) (\<lambda>state.
    if \<not> is_visible s candidate \<or> \<not> sp_complete_snapshot state \<or> \<not> sp_compatible state
       \<or> \<not> sp_authority_eligible state \<or> sp_banned state
       \<or> sp_snapshot_hash state \<noteq> fs_latest_snapshot_hash s
    then Err InvalidReplica else Ok ())"

definition validate_recovery_ack_peer :: "FailureSimulator \<Rightarrow> PeerId \<Rightarrow> (SimError, unit) result" where
  "validate_recovery_ack_peer s peer =
    (if bt_get (fs_peers s) peer = None then Err UnknownPeer
     else if peer \<notin> set (visible_canonical_peers s) then Err InvalidReplica
     else Ok ())"

fun list_min :: "'a::linorder list \<Rightarrow> 'a option" where
  "list_min [] = None"
| "list_min (x # xs) = Some (foldl min x xs)"

section \<open>Operations\<close>

definition update_peer :: "PeerId \<Rightarrow> (SimPeer \<Rightarrow> SimPeer) \<Rightarrow> FailureSimulator \<Rightarrow> (SimError, FailureSimulator) result" where
  "update_peer peer f s =
    (case bt_get (fs_peers s) peer of
       None \<Rightarrow> Err UnknownPeer
     | Some state \<Rightarrow> Ok (s\<lparr>fs_peers := bt_insert peer (f state) (fs_peers s)\<rparr>))"

definition set_online :: "PeerId \<Rightarrow> bool \<Rightarrow> sim_action" where
  "set_online peer online s =
    (case update_peer peer (\<lambda>p. p\<lparr>sp_online := online\<rparr>) s of
       Inl e \<Rightarrow> (Err e, s)
     | Inr s' \<Rightarrow> (Ok (),
         if \<not> online \<and> list_all (\<lambda>p. \<not> sp_online p) (bt_values (fs_peers s'))
         then s'\<lparr>fs_state := SimSleeping, fs_recovery := None\<rparr> else s'))"

definition set_partitioned :: "PeerId \<Rightarrow> bool \<Rightarrow> sim_action" where
  "set_partitioned peer partitioned s =
    (if bt_get (fs_peers s) peer = None then (Err UnknownPeer, s)
     else (Ok (), s\<lparr>fs_isolated := (if partitioned then insert peer (fs_isolated s) else fs_isolated s - {peer})\<rparr>))"

definition corrupt_snapshot :: "PeerId \<Rightarrow> sim_action" where
  "corrupt_snapshot peer s =
    (case update_peer peer (\<lambda>p. p\<lparr>sp_complete_snapshot := False,
         sp_snapshot_hash := Hash32 0xeeeeeeeeeeeeeeeeeeeeeeeeeeeeeeeeeeeeeeeeeeeeeeeeeeeeeeeeeeeeeeee\<rparr>) s of
       Inl e \<Rightarrow> (Err e, s) | Inr s' \<Rightarrow> (Ok (), s'))"

definition install_snapshot :: "PeerId \<Rightarrow> Hash32 \<Rightarrow> sim_action" where
  "install_snapshot peer hash s =
    (case update_peer peer (\<lambda>p. p\<lparr>sp_snapshot_hash := hash, sp_complete_snapshot := True\<rparr>) s of
       Inl e \<Rightarrow> (Err e, s) | Inr s' \<Rightarrow> (Ok (), s'))"

definition publish_snapshot :: "PeerId \<Rightarrow> Hash32 \<Rightarrow> sim_action" where
  "publish_snapshot authority hash s =
    (if sim_authority s \<noteq> Some authority then (Err SimStaleGeneration, s)
     else case update_peer authority (\<lambda>p. p\<lparr>sp_snapshot_hash := hash, sp_complete_snapshot := True\<rparr>) s of
       Inl e \<Rightarrow> (Err e, s) | Inr s' \<Rightarrow> (Ok (), s'\<lparr>fs_latest_snapshot_hash := hash\<rparr>))"

definition renew_authority_lease :: "PeerId \<Rightarrow> u64 \<Rightarrow> u64 \<Rightarrow> sim_action" where
  "renew_authority_lease authority token now_ms s =
    (if sim_authority s \<noteq> Some authority \<or> \<not> is_ok (validate_write (fs_fencing s) token)
     then (Err SimStaleGeneration, s)
     else (Ok (), s\<lparr>fs_lease_expires_ms := saturating_add now_ms (fs_lease_duration_ms s)\<rparr>))"

definition begin_recovery :: "PeerId \<Rightarrow> u64 \<Rightarrow> nat \<Rightarrow> sim_action" where
  "begin_recovery candidate now_ms quorum s =
    (let outcome =
      (if now_ms < fs_lease_expires_ms s then Err LeaseActive
       else if fs_recovery s \<noteq> None then Err RecoveryInProgress
       else case fs_state s of
           SimRecovering _ \<Rightarrow> Err RecoveryInProgress
         | SimSleeping \<Rightarrow> Err SimStaleGeneration
         | SimActive old_authority \<Rightarrow>
             if is_visible s old_authority then Err AuthorityVisible
             else and_then (validate_candidate s candidate) (\<lambda>_.
               let visible = visible_canonical_peers s in
               if length visible < quorum then Err SimNoQuorum
               else and_then (ok_or (list_min (filter (\<lambda>peer. case bt_get (fs_peers s) peer of None \<Rightarrow> False
                   | Some state \<Rightarrow> sp_authority_eligible state \<and> \<not> sp_banned state) visible)) SimNoQuorum) (\<lambda>winner.
                 if candidate \<noteq> winner then Err WrongCandidate
                 else Ok (s\<lparr>fs_recovery := Some \<lparr>rp_candidate = candidate, rp_quorum_size = quorum,
                   rp_reservation_acks = {candidate}, rp_epoch_acks = {}, rp_lease_acks = {},
                   rp_epoch_committed = False\<rparr>\<rparr>))))
     in case outcome of Inl e \<Rightarrow> (Err e, s) | Inr s' \<Rightarrow> (Ok (), s'))"

definition acknowledge_reservation :: "PeerId \<Rightarrow> sim_action" where
  "acknowledge_reservation peer s =
    (case validate_recovery_ack_peer s peer of
       Inl e \<Rightarrow> (Err e, s)
     | Inr _ \<Rightarrow> (case fs_recovery s of
         None \<Rightarrow> (Err RecoveryNotReady, s)
       | Some r \<Rightarrow> (Ok (), s\<lparr>fs_recovery := Some (r\<lparr>rp_reservation_acks := insert peer (rp_reservation_acks r)\<rparr>)\<rparr>)))"

definition commit_recovery_epoch :: sim_action where
  "commit_recovery_epoch s =
    (case fs_recovery s of
       None \<Rightarrow> (Err RecoveryNotReady, s)
     | Some r \<Rightarrow>
         if card (rp_reservation_acks r) < rp_quorum_size r then (Err SimNoQuorum, s)
         else if rp_epoch_committed r then (Ok (), s)
         else (case checked_next (AuthorityGeneration (fs_epoch s) (accepted_token (fs_fencing s))) of
             Inl _ \<Rightarrow> (Err SimGenerationExhausted, s)
           | Inr next \<Rightarrow>
               let s1 = s\<lparr>fs_epoch := ag_epoch next\<rparr> in
               (case advance (fs_fencing s1) (ag_fencing_token next) of
                  Inl _ \<Rightarrow> (Err SimGenerationExhausted, s1)
                | Inr fencing \<Rightarrow> (Ok (), s1\<lparr>fs_fencing := fencing,
                    fs_recovery := Some (r\<lparr>rp_epoch_committed := True,
                      rp_epoch_acks := insert (rp_candidate r) (rp_epoch_acks r)\<rparr>),
                    fs_state := SimRecovering (rp_candidate r)\<rparr>))))"

definition acknowledge_epoch :: "PeerId \<Rightarrow> sim_action" where
  "acknowledge_epoch peer s =
    (case validate_recovery_ack_peer s peer of
       Inl e \<Rightarrow> (Err e, s)
     | Inr _ \<Rightarrow> (case fs_recovery s of
         None \<Rightarrow> (Err RecoveryNotReady, s)
       | Some r \<Rightarrow>
           if \<not> rp_epoch_committed r then (Err RecoveryNotReady, s)
           else (Ok (), s\<lparr>fs_recovery := Some (r\<lparr>rp_epoch_acks := insert peer (rp_epoch_acks r)\<rparr>)\<rparr>)))"

definition acknowledge_live_lease :: "PeerId \<Rightarrow> sim_action" where
  "acknowledge_live_lease peer s =
    (case validate_recovery_ack_peer s peer of
       Inl e \<Rightarrow> (Err e, s)
     | Inr _ \<Rightarrow> (case fs_recovery s of
         None \<Rightarrow> (Err RecoveryNotReady, s)
       | Some r \<Rightarrow>
           if \<not> rp_epoch_committed r \<or> card (rp_epoch_acks r) < rp_quorum_size r then (Err RecoveryNotReady, s)
           else (Ok (), s\<lparr>fs_recovery := Some (r\<lparr>rp_lease_acks := insert peer (rp_lease_acks r)\<rparr>)\<rparr>)))"

definition activate_recovery :: "u64 \<Rightarrow> sim_action" where
  "activate_recovery now_ms s =
    (case fs_recovery s of
       None \<Rightarrow> (Err RecoveryNotReady, s)
     | Some r \<Rightarrow>
         if \<not> rp_epoch_committed r \<or> card (rp_epoch_acks r) < rp_quorum_size r
            \<or> card (rp_lease_acks r) + 1 < rp_quorum_size r
         then (Err SimNoQuorum, s)
         else (Ok (), s\<lparr>fs_state := SimActive (rp_candidate r),
           fs_lease_expires_ms := saturating_add now_ms (fs_lease_duration_ms s), fs_recovery := None\<rparr>))"

definition attempt_takeover :: "PeerId \<Rightarrow> u64 \<Rightarrow> nat \<Rightarrow> sim_action" where
  "attempt_takeover candidate now_ms quorum =
    sim_then (begin_recovery candidate now_ms quorum) (\<lambda>s.
      let others = filter (\<lambda>peer. peer \<noteq> candidate) (visible_canonical_peers s) in
      sim_then (sim_each acknowledge_reservation others) (
      sim_then commit_recovery_epoch (
      sim_then (sim_each acknowledge_epoch others) (
      sim_then (sim_each acknowledge_live_lease others) (activate_recovery now_ms)))) s)"

definition sim_wake :: "PeerId \<Rightarrow> u64 \<Rightarrow> sim_action" where
  "sim_wake candidate now_ms s =
    (if fs_state s \<noteq> SimSleeping then (Err SimStaleGeneration, s)
     else case bt_get (fs_peers s) candidate of
         None \<Rightarrow> (Err UnknownPeer, s)
       | Some state \<Rightarrow>
           if \<not> sp_online state \<or> \<not> sp_complete_snapshot state \<or> sp_snapshot_hash state \<noteq> fs_latest_snapshot_hash s
           then (Err InvalidReplica, s)
           else (case checked_next (AuthorityGeneration (fs_epoch s) (accepted_token (fs_fencing s))) of
               Inl _ \<Rightarrow> (Err SimGenerationExhausted, s)
             | Inr next \<Rightarrow>
                 let s1 = s\<lparr>fs_epoch := ag_epoch next\<rparr> in
                 (case advance (fs_fencing s1) (ag_fencing_token next) of
                    Inl _ \<Rightarrow> (Err SimGenerationExhausted, s1)
                  | Inr fencing \<Rightarrow> (Ok (), s1\<lparr>fs_fencing := fencing, fs_state := SimActive candidate,
                      fs_lease_expires_ms := saturating_add now_ms (fs_lease_duration_ms s)\<rparr>))))"

section \<open>Invariant\<close>

text \<open>The peer that holds or is taking over the current fencing token.\<close>

fun state_owner :: "SimWorldState \<Rightarrow> PeerId option" where
  "state_owner (SimActive p) = Some p"
| "state_owner (SimRecovering p) = Some p"
| "state_owner SimSleeping = None"

fun recovery_consistent :: "SimWorldState \<Rightarrow> RecoveryProgress option \<Rightarrow> bool" where
  "recovery_consistent (SimActive _) None = True"
| "recovery_consistent (SimActive _) (Some r) = (\<not> rp_epoch_committed r)"
| "recovery_consistent (SimRecovering c) None = False"
| "recovery_consistent (SimRecovering c) (Some r) = (rp_epoch_committed r \<and> rp_candidate r = c)"
| "recovery_consistent SimSleeping r = (r = None)"

fun acks_backed :: "PeerId set \<Rightarrow> RecoveryProgress option \<Rightarrow> bool" where
  "acks_backed known None = True"
| "acks_backed known (Some r) =
    (rp_reservation_acks r \<union> rp_epoch_acks r \<union> rp_lease_acks r \<subseteq> known
     \<and> rp_candidate r \<in> rp_reservation_acks r
     \<and> (rp_epoch_committed r \<longrightarrow> rp_quorum_size r \<le> card (rp_reservation_acks r)))"

definition sim_inv :: "FailureSimulator \<Rightarrow> bool" where
  "sim_inv s \<longleftrightarrow> bt_wf (fs_peers s) \<and> list_all (\<lambda>(k, p). sp_peer_id p = k) (fs_peers s)
    \<and> fs_epoch s = accepted_token (fs_fencing s)
    \<and> recovery_consistent (fs_state s) (fs_recovery s)
    \<and> acks_backed (set (bt_keys (fs_peers s))) (fs_recovery s)"

lemma acks_backed_mono: "acks_backed K r \<Longrightarrow> K \<subseteq> K' \<Longrightarrow> acks_backed K' r"
  by (cases r) auto

definition fenced_rel :: "FailureSimulator \<Rightarrow> FailureSimulator \<Rightarrow> bool" where
  "fenced_rel s s' \<longleftrightarrow> sim_inv s' \<and> fencing_token s \<le> fencing_token s'
    \<and> (fencing_token s' = fencing_token s \<longrightarrow>
        state_owner (fs_state s') = None \<or> state_owner (fs_state s') = state_owner (fs_state s))"

definition safe_action :: "sim_action \<Rightarrow> bool" where
  "safe_action f \<longleftrightarrow> (\<forall>s. sim_inv s \<longrightarrow> fenced_rel s (snd (f s)))"

lemma fenced_rel_refl: "sim_inv s \<Longrightarrow> fenced_rel s s"
  by (simp add: fenced_rel_def)

lemma fenced_rel_trans: "fenced_rel s t \<Longrightarrow> fenced_rel t u \<Longrightarrow> fenced_rel s u"
  by (auto simp: fenced_rel_def)

lemma safe_then: "safe_action f \<Longrightarrow> safe_action g \<Longrightarrow> safe_action (sim_then f g)"
  unfolding safe_action_def
proof (intro allI impI)
  fix s
  assume f: "\<forall>s. sim_inv s \<longrightarrow> fenced_rel s (snd (f s))" and g: "\<forall>s. sim_inv s \<longrightarrow> fenced_rel s (snd (g s))"
    and s: "sim_inv s"
  obtain r s' where fs: "f s = (r, s')" by fastforce
  with f s have step: "fenced_rel s s'" by force
  then have "fenced_rel s' (snd (g s'))" using g by (simp add: fenced_rel_def)
  with step have "fenced_rel s (snd (g s'))" by (rule fenced_rel_trans)
  with fs step show "fenced_rel s (snd (sim_then f g s))"
    by (cases r) (simp_all add: sim_then_def)
qed

lemma safe_each: "(\<And>x. safe_action (f x)) \<Longrightarrow> safe_action (sim_each f xs)"
proof (induction xs)
  case Nil
  then show ?case by (simp add: safe_action_def fenced_rel_refl)
next
  case (Cons x xs)
  have "sim_each f (x # xs) = sim_then (f x) (sim_each f xs)" by (simp add: fun_eq_iff)
  with Cons show ?case by (simp add: safe_then)
qed

section \<open>Every operation is safe\<close>

lemma bt_insert_peer_ids:
  "list_all (\<lambda>(k, p). sp_peer_id p = k) m \<Longrightarrow> sp_peer_id q = k \<Longrightarrow> list_all (\<lambda>(k, p). sp_peer_id p = k) (bt_insert k q m)"
  by (induction k q m rule: bt_insert.induct) auto

lemma peer_id_of_key: "sim_inv s \<Longrightarrow> bt_get (fs_peers s) k = Some p \<Longrightarrow> sp_peer_id p = k"
  by (auto simp: sim_inv_def bt_get_iff list_all_iff)

lemma update_peer_Ok:
  "update_peer k f s = Ok s' \<longleftrightarrow> (\<exists>p. bt_get (fs_peers s) k = Some p \<and> s' = s\<lparr>fs_peers := bt_insert k (f p) (fs_peers s)\<rparr>)"
  by (auto simp: update_peer_def split: option.splits)

lemma update_peer_inv:
  assumes "sim_inv s" "update_peer k f s = Ok s'" "\<And>p. sp_peer_id (f p) = sp_peer_id p"
  shows "fenced_rel s s'"
  using assms peer_id_of_key [OF assms(1)]
  by (auto simp: update_peer_Ok fenced_rel_def sim_inv_def fencing_token_def
      bt_insert_peer_ids bt_insert_keys elim: acks_backed_mono)

lemma sleep_inv: "fenced_rel s s' \<Longrightarrow> fenced_rel s (s'\<lparr>fs_state := SimSleeping, fs_recovery := None\<rparr>)"
  by (auto simp: fenced_rel_def sim_inv_def fencing_token_def)

lemma set_online_safe: "safe_action (set_online p b)"
  unfolding safe_action_def set_online_def
  by (auto simp: fenced_rel_refl split: sum.splits intro!: sleep_inv elim: update_peer_inv)

lemma set_partitioned_safe: "safe_action (set_partitioned p b)"
  unfolding safe_action_def set_partitioned_def
  by (auto simp: fenced_rel_def sim_inv_def fencing_token_def)

lemma corrupt_snapshot_safe: "safe_action (corrupt_snapshot p)"
  unfolding safe_action_def corrupt_snapshot_def
  by (auto simp: fenced_rel_refl split: sum.splits elim: update_peer_inv)

lemma install_snapshot_safe: "safe_action (install_snapshot p h)"
  unfolding safe_action_def install_snapshot_def
  by (auto simp: fenced_rel_refl split: sum.splits elim: update_peer_inv)

lemma latest_inv: "fenced_rel s s' \<Longrightarrow> fenced_rel s (s'\<lparr>fs_latest_snapshot_hash := h\<rparr>)"
  by (simp add: fenced_rel_def sim_inv_def fencing_token_def)

lemma publish_snapshot_safe: "safe_action (publish_snapshot p h)"
  unfolding safe_action_def publish_snapshot_def
  by (auto simp: fenced_rel_refl split: sum.splits intro!: latest_inv elim: update_peer_inv)

lemma renew_authority_lease_safe: "safe_action (renew_authority_lease p t now)"
  unfolding safe_action_def renew_authority_lease_def
  by (auto simp: fenced_rel_def sim_inv_def fencing_token_def)

lemma begin_recovery_Ok:
  "begin_recovery c now q s = (Ok (), s') \<longleftrightarrow>
    fs_lease_expires_ms s \<le> now \<and> fs_recovery s = None
    \<and> (\<exists>a. fs_state s = SimActive a \<and> \<not> is_visible s a)
    \<and> validate_candidate s c = Ok () \<and> q \<le> length (visible_canonical_peers s)
    \<and> list_min (filter (\<lambda>peer. case bt_get (fs_peers s) peer of None \<Rightarrow> False
        | Some state \<Rightarrow> sp_authority_eligible state \<and> \<not> sp_banned state) (visible_canonical_peers s)) = Some c
    \<and> s' = s\<lparr>fs_recovery := Some \<lparr>rp_candidate = c, rp_quorum_size = q, rp_reservation_acks = {c},
        rp_epoch_acks = {}, rp_lease_acks = {}, rp_epoch_committed = False\<rparr>\<rparr>"
  by (cases "fs_state s")
    (auto simp: begin_recovery_def Let_def not_less split: sum.splits)

lemma begin_recovery_Err: "begin_recovery c now q s = (Err e, s') \<Longrightarrow> s' = s"
  by (auto simp: begin_recovery_def Let_def split: sum.splits)

lemma begin_recovery_safe: "safe_action (begin_recovery c now q)"
  unfolding safe_action_def
proof (intro allI impI)
  fix s assume s: "sim_inv s"
  obtain r s' where b: "begin_recovery c now q s = (r, s')" by fastforce
  show "fenced_rel s (snd (begin_recovery c now q s))"
  proof (cases r)
    case (Inl e)
    with b begin_recovery_Err have "s' = s" by blast
    with b s show ?thesis by (simp add: fenced_rel_refl)
  next
    case (Inr u)
    with b have ok: "begin_recovery c now q s = (Ok (), s')" by simp
    then have "c \<in> set (bt_keys (fs_peers s))"
      by (auto simp: begin_recovery_Ok validate_candidate_def bt_get_def bt_keys_def dest: map_of_SomeD
          intro: image_eqI [of _ fst "(c, _)"])
    with ok s have "fenced_rel s s'"
      by (auto simp: begin_recovery_Ok fenced_rel_def sim_inv_def fencing_token_def)
    with b show ?thesis by simp
  qed
qed

lemma ack_peer_known: "validate_recovery_ack_peer s p = Ok u \<Longrightarrow> p \<in> set (bt_keys (fs_peers s))"
  by (auto simp: validate_recovery_ack_peer_def bt_get_def bt_keys_def map_of_eq_None_iff)

lemma recovery_update_rel:
  assumes "sim_inv s" "recovery_consistent (fs_state s) (Some r)" "acks_backed (set (bt_keys (fs_peers s))) (Some r)"
  shows "fenced_rel s (s\<lparr>fs_recovery := Some r\<rparr>)"
  using assms by (simp add: fenced_rel_def sim_inv_def fencing_token_def)

lemma consistent_step:
  "recovery_consistent st (Some r) \<Longrightarrow> rp_epoch_committed r' = rp_epoch_committed r \<Longrightarrow> rp_candidate r' = rp_candidate r \<Longrightarrow>
    recovery_consistent st (Some r')"
  by (cases st) auto

lemma acks_card_insert: "A \<subseteq> set xs \<Longrightarrow> n \<le> card A \<Longrightarrow> n \<le> card (insert x A)"
  by (meson List.finite_set card_insert_le finite_subset le_trans)

lemma acknowledge_reservation_safe: "safe_action (acknowledge_reservation p)"
  unfolding safe_action_def acknowledge_reservation_def
  by (auto simp: fenced_rel_refl sim_inv_def split: sum.splits option.splits intro!: recovery_update_rel
      elim: consistent_step acks_card_insert intro: ack_peer_known)

lemma acknowledge_epoch_safe: "safe_action (acknowledge_epoch p)"
  unfolding safe_action_def acknowledge_epoch_def
  by (auto simp: fenced_rel_refl sim_inv_def split: sum.splits option.splits intro!: recovery_update_rel
      dest: ack_peer_known elim: consistent_step)

lemma acknowledge_live_lease_safe: "safe_action (acknowledge_live_lease p)"
  unfolding safe_action_def acknowledge_live_lease_def
  by (auto simp: fenced_rel_refl sim_inv_def split: sum.splits option.splits intro!: recovery_update_rel
      dest: ack_peer_known elim: consistent_step)

text \<open>The next generation always clears the fencing check, so committing an epoch cannot fail half-way.\<close>

lemma checked_next_advance:
  "checked_next (AuthorityGeneration e (accepted_token f)) = Ok next \<Longrightarrow>
    advance f (ag_fencing_token next) = Ok (FencingState (ag_fencing_token next))
    \<and> accepted_token f < ag_fencing_token next"
  by (auto simp: checked_next_def checked_succ_less)

lemma commit_recovery_epoch_Ok:
  "commit_recovery_epoch s = (Ok (), s') \<longleftrightarrow>
    (\<exists>r. fs_recovery s = Some r \<and> rp_quorum_size r \<le> card (rp_reservation_acks r)
      \<and> (if rp_epoch_committed r then s' = s
         else \<exists>next. checked_next (AuthorityGeneration (fs_epoch s) (accepted_token (fs_fencing s))) = Ok next
           \<and> s' = s\<lparr>fs_epoch := ag_epoch next, fs_fencing := FencingState (ag_fencing_token next),
               fs_recovery := Some (r\<lparr>rp_epoch_committed := True,
                 rp_epoch_acks := insert (rp_candidate r) (rp_epoch_acks r)\<rparr>),
               fs_state := SimRecovering (rp_candidate r)\<rparr>))"
  by (auto simp: commit_recovery_epoch_def not_less Let_def split: option.splits sum.splits
      dest: checked_next_advance)

lemma commit_recovery_epoch_Err: "commit_recovery_epoch s = (Err e, s') \<Longrightarrow> s' = s"
  by (auto simp: commit_recovery_epoch_def Let_def split: option.splits sum.splits if_splits dest: checked_next_advance)

lemma next_generation_equal:
  "checked_next (AuthorityGeneration n n) = Ok next \<Longrightarrow> ag_epoch next = ag_fencing_token next"
  by (auto simp: checked_next_def)

lemma commit_recovery_epoch_safe: "safe_action commit_recovery_epoch"
  unfolding safe_action_def
proof (intro allI impI)
  fix s assume s: "sim_inv s"
  obtain o1 s' where c: "commit_recovery_epoch s = (o1, s')" by fastforce
  have "fenced_rel s s'"
  proof (cases o1)
    case (Inl e)
    with c commit_recovery_epoch_Err s show ?thesis by (metis fenced_rel_refl)
  next
    case (Inr u)
    with c obtain r where r: "fs_recovery s = Some r" "rp_quorum_size r \<le> card (rp_reservation_acks r)"
      and step: "rp_epoch_committed r \<and> s' = s \<or> (\<not> rp_epoch_committed r \<and> (\<exists>next.
        checked_next (AuthorityGeneration (fs_epoch s) (accepted_token (fs_fencing s))) = Ok next
        \<and> s' = s\<lparr>fs_epoch := ag_epoch next, fs_fencing := FencingState (ag_fencing_token next),
            fs_recovery := Some (r\<lparr>rp_epoch_committed := True,
              rp_epoch_acks := insert (rp_candidate r) (rp_epoch_acks r)\<rparr>),
            fs_state := SimRecovering (rp_candidate r)\<rparr>))"
      by (cases u) (auto simp: commit_recovery_epoch_Ok split: if_splits)
    from step show ?thesis
    proof
      assume "rp_epoch_committed r \<and> s' = s"
      with s show ?thesis by (simp add: fenced_rel_refl)
    next
      assume "\<not> rp_epoch_committed r \<and> (\<exists>next.
        checked_next (AuthorityGeneration (fs_epoch s) (accepted_token (fs_fencing s))) = Ok next
        \<and> s' = s\<lparr>fs_epoch := ag_epoch next, fs_fencing := FencingState (ag_fencing_token next),
            fs_recovery := Some (r\<lparr>rp_epoch_committed := True,
              rp_epoch_acks := insert (rp_candidate r) (rp_epoch_acks r)\<rparr>),
            fs_state := SimRecovering (rp_candidate r)\<rparr>)"
      then show ?thesis
        using s r checked_next_advance [of "fs_epoch s" "fs_fencing s"]
        by (auto simp: fenced_rel_def sim_inv_def fencing_token_def dest: next_generation_equal)
    qed
  qed
  with c show "fenced_rel s (snd (commit_recovery_epoch s))" by simp
qed

lemma activate_recovery_Ok:
  "activate_recovery now s = (Ok (), s') \<longleftrightarrow>
    (\<exists>r. fs_recovery s = Some r \<and> rp_epoch_committed r \<and> rp_quorum_size r \<le> card (rp_epoch_acks r)
      \<and> rp_quorum_size r \<le> card (rp_lease_acks r) + 1
      \<and> s' = s\<lparr>fs_state := SimActive (rp_candidate r),
          fs_lease_expires_ms := saturating_add now (fs_lease_duration_ms s), fs_recovery := None\<rparr>)"
  by (auto simp: activate_recovery_def not_less split: option.splits)

lemma activate_recovery_safe: "safe_action (activate_recovery now)"
proof -
  have "state_owner (fs_state s) = Some (rp_candidate r)"
    if "sim_inv s" "fs_recovery s = Some r" "rp_epoch_committed r" for s r
    using that by (cases "fs_state s") (auto simp: sim_inv_def)
  then show ?thesis
    unfolding safe_action_def activate_recovery_def
    by (auto simp: fenced_rel_refl split: option.splits)
      (auto simp: fenced_rel_def sim_inv_def fencing_token_def)
qed

lemma sim_wake_Ok:
  "sim_wake p now s = (Ok (), s') \<longleftrightarrow> fs_state s = SimSleeping
    \<and> (\<exists>st. bt_get (fs_peers s) p = Some st \<and> sp_online st \<and> sp_complete_snapshot st
        \<and> sp_snapshot_hash st = fs_latest_snapshot_hash s)
    \<and> (\<exists>nx. checked_next (AuthorityGeneration (fs_epoch s) (accepted_token (fs_fencing s))) = Ok nx
        \<and> s' = s\<lparr>fs_epoch := ag_epoch nx, fs_fencing := FencingState (ag_fencing_token nx),
            fs_state := SimActive p, fs_lease_expires_ms := saturating_add now (fs_lease_duration_ms s)\<rparr>)"
  by (auto simp: sim_wake_def Let_def split: option.splits sum.splits dest: checked_next_advance)

lemma sim_wake_Err: "sim_wake p now s = (Err e, s') \<Longrightarrow> s' = s"
  by (auto simp: sim_wake_def Let_def split: option.splits sum.splits if_splits dest: checked_next_advance)

lemma sim_wake_safe: "safe_action (sim_wake p now)"
  unfolding safe_action_def
proof (intro allI impI)
  fix s assume s: "sim_inv s"
  obtain o1 s' where w: "sim_wake p now s = (o1, s')" by fastforce
  have "fenced_rel s s'"
  proof (cases o1)
    case (Inl e)
    with w sim_wake_Err s show ?thesis by (metis fenced_rel_refl)
  next
    case (Inr u)
    with w obtain nx where nx: "fs_state s = SimSleeping"
      "checked_next (AuthorityGeneration (fs_epoch s) (accepted_token (fs_fencing s))) = Ok nx"
      "s' = s\<lparr>fs_epoch := ag_epoch nx, fs_fencing := FencingState (ag_fencing_token nx),
        fs_state := SimActive p, fs_lease_expires_ms := saturating_add now (fs_lease_duration_ms s)\<rparr>"
      by (cases u) (auto simp: sim_wake_Ok)
    with s checked_next_advance [OF nx(2)] show ?thesis
      by (auto simp: fenced_rel_def sim_inv_def fencing_token_def dest: next_generation_equal)
  qed
  with w show "fenced_rel s (snd (sim_wake p now s))" by simp
qed

lemma safe_dependent: "(\<And>x. safe_action (f x)) \<Longrightarrow> safe_action (\<lambda>s. f (g s) s)"
  by (simp add: safe_action_def)

lemma attempt_takeover_safe: "safe_action (attempt_takeover c now q)"
  unfolding attempt_takeover_def Let_def
  by (intro safe_then safe_each begin_recovery_safe acknowledge_reservation_safe commit_recovery_epoch_safe
      acknowledge_epoch_safe acknowledge_live_lease_safe activate_recovery_safe
      safe_dependent [where g = "\<lambda>s. filter (\<lambda>peer. peer \<noteq> c) (visible_canonical_peers s)"])

section \<open>Runs\<close>

datatype sim_op =
    SetOnline PeerId bool
  | SetPartitioned PeerId bool
  | CorruptSnapshot PeerId
  | InstallSnapshot PeerId Hash32
  | PublishSnapshot PeerId Hash32
  | RenewAuthorityLease PeerId u64 u64
  | BeginRecovery PeerId u64 nat
  | AcknowledgeReservation PeerId
  | CommitRecoveryEpoch
  | AcknowledgeEpoch PeerId
  | AcknowledgeLiveLease PeerId
  | ActivateRecovery u64
  | AttemptTakeover PeerId u64 nat
  | Wake PeerId u64

fun sim_perform :: "sim_op \<Rightarrow> sim_action" where
  "sim_perform (SetOnline p b) = set_online p b"
| "sim_perform (SetPartitioned p b) = set_partitioned p b"
| "sim_perform (CorruptSnapshot p) = corrupt_snapshot p"
| "sim_perform (InstallSnapshot p h) = install_snapshot p h"
| "sim_perform (PublishSnapshot p h) = publish_snapshot p h"
| "sim_perform (RenewAuthorityLease p t now) = renew_authority_lease p t now"
| "sim_perform (BeginRecovery p now q) = begin_recovery p now q"
| "sim_perform (AcknowledgeReservation p) = acknowledge_reservation p"
| "sim_perform CommitRecoveryEpoch = commit_recovery_epoch"
| "sim_perform (AcknowledgeEpoch p) = acknowledge_epoch p"
| "sim_perform (AcknowledgeLiveLease p) = acknowledge_live_lease p"
| "sim_perform (ActivateRecovery now) = activate_recovery now"
| "sim_perform (AttemptTakeover p now q) = attempt_takeover p now q"
| "sim_perform (Wake p now) = sim_wake p now"

definition sim_exec :: "FailureSimulator \<Rightarrow> sim_op \<Rightarrow> FailureSimulator" where
  "sim_exec s op = snd (sim_perform op s)"

lemmas action_safety =
  set_online_safe set_partitioned_safe corrupt_snapshot_safe install_snapshot_safe publish_snapshot_safe
  renew_authority_lease_safe begin_recovery_safe acknowledge_reservation_safe commit_recovery_epoch_safe
  acknowledge_epoch_safe acknowledge_live_lease_safe activate_recovery_safe attempt_takeover_safe sim_wake_safe

lemma sim_exec_safe: "sim_inv s \<Longrightarrow> fenced_rel s (sim_exec s op)"
proof -
  have "safe_action (sim_perform op)" by (cases op) (simp_all add: action_safety)
  then show "sim_inv s \<Longrightarrow> fenced_rel s (sim_exec s op)" by (simp add: safe_action_def sim_exec_def)
qed

interpretation sim: fenced_machine sim_exec sim_inv fencing_token "\<lambda>s. state_owner (fs_state s)"
  using sim_exec_safe by unfold_locales (auto simp: fenced_rel_def)

lemma new_peers: "set (bt_from_list es) \<subseteq> set es"
proof
  fix e assume "e \<in> set (bt_from_list es)"
  then have "bt_get (bt_from_list es) (fst e) = Some (snd e)" by (simp add: bt_get_iff)
  then show "e \<in> set es" by (auto simp: bt_from_list_get dest: map_of_SomeD)
qed

lemma new_inv: "sim_inv (FailureSimulator_new a rs d)"
  using new_peers [of "(sp_peer_id a, a) # map (\<lambda>p. (sp_peer_id p, p)) rs"]
  by (fastforce simp: sim_inv_def FailureSimulator_new_def list_all_iff)

text \<open>
  C17. No split brain in the simulator: in any run of any operations from a fresh simulator, failed
  operations included, two moments with the same fencing token and an authority have the same authority;
  the token never decreases and always equals the epoch.
\<close>

theorem simulator_one_authority_per_token:
  assumes "sim_authority (sim.run (FailureSimulator_new a rs d) ops) = Some p"
    and "sim_authority (sim.run (FailureSimulator_new a rs d) (ops @ ops')) = Some q"
    and "fencing_token (sim.run (FailureSimulator_new a rs d) (ops @ ops')) =
      fencing_token (sim.run (FailureSimulator_new a rs d) ops)"
  shows "p = q \<and> fs_epoch (sim.run (FailureSimulator_new a rs d) ops) =
      fencing_token (sim.run (FailureSimulator_new a rs d) ops)"
proof -
  have owner: "sim_authority s = Some p \<Longrightarrow> state_owner (fs_state s) = Some p" for s p
    by (cases "fs_state s") (auto simp: sim_authority_def)
  have "sim_inv (sim.run (FailureSimulator_new a rs d) ops)" by (rule sim.run_inv [OF new_inv])
  then have "fs_epoch (sim.run (FailureSimulator_new a rs d) ops) =
      fencing_token (sim.run (FailureSimulator_new a rs d) ops)"
    by (simp add: sim_inv_def fencing_token_def)
  with sim.one_owner_per_token [OF new_inv assms(1,2) [THEN owner] assms(3)] show ?thesis by simp
qed

abbreviation sample_sim_peer :: "bytes32 \<Rightarrow> SimPeer" where
  "sample_sim_peer n \<equiv> \<lparr>sp_peer_id = PeerId n, sp_online = True, sp_complete_snapshot = True, sp_compatible = True,
    sp_authority_eligible = True, sp_banned = False, sp_snapshot_hash = Hash32 1\<rparr>"

abbreviation sample_sim :: FailureSimulator where
  "sample_sim \<equiv> FailureSimulator_new (sample_sim_peer 9) [sample_sim_peer 5, sample_sim_peer 7] 10"

lemma sample_sim_state:
  "sample_sim = \<lparr>fs_peers = [(PeerId 5, sample_sim_peer 5), (PeerId 7, sample_sim_peer 7), (PeerId 9, sample_sim_peer 9)],
    fs_isolated = {}, fs_state = SimActive (PeerId 9), fs_latest_snapshot_hash = Hash32 1, fs_epoch = 1,
    fs_fencing = FencingState 1, fs_lease_expires_ms = 10, fs_lease_duration_ms = 10, fs_recovery = None\<rparr>"
  by (simp add: FailureSimulator_new_def bt_from_list_def)

theorem simulator_one_authority_per_token_witness:
  "sim_authority (sim.run sample_sim []) = Some (PeerId 9)
    \<and> sim_authority (sim.run sample_sim ([] @ [SetPartitioned (PeerId 5) True])) = Some (PeerId 9)
    \<and> fs_epoch (sim.run sample_sim []) = fencing_token (sim.run sample_sim [])"
proof -
  have 1: "sim_authority (sim.run sample_sim []) = Some (PeerId 9)"
    by (simp add: sample_sim_state sim_authority_def)
  have 2: "sim_authority (sim.run sample_sim ([] @ [SetPartitioned (PeerId 5) True])) = Some (PeerId 9)"
    by (simp add: sample_sim_state sim_authority_def sim_exec_def set_partitioned_def)
  have "fencing_token (sim.run sample_sim ([] @ [SetPartitioned (PeerId 5) True])) = fencing_token (sim.run sample_sim [])"
    by (simp add: sample_sim_state fencing_token_def sim_exec_def set_partitioned_def)
  from simulator_one_authority_per_token [OF 1 2 this] 1 2 show ?thesis by simp
qed

section \<open>Takeover succeeds when it should\<close>

lemma recovery_update_views [simp]:
  "visible_canonical_peers (s\<lparr>fs_recovery := r\<rparr>) = visible_canonical_peers s"
  "validate_recovery_ack_peer (s\<lparr>fs_recovery := r\<rparr>) p = validate_recovery_ack_peer s p"
  by (simp_all add: visible_canonical_peers_def validate_recovery_ack_peer_def canonical_peer_def cong: filter_cong)

lemma visible_peer_iff:
  assumes "sim_inv s"
  shows "p \<in> set (visible_canonical_peers s) \<longleftrightarrow> (\<exists>st. bt_get (fs_peers s) p = Some st \<and> canonical_peer s st)"
proof -
  have key: "(k, q) \<in> set (fs_peers s) \<Longrightarrow> sp_peer_id q = k" for k q
    using assms by (auto simp: sim_inv_def list_all_iff)
  have wf: "bt_wf (fs_peers s)" using assms by (simp add: sim_inv_def)
  show ?thesis
    unfolding visible_canonical_peers_def bt_values_def bt_get_iff [OF wf]
    using key by (fastforce simp: image_iff)
qed

lemma visible_distinct:
  assumes "sim_inv s"
  shows "distinct (visible_canonical_peers s)"
proof -
  have "map sp_peer_id (bt_values (fs_peers s)) = map fst (fs_peers s)"
    using assms by (auto simp: sim_inv_def bt_values_def list_all_iff)
  then have "distinct (map sp_peer_id (bt_values (fs_peers s)))"
    using assms by (simp add: sim_inv_def bt_wf_distinct)
  then show ?thesis
    unfolding visible_canonical_peers_def by (simp add: distinct_map_filter)
qed

lemma visible_ack_valid: "sim_inv s \<Longrightarrow> p \<in> set (visible_canonical_peers s) \<Longrightarrow> validate_recovery_ack_peer s p = Ok ()"
  by (auto simp: validate_recovery_ack_peer_def visible_peer_iff)

lemma sim_then_Ok: "f s = (Ok u, s') \<Longrightarrow> sim_then f g s = g s'"
  by (simp add: sim_then_def)

lemma each_reservation:
  assumes "\<And>x. x \<in> set xs \<Longrightarrow> validate_recovery_ack_peer s x = Ok ()"
  shows "sim_each acknowledge_reservation xs (s\<lparr>fs_recovery := Some r\<rparr>) =
    (Ok (), s\<lparr>fs_recovery := Some (r\<lparr>rp_reservation_acks := set xs \<union> rp_reservation_acks r\<rparr>)\<rparr>)"
  using assms
proof (induction xs arbitrary: r)
  case (Cons x xs)
  have step: "acknowledge_reservation x (s\<lparr>fs_recovery := Some r\<rparr>) =
      (Ok (), s\<lparr>fs_recovery := Some (r\<lparr>rp_reservation_acks := insert x (rp_reservation_acks r)\<rparr>)\<rparr>)"
    using Cons.prems by (simp add: acknowledge_reservation_def)
  show ?case
    using Cons by (simp add: sim_then_Ok [where f = "acknowledge_reservation x", OF step])
qed simp

lemma each_epoch:
  assumes "\<And>x. x \<in> set xs \<Longrightarrow> validate_recovery_ack_peer s x = Ok ()" "rp_epoch_committed r"
  shows "sim_each acknowledge_epoch xs (s\<lparr>fs_recovery := Some r\<rparr>) =
    (Ok (), s\<lparr>fs_recovery := Some (r\<lparr>rp_epoch_acks := set xs \<union> rp_epoch_acks r\<rparr>)\<rparr>)"
  using assms
proof (induction xs arbitrary: r)
  case (Cons x xs)
  have step: "acknowledge_epoch x (s\<lparr>fs_recovery := Some r\<rparr>) =
      (Ok (), s\<lparr>fs_recovery := Some (r\<lparr>rp_epoch_acks := insert x (rp_epoch_acks r)\<rparr>)\<rparr>)"
    using Cons.prems by (simp add: acknowledge_epoch_def)
  show ?case
    using Cons by (simp add: sim_then_Ok [where f = "acknowledge_epoch x", OF step])
qed simp

lemma each_lease:
  assumes "\<And>x. x \<in> set xs \<Longrightarrow> validate_recovery_ack_peer s x = Ok ()" "rp_epoch_committed r"
    and "rp_quorum_size r \<le> card (rp_epoch_acks r)"
  shows "sim_each acknowledge_live_lease xs (s\<lparr>fs_recovery := Some r\<rparr>) =
    (Ok (), s\<lparr>fs_recovery := Some (r\<lparr>rp_lease_acks := set xs \<union> rp_lease_acks r\<rparr>)\<rparr>)"
  using assms
proof (induction xs arbitrary: r)
  case (Cons x xs)
  have step: "acknowledge_live_lease x (s\<lparr>fs_recovery := Some r\<rparr>) =
      (Ok (), s\<lparr>fs_recovery := Some (r\<lparr>rp_lease_acks := insert x (rp_lease_acks r)\<rparr>)\<rparr>)"
    using Cons.prems by (simp add: acknowledge_live_lease_def)
  show ?case
    using Cons by (simp add: sim_then_Ok [where f = "acknowledge_live_lease x", OF step])
qed simp

lemma foldl_min_least:
  "foldl min x ys \<in> set (x # ys)" "y \<in> set (x # ys) \<Longrightarrow> foldl min x ys \<le> (y :: 'a::linorder)"
proof (induction ys arbitrary: x y)
  case (Cons z ys)
  { case 1
    show ?case using Cons(1) [of "min x z"] by (auto simp: min_def split: if_splits) }
  { case 2
    have "foldl min (min x z) ys \<le> min x z" using Cons(2) [of "min x z" "min x z"] by simp
    with 2 show ?case using Cons(2) [of y "min x z"] by auto }
qed simp_all

lemma list_min_least: "c \<in> set xs \<Longrightarrow> (\<And>x. x \<in> set xs \<Longrightarrow> c \<le> x) \<Longrightarrow> list_min xs = Some (c :: 'a::linorder)"
  using foldl_min_least(1) [of "hd xs" "tl xs"] foldl_min_least(2) [of c "hd xs" "tl xs"]
  by (cases xs) (auto intro!: antisym)

definition eligible_in :: "FailureSimulator \<Rightarrow> PeerId \<Rightarrow> bool" where
  "eligible_in s p \<longleftrightarrow> (case bt_get (fs_peers s) p of None \<Rightarrow> False
    | Some state \<Rightarrow> sp_authority_eligible state \<and> \<not> sp_banned state)"

lemma validate_candidate_visible:
  assumes "sim_inv s" "validate_candidate s c = Ok u"
  shows "c \<in> set (visible_canonical_peers s)" and "eligible_in s c"
  using assms peer_id_of_key [OF assms(1), of c]
  by (auto simp: validate_candidate_def visible_peer_iff canonical_peer_def is_visible_def eligible_in_def
      split: option.splits)

lemma begin_recovery_succeeds:
  assumes "sim_inv s" "fs_state s = SimActive old" "\<not> is_visible s old" "fs_lease_expires_ms s \<le> now"
    and "fs_recovery s = None" "validate_candidate s c = Ok ()"
    and "quorum \<le> length (visible_canonical_peers s)"
    and least: "\<And>p. p \<in> set (visible_canonical_peers s) \<Longrightarrow> eligible_in s p \<Longrightarrow> c \<le> p"
  shows "begin_recovery c now quorum s = (Ok (), s\<lparr>fs_recovery := Some \<lparr>rp_candidate = c, rp_quorum_size = quorum,
    rp_reservation_acks = {c}, rp_epoch_acks = {}, rp_lease_acks = {}, rp_epoch_committed = False\<rparr>\<rparr>)"
proof -
  note vis = validate_candidate_visible [OF assms(1) assms(6)]
  have "list_min (filter (eligible_in s) (visible_canonical_peers s)) = Some c"
    by (rule list_min_least) (use vis least in auto)
  then show ?thesis
    using assms by (simp add: begin_recovery_def Let_def eligible_in_def [abs_def] not_less)
qed

lemma checked_next_succeeds:
  assumes "n \<noteq> - 1"
  shows "checked_next (AuthorityGeneration n n) = Ok (AuthorityGeneration (n + 1) (n + 1))"
proof -
  obtain m where m: "checked_add n 1 = Some m"
    using assms checked_succ_None [of n] by fastforce
  then have "m = n + 1" by (auto simp: checked_add_def split: if_splits)
  with m show ?thesis by (simp add: checked_next_def)
qed

lemma commit_recovery_succeeds:
  assumes "fs_epoch s = fencing_token s" "fencing_token s \<noteq> -1" "\<not> rp_epoch_committed r"
    and "rp_quorum_size r \<le> card (rp_reservation_acks r)"
  shows "commit_recovery_epoch (s\<lparr>fs_recovery := Some r\<rparr>) =
    (Ok (), s\<lparr>fs_epoch := fs_epoch s + 1, fs_fencing := FencingState (fencing_token s + 1),
      fs_state := SimRecovering (rp_candidate r),
      fs_recovery := Some (r\<lparr>rp_epoch_committed := True, rp_epoch_acks := insert (rp_candidate r) (rp_epoch_acks r)\<rparr>)\<rparr>)"
  using assms checked_next_succeeds [of "fencing_token s"]
  unfolding commit_recovery_epoch_Ok by (simp add: fencing_token_def)

lemma generation_update_views [simp]:
  "visible_canonical_peers (s\<lparr>fs_epoch := e, fs_fencing := f, fs_state := w\<rparr>) = visible_canonical_peers s"
  "validate_recovery_ack_peer (s\<lparr>fs_epoch := e, fs_fencing := f, fs_state := w\<rparr>) p = validate_recovery_ack_peer s p"
  by (simp_all add: visible_canonical_peers_def validate_recovery_ack_peer_def canonical_peer_def cong: filter_cong)

lemma takeover_acks_card:
  assumes "sim_inv s" "c \<in> set (visible_canonical_peers s)"
  shows "card (set (filter (\<lambda>p. p \<noteq> c) (visible_canonical_peers s))) + 1 = length (visible_canonical_peers s)"
proof -
  let ?V = "visible_canonical_peers s"
  have "set (filter (\<lambda>p. p \<noteq> c) ?V) = set ?V - {c}" by auto
  moreover have "card (set ?V - {c}) + 1 = card (set ?V)"
    using assms(2) by (metis List.finite_set Suc_eq_plus1 card.remove)
  ultimately show ?thesis
    using visible_distinct [OF assms(1)] by (simp add: distinct_card)
qed

lemma attempt_takeover_activates:
  assumes inv: "sim_inv s" and active: "fs_state s = SimActive old" "\<not> is_visible s old" "fs_lease_expires_ms s \<le> now"
    and idle: "fs_recovery s = None" and valid: "validate_candidate s c = Ok ()"
    and quorum: "quorum \<le> length (visible_canonical_peers s)"
    and least: "\<And>p. p \<in> set (visible_canonical_peers s) \<Longrightarrow> eligible_in s p \<Longrightarrow> c \<le> p"
    and room: "fencing_token s \<noteq> - 1"
  shows "attempt_takeover c now quorum s =
    (Ok (), s\<lparr>fs_epoch := fs_epoch s + 1, fs_fencing := FencingState (fencing_token s + 1), fs_state := SimActive c,
       fs_lease_expires_ms := saturating_add now (fs_lease_duration_ms s), fs_recovery := None\<rparr>)"
proof -
  let ?others = "filter (\<lambda>p. p \<noteq> c) (visible_canonical_peers s)"
  let ?g = "s\<lparr>fs_epoch := fs_epoch s + 1, fs_fencing := FencingState (fencing_token s + 1), fs_state := SimRecovering c\<rparr>"
  let ?r = "\<lambda>res ep le done. \<lparr>rp_candidate = c, rp_quorum_size = quorum, rp_reservation_acks = res,
    rp_epoch_acks = ep, rp_lease_acks = le, rp_epoch_committed = done\<rparr>"
  have epoch: "fs_epoch s = fencing_token s" using inv by (simp add: sim_inv_def fencing_token_def)
  have count: "card (set ?others) + 1 = length (visible_canonical_peers s)"
    by (rule takeover_acks_card [OF inv validate_candidate_visible(1) [OF inv valid]])
  have ack: "validate_recovery_ack_peer s x = Ok ()" if "x \<in> set ?others" for x
    using that visible_ack_valid [OF inv] by simp
  have ack': "validate_recovery_ack_peer ?g x = Ok ()" if "x \<in> set ?others" for x
    using ack [OF that] by simp
  have full: "quorum \<le> card (set ?others \<union> {c})"
    using quorum count by (simp add: card_insert_if)
  have 1: "begin_recovery c now quorum s = (Ok (), s\<lparr>fs_recovery := Some (?r {c} {} {} False)\<rparr>)"
    by (rule begin_recovery_succeeds [OF inv active idle valid quorum least])
  have 2: "sim_each acknowledge_reservation ?others (s\<lparr>fs_recovery := Some (?r {c} {} {} False)\<rparr>) =
      (Ok (), s\<lparr>fs_recovery := Some (?r (set ?others \<union> {c}) {} {} False)\<rparr>)"
    by (subst each_reservation) (auto intro: ack [simplified])
  have 3: "commit_recovery_epoch (s\<lparr>fs_recovery := Some (?r (set ?others \<union> {c}) {} {} False)\<rparr>) =
      (Ok (), ?g\<lparr>fs_recovery := Some (?r (set ?others \<union> {c}) {c} {} True)\<rparr>)"
    using full by (subst commit_recovery_succeeds) (simp_all add: epoch room)
  have 4: "sim_each acknowledge_epoch ?others (?g\<lparr>fs_recovery := Some (?r (set ?others \<union> {c}) {c} {} True)\<rparr>) =
      (Ok (), ?g\<lparr>fs_recovery := Some (?r (set ?others \<union> {c}) (set ?others \<union> {c}) {} True)\<rparr>)"
    by (subst each_epoch) (auto intro: ack' [simplified])
  have 5: "sim_each acknowledge_live_lease ?others
        (?g\<lparr>fs_recovery := Some (?r (set ?others \<union> {c}) (set ?others \<union> {c}) {} True)\<rparr>) =
      (Ok (), ?g\<lparr>fs_recovery := Some (?r (set ?others \<union> {c}) (set ?others \<union> {c}) (set ?others) True)\<rparr>)"
    using full by (subst each_lease) (auto intro: ack' [simplified])
  have 6: "activate_recovery now
        (?g\<lparr>fs_recovery := Some (?r (set ?others \<union> {c}) (set ?others \<union> {c}) (set ?others) True)\<rparr>) =
      (Ok (), ?g\<lparr>fs_state := SimActive c, fs_lease_expires_ms := saturating_add now (fs_lease_duration_ms s),
        fs_recovery := None\<rparr>)"
    using full count quorum by (simp add: activate_recovery_def)
  show ?thesis
    by (simp only: attempt_takeover_def sim_then_def Let_def recovery_update_views prod.case sum.case 1 2 3 4 5 6) simp
qed

text \<open>C32. Takeover makes progress. In every state the failure simulator can reach, if the authority has gone
  invisible, its lease has run out, no recovery is pending, the generation counter is not exhausted, and the
  candidate is a valid replica, a quorum of canonical replicas is visible and no visible eligible replica has a
  smaller peer id, then \<open>attempt_takeover\<close> succeeds: the candidate becomes the authority under a fencing token
  that is exactly one higher, with a fresh lease and no recovery left pending.\<close>

theorem takeover_makes_progress:
  fixes ops authority replicas duration
  defines "s \<equiv> sim.run (FailureSimulator_new authority replicas duration) ops"
  assumes "fs_state s = SimActive old" "\<not> is_visible s old" "fs_lease_expires_ms s \<le> now"
    and "fs_recovery s = None" "fencing_token s \<noteq> - 1"
    and "validate_candidate s c = Ok ()" "quorum \<le> length (visible_canonical_peers s)"
    and "\<And>p. p \<in> set (visible_canonical_peers s) \<Longrightarrow> eligible_in s p \<Longrightarrow> c \<le> p"
  shows "\<exists>s'. attempt_takeover c now quorum s = (Ok (), s') \<and> sim_authority s' = Some c
    \<and> unat (fencing_token s') = unat (fencing_token s) + 1 \<and> fs_recovery s' = None
    \<and> fs_lease_expires_ms s' = saturating_add now (fs_lease_duration_ms s)"
proof -
  have inv: "sim_inv s" unfolding s_def by (rule sim.run_inv [OF new_inv])
  have "unat (fencing_token s + 1) = unat (fencing_token s) + 1"
    using assms(6) by (metis unatSuc Suc_eq_plus1 add.commute add.left_inverse eq_neg_iff_add_eq_0)
  moreover have "attempt_takeover c now quorum s =
    (Ok (), s\<lparr>fs_epoch := fs_epoch s + 1, fs_fencing := FencingState (fencing_token s + 1), fs_state := SimActive c,
       fs_lease_expires_ms := saturating_add now (fs_lease_duration_ms s), fs_recovery := None\<rparr>)"
    by (rule attempt_takeover_activates [OF inv assms(2-5) assms(7-9) assms(6)])
  ultimately show ?thesis by (simp add: sim_authority_def fencing_token_def)
qed

abbreviation sample_lost :: FailureSimulator where
  "sample_lost \<equiv> \<lparr>fs_peers = [(PeerId 5, sample_sim_peer 5), (PeerId 7, sample_sim_peer 7),
      (PeerId 9, (sample_sim_peer 9)\<lparr>sp_online := False\<rparr>)],
    fs_isolated = {}, fs_state = SimActive (PeerId 9), fs_latest_snapshot_hash = Hash32 1, fs_epoch = 1,
    fs_fencing = FencingState 1, fs_lease_expires_ms = 10, fs_lease_duration_ms = 10, fs_recovery = None\<rparr>"

lemma sample_authority_lost: "sim.run sample_sim [SetOnline (PeerId 9) False] = sample_lost"
  by (simp add: sample_sim_state sim_exec_def set_online_def update_peer_def bt_get_def bt_values_def)

theorem takeover_makes_progress_witness:
  "\<exists>s'. attempt_takeover (PeerId 5) 10 2 (sim.run sample_sim [SetOnline (PeerId 9) False]) = (Ok (), s')
    \<and> sim_authority s' = Some (PeerId 5) \<and> unat (fencing_token s') = 2"
proof -
  note progress = takeover_makes_progress [where authority = "sample_sim_peer 9"
    and replicas = "[sample_sim_peer 5, sample_sim_peer 7]" and duration = 10
    and ops = "[SetOnline (PeerId 9) False]" and old = "PeerId 9" and c = "PeerId 5" and now = 10 and quorum = 2,
    unfolded sample_authority_lost]
  have "\<exists>s'. attempt_takeover (PeerId 5) 10 2 sample_lost = (Ok (), s') \<and> sim_authority s' = Some (PeerId 5)
    \<and> unat (fencing_token s') = unat (fencing_token sample_lost) + 1 \<and> fs_recovery s' = None
    \<and> fs_lease_expires_ms s' = saturating_add 10 (fs_lease_duration_ms sample_lost)"
    by (rule progress) (auto simp: is_visible_def bt_get_def fencing_token_def validate_candidate_def
        visible_canonical_peers_def canonical_peer_def bt_values_def)
  then show ?thesis unfolding sample_authority_lost by (auto simp: fencing_token_def)
qed

text \<open>Whenever the simulator activates a recovery, the new authority is the recorded candidate, which is a known
  replica, and three quorums of distinct known replicas stand behind it: those that reserved it, those that stored its
  epoch, and those that acknowledged its lease, counting the candidate itself.\<close>

theorem activation_backed_by_quorums:
  assumes "activate_recovery now (sim.run (FailureSimulator_new authority replicas duration) ops) = (Ok (), s')"
  shows "\<exists>r. fs_recovery (sim.run (FailureSimulator_new authority replicas duration) ops) = Some r
    \<and> sim_authority s' = Some (rp_candidate r)
    \<and> insert (rp_candidate r) (rp_reservation_acks r \<union> rp_epoch_acks r \<union> rp_lease_acks r) \<subseteq> dom (bt_get (fs_peers s'))
    \<and> rp_quorum_size r \<le> card (rp_reservation_acks r) \<and> rp_quorum_size r \<le> card (rp_epoch_acks r)
    \<and> rp_quorum_size r \<le> card (rp_lease_acks r) + 1"
proof -
  define s where "s = sim.run (FailureSimulator_new authority replicas duration) ops"
  have inv: "sim_inv s" unfolding s_def by (rule sim.run_inv [OF new_inv])
  obtain r where r: "fs_recovery s = Some r" "rp_epoch_committed r" "rp_quorum_size r \<le> card (rp_epoch_acks r)"
      "rp_quorum_size r \<le> card (rp_lease_acks r) + 1" "fs_state s' = SimActive (rp_candidate r)" "fs_peers s' = fs_peers s"
    using assms by (auto simp: activate_recovery_def s_def [symmetric] split: option.splits if_splits)
  have "set (bt_keys (fs_peers s)) = dom (bt_get (fs_peers s))"
    by (simp add: bt_keys_def bt_get_map_of dom_map_of_conv_image_fst)
  with inv r show ?thesis
    unfolding s_def [symmetric] sim_inv_def by (auto simp: sim_authority_def)
qed

abbreviation sample_progress :: RecoveryProgress where
  "sample_progress \<equiv> \<lparr>rp_candidate = PeerId 5, rp_quorum_size = 2, rp_reservation_acks = {PeerId 7, PeerId 5},
    rp_epoch_acks = {PeerId 7, PeerId 5}, rp_lease_acks = {PeerId 7}, rp_epoch_committed = True\<rparr>"

lemma sample_recovering:
  "sim.run sample_sim ([SetOnline (PeerId 9) False] @ [BeginRecovery (PeerId 5) 10 2, AcknowledgeReservation (PeerId 7),
      CommitRecoveryEpoch, AcknowledgeEpoch (PeerId 7), AcknowledgeLiveLease (PeerId 7)]) =
    sample_lost\<lparr>fs_epoch := 2, fs_fencing := FencingState 2, fs_state := SimRecovering (PeerId 5),
      fs_recovery := Some sample_progress\<rparr>"
proof -
  let ?r = "\<lambda>res ep le done. \<lparr>rp_candidate = PeerId 5, rp_quorum_size = 2, rp_reservation_acks = res,
    rp_epoch_acks = ep, rp_lease_acks = le, rp_epoch_committed = done\<rparr>"
  let ?g = "sample_lost\<lparr>fs_epoch := 2, fs_fencing := FencingState 2, fs_state := SimRecovering (PeerId 5)\<rparr>"
  have ack: "validate_recovery_ack_peer sample_lost (PeerId 7) = Ok ()"
    by (simp add: validate_recovery_ack_peer_def visible_canonical_peers_def canonical_peer_def bt_values_def bt_get_def)
  have 1: "sim_exec sample_lost (BeginRecovery (PeerId 5) 10 2) = sample_lost\<lparr>fs_recovery := Some (?r {PeerId 5} {} {} False)\<rparr>"
    by (simp add: sim_exec_def begin_recovery_def is_visible_def bt_get_def validate_candidate_def visible_canonical_peers_def
        canonical_peer_def bt_values_def)
  have 2: "sim_exec (sample_lost\<lparr>fs_recovery := Some (?r {PeerId 5} {} {} False)\<rparr>) (AcknowledgeReservation (PeerId 7)) =
      sample_lost\<lparr>fs_recovery := Some (?r {PeerId 7, PeerId 5} {} {} False)\<rparr>"
    unfolding sim_exec_def sim_perform.simps acknowledge_reservation_def recovery_update_views ack by simp
  have 3: "sim_exec (sample_lost\<lparr>fs_recovery := Some (?r {PeerId 7, PeerId 5} {} {} False)\<rparr>) CommitRecoveryEpoch =
      ?g\<lparr>fs_recovery := Some (?r {PeerId 7, PeerId 5} {PeerId 5} {} True)\<rparr>"
    unfolding sim_exec_def sim_perform.simps
    by (subst commit_recovery_succeeds) (simp_all add: fencing_token_def)
  have 4: "sim_exec (?g\<lparr>fs_recovery := Some (?r {PeerId 7, PeerId 5} {PeerId 5} {} True)\<rparr>) (AcknowledgeEpoch (PeerId 7)) =
      ?g\<lparr>fs_recovery := Some (?r {PeerId 7, PeerId 5} {PeerId 7, PeerId 5} {} True)\<rparr>"
    unfolding sim_exec_def sim_perform.simps acknowledge_epoch_def recovery_update_views generation_update_views ack by simp
  have 5: "sim_exec (?g\<lparr>fs_recovery := Some (?r {PeerId 7, PeerId 5} {PeerId 7, PeerId 5} {} True)\<rparr>) (AcknowledgeLiveLease (PeerId 7)) =
      ?g\<lparr>fs_recovery := Some (?r {PeerId 7, PeerId 5} {PeerId 7, PeerId 5} {PeerId 7} True)\<rparr>"
    unfolding sim_exec_def sim_perform.simps acknowledge_live_lease_def recovery_update_views generation_update_views ack by simp
  show ?thesis
    by (simp only: sim.run_append sample_authority_lost) (simp only: sim.run_Cons sim.run_Nil 1 2 3 4 5)
qed

theorem activation_backed_by_quorums_witness:
  "\<exists>r s'. activate_recovery 10 (sim.run sample_sim ([SetOnline (PeerId 9) False] @ [BeginRecovery (PeerId 5) 10 2,
        AcknowledgeReservation (PeerId 7), CommitRecoveryEpoch, AcknowledgeEpoch (PeerId 7),
        AcknowledgeLiveLease (PeerId 7)])) = (Ok (), s')
    \<and> r = sample_progress \<and> sim_authority s' = Some (PeerId 5) \<and> rp_quorum_size r \<le> card (rp_epoch_acks r)"
proof -
  have "activate_recovery 10 (sample_lost\<lparr>fs_epoch := 2, fs_fencing := FencingState 2, fs_state := SimRecovering (PeerId 5),
      fs_recovery := Some sample_progress\<rparr>) = (Ok (), sample_lost\<lparr>fs_epoch := 2, fs_fencing := FencingState 2,
      fs_state := SimActive (PeerId 5), fs_lease_expires_ms := saturating_add 10 10, fs_recovery := None\<rparr>)"
    by (simp add: activate_recovery_def)
  note active = this [folded sample_recovering]
  show ?thesis
    using activation_backed_by_quorums [OF active] active unfolding sample_recovering by (auto simp: sim_authority_def)
qed

end
