(* ===== verification/DurableStore.thy ===== *)
theory DurableStore
  imports Semantics Interfaces
begin

text \<open>
  The durable files of one world (\<open>swarm-storage/src/lib.rs\<close>, \<open>transaction.rs\<close>) and the way the
  storage operations use them.

  A file is a cell: it is absent, it cannot be read, it holds bytes that do not decode, or it holds a
  value.  \<open>postcard\<close> and \<open>serde_json\<close> decode what they encoded, so a cell carries the decoded value; the
  encoder may still refuse a value, which is the branch \<open>encode\<close> models.

  Every public operation of the store takes the world lock (\<open>lock_world_transaction\<close>), reads and checks,
  and ends with a sequence of durable file mutations, each of them atomic (\<open>durable_atomic_write\<close> writes a
  temporary file and renames it; \<open>durable_create_once\<close>, \<open>durable_remove\<close>).  An operation is therefore a
  function from the world's files to the reply it gives and the mutations it makes, in order.  \<open>perform\<close>
  runs it: without a fault all mutations happen and the reply is returned; with a fault after the first
  \<open>k\<close> of them, only those are on disk and the caller sees an I/O error, or nothing at all if the process
  died.  The lock makes the operations of one world a sequence, which is what the runs below are.
\<close>

section \<open>Errors and files\<close>

datatype io_kind = NotFound | OtherIo

datatype StorageError =
    StIo io_kind
  | SourceNotDirectory string
  | SymlinkUnsupported string
  | NonUtf8Path string
  | UnsafeRelativePath string
  | PortablePathCollision string
  | BlobCorrupt Hash32
  | BlobReadTooLarge u64 u64
  | StateRootMismatch
  | SnapshotPublicationWorldMismatch WorldId WorldId
  | SnapshotPublicationMissingPin Hash32
  | SnapshotNotFound u64
  | MissingCanonicalHead WorldId
  | MissingCanonicalHeadTarget WorldId u64 Hash32
  | CanonicalHeadMismatch WorldId u64
  | SnapshotCommitIncomplete WorldId u64
  | UncommittedSnapshotOrphan WorldId u64
  | SnapshotHistoryConflict u64
  | SnapshotNumberExhausted
  | CounterExhausted string
  | SnapshotFenceMismatch WorldId u64 u64
  | SnapshotManifestConflict WorldId u64 Hash32 Hash32
  | RestoreIncomplete string
  | WorldNotFound WorldId
  | WorldMetadataMismatch
  | UnsupportedProtocol u16
  | StDecode
  | StJson
  | StProtocol ProtocolError

datatype 'a slot = Absent | Unreadable | Malformed | Content (slot_value: 'a)

fun slot_exists :: "'a slot \<Rightarrow> bool" where
  "slot_exists Absent = False"
| "slot_exists _ = True"

text \<open>\<open>fs::read\<close> followed by \<open>postcard::from_bytes\<close>.\<close>

fun read_slot :: "'a slot \<Rightarrow> (StorageError, 'a) result" where
  "read_slot Absent = Err (StIo NotFound)"
| "read_slot Unreadable = Err (StIo OtherIo)"
| "read_slot Malformed = Err StDecode"
| "read_slot (Content v) = Ok v"

text \<open>The same for the JSON files.\<close>

fun read_json_slot :: "'a slot \<Rightarrow> (StorageError, 'a) result" where
  "read_json_slot Absent = Err (StIo NotFound)"
| "read_json_slot Unreadable = Err (StIo OtherIo)"
| "read_json_slot Malformed = Err StJson"
| "read_json_slot (Content v) = Ok v"

lemma read_slot_Ok [simp]: "read_slot s = Ok v \<longleftrightarrow> s = Content v"
  by (cases s) auto

lemma read_json_slot_Ok [simp]: "read_json_slot s = Ok v \<longleftrightarrow> s = Content v"
  by (cases s) auto

lemma slot_exists_iff: "slot_exists s \<longleftrightarrow> s \<noteq> Absent"
  by (cases s) auto

lemma not_slot_exists [simp]: "\<not> slot_exists s \<longleftrightarrow> s = Absent"
  by (cases s) auto

section \<open>The files of a world\<close>

record WorldMetadataV1 =
  md_storage_schema_version :: u16
  md_display_name :: string
  md_world_id :: WorldId
  md_genesis :: WorldGenesisV1

record DurableRecoveryPromiseV1 =
  drp_ballot :: RecoveryBallotV1
  drp_vote :: RecoveryVoteV1

record DurableMembershipPromiseV1 =
  dmp_proposal :: MembershipProposalV1
  dmp_vote :: MembershipVoteV1

record CanonicalSnapshotRefV1 =
  cr_snapshot_number :: u64
  cr_manifest_hash :: Hash32
  cr_epoch :: u64
  cr_sequence :: u64

record CanonicalSnapshotHeadV1 =
  hd_world_id :: WorldId
  hd_head :: "CanonicalSnapshotRefV1 option"

record SnapshotCommitIntentV1 =
  it_world_id :: WorldId
  it_previous_head :: "CanonicalSnapshotRefV1 option"
  it_next_head :: CanonicalSnapshotRefV1

text \<open>The pin directory of one local snapshot publication: whether its owner lock file exists, whether a live
  process holds that lock, and the pin files, named by hash.\<close>

record publication =
  pb_owner_file :: bool
  pb_owner_held :: bool
  pb_pins :: "(Hash32, Hash32 slot) btree_map"

record world_files =
  wf_world :: "WorldMetadataV1 slot"
  wf_epoch :: "EpochRecordV1 slot"
  wf_reservation :: "AuthorityLeaseGrantV1 slot"
  wf_transfer :: "AuthorityTransferV1 slot"
  wf_sleep :: "SleepRecordV1 slot"
  wf_recovery_promise :: "DurableRecoveryPromiseV1 slot"
  wf_recovery_certificate :: "RecoveryCertificateV1 slot"
  wf_world_config :: "WorldConfigV1 slot"
  wf_solo_branch :: "SoloBranchV1 slot"
  wf_solo_conflicts :: "(Hash32, SoloBranchV1 slot) btree_map"
  wf_background_seeding :: "bytes slot"
  wf_membership_promise :: "DurableMembershipPromiseV1 slot"
  wf_certificates :: "(u64, MembershipCertificateV1 slot) btree_map"
  wf_certificate :: "MembershipCertificateV1 slot"
  wf_descriptor :: "WorldDescriptorV1 slot"
  wf_membership :: "MembershipRecordV1 slot"
  wf_pending_join :: "JoinRequestV1 slot"
  wf_pending_leave :: "LeaveRequestV1 slot"
  wf_head :: "CanonicalSnapshotHeadV1 slot"
  wf_head_required :: bool
  wf_intent :: "SnapshotCommitIntentV1 slot"
  wf_snapshots :: "(u64, SnapshotManifestV1 slot) btree_map"
  wf_raw_blobs :: "(Hash32, bytes slot) btree_map"
  wf_zst_blobs :: "(Hash32, bytes slot) btree_map"
  wf_raw_parts :: "(Hash32, bytes slot) btree_map"
  wf_zst_parts :: "(Hash32, bytes slot) btree_map"
  wf_replication_pins :: "(nat \<times> Hash32, Hash32 slot) btree_map"
  wf_legacy_pins :: "(string, Hash32 slot) btree_map"
  wf_publications :: "(string, publication) btree_map"

text \<open>A world whose directory does not exist yet.\<close>

definition empty_files :: world_files where
  "empty_files = \<lparr>wf_world = Absent, wf_epoch = Absent, wf_reservation = Absent, wf_transfer = Absent,
    wf_sleep = Absent, wf_recovery_promise = Absent, wf_recovery_certificate = Absent, wf_world_config = Absent,
    wf_solo_branch = Absent, wf_solo_conflicts = [], wf_background_seeding = Absent,
    wf_membership_promise = Absent, wf_certificates = [], wf_certificate = Absent, wf_descriptor = Absent,
    wf_membership = Absent, wf_pending_join = Absent, wf_pending_leave = Absent, wf_head = Absent,
    wf_head_required = False, wf_intent = Absent, wf_snapshots = [],
    wf_raw_blobs = [], wf_zst_blobs = [], wf_raw_parts = [], wf_zst_parts = [], wf_replication_pins = [],
    wf_legacy_pins = [], wf_publications = []\<rparr>"

text \<open>A file of a directory that is keyed by hash or number.\<close>

definition slot_at :: "('k::linorder, 'v slot) btree_map \<Rightarrow> 'k \<Rightarrow> 'v slot" where
  "slot_at m k = (case bt_get m k of None \<Rightarrow> Absent | Some s \<Rightarrow> s)"

lemma slot_at_insert [simp]: "slot_at (bt_insert k s m) k' = (if k' = k then s else slot_at m k')"
  by (simp add: slot_at_def)

lemma slot_at_remove [simp]: "slot_at (bt_remove k m) k' = (if k' = k then Absent else slot_at m k')"
  by (simp add: slot_at_def)

lemma slot_at_empty [simp]: "slot_at [] k = Absent"
  by (simp add: slot_at_def)

section \<open>Operations and faults\<close>

text \<open>
  An operation gives its result and the mutations it makes, in order.  The state is that of the files it works on:
  the files of a world here, a directory tree in \<open>SnapshotTree\<close>.
\<close>

type_synonym ('s, 'a) planned = "(StorageError, 'a) result \<times> ('s \<Rightarrow> 's) list"
type_synonym mutation = "world_files \<Rightarrow> world_files"
type_synonym 'a plan = "(world_files, 'a) planned"

definition reply :: "'a \<Rightarrow> ('s, 'a) planned" where "reply x = (Ok x, [])"
definition refuse :: "StorageError \<Rightarrow> ('s, 'a) planned" where "refuse e = (Err e, [])"
definition store :: "'a \<Rightarrow> ('s \<Rightarrow> 's) list \<Rightarrow> ('s, 'a) planned" where "store x ms = (Ok x, ms)"

text \<open>The \<open>?\<close> operator: an error ends the operation before anything is written.\<close>

definition check :: "(StorageError, 'a) result \<Rightarrow> ('a \<Rightarrow> ('s, 'b) planned) \<Rightarrow> ('s, 'b) planned" where
  "check r k = (case r of Inl e \<Rightarrow> refuse e | Inr x \<Rightarrow> k x)"

definition protocol :: "(ProtocolError, 'a) result \<Rightarrow> (StorageError, 'a) result" where
  "protocol = map_err StProtocol"

definition encode :: "host \<Rightarrow> sval \<Rightarrow> (StorageError, unit) result" where
  "encode H v = and_then (map_err (\<lambda>_. StDecode) (to_allocvec H v)) (\<lambda>_. Ok ())"

definition apply_mutations :: "('s \<Rightarrow> 's) list \<Rightarrow> 's \<Rightarrow> 's" where
  "apply_mutations ms fs = foldl (\<lambda>fs m. m fs) fs ms"

definition perform :: "('s \<Rightarrow> ('s, 'a) planned) \<Rightarrow> nat option \<Rightarrow> 's \<Rightarrow> (StorageError, 'a) result \<times> 's" where
  "perform op fault fs =
    (let (r, ms) = op fs in
     case fault of
       None \<Rightarrow> (r, apply_mutations ms fs)
     | Some k \<Rightarrow> (if k \<le> length ms then Err (StIo OtherIo) else r, apply_mutations (take k ms) fs))"

text \<open>One operation that calls another: the reads of the second see the mutations of the first.\<close>

definition then_plan :: "('s \<Rightarrow> ('s, 'a) planned) \<Rightarrow> ('a \<Rightarrow> 's \<Rightarrow> ('s, 'b) planned) \<Rightarrow> 's \<Rightarrow> ('s, 'b) planned" where
  "then_plan op k fs =
    (case op fs of
       (Inl e, ms) \<Rightarrow> (Err e, ms)
     | (Inr x, ms) \<Rightarrow> (case k x (apply_mutations ms fs) of (r, ms') \<Rightarrow> (r, ms @ ms')))"

lemma apply_mutations_append [simp]: "apply_mutations (ms @ ms') fs = apply_mutations ms' (apply_mutations ms fs)"
  by (simp add: apply_mutations_def)

lemma apply_mutations_simps [simp]:
  "apply_mutations [] fs = fs" "apply_mutations (m # ms) fs = apply_mutations ms (m fs)"
  by (simp_all add: apply_mutations_def)

lemma plan_simps [store_defs]:
  "fst (reply x) = Ok x" "snd (reply x) = []" "fst (refuse e) = Err e" "snd (refuse e) = []"
  "fst (store x ms) = Ok x" "snd (store x ms) = ms"
  by (simp_all add: reply_def refuse_def store_def)

lemma protocol_Ok [simp]: "protocol r = Ok x \<longleftrightarrow> r = Ok x"
  by (simp add: protocol_def)

lemma snd_check [store_defs]: "snd (check r k) = (case r of Inl e \<Rightarrow> [] | Inr x \<Rightarrow> snd (k x))"
  by (simp add: check_def refuse_def split: sum.splits)

lemma fst_check [store_defs]: "fst (check r k) = and_then r (\<lambda>x. fst (k x))"
  by (cases r) (simp_all add: check_def refuse_def)

lemma check_simps [simp]: "check (Inr x) k = k x" "check (Inl e) k = refuse e"
  by (simp_all add: check_def)

text \<open>What an interrupted operation can leave behind.\<close>

definition leaves :: "('s \<Rightarrow> ('s, 'a) planned) \<Rightarrow> 's \<Rightarrow> 's set" where
  "leaves op fs = (\<lambda>k. apply_mutations (take k (snd (op fs))) fs) ` {0..length (snd (op fs))}"

lemma perform_leaves: "snd (perform op fault fs) \<in> leaves op fs"
proof -
  let ?n = "length (snd (op fs))"
  have "\<exists>k\<le>?n. snd (perform op fault fs) = apply_mutations (take k (snd (op fs))) fs"
  proof (cases fault)
    case None
    then show ?thesis by (intro exI [of _ ?n]) (simp add: perform_def split_beta)
  next
    case (Some k)
    then show ?thesis
      by (intro exI [of _ "min k ?n"]) (cases "k \<le> ?n"; simp add: perform_def split_beta)
  qed
  then show ?thesis by (auto simp: leaves_def)
qed

lemma leaves_unchanged: "snd (op fs) = [] \<Longrightarrow> fs' \<in> leaves op fs \<Longrightarrow> fs' = fs"
  by (auto simp: leaves_def)

lemma leaves_single: "snd (op fs) = [m] \<Longrightarrow> fs' \<in> leaves op fs \<Longrightarrow> fs' = fs \<or> fs' = m fs"
  by (auto simp: leaves_def le_Suc_eq)

text \<open>An operation that succeeds has made all of its mutations.\<close>

lemma perform_Ok:
  assumes "perform op fault fs = (Ok x, fs')"
  shows "fst (op fs) = Ok x" "fs' = apply_mutations (snd (op fs)) fs"
  using assms by (auto simp: perform_def split_beta split: option.splits if_splits)

text \<open>Footprints: a plan whose mutations all leave a component of the files alone.\<close>

definition plan_keeps :: "('s \<Rightarrow> 'b) \<Rightarrow> ('s, 'a) planned \<Rightarrow> bool" where
  "plan_keeps f p \<longleftrightarrow> list_all (\<lambda>m. \<forall>fs. f (m fs) = f fs) (snd p)"

lemma plan_keeps_reply [footprint]: "plan_keeps f (reply x)"
  by (simp add: plan_keeps_def reply_def)

lemma plan_keeps_refuse [footprint]: "plan_keeps f (refuse e)"
  by (simp add: plan_keeps_def refuse_def)

lemma plan_keeps_pair [footprint]: "list_all (\<lambda>m. \<forall>fs. f (m fs) = f fs) ms \<Longrightarrow> plan_keeps f (r, ms)"
  by (simp add: plan_keeps_def)

lemma plan_keeps_store [footprint]: "list_all (\<lambda>m. \<forall>fs. f (m fs) = f fs) ms \<Longrightarrow> plan_keeps f (store x ms)"
  by (simp add: plan_keeps_def store_def)

lemma plan_keeps_check [footprint]: "(\<And>x. r = Ok x \<Longrightarrow> plan_keeps f (k x)) \<Longrightarrow> plan_keeps f (check r k)"
  by (cases r) (simp_all add: plan_keeps_refuse)

lemma plan_keeps_apply:
  assumes "plan_keeps f (op fs)"
  shows "f (apply_mutations (take n (snd (op fs))) fs) = f fs"
proof -
  have "f (apply_mutations ms fs) = f fs" if "set ms \<subseteq> set (snd (op fs0))" "plan_keeps f (op fs0)" for ms fs fs0
    using that unfolding plan_keeps_def list_all_iff by (induction ms arbitrary: fs) auto
  with assms show ?thesis by (meson set_take_subset)
qed

lemma plan_keeps_apply_all: "plan_keeps f (op fs) \<Longrightarrow> f (apply_mutations (snd (op fs)) fs) = f fs"
  using plan_keeps_apply [of f op fs "length (snd (op fs))"] by simp

text \<open>The files after an operation that ran to its end.\<close>

definition after :: "('s \<Rightarrow> ('s, 'a) planned) \<Rightarrow> 's \<Rightarrow> 's" where
  "after op fs = apply_mutations (snd (op fs)) fs"

lemma plan_keeps_then [footprint]:
  assumes "plan_keeps f (op fs)"
    and "\<And>x. fst (op fs) = Ok x \<Longrightarrow> plan_keeps f (k x (after op fs))"
  shows "plan_keeps f (then_plan op k fs)"
  using assms
  by (cases "op fs"; cases "fst (op fs)") (auto simp: then_plan_def plan_keeps_def after_def split: prod.splits)

lemma leaves_keeps: "plan_keeps f (op fs) \<Longrightarrow> fs' \<in> leaves op fs \<Longrightarrow> f fs' = f fs"
  by (auto simp: leaves_def plan_keeps_apply)

lemma then_plan_Ok:
  assumes "fst (then_plan op k fs) = Ok y"
  obtains x where "fst (op fs) = Ok x" "fst (k x (apply_mutations (snd (op fs)) fs)) = Ok y"
    "snd (then_plan op k fs) = snd (op fs) @ snd (k x (apply_mutations (snd (op fs)) fs))"
  using assms that by (cases "op fs"; cases "fst (op fs)") (auto simp: then_plan_def split: prod.splits)

lemma fst_then: "fst (then_plan op k fs) = and_then (fst (op fs)) (\<lambda>x. fst (k x (after op fs)))"
  by (cases "op fs"; cases "fst (op fs)") (auto simp: then_plan_def after_def split: prod.splits)

lemma after_then: "after (then_plan op k) fs = (case fst (op fs) of Inl _ \<Rightarrow> after op fs | Inr x \<Rightarrow> after (k x) (after op fs))"
  by (cases "op fs"; cases "fst (op fs)") (auto simp: then_plan_def after_def split: prod.splits)

lemma after_check: "after (\<lambda>fs. check (r fs) (\<lambda>x. k x fs)) fs = (case r fs of Inl _ \<Rightarrow> fs | Inr x \<Rightarrow> after (k x) fs)"
  by (cases "r fs") (simp_all add: after_def refuse_def)

lemma after_if: "after (\<lambda>fs. if b fs then p fs else q fs) fs = (if b fs then after p fs else after q fs)"
  by (simp add: after_def)

lemma after_reply: "after (\<lambda>fs. reply (x fs)) fs = fs" "after (\<lambda>fs. refuse (e fs)) fs = fs"
  by (simp_all add: after_def reply_def refuse_def)

lemma after_keeps: "plan_keeps f (op fs) \<Longrightarrow> f (after op fs) = f fs"
  unfolding after_def by (rule plan_keeps_apply_all)

lemma after_leaves: "after op fs \<in> leaves op fs"
  by (auto simp: after_def leaves_def intro!: image_eqI [of _ _ "length (snd (op fs))"])

lemma leaves_then:
  assumes "fs' \<in> leaves (then_plan op k) fs"
  shows "fs' \<in> leaves op fs
    \<or> (\<exists>x. fst (op fs) = Ok x \<and> fs' \<in> leaves (k x) (after op fs))"
proof (cases "fst (op fs)")
  case (Inl e)
  then have "snd (then_plan op k fs) = snd (op fs)" by (cases "op fs") (simp add: then_plan_def)
  with assms show ?thesis by (simp add: leaves_def)
next
  case (Inr x)
  let ?ms = "snd (op fs)" and ?ms' = "snd (k x (apply_mutations (snd (op fs)) fs))"
  have all: "snd (then_plan op k fs) = ?ms @ ?ms'"
    using Inr by (cases "op fs") (auto simp: then_plan_def split: prod.splits)
  obtain n where n: "n \<le> length ?ms + length ?ms'" "fs' = apply_mutations (take n (?ms @ ?ms')) fs"
    using assms unfolding leaves_def all by auto
  show ?thesis
  proof (cases "n \<le> length ?ms")
    case True
    with n show ?thesis by (auto simp: leaves_def)
  next
    case False
    with n have "fs' \<in> leaves (k x) (apply_mutations ?ms fs)"
      by (auto simp: leaves_def intro!: image_eqI [of _ _ "n - length ?ms"])
    with Inr show ?thesis unfolding after_def by blast
  qed
qed

lemma leaves_check:
  assumes "fs' \<in> leaves (\<lambda>fs. check (r fs) (\<lambda>x. k x fs)) fs"
  shows "fs' = fs \<or> (\<exists>x. r fs = Ok x \<and> fs' \<in> leaves (k x) fs)"
  using assms by (cases "r fs") (auto simp: leaves_def refuse_def)

end
