(* ===== verification/RecoveryConsensus.thy ===== *)
theory RecoveryConsensus
  imports Authority ProtocolV2
begin

text \<open>
  \<open>crates/swarm-consensus/src/recovery.rs\<close> and \<open>solo.rs\<close>: the promise rule for crash-recovery
  ballots, the quorum shape of recovery certificates, and the reconciliation of solo histories.
\<close>

section \<open>The promise rule\<close>

datatype RecoveryBallotDecision = Accept | Idempotent

datatype RecoveryBallotError =
    MalformedGeneration
  | StaleRound u64 u64
  | ConflictingSameRound u64
  | CanonicalBaseChanged
  | AcceptedValueChanged

definition same_canonical_base :: "RecoveryBallotV1 \<Rightarrow> RecoveryBallotV1 \<Rightarrow> bool" where
  "same_canonical_base a b \<longleftrightarrow>
    rb_world_id a = rb_world_id b
    \<and> rb_base_epoch a = rb_base_epoch b
    \<and> rb_base_fencing_token a = rb_base_fencing_token b
    \<and> rb_target_epoch a = rb_target_epoch b
    \<and> rb_target_fencing_token a = rb_target_fencing_token b
    \<and> rb_base_snapshot_hash a = rb_base_snapshot_hash b
    \<and> rb_base_state_hash a = rb_base_state_hash b
    \<and> rb_membership_hash a = rb_membership_hash b"

definition evaluate_recovery_ballot ::
    "host \<Rightarrow> RecoveryBallotV1 option \<Rightarrow> RecoveryBallotV1 \<Rightarrow> (RecoveryBallotError, RecoveryBallotDecision) result" where
  "evaluate_recovery_ballot H durable proposed =
    (if \<not> generation_is_well_formed proposed then Err MalformedGeneration
     else case durable of
       None \<Rightarrow> Ok Accept
     | Some existing \<Rightarrow>
         if rb_round proposed < rb_round existing then Err (StaleRound (rb_round proposed) (rb_round existing))
         else if rb_round proposed = rb_round existing then
           (if result_ok (ballot_hash H proposed) = result_ok (ballot_hash H existing) then Ok Idempotent
            else Err (ConflictingSameRound (rb_round proposed)))
         else if \<not> same_canonical_base existing proposed then Err CanonicalBaseChanged
         else if rb_candidate_peer_id existing \<noteq> rb_candidate_peer_id proposed
            \<or> rb_candidate_public_key existing \<noteq> rb_candidate_public_key proposed
         then Err AcceptedValueChanged
         else Ok Accept)"

section \<open>Certificates\<close>

datatype RecoveryCertificateError =
    MalformedBallot
  | RecoveryVoteMismatch
  | NonMemberVote
  | RecoveryQuorumUnavailable nat nat

definition check_recovery_vote :: "host \<Rightarrow> RecoveryBallotV1 \<Rightarrow> PeerId set \<Rightarrow> PeerId set \<Rightarrow> RecoveryVoteV1
    \<Rightarrow> (RecoveryCertificateError, PeerId set) result" where
  "check_recovery_vote H ballot members voters vote =
    (if matches_ballot H vote ballot \<noteq> Ok True then Err RecoveryVoteMismatch
     else if rv_voter_peer_id vote \<notin> members then Err NonMemberVote
     else Ok (insert (rv_voter_peer_id vote) voters))"

definition validate_recovery_certificate_shape ::
    "host \<Rightarrow> RecoveryCertificateV1 \<Rightarrow> PeerId list \<Rightarrow> (RecoveryCertificateError, unit) result" where
  "validate_recovery_certificate_shape H certificate canonical_members =
    (if \<not> generation_is_well_formed (rcert_ballot certificate) then Err MalformedBallot
     else let members = set canonical_members in
       and_then (try_fold (check_recovery_vote H (rcert_ballot certificate) members) {} (rcert_votes certificate))
         (\<lambda>voters. let required = quorum_size (card members) in
           if card voters < required then Err (RecoveryQuorumUnavailable (card voters) required)
           else Ok ()))"

section \<open>Solo histories\<close>

datatype SoloReconciliation = Equivalent | KeepLocal | AdoptRemote | SoloConflict

datatype SoloHistoryError = DifferentWorlds | MalformedHistory

definition reconcile_solo_history ::
    "SoloBranchV1 \<Rightarrow> SoloBranchV1 \<Rightarrow> (SoloHistoryError, SoloReconciliation) result" where
  "reconcile_solo_history local remote =
    (if sb_world_id local \<noteq> sb_world_id remote then Err DifferentWorlds
     else if sb_head_epoch local < sb_base_epoch local \<or> sb_head_epoch remote < sb_base_epoch remote
     then Err MalformedHistory
     else if sb_head_snapshot_hash local = sb_head_snapshot_hash remote \<and> sb_state_hash local = sb_state_hash remote
     then Ok Equivalent
     else if sb_head_snapshot_hash local = sb_base_snapshot_hash remote then Ok AdoptRemote
     else if sb_head_snapshot_hash remote = sb_base_snapshot_hash local then Ok KeepLocal
     else Ok SoloConflict)"

section \<open>What a certificate guarantees\<close>

lemma check_recovery_votes_Ok:
  "try_fold (check_recovery_vote H b members) voters vs = Ok result \<longleftrightarrow>
    list_all (\<lambda>v. matches_ballot H v b = Ok True \<and> rv_voter_peer_id v \<in> members) vs
    \<and> result = voters \<union> set (map rv_voter_peer_id vs)"
  by (induction vs arbitrary: voters) (auto simp: check_recovery_vote_def)

lemma validate_recovery_certificate_shape_Ok:
  "validate_recovery_certificate_shape H c ms = Ok u \<longleftrightarrow>
    generation_is_well_formed (rcert_ballot c)
    \<and> list_all (\<lambda>v. matches_ballot H v (rcert_ballot c) = Ok True \<and> rv_voter_peer_id v \<in> set ms) (rcert_votes c)
    \<and> quorum_size (card (set ms)) \<le> card (unique_voters c)"
  by (auto simp: validate_recovery_certificate_shape_def check_recovery_votes_Ok unique_voters_def Let_def not_less)

lemma certificate_voters_members:
  "validate_recovery_certificate_shape H c ms = Ok () \<Longrightarrow> unique_voters c \<subseteq> set ms"
  by (auto simp: validate_recovery_certificate_shape_Ok unique_voters_def list_all_iff)

text \<open>Two certificates over one non-empty membership share a voter.\<close>

lemma recovery_certificates_share_voter:
  assumes "validate_recovery_certificate_shape H c ms = Ok ()" "validate_recovery_certificate_shape H c' ms' = Ok ()"
    and "set ms' = set ms" "ms \<noteq> []"
  obtains v v' where "v \<in> set (rcert_votes c)" "v' \<in> set (rcert_votes c')"
    "rv_voter_peer_id v = rv_voter_peer_id v'"
    "matches_ballot H v (rcert_ballot c) = Ok True" "matches_ballot H v' (rcert_ballot c') = Ok True"
proof -
  obtain p where "p \<in> unique_voters c" "p \<in> unique_voters c'"
    using assms certificate_voters_members [OF assms(1)] certificate_voters_members [OF assms(2)]
    by (auto simp: validate_recovery_certificate_shape_Ok
        intro: quorum.quorums_meet [of "set ms" "unique_voters c" "unique_voters c'"])
  with assms show ?thesis
    by (auto simp: unique_voters_def validate_recovery_certificate_shape_Ok list_all_iff intro!: that)
qed


abbreviation sample_ballot :: "u64 \<Rightarrow> RecoveryBallotV1" where
  "sample_ballot round \<equiv> \<lparr>rb_protocol_version = PROTOCOL_VERSION, rb_world_id = WorldId 1, rb_base_epoch = 4,
    rb_base_fencing_token = 8, rb_target_epoch = 5, rb_target_fencing_token = 9, rb_round = round,
    rb_candidate_peer_id = PeerId 0, rb_candidate_public_key = 7, rb_base_snapshot_hash = Hash32 2,
    rb_base_state_hash = Hash32 3, rb_membership_hash = Hash32 4, rb_signature = []\<rparr>"

lemma sample_ballot_well_formed: "0 < r \<Longrightarrow> generation_is_well_formed (sample_ballot r)"
  by (simp add: generation_is_well_formed_def checked_add_def)



abbreviation sample_branch :: "bytes32 \<Rightarrow> bytes32 \<Rightarrow> SoloBranchV1" where
  "sample_branch base head \<equiv> \<lparr>sb_protocol_version = 1, sb_world_id = WorldId 1, sb_base_snapshot_hash = Hash32 base,
    sb_base_epoch = 3, sb_head_snapshot_hash = Hash32 head, sb_head_epoch = 4, sb_head_sequence = 1,
    sb_state_hash = Hash32 head, sb_authority_peer_id = PeerId 0, sb_authority_public_key = 0, sb_signature = []\<rparr>"


end
