(* ===== verification/ControlStore.thy ===== *)
theory ControlStore
  imports DurableStore Authority RecoveryConsensus "HOL-Library.Product_Lexorder"
begin

text \<open>
  The control records a replica keeps about a world: \<open>swarm-storage/src/control.rs\<close> (epoch, recovery
  reservation, transfer and sleep records), \<open>state.rs\<close> (recovery promise, world configuration, solo
  branches, seeding flag), \<open>recovery_v2.rs\<close>, \<open>membership.rs\<close> (membership promise and certificates) and
  \<open>world.rs\<close> (descriptor, membership record, pending requests), and \<open>load_world\<close> of \<open>lib.rs\<close>.

  A \<open>load_\<close> function reads one file and validates it; every other operation is a plan over the files of the
  world its argument names, see \<open>DurableStore\<close>.  A generation, the pair of epoch and fencing token, is
  compared as the code compares the tuple.
\<close>

section \<open>World metadata\<close>

definition load_world :: "host \<Rightarrow> WorldId \<Rightarrow> world_files \<Rightarrow> (StorageError, WorldMetadataV1) result" where
  "load_world H world fs =
    (if \<not> slot_exists (wf_world fs) then Err (WorldNotFound world)
     else and_then (read_json_slot (wf_world fs)) (\<lambda>metadata.
       if md_world_id metadata \<noteq> world then Err WorldMetadataMismatch
       else and_then (protocol (genesis_world_id H (md_genesis metadata))) (\<lambda>id.
         if id \<noteq> world then Err WorldMetadataMismatch else Ok metadata)))"

section \<open>Epoch record\<close>

definition load_epoch_record :: "WorldId \<Rightarrow> world_files \<Rightarrow> (StorageError, EpochRecordV1) result" where
  "load_epoch_record world fs =
    and_then (read_slot (wf_epoch fs)) (\<lambda>record.
    if er_world_id record \<noteq> world then Err WorldMetadataMismatch
    else and_then (protocol (EpochRecordV1_validate_semantics record)) (\<lambda>_. Ok record))"

abbreviation epoch_generation :: "EpochRecordV1 \<Rightarrow> AuthorityGeneration" where
  "epoch_generation r \<equiv> AuthorityGeneration (er_epoch_number r) (er_fencing_token r)"

definition write_epoch :: "host \<Rightarrow> EpochRecordV1 \<Rightarrow> unit plan" where
  "write_epoch H record =
    check (encode H (EpochRecordV1_sval record)) (\<lambda>_. store () [\<lambda>fs. fs\<lparr>wf_epoch := Content record\<rparr>])"

definition save_epoch_record :: "host \<Rightarrow> EpochRecordV1 \<Rightarrow> world_files \<Rightarrow> unit plan" where
  "save_epoch_record H record fs =
    check (protocol (EpochRecordV1_validate_semantics record)) (\<lambda>_.
    if slot_exists (wf_epoch fs) then
      check (load_epoch_record (er_world_id record) fs) (\<lambda>existing.
      if epoch_generation record < epoch_generation existing then refuse WorldMetadataMismatch
      else if epoch_generation record = epoch_generation existing then
        (if existing = record then reply () else refuse WorldMetadataMismatch)
      else write_epoch H record)
    else write_epoch H record)"

section \<open>Recovery reservation, transfer and sleep records\<close>

definition load_recovery_reservation :: "WorldId \<Rightarrow> world_files \<Rightarrow> (StorageError, AuthorityLeaseGrantV1) result" where
  "load_recovery_reservation world fs =
    and_then (read_slot (wf_reservation fs)) (\<lambda>reservation.
    if lg_world_id reservation \<noteq> world then Err WorldMetadataMismatch
    else and_then (protocol (AuthorityLeaseGrantV1_validate_semantics reservation)) (\<lambda>_. Ok reservation))"

abbreviation lease_grant_generation :: "AuthorityLeaseGrantV1 \<Rightarrow> AuthorityGeneration" where
  "lease_grant_generation r \<equiv> AuthorityGeneration (lg_epoch r) (lg_fencing_token r)"

definition write_reservation :: "host \<Rightarrow> AuthorityLeaseGrantV1 \<Rightarrow> bool plan" where
  "write_reservation H reservation =
    check (encode H (AuthorityLeaseGrantV1_sval reservation)) (\<lambda>_.
    store True [\<lambda>fs. fs\<lparr>wf_reservation := Content reservation\<rparr>])"

definition reserve_recovery_locked :: "host \<Rightarrow> AuthorityLeaseGrantV1 \<Rightarrow> world_files \<Rightarrow> bool plan" where
  "reserve_recovery_locked H reservation fs =
    (if slot_exists (wf_reservation fs) then
       check (load_recovery_reservation (lg_world_id reservation) fs) (\<lambda>existing.
       if lease_grant_generation reservation < lease_grant_generation existing then reply False
       else if lease_grant_generation reservation = lease_grant_generation existing then
         reply (lg_authority_peer_id existing = lg_authority_peer_id reservation
           \<and> lg_authority_public_key existing = lg_authority_public_key reservation)
       else write_reservation H reservation)
     else write_reservation H reservation)"

definition reserve_recovery :: "host \<Rightarrow> AuthorityLeaseGrantV1 \<Rightarrow> world_files \<Rightarrow> bool plan" where
  "reserve_recovery H reservation fs =
    check (protocol (AuthorityLeaseGrantV1_validate_semantics reservation)) (\<lambda>_.
    reserve_recovery_locked H reservation fs)"

definition save_recovery_reservation :: "host \<Rightarrow> AuthorityLeaseGrantV1 \<Rightarrow> world_files \<Rightarrow> unit plan" where
  "save_recovery_reservation H reservation fs =
    check (protocol (AuthorityLeaseGrantV1_validate_semantics reservation)) (\<lambda>_.
    case reserve_recovery_locked H reservation fs of
      (Inl e, ms) \<Rightarrow> (Err e, ms)
    | (Inr granted, ms) \<Rightarrow> (if granted then Ok () else Err WorldMetadataMismatch, ms))"

definition clear_recovery_reservation :: "world_files \<Rightarrow> unit plan" where
  "clear_recovery_reservation fs = store () [\<lambda>fs. fs\<lparr>wf_reservation := Absent\<rparr>]"

definition save_transfer_record :: "host \<Rightarrow> AuthorityTransferV1 \<Rightarrow> world_files \<Rightarrow> unit plan" where
  "save_transfer_record H transfer fs =
    check (protocol (AuthorityTransferV1_validate_semantics transfer)) (\<lambda>_.
    check (encode H (AuthorityTransferV1_sval transfer)) (\<lambda>_.
    store () [\<lambda>fs. fs\<lparr>wf_transfer := Content transfer\<rparr>]))"

definition load_transfer_record :: "WorldId \<Rightarrow> world_files \<Rightarrow> (StorageError, AuthorityTransferV1) result" where
  "load_transfer_record world fs =
    and_then (read_slot (wf_transfer fs)) (\<lambda>record.
    if at_world_id record \<noteq> world then Err WorldMetadataMismatch
    else and_then (protocol (AuthorityTransferV1_validate_semantics record)) (\<lambda>_. Ok record))"

definition save_sleep_record :: "host \<Rightarrow> SleepRecordV1 \<Rightarrow> world_files \<Rightarrow> unit plan" where
  "save_sleep_record H record fs =
    check (protocol (SleepRecordV1_validate_semantics record)) (\<lambda>_.
    check (encode H (SleepRecordV1_sval record)) (\<lambda>_.
    store () [\<lambda>fs. fs\<lparr>wf_sleep := Content record\<rparr>]))"

definition load_sleep_record :: "WorldId \<Rightarrow> world_files \<Rightarrow> (StorageError, SleepRecordV1) result" where
  "load_sleep_record world fs =
    and_then (read_slot (wf_sleep fs)) (\<lambda>record.
    if sl_world_id record \<noteq> world then Err WorldMetadataMismatch
    else and_then (protocol (SleepRecordV1_validate_semantics record)) (\<lambda>_. Ok record))"

definition clear_sleep_record :: "world_files \<Rightarrow> unit plan" where
  "clear_sleep_record fs = store () [\<lambda>fs. fs\<lparr>wf_sleep := Absent\<rparr>]"

section \<open>Recovery promise and certificate\<close>

datatype RecoveryPromiseResult =
    RecoveryAccepted
  | RecoveryIdempotent
  | RecoveryRejected (highest_round: u64)

definition load_recovery_promise ::
    "host \<Rightarrow> WorldId \<Rightarrow> world_files \<Rightarrow> (StorageError, DurableRecoveryPromiseV1) result" where
  "load_recovery_promise H world fs =
    and_then (read_slot (wf_recovery_promise fs)) (\<lambda>promise.
    and_then (protocol (RecoveryBallotV1_validate_semantics (drp_ballot promise))) (\<lambda>_.
    and_then (protocol (RecoveryVoteV1_validate_semantics (drp_vote promise))) (\<lambda>_.
    if rb_world_id (drp_ballot promise) \<noteq> world \<or> rv_world_id (drp_vote promise) \<noteq> world
    then Err WorldMetadataMismatch
    else and_then (protocol (matches_ballot H (drp_vote promise) (drp_ballot promise))) (\<lambda>matches.
      if \<not> matches then Err WorldMetadataMismatch else Ok promise))))"

definition same_recovery_base :: "RecoveryBallotV1 \<Rightarrow> RecoveryBallotV1 \<Rightarrow> bool" where
  "same_recovery_base a b \<longleftrightarrow> rb_world_id a = rb_world_id b \<and> rb_base_epoch a = rb_base_epoch b
    \<and> rb_base_fencing_token a = rb_base_fencing_token b \<and> rb_target_epoch a = rb_target_epoch b
    \<and> rb_target_fencing_token a = rb_target_fencing_token b
    \<and> rb_candidate_peer_id a = rb_candidate_peer_id b \<and> rb_candidate_public_key a = rb_candidate_public_key b
    \<and> rb_base_snapshot_hash a = rb_base_snapshot_hash b \<and> rb_base_state_hash a = rb_base_state_hash b
    \<and> rb_membership_hash a = rb_membership_hash b"

definition write_recovery_promise ::
    "host \<Rightarrow> RecoveryBallotV1 \<Rightarrow> RecoveryVoteV1 \<Rightarrow> RecoveryPromiseResult plan" where
  "write_recovery_promise H ballot vote =
    check (encode H (STup [RecoveryBallotV1_sval ballot, RecoveryVoteV1_sval vote])) (\<lambda>_.
    store RecoveryAccepted
      [\<lambda>fs. fs\<lparr>wf_recovery_promise := Content \<lparr>drp_ballot = ballot, drp_vote = vote\<rparr>\<rparr>])"

definition promise_recovery_ballot ::
    "host \<Rightarrow> RecoveryBallotV1 \<Rightarrow> RecoveryVoteV1 \<Rightarrow> world_files \<Rightarrow> RecoveryPromiseResult plan" where
  "promise_recovery_ballot H ballot vote fs =
    check (protocol (RecoveryBallotV1_validate_semantics ballot)) (\<lambda>_.
    check (protocol (RecoveryVoteV1_validate_semantics vote)) (\<lambda>_.
    check (protocol (matches_ballot H vote ballot)) (\<lambda>matches.
    if \<not> matches
      \<or> peer_id_from_public_key H (rb_candidate_public_key ballot) \<noteq> rb_candidate_peer_id ballot
      \<or> peer_id_from_public_key H (rv_voter_public_key vote) \<noteq> rv_voter_peer_id vote
    then reply (RecoveryRejected (case load_recovery_promise H (rb_world_id ballot) fs of
        Inl _ \<Rightarrow> 0 | Inr value \<Rightarrow> rb_round (drp_ballot value)))
    else case load_recovery_promise H (rb_world_id ballot) fs of
        Inl e \<Rightarrow> if e = StIo NotFound then write_recovery_promise H ballot vote else refuse e
      | Inr existing \<Rightarrow>
          let held = drp_ballot existing in
          if rb_round ballot < rb_round held then reply (RecoveryRejected (rb_round held))
          else if rb_round ballot = rb_round held then
            check (protocol (ballot_hash H ballot)) (\<lambda>proposed_hash.
            check (protocol (ballot_hash H held)) (\<lambda>held_hash.
            if proposed_hash = held_hash then reply RecoveryIdempotent
            else reply (RecoveryRejected (rb_round held))))
          else if \<not> same_recovery_base held ballot then reply (RecoveryRejected (rb_round held))
          else write_recovery_promise H ballot vote)))"

definition clear_recovery_promise_after_epoch_advance :: "host \<Rightarrow> WorldId \<Rightarrow> u64 \<Rightarrow> world_files \<Rightarrow> bool plan" where
  "clear_recovery_promise_after_epoch_advance H world accepted_epoch fs =
    (case load_recovery_promise H world fs of
       Inl _ \<Rightarrow> reply False
     | Inr promise \<Rightarrow>
         if accepted_epoch < rb_target_epoch (drp_ballot promise) then reply False
         else store True [\<lambda>fs. fs\<lparr>wf_recovery_promise := Absent\<rparr>])"

definition save_recovery_certificate :: "host \<Rightarrow> RecoveryCertificateV1 \<Rightarrow> world_files \<Rightarrow> unit plan" where
  "save_recovery_certificate H certificate fs =
    check (load_world H (rb_world_id (rcert_ballot certificate)) fs) (\<lambda>_.
    check (encode H (RecoveryCertificateV1_sval certificate)) (\<lambda>_.
    store () [\<lambda>fs. fs\<lparr>wf_recovery_certificate := Content certificate\<rparr>]))"

definition load_recovery_certificate :: "WorldId \<Rightarrow> world_files \<Rightarrow> (StorageError, RecoveryCertificateV1) result" where
  "load_recovery_certificate world fs =
    and_then (read_slot (wf_recovery_certificate fs)) (\<lambda>certificate.
    if rb_world_id (rcert_ballot certificate) \<noteq> world then Err WorldMetadataMismatch else Ok certificate)"

definition clear_recovery_certificate :: "world_files \<Rightarrow> unit plan" where
  "clear_recovery_certificate fs = store () [\<lambda>fs. fs\<lparr>wf_recovery_certificate := Absent\<rparr>]"

section \<open>Footprints\<close>

lemma write_epoch_keeps [footprint]:
  "(\<And>fs v. f (fs\<lparr>wf_epoch := v\<rparr>) = f fs) \<Longrightarrow> plan_keeps f (write_epoch H r)"
  unfolding write_epoch_def by (auto intro!: footprint split: option.splits sum.splits slot.splits)

lemma save_epoch_record_keeps [footprint]:
  "(\<And>fs v. f (fs\<lparr>wf_epoch := v\<rparr>) = f fs) \<Longrightarrow> plan_keeps f (save_epoch_record H r fs)"
  unfolding save_epoch_record_def by (auto intro!: footprint split: option.splits sum.splits slot.splits)

lemma write_reservation_keeps [footprint]:
  "(\<And>fs v. f (fs\<lparr>wf_reservation := v\<rparr>) = f fs) \<Longrightarrow> plan_keeps f (write_reservation H r)"
  unfolding write_reservation_def by (auto intro!: footprint split: option.splits sum.splits slot.splits)

lemma reserve_recovery_locked_keeps [footprint]:
  "(\<And>fs v. f (fs\<lparr>wf_reservation := v\<rparr>) = f fs) \<Longrightarrow> plan_keeps f (reserve_recovery_locked H r fs)"
  unfolding reserve_recovery_locked_def by (auto intro!: footprint split: option.splits sum.splits slot.splits)

lemma reserve_recovery_keeps [footprint]:
  "(\<And>fs v. f (fs\<lparr>wf_reservation := v\<rparr>) = f fs) \<Longrightarrow> plan_keeps f (reserve_recovery H r fs)"
  unfolding reserve_recovery_def by (auto intro!: footprint split: option.splits sum.splits slot.splits)

lemma save_recovery_reservation_keeps [footprint]:
  "(\<And>fs v. f (fs\<lparr>wf_reservation := v\<rparr>) = f fs) \<Longrightarrow> plan_keeps f (save_recovery_reservation H r fs)"
  unfolding save_recovery_reservation_def
  using reserve_recovery_locked_keeps [of f H r fs]
  by (intro plan_keeps_check) (auto simp: plan_keeps_def split: prod.splits sum.splits)

lemma clear_recovery_reservation_keeps [footprint]:
  "(\<And>fs v. f (fs\<lparr>wf_reservation := v\<rparr>) = f fs) \<Longrightarrow> plan_keeps f (clear_recovery_reservation fs)"
  unfolding clear_recovery_reservation_def by (auto intro!: footprint split: option.splits sum.splits slot.splits)

lemma save_transfer_record_keeps [footprint]:
  "(\<And>fs v. f (fs\<lparr>wf_transfer := v\<rparr>) = f fs) \<Longrightarrow> plan_keeps f (save_transfer_record H r fs)"
  unfolding save_transfer_record_def by (auto intro!: footprint split: option.splits sum.splits slot.splits)

lemma save_sleep_record_keeps [footprint]:
  "(\<And>fs v. f (fs\<lparr>wf_sleep := v\<rparr>) = f fs) \<Longrightarrow> plan_keeps f (save_sleep_record H r fs)"
  unfolding save_sleep_record_def by (auto intro!: footprint split: option.splits sum.splits slot.splits)

lemma clear_sleep_record_keeps [footprint]:
  "(\<And>fs v. f (fs\<lparr>wf_sleep := v\<rparr>) = f fs) \<Longrightarrow> plan_keeps f (clear_sleep_record fs)"
  unfolding clear_sleep_record_def by (auto intro!: footprint split: option.splits sum.splits slot.splits)

lemma write_recovery_promise_keeps [footprint]:
  "(\<And>fs v. f (fs\<lparr>wf_recovery_promise := v\<rparr>) = f fs) \<Longrightarrow> plan_keeps f (write_recovery_promise H b v)"
  unfolding write_recovery_promise_def by (auto intro!: footprint split: option.splits sum.splits slot.splits)

lemma promise_recovery_ballot_keeps [footprint]:
  "(\<And>fs v. f (fs\<lparr>wf_recovery_promise := v\<rparr>) = f fs) \<Longrightarrow> plan_keeps f (promise_recovery_ballot H b v fs)"
  unfolding promise_recovery_ballot_def Let_def by (auto intro!: footprint split: option.splits sum.splits slot.splits)

lemma clear_recovery_promise_after_epoch_advance_keeps [footprint]:
  "(\<And>fs v. f (fs\<lparr>wf_recovery_promise := v\<rparr>) = f fs) \<Longrightarrow> plan_keeps f (clear_recovery_promise_after_epoch_advance H w e fs)"
  unfolding clear_recovery_promise_after_epoch_advance_def by (auto intro!: footprint split: option.splits sum.splits slot.splits)

lemma save_recovery_certificate_keeps [footprint]:
  "(\<And>fs v. f (fs\<lparr>wf_recovery_certificate := v\<rparr>) = f fs) \<Longrightarrow> plan_keeps f (save_recovery_certificate H c fs)"
  unfolding save_recovery_certificate_def by (auto intro!: footprint split: option.splits sum.splits slot.splits)

lemma clear_recovery_certificate_keeps [footprint]:
  "(\<And>fs v. f (fs\<lparr>wf_recovery_certificate := v\<rparr>) = f fs) \<Longrightarrow> plan_keeps f (clear_recovery_certificate fs)"
  unfolding clear_recovery_certificate_def by (auto intro!: footprint split: option.splits sum.splits slot.splits)

end
