(* ===== verification/WorldStore.thy ===== *)
theory WorldStore
  imports ControlStore
begin

text \<open>
  The membership and configuration records of a world: \<open>swarm-storage/src/world.rs\<close>, \<open>membership.rs\<close> and the
  configuration, solo-branch and seeding parts of \<open>state.rs\<close>.
\<close>

section \<open>Descriptor and pending requests\<close>

definition save_world_descriptor :: "WorldDescriptorV1 \<Rightarrow> world_files \<Rightarrow> unit plan" where
  "save_world_descriptor descriptor fs =
    (let normal = WorldDescriptorV1_normalize descriptor in
     if length (wd_members normal) \<noteq> length (wd_members descriptor) then refuse WorldMetadataMismatch
     else check (protocol (WorldDescriptorV1_validate_semantics normal)) (\<lambda>_.
       store () [\<lambda>fs. fs\<lparr>wf_descriptor := Content normal\<rparr>]))"

definition load_world_descriptor :: "WorldId \<Rightarrow> world_files \<Rightarrow> (StorageError, WorldDescriptorV1) result" where
  "load_world_descriptor world fs =
    and_then (read_json_slot (wf_descriptor fs)) (\<lambda>descriptor.
    if wd_world_id descriptor \<noteq> world then Err WorldMetadataMismatch
    else and_then (protocol (WorldDescriptorV1_validate_semantics descriptor)) (\<lambda>_. Ok descriptor))"

definition save_pending_join :: "host \<Rightarrow> JoinRequestV1 \<Rightarrow> world_files \<Rightarrow> unit plan" where
  "save_pending_join H request fs =
    check (protocol (JoinRequestV1_validate_semantics H request)) (\<lambda>_.
    check (encode H (JoinRequestV1_sval request)) (\<lambda>_.
    store () [\<lambda>fs. fs\<lparr>wf_pending_join := Content request\<rparr>]))"

definition load_pending_join :: "host \<Rightarrow> WorldId \<Rightarrow> world_files \<Rightarrow> (StorageError, JoinRequestV1) result" where
  "load_pending_join H world fs =
    and_then (read_slot (wf_pending_join fs)) (\<lambda>request.
    if jr_world_id request \<noteq> world then Err WorldMetadataMismatch
    else and_then (protocol (JoinRequestV1_validate_semantics H request)) (\<lambda>_. Ok request))"

definition clear_pending_join :: "world_files \<Rightarrow> unit plan" where
  "clear_pending_join fs = store () [\<lambda>fs. fs\<lparr>wf_pending_join := Absent\<rparr>]"

definition save_pending_leave :: "host \<Rightarrow> LeaveRequestV1 \<Rightarrow> world_files \<Rightarrow> unit plan" where
  "save_pending_leave H request fs =
    check (protocol (LeaveRequestV1_validate_semantics H request)) (\<lambda>_.
    check (encode H (LeaveRequestV1_sval request)) (\<lambda>_.
    store () [\<lambda>fs. fs\<lparr>wf_pending_leave := Content request\<rparr>]))"

definition load_pending_leave :: "host \<Rightarrow> WorldId \<Rightarrow> world_files \<Rightarrow> (StorageError, LeaveRequestV1) result" where
  "load_pending_leave H world fs =
    and_then (read_slot (wf_pending_leave fs)) (\<lambda>request.
    if lv_world_id request \<noteq> world then Err WorldMetadataMismatch
    else and_then (protocol (LeaveRequestV1_validate_semantics H request)) (\<lambda>_. Ok request))"

definition clear_pending_leave :: "world_files \<Rightarrow> unit plan" where
  "clear_pending_leave fs = store () [\<lambda>fs. fs\<lparr>wf_pending_leave := Absent\<rparr>]"

section \<open>Membership promise and certificates\<close>

datatype MembershipPromiseResult = MembershipAccepted | MembershipIdempotent | MembershipRejected

definition load_membership_promise ::
    "host \<Rightarrow> WorldId \<Rightarrow> world_files \<Rightarrow> (StorageError, DurableMembershipPromiseV1) result" where
  "load_membership_promise H world fs =
    and_then (read_slot (wf_membership_promise fs)) (\<lambda>promise.
    if mr_world_id (mp_proposed (dmp_proposal promise)) \<noteq> world then Err WorldMetadataMismatch
    else and_then (protocol (matches_proposal H (dmp_vote promise) (dmp_proposal promise))) (\<lambda>matches.
      if \<not> matches then Err WorldMetadataMismatch else Ok promise))"

definition promise_membership_proposal ::
    "host \<Rightarrow> MembershipProposalV1 \<Rightarrow> MembershipVoteV1 \<Rightarrow> world_files \<Rightarrow> MembershipPromiseResult plan" where
  "promise_membership_proposal H proposal vote fs =
    check (protocol (MembershipProposalV1_validate_shape H proposal)) (\<lambda>shaped.
    if \<not> shaped then reply MembershipRejected
    else check (protocol (matches_proposal H vote proposal)) (\<lambda>matches.
      if \<not> matches then reply MembershipRejected
      else case load_membership_promise H (mr_world_id (mp_proposed proposal)) fs of
          Inr existing \<Rightarrow>
            check (protocol (proposal_hash H (dmp_proposal existing))) (\<lambda>held_hash.
            check (protocol (proposal_hash H proposal)) (\<lambda>asked_hash.
            reply (if held_hash = asked_hash then MembershipIdempotent else MembershipRejected)))
        | Inl _ \<Rightarrow>
            check (encode H (STup [MembershipProposalV1_sval proposal, MembershipVoteV1_sval vote])) (\<lambda>_.
            store MembershipAccepted
              [\<lambda>fs. fs\<lparr>wf_membership_promise := Content \<lparr>dmp_proposal = proposal, dmp_vote = vote\<rparr>\<rparr>])))"

definition clear_membership_promise_after_commit :: "host \<Rightarrow> WorldId \<Rightarrow> Hash32 \<Rightarrow> world_files \<Rightarrow> bool plan" where
  "clear_membership_promise_after_commit H world committed_hash fs =
    (case load_membership_promise H world fs of
       Inl _ \<Rightarrow> reply False
     | Inr promise \<Rightarrow>
         check (protocol (record_hash H (mp_proposed (dmp_proposal promise)))) (\<lambda>hash.
         if hash \<noteq> committed_hash then reply False
         else store True [\<lambda>fs. fs\<lparr>wf_membership_promise := Absent\<rparr>]))"

definition certificate_world :: "MembershipCertificateV1 \<Rightarrow> WorldId" where
  "certificate_world c = mr_world_id (mp_proposed (mc_proposal c))"

definition save_membership_certificate :: "host \<Rightarrow> MembershipCertificateV1 \<Rightarrow> world_files \<Rightarrow> unit plan" where
  "save_membership_certificate H certificate fs =
    (let number = mr_sequence (mp_proposed (mc_proposal certificate)) in
     check (encode H (MembershipCertificateV1_sval certificate)) (\<lambda>_.
     let latest = \<lambda>fs. fs\<lparr>wf_certificate := Content certificate\<rparr> in
     case slot_at (wf_certificates fs) number of
       Absent \<Rightarrow> store () [\<lambda>fs. fs\<lparr>wf_certificates := bt_insert number (Content certificate) (wf_certificates fs)\<rparr>, latest]
     | Unreadable \<Rightarrow> refuse (StIo OtherIo)
     | Malformed \<Rightarrow> refuse WorldMetadataMismatch
     | Content existing \<Rightarrow> if existing \<noteq> certificate then refuse WorldMetadataMismatch else store () [latest]))"

definition load_membership_certificate :: "WorldId \<Rightarrow> world_files \<Rightarrow> (StorageError, MembershipCertificateV1) result" where
  "load_membership_certificate world fs =
    and_then (read_slot (wf_certificate fs)) (\<lambda>certificate.
    if certificate_world certificate \<noteq> world then Err WorldMetadataMismatch else Ok certificate)"

definition load_chain_certificate :: "WorldId \<Rightarrow> MembershipCertificateV1 slot \<Rightarrow> (StorageError, MembershipCertificateV1) result" where
  "load_chain_certificate world s =
    and_then (read_slot s) (\<lambda>certificate.
    if certificate_world certificate \<noteq> world then Err WorldMetadataMismatch else Ok certificate)"

primrec collect_certificates :: "WorldId \<Rightarrow> MembershipCertificateV1 slot list \<Rightarrow> (StorageError, MembershipCertificateV1 list) result" where
  "collect_certificates world [] = Ok []"
| "collect_certificates world (s # ss) =
    and_then (load_chain_certificate world s) (\<lambda>c.
    and_then (collect_certificates world ss) (\<lambda>cs. Ok (c # cs)))"

definition load_membership_certificate_chain ::
    "WorldId \<Rightarrow> world_files \<Rightarrow> (StorageError, MembershipCertificateV1 list) result" where
  "load_membership_certificate_chain world fs =
    and_then (collect_certificates world (bt_values (wf_certificates fs))) (\<lambda>certificates.
    if certificates = [] then
      (case load_membership_certificate world fs of Inl _ \<Rightarrow> Ok [] | Inr latest \<Rightarrow> Ok [latest])
    else Ok certificates)"

section \<open>Membership record\<close>

definition load_membership_record :: "WorldId \<Rightarrow> world_files \<Rightarrow> (StorageError, MembershipRecordV1) result" where
  "load_membership_record world fs =
    and_then (read_slot (wf_membership fs)) (\<lambda>record.
    if mr_world_id record \<noteq> world then Err WorldMetadataMismatch
    else and_then (protocol (MembershipRecordV1_validate_semantics record)) (\<lambda>_. Ok record))"

definition certified_membership_bootstrap ::
    "host \<Rightarrow> MembershipRecordV1 \<Rightarrow> world_files \<Rightarrow> (StorageError, bool) result" where
  "certified_membership_bootstrap H record fs =
    (if \<not> slot_exists (wf_certificate fs) \<or> \<not> slot_exists (wf_pending_join fs) then Ok False
     else and_then (load_membership_certificate (mr_world_id record) fs) (\<lambda>certificate.
       and_then (load_pending_join H (mr_world_id record) fs) (\<lambda>pending_join.
       and_then (load_world H (mr_world_id record) fs) (\<lambda>metadata.
       and_then (protocol (MembershipProposalV1_validate_shape H (mc_proposal certificate))) (\<lambda>shaped.
       if \<not> shaped then Ok False
       else Ok (mp_proposed (mc_proposal certificate) = record
         \<and> jr_world_id pending_join = mr_world_id record
         \<and> inv_world_id (jr_invite pending_join) = mr_world_id record
         \<and> inv_genesis (jr_invite pending_join) = md_genesis metadata
         \<and> inv_inviter_peer_id (jr_invite pending_join) = mr_authority_peer_id (mp_previous (mc_proposal certificate))
         \<and> inv_inviter_public_key (jr_invite pending_join) = mr_authority_public_key (mp_previous (mc_proposal certificate))
         \<and> jr_joining_member pending_join \<in> set (mr_members (mp_proposed (mc_proposal certificate)))))))))"

definition write_membership :: "host \<Rightarrow> MembershipRecordV1 \<Rightarrow> unit plan" where
  "write_membership H record =
    check (encode H (MembershipRecordV1_sval record)) (\<lambda>_. store () [\<lambda>fs. fs\<lparr>wf_membership := Content record\<rparr>])"

definition signed_by_epoch :: "MembershipRecordV1 \<Rightarrow> EpochRecordV1 \<Rightarrow> bool" where
  "signed_by_epoch record epoch \<longleftrightarrow> mr_epoch record = er_epoch_number epoch
    \<and> mr_authority_peer_id record = er_authority_peer_id epoch
    \<and> mr_authority_public_key record = er_authority_public_key epoch"

definition save_membership_record :: "host \<Rightarrow> MembershipRecordV1 \<Rightarrow> world_files \<Rightarrow> unit plan" where
  "save_membership_record H record fs =
    check (protocol (MembershipRecordV1_validate_semantics record)) (\<lambda>_.
    if slot_exists (wf_membership fs) then
      check (load_membership_record (mr_world_id record) fs) (\<lambda>current.
      if record = current then reply ()
      else check (ok_or (checked_add (mr_sequence current) 1) (CounterExhausted ''membership sequence'')) (\<lambda>expected.
        if mr_sequence record \<noteq> expected then refuse WorldMetadataMismatch
        else check (protocol (record_hash H current)) (\<lambda>current_hash.
          if mr_previous_membership_hash record \<noteq> Some current_hash \<or> mr_epoch record < mr_epoch current
          then refuse WorldMetadataMismatch
          else case load_epoch_record (mr_world_id record) fs of
              Inr epoch \<Rightarrow> if signed_by_epoch record epoch then write_membership H record else refuse WorldMetadataMismatch
            | Inl _ \<Rightarrow>
                if mr_epoch record \<noteq> mr_epoch current
                  \<or> mr_authority_peer_id record \<noteq> mr_authority_peer_id current
                  \<or> mr_authority_public_key record \<noteq> mr_authority_public_key current
                then refuse WorldMetadataMismatch else write_membership H record)))
    else
      check (certified_membership_bootstrap H record fs) (\<lambda>certified_bootstrap.
      if \<not> certified_bootstrap \<and> (mr_sequence record \<noteq> 0 \<or> mr_previous_membership_hash record \<noteq> None)
      then refuse WorldMetadataMismatch
      else case load_epoch_record (mr_world_id record) fs of
          Inr epoch \<Rightarrow> if signed_by_epoch record epoch then write_membership H record else refuse WorldMetadataMismatch
        | Inl _ \<Rightarrow>
            if mr_epoch record \<noteq> 0 \<and> \<not> certified_bootstrap then refuse WorldMetadataMismatch
            else write_membership H record))"

definition remove_local_membership :: "world_files \<Rightarrow> unit plan" where
  "remove_local_membership fs = store ()
    [\<lambda>fs. fs\<lparr>wf_descriptor := Absent\<rparr>, \<lambda>fs. fs\<lparr>wf_membership := Absent\<rparr>,
     \<lambda>fs. fs\<lparr>wf_membership_promise := Absent\<rparr>, \<lambda>fs. fs\<lparr>wf_certificate := Absent\<rparr>,
     \<lambda>fs. fs\<lparr>wf_pending_join := Absent\<rparr>, \<lambda>fs. fs\<lparr>wf_pending_leave := Absent\<rparr>]"

section \<open>World configuration\<close>

definition next_world_config_sequence :: "u64 \<Rightarrow> (StorageError, u64) result" where
  "next_world_config_sequence sequence = ok_or (checked_add sequence 1) WorldMetadataMismatch"

definition load_world_config :: "WorldId \<Rightarrow> world_files \<Rightarrow> (StorageError, WorldConfigV1) result" where
  "load_world_config world fs =
    and_then (read_slot (wf_world_config fs)) (\<lambda>config.
    if wc_world_id config \<noteq> world then Err WorldMetadataMismatch
    else and_then (protocol (WorldConfigV1_validate_semantics config)) (\<lambda>_. Ok config))"

definition config_authority_ok :: "WorldConfigV1 \<Rightarrow> world_files \<Rightarrow> (StorageError, unit) result" where
  "config_authority_ok config fs =
    (case load_epoch_record (wc_world_id config) fs of
       Inr epoch \<Rightarrow>
         ensure (wc_authority_peer_id config = er_authority_peer_id epoch
           \<and> wc_authority_public_key config = er_authority_public_key epoch) WorldMetadataMismatch
     | Inl _ \<Rightarrow>
         and_then (load_membership_record (wc_world_id config) fs) (\<lambda>membership.
         ensure (wc_authority_peer_id config = mr_authority_peer_id membership
           \<and> wc_authority_public_key config = mr_authority_public_key membership) WorldMetadataMismatch))"

definition write_world_config :: "host \<Rightarrow> WorldConfigV1 \<Rightarrow> world_files \<Rightarrow> unit plan" where
  "write_world_config H config fs =
    check (config_authority_ok config fs) (\<lambda>_.
    check (encode H (WorldConfigV1_sval config)) (\<lambda>_.
    store () [\<lambda>fs. fs\<lparr>wf_world_config := Content config\<rparr>]))"

definition save_world_config :: "host \<Rightarrow> WorldConfigV1 \<Rightarrow> world_files \<Rightarrow> unit plan" where
  "save_world_config H raw fs =
    (let config = normalize_canonical raw in
     check (protocol (WorldConfigV1_validate_semantics config)) (\<lambda>_.
     check (load_world H (wc_world_id config) fs) (\<lambda>metadata.
     if wc_world_id config \<noteq> md_world_id metadata then refuse WorldMetadataMismatch
     else case load_world_config (wc_world_id config) fs of
         Inr existing \<Rightarrow>
           if config = existing then reply ()
           else if wc_sequence config \<le> wc_sequence existing then refuse WorldMetadataMismatch
           else check (next_world_config_sequence (wc_sequence existing)) (\<lambda>expected.
             if wc_sequence config \<noteq> expected then refuse WorldMetadataMismatch
             else check (protocol (config_hash H existing)) (\<lambda>existing_hash.
               if wc_previous_config_hash config \<noteq> Some existing_hash then refuse WorldMetadataMismatch
               else write_world_config H config fs))
       | Inl _ \<Rightarrow>
           if wc_sequence config \<noteq> 1 \<or> wc_previous_config_hash config \<noteq> None then refuse WorldMetadataMismatch
           else write_world_config H config fs)))"

section \<open>Solo branches and seeding\<close>

definition save_solo_branch :: "host \<Rightarrow> SoloBranchV1 \<Rightarrow> world_files \<Rightarrow> unit plan" where
  "save_solo_branch H branch fs =
    check (protocol (SoloBranchV1_validate_semantics branch)) (\<lambda>_.
    check (encode H (SoloBranchV1_sval branch)) (\<lambda>_.
    store () [\<lambda>fs. fs\<lparr>wf_solo_branch := Content branch\<rparr>]))"

definition load_solo_branch :: "WorldId \<Rightarrow> world_files \<Rightarrow> (StorageError, SoloBranchV1) result" where
  "load_solo_branch world fs =
    and_then (read_slot (wf_solo_branch fs)) (\<lambda>branch.
    if sb_world_id branch \<noteq> world then Err WorldMetadataMismatch
    else and_then (protocol (SoloBranchV1_validate_semantics branch)) (\<lambda>_. Ok branch))"

text \<open>The reply is the path of the preserved branch, which its hash determines.\<close>

definition preserve_solo_conflict :: "host \<Rightarrow> SoloBranchV1 \<Rightarrow> world_files \<Rightarrow> Hash32 plan" where
  "preserve_solo_conflict H branch fs =
    check (protocol (SoloBranchV1_validate_semantics branch)) (\<lambda>_.
    check (protocol (branch_hash H branch)) (\<lambda>hash.
    if \<not> slot_exists (slot_at (wf_solo_conflicts fs) hash) then
      check (encode H (SoloBranchV1_sval branch)) (\<lambda>_.
      store hash [\<lambda>fs. fs\<lparr>wf_solo_conflicts := bt_insert hash (Content branch) (wf_solo_conflicts fs)\<rparr>])
    else reply hash))"

primrec collect_conflicts :: "WorldId \<Rightarrow> SoloBranchV1 slot list \<Rightarrow> (StorageError, SoloBranchV1 list) result" where
  "collect_conflicts world [] = Ok []"
| "collect_conflicts world (s # ss) =
    and_then (read_slot s) (\<lambda>branch.
    if sb_world_id branch = world then
      and_then (protocol (SoloBranchV1_validate_semantics branch)) (\<lambda>_.
      and_then (collect_conflicts world ss) (\<lambda>branches. Ok (branch # branches)))
    else collect_conflicts world ss)"

definition list_solo_conflicts :: "WorldId \<Rightarrow> world_files \<Rightarrow> (StorageError, SoloBranchV1 list) result" where
  "list_solo_conflicts world fs =
    and_then (collect_conflicts world (bt_values (wf_solo_conflicts fs))) (\<lambda>branches.
    Ok (sort_key (\<lambda>b. (sb_head_epoch b, sb_head_sequence b, sb_head_snapshot_hash b)) branches))"

definition set_background_seeding :: "host \<Rightarrow> WorldId \<Rightarrow> bool \<Rightarrow> world_files \<Rightarrow> unit plan" where
  "set_background_seeding H world enabled fs =
    check (load_world H world fs) (\<lambda>_.
    store () [\<lambda>fs. fs\<lparr>wf_background_seeding := Content (if enabled then [49, 10] else [48, 10])\<rparr>])"

definition background_seeding_enabled :: "world_files \<Rightarrow> (StorageError, bool) result" where
  "background_seeding_enabled fs =
    (if \<not> slot_exists (wf_background_seeding fs) then Ok False
     else and_then (read_slot (wf_background_seeding fs)) (\<lambda>bytes. Ok (bytes = [49, 10])))"

section \<open>Footprints\<close>

lemma save_world_descriptor_keeps [footprint]:
  "(\<And>fs v. f (fs\<lparr>wf_descriptor := v\<rparr>) = f fs) \<Longrightarrow> plan_keeps f (save_world_descriptor d fs)"
  unfolding save_world_descriptor_def Let_def by (auto intro!: footprint split: option.splits sum.splits slot.splits)

lemma save_pending_join_keeps [footprint]:
  "(\<And>fs v. f (fs\<lparr>wf_pending_join := v\<rparr>) = f fs) \<Longrightarrow> plan_keeps f (save_pending_join H r fs)"
  unfolding save_pending_join_def by (auto intro!: footprint split: option.splits sum.splits slot.splits)

lemma clear_pending_join_keeps [footprint]:
  "(\<And>fs v. f (fs\<lparr>wf_pending_join := v\<rparr>) = f fs) \<Longrightarrow> plan_keeps f (clear_pending_join fs)"
  unfolding clear_pending_join_def by (auto intro!: footprint split: option.splits sum.splits slot.splits)

lemma save_pending_leave_keeps [footprint]:
  "(\<And>fs v. f (fs\<lparr>wf_pending_leave := v\<rparr>) = f fs) \<Longrightarrow> plan_keeps f (save_pending_leave H r fs)"
  unfolding save_pending_leave_def by (auto intro!: footprint split: option.splits sum.splits slot.splits)

lemma clear_pending_leave_keeps [footprint]:
  "(\<And>fs v. f (fs\<lparr>wf_pending_leave := v\<rparr>) = f fs) \<Longrightarrow> plan_keeps f (clear_pending_leave fs)"
  unfolding clear_pending_leave_def by (auto intro!: footprint split: option.splits sum.splits slot.splits)

lemma promise_membership_proposal_keeps [footprint]:
  "(\<And>fs v. f (fs\<lparr>wf_membership_promise := v\<rparr>) = f fs) \<Longrightarrow> plan_keeps f (promise_membership_proposal H p v fs)"
  unfolding promise_membership_proposal_def by (auto intro!: footprint split: option.splits sum.splits slot.splits)

lemma clear_membership_promise_after_commit_keeps [footprint]:
  "(\<And>fs v. f (fs\<lparr>wf_membership_promise := v\<rparr>) = f fs) \<Longrightarrow> plan_keeps f (clear_membership_promise_after_commit H w h fs)"
  unfolding clear_membership_promise_after_commit_def by (auto intro!: footprint split: option.splits sum.splits slot.splits)

lemma save_membership_certificate_keeps [footprint]:
  "(\<And>fs v. f (fs\<lparr>wf_certificates := v\<rparr>) = f fs) \<Longrightarrow> (\<And>fs v. f (fs\<lparr>wf_certificate := v\<rparr>) = f fs) \<Longrightarrow> plan_keeps f (save_membership_certificate H c fs)"
  unfolding save_membership_certificate_def Let_def by (auto intro!: footprint split: option.splits sum.splits slot.splits)

lemma write_membership_keeps [footprint]:
  "(\<And>fs v. f (fs\<lparr>wf_membership := v\<rparr>) = f fs) \<Longrightarrow> plan_keeps f (write_membership H r)"
  unfolding write_membership_def by (auto intro!: footprint split: option.splits sum.splits slot.splits)

lemma save_membership_record_keeps [footprint]:
  "(\<And>fs v. f (fs\<lparr>wf_membership := v\<rparr>) = f fs) \<Longrightarrow> plan_keeps f (save_membership_record H r fs)"
  unfolding save_membership_record_def by (auto intro!: footprint split: option.splits sum.splits slot.splits)

lemma remove_local_membership_keeps [footprint]:
  "(\<And>fs v. f (fs\<lparr>wf_descriptor := v\<rparr>) = f fs) \<Longrightarrow> (\<And>fs v. f (fs\<lparr>wf_membership := v\<rparr>) = f fs) \<Longrightarrow> (\<And>fs v. f (fs\<lparr>wf_membership_promise := v\<rparr>) = f fs) \<Longrightarrow> (\<And>fs v. f (fs\<lparr>wf_certificate := v\<rparr>) = f fs) \<Longrightarrow> (\<And>fs v. f (fs\<lparr>wf_pending_join := v\<rparr>) = f fs) \<Longrightarrow> (\<And>fs v. f (fs\<lparr>wf_pending_leave := v\<rparr>) = f fs) \<Longrightarrow> plan_keeps f (remove_local_membership fs)"
  unfolding remove_local_membership_def by (auto intro!: footprint split: option.splits sum.splits slot.splits)

lemma write_world_config_keeps [footprint]:
  "(\<And>fs v. f (fs\<lparr>wf_world_config := v\<rparr>) = f fs) \<Longrightarrow> plan_keeps f (write_world_config H c fs)"
  unfolding write_world_config_def by (auto intro!: footprint split: option.splits sum.splits slot.splits)

lemma save_world_config_keeps [footprint]:
  "(\<And>fs v. f (fs\<lparr>wf_world_config := v\<rparr>) = f fs) \<Longrightarrow> plan_keeps f (save_world_config H c fs)"
  unfolding save_world_config_def Let_def by (auto intro!: footprint split: option.splits sum.splits slot.splits)

lemma save_solo_branch_keeps [footprint]:
  "(\<And>fs v. f (fs\<lparr>wf_solo_branch := v\<rparr>) = f fs) \<Longrightarrow> plan_keeps f (save_solo_branch H b fs)"
  unfolding save_solo_branch_def by (auto intro!: footprint split: option.splits sum.splits slot.splits)

lemma preserve_solo_conflict_keeps [footprint]:
  "(\<And>fs v. f (fs\<lparr>wf_solo_conflicts := v\<rparr>) = f fs) \<Longrightarrow> plan_keeps f (preserve_solo_conflict H b fs)"
  unfolding preserve_solo_conflict_def by (auto intro!: footprint split: option.splits sum.splits slot.splits)

lemma set_background_seeding_keeps [footprint]:
  "(\<And>fs v. f (fs\<lparr>wf_background_seeding := v\<rparr>) = f fs) \<Longrightarrow> plan_keeps f (set_background_seeding H w b fs)"
  unfolding set_background_seeding_def by (auto intro!: footprint split: option.splits sum.splits slot.splits)

end
