(* ===== verification/PortablePath.thy ===== *)
theory PortablePath
  imports DurableStore
begin

text \<open>
  The portable path policy for snapshot entries: \<open>swarm-storage/src/portable.rs\<close>.  A path is the list of its
  UTF-8 bytes, so \<open>len\<close> and \<open>as_bytes\<close> are the list's; a byte is ASCII when it is below 128.
\<close>

section \<open>Strings\<close>

text \<open>\<open>str::split\<close> on one character: there is always at least one piece.\<close>

fun split_on :: "char \<Rightarrow> string \<Rightarrow> string list" where
  "split_on c [] = [[]]"
| "split_on c (x # xs) =
    (if x = c then [] # split_on c xs
     else case split_on c xs of [] \<Rightarrow> [[x]] | p # ps \<Rightarrow> (x # p) # ps)"

fun join_with :: "char \<Rightarrow> string list \<Rightarrow> string" where
  "join_with c [] = []"
| "join_with c [p] = p"
| "join_with c (p # q # ps) = p @ c # join_with c (q # ps)"

definition byte_of :: "char \<Rightarrow> nat" where
  "byte_of c = of_char c"

definition is_ascii :: "string \<Rightarrow> bool" where
  "is_ascii s = list_all (\<lambda>c. byte_of c < 128) s"

definition to_ascii_lower :: "char \<Rightarrow> char" where
  "to_ascii_lower c = (if 65 \<le> byte_of c \<and> byte_of c \<le> 90 then char_of (byte_of c + 32) else c)"

definition to_ascii_lowercase :: "string \<Rightarrow> string" where
  "to_ascii_lowercase s = map to_ascii_lower s"

definition ends_with :: "char \<Rightarrow> string \<Rightarrow> bool" where
  "ends_with c s \<longleftrightarrow> s \<noteq> [] \<and> last s = c"

section \<open>The policy\<close>

definition forbidden_byte :: "char \<Rightarrow> bool" where
  "forbidden_byte c \<longleftrightarrow> byte_of c < 0x20 \<or> byte_of c = 0x7f
    \<or> c \<in> {CHR ''<'', CHR ''>'', CHR '':'', CHR 0x22, CHR ''|'', CHR ''?'', CHR ''*''}"

definition device_digit :: "string \<Rightarrow> bool" where
  "device_digit s \<longleftrightarrow> s \<in> {''1'', ''2'', ''3'', ''4'', ''5'', ''6'', ''7'', ''8'', ''9''}"

definition reserved_stem :: "string \<Rightarrow> bool" where
  "reserved_stem stem \<longleftrightarrow> stem \<in> {''con'', ''prn'', ''aux'', ''nul''}
    \<or> (case strip_prefix ''com'' stem of None \<Rightarrow> False | Some d \<Rightarrow> device_digit d)
    \<or> (case strip_prefix ''lpt'' stem of None \<Rightarrow> False | Some d \<Rightarrow> device_digit d)"

definition portable_component_key :: "string \<Rightarrow> string \<Rightarrow> (StorageError, string) result" where
  "portable_component_key component full_path =
    (if \<not> is_ascii component then Err (UnsafeRelativePath full_path)
     else if ends_with (CHR ''.'') component \<or> ends_with (CHR '' '') component then Err (UnsafeRelativePath full_path)
     else if list_ex forbidden_byte component then Err (UnsafeRelativePath full_path)
     else let folded = to_ascii_lowercase component;
              device_stem = hd (split_on (CHR ''.'') folded) in
       if reserved_stem device_stem then Err (UnsafeRelativePath full_path) else Ok folded)"

definition validate_portable_path :: "string \<Rightarrow> (StorageError, unit) result" where
  "validate_portable_path path =
    (if path = [] \<or> take 1 path = ''/'' \<or> take 1 path = [CHR 0x5c] \<or> CHR 0x5c \<in> set path
        \<or> (2 \<le> length path \<and> path ! 1 = CHR '':'')
     then Err (UnsafeRelativePath path)
     else for_each (\<lambda>component.
       if component = [] \<or> component = ''.'' \<or> component = ''..'' then Err (UnsafeRelativePath path)
       else and_then (portable_component_key component path) (\<lambda>_. Ok ())) (split_on (CHR ''/'') path))"

primrec fold_components :: "string \<Rightarrow> string list \<Rightarrow> (StorageError, string list) result" where
  "fold_components path [] = Ok []"
| "fold_components path (c # cs) =
    and_then (portable_component_key c path) (\<lambda>k. and_then (fold_components path cs) (\<lambda>ks. Ok (k # ks)))"

definition portable_path_collision_key :: "string \<Rightarrow> (StorageError, string) result" where
  "portable_path_collision_key path =
    and_then (validate_portable_path path) (\<lambda>_.
    and_then (fold_components path (split_on (CHR ''/'') path)) (\<lambda>folded.
    Ok (join_with (CHR ''/'') folded)))"

definition check_manifest_path :: "string set \<times> string set \<Rightarrow> SnapshotEntry \<Rightarrow> (StorageError, string set \<times> string set) result" where
  "check_manifest_path seen entry =
    (case seen of (exact, portable) \<Rightarrow>
     and_then (validate_portable_path (se_path entry)) (\<lambda>_.
     if se_path entry \<in> exact then Err (UnsafeRelativePath (se_path entry))
     else and_then (portable_path_collision_key (se_path entry)) (\<lambda>key.
       if key \<in> portable then Err (PortablePathCollision (se_path entry))
       else Ok (insert (se_path entry) exact, insert key portable))))"

definition validate_manifest_paths :: "SnapshotEntry list \<Rightarrow> (StorageError, unit) result" where
  "validate_manifest_paths entries = and_then (try_fold check_manifest_path ({}, {}) entries) (\<lambda>_. Ok ())"

section \<open>Lemmas\<close>

lemma split_on_not_Nil [simp]: "split_on c s \<noteq> []"
  by (induction s) (auto split: list.splits)

lemma join_split [simp]: "join_with c (split_on c s) = s"
proof (induction s)
  case (Cons x s)
  obtain p ps where "split_on c s = p # ps" by (meson list.exhaust split_on_not_Nil)
  with Cons show ?case by (cases ps) auto
qed simp

lemma split_on_map:
  assumes "\<And>x. f x = c \<longleftrightarrow> x = c"
  shows "split_on c (map f s) = map (map f) (split_on c s)"
proof (induction s)
  case (Cons x s)
  obtain p ps where "split_on c s = p # ps" by (meson list.exhaust split_on_not_Nil)
  with Cons show ?case using assms by auto
qed simp

lemma join_with_map: "f c = c \<Longrightarrow> join_with c (map (map f) ps) = map f (join_with c ps)"
  by (induction c ps rule: join_with.induct) auto

lemma split_on_pieces: "p \<in> set (split_on c s) \<Longrightarrow> c \<notin> set p"
proof (induction s arbitrary: p)
  case (Cons x s)
  obtain q qs where q: "split_on c s = q # qs" by (meson list.exhaust split_on_not_Nil)
  with Cons.IH [of q] Cons.IH Cons.prems show ?case by (auto split: if_splits)
qed auto

lemma byte_of_inj [simp]: "byte_of c = byte_of d \<longleftrightarrow> c = d"
  by (simp add: byte_of_def)

lemma byte_of_char_of [simp]: "n < 256 \<Longrightarrow> byte_of (char_of n) = n"
  by (simp add: byte_of_def)

lemma byte_of_lower:
  "byte_of (to_ascii_lower c) = (if 65 \<le> byte_of c \<and> byte_of c \<le> 90 then byte_of c + 32 else byte_of c)"
  by (simp add: to_ascii_lower_def)

lemma lower_eq_iff:
  assumes "\<not> (65 \<le> byte_of d \<and> byte_of d \<le> 90)" "\<not> (97 \<le> byte_of d \<and> byte_of d \<le> 122)"
  shows "to_ascii_lower x = d \<longleftrightarrow> x = d"
  using assms unfolding byte_of_inj [symmetric] byte_of_lower by auto

lemma lower_idem [simp]: "to_ascii_lower (to_ascii_lower c) = to_ascii_lower c"
  unfolding byte_of_inj [symmetric] byte_of_lower by auto

lemma lowercase_idem [simp]: "to_ascii_lowercase (to_ascii_lowercase s) = to_ascii_lowercase s"
  by (simp add: to_ascii_lowercase_def)

lemma lower_separator [simp]:
  "to_ascii_lower x = CHR ''/'' \<longleftrightarrow> x = CHR ''/''" "to_ascii_lower x = CHR ''.'' \<longleftrightarrow> x = CHR ''.''"
  "to_ascii_lower x = CHR '' '' \<longleftrightarrow> x = CHR '' ''" "to_ascii_lower x = CHR '':'' \<longleftrightarrow> x = CHR '':''"
  "to_ascii_lower x = CHR 0x5c \<longleftrightarrow> x = CHR 0x5c"
  by (rule lower_eq_iff; simp add: byte_of_def)+

lemma lower_ascii: "is_ascii (to_ascii_lowercase s) \<longleftrightarrow> is_ascii s"
  by (auto simp: is_ascii_def to_ascii_lowercase_def list_all_iff byte_of_lower)

lemma lower_forbidden [simp]: "forbidden_byte (to_ascii_lower c) \<longleftrightarrow> forbidden_byte c"
proof -
  have "to_ascii_lower c = d \<longleftrightarrow> c = d"
    if "d \<in> {CHR ''<'', CHR ''>'', CHR '':'', CHR 0x22, CHR ''|'', CHR ''?'', CHR ''*''}" for d
    by (rule lower_eq_iff) (use that in \<open>auto simp: byte_of_def\<close>)
  then show ?thesis by (auto simp: forbidden_byte_def byte_of_lower)
qed

lemma lower_ends_with:
  "d \<in> {CHR ''.'', CHR '' ''} \<Longrightarrow> ends_with d (to_ascii_lowercase s) \<longleftrightarrow> ends_with d s"
  by (auto simp: ends_with_def to_ascii_lowercase_def last_map)

lemma portable_component_key_Ok:
  "portable_component_key c p = Ok k \<longleftrightarrow> is_ascii c \<and> \<not> ends_with (CHR ''.'') c \<and> \<not> ends_with (CHR '' '') c
    \<and> \<not> list_ex forbidden_byte c \<and> \<not> reserved_stem (hd (split_on (CHR ''.'') (to_ascii_lowercase c)))
    \<and> k = to_ascii_lowercase c"
  by (auto simp: portable_component_key_def Let_def)

lemma portable_component_key_folded:
  assumes "portable_component_key c p = Ok k"
  shows "portable_component_key k q = Ok k"
  using assms
  by (auto simp: portable_component_key_Ok lower_ascii lower_ends_with list_ex_iff)
     (auto simp: to_ascii_lowercase_def)

lemma fold_components_Ok:
  "fold_components p cs = Ok ks \<longleftrightarrow>
    list_all (\<lambda>c. is_ok (portable_component_key c p)) cs \<and> ks = map to_ascii_lowercase cs"
  by (induction cs arbitrary: ks) (auto simp: is_ok_iff portable_component_key_Ok)

definition component_ok :: "string \<Rightarrow> bool" where
  "component_ok c \<longleftrightarrow> c \<noteq> [] \<and> c \<noteq> ''.'' \<and> c \<noteq> ''..'' \<and> is_ok (portable_component_key c [])"

lemma component_key_path: "is_ok (portable_component_key c p) \<longleftrightarrow> is_ok (portable_component_key c [])"
  by (simp add: is_ok_iff portable_component_key_Ok)

lemma validate_portable_path_Ok:
  "validate_portable_path p = Ok u \<longleftrightarrow>
    p \<noteq> [] \<and> take 1 p \<noteq> ''/'' \<and> CHR 0x5c \<notin> set p \<and> \<not> (2 \<le> length p \<and> p ! 1 = CHR '':'')
    \<and> list_all component_ok (split_on (CHR ''/'') p)"
proof -
  have "take 1 p = [CHR 0x5c] \<Longrightarrow> CHR 0x5c \<in> set p" by (cases p) auto
  moreover have "(if c = [] \<or> c = ''.'' \<or> c = ''..'' then Err e
      else and_then (portable_component_key c p) (\<lambda>_. Ok ())) = Ok () \<longleftrightarrow> component_ok c" for c e
    using component_key_path [of c p] by (auto simp: component_ok_def is_ok_iff)
  ultimately show ?thesis
    unfolding validate_portable_path_def by (auto simp: list_all_iff)
qed

lemma collision_key_Ok:
  "portable_path_collision_key p = Ok k \<longleftrightarrow> validate_portable_path p = Ok () \<and> k = to_ascii_lowercase p"
proof -
  have "join_with (CHR ''/'') (map to_ascii_lowercase (split_on (CHR ''/'') p)) = to_ascii_lowercase p"
    using join_with_map [of to_ascii_lower "CHR ''/''" "split_on (CHR ''/'') p"]
    by (simp add: to_ascii_lowercase_def [abs_def])
  then show ?thesis
    using component_key_path [of _ p]
    by (auto simp: portable_path_collision_key_def fold_components_Ok validate_portable_path_Ok list_all_iff component_ok_def)
qed

lemma component_ok_lower: "component_ok c \<Longrightarrow> component_ok (to_ascii_lowercase c)"
  using portable_component_key_folded [of c "[]" "to_ascii_lowercase c" "[]"]
  by (auto simp: component_ok_def is_ok_iff to_ascii_lowercase_def map_eq_Cons_conv portable_component_key_Ok)

lemma validate_portable_path_lower:
  assumes "validate_portable_path p = Ok ()"
  shows "validate_portable_path (to_ascii_lowercase p) = Ok ()"
proof -
  have "split_on (CHR ''/'') (to_ascii_lowercase p) = map to_ascii_lowercase (split_on (CHR ''/'') p)"
    using split_on_map [of to_ascii_lower "CHR ''/''" p] by (simp add: to_ascii_lowercase_def [abs_def])
  moreover have "CHR 0x5c \<notin> set (to_ascii_lowercase p)"
    using assms by (force simp: validate_portable_path_Ok to_ascii_lowercase_def image_iff eq_commute [of "CHR 0x5c"])
  ultimately show ?thesis
    using assms component_ok_lower
    by (auto simp: validate_portable_path_Ok list_all_iff to_ascii_lowercase_def take_map map_eq_Cons_conv)
qed

lemma check_manifest_paths_Ok:
  "try_fold check_manifest_path (exact, portable) es = Ok seen \<longleftrightarrow>
    list_all (\<lambda>e. validate_portable_path (se_path e) = Ok ()) es
    \<and> distinct (map (\<lambda>e. to_ascii_lowercase (se_path e)) es)
    \<and> (\<forall>e\<in>set es. se_path e \<notin> exact \<and> to_ascii_lowercase (se_path e) \<notin> portable)
    \<and> seen = (exact \<union> se_path ` set es, portable \<union> (\<lambda>e. to_ascii_lowercase (se_path e)) ` set es)"
proof (induction es arbitrary: exact portable)
  case (Cons e es)
  have step: "check_manifest_path (exact, portable) e = Ok s \<longleftrightarrow>
      validate_portable_path (se_path e) = Ok () \<and> se_path e \<notin> exact
      \<and> to_ascii_lowercase (se_path e) \<notin> portable
      \<and> s = (insert (se_path e) exact, insert (to_ascii_lowercase (se_path e)) portable)" for s
    by (auto simp: check_manifest_path_def collision_key_Ok)
  show ?case
    by (auto simp: step Cons.IH image_iff)
qed auto

text \<open>
  C39. A manifest's paths are accepted exactly when every path is a relative path of non-empty components, none of
  them \<open>.\<close> or \<open>..\<close>, in printable ASCII without the characters Windows reserves, without a trailing dot or
  space, without a device name, a backslash or a drive letter, and no two paths are equal up to ASCII case.
\<close>

theorem manifest_paths_portable:
  "validate_manifest_paths entries = Ok () \<longleftrightarrow>
    list_all (\<lambda>e. se_path e \<noteq> [] \<and> CHR 0x5c \<notin> set (se_path e)
        \<and> \<not> (2 \<le> length (se_path e) \<and> se_path e ! 1 = CHR '':'')
        \<and> list_all (\<lambda>c. c \<noteq> [] \<and> c \<noteq> ''.'' \<and> c \<noteq> ''..'' \<and> is_ascii c
            \<and> \<not> ends_with (CHR ''.'') c \<and> \<not> ends_with (CHR '' '') c \<and> \<not> list_ex forbidden_byte c
            \<and> \<not> reserved_stem (hd (split_on (CHR ''.'') (to_ascii_lowercase c))))
          (split_on (CHR ''/'') (se_path e))) entries
    \<and> distinct (map (\<lambda>e. to_ascii_lowercase (se_path e)) entries)"
proof -
  have slash: "take 1 p \<noteq> ''/''" if "list_all component_ok (split_on (CHR ''/'') p)" for p
    using that by (cases p) (auto simp: component_ok_def split: if_splits)
  have "validate_portable_path p = Ok () \<longleftrightarrow> p \<noteq> [] \<and> CHR 0x5c \<notin> set p
      \<and> \<not> (2 \<le> length p \<and> p ! 1 = CHR '':'') \<and> list_all component_ok (split_on (CHR ''/'') p)" for p
    using slash [of p] by (auto simp: validate_portable_path_Ok)
  then show ?thesis
    unfolding validate_manifest_paths_def and_then_eq_Ok check_manifest_paths_Ok
    by (simp add: component_ok_def [abs_def] is_ok_iff portable_component_key_Ok)
qed

text \<open>
  The collision key is the lower-cased path; it is itself a portable path and its own key, so two paths collide
  exactly when a case-insensitive file system would merge them.
\<close>

theorem collision_key_canonical:
  assumes "portable_path_collision_key p = Ok k"
  shows "k = to_ascii_lowercase p \<and> portable_path_collision_key k = Ok k"
  using assms by (simp add: collision_key_Ok validate_portable_path_lower)

theorem collision_key_canonical_witness:
  "portable_path_collision_key ''region/R.0.MCA'' = Ok ''region/r.0.mca''
    \<and> portable_path_collision_key ''region/r.0.mca'' = Ok ''region/r.0.mca''"
proof -
  have "portable_path_collision_key ''region/R.0.MCA'' = Ok ''region/r.0.mca''"
    by code_simp
  from collision_key_canonical [OF this] this show ?thesis by blast
qed

end
