(* ===== verification/BlobStore.thy ===== *)
theory BlobStore
  imports PortablePath ReferenceHost
begin

text \<open>
  Content-addressed blobs: \<open>put_blob\<close>, \<open>read_blob\<close> of \<open>swarm-storage/src/lib.rs\<close> and the streaming
  verification of \<open>streaming.rs\<close>.

  The \<open>zstd\<close> coder is a parameter: \<open>zc_encode\<close> is \<open>encode_all\<close> and \<open>zc_stream\<close> the streaming encoder;
  \<open>zc_decode\<close> gives, for the bytes of a file, the bytes the decoder delivers and whether it then reports a clean
  end of stream (\<open>None\<close> when it cannot be opened).  A reader hands out at most as many bytes as the caller's
  buffer allows, and how many it hands out each time is its own choice: \<open>pick\<close> is that choice, as a function of
  what is left.
\<close>

record zstd =
  zc_encode :: "bytes \<Rightarrow> bytes option"
  zc_stream :: "bytes \<Rightarrow> bytes option"
  zc_decode :: "bytes \<Rightarrow> (bytes \<times> bool) option"

text \<open>What \<open>zstd\<close> documents: a decoder returns what was encoded.\<close>

definition zstd_faithful :: "zstd \<Rightarrow> bool" where
  "zstd_faithful Z \<longleftrightarrow> (\<forall>b e. zc_encode Z b = Some e \<or> zc_stream Z b = Some e \<longrightarrow> zc_decode Z e = Some (b, True))"

definition STREAM_BUFFER_SIZE :: nat where
  "STREAM_BUFFER_SIZE = 1024 * 1024"

definition LEGACY_READ_BLOB_MAX_BYTES :: u64 where
  "LEGACY_READ_BLOB_MAX_BYTES = 256 * 1024 * 1024"

fun blob_slot :: "world_files \<Rightarrow> Hash32 \<Rightarrow> BlobEncoding \<Rightarrow> bytes slot" where
  "blob_slot fs hash Raw = slot_at (wf_raw_blobs fs) hash"
| "blob_slot fs hash Zstd = slot_at (wf_zst_blobs fs) hash"

section \<open>The bounded read loop\<close>

text \<open>One \<open>read\<close>: some of the remaining bytes, at least one and at most the buffer's length.\<close>

definition read_some :: "(nat \<Rightarrow> nat) \<Rightarrow> nat \<Rightarrow> bytes \<Rightarrow> nat" where
  "read_some pick limit rest = max 1 (min (pick (length rest)) (min limit (length rest)))"

lemma read_some_pos [simp]: "0 < read_some pick limit rest"
  by (simp add: read_some_def)

lemma read_some_bound: "rest \<noteq> [] \<Longrightarrow> 0 < limit \<Longrightarrow> read_some pick limit rest \<le> length rest"
  by (simp add: read_some_def Suc_le_eq)

text \<open>The loop; \<open>failure\<close> is the error the caller maps a failing read to.\<close>

function read_loop :: "StorageError \<Rightarrow> (nat \<Rightarrow> nat) \<Rightarrow> BlobDescriptor \<Rightarrow> bytes \<Rightarrow> bool \<Rightarrow> u64 \<Rightarrow> bytes \<Rightarrow> (StorageError, u64 \<times> bytes) result" where
  "read_loop failure pick descriptor rest clean seen hashed =
    (let remaining = saturating_sub (bd_uncompressed_size descriptor) seen;
         read_limit = min (unat (saturating_add remaining 1)) STREAM_BUFFER_SIZE in
     if rest = [] then
       (if clean then Ok (seen, hashed) else Err failure)
     else let n = read_some pick read_limit rest in
       if unat remaining < n then Err (BlobCorrupt (bd_hash descriptor))
       else read_loop failure pick descriptor (drop n rest) clean (seen + of_nat n) (hashed @ take n rest))"
  by pat_completeness auto
termination
  by (relation "measure (\<lambda>(e, pick, d, rest, c, t, h). length rest)") (auto simp: diff_less)

declare read_loop.simps [simp del]

definition open_blob :: "zstd \<Rightarrow> BlobDescriptor \<Rightarrow> bytes \<Rightarrow> (StorageError, bytes \<times> bool) result" where
  "open_blob Z descriptor encoded =
    (case bd_encoding descriptor of
       Raw \<Rightarrow> Ok (encoded, True)
     | Zstd \<Rightarrow> ok_or (zc_decode Z encoded) (BlobCorrupt (bd_hash descriptor)))"

definition ensure_encoded_size :: "bytes slot \<Rightarrow> BlobDescriptor \<Rightarrow> (StorageError, unit) result" where
  "ensure_encoded_size s descriptor =
    and_then (read_slot s) (\<lambda>encoded.
    if length encoded \<noteq> unat (bd_encoded_size descriptor) then Err (BlobCorrupt (bd_hash descriptor)) else Ok ())"

definition stream_blob :: "host \<Rightarrow> zstd \<Rightarrow> StorageError \<Rightarrow> (nat \<Rightarrow> nat) \<Rightarrow> bytes slot \<Rightarrow> BlobDescriptor \<Rightarrow> (StorageError, bytes) result" where
  "stream_blob H Z failure pick s descriptor =
    and_then (ensure_encoded_size s descriptor) (\<lambda>_.
    and_then (read_slot s) (\<lambda>encoded.
    and_then (open_blob Z descriptor encoded) (\<lambda>(content, clean).
    and_then (read_loop failure pick descriptor content clean 0 []) (\<lambda>(seen, hashed).
    if seen \<noteq> bd_uncompressed_size descriptor \<or> from_domain_bytes H BLOB_HASH_DOMAIN hashed \<noteq> bd_hash descriptor
    then Err (BlobCorrupt (bd_hash descriptor)) else Ok hashed))))"

section \<open>Operations\<close>

definition verify_encoded_blob_streaming :: "host \<Rightarrow> zstd \<Rightarrow> (nat \<Rightarrow> nat) \<Rightarrow> bytes slot \<Rightarrow> BlobDescriptor \<Rightarrow> (StorageError, unit) result" where
  "verify_encoded_blob_streaming H Z pick s descriptor = and_then (stream_blob H Z (BlobCorrupt (bd_hash descriptor)) pick s descriptor) (\<lambda>_. Ok ())"

definition verify_blob_streaming :: "host \<Rightarrow> zstd \<Rightarrow> (nat \<Rightarrow> nat) \<Rightarrow> world_files \<Rightarrow> BlobDescriptor \<Rightarrow> (StorageError, unit) result" where
  "verify_blob_streaming H Z pick fs descriptor =
    verify_encoded_blob_streaming H Z pick (blob_slot fs (bd_hash descriptor) (bd_encoding descriptor)) descriptor"

definition read_blob :: "host \<Rightarrow> zstd \<Rightarrow> (nat \<Rightarrow> nat) \<Rightarrow> world_files \<Rightarrow> BlobDescriptor \<Rightarrow> (StorageError, bytes) result" where
  "read_blob H Z pick fs descriptor =
    (if LEGACY_READ_BLOB_MAX_BYTES < bd_uncompressed_size descriptor
     then Err (BlobReadTooLarge (bd_uncompressed_size descriptor) LEGACY_READ_BLOB_MAX_BYTES)
     else stream_blob H Z (BlobCorrupt (bd_hash descriptor)) pick (blob_slot fs (bd_hash descriptor) (bd_encoding descriptor)) descriptor)"

definition put_blob :: "host \<Rightarrow> zstd \<Rightarrow> bytes \<Rightarrow> world_files \<Rightarrow> BlobDescriptor plan" where
  "put_blob H Z bytes fs =
    check (ok_or (zc_encode Z bytes) (StIo OtherIo)) (\<lambda>encoded.
    let hash = hash_uncompressed H bytes;
        descriptor = \<lparr>bd_hash = hash, bd_uncompressed_size = of_nat (length bytes),
          bd_encoded_size = of_nat (length encoded), bd_encoding = Zstd\<rparr> in
    if \<not> slot_exists (blob_slot fs hash Zstd)
    then store descriptor [\<lambda>fs. fs\<lparr>wf_zst_blobs := bt_insert hash (Content encoded) (wf_zst_blobs fs)\<rparr>]
    else reply descriptor)"

definition validate_manifest_shape :: "host \<Rightarrow> SnapshotManifestV1 \<Rightarrow> (StorageError, unit) result" where
  "validate_manifest_shape H manifest =
    (if sm_protocol_version manifest \<noteq> PROTOCOL_VERSION then Err (UnsupportedProtocol (sm_protocol_version manifest))
     else and_then (validate_manifest_paths (sm_entries manifest)) (\<lambda>_.
       and_then (protocol (snapshot_state_root H (sm_entries manifest))) (\<lambda>root.
       if root \<noteq> sm_state_root manifest then Err StateRootMismatch else Ok ())))"

definition verify_snapshot_streaming :: "host \<Rightarrow> zstd \<Rightarrow> (nat \<Rightarrow> nat) \<Rightarrow> world_files \<Rightarrow> SnapshotManifestV1 \<Rightarrow> (StorageError, unit) result" where
  "verify_snapshot_streaming H Z pick fs manifest =
    and_then (validate_manifest_shape H manifest) (\<lambda>_.
    for_each (\<lambda>entry. verify_blob_streaming H Z pick fs (se_blob entry)) (sm_entries manifest))"

section \<open>The loop reads exactly the declared content\<close>

lemma unat_saturating_sub_le: "t \<le> s \<Longrightarrow> unat (saturating_sub s t) = unat s - unat (t :: u64)"
  by (simp add: unat_saturating_sub)

lemma read_loop_Ok:
  assumes "seen \<le> bd_uncompressed_size d"
  shows "read_loop failure pick d rest clean seen hashed = Ok (t, h) \<longleftrightarrow>
    clean \<and> unat seen + length rest \<le> unat (bd_uncompressed_size d)
    \<and> unat t = unat seen + length rest \<and> h = hashed @ rest"
  using assms
proof (induction failure pick d rest clean seen hashed rule: read_loop.induct)
  case (1 failure pick d rest clean seen hashed)
  let ?rem = "saturating_sub (bd_uncompressed_size d) seen"
  let ?limit = "min (unat (saturating_add ?rem 1)) STREAM_BUFFER_SIZE"
  let ?n = "read_some pick ?limit rest"
  have rem: "unat ?rem = unat (bd_uncompressed_size d) - unat seen"
    using 1(2) by (rule unat_saturating_sub_le)
  have le: "unat seen \<le> unat (bd_uncompressed_size d)" using 1(2) by (simp add: word_le_nat_alt)
  show ?case
  proof (cases "rest = []")
    case True
    then show ?thesis using le by (auto simp: read_loop.simps [of failure pick d] Let_def word_unat_eq_iff)
  next
    case False
    have limit: "0 < ?limit" by (auto simp: STREAM_BUFFER_SIZE_def unat_saturating_add)
    have n: "?n \<le> length rest" by (rule read_some_bound [OF False limit])
    show ?thesis
    proof (cases "unat ?rem < ?n")
      case True
      then have "unat (bd_uncompressed_size d) < unat seen + length rest" using n rem by linarith
      with True False show ?thesis by (simp add: read_loop.simps [of failure pick d] Let_def)
    next
      case small: False
      have sum: "unat seen + ?n < 2 ^ LENGTH(64)"
        using small rem le unsigned_less [of "bd_uncompressed_size d", where 'a = nat] by linarith
      have sum_seen: "unat (seen + of_nat ?n) = unat seen + ?n"
        using sum by (simp add: unat_word_ariths unat_of_nat)
      have bound: "seen + of_nat ?n \<le> bd_uncompressed_size d"
        unfolding word_le_nat_alt sum_seen using small rem le by linarith
      have "read_loop failure pick d rest clean seen hashed =
          read_loop failure pick d (drop ?n rest) clean (seen + of_nat ?n) (hashed @ take ?n rest)"
        using False small by (simp add: read_loop.simps [of failure pick d rest] Let_def)
      with 1(1) [OF refl refl False refl small bound] sum_seen n show ?thesis
        by simp
    qed
  qed
qed

lemma stream_blob_Ok:
  "stream_blob H Z failure pick s d = Ok content \<longleftrightarrow>
    (\<exists>encoded. s = Content encoded \<and> length encoded = unat (bd_encoded_size d)
      \<and> open_blob Z d encoded = Ok (content, True) \<and> length content = unat (bd_uncompressed_size d)
      \<and> from_domain_bytes H BLOB_HASH_DOMAIN content = bd_hash d)"
proof -
  have loop: "read_loop failure pick d c clean 0 [] = Ok (t, h) \<longleftrightarrow>
      clean \<and> length c \<le> unat (bd_uncompressed_size d) \<and> unat t = length c \<and> h = c" for c clean t h
    using read_loop_Ok [of 0 d failure pick c clean "[]" t h] by simp
  show ?thesis
    unfolding stream_blob_def ensure_encoded_size_def
    by (fastforce simp: loop word_unat_eq_iff)
qed

lemma verify_blob_streaming_Ok:
  "verify_blob_streaming H Z pick fs d = Ok u \<longleftrightarrow>
    (\<exists>content. stream_blob H Z (BlobCorrupt (bd_hash d)) pick (blob_slot fs (bd_hash d) (bd_encoding d)) d = Ok content)"
  by (auto simp: verify_blob_streaming_def verify_encoded_blob_streaming_def)

text \<open>
  C38. Streaming verification is exact.  However the reader cuts the stream, the bounded loop accepts a blob
  exactly when its file has the declared encoded size and decodes, to the clean end of the stream, to content
  of the declared size whose domain-separated hash is the blob's name.
\<close>

theorem streamed_verification_exact:
  "verify_blob_streaming H Z pick fs d = Ok () \<longleftrightarrow>
    (\<exists>encoded content. blob_slot fs (bd_hash d) (bd_encoding d) = Content encoded
      \<and> length encoded = unat (bd_encoded_size d)
      \<and> open_blob Z d encoded = Ok (content, True)
      \<and> length content = unat (bd_uncompressed_size d)
      \<and> hash_uncompressed H content = bd_hash d)"
  unfolding verify_blob_streaming_Ok stream_blob_Ok hash_uncompressed_def by blast

text \<open>
  A blob survives the trip to disk: when \<open>put_blob\<close> stores new content, \<open>read_blob\<close> returns exactly that
  content from the descriptor it replied, for every way the reader may cut the stream.
\<close>

theorem blob_round_trip:
  assumes "zstd_faithful Z" "zc_encode Z content = Some encoded"
    and "length content \<le> 256 * 1024 * 1024" "length encoded < 2 ^ 64"
    and "blob_slot fs (hash_uncompressed H content) Zstd = Absent"
    and "perform (put_blob H Z content) fault fs = (Ok d, fs')"
  shows "read_blob H Z pick fs' d = Ok content"
proof -
  let ?d = "\<lparr>bd_hash = hash_uncompressed H content, bd_uncompressed_size = of_nat (length content),
    bd_encoded_size = of_nat (length encoded), bd_encoding = Zstd\<rparr> :: BlobDescriptor"
  have plan: "put_blob H Z content fs = store ?d [\<lambda>fs. fs\<lparr>wf_zst_blobs :=
      bt_insert (hash_uncompressed H content) (Content encoded) (wf_zst_blobs fs)\<rparr>]"
    using assms(2,5) by (simp add: put_blob_def Let_def)
  have d: "d = ?d" and fs': "blob_slot fs' (hash_uncompressed H content) Zstd = Content encoded"
    using perform_Ok [OF assms(6)] unfolding plan by (simp_all add: store_def)
  have size: "unat (of_nat (length content) :: u64) = length content"
    using assms(3) by (simp add: unat_of_nat)
  have "unat (of_nat (length encoded) :: u64) = length encoded"
    using assms(4) by (simp add: unat_of_nat)
  moreover have "\<not> LEGACY_READ_BLOB_MAX_BYTES < bd_uncompressed_size d"
    using assms(3) unfolding d by (simp add: LEGACY_READ_BLOB_MAX_BYTES_def word_less_nat_alt size del: of_nat_numeral)
  ultimately show ?thesis
    using assms(1,2) size fs' unfolding d
    by (simp add: read_blob_def stream_blob_Ok open_blob_def zstd_faithful_def hash_uncompressed_def)
qed

abbreviation plain_zstd :: zstd where
  "plain_zstd \<equiv> \<lparr>zc_encode = \<lambda>b. Some (1 # b), zc_stream = \<lambda>b. Some (1 # b), zc_decode = \<lambda>e. case e of [] \<Rightarrow> None | m # b \<Rightarrow> if m = 1 then Some (b, True) else None\<rparr>"

theorem blob_round_trip_witness:
  "\<exists>d fs'. perform (put_blob (reference_host (\<lambda>_. 0)) plain_zstd [7, 8]) None empty_files = (Ok d, fs')
    \<and> read_blob (reference_host (\<lambda>_. 0)) plain_zstd (\<lambda>_. 1) fs' d = Ok [7, 8]"
proof -
  let ?H = "reference_host (\<lambda>_. 0)"
  have "zstd_faithful plain_zstd" by (simp add: zstd_faithful_def)
  moreover have "perform (put_blob ?H plain_zstd [7, 8]) None empty_files =
      (Ok (the (result_ok (fst (put_blob ?H plain_zstd [7, 8] empty_files)))),
       snd (perform (put_blob ?H plain_zstd [7, 8]) None empty_files))"
    by (simp add: perform_def put_blob_def store_def Let_def empty_files_def split_beta)
  ultimately show ?thesis
    using blob_round_trip [of plain_zstd "[7, 8]" "[1, 7, 8]" empty_files ?H None _ _ "\<lambda>_. 1"]
    by (auto simp: empty_files_def)
qed

section \<open>Footprints\<close>

lemma put_blob_keeps [footprint]:
  "(\<And>fs v. f (fs\<lparr>wf_zst_blobs := v\<rparr>) = f fs) \<Longrightarrow> plan_keeps f (put_blob H Z bytes fs)"
  unfolding put_blob_def Let_def by (auto intro!: footprint)

end
