(* ===== verification/SnapshotHead.thy ===== *)
theory SnapshotHead
  imports WorldStore BlobStore
begin

text \<open>
  The canonical snapshot head and the snapshot commit: \<open>swarm-storage/src/integrity.rs\<close>, the commit of
  \<open>streaming.rs\<close> and the world and snapshot queries of \<open>lib.rs\<close>.

  A commit writes an intent, publishes the manifest, moves the head, marks the head as required and removes the
  intent, in this order; the next operation that reads the head finishes or reports an interrupted commit.  The
  snapshot directory is keyed by the number in the file name the store itself gives (\<open>{number:020}.postcard\<close>).
\<close>

record SnapshotCommitFence =
  sf_expected_epoch :: u64
  sf_expected_fencing_token :: u64
  sf_expected_head :: "CanonicalSnapshotRefV1 option"

record SnapshotPublicationLease =
  pl_world :: WorldId
  pl_publication_id :: string
  pl_pinned_hashes :: "Hash32 set"

section \<open>Manifests on disk\<close>

definition canonical_ref :: "host \<Rightarrow> SnapshotManifestV1 \<Rightarrow> (StorageError, CanonicalSnapshotRefV1) result" where
  "canonical_ref H manifest =
    and_then (protocol (manifest_hash H manifest)) (\<lambda>hash.
    Ok \<lparr>cr_snapshot_number = sm_snapshot_number manifest, cr_manifest_hash = hash,
      cr_epoch = sm_epoch manifest, cr_sequence = sm_sequence manifest\<rparr>)"

definition load_snapshot_file_unchecked :: "WorldId \<Rightarrow> u64 \<Rightarrow> world_files \<Rightarrow> (StorageError, SnapshotManifestV1) result" where
  "load_snapshot_file_unchecked world number fs =
    (if \<not> slot_exists (slot_at (wf_snapshots fs) number) then Err (SnapshotNotFound number)
     else and_then (read_slot (slot_at (wf_snapshots fs) number)) (\<lambda>manifest.
       if sm_world_id manifest \<noteq> world \<or> sm_snapshot_number manifest \<noteq> number
       then Err WorldMetadataMismatch else Ok manifest))"

primrec load_manifests :: "WorldId \<Rightarrow> world_files \<Rightarrow> u64 list \<Rightarrow> (StorageError, SnapshotManifestV1 list) result" where
  "load_manifests world fs [] = Ok []"
| "load_manifests world fs (number # numbers) =
    and_then (load_snapshot_file_unchecked world number fs) (\<lambda>manifest.
    and_then (load_manifests world fs numbers) (\<lambda>manifests. Ok (manifest # manifests)))"

definition raw_snapshot_manifests :: "WorldId \<Rightarrow> world_files \<Rightarrow> (StorageError, SnapshotManifestV1 list) result" where
  "raw_snapshot_manifests world fs =
    and_then (load_manifests world fs (bt_keys (wf_snapshots fs))) (\<lambda>manifests.
    Ok (sort_key sm_snapshot_number manifests))"

definition highest_legacy_manifest_locked :: "WorldId \<Rightarrow> world_files \<Rightarrow> (StorageError, SnapshotManifestV1 option) result" where
  "highest_legacy_manifest_locked world fs =
    and_then (raw_snapshot_manifests world fs) (\<lambda>manifests.
    Ok (if manifests = [] then None else Some (last manifests)))"

section \<open>Reading the head\<close>

definition read_head_file :: "WorldId \<Rightarrow> world_files \<Rightarrow> (StorageError, CanonicalSnapshotHeadV1) result" where
  "read_head_file world fs =
    and_then (read_slot (wf_head fs)) (\<lambda>head.
    if hd_world_id head \<noteq> world then Err WorldMetadataMismatch else Ok head)"

definition validate_head_target_locked ::
    "host \<Rightarrow> WorldId \<Rightarrow> CanonicalSnapshotRefV1 option \<Rightarrow> world_files \<Rightarrow> (StorageError, unit) result" where
  "validate_head_target_locked H world head fs =
    (case head of
       None \<Rightarrow> Ok ()
     | Some head \<Rightarrow>
         and_then (map_err (\<lambda>e. case e of
             SnapshotNotFound _ \<Rightarrow> MissingCanonicalHeadTarget world (cr_snapshot_number head) (cr_manifest_hash head)
           | other \<Rightarrow> other) (load_snapshot_file_unchecked world (cr_snapshot_number head) fs)) (\<lambda>manifest.
         and_then (canonical_ref H manifest) (\<lambda>actual.
         if actual \<noteq> head then Err (CanonicalHeadMismatch world (cr_snapshot_number head)) else Ok ())))"

definition head_sval :: "CanonicalSnapshotHeadV1 \<Rightarrow> sval" where
  "head_sval head = STup [sWorld (hd_world_id head), sopt (\<lambda>r. STup [SU64 (cr_snapshot_number r),
    sHash (cr_manifest_hash r), SU64 (cr_epoch r), SU64 (cr_sequence r)]) (hd_head head)]"

abbreviation mark_required :: mutation where
  "mark_required \<equiv> \<lambda>fs. fs\<lparr>wf_head_required := True\<rparr>"

abbreviation drop_intent :: mutation where
  "drop_intent \<equiv> \<lambda>fs. fs\<lparr>wf_intent := Absent\<rparr>"

definition load_or_initialize_canonical_head_locked :: "host \<Rightarrow> WorldId \<Rightarrow> world_files \<Rightarrow> CanonicalSnapshotHeadV1 plan" where
  "load_or_initialize_canonical_head_locked H world fs =
    (if slot_exists (wf_intent fs) then
       check (read_slot (wf_intent fs)) (\<lambda>intent.
       if it_world_id intent \<noteq> world then refuse WorldMetadataMismatch
       else if slot_exists (wf_head fs) then
         check (read_head_file world fs) (\<lambda>head.
         if hd_head head = Some (it_next_head intent) then
           check (validate_head_target_locked H world (hd_head head) fs) (\<lambda>_.
           store head [drop_intent, mark_required])
         else refuse (SnapshotCommitIncomplete world (cr_snapshot_number (it_next_head intent))))
       else refuse (SnapshotCommitIncomplete world (cr_snapshot_number (it_next_head intent))))
     else if slot_exists (wf_head fs) then
       check (read_head_file world fs) (\<lambda>head.
       check (validate_head_target_locked H world (hd_head head) fs) (\<lambda>_.
       store head [mark_required]))
     else if wf_head_required fs then refuse (MissingCanonicalHead world)
     else
       check (highest_legacy_manifest_locked world fs) (\<lambda>legacy.
       check (case legacy of None \<Rightarrow> Ok None | Some m \<Rightarrow> and_then (canonical_ref H m) (\<lambda>r. Ok (Some r))) (\<lambda>reference.
       let head = \<lparr>hd_world_id = world, hd_head = reference\<rparr> in
       check (encode H (head_sval head)) (\<lambda>_.
       (and_then (validate_head_target_locked H world (hd_head head) fs) (\<lambda>_. Ok head),
        [\<lambda>fs. fs\<lparr>wf_head := Content head\<rparr>, mark_required])))))"

definition canonical_snapshot_head :: "host \<Rightarrow> WorldId \<Rightarrow> world_files \<Rightarrow> CanonicalSnapshotHeadV1 plan" where
  "canonical_snapshot_head H world fs = load_or_initialize_canonical_head_locked H world fs"

definition validate_no_orphan_manifests_locked ::
    "WorldId \<Rightarrow> CanonicalSnapshotRefV1 option \<Rightarrow> world_files \<Rightarrow> (StorageError, unit) result" where
  "validate_no_orphan_manifests_locked world head fs =
    and_then (raw_snapshot_manifests world fs) (\<lambda>manifests.
    let highest_allowed = (case head of None \<Rightarrow> 0 | Some value \<Rightarrow> cr_snapshot_number value) in
    case find (\<lambda>m. highest_allowed < sm_snapshot_number m) manifests of
      None \<Rightarrow> Ok ()
    | Some orphan \<Rightarrow> Err (UncommittedSnapshotOrphan world (sm_snapshot_number orphan)))"

definition validate_canonical_snapshot_namespace :: "host \<Rightarrow> WorldId \<Rightarrow> world_files \<Rightarrow> unit plan" where
  "validate_canonical_snapshot_namespace H world =
    then_plan (load_or_initialize_canonical_head_locked H world) (\<lambda>head fs.
    check (validate_no_orphan_manifests_locked world (hd_head head) fs) (\<lambda>_. reply ()))"

section \<open>Committing a snapshot\<close>

definition validate_direct_extension :: "CanonicalSnapshotRefV1 option \<Rightarrow> SnapshotManifestV1 \<Rightarrow> (StorageError, unit) result" where
  "validate_direct_extension previous manifest =
    (case previous of
       None \<Rightarrow>
         if sm_snapshot_number manifest \<noteq> 1 \<or> sm_previous_snapshot_hash manifest \<noteq> None
         then Err (SnapshotHistoryConflict (sm_snapshot_number manifest)) else Ok ()
     | Some previous \<Rightarrow>
         and_then (ok_or (checked_add (cr_snapshot_number previous) 1) SnapshotNumberExhausted) (\<lambda>expected_number.
         and_then (ok_or (checked_add (cr_sequence previous) 1) SnapshotNumberExhausted) (\<lambda>expected_sequence.
         if sm_snapshot_number manifest \<noteq> expected_number \<or> sm_sequence manifest \<noteq> expected_sequence
           \<or> sm_previous_snapshot_hash manifest \<noteq> Some (cr_manifest_hash previous)
         then Err (SnapshotHistoryConflict (sm_snapshot_number manifest)) else Ok ())))"

definition validate_commit_epoch ::
    "SnapshotManifestV1 \<Rightarrow> SnapshotCommitFence option \<Rightarrow> CanonicalSnapshotRefV1 option \<Rightarrow> world_files \<Rightarrow> (StorageError, unit) result" where
  "validate_commit_epoch manifest fence previous fs =
    and_then (if slot_exists (wf_epoch fs)
        then and_then (load_epoch_record (sm_world_id manifest) fs) (\<lambda>epoch. Ok (Some epoch)) else Ok None) (\<lambda>current_epoch.
    and_then (case current_epoch of
        None \<Rightarrow> Ok ()
      | Some epoch \<Rightarrow>
          if er_epoch_number epoch \<noteq> sm_epoch manifest
            \<or> er_authority_peer_id epoch \<noteq> sm_authority_peer_id manifest
            \<or> er_authority_public_key epoch \<noteq> sm_authority_public_key manifest
          then Err (SnapshotFenceMismatch (sm_world_id manifest) (er_epoch_number epoch) (er_fencing_token epoch))
          else Ok ()) (\<lambda>_.
    case fence of
      None \<Rightarrow> Ok ()
    | Some fence \<Rightarrow>
        let mismatch = SnapshotFenceMismatch (sm_world_id manifest) (sf_expected_epoch fence) (sf_expected_fencing_token fence) in
        and_then (ok_or current_epoch mismatch) (\<lambda>epoch.
        if er_epoch_number epoch \<noteq> sf_expected_epoch fence \<or> er_fencing_token epoch \<noteq> sf_expected_fencing_token fence
          \<or> previous \<noteq> sf_expected_head fence
        then Err mismatch else Ok ())))"

definition intent_sval :: "SnapshotCommitIntentV1 \<Rightarrow> sval" where
  "intent_sval it = (let r = \<lambda>r. STup [SU64 (cr_snapshot_number r), sHash (cr_manifest_hash r), SU64 (cr_epoch r), SU64 (cr_sequence r)] in
    STup [sWorld (it_world_id it), sopt r (it_previous_head it), r (it_next_head it)])"

definition begin_snapshot_commit_transaction ::
    "host \<Rightarrow> SnapshotManifestV1 \<Rightarrow> SnapshotCommitFence option \<Rightarrow> world_files \<Rightarrow> CanonicalSnapshotRefV1 plan" where
  "begin_snapshot_commit_transaction H manifest fence =
    then_plan (load_or_initialize_canonical_head_locked H (sm_world_id manifest)) (\<lambda>current fs.
    check (validate_direct_extension (hd_head current) manifest) (\<lambda>_.
    check (validate_commit_epoch manifest fence (hd_head current) fs) (\<lambda>_.
    check (canonical_ref H manifest) (\<lambda>next_head.
    let intent = \<lparr>it_world_id = sm_world_id manifest, it_previous_head = hd_head current, it_next_head = next_head\<rparr> in
    check (encode H (intent_sval intent)) (\<lambda>_.
    store next_head [\<lambda>fs. fs\<lparr>wf_intent := Content intent\<rparr>])))))"

definition publish_immutable_manifest :: "SnapshotManifestV1 \<Rightarrow> world_files \<Rightarrow> unit plan" where
  "publish_immutable_manifest manifest fs =
    (let number = sm_snapshot_number manifest in
     if slot_exists (slot_at (wf_snapshots fs) number)
     then (Err (SnapshotHistoryConflict number), [drop_intent])
     else store () [\<lambda>fs. fs\<lparr>wf_snapshots := bt_insert number (Content manifest) (wf_snapshots fs)\<rparr>])"

definition finish_snapshot_commit_transaction :: "host \<Rightarrow> WorldId \<Rightarrow> CanonicalSnapshotRefV1 \<Rightarrow> unit plan" where
  "finish_snapshot_commit_transaction H world next_head =
    (let head = \<lparr>hd_world_id = world, hd_head = Some next_head\<rparr> in
     check (encode H (head_sval head)) (\<lambda>_.
     store () [\<lambda>fs. fs\<lparr>wf_head := Content head\<rparr>, mark_required, drop_intent]))"

definition owns_durable_hash :: "SnapshotPublicationLease \<Rightarrow> Hash32 \<Rightarrow> world_files \<Rightarrow> bool" where
  "owns_durable_hash lease hash fs \<longleftrightarrow> hash \<in> pl_pinned_hashes lease
    \<and> (case bt_get (wf_publications fs) (pl_publication_id lease) of
         None \<Rightarrow> False | Some dir \<Rightarrow> slot_exists (slot_at (pb_pins dir) hash))"

definition remove_pin :: "string \<Rightarrow> Hash32 \<Rightarrow> mutation" where
  "remove_pin publication_id hash fs =
    (case bt_get (wf_publications fs) publication_id of
       None \<Rightarrow> fs
     | Some dir \<Rightarrow> fs\<lparr>wf_publications :=
         bt_insert publication_id (dir\<lparr>pb_pins := bt_remove hash (pb_pins dir)\<rparr>) (wf_publications fs)\<rparr>)"

definition release_snapshot_publication_pins :: "string \<Rightarrow> world_files \<Rightarrow> unit plan" where
  "release_snapshot_publication_pins publication_id fs =
    (case bt_get (wf_publications fs) publication_id of
       None \<Rightarrow> reply ()
     | Some dir \<Rightarrow> store () (map (remove_pin publication_id) (bt_keys (pb_pins dir))))"

definition release_publication :: "SnapshotPublicationLease option \<Rightarrow> world_files \<Rightarrow> unit plan" where
  "release_publication publication fs =
    (case publication of None \<Rightarrow> reply () | Some lease \<Rightarrow> release_snapshot_publication_pins (pl_publication_id lease) fs)"

definition validate_publication ::
    "SnapshotPublicationLease option \<Rightarrow> SnapshotManifestV1 \<Rightarrow> world_files \<Rightarrow> (StorageError, unit) result" where
  "validate_publication publication manifest fs =
    (case publication of
       None \<Rightarrow> Ok ()
     | Some lease \<Rightarrow>
         if pl_world lease \<noteq> sm_world_id manifest
         then Err (SnapshotPublicationWorldMismatch (pl_world lease) (sm_world_id manifest))
         else for_each (\<lambda>entry. ensure (owns_durable_hash lease (bd_hash (se_blob entry)) fs)
             (SnapshotPublicationMissingPin (bd_hash (se_blob entry)))) (sm_entries manifest))"

definition commit_snapshot_streaming_inner ::
    "host \<Rightarrow> zstd \<Rightarrow> (nat \<Rightarrow> nat) \<Rightarrow> SnapshotPublicationLease option \<Rightarrow> SnapshotManifestV1 \<Rightarrow> SnapshotCommitFence option
      \<Rightarrow> world_files \<Rightarrow> unit plan" where
  "commit_snapshot_streaming_inner H Z pick publication manifest fence fs =
    check (validate_publication publication manifest fs) (\<lambda>_.
    check (verify_snapshot_streaming H Z pick fs manifest) (\<lambda>_.
    check (protocol (manifest_hash H manifest)) (\<lambda>attempted_hash.
    if slot_exists (slot_at (wf_snapshots fs) (sm_snapshot_number manifest)) then
      then_plan (validate_canonical_snapshot_namespace H (sm_world_id manifest)) (\<lambda>_ fs.
      check (load_snapshot_file_unchecked (sm_world_id manifest) (sm_snapshot_number manifest) fs) (\<lambda>existing.
      check (protocol (manifest_hash H existing)) (\<lambda>existing_hash.
      if existing_hash \<noteq> attempted_hash
      then refuse (SnapshotManifestConflict (sm_world_id manifest) (sm_snapshot_number manifest) existing_hash attempted_hash)
      else release_publication publication fs))) fs
    else
      check (encode H (SnapshotManifestV1_sval manifest)) (\<lambda>_.
      then_plan (begin_snapshot_commit_transaction H manifest fence) (\<lambda>next_head.
      then_plan (publish_immutable_manifest manifest) (\<lambda>_.
      then_plan (\<lambda>_. finish_snapshot_commit_transaction H (sm_world_id manifest) next_head) (\<lambda>_.
      release_publication publication))) fs))))"

definition commit_snapshot :: "host \<Rightarrow> zstd \<Rightarrow> (nat \<Rightarrow> nat) \<Rightarrow> SnapshotManifestV1 \<Rightarrow> world_files \<Rightarrow> unit plan" where
  "commit_snapshot H Z pick manifest = commit_snapshot_streaming_inner H Z pick None manifest None"

definition commit_snapshot_fenced ::
    "host \<Rightarrow> zstd \<Rightarrow> (nat \<Rightarrow> nat) \<Rightarrow> SnapshotManifestV1 \<Rightarrow> SnapshotCommitFence \<Rightarrow> world_files \<Rightarrow> unit plan" where
  "commit_snapshot_fenced H Z pick manifest fence = commit_snapshot_streaming_inner H Z pick None manifest (Some fence)"

section \<open>Queries and world creation\<close>

definition load_snapshot :: "host \<Rightarrow> WorldId \<Rightarrow> u64 \<Rightarrow> world_files \<Rightarrow> SnapshotManifestV1 plan" where
  "load_snapshot H world number fs =
    check (load_snapshot_file_unchecked world number fs) (\<lambda>manifest.
    then_plan (validate_canonical_snapshot_namespace H world) (\<lambda>_ _. reply manifest) fs)"

definition list_snapshots :: "host \<Rightarrow> WorldId \<Rightarrow> world_files \<Rightarrow> SnapshotManifestV1 list plan" where
  "list_snapshots H world =
    then_plan (validate_canonical_snapshot_namespace H world) (\<lambda>_ fs.
    check (raw_snapshot_manifests world fs) reply)"

definition latest_snapshot :: "host \<Rightarrow> WorldId \<Rightarrow> world_files \<Rightarrow> SnapshotManifestV1 option plan" where
  "latest_snapshot H world =
    then_plan (validate_canonical_snapshot_namespace H world) (\<lambda>_.
    then_plan (canonical_snapshot_head H world) (\<lambda>head fs.
    case hd_head head of
      None \<Rightarrow> reply None
    | Some reference \<Rightarrow>
        check (load_snapshot_file_unchecked world (cr_snapshot_number reference) fs) (\<lambda>m. reply (Some m))))"

definition next_snapshot_number :: "host \<Rightarrow> WorldId \<Rightarrow> world_files \<Rightarrow> u64 plan" where
  "next_snapshot_number H world =
    then_plan (canonical_snapshot_head H world) (\<lambda>head fs.
    case hd_head head of
      None \<Rightarrow> reply 1
    | Some reference \<Rightarrow> check (ok_or (checked_add (cr_snapshot_number reference) 1) SnapshotNumberExhausted) reply)"

definition create_world :: "host \<Rightarrow> WorldMetadataV1 \<Rightarrow> world_files \<Rightarrow> unit plan" where
  "create_world H metadata =
    then_plan (\<lambda>fs.
      if md_storage_schema_version metadata \<noteq> STORAGE_SCHEMA_VERSION then refuse WorldMetadataMismatch
      else check (protocol (genesis_world_id H (md_genesis metadata))) (\<lambda>id.
        if id \<noteq> md_world_id metadata then refuse WorldMetadataMismatch
        else store () [\<lambda>fs. fs\<lparr>wf_world := Content metadata\<rparr>])) (\<lambda>_.
    then_plan (canonical_snapshot_head H (md_world_id metadata)) (\<lambda>_ _. reply ()))"

section \<open>Footprints\<close>

lemma load_or_initialize_canonical_head_locked_keeps [footprint]:
  "(\<And>fs v. f (fs\<lparr>wf_intent := v\<rparr>) = f fs) \<Longrightarrow> (\<And>fs v. f (fs\<lparr>wf_head := v\<rparr>) = f fs) \<Longrightarrow> (\<And>fs v. f (fs\<lparr>wf_head_required := v\<rparr>) = f fs) \<Longrightarrow> plan_keeps f (load_or_initialize_canonical_head_locked H w fs)"
  unfolding load_or_initialize_canonical_head_locked_def Let_def by (auto intro!: footprint split: option.splits sum.splits slot.splits)

lemma canonical_snapshot_head_keeps [footprint]:
  "(\<And>fs v. f (fs\<lparr>wf_intent := v\<rparr>) = f fs) \<Longrightarrow> (\<And>fs v. f (fs\<lparr>wf_head := v\<rparr>) = f fs) \<Longrightarrow> (\<And>fs v. f (fs\<lparr>wf_head_required := v\<rparr>) = f fs) \<Longrightarrow> plan_keeps f (canonical_snapshot_head H w fs)"
  unfolding canonical_snapshot_head_def by (auto intro!: footprint split: option.splits sum.splits slot.splits)

lemma validate_canonical_snapshot_namespace_keeps [footprint]:
  "(\<And>fs v. f (fs\<lparr>wf_intent := v\<rparr>) = f fs) \<Longrightarrow> (\<And>fs v. f (fs\<lparr>wf_head := v\<rparr>) = f fs) \<Longrightarrow> (\<And>fs v. f (fs\<lparr>wf_head_required := v\<rparr>) = f fs) \<Longrightarrow> plan_keeps f (validate_canonical_snapshot_namespace H w fs)"
  unfolding validate_canonical_snapshot_namespace_def by (auto intro!: footprint split: option.splits sum.splits slot.splits)

lemma begin_snapshot_commit_transaction_keeps [footprint]:
  "(\<And>fs v. f (fs\<lparr>wf_intent := v\<rparr>) = f fs) \<Longrightarrow> (\<And>fs v. f (fs\<lparr>wf_head := v\<rparr>) = f fs) \<Longrightarrow> (\<And>fs v. f (fs\<lparr>wf_head_required := v\<rparr>) = f fs) \<Longrightarrow> plan_keeps f (begin_snapshot_commit_transaction H m c fs)"
  unfolding begin_snapshot_commit_transaction_def Let_def by (auto intro!: footprint split: option.splits sum.splits slot.splits)

lemma publish_immutable_manifest_keeps [footprint]:
  "(\<And>fs v. f (fs\<lparr>wf_snapshots := v\<rparr>) = f fs) \<Longrightarrow> (\<And>fs v. f (fs\<lparr>wf_intent := v\<rparr>) = f fs) \<Longrightarrow> plan_keeps f (publish_immutable_manifest m fs)"
  unfolding publish_immutable_manifest_def Let_def by (auto intro!: footprint split: option.splits sum.splits slot.splits)

lemma finish_snapshot_commit_transaction_keeps [footprint]:
  "(\<And>fs v. f (fs\<lparr>wf_intent := v\<rparr>) = f fs) \<Longrightarrow> (\<And>fs v. f (fs\<lparr>wf_head := v\<rparr>) = f fs) \<Longrightarrow> (\<And>fs v. f (fs\<lparr>wf_head_required := v\<rparr>) = f fs) \<Longrightarrow> plan_keeps f (finish_snapshot_commit_transaction H w r)"
  unfolding finish_snapshot_commit_transaction_def Let_def by (auto intro!: footprint split: option.splits sum.splits slot.splits)

lemma release_snapshot_publication_pins_keeps [footprint]:
  "(\<And>fs v. f (fs\<lparr>wf_publications := v\<rparr>) = f fs) \<Longrightarrow> plan_keeps f (release_snapshot_publication_pins p fs)"
  unfolding release_snapshot_publication_pins_def
  by (auto intro!: footprint simp: list_all_iff remove_pin_def split: option.splits)

lemma release_publication_keeps [footprint]:
  "(\<And>fs v. f (fs\<lparr>wf_publications := v\<rparr>) = f fs) \<Longrightarrow> plan_keeps f (release_publication p fs)"
  unfolding release_publication_def by (auto intro!: footprint split: option.splits sum.splits slot.splits)

lemma commit_snapshot_streaming_inner_keeps [footprint]:
  "(\<And>fs v. f (fs\<lparr>wf_intent := v\<rparr>) = f fs) \<Longrightarrow> (\<And>fs v. f (fs\<lparr>wf_head := v\<rparr>) = f fs) \<Longrightarrow> (\<And>fs v. f (fs\<lparr>wf_head_required := v\<rparr>) = f fs) \<Longrightarrow> (\<And>fs v. f (fs\<lparr>wf_snapshots := v\<rparr>) = f fs) \<Longrightarrow> (\<And>fs v. f (fs\<lparr>wf_publications := v\<rparr>) = f fs) \<Longrightarrow> plan_keeps f (commit_snapshot_streaming_inner H Z pick p m c fs)"
  unfolding commit_snapshot_streaming_inner_def by (auto intro!: footprint split: option.splits sum.splits slot.splits)

lemma commit_snapshot_keeps [footprint]:
  "(\<And>fs v. f (fs\<lparr>wf_intent := v\<rparr>) = f fs) \<Longrightarrow> (\<And>fs v. f (fs\<lparr>wf_head := v\<rparr>) = f fs) \<Longrightarrow> (\<And>fs v. f (fs\<lparr>wf_head_required := v\<rparr>) = f fs) \<Longrightarrow> (\<And>fs v. f (fs\<lparr>wf_snapshots := v\<rparr>) = f fs) \<Longrightarrow> (\<And>fs v. f (fs\<lparr>wf_publications := v\<rparr>) = f fs) \<Longrightarrow> plan_keeps f (commit_snapshot H Z pick m fs)"
  unfolding commit_snapshot_def by (auto intro!: footprint split: option.splits sum.splits slot.splits)

lemma commit_snapshot_fenced_keeps [footprint]:
  "(\<And>fs v. f (fs\<lparr>wf_intent := v\<rparr>) = f fs) \<Longrightarrow> (\<And>fs v. f (fs\<lparr>wf_head := v\<rparr>) = f fs) \<Longrightarrow> (\<And>fs v. f (fs\<lparr>wf_head_required := v\<rparr>) = f fs) \<Longrightarrow> (\<And>fs v. f (fs\<lparr>wf_snapshots := v\<rparr>) = f fs) \<Longrightarrow> (\<And>fs v. f (fs\<lparr>wf_publications := v\<rparr>) = f fs) \<Longrightarrow> plan_keeps f (commit_snapshot_fenced H Z pick m c fs)"
  unfolding commit_snapshot_fenced_def by (auto intro!: footprint split: option.splits sum.splits slot.splits)

lemma load_snapshot_keeps [footprint]:
  "(\<And>fs v. f (fs\<lparr>wf_intent := v\<rparr>) = f fs) \<Longrightarrow> (\<And>fs v. f (fs\<lparr>wf_head := v\<rparr>) = f fs) \<Longrightarrow> (\<And>fs v. f (fs\<lparr>wf_head_required := v\<rparr>) = f fs) \<Longrightarrow> plan_keeps f (load_snapshot H w n fs)"
  unfolding load_snapshot_def by (auto intro!: footprint split: option.splits sum.splits slot.splits)

lemma list_snapshots_keeps [footprint]:
  "(\<And>fs v. f (fs\<lparr>wf_intent := v\<rparr>) = f fs) \<Longrightarrow> (\<And>fs v. f (fs\<lparr>wf_head := v\<rparr>) = f fs) \<Longrightarrow> (\<And>fs v. f (fs\<lparr>wf_head_required := v\<rparr>) = f fs) \<Longrightarrow> plan_keeps f (list_snapshots H w fs)"
  unfolding list_snapshots_def by (auto intro!: footprint split: option.splits sum.splits slot.splits)

lemma latest_snapshot_keeps [footprint]:
  "(\<And>fs v. f (fs\<lparr>wf_intent := v\<rparr>) = f fs) \<Longrightarrow> (\<And>fs v. f (fs\<lparr>wf_head := v\<rparr>) = f fs) \<Longrightarrow> (\<And>fs v. f (fs\<lparr>wf_head_required := v\<rparr>) = f fs) \<Longrightarrow> plan_keeps f (latest_snapshot H w fs)"
  unfolding latest_snapshot_def by (auto intro!: footprint split: option.splits sum.splits slot.splits)

lemma next_snapshot_number_keeps [footprint]:
  "(\<And>fs v. f (fs\<lparr>wf_intent := v\<rparr>) = f fs) \<Longrightarrow> (\<And>fs v. f (fs\<lparr>wf_head := v\<rparr>) = f fs) \<Longrightarrow> (\<And>fs v. f (fs\<lparr>wf_head_required := v\<rparr>) = f fs) \<Longrightarrow> plan_keeps f (next_snapshot_number H w fs)"
  unfolding next_snapshot_number_def by (auto intro!: footprint split: option.splits sum.splits slot.splits)

lemma create_world_keeps [footprint]:
  "(\<And>fs v. f (fs\<lparr>wf_world := v\<rparr>) = f fs) \<Longrightarrow> (\<And>fs v. f (fs\<lparr>wf_intent := v\<rparr>) = f fs) \<Longrightarrow> (\<And>fs v. f (fs\<lparr>wf_head := v\<rparr>) = f fs) \<Longrightarrow> (\<And>fs v. f (fs\<lparr>wf_head_required := v\<rparr>) = f fs) \<Longrightarrow> plan_keeps f (create_world H m fs)"
  unfolding create_world_def by (auto intro!: footprint split: option.splits sum.splits slot.splits)

end
