(* ===== verification/Retention.thy ===== *)
theory Retention
  imports SnapshotHead
begin

text \<open>
  Snapshot retention and blob garbage collection: \<open>swarm-storage/src/retention.rs\<close>.

  The operations reply with a result of their own error type; the error of the plan around it is the
  \<open>RetentionError::Storage\<close> case.  Whether another process holds the garbage-collection lock is an argument
  (\<open>gc_busy\<close>), and whether a publication's owner lock is held is part of the files (\<open>pb_owner_held\<close>).
\<close>

record RetentionPolicy =
  rt_keep_latest :: nat
  rt_protected_snapshots :: "u64 set"

definition RetentionPolicy_default :: RetentionPolicy where
  "RetentionPolicy_default = \<lparr>rt_keep_latest = 3, rt_protected_snapshots = {}\<rparr>"

record RetentionReport =
  rr_retained_snapshots :: "u64 list"
  rr_removed_snapshots :: "u64 list"
  rr_removed_blobs :: nat
  rr_reclaimed_bytes :: u64

definition RetentionReport_default :: RetentionReport where
  "RetentionReport_default = \<lparr>rr_retained_snapshots = [], rr_removed_snapshots = [], rr_removed_blobs = 0, rr_reclaimed_bytes = 0\<rparr>"

datatype RetentionError =
    RtStorage StorageError
  | GarbageCollectionActive WorldId
  | MissingRequiredSnapshot Hash32

definition retention_check :: "(RetentionError, 'a) result \<Rightarrow> ('a \<Rightarrow> (RetentionError, 'b) result plan) \<Rightarrow> (RetentionError, 'b) result plan" where
  "retention_check r k = (case r of Inl (RtStorage e) \<Rightarrow> refuse e | Inl e \<Rightarrow> reply (Inl e) | Inr x \<Rightarrow> k x)"

section \<open>Pins\<close>

primrec read_pins :: "Hash32 slot list \<Rightarrow> (StorageError, Hash32 set) result" where
  "read_pins [] = Ok {}"
| "read_pins (s # ss) = and_then (read_slot s) (\<lambda>h. and_then (read_pins ss) (\<lambda>hs. Ok (insert h hs)))"

definition read_hash_pins :: "('k, Hash32 slot) btree_map \<Rightarrow> (StorageError, Hash32 set) result" where
  "read_hash_pins pins = read_pins (bt_values pins)"

primrec write_pins :: "nat \<Rightarrow> Hash32 list \<Rightarrow> world_files \<Rightarrow> Hash32 list plan" where
  "write_pins token [] fs = reply []"
| "write_pins token (h # hs) fs =
    (if slot_exists (slot_at (wf_replication_pins fs) (token, h)) then refuse (StIo OtherIo)
     else case write_pins token hs fs of (r, ms) \<Rightarrow>
       (and_then r (\<lambda>pins. Ok (h # pins)),
        (\<lambda>fs. fs\<lparr>wf_replication_pins := bt_insert (token, h) (Content h) (wf_replication_pins fs)\<rparr>) # ms))"

text \<open>The first occurrence of each hash is pinned, under the token of this call.\<close>

definition write_hash_pins :: "nat \<Rightarrow> Hash32 list \<Rightarrow> world_files \<Rightarrow> Hash32 list plan" where
  "write_hash_pins token hashes fs = write_pins token (rev (remdups (rev hashes))) fs"

definition pin_replication_hashes ::
    "bool \<Rightarrow> nat \<Rightarrow> WorldId \<Rightarrow> Hash32 list \<Rightarrow> world_files \<Rightarrow> (RetentionError, Hash32 list) result plan" where
  "pin_replication_hashes gc_busy token world hashes fs =
    (if gc_busy then reply (Inl (GarbageCollectionActive world))
     else then_plan (write_hash_pins token hashes) (\<lambda>pins _. reply (Inr pins)) fs)"

text \<open>Dropping an \<open>ActiveReplicationLease\<close>.\<close>

definition remove_pin_paths :: "nat \<Rightarrow> Hash32 list \<Rightarrow> world_files \<Rightarrow> unit plan" where
  "remove_pin_paths token hashes fs =
    store () (map (\<lambda>h fs. fs\<lparr>wf_replication_pins := bt_remove (token, h) (wf_replication_pins fs)\<rparr>) hashes)"

text \<open>Up to 128 generated ids are tried; one whose directory exists is skipped.\<close>

definition begin_snapshot_publication :: "WorldId \<Rightarrow> string list \<Rightarrow> world_files \<Rightarrow> SnapshotPublicationLease plan" where
  "begin_snapshot_publication world ids fs =
    (case find (\<lambda>i. bt_get (wf_publications fs) i = None) (take 128 ids) of
       None \<Rightarrow> refuse (StIo OtherIo)
     | Some fresh \<Rightarrow> store \<lparr>pl_world = world, pl_publication_id = fresh, pl_pinned_hashes = {}\<rparr>
         [\<lambda>fs. fs\<lparr>wf_publications := bt_insert fresh \<lparr>pb_owner_file = True, pb_owner_held = True, pb_pins = []\<rparr> (wf_publications fs)\<rparr>])"

definition pin_hash :: "SnapshotPublicationLease \<Rightarrow> Hash32 \<Rightarrow> world_files \<Rightarrow> SnapshotPublicationLease plan" where
  "pin_hash lease hash fs =
    (if hash \<in> pl_pinned_hashes lease then reply lease
     else case bt_get (wf_publications fs) (pl_publication_id lease) of
         None \<Rightarrow> refuse (StIo NotFound)
       | Some dir \<Rightarrow>
           if slot_exists (slot_at (pb_pins dir) hash) then refuse (StIo OtherIo)
           else store (lease\<lparr>pl_pinned_hashes := insert hash (pl_pinned_hashes lease)\<rparr>)
             [\<lambda>fs. fs\<lparr>wf_publications := bt_insert (pl_publication_id lease)
                (dir\<lparr>pb_pins := bt_insert hash (Content hash) (pb_pins dir)\<rparr>) (wf_publications fs)\<rparr>])"

definition remove_publication :: "string \<Rightarrow> mutation" where
  "remove_publication publication_id fs = fs\<lparr>wf_publications := bt_remove publication_id (wf_publications fs)\<rparr>"

primrec scan_publications :: "(string \<times> publication) list \<Rightarrow> Hash32 set plan" where
  "scan_publications [] = reply {}"
| "scan_publications (p # ps) =
    (if pb_owner_file (snd p) \<and> \<not> pb_owner_held (snd p) then
       (case scan_publications ps of (r, ms) \<Rightarrow> (r, remove_publication (fst p) # ms))
     else check (read_hash_pins (pb_pins (snd p))) (\<lambda>hs.
       case scan_publications ps of (r, ms) \<Rightarrow> (and_then r (\<lambda>live. Ok (hs \<union> live)), ms)))"

definition read_live_snapshot_publication_hashes :: "world_files \<Rightarrow> Hash32 set plan" where
  "read_live_snapshot_publication_hashes fs = scan_publications (wf_publications fs)"

section \<open>Retention roots\<close>

definition required_from :: "'a slot \<Rightarrow> (StorageError, 'b) result \<Rightarrow> ('b \<Rightarrow> Hash32 list) \<Rightarrow> (StorageError, Hash32 list) result" where
  "required_from s load hashes = (if slot_exists s then and_then load (\<lambda>r. Ok (hashes r)) else Ok [])"

definition required_hashes :: "host \<Rightarrow> WorldId \<Rightarrow> world_files \<Rightarrow> (StorageError, Hash32 list) result" where
  "required_hashes H world fs =
    and_then (required_from (wf_transfer fs) (load_transfer_record world fs) (\<lambda>r. [at_base_snapshot_hash r])) (\<lambda>transfer.
    and_then (required_from (wf_sleep fs) (load_sleep_record world fs) (\<lambda>r. [sl_latest_snapshot_hash r])) (\<lambda>sleep.
    and_then (required_from (wf_recovery_promise fs) (load_recovery_promise H world fs)
        (\<lambda>p. [rb_base_snapshot_hash (drp_ballot p)])) (\<lambda>promise.
    and_then (required_from (wf_recovery_certificate fs) (load_recovery_certificate world fs)
        (\<lambda>c. [rb_base_snapshot_hash (rcert_ballot c)])) (\<lambda>certificate.
    and_then (required_from (wf_solo_branch fs) (load_solo_branch world fs)
        (\<lambda>b. [sb_base_snapshot_hash b, sb_head_snapshot_hash b])) (\<lambda>branch.
    and_then (list_solo_conflicts world fs) (\<lambda>conflicts.
    Ok (transfer @ sleep @ promise @ certificate @ branch
      @ concat (map (\<lambda>b. [sb_base_snapshot_hash b, sb_head_snapshot_hash b]) conflicts))))))))"

primrec index_by_hash :: "host \<Rightarrow> (Hash32, u64) btree_map \<Rightarrow> SnapshotManifestV1 list \<Rightarrow> (StorageError, (Hash32, u64) btree_map) result" where
  "index_by_hash H by_hash [] = Ok by_hash"
| "index_by_hash H by_hash (m # ms) =
    and_then (protocol (manifest_hash H m)) (\<lambda>hash. index_by_hash H (bt_insert hash (sm_snapshot_number m) by_hash) ms)"

primrec retain_required :: "(Hash32, u64) btree_map \<Rightarrow> u64 set \<Rightarrow> Hash32 list \<Rightarrow> (RetentionError, u64 set) result" where
  "retain_required by_hash retained [] = Ok retained"
| "retain_required by_hash retained (h # hs) =
    and_then (ok_or (bt_get by_hash h) (MissingRequiredSnapshot h)) (\<lambda>number.
    retain_required by_hash (insert number retained) hs)"

definition retention_roots ::
    "host \<Rightarrow> WorldId \<Rightarrow> SnapshotManifestV1 list \<Rightarrow> RetentionPolicy \<Rightarrow> world_files \<Rightarrow> (RetentionError, u64 set) result" where
  "retention_roots H world snapshots policy fs =
    (let retained = rt_protected_snapshots policy \<union> {sm_snapshot_number (last snapshots)}
           \<union> sm_snapshot_number ` set (take (rt_keep_latest policy) (rev snapshots)) in
     and_then (map_err RtStorage (required_hashes H world fs)) (\<lambda>required.
     if required = [] then Ok retained
     else and_then (map_err RtStorage (index_by_hash H [] snapshots)) (\<lambda>by_hash.
       retain_required by_hash retained (sort (remdups required)))))"

section \<open>Pruning and collecting\<close>

definition remove_snapshot :: "u64 \<Rightarrow> mutation" where
  "remove_snapshot number fs = fs\<lparr>wf_snapshots := bt_remove number (wf_snapshots fs)\<rparr>"

definition prune_snapshots :: "host \<Rightarrow> WorldId \<Rightarrow> RetentionPolicy \<Rightarrow> world_files \<Rightarrow> (RetentionError, RetentionReport) result plan" where
  "prune_snapshots H world policy =
    then_plan (list_snapshots H world) (\<lambda>snapshots fs.
    if snapshots = [] then reply (Inr RetentionReport_default)
    else retention_check (retention_roots H world snapshots policy fs) (\<lambda>retained.
      let removed = filter (\<lambda>n. n \<notin> retained) (map sm_snapshot_number snapshots) in
      store (Inr \<lparr>rr_retained_snapshots = sorted_list_of_set retained, rr_removed_snapshots = sort removed,
          rr_removed_blobs = 0, rr_reclaimed_bytes = 0\<rparr>)
        (map remove_snapshot removed)))"

definition referenced_blob_hashes :: "SnapshotManifestV1 list \<Rightarrow> Hash32 set" where
  "referenced_blob_hashes snapshots = (\<lambda>e. bd_hash (se_blob e)) ` set (concat (map sm_entries snapshots))"

definition remove_raw_blob :: "Hash32 \<Rightarrow> mutation" where
  "remove_raw_blob hash fs = fs\<lparr>wf_raw_blobs := bt_remove hash (wf_raw_blobs fs)\<rparr>"

definition remove_zst_blob :: "Hash32 \<Rightarrow> mutation" where
  "remove_zst_blob hash fs = fs\<lparr>wf_zst_blobs := bt_remove hash (wf_zst_blobs fs)\<rparr>"

primrec sweep :: "(Hash32 \<Rightarrow> mutation) \<Rightarrow> Hash32 set \<Rightarrow> RetentionReport \<Rightarrow> (Hash32 \<times> bytes slot) list \<Rightarrow> RetentionReport plan" where
  "sweep remove live report [] = reply report"
| "sweep remove live report (b # bs) =
    (if fst b \<in> live then sweep remove live report bs
     else check (read_slot (snd b)) (\<lambda>bytes.
       case sweep remove live (report\<lparr>rr_removed_blobs := rr_removed_blobs report + 1,
           rr_reclaimed_bytes := saturating_add (rr_reclaimed_bytes report) (of_nat (length bytes))\<rparr>) bs of
         (r, ms) \<Rightarrow> (r, remove (fst b) # ms)))"

definition garbage_collect_blobs :: "host \<Rightarrow> bool \<Rightarrow> WorldId \<Rightarrow> world_files \<Rightarrow> (RetentionError, RetentionReport) result plan" where
  "garbage_collect_blobs H gc_busy world =
    (if gc_busy then (\<lambda>_. reply (Inl (GarbageCollectionActive world)))
     else then_plan (list_snapshots H world) (\<lambda>snapshots fs.
       check (read_hash_pins (wf_replication_pins fs)) (\<lambda>replication.
       check (read_hash_pins (wf_legacy_pins fs)) (\<lambda>legacy.
       then_plan read_live_snapshot_publication_hashes (\<lambda>published fs.
       let live = referenced_blob_hashes snapshots \<union> replication \<union> legacy \<union> published in
       then_plan (\<lambda>fs. sweep remove_raw_blob live RetentionReport_default (wf_raw_blobs fs)) (\<lambda>report.
       then_plan (\<lambda>fs. sweep remove_zst_blob live report (wf_zst_blobs fs)) (\<lambda>report _. reply (Inr report))) fs) fs))))"

definition apply_retention :: "host \<Rightarrow> bool \<Rightarrow> WorldId \<Rightarrow> RetentionPolicy \<Rightarrow> world_files \<Rightarrow> (RetentionError, RetentionReport) result plan" where
  "apply_retention H gc_busy world policy =
    then_plan (prune_snapshots H world policy) (\<lambda>pruned.
    case pruned of
      Inl e \<Rightarrow> (\<lambda>_. reply (Inl e))
    | Inr report \<Rightarrow>
        then_plan (garbage_collect_blobs H gc_busy world) (\<lambda>collected.
        case collected of
          Inl e \<Rightarrow> (\<lambda>_. reply (Inl e))
        | Inr gc \<Rightarrow>
            then_plan (list_snapshots H world) (\<lambda>snapshots _.
            reply (Inr (report\<lparr>rr_removed_blobs := rr_removed_blobs gc, rr_reclaimed_bytes := rr_reclaimed_bytes gc,
              rr_retained_snapshots := map sm_snapshot_number snapshots\<rparr>)))))"

section \<open>Footprints\<close>

lemma write_pins_keeps [footprint]:
  "(\<And>fs v. f (fs\<lparr>wf_replication_pins := v\<rparr>) = f fs) \<Longrightarrow> plan_keeps f (write_pins token hs fs)"
  by (induction hs) (auto simp: plan_keeps_def reply_def refuse_def split: prod.splits)

lemma pin_replication_hashes_keeps [footprint]:
  "(\<And>fs v. f (fs\<lparr>wf_replication_pins := v\<rparr>) = f fs) \<Longrightarrow> plan_keeps f (pin_replication_hashes b t w hs fs)"
  unfolding pin_replication_hashes_def write_hash_pins_def by (auto intro!: footprint)

lemma remove_pin_paths_keeps [footprint]:
  "(\<And>fs v. f (fs\<lparr>wf_replication_pins := v\<rparr>) = f fs) \<Longrightarrow> plan_keeps f (remove_pin_paths t hs fs)"
  unfolding remove_pin_paths_def by (auto intro!: footprint simp: list_all_iff)

lemma begin_snapshot_publication_keeps [footprint]:
  "(\<And>fs v. f (fs\<lparr>wf_publications := v\<rparr>) = f fs) \<Longrightarrow> plan_keeps f (begin_snapshot_publication w is fs)"
  unfolding begin_snapshot_publication_def by (auto intro!: footprint split: option.splits)

lemma pin_hash_keeps [footprint]:
  "(\<And>fs v. f (fs\<lparr>wf_publications := v\<rparr>) = f fs) \<Longrightarrow> plan_keeps f (pin_hash l h fs)"
  unfolding pin_hash_def by (auto intro!: footprint split: option.splits)

lemma scan_publications_keeps [footprint]:
  "(\<And>fs v. f (fs\<lparr>wf_publications := v\<rparr>) = f fs) \<Longrightarrow> plan_keeps f (scan_publications ps)"
  by (induction ps) (auto simp: plan_keeps_def reply_def refuse_def check_def remove_publication_def split: prod.splits sum.splits)

lemma read_live_snapshot_publication_hashes_keeps [footprint]:
  "(\<And>fs v. f (fs\<lparr>wf_publications := v\<rparr>) = f fs) \<Longrightarrow> plan_keeps f (read_live_snapshot_publication_hashes fs)"
  unfolding read_live_snapshot_publication_hashes_def by (intro footprint)

lemma sweep_keeps [footprint]:
  "(\<And>h fs. h \<notin> live \<Longrightarrow> f (remove h fs) = f fs) \<Longrightarrow> plan_keeps f (sweep remove live report bs)"
proof (induction bs arbitrary: report)
  case (Cons b bs)
  have "plan_keeps f (case sweep remove live r bs of (x, ms) \<Rightarrow> (x, remove (fst b) # ms))" if "fst b \<notin> live" for r
    using Cons.IH [OF Cons.prems, of r] Cons.prems [OF that] by (auto simp: plan_keeps_def split: prod.splits)
  with Cons show ?case by (auto intro!: footprint)
qed (simp add: footprint)

lemma retention_check_keeps [footprint]:
  "(\<And>x. r = Ok x \<Longrightarrow> plan_keeps f (k x)) \<Longrightarrow> plan_keeps f (retention_check r k)"
  unfolding retention_check_def by (auto intro!: footprint split: sum.splits RetentionError.splits)

lemma prune_snapshots_keeps [footprint]:
  "(\<And>fs v. f (fs\<lparr>wf_intent := v\<rparr>) = f fs) \<Longrightarrow> (\<And>fs v. f (fs\<lparr>wf_head := v\<rparr>) = f fs) \<Longrightarrow>
    (\<And>fs v. f (fs\<lparr>wf_head_required := v\<rparr>) = f fs) \<Longrightarrow> (\<And>fs v. f (fs\<lparr>wf_snapshots := v\<rparr>) = f fs) \<Longrightarrow>
    plan_keeps f (prune_snapshots H w policy fs)"
  unfolding prune_snapshots_def by (auto intro!: footprint simp: list_all_iff remove_snapshot_def Let_def)

lemma garbage_collect_blobs_keeps [footprint]:
  "(\<And>fs v. f (fs\<lparr>wf_intent := v\<rparr>) = f fs) \<Longrightarrow> (\<And>fs v. f (fs\<lparr>wf_head := v\<rparr>) = f fs) \<Longrightarrow>
    (\<And>fs v. f (fs\<lparr>wf_head_required := v\<rparr>) = f fs) \<Longrightarrow> (\<And>fs v. f (fs\<lparr>wf_publications := v\<rparr>) = f fs) \<Longrightarrow>
    (\<And>fs v. f (fs\<lparr>wf_raw_blobs := v\<rparr>) = f fs) \<Longrightarrow> (\<And>fs v. f (fs\<lparr>wf_zst_blobs := v\<rparr>) = f fs) \<Longrightarrow>
    plan_keeps f (garbage_collect_blobs H b w fs)"
  unfolding garbage_collect_blobs_def Let_def
  by (auto intro!: footprint simp: remove_raw_blob_def remove_zst_blob_def)

lemma apply_retention_keeps [footprint]:
  "(\<And>fs v. f (fs\<lparr>wf_intent := v\<rparr>) = f fs) \<Longrightarrow> (\<And>fs v. f (fs\<lparr>wf_head := v\<rparr>) = f fs) \<Longrightarrow>
    (\<And>fs v. f (fs\<lparr>wf_head_required := v\<rparr>) = f fs) \<Longrightarrow> (\<And>fs v. f (fs\<lparr>wf_snapshots := v\<rparr>) = f fs) \<Longrightarrow>
    (\<And>fs v. f (fs\<lparr>wf_publications := v\<rparr>) = f fs) \<Longrightarrow>
    (\<And>fs v. f (fs\<lparr>wf_raw_blobs := v\<rparr>) = f fs) \<Longrightarrow> (\<And>fs v. f (fs\<lparr>wf_zst_blobs := v\<rparr>) = f fs) \<Longrightarrow>
    plan_keeps f (apply_retention H b w policy fs)"
  unfolding apply_retention_def by (auto intro!: footprint split: sum.splits)

section \<open>What garbage collection may not remove\<close>

definition manifest_root :: "world_files \<Rightarrow> Hash32 \<Rightarrow> bool" where
  "manifest_root fs h \<longleftrightarrow> (\<exists>n m e. slot_at (wf_snapshots fs) n = Content m \<and> e \<in> set (sm_entries m) \<and> bd_hash (se_blob e) = h)"

definition pinned_root :: "world_files \<Rightarrow> Hash32 \<Rightarrow> bool" where
  "pinned_root fs h \<longleftrightarrow> Content h \<in> set (bt_values (wf_replication_pins fs)) \<or> Content h \<in> set (bt_values (wf_legacy_pins fs))"

definition publication_root :: "world_files \<Rightarrow> Hash32 \<Rightarrow> bool" where
  "publication_root fs h \<longleftrightarrow> (\<exists>dir \<in> set (bt_values (wf_publications fs)).
    \<not> (pb_owner_file dir \<and> \<not> pb_owner_held dir) \<and> Content h \<in> set (bt_values (pb_pins dir)))"

definition gc_root :: "world_files \<Rightarrow> Hash32 \<Rightarrow> bool" where
  "gc_root fs h \<longleftrightarrow> manifest_root fs h \<or> pinned_root fs h \<or> publication_root fs h"

lemma slot_at_Content: "slot_at m k = Content v \<Longrightarrow> (k, Content v) \<in> set m"
  by (auto simp: slot_at_def bt_get_map_of dest: map_of_SomeD split: option.splits)

lemma read_pins_Ok: "read_pins ss = Ok hs \<Longrightarrow> hs = {h. Content h \<in> set ss}"
  by (induction ss arbitrary: hs) auto

lemma read_hash_pins_Ok: "read_hash_pins pins = Ok hs \<Longrightarrow> hs = {h. Content h \<in> set (bt_values pins)}"
  unfolding read_hash_pins_def by (rule read_pins_Ok)

lemma bt_values_Cons [simp]: "bt_values (q # ps) = snd q # bt_values ps"
  by (simp add: bt_values_def)

lemma scan_publications_Ok:
  "fst (scan_publications ps) = Ok live \<Longrightarrow> live = {h. \<exists>dir \<in> set (bt_values ps).
    \<not> (pb_owner_file dir \<and> \<not> pb_owner_held dir) \<and> Content h \<in> set (bt_values (pb_pins dir))}"
proof (induction ps arbitrary: live)
  case (Cons q ps)
  show ?case
  proof (cases "pb_owner_file (snd q) \<and> \<not> pb_owner_held (snd q)")
    case True
    with Cons show ?thesis by (auto simp: split_beta)
  next
    case False
    with Cons.prems obtain hs live' where "read_hash_pins (pb_pins (snd q)) = Ok hs"
      "fst (scan_publications ps) = Ok live'" "live = hs \<union> live'"
      by (auto simp: fst_check split_beta)
    with Cons.IH False show ?thesis by (auto dest!: read_hash_pins_Ok)
  qed
qed (simp add: reply_def bt_values_def)

lemma load_manifests_complete:
  "load_manifests w fs ns = Ok ms \<Longrightarrow> n \<in> set ns \<Longrightarrow> slot_at (wf_snapshots fs) n = Content m \<Longrightarrow> m \<in> set ms \<and> sm_snapshot_number m = n"
  by (induction ns arbitrary: ms) (auto simp: load_snapshot_file_unchecked_def split: if_splits)

lemma load_manifests_sound:
  "load_manifests w fs ns = Ok ms \<Longrightarrow> m \<in> set ms
    \<Longrightarrow> slot_at (wf_snapshots fs) (sm_snapshot_number m) = Content m"
  by (induction ns arbitrary: ms)
    (auto simp: load_snapshot_file_unchecked_def split: if_splits)

lemma raw_snapshot_manifests_complete:
  assumes "raw_snapshot_manifests w fs = Ok ms" "slot_at (wf_snapshots fs) n = Content m"
  shows "m \<in> set ms" "sm_snapshot_number m = n"
proof -
  have "n \<in> set (bt_keys (wf_snapshots fs))"
    using assms(2) slot_at_Content by (force simp: bt_keys_def)
  then show "m \<in> set ms" "sm_snapshot_number m = n"
    using assms load_manifests_complete by (auto simp: raw_snapshot_manifests_def)
qed

lemma raw_snapshot_manifests_sound:
  "raw_snapshot_manifests w fs = Ok ms \<Longrightarrow> m \<in> set ms \<Longrightarrow> slot_at (wf_snapshots fs) (sm_snapshot_number m) = Content m"
  by (auto simp: raw_snapshot_manifests_def dest: load_manifests_sound)

lemma load_manifests_files:
  "wf_snapshots fs' = wf_snapshots fs \<Longrightarrow> load_manifests w fs' ns = load_manifests w fs ns"
  by (induction ns) (simp_all add: load_snapshot_file_unchecked_def)

lemma raw_snapshot_manifests_files:
  "wf_snapshots fs' = wf_snapshots fs \<Longrightarrow> raw_snapshot_manifests w fs' = raw_snapshot_manifests w fs"
  unfolding raw_snapshot_manifests_def by (metis load_manifests_files)

lemma list_snapshots_Ok:
  assumes "fst (list_snapshots H w fs) = Ok ms"
  shows "raw_snapshot_manifests w fs = Ok ms"
proof -
  have keep: "raw_snapshot_manifests w (fs\<lparr>wf_intent := v\<rparr>) = raw_snapshot_manifests w fs"
    "raw_snapshot_manifests w (fs\<lparr>wf_head := v'\<rparr>) = raw_snapshot_manifests w fs"
    "raw_snapshot_manifests w (fs\<lparr>wf_head_required := b\<rparr>) = raw_snapshot_manifests w fs" for fs v v' b
    by (rule raw_snapshot_manifests_files, simp)+
  have "raw_snapshot_manifests w (after (validate_canonical_snapshot_namespace H w) fs)
      = raw_snapshot_manifests w fs"
    by (rule after_keeps) (intro footprint keep)
  with assms show ?thesis
    unfolding list_snapshots_def by (auto simp: fst_then fst_check plan_simps)
qed

lemma referenced_blob_hashes_root:
  assumes "raw_snapshot_manifests w fs = Ok ms"
  shows "referenced_blob_hashes ms = {h. manifest_root fs h}"
  using raw_snapshot_manifests_complete(1) [OF assms] raw_snapshot_manifests_sound [OF assms]
  unfolding referenced_blob_hashes_def manifest_root_def by fastforce

lemma blob_slot_files [simp]:
  "blob_slot (fs\<lparr>wf_intent := v1\<rparr>) h coding = blob_slot fs h coding"
  "blob_slot (fs\<lparr>wf_head := v2\<rparr>) h coding = blob_slot fs h coding"
  "blob_slot (fs\<lparr>wf_head_required := v3\<rparr>) h coding = blob_slot fs h coding"
  "blob_slot (fs\<lparr>wf_snapshots := v4\<rparr>) h coding = blob_slot fs h coding"
  "blob_slot (fs\<lparr>wf_publications := v5\<rparr>) h coding = blob_slot fs h coding"
  by (cases coding; simp)+

lemma blob_slot_remove:
  "h \<noteq> h' \<Longrightarrow> blob_slot (remove_raw_blob h' fs) h coding = blob_slot fs h coding"
  "h \<noteq> h' \<Longrightarrow> blob_slot (remove_zst_blob h' fs) h coding = blob_slot fs h coding"
  by (cases coding; simp add: remove_raw_blob_def remove_zst_blob_def slot_at_def)+

lemma gc_root_files:
  "gc_root (fs\<lparr>wf_intent := v1\<rparr>) h = gc_root fs h"
  "gc_root (fs\<lparr>wf_head := v2\<rparr>) h = gc_root fs h"
  "gc_root (fs\<lparr>wf_head_required := v3\<rparr>) h = gc_root fs h"
  by (simp_all add: gc_root_def manifest_root_def pinned_root_def publication_root_def)

lemma list_snapshots_roots:
  "gc_root (after (list_snapshots H w) fs) h = gc_root fs h"
  by (rule after_keeps [where f = "\<lambda>fs. gc_root fs h"]) (intro footprint gc_root_files)

text \<open>The live set the collector computes is exactly the set of roots of the files it found.\<close>

lemma gc_live_exact:
  assumes "raw_snapshot_manifests w fs = Ok ms" "read_hash_pins (wf_replication_pins fs) = Ok rep"
    "read_hash_pins (wf_legacy_pins fs) = Ok leg" "fst (read_live_snapshot_publication_hashes fs) = Ok pub"
  shows "referenced_blob_hashes ms \<union> rep \<union> leg \<union> pub = {h. gc_root fs h}"
  using referenced_blob_hashes_root [OF assms(1)] read_hash_pins_Ok [OF assms(2)] read_hash_pins_Ok [OF assms(3)]
    scan_publications_Ok [OF assms(4) [unfolded read_live_snapshot_publication_hashes_def]]
  by (auto simp: gc_root_def pinned_root_def publication_root_def)

lemma gc_keeps_roots:
  assumes root: "gc_root fs h"
  shows "plan_keeps (\<lambda>fs. blob_slot fs h coding) (garbage_collect_blobs H busy w fs)"
proof -
  let ?f1 = "after (list_snapshots H w) fs"
  have live: "h \<in> referenced_blob_hashes ms \<union> rep \<union> leg \<union> pub"
    if "fst (list_snapshots H w fs) = Ok ms" "read_hash_pins (wf_replication_pins ?f1) = Ok rep"
      "read_hash_pins (wf_legacy_pins ?f1) = Ok leg" "fst (read_live_snapshot_publication_hashes ?f1) = Ok pub" for ms rep leg pub
  proof -
    have "wf_snapshots ?f1 = wf_snapshots fs" by (rule after_keeps) (intro footprint; simp)
    then have "raw_snapshot_manifests w ?f1 = Ok ms"
      using list_snapshots_Ok [OF that(1)] by (metis raw_snapshot_manifests_files)
    from gc_live_exact [OF this that(2-4)] show ?thesis
      using root list_snapshots_roots [of H w fs h] by simp
  qed
  show ?thesis
    unfolding garbage_collect_blobs_def Let_def
    using live by (auto intro!: footprint blob_slot_remove simp: remove_publication_def)
qed

text \<open>A sweep that completes has removed every entry outside the live set and nothing else.\<close>

lemma sweep_raw_removes:
  "fst (sweep remove_raw_blob live report bs) = Ok report' \<Longrightarrow>
    wf_raw_blobs (apply_mutations (snd (sweep remove_raw_blob live report bs)) fs)
      = filter (\<lambda>b. fst b \<in> live \<or> fst b \<notin> fst ` set bs) (wf_raw_blobs fs)"
proof (induction bs arbitrary: report fs)
  case (Cons b bs)
  then show ?case
    by (cases "fst b \<in> live")
      (auto simp: fst_check snd_check split_beta remove_raw_blob_def bt_remove_def intro!: filter_cong split: sum.splits)
qed (simp add: plan_simps)

lemma sweep_zst_removes:
  "fst (sweep remove_zst_blob live report bs) = Ok report' \<Longrightarrow>
    wf_zst_blobs (apply_mutations (snd (sweep remove_zst_blob live report bs)) fs)
      = filter (\<lambda>b. fst b \<in> live \<or> fst b \<notin> fst ` set bs) (wf_zst_blobs fs)"
proof (induction bs arbitrary: report fs)
  case (Cons b bs)
  then show ?case
    by (cases "fst b \<in> live")
      (auto simp: fst_check snd_check split_beta remove_zst_blob_def bt_remove_def intro!: filter_cong split: sum.splits)
qed (simp add: plan_simps)

lemma sweep_raw_exact:
  assumes "fst (sweep remove_raw_blob live report (wf_raw_blobs fs)) = Ok report'"
  shows "wf_raw_blobs (after (\<lambda>fs. sweep remove_raw_blob live report (wf_raw_blobs fs)) fs)
    = filter (\<lambda>b. fst b \<in> live) (wf_raw_blobs fs)"
  unfolding after_def using sweep_raw_removes [OF assms] by (auto intro!: filter_cong)

lemma sweep_zst_exact:
  assumes "fst (sweep remove_zst_blob live report (wf_zst_blobs fs)) = Ok report'"
  shows "wf_zst_blobs (after (\<lambda>fs. sweep remove_zst_blob live report (wf_zst_blobs fs)) fs)
    = filter (\<lambda>b. fst b \<in> live) (wf_zst_blobs fs)"
  unfolding after_def using sweep_zst_removes [OF assms] by (auto intro!: filter_cong)

lemma gc_success:
  assumes "fst (garbage_collect_blobs H busy w fs) = Ok (Inr report)"
  shows "wf_raw_blobs (after (garbage_collect_blobs H busy w) fs) = filter (\<lambda>b. gc_root fs (fst b)) (wf_raw_blobs fs)"
    "wf_zst_blobs (after (garbage_collect_blobs H busy w) fs) = filter (\<lambda>b. gc_root fs (fst b)) (wf_zst_blobs fs)"
proof -
  let ?live = "{h. gc_root fs h}" and ?f1 = "after (list_snapshots H w) fs"
  let ?f2 = "after read_live_snapshot_publication_hashes ?f1"
  let ?raw = "\<lambda>fs. sweep remove_raw_blob ?live RetentionReport_default (wf_raw_blobs fs)"
  let ?zst = "\<lambda>r fs. sweep remove_zst_blob ?live r (wf_zst_blobs fs)"
  have not_busy: "\<not> busy" using assms by (auto simp: garbage_collect_blobs_def plan_simps)
  from assms not_busy obtain ms rep leg pub where ms: "fst (list_snapshots H w fs) = Ok ms"
    and rep: "read_hash_pins (wf_replication_pins ?f1) = Ok rep" and leg: "read_hash_pins (wf_legacy_pins ?f1) = Ok leg"
    and pub: "fst (read_live_snapshot_publication_hashes ?f1) = Ok pub"
    by (auto simp: garbage_collect_blobs_def fst_check fst_then)
  have keep1: "wf_snapshots ?f1 = wf_snapshots fs" "wf_raw_blobs ?f1 = wf_raw_blobs fs" "wf_zst_blobs ?f1 = wf_zst_blobs fs"
    by (rule after_keeps, intro footprint; simp)+
  have keep2: "wf_raw_blobs ?f2 = wf_raw_blobs fs" "wf_zst_blobs ?f2 = wf_zst_blobs fs"
    unfolding keep1 [symmetric] by (rule after_keeps, intro footprint; simp)+
  have "raw_snapshot_manifests w ?f1 = Ok ms"
    using list_snapshots_Ok [OF ms] keep1(1) by (metis raw_snapshot_manifests_files)
  note live = gc_live_exact [OF this rep leg pub, unfolded list_snapshots_roots]
  note run = not_busy ms rep leg pub live
  obtain r1 where r1: "fst (?raw ?f2) = Ok r1" and r2: "is_ok (fst (?zst r1 (after ?raw ?f2)))"
    using assms by (auto simp: garbage_collect_blobs_def run fst_check fst_then is_ok_iff Let_def)
  then obtain r2 where r2: "fst (?zst r1 (after ?raw ?f2)) = Ok r2" by (auto simp: is_ok_iff)
  have all: "after (garbage_collect_blobs H busy w) fs = after (?zst r1) (after ?raw ?f2)"
    by (simp add: garbage_collect_blobs_def after_if after_then after_check after_reply run r1 r2 Let_def)
  have raw: "wf_raw_blobs (after ?raw ?f2) = filter (\<lambda>b. gc_root fs (fst b)) (wf_raw_blobs fs)"
    using sweep_raw_exact [OF r1] by (simp add: keep2)
  have keep3: "wf_zst_blobs (after ?raw ?f2) = wf_zst_blobs fs"
    unfolding keep2(2) [symmetric] by (rule after_keeps, intro footprint) (simp add: remove_raw_blob_def)
  show "wf_raw_blobs (after (garbage_collect_blobs H busy w) fs) = filter (\<lambda>b. gc_root fs (fst b)) (wf_raw_blobs fs)"
    unfolding all raw [symmetric] by (rule after_keeps, intro footprint) (simp add: remove_zst_blob_def)
  show "wf_zst_blobs (after (garbage_collect_blobs H busy w) fs) = filter (\<lambda>b. gc_root fs (fst b)) (wf_zst_blobs fs)"
    unfolding all using sweep_zst_exact [OF r2] by (simp add: keep3)
qed

section \<open>What pruning may not remove\<close>

lemma required_hashes_files:
  "required_hashes H w (fs\<lparr>wf_intent := v1\<rparr>) = required_hashes H w fs"
  "required_hashes H w (fs\<lparr>wf_head := v2\<rparr>) = required_hashes H w fs"
  "required_hashes H w (fs\<lparr>wf_head_required := v3\<rparr>) = required_hashes H w fs"
  by (simp_all add: required_hashes_def load_transfer_record_def load_sleep_record_def load_recovery_promise_def
    load_recovery_certificate_def load_solo_branch_def list_solo_conflicts_def)

lemma retain_required_Ok:
  "retain_required by_hash base hs = Ok retained \<Longrightarrow>
    base \<subseteq> retained \<and> (\<forall>h\<in>set hs. \<exists>n. bt_get by_hash h = Some n \<and> n \<in> retained)"
  by (induction hs arbitrary: base) fastforce+

lemma index_by_hash_Ok:
  assumes "index_by_hash H by_hash ms = Ok by_hash'" "bt_get by_hash' h = Some n"
  shows "bt_get by_hash h = Some n \<or> (\<exists>m\<in>set ms. manifest_hash H m = Ok h \<and> sm_snapshot_number m = n)"
  using assms by (induction ms arbitrary: by_hash) (fastforce split: if_splits)+

lemma retention_roots_Ok:
  assumes "retention_roots H w ms policy fs = Ok retained"
  shows "rt_protected_snapshots policy \<union> {sm_snapshot_number (last ms)}
      \<union> sm_snapshot_number ` set (take (rt_keep_latest policy) (rev ms)) \<subseteq> retained"
    "required_hashes H w fs = Ok required \<Longrightarrow> h \<in> set required
      \<Longrightarrow> \<exists>m\<in>set ms. manifest_hash H m = Ok h \<and> sm_snapshot_number m \<in> retained"
  using assms
  by (auto simp: retention_roots_def Let_def split: if_splits dest!: retain_required_Ok)
    (force dest: index_by_hash_Ok)+

lemma prune_keeps_retained:
  assumes "\<And>ms retained. fst (list_snapshots H w fs) = Ok ms \<Longrightarrow> ms \<noteq> []
      \<Longrightarrow> retention_roots H w ms policy (after (list_snapshots H w) fs) = Ok retained \<Longrightarrow> n \<in> retained"
  shows "plan_keeps (\<lambda>fs. slot_at (wf_snapshots fs) n) (prune_snapshots H w policy fs)"
  unfolding prune_snapshots_def Let_def using assms
  by (auto intro!: footprint simp: list_all_iff remove_snapshot_def slot_at_def)

lemma slot_at_filter: "slot_at (filter (\<lambda>e. P (fst e)) m) k = (if P k then slot_at m k else Absent)"
proof -
  have "map_of (filter (\<lambda>e. P (fst e)) m) k = (if P k then map_of m k else None)"
    by (induction m) auto
  then show ?thesis by (simp add: slot_at_def bt_get_map_of)
qed

lemma remove_snapshots:
  "wf_snapshots (apply_mutations (map remove_snapshot ns) fs) = filter (\<lambda>e. fst e \<notin> set ns) (wf_snapshots fs)"
  by (induction ns arbitrary: fs) (auto simp: remove_snapshot_def bt_remove_def intro!: filter_cong)

lemma prune_shrinks:
  assumes "fs' \<in> leaves (prune_snapshots H w policy) fs" "slot_at (wf_snapshots fs') n = Content m"
  shows "slot_at (wf_snapshots fs) n = Content m"
proof -
  let ?f1 = "after (list_snapshots H w) fs"
  have same: "wf_snapshots g = wf_snapshots fs" if "g \<in> leaves (list_snapshots H w) fs" for g
    using that by (rule leaves_keeps [rotated]) (intro footprint; simp)
  have "slot_at (wf_snapshots ?f1) n = Content m" if "fs' = apply_mutations (take k (map remove_snapshot ns)) ?f1" for k ns
    using that assms(2) slot_at_filter [of "\<lambda>x. x \<notin> set (take k ns)" "wf_snapshots ?f1" n]
    by (auto simp: take_map remove_snapshots split: if_splits)
  note removal = this
  from assms(1) consider "fs' \<in> leaves (list_snapshots H w) fs"
    | ms where "fs' \<in> leaves (\<lambda>fs. if ms = [] then reply (Inr RetentionReport_default)
      else retention_check (retention_roots H w ms policy fs) (\<lambda>retained.
        let removed = filter (\<lambda>n. n \<notin> retained) (map sm_snapshot_number ms) in
        store (Inr \<lparr>rr_retained_snapshots = sorted_list_of_set retained, rr_removed_snapshots = sort removed,
          rr_removed_blobs = 0, rr_reclaimed_bytes = 0\<rparr>) (map remove_snapshot removed))) ?f1"
    unfolding prune_snapshots_def by (auto dest!: leaves_then)
  then show ?thesis
  proof cases
    case 1
    with assms(2) same show ?thesis by simp
  next
    case 2
    then have "fs' = ?f1 \<or> (\<exists>k ns. fs' = apply_mutations (take k (map remove_snapshot ns)) ?f1)"
      by (auto simp: leaves_def retention_check_def plan_simps Let_def split: sum.splits RetentionError.splits if_splits)
    with removal assms(2) same [OF after_leaves] show ?thesis by auto
  qed
qed

lemma verify_snapshot_cong:
  assumes "\<And>e. e \<in> set (sm_entries m) \<Longrightarrow>
    blob_slot fs' (bd_hash (se_blob e)) (bd_encoding (se_blob e)) = blob_slot fs (bd_hash (se_blob e)) (bd_encoding (se_blob e))"
  shows "verify_snapshot_streaming H Z pick fs' m = verify_snapshot_streaming H Z pick fs m"
proof -
  have "for_each (\<lambda>e. verify_blob_streaming H Z pick fs' (se_blob e)) es = for_each (\<lambda>e. verify_blob_streaming H Z pick fs (se_blob e)) es"
    if "set es \<subseteq> set (sm_entries m)" for es
    using that assms by (induction es) (simp_all add: verify_blob_streaming_def)
  then show ?thesis by (simp add: verify_snapshot_streaming_def)
qed

lemma retention_leaves:
  assumes "fs' \<in> leaves (apply_retention H busy w policy) fs" "slot_at (wf_snapshots fs') n = Content m"
  shows "slot_at (wf_snapshots fs) n = Content m"
    "e \<in> set (sm_entries m) \<Longrightarrow> blob_slot fs' (bd_hash (se_blob e)) coding = blob_slot fs (bd_hash (se_blob e)) coding"
proof -
  let ?prune = "prune_snapshots H w policy" and ?f1 = "after (prune_snapshots H w policy) fs"
  have blobs: "blob_slot g h coding = blob_slot fs h coding" if "g \<in> leaves ?prune fs" for g h
    using that by (rule leaves_keeps [rotated]) (intro footprint; simp)
  let ?rest = "\<lambda>pruned :: (RetentionError, RetentionReport) result. case pruned of Inl e \<Rightarrow> \<lambda>_. reply (Inl e) | Inr report \<Rightarrow>
        then_plan (garbage_collect_blobs H busy w) (\<lambda>collected. case collected of
          Inl e \<Rightarrow> (\<lambda>_. reply (Inl e))
        | Inr gc \<Rightarrow> then_plan (list_snapshots H w) (\<lambda>snapshots _.
            reply (Inr (report\<lparr>rr_removed_blobs := rr_removed_blobs gc, rr_reclaimed_bytes := rr_reclaimed_bytes gc,
              rr_retained_snapshots := map sm_snapshot_number snapshots\<rparr>))))"
  have rest: "wf_snapshots g = wf_snapshots ?f1" "gc_root ?f1 h \<Longrightarrow> blob_slot g h coding = blob_slot ?f1 h coding"
    if "g \<in> leaves (?rest pruned) ?f1" for g h and pruned :: "(RetentionError, RetentionReport) result"
    by (rule leaves_keeps [OF _ that]; cases pruned; auto intro!: footprint gc_keeps_roots split: sum.splits)+
  from assms(1) consider "fs' \<in> leaves ?prune fs" | pruned where "fs' \<in> leaves (?rest pruned) ?f1"
    using leaves_then [OF assms(1) [unfolded apply_retention_def]] by blast
  note cases = this
  show "slot_at (wf_snapshots fs) n = Content m"
    using cases prune_shrinks [OF _ assms(2)] prune_shrinks [OF after_leaves, of H w policy fs n m] rest(1) assms(2)
    by (metis (no_types, lifting))
  show "blob_slot fs' (bd_hash (se_blob e)) coding = blob_slot fs (bd_hash (se_blob e)) coding" if "e \<in> set (sm_entries m)"
    using cases
  proof cases
    case 1
    then show ?thesis by (rule blobs)
  next
    case 2
    have "gc_root ?f1 (bd_hash (se_blob e))"
      using that assms(2) rest(1) [OF 2] by (auto simp: gc_root_def manifest_root_def)
    with rest(2) [OF 2] blobs [OF after_leaves] show ?thesis by simp
  qed
qed

section \<open>Retention is safe\<close>

text \<open>
  C22. The blob collector removes exactly the garbage.  Whatever interrupts it, a blob named by a stored manifest,
  by a replication pin, by a legacy pin or by a publication whose owner is alive keeps its file; and when it
  reports success every other blob is gone.
\<close>

theorem collector_removes_exactly_garbage:
  assumes "perform (garbage_collect_blobs H busy w) fault fs = (r, fs')"
  shows "(gc_root fs h \<longrightarrow> blob_slot fs' h coding = blob_slot fs h coding)
    \<and> (\<forall>report. r = Ok (Inr report) \<longrightarrow> \<not> gc_root fs h \<longrightarrow> blob_slot fs' h coding = Absent)"
proof -
  have "fs' \<in> leaves (garbage_collect_blobs H busy w) fs"
    using perform_leaves [of "garbage_collect_blobs H busy w" fault fs] assms by simp
  then have "gc_root fs h \<Longrightarrow> blob_slot fs' h coding = blob_slot fs h coding"
    using leaves_keeps [where f = "\<lambda>fs. blob_slot fs h coding"] gc_keeps_roots by blast
  moreover have "blob_slot fs' h coding = Absent" if "r = Ok (Inr report)" "\<not> gc_root fs h" for report
    using gc_success [of H busy w fs report] perform_Ok [OF assms [unfolded that(1)]] that(2)
      slot_at_filter [of "gc_root fs" _ h] by (cases coding) (simp_all add: after_def)
  ultimately show ?thesis by blast
qed

text \<open>
  Pruning keeps every retention root.  Whatever interrupts it, the newest \<open>keep_latest\<close> snapshots, the last
  one, and the protected ones stay on disk, and for every snapshot hash that a transfer, sleep, recovery or solo
  record requires, a stored snapshot with this hash is still stored if there was one.
\<close>

theorem pruning_keeps_roots:
  assumes "raw_snapshot_manifests w fs = Ok ms" "m \<in> set ms"
    and "perform (prune_snapshots H w policy) fault fs = (r, fs')"
  shows "(sm_snapshot_number m \<in> rt_protected_snapshots policy \<or> m = last ms
        \<or> m \<in> set (take (rt_keep_latest policy) (rev ms))
      \<longrightarrow> slot_at (wf_snapshots fs') (sm_snapshot_number m) = Content m)
    \<and> (\<forall>required h. required_hashes H w fs = Ok required \<and> h \<in> set required \<and> manifest_hash H m = Ok h
      \<longrightarrow> (\<exists>m'\<in>set ms. manifest_hash H m' = Ok h \<and> slot_at (wf_snapshots fs') (sm_snapshot_number m') = Content m'))"
proof -
  let ?f1 = "after (list_snapshots H w) fs"
  have fs': "fs' \<in> leaves (prune_snapshots H w policy) fs"
    using perform_leaves [of "prune_snapshots H w policy" fault fs] assms(3) by simp
  have req: "required_hashes H w ?f1 = required_hashes H w fs"
    by (rule after_keeps) (intro footprint required_hashes_files)
  have stored: "slot_at (wf_snapshots fs) (sm_snapshot_number m) = Content m" if "m \<in> set ms" for m
    using that assms(1) by (rule raw_snapshot_manifests_sound [rotated])
  have kept: "slot_at (wf_snapshots fs') n = slot_at (wf_snapshots fs) n"
    if "\<And>retained. retention_roots H w ms policy ?f1 = Ok retained \<Longrightarrow> n \<in> retained" for n
  proof (rule leaves_keeps [where f = "\<lambda>fs. slot_at (wf_snapshots fs) n", OF prune_keeps_retained fs'])
    show "n \<in> retained" if "fst (list_snapshots H w fs) = Ok ms'" "ms' \<noteq> []"
        "retention_roots H w ms' policy ?f1 = Ok retained" for ms' retained
      using that list_snapshots_Ok [of H w fs ms'] assms(1) \<open>\<And>retained. _ \<Longrightarrow> n \<in> retained\<close> by simp
  qed
  have "slot_at (wf_snapshots fs') (sm_snapshot_number m) = Content m"
    if "sm_snapshot_number m \<in> rt_protected_snapshots policy \<or> m = last ms \<or> m \<in> set (take (rt_keep_latest policy) (rev ms))"
    using that stored [OF assms(2)] kept [of "sm_snapshot_number m"] retention_roots_Ok(1) by fastforce
  moreover have "\<exists>m'\<in>set ms. manifest_hash H m' = Ok h \<and> slot_at (wf_snapshots fs') (sm_snapshot_number m') = Content m'"
    if "required_hashes H w fs = Ok required" "h \<in> set required" "manifest_hash H m = Ok h" for required h
  proof (cases "retention_roots H w ms policy ?f1")
    case (Inl e)
    with kept [of "sm_snapshot_number m"] stored [OF assms(2)] assms(2) that(3) show ?thesis by auto
  next
    case (Inr retained)
    from retention_roots_Ok(2) [OF Inr, unfolded req, OF that(1,2)] obtain m'
      where "m' \<in> set ms" "manifest_hash H m' = Ok h" "sm_snapshot_number m' \<in> retained" by blast
    with kept [of "sm_snapshot_number m'"] stored [of m'] Inr show ?thesis by auto
  qed
  ultimately show ?thesis by blast
qed

text \<open>
  C9. Retention never damages a snapshot it leaves behind.  After any run of \<open>apply_retention\<close>, complete or
  interrupted at any point, every manifest still stored was stored before, and verifying the snapshot gives the
  same answer as before the run.
\<close>

theorem retention_keeps_snapshots_restorable:
  assumes "perform (apply_retention H busy w policy) fault fs = (r, fs')"
    and "slot_at (wf_snapshots fs') n = Content m"
  shows "slot_at (wf_snapshots fs) n = Content m
    \<and> verify_snapshot_streaming H Z pick fs' m = verify_snapshot_streaming H Z pick fs m"
proof -
  have "fs' \<in> leaves (apply_retention H busy w policy) fs"
    using perform_leaves [of "apply_retention H busy w policy" fault fs] assms(1) by simp
  from retention_leaves [OF this assms(2)] show ?thesis by (blast intro: verify_snapshot_cong)
qed

definition demo_manifest :: SnapshotManifestV1 where
  "demo_manifest = \<lparr>sm_protocol_version = 1, sm_world_id = WorldId 7, sm_snapshot_number = 5, sm_epoch = 0, sm_sequence = 5,
    sm_previous_snapshot_hash = None, sm_entries = [\<lparr>se_path = ''level.dat'',
      se_blob = \<lparr>bd_hash = Hash32 0, bd_uncompressed_size = 0, bd_encoded_size = 0, bd_encoding = Raw\<rparr>\<rparr>],
    sm_state_root = Hash32 0, sm_authority_peer_id = PeerId 0, sm_authority_public_key = 0, sm_signature = []\<rparr>"

definition demo_files :: world_files where
  "demo_files = empty_files\<lparr>wf_snapshots := [(5, Content demo_manifest)],
    wf_raw_blobs := [(Hash32 0, Content []), (Hash32 9, Content [3])]\<rparr>"

definition pinned_files :: world_files where
  "pinned_files = empty_files\<lparr>wf_head := Content \<lparr>hd_world_id = WorldId 7, hd_head = None\<rparr>,
    wf_replication_pins := [((1, Hash32 0), Content (Hash32 0))],
    wf_raw_blobs := [(Hash32 0, Content []), (Hash32 9, Content [3])]\<rparr>"

abbreviation demo_host :: host where "demo_host \<equiv> reference_host (\<lambda>_. 0)"

lemma demo_manifests: "wf_snapshots fs = [(5, Content demo_manifest)] \<Longrightarrow> raw_snapshot_manifests (WorldId 7) fs = Ok [demo_manifest]"
  by (simp add: raw_snapshot_manifests_def bt_keys_def load_snapshot_file_unchecked_def slot_at_def bt_get_def demo_manifest_def)

lemma pinned_files_collected:
  "fst (garbage_collect_blobs demo_host False (WorldId 7) pinned_files)
    = Ok (Inr (RetentionReport_default\<lparr>rr_removed_blobs := 1, rr_reclaimed_bytes := 1\<rparr>))"
proof -
  let ?head = "\<lparr>hd_world_id = WorldId 7, hd_head = None\<rparr> :: CanonicalSnapshotHeadV1"
  have "list_snapshots demo_host (WorldId 7) pinned_files = store [] [mark_required]"
    by (simp add: list_snapshots_def validate_canonical_snapshot_namespace_def load_or_initialize_canonical_head_locked_def
      read_head_file_def validate_head_target_locked_def validate_no_orphan_manifests_locked_def raw_snapshot_manifests_def
      then_plan_def pinned_files_def empty_files_def bt_keys_def store_def reply_def)
  then have "fst (list_snapshots demo_host (WorldId 7) pinned_files) = Ok []"
    "after (list_snapshots demo_host (WorldId 7)) pinned_files = mark_required pinned_files"
    by (simp_all add: plan_simps after_def)
  then show ?thesis
    by (simp add: garbage_collect_blobs_def fst_then fst_check plan_simps Let_def after_def snd_check
      read_live_snapshot_publication_hashes_def read_hash_pins_def pinned_files_def empty_files_def
      remove_raw_blob_def referenced_blob_hashes_def RetentionReport_default_def saturating_add_def bt_values_def reply_def split_beta)
qed

theorem collector_removes_exactly_garbage_witness:
  "blob_slot (snd (perform (garbage_collect_blobs demo_host False (WorldId 7)) None pinned_files)) (Hash32 0) Raw = Content []
    \<and> blob_slot (snd (perform (garbage_collect_blobs demo_host False (WorldId 7)) None pinned_files)) (Hash32 9) Raw = Absent"
proof -
  let ?p = "perform (garbage_collect_blobs demo_host False (WorldId 7)) None pinned_files"
  have roots: "gc_root pinned_files (Hash32 0)" "\<not> gc_root pinned_files (Hash32 9)"
    by (simp_all add: gc_root_def manifest_root_def pinned_root_def publication_root_def pinned_files_def empty_files_def
      slot_at_def bt_values_def)
  have "?p = (Ok (Inr (RetentionReport_default\<lparr>rr_removed_blobs := 1, rr_reclaimed_bytes := 1\<rparr>)), snd ?p)"
    using pinned_files_collected by (simp add: perform_def split_beta)
  from collector_removes_exactly_garbage [OF this, of "Hash32 0" Raw] collector_removes_exactly_garbage [OF this, of "Hash32 9" Raw] roots
  show ?thesis by (simp add: pinned_files_def slot_at_def bt_get_def)
qed

lemma demo_stored: "raw_snapshot_manifests (WorldId 7) demo_files = Ok [demo_manifest]"
  by (rule demo_manifests) (simp add: demo_files_def)

theorem pruning_keeps_roots_witness:
  "raw_snapshot_manifests (WorldId 7) demo_files = Ok [demo_manifest]
    \<and> slot_at (wf_snapshots (snd (perform (prune_snapshots demo_host (WorldId 7) RetentionPolicy_default) None demo_files))) 5
      = Content demo_manifest"
  using pruning_keeps_roots [OF demo_stored, of demo_manifest demo_host RetentionPolicy_default None
      "fst (perform (prune_snapshots demo_host (WorldId 7) RetentionPolicy_default) None demo_files)"
      "snd (perform (prune_snapshots demo_host (WorldId 7) RetentionPolicy_default) None demo_files)"] demo_stored
  by (simp add: demo_manifest_def)

lemma retention_keeps_last:
  assumes "raw_snapshot_manifests w fs = Ok ms" "ms \<noteq> []" "n = sm_snapshot_number (last ms)"
  shows "slot_at (wf_snapshots (after (apply_retention H busy w policy) fs)) n = slot_at (wf_snapshots fs) n"
proof (rule after_keeps [where f = "\<lambda>fs. slot_at (wf_snapshots fs) n"])
  have "n \<in> retained" if "fst (list_snapshots H w fs) = Ok ms'"
      "retention_roots H w ms' policy (after (list_snapshots H w) fs) = Ok retained" for ms' retained
    using retention_roots_Ok(1) [OF that(2)] list_snapshots_Ok [OF that(1)] assms by simp
  then show "plan_keeps (\<lambda>fs. slot_at (wf_snapshots fs) n) (apply_retention H busy w policy fs)"
    unfolding apply_retention_def
    by (auto intro!: plan_keeps_then prune_keeps_retained footprint split: sum.splits)
qed

theorem retention_keeps_snapshots_restorable_witness:
  "verify_snapshot_streaming demo_host plain_zstd (\<lambda>_. 1)
      (snd (perform (apply_retention demo_host False (WorldId 7) RetentionPolicy_default) None demo_files)) demo_manifest
    = verify_snapshot_streaming demo_host plain_zstd (\<lambda>_. 1) demo_files demo_manifest"
proof -
  let ?p = "perform (apply_retention demo_host False (WorldId 7) RetentionPolicy_default) None demo_files"
  have "slot_at (wf_snapshots (snd ?p)) 5 = Content demo_manifest"
    using retention_keeps_last [OF demo_stored, of 5 demo_host False RetentionPolicy_default]
    by (simp add: perform_def split_beta after_def [symmetric]) (simp add: demo_manifest_def demo_files_def slot_at_def bt_get_def)
  then show ?thesis
    using retention_keeps_snapshots_restorable [of demo_host False "WorldId 7" RetentionPolicy_default None demo_files
      "fst ?p" "snd ?p" 5 demo_manifest] by simp
qed

end
