(* ===== verification/Replica.thy ===== *)
theory Replica
  imports Retention
begin

text \<open>
  Replication of a snapshot from other replicas: \<open>swarm-storage/src/replica.rs\<close> (chunked, resumable blob
  transfer, history gate and finalisation) and \<open>scheduler.rs\<close> (source selection and reconstruction).

  As in \<open>Retention\<close>, an operation replies with a result of its own error type and the error of the plan around
  it is the \<open>ReplicationError::Storage\<close> case.  Appending to a partial file is one mutation per byte, so an
  interrupted write leaves any prefix.
\<close>

datatype ReplicationError =
    RpStorage StorageError
  | RpProtocol ProtocolError
  | OffsetMismatch u64 u64
  | SizeMismatch u64 u64
  | Incomplete u64
  | HistoryConflict u64

definition flatten :: "(StorageError, (ReplicationError, 'a) result) result \<Rightarrow> (ReplicationError, 'a) result" where
  "flatten r = and_then (map_err RpStorage r) (\<lambda>x. x)"

definition answer :: "(ReplicationError, 'a) result \<Rightarrow> (ReplicationError, 'a) result plan" where
  "answer r = (case r of Inl (RpStorage e) \<Rightarrow> refuse e | _ \<Rightarrow> reply r)"

section \<open>Blob files and partial files\<close>

definition part_slot :: "world_files \<Rightarrow> BlobDescriptor \<Rightarrow> bytes slot" where
  "part_slot fs d = (case bd_encoding d of Raw \<Rightarrow> slot_at (wf_raw_parts fs) (bd_hash d) | Zstd \<Rightarrow> slot_at (wf_zst_parts fs) (bd_hash d))"

abbreviation file_slot :: "world_files \<Rightarrow> BlobDescriptor \<Rightarrow> bytes slot" where
  "file_slot fs d \<equiv> blob_slot fs (bd_hash d) (bd_encoding d)"

definition put_part :: "BlobDescriptor \<Rightarrow> bytes \<Rightarrow> mutation" where
  "put_part d bytes fs = (case bd_encoding d of
     Raw \<Rightarrow> fs\<lparr>wf_raw_parts := bt_insert (bd_hash d) (Content bytes) (wf_raw_parts fs)\<rparr>
   | Zstd \<Rightarrow> fs\<lparr>wf_zst_parts := bt_insert (bd_hash d) (Content bytes) (wf_zst_parts fs)\<rparr>)"

definition drop_part :: "BlobDescriptor \<Rightarrow> mutation" where
  "drop_part d fs = (case bd_encoding d of
     Raw \<Rightarrow> fs\<lparr>wf_raw_parts := bt_remove (bd_hash d) (wf_raw_parts fs)\<rparr>
   | Zstd \<Rightarrow> fs\<lparr>wf_zst_parts := bt_remove (bd_hash d) (wf_zst_parts fs)\<rparr>)"

definition drop_file :: "BlobDescriptor \<Rightarrow> mutation" where
  "drop_file d fs = (case bd_encoding d of
     Raw \<Rightarrow> fs\<lparr>wf_raw_blobs := bt_remove (bd_hash d) (wf_raw_blobs fs)\<rparr>
   | Zstd \<Rightarrow> fs\<lparr>wf_zst_blobs := bt_remove (bd_hash d) (wf_zst_blobs fs)\<rparr>)"

text \<open>The rename of a complete partial file onto the blob's name.\<close>

definition install :: "BlobDescriptor \<Rightarrow> bytes \<Rightarrow> mutation" where
  "install d bytes fs = drop_part d (case bd_encoding d of
     Raw \<Rightarrow> fs\<lparr>wf_raw_blobs := bt_insert (bd_hash d) (Content bytes) (wf_raw_blobs fs)\<rparr>
   | Zstd \<Rightarrow> fs\<lparr>wf_zst_blobs := bt_insert (bd_hash d) (Content bytes) (wf_zst_blobs fs)\<rparr>)"

section \<open>Operations of a replica\<close>

definition verify_encoded_blob :: "host \<Rightarrow> zstd \<Rightarrow> (nat \<Rightarrow> nat) \<Rightarrow> bytes slot \<Rightarrow> BlobDescriptor \<Rightarrow> (StorageError, unit) result" where
  "verify_encoded_blob H Z pick s d = and_then (stream_blob H Z (StIo OtherIo) pick s d) (\<lambda>_. Ok ())"

definition has_complete_blob :: "host \<Rightarrow> zstd \<Rightarrow> (nat \<Rightarrow> nat) \<Rightarrow> world_files \<Rightarrow> BlobDescriptor \<Rightarrow> bool" where
  "has_complete_blob H Z pick fs d \<longleftrightarrow> slot_exists (file_slot fs d) \<and> is_ok (verify_encoded_blob H Z pick (file_slot fs d) d)"

primrec missing_from :: "(BlobDescriptor \<Rightarrow> bool) \<Rightarrow> Hash32 set \<Rightarrow> SnapshotEntry list \<Rightarrow> BlobDescriptor list" where
  "missing_from complete seen [] = []"
| "missing_from complete seen (e # es) =
    (let d = se_blob e; rest = missing_from complete (insert (bd_hash d) seen) es in
     if bd_hash d \<notin> seen \<and> \<not> complete d then d # rest else rest)"

definition missing_blobs :: "host \<Rightarrow> zstd \<Rightarrow> (nat \<Rightarrow> nat) \<Rightarrow> SnapshotManifestV1 \<Rightarrow> world_files \<Rightarrow> BlobDescriptor list" where
  "missing_blobs H Z pick manifest fs = missing_from (has_complete_blob H Z pick fs) {} (sm_entries manifest)"

definition partial_blob_offset :: "BlobDescriptor \<Rightarrow> world_files \<Rightarrow> (ReplicationError, u64) result" where
  "partial_blob_offset d fs =
    (if \<not> slot_exists (part_slot fs d) then Ok 0
     else map_err RpStorage (and_then (read_slot (part_slot fs d)) (\<lambda>part. Ok (of_nat (length part)))))"

definition read_encoded_blob_chunk :: "BlobDescriptor \<Rightarrow> u64 \<Rightarrow> nat \<Rightarrow> world_files \<Rightarrow> (ReplicationError, bytes \<times> bool) result" where
  "read_encoded_blob_chunk d offset max_bytes fs =
    (if bd_encoded_size d < offset then Err (OffsetMismatch (bd_encoded_size d) offset)
     else map_err RpStorage (and_then (read_slot (file_slot fs d)) (\<lambda>encoded.
       if length encoded \<noteq> unat (bd_encoded_size d) then Err (BlobCorrupt (bd_hash d))
       else let requested = min (unat (bd_encoded_size d - offset)) max_bytes in
         Ok (take requested (drop (unat offset) encoded), unat offset + requested = unat (bd_encoded_size d)))))"

text \<open>\<open>checked_add\<close> of the length of a buffer.\<close>

definition add_len :: "u64 \<Rightarrow> bytes \<Rightarrow> u64 option" where
  "add_len offset data = (if unat offset + length data < 2 ^ 64 then Some (of_nat (unat offset + length data)) else None)"

definition receive_blob_chunk ::
    "host \<Rightarrow> zstd \<Rightarrow> (nat \<Rightarrow> nat) \<Rightarrow> BlobDescriptor \<Rightarrow> u64 \<Rightarrow> bytes \<Rightarrow> bool \<Rightarrow> world_files \<Rightarrow> (ReplicationError, u64) result plan" where
  "receive_blob_chunk H Z pick d offset data finished fs =
    (let found = part_slot fs d;
         opened = (if slot_exists found then [] else [put_part d []]) in
     case read_slot (if slot_exists found then found else Content []) of
       Inl e \<Rightarrow> refuse e
     | Inr part \<Rightarrow>
         if of_nat (length part) \<noteq> offset then (Ok (Inl (OffsetMismatch (of_nat (length part)) offset)), opened)
         else case add_len offset data of
             None \<Rightarrow> (Ok (Inl (SizeMismatch (bd_encoded_size d) (- 1))), opened)
           | Some nxt \<Rightarrow>
               if bd_encoded_size d < nxt then (Ok (Inl (SizeMismatch (bd_encoded_size d) nxt)), opened)
               else let whole = part @ data;
                        written = opened @ map (\<lambda>k. put_part d (part @ take k data)) [1 ..< Suc (length data)] in
                 if \<not> finished then (Ok (Inr nxt), written)
                 else if nxt \<noteq> bd_encoded_size d then (Ok (Inl (SizeMismatch (bd_encoded_size d) nxt)), written)
                 else case verify_encoded_blob H Z pick (Content whole) d of
                     Inl e \<Rightarrow> (Err e, written @ [drop_part d])
                   | Inr _ \<Rightarrow> (Ok (Inr nxt), written
                       @ (if slot_exists (file_slot fs d) then [drop_file d] else []) @ [install d whole]))"

definition validate_replica_direct_extension ::
    "host \<Rightarrow> SnapshotManifestV1 option \<Rightarrow> SnapshotManifestV1 \<Rightarrow> (ReplicationError, unit) result" where
  "validate_replica_direct_extension H previous manifest =
    (case previous of
       None \<Rightarrow>
         if sm_snapshot_number manifest \<noteq> 1 \<or> sm_previous_snapshot_hash manifest \<noteq> None
         then Err (HistoryConflict (sm_snapshot_number manifest)) else Ok ()
     | Some previous \<Rightarrow>
         if manifest = previous then Ok ()
         else and_then (ok_or (checked_add (sm_snapshot_number previous) 1) (RpStorage (CounterExhausted ''snapshot number''))) (\<lambda>expected_number.
           and_then (ok_or (checked_add (sm_sequence previous) 1) (RpStorage (CounterExhausted ''snapshot sequence''))) (\<lambda>expected_sequence.
           and_then (map_err RpProtocol (manifest_hash H previous)) (\<lambda>expected_parent.
           if sm_snapshot_number manifest \<noteq> expected_number \<or> sm_sequence manifest \<noteq> expected_sequence
             \<or> sm_previous_snapshot_hash manifest \<noteq> Some expected_parent
           then Err (HistoryConflict (sm_snapshot_number manifest)) else Ok ()))))"

definition validate_replica_history :: "host \<Rightarrow> SnapshotManifestV1 \<Rightarrow> world_files \<Rightarrow> (ReplicationError, unit) result plan" where
  "validate_replica_history H manifest =
    (case SnapshotManifestV1_validate_semantics H manifest of
       Inl e \<Rightarrow> (\<lambda>_. reply (Inl (RpProtocol e)))
     | Inr _ \<Rightarrow> then_plan (latest_snapshot H (sm_world_id manifest)) (\<lambda>current _.
         answer (validate_replica_direct_extension H current manifest)))"

definition finalize_replica ::
    "host \<Rightarrow> zstd \<Rightarrow> (nat \<Rightarrow> nat) \<Rightarrow> SnapshotManifestV1 \<Rightarrow> world_files \<Rightarrow> (ReplicationError, unit) result plan" where
  "finalize_replica H Z pick manifest =
    then_plan (validate_replica_history H manifest) (\<lambda>history.
    case history of
      Inl e \<Rightarrow> (\<lambda>_. reply (Inl e))
    | Inr _ \<Rightarrow> (\<lambda>fs.
        if missing_blobs H Z pick manifest fs \<noteq> [] then reply (Inl (Incomplete (sm_snapshot_number manifest)))
        else then_plan (latest_snapshot H (sm_world_id manifest)) (\<lambda>latest.
          if latest = Some manifest then (\<lambda>_. reply (Inr ()))
          else then_plan (commit_snapshot_streaming_inner H Z pick None manifest None) (\<lambda>_ _. reply (Inr ()))) fs))"

section \<open>Footprints\<close>

lemma part_mutations_keep:
  assumes "\<And>fs v. f (fs\<lparr>wf_raw_parts := v\<rparr>) = f fs" "\<And>fs v. f (fs\<lparr>wf_zst_parts := v\<rparr>) = f fs"
  shows "f (put_part d part fs) = f fs" "f (drop_part d fs) = f fs"
  by (cases "bd_encoding d"; simp add: put_part_def drop_part_def assms)+

lemma file_mutations_keep:
  assumes "\<And>fs v. f (fs\<lparr>wf_raw_parts := v\<rparr>) = f fs" "\<And>fs v. f (fs\<lparr>wf_zst_parts := v\<rparr>) = f fs"
    "\<And>fs v. f (fs\<lparr>wf_raw_blobs := v\<rparr>) = f fs" "\<And>fs v. f (fs\<lparr>wf_zst_blobs := v\<rparr>) = f fs"
  shows "f (drop_file d fs) = f fs" "f (install d part fs) = f fs"
  by (cases "bd_encoding d"; simp add: drop_file_def install_def part_mutations_keep(2) [of f, OF assms(1,2)] assms)+

lemma receive_blob_chunk_keeps [footprint]:
  assumes "\<And>fs v. f (fs\<lparr>wf_raw_parts := v\<rparr>) = f fs" "\<And>fs v. f (fs\<lparr>wf_zst_parts := v\<rparr>) = f fs"
    "\<And>fs v. f (fs\<lparr>wf_raw_blobs := v\<rparr>) = f fs" "\<And>fs v. f (fs\<lparr>wf_zst_blobs := v\<rparr>) = f fs"
  shows "plan_keeps f (receive_blob_chunk H Z pick d offset data finished fs)"
  unfolding receive_blob_chunk_def Let_def
  by (auto simp: plan_keeps_def plan_simps list_all_iff part_mutations_keep [OF assms(1,2)] file_mutations_keep [OF assms]
    simp del: upt_Suc split: sum.splits option.splits)

lemma validate_replica_history_keeps [footprint]:
  "(\<And>fs v. f (fs\<lparr>wf_intent := v\<rparr>) = f fs) \<Longrightarrow> (\<And>fs v. f (fs\<lparr>wf_head := v\<rparr>) = f fs) \<Longrightarrow>
    (\<And>fs v. f (fs\<lparr>wf_head_required := v\<rparr>) = f fs) \<Longrightarrow> plan_keeps f (validate_replica_history H m fs)"
  unfolding validate_replica_history_def
  by (auto intro!: footprint simp: answer_def split: sum.splits ReplicationError.splits)

lemma finalize_replica_keeps [footprint]:
  "(\<And>fs v. f (fs\<lparr>wf_intent := v\<rparr>) = f fs) \<Longrightarrow> (\<And>fs v. f (fs\<lparr>wf_head := v\<rparr>) = f fs) \<Longrightarrow>
    (\<And>fs v. f (fs\<lparr>wf_head_required := v\<rparr>) = f fs) \<Longrightarrow> (\<And>fs v. f (fs\<lparr>wf_snapshots := v\<rparr>) = f fs) \<Longrightarrow>
    (\<And>fs v. f (fs\<lparr>wf_publications := v\<rparr>) = f fs) \<Longrightarrow> plan_keeps f (finalize_replica H Z pick m fs)"
  unfolding finalize_replica_def by (auto intro!: footprint split: sum.splits)

end
