(* ===== verification/CommitSafety.thy ===== *)
theory CommitSafety
  imports Retention
begin

text \<open>
  What a snapshot commit guarantees: the effect of a commit that reports success, and the state an interrupted
  one can leave.  The operations are those of \<open>SnapshotHead\<close>.
\<close>

section \<open>The effect of a successful commit\<close>

lemma load_manifests_Ok:
  "(\<exists>ms. load_manifests w fs ns = Ok ms) \<longleftrightarrow> (\<forall>n\<in>set ns. \<exists>m. load_snapshot_file_unchecked w n fs = Ok m)"
  by (induction ns) auto

lemma load_manifests_numbers:
  "load_manifests w fs ns = Ok ms \<Longrightarrow> sm_snapshot_number ` set ms = set ns"
proof (induction ns arbitrary: ms)
  case (Cons n ns)
  then obtain m ms' where "load_snapshot_file_unchecked w n fs = Ok m" "load_manifests w fs ns = Ok ms'" "ms = m # ms'" by auto
  moreover from this(1) have "sm_snapshot_number m = n" by (auto simp: load_snapshot_file_unchecked_def split: if_splits)
  ultimately show ?case using Cons.IH by simp
qed simp

abbreviation highest_allowed :: "CanonicalSnapshotRefV1 option \<Rightarrow> u64" where
  "highest_allowed head \<equiv> (case head of None \<Rightarrow> 0 | Some value \<Rightarrow> cr_snapshot_number value)"

lemma no_orphans_iff:
  "validate_no_orphan_manifests_locked w head fs = Ok () \<longleftrightarrow>
    (\<forall>n\<in>set (bt_keys (wf_snapshots fs)). (\<exists>m. load_snapshot_file_unchecked w n fs = Ok m) \<and> n \<le> highest_allowed head)"
  (is "?l \<longleftrightarrow> ?r")
proof -
  let ?ns = "bt_keys (wf_snapshots fs)"
  have "?l \<longleftrightarrow> (\<exists>ms. load_manifests w fs ?ns = Ok ms \<and> (\<forall>m\<in>set ms. sm_snapshot_number m \<le> highest_allowed head))"
    by (auto simp: validate_no_orphan_manifests_locked_def raw_snapshot_manifests_def Let_def find_None_iff not_less
      split: option.splits)
  also have "\<dots> \<longleftrightarrow> ?r"
  proof
    assume "\<exists>ms. load_manifests w fs ?ns = Ok ms \<and> (\<forall>m\<in>set ms. sm_snapshot_number m \<le> highest_allowed head)"
    then obtain ms where ms: "load_manifests w fs ?ns = Ok ms" "\<forall>m\<in>set ms. sm_snapshot_number m \<le> highest_allowed head" by blast
    have "\<forall>n\<in>set ?ns. n \<le> highest_allowed head"
      using ms(2) unfolding load_manifests_numbers [OF ms(1), symmetric] by simp
    with ms(1) load_manifests_Ok [of w fs ?ns] show ?r by blast
  next
    assume r: ?r
    then obtain ms where ms: "load_manifests w fs ?ns = Ok ms" using load_manifests_Ok [of w fs ?ns] by blast
    have "\<forall>m\<in>set ms. sm_snapshot_number m \<le> highest_allowed head"
      using r unfolding load_manifests_numbers [OF ms, symmetric] by simp
    with ms show "\<exists>ms. load_manifests w fs ?ns = Ok ms \<and> (\<forall>m\<in>set ms. sm_snapshot_number m \<le> highest_allowed head)" by blast
  qed
  finally show ?thesis .
qed

lemma head_loaded:
  assumes "wf_intent fs = Absent" "wf_head fs = Content head" "hd_world_id head = w"
    "validate_head_target_locked H w (hd_head head) fs = Ok ()"
  shows "load_or_initialize_canonical_head_locked H w fs = store head [mark_required]"
  using assms by (simp add: load_or_initialize_canonical_head_locked_def read_head_file_def)

text \<open>These checks read the snapshot directory only.\<close>

lemma snapshot_files:
  assumes "wf_snapshots fs' = wf_snapshots fs"
  shows "load_snapshot_file_unchecked w n fs' = load_snapshot_file_unchecked w n fs"
    "validate_head_target_locked H w head fs' = validate_head_target_locked H w head fs"
    "validate_no_orphan_manifests_locked w head fs' = validate_no_orphan_manifests_locked w head fs"
proof -
  show *: "load_snapshot_file_unchecked w n fs' = load_snapshot_file_unchecked w n fs" for w n
    using assms by (simp add: load_snapshot_file_unchecked_def)
  show "validate_head_target_locked H w head fs' = validate_head_target_locked H w head fs"
    unfolding validate_head_target_locked_def * ..
  show "validate_no_orphan_manifests_locked w head fs' = validate_no_orphan_manifests_locked w head fs"
    unfolding validate_no_orphan_manifests_locked_def raw_snapshot_manifests_files [OF assms] ..
qed

lemma files_mark_required:
  "load_snapshot_file_unchecked w n (mark_required fs) = load_snapshot_file_unchecked w n fs"
  "validate_head_target_locked H w head (mark_required fs) = validate_head_target_locked H w head fs"
  "validate_no_orphan_manifests_locked w head (mark_required fs) = validate_no_orphan_manifests_locked w head fs"
  by (rule snapshot_files, simp)+

lemma latest_of_head:
  assumes "wf_intent fs = Absent" "wf_head fs = Content \<lparr>hd_world_id = w, hd_head = Some r\<rparr>"
    and "validate_head_target_locked H w (Some r) fs = Ok ()"
    and "validate_no_orphan_manifests_locked w (Some r) fs = Ok ()"
    and "load_snapshot_file_unchecked w (cr_snapshot_number r) fs = Ok m"
  shows "fst (latest_snapshot H w fs) = Ok (Some m)"
proof -
  let ?h = "\<lparr>hd_world_id = w, hd_head = Some r\<rparr> :: CanonicalSnapshotHeadV1"
  have l: "load_or_initialize_canonical_head_locked H w fs = store ?h [mark_required]"
    "load_or_initialize_canonical_head_locked H w (mark_required fs) = store ?h [mark_required]"
    using assms by (auto intro!: head_loaded simp: files_mark_required)
  have ns: "fst (validate_canonical_snapshot_namespace H w fs) = Ok ()"
    "after (validate_canonical_snapshot_namespace H w) fs = mark_required fs"
    using assms(4) by (simp_all add: validate_canonical_snapshot_namespace_def fst_then after_then l fst_check plan_simps
        after_def [of "load_or_initialize_canonical_head_locked H w"] after_check after_reply files_mark_required)
  show ?thesis
    using assms(5)
    by (simp add: latest_snapshot_def fst_then ns canonical_snapshot_head_def l fst_check plan_simps
        after_def [of "canonical_snapshot_head H w"] files_mark_required)
qed

definition commit_tail ::
    "host \<Rightarrow> SnapshotPublicationLease option \<Rightarrow> SnapshotManifestV1 \<Rightarrow> SnapshotCommitFence option \<Rightarrow> world_files \<Rightarrow> unit plan" where
  "commit_tail H publication manifest fence =
    then_plan (begin_snapshot_commit_transaction H manifest fence) (\<lambda>next_head.
    then_plan (publish_immutable_manifest manifest) (\<lambda>_.
    then_plan (\<lambda>_. finish_snapshot_commit_transaction H (sm_world_id manifest) next_head) (\<lambda>_.
    release_publication publication)))"

lemma commit_is_tail:
  assumes "fst (commit_snapshot_streaming_inner H Z pick publication m fence fs) = Ok ()"
    and "\<not> slot_exists (slot_at (wf_snapshots fs) (sm_snapshot_number m))"
  shows "commit_snapshot_streaming_inner H Z pick publication m fence fs = commit_tail H publication m fence fs"
  using assms unfolding commit_snapshot_streaming_inner_def commit_tail_def by (auto simp: fst_check protocol_def)

lemma begin_effect:
  assumes "fst (begin_snapshot_commit_transaction H m fence fs) = Ok r"
  shows "canonical_ref H m = Ok r"
    "wf_snapshots (after (begin_snapshot_commit_transaction H m fence) fs) = wf_snapshots fs"
    "\<exists>head. fst (load_or_initialize_canonical_head_locked H (sm_world_id m) fs) = Ok head \<and> validate_direct_extension (hd_head head) m = Ok ()"
proof -
  show "canonical_ref H m = Ok r" 
    "\<exists>head. fst (load_or_initialize_canonical_head_locked H (sm_world_id m) fs) = Ok head \<and> validate_direct_extension (hd_head head) m = Ok ()"
    using assms by (auto simp: begin_snapshot_commit_transaction_def fst_then fst_check plan_simps Let_def)
  show "wf_snapshots (after (begin_snapshot_commit_transaction H m fence) fs) = wf_snapshots fs"
    by (rule after_keeps) (intro footprint; simp)
qed

lemma after_store: "after (\<lambda>_. store x ms) fs = apply_mutations ms fs"
  by (simp add: after_def store_def)

lemma commit_effect:
  assumes ok: "fst (commit_snapshot_streaming_inner H Z pick publication m fence fs) = Ok ()"
    and fresh: "\<not> slot_exists (slot_at (wf_snapshots fs) (sm_snapshot_number m))"
  obtains r head fs' where "after (commit_snapshot_streaming_inner H Z pick publication m fence) fs = fs'"
    "canonical_ref H m = Ok r" "wf_snapshots fs' = bt_insert (sm_snapshot_number m) (Content m) (wf_snapshots fs)"
    "wf_head fs' = Content \<lparr>hd_world_id = sm_world_id m, hd_head = Some r\<rparr>" "wf_intent fs' = Absent"
    "fst (load_or_initialize_canonical_head_locked H (sm_world_id m) fs) = Ok head" "validate_direct_extension (hd_head head) m = Ok ()"
proof -
  let ?open = "begin_snapshot_commit_transaction H m fence" and ?n = "sm_snapshot_number m"
  let ?f1 = "after ?open fs"
  note tail = commit_is_tail [OF ok fresh]
  have all: "after (commit_snapshot_streaming_inner H Z pick publication m fence) fs = after (commit_tail H publication m fence) fs"
    by (simp add: after_def tail)
  from ok [unfolded tail] obtain r where r: "fst (?open fs) = Ok r"
    by (auto simp: commit_tail_def fst_then)
  note b = begin_effect [OF r]
  have publish: "publish_immutable_manifest m ?f1 = store () [\<lambda>fs. fs\<lparr>wf_snapshots := bt_insert ?n (Content m) (wf_snapshots fs)\<rparr>]"
    using fresh b(2) by (simp add: publish_immutable_manifest_def)
  let ?f2 = "?f1\<lparr>wf_snapshots := bt_insert ?n (Content m) (wf_snapshots fs)\<rparr>"
  have f2: "after (publish_immutable_manifest m) ?f1 = ?f2" by (simp add: after_def [of "publish_immutable_manifest m"] publish plan_simps b(2))
  let ?head = "\<lparr>hd_world_id = sm_world_id m, hd_head = Some r\<rparr> :: CanonicalSnapshotHeadV1"
  let ?f3 = "?f2\<lparr>wf_head := Content ?head, wf_head_required := True, wf_intent := Absent\<rparr>"
  have "fst (finish_snapshot_commit_transaction H (sm_world_id m) r) = Ok ()"
    using ok [unfolded tail] by (simp add: commit_tail_def fst_then r publish plan_simps f2)
  then have fin: "finish_snapshot_commit_transaction H (sm_world_id m) r
      = store () [\<lambda>fs. fs\<lparr>wf_head := Content ?head\<rparr>, mark_required, drop_intent]"
    unfolding finish_snapshot_commit_transaction_def by (auto simp: fst_check Let_def)
  let ?fs' = "after (release_publication publication) ?f3"
  have "after (commit_tail H publication m fence) fs = ?fs'"
    by (simp add: commit_tail_def after_then r publish plan_simps f2 fin after_store)
  moreover have "wf_snapshots ?fs' = wf_snapshots ?f3" "wf_head ?fs' = wf_head ?f3" "wf_intent ?fs' = wf_intent ?f3"
    by (rule after_keeps, intro footprint; simp)+
  ultimately show thesis using that [OF all _ _ _ _ ] b by auto
qed

lemma extension_above: "validate_direct_extension previous m = Ok () \<Longrightarrow> highest_allowed previous < sm_snapshot_number m"
  by (cases previous) (auto simp: validate_direct_extension_def dest: checked_succ_less split: if_splits)

lemma namespace_Ok:
  assumes "fst (validate_canonical_snapshot_namespace H w fs) = Ok ()"
    and "fst (load_or_initialize_canonical_head_locked H w fs) = Ok head"
  shows "validate_no_orphan_manifests_locked w (hd_head head) fs = Ok ()"
proof -
  have "wf_snapshots (after (load_or_initialize_canonical_head_locked H w) fs) = wf_snapshots fs"
    by (rule after_keeps) (intro footprint; simp)
  from assms snapshot_files(3) [OF this] show ?thesis
    by (simp add: validate_canonical_snapshot_namespace_def fst_then fst_check plan_simps)
qed

lemma commit_latest:
  assumes namespace: "fst (validate_canonical_snapshot_namespace H (sm_world_id m) fs) = Ok ()"
    and fresh: "slot_at (wf_snapshots fs) (sm_snapshot_number m) = Absent"
    and commit: "perform (commit_snapshot_streaming_inner H Z pick publication m fence) fault fs = (Ok (), fs')"
  shows "fst (latest_snapshot H (sm_world_id m) fs') = Ok (Some m)
    \<and> (\<forall>n. slot_exists (slot_at (wf_snapshots fs) n) \<longrightarrow> slot_at (wf_snapshots fs') n = slot_at (wf_snapshots fs) n)"
proof -
  let ?w = "sm_world_id m" and ?n = "sm_snapshot_number m"
  have fs': "fs' = after (commit_snapshot_streaming_inner H Z pick publication m fence) fs"
    using perform_Ok(2) [OF commit] by (simp add: after_def)
  have new: "\<not> slot_exists (slot_at (wf_snapshots fs) ?n)" using fresh by simp
  obtain r head where r: "canonical_ref H m = Ok r" and snaps: "wf_snapshots fs' = bt_insert ?n (Content m) (wf_snapshots fs)"
    and head: "wf_head fs' = Content \<lparr>hd_world_id = ?w, hd_head = Some r\<rparr>" "wf_intent fs' = Absent"
    and old: "fst (load_or_initialize_canonical_head_locked H ?w fs) = Ok head" "validate_direct_extension (hd_head head) m = Ok ()"
    using commit_effect [OF perform_Ok(1) [OF commit] new] unfolding fs' by metis
  have ref: "cr_snapshot_number r = ?n" using r by (auto simp: canonical_ref_def)
  have mine: "load_snapshot_file_unchecked ?w ?n fs' = Ok m"
    by (simp add: load_snapshot_file_unchecked_def snaps)
  have other: "load_snapshot_file_unchecked ?w k fs' = load_snapshot_file_unchecked ?w k fs" if "k \<noteq> ?n" for k
    using that by (simp add: load_snapshot_file_unchecked_def snaps)
  have target: "validate_head_target_locked H ?w (Some r) fs' = Ok ()"
    by (simp add: validate_head_target_locked_def ref mine r)
  have below: "(\<exists>m'. load_snapshot_file_unchecked ?w k fs = Ok m') \<and> k < ?n" if "k \<in> set (bt_keys (wf_snapshots fs))" for k
    using namespace_Ok [OF namespace old(1)] extension_above [OF old(2)] that unfolding no_orphans_iff by fastforce
  have "validate_no_orphan_manifests_locked ?w (Some r) fs' = Ok ()"
    unfolding no_orphans_iff snaps bt_insert_keys
  proof (intro ballI)
    fix k
    assume "k \<in> insert ?n (set (bt_keys (wf_snapshots fs)))"
    then show "(\<exists>m. load_snapshot_file_unchecked ?w k fs' = Ok m) \<and> k \<le> highest_allowed (Some r)"
      using mine other [of k] below [of k] by (cases "k = ?n") (auto simp: ref)
  qed
  with latest_of_head [OF head(2,1) target _ ] mine ref have "fst (latest_snapshot H ?w fs') = Ok (Some m)" by simp
  moreover have "slot_at (wf_snapshots fs') n = slot_at (wf_snapshots fs) n" if "slot_exists (slot_at (wf_snapshots fs) n)" for n
    using that fresh by (auto simp: snaps)
  ultimately show ?thesis by blast
qed

text \<open>
  A committed snapshot is the latest one.  When the snapshot directory is in order and a commit of a new
  snapshot reports success, \<open>latest_snapshot\<close> then returns this snapshot, and every snapshot stored before
  is still stored unchanged.
\<close>

theorem commit_then_latest:
  assumes namespace: "fst (validate_canonical_snapshot_namespace H (sm_world_id m) fs) = Ok ()"
    and fresh: "slot_at (wf_snapshots fs) (sm_snapshot_number m) = Absent"
    and commit: "perform (commit_snapshot_streaming_inner H Z pick publication m fence) fault fs = (Ok (), fs')"
  shows "fst (latest_snapshot H (sm_world_id m) fs') = Ok (Some m)
    \<and> (\<forall>n. slot_exists (slot_at (wf_snapshots fs) n) \<longrightarrow> slot_at (wf_snapshots fs') n = slot_at (wf_snapshots fs) n)"
  using namespace fresh commit by (rule commit_latest)

definition first_manifest :: SnapshotManifestV1 where
  "first_manifest = \<lparr>sm_protocol_version = PROTOCOL_VERSION, sm_world_id = WorldId 7, sm_snapshot_number = 1, sm_epoch = 5,
    sm_sequence = 5, sm_previous_snapshot_hash = None, sm_entries = [], sm_state_root = Hash32 0,
    sm_authority_peer_id = PeerId 0, sm_authority_public_key = 0, sm_signature = []\<rparr>"

lemma demo_encode: "encode demo_host v = Ok ()"
  by (simp add: encode_def to_allocvec_def)

lemma demo_manifest_hash: "manifest_hash demo_host m = Ok (Hash32 0)"
  by (simp add: manifest_hash_def to_allocvec_def from_domain_bytes_def)

abbreviation head_of :: "CanonicalSnapshotRefV1 option \<Rightarrow> CanonicalSnapshotHeadV1" where
  "head_of r \<equiv> \<lparr>hd_world_id = WorldId 7, hd_head = r\<rparr>"

lemma first_head: "load_or_initialize_canonical_head_locked demo_host (WorldId 7) empty_files
    = store (head_of None) [\<lambda>fs. fs\<lparr>wf_head := Content (head_of None)\<rparr>, mark_required]"
  by (simp add: load_or_initialize_canonical_head_locked_def empty_files_def highest_legacy_manifest_locked_def
    raw_snapshot_manifests_def bt_keys_def demo_encode validate_head_target_locked_def store_def Let_def)

lemma first_commit_at:
  assumes head: "fst (load_or_initialize_canonical_head_locked demo_host (WorldId 7) f) = Ok (head_of None)"
    and files: "wf_snapshots f = []" "wf_epoch f = Absent"
  shows "fst (commit_snapshot_streaming_inner demo_host plain_zstd (\<lambda>n. n) None first_manifest None f) = Ok ()"
proof -
  let ?load = "load_or_initialize_canonical_head_locked demo_host (WorldId 7)"
  have shape: "verify_snapshot_streaming demo_host plain_zstd (\<lambda>n. n) f first_manifest = Ok ()"
    by (simp add: verify_snapshot_streaming_def validate_manifest_shape_def validate_manifest_paths_def snapshot_state_root_def
      to_allocvec_def from_domain_bytes_def protocol_def first_manifest_def)
  have world: "sm_world_id first_manifest = WorldId 7" by (simp add: first_manifest_def)
  have extends: "validate_direct_extension None first_manifest = Ok ()"
    by (simp add: validate_direct_extension_def first_manifest_def)
  have "wf_epoch (after ?load f) = wf_epoch f" by (rule after_keeps) (intro footprint; simp)
  then have epoch: "validate_commit_epoch first_manifest None None (after ?load f) = Ok ()"
    by (simp add: validate_commit_epoch_def files)
  have "is_ok (fst (begin_snapshot_commit_transaction demo_host first_manifest None f))"
    by (simp add: begin_snapshot_commit_transaction_def world head fst_then fst_check plan_simps extends epoch
      canonical_ref_def demo_manifest_hash demo_encode protocol_def Let_def)
  then obtain r where r: "fst (begin_snapshot_commit_transaction demo_host first_manifest None f) = Ok r"
    by (auto simp: is_ok_iff)
  have "slot_at (wf_snapshots f) (sm_snapshot_number first_manifest) = Absent"
    by (simp add: files slot_at_def)
  moreover from this have "fst (publish_immutable_manifest first_manifest (after (begin_snapshot_commit_transaction demo_host first_manifest None) f)) = Ok ()"
    by (simp add: publish_immutable_manifest_def begin_effect(2) [OF r] Let_def plan_simps)
  ultimately show ?thesis
    by (simp add: commit_snapshot_streaming_inner_def validate_publication_def shape fst_check demo_manifest_hash protocol_def
      demo_encode fst_then r finish_snapshot_commit_transaction_def release_publication_def plan_simps Let_def)
qed

lemma first_commit: "fst (commit_snapshot_streaming_inner demo_host plain_zstd (\<lambda>n. n) None first_manifest None empty_files) = Ok ()"
  by (rule first_commit_at) (simp_all add: first_head plan_simps, simp_all add: empty_files_def)

lemma first_namespace: "fst (validate_canonical_snapshot_namespace demo_host (WorldId 7) empty_files) = Ok ()"
  by (simp add: validate_canonical_snapshot_namespace_def fst_then first_head fst_check plan_simps
    after_def validate_no_orphan_manifests_locked_def raw_snapshot_manifests_def) (simp add: empty_files_def bt_keys_def)

theorem commit_then_latest_witness:
  "fst (latest_snapshot demo_host (WorldId 7)
    (snd (perform (commit_snapshot_streaming_inner demo_host plain_zstd (\<lambda>n. n) None first_manifest None) None empty_files)))
      = Ok (Some first_manifest)"
proof -
  let ?p = "perform (commit_snapshot_streaming_inner demo_host plain_zstd (\<lambda>n. n) None first_manifest None) None empty_files"
  have "?p = (Ok (), snd ?p)" using first_commit by (simp add: perform_def split_beta)
  note this first_namespace
  then show ?thesis
    using commit_then_latest [of demo_host first_manifest empty_files plain_zstd "\<lambda>n. n" None None None "snd ?p"] first_namespace
    by (simp add: first_manifest_def empty_files_def slot_at_def)
qed

section \<open>An interrupted commit\<close>

lemma leaves_store: "fs' \<in> leaves (\<lambda>_. store x ms) fs \<Longrightarrow> \<exists>k\<le>length ms. fs' = apply_mutations (take k ms) fs"
  by (auto simp: leaves_def store_def)

text \<open>Reading the head is idempotent, interrupted or not: it keeps answering the same head.\<close>

lemma head_shapes:
  assumes "fst (load_or_initialize_canonical_head_locked H w fs) = Ok head"
  shows "hd_world_id head = w" "validate_head_target_locked H w (hd_head head) fs = Ok ()"
    "(\<exists>it. wf_intent fs = Content it \<and> it_world_id it = w \<and> wf_head fs = Content head \<and> hd_head head = Some (it_next_head it)
        \<and> snd (load_or_initialize_canonical_head_locked H w fs) = [drop_intent, mark_required])
    \<or> wf_intent fs = Absent \<and> wf_head fs = Content head \<and> snd (load_or_initialize_canonical_head_locked H w fs) = [mark_required]
    \<or> wf_intent fs = Absent \<and> wf_head fs = Absent \<and> \<not> wf_head_required fs
        \<and> snd (load_or_initialize_canonical_head_locked H w fs) = [\<lambda>fs. fs\<lparr>wf_head := Content head\<rparr>, mark_required]"
  using assms
  by (auto simp: load_or_initialize_canonical_head_locked_def fst_check snd_check plan_simps read_head_file_def Let_def slot_exists_iff
      split: if_splits)

lemma head_stable:
  assumes ok: "fst (load_or_initialize_canonical_head_locked H w fs) = Ok head"
    and g: "g \<in> leaves (load_or_initialize_canonical_head_locked H w) fs"
  shows "fst (load_or_initialize_canonical_head_locked H w g) = Ok head"
proof -
  let ?load = "load_or_initialize_canonical_head_locked H w"
  note shapes = head_shapes [OF ok]
  have keep: "wf_snapshots g = wf_snapshots fs" using g by (rule leaves_keeps [rotated]) (intro footprint; simp)
  have target: "validate_head_target_locked H w (hd_head head) g = Ok ()"
    using snapshot_files(2) [OF keep] shapes(2) by simp
  have "g = fs \<or> wf_intent g = Absent \<and> wf_head g = Content head"
    using g shapes(3) by (auto simp: leaves_def le_Suc_eq)
  with ok shapes(1) target head_loaded [of g head w H] show ?thesis by (auto simp: plan_simps)
qed

lemma head_after:
  assumes "fst (load_or_initialize_canonical_head_locked H w fs) = Ok head"
  shows "wf_intent (after (load_or_initialize_canonical_head_locked H w) fs) = Absent"
    "wf_head (after (load_or_initialize_canonical_head_locked H w) fs) = Content head"
  using head_shapes(3) [OF assms] by (auto simp: after_def)

lemma head_blocked:
  assumes "wf_intent g = Content it" "it_world_id it = w" "wf_head g = Content head" "hd_world_id head = w"
    "hd_head head \<noteq> Some (it_next_head it)"
  shows "fst (load_or_initialize_canonical_head_locked H w g) = Err (SnapshotCommitIncomplete w (cr_snapshot_number (it_next_head it)))"
  using assms by (simp add: load_or_initialize_canonical_head_locked_def read_head_file_def plan_simps)

lemma head_moved:
  assumes "wf_intent g = Absent \<or> wf_intent g = Content \<lparr>it_world_id = w, it_previous_head = p, it_next_head = r\<rparr>"
    "wf_head g = Content \<lparr>hd_world_id = w, hd_head = Some r\<rparr>" "slot_at (wf_snapshots g) (sm_snapshot_number m) = Content m"
    "canonical_ref H m = Ok r" "sm_world_id m = w"
  shows "fst (load_or_initialize_canonical_head_locked H w g) = Ok \<lparr>hd_world_id = w, hd_head = Some r\<rparr>"
proof -
  have "cr_snapshot_number r = sm_snapshot_number m" using assms(4) by (auto simp: canonical_ref_def)
  then have "validate_head_target_locked H w (Some r) g = Ok ()"
    using assms(3-5) by (simp add: validate_head_target_locked_def load_snapshot_file_unchecked_def)
  with assms(1,2) show ?thesis
    by (auto simp: load_or_initialize_canonical_head_locked_def read_head_file_def plan_simps)
qed

text \<open>The second half of \<open>begin_snapshot_commit_transaction\<close>: check the extension and write the intent.\<close>

definition stage_intent ::
    "host \<Rightarrow> SnapshotManifestV1 \<Rightarrow> SnapshotCommitFence option \<Rightarrow> CanonicalSnapshotHeadV1 \<Rightarrow> world_files \<Rightarrow> CanonicalSnapshotRefV1 plan" where
  "stage_intent H m fence current fs = check (validate_direct_extension (hd_head current) m) (\<lambda>_.
      check (validate_commit_epoch m fence (hd_head current) fs) (\<lambda>_. check (canonical_ref H m) (\<lambda>next_head.
      let intent = \<lparr>it_world_id = sm_world_id m, it_previous_head = hd_head current, it_next_head = next_head\<rparr> in
      check (encode H (intent_sval intent)) (\<lambda>_. store next_head [\<lambda>fs. fs\<lparr>wf_intent := Content intent\<rparr>]))))"

lemma begin_is_staged:
  "begin_snapshot_commit_transaction H m fence = then_plan (load_or_initialize_canonical_head_locked H (sm_world_id m)) (stage_intent H m fence)"
  unfolding begin_snapshot_commit_transaction_def stage_intent_def ..

abbreviation intent_to :: "SnapshotManifestV1 \<Rightarrow> CanonicalSnapshotHeadV1 \<Rightarrow> CanonicalSnapshotRefV1 \<Rightarrow> SnapshotCommitIntentV1" where
  "intent_to m head r \<equiv> \<lparr>it_world_id = sm_world_id m, it_previous_head = hd_head head, it_next_head = r\<rparr>"

lemma stage_intent_Ok:
  "fst (stage_intent H m fence head f) = Ok r \<Longrightarrow> canonical_ref H m = Ok r \<and> validate_direct_extension (hd_head head) m = Ok ()
    \<and> snd (stage_intent H m fence head f) = [\<lambda>fs. fs\<lparr>wf_intent := Content (intent_to m head r)\<rparr>]"
  unfolding stage_intent_def by (auto simp: fst_check snd_check plan_simps Let_def)

lemma stage_intent_Err: "fst (stage_intent H m fence head f) = Err e \<Longrightarrow> snd (stage_intent H m fence head f) = []"
  unfolding stage_intent_def by (auto simp: check_def refuse_def store_def Let_def split: sum.splits)

lemma stage_intent_leaves:
  assumes "g \<in> leaves (stage_intent H m fence head) f"
  shows "g = f \<or> (\<exists>r. canonical_ref H m = Ok r \<and> validate_direct_extension (hd_head head) m = Ok () \<and> g = f\<lparr>wf_intent := Content (intent_to m head r)\<rparr>)"
proof (cases "fst (stage_intent H m fence head f)")
  case (Inl e)
  from leaves_unchanged [OF stage_intent_Err [OF this] assms] show ?thesis by simp
next
  case (Inr r)
  from stage_intent_Ok [OF this] leaves_single [OF _ assms] show ?thesis by blast
qed

lemma publish_fresh:
  assumes "slot_at (wf_snapshots f) (sm_snapshot_number m) = Absent"
  shows "publish_immutable_manifest m f = store () [\<lambda>fs. fs\<lparr>wf_snapshots := bt_insert (sm_snapshot_number m) (Content m) (wf_snapshots fs)\<rparr>]"
  using assms by (simp add: publish_immutable_manifest_def)

lemma finish_leaves:
  assumes "g \<in> leaves (\<lambda>_. finish_snapshot_commit_transaction H w r) f"
  shows "g = f \<or> wf_head g = Content \<lparr>hd_world_id = w, hd_head = Some r\<rparr> \<and> wf_snapshots g = wf_snapshots f
    \<and> (wf_intent g = Absent \<or> wf_intent g = wf_intent f)"
proof -
  have "snd (finish_snapshot_commit_transaction H w r) = []
      \<or> snd (finish_snapshot_commit_transaction H w r) = [\<lambda>fs. fs\<lparr>wf_head := Content \<lparr>hd_world_id = w, hd_head = Some r\<rparr>\<rparr>, mark_required, drop_intent]"
    by (auto simp: finish_snapshot_commit_transaction_def snd_check plan_simps Let_def split: sum.splits)
  with assms show ?thesis by (auto simp: leaves_def le_Suc_eq numeral_3_eq_3)
qed

text \<open>The states a commit passes through, once the head has been read.\<close>

lemma commit_tail_states:
  assumes run: "fs' \<in> leaves (commit_tail H publication m fence) fs"
    and fresh: "slot_at (wf_snapshots fs) (sm_snapshot_number m) = Absent"
    and head: "fst (load_or_initialize_canonical_head_locked H (sm_world_id m) fs) = Ok head"
  obtains "fs' \<in> leaves (load_or_initialize_canonical_head_locked H (sm_world_id m)) fs"
  | r where "canonical_ref H m = Ok r" "validate_direct_extension (hd_head head) m = Ok ()" "wf_head fs' = Content head"
      "wf_intent fs' = Content (intent_to m head r)"
  | r where "canonical_ref H m = Ok r" "validate_direct_extension (hd_head head) m = Ok ()"
      "wf_head fs' = Content \<lparr>hd_world_id = sm_world_id m, hd_head = Some r\<rparr>"
      "slot_at (wf_snapshots fs') (sm_snapshot_number m) = Content m"
      "wf_intent fs' = Absent \<or> wf_intent fs' = Content (intent_to m head r)"
proof -
  let ?w = "sm_world_id m" and ?n = "sm_snapshot_number m"
  let ?load = "load_or_initialize_canonical_head_locked H ?w" and ?open = "begin_snapshot_commit_transaction H m fence"
  let ?f1 = "after ?load fs"
  note f1 = head_after [OF head]
  have keep1: "wf_snapshots ?f1 = wf_snapshots fs" by (rule after_keeps) (intro footprint; simp)
  consider "fs' \<in> leaves ?open fs" | r where "fst (?open fs) = Ok r"
      "fs' \<in> leaves (then_plan (publish_immutable_manifest m) (\<lambda>_. then_plan (\<lambda>_. finish_snapshot_commit_transaction H ?w r) (\<lambda>_.
        release_publication publication))) (after ?open fs)"
    using leaves_then [OF run [unfolded commit_tail_def]] by blast
  then show thesis
  proof cases
    case 1
    from leaves_then [OF this [unfolded begin_is_staged]] head consider "fs' \<in> leaves ?load fs" | "fs' \<in> leaves (stage_intent H m fence head) ?f1"
      by auto
    then show thesis
    proof cases
      case 2
      from stage_intent_leaves [OF this] after_leaves [of ?load fs] f1 that(1,2) show thesis by auto
    qed (rule that(1))
  next
    case (2 r)
    have staged: "fst (stage_intent H m fence head ?f1) = Ok r"
      using 2(1) head by (simp add: begin_is_staged fst_then)
    note st = stage_intent_Ok [OF staged]
    let ?f2 = "?f1\<lparr>wf_intent := Content (intent_to m head r)\<rparr>"
    have f2: "after ?open fs = ?f2"
      using head st by (simp add: begin_is_staged after_then after_def [of "stage_intent H m fence head"])
    have pub: "publish_immutable_manifest m ?f2 = store () [\<lambda>fs. fs\<lparr>wf_snapshots := bt_insert ?n (Content m) (wf_snapshots fs)\<rparr>]"
      by (rule publish_fresh) (use fresh keep1 in simp)
    let ?f3 = "?f2\<lparr>wf_snapshots := bt_insert ?n (Content m) (wf_snapshots fs)\<rparr>"
    have f3: "after (publish_immutable_manifest m) ?f2 = ?f3"
      by (simp add: after_def [of "publish_immutable_manifest m"] pub plan_simps keep1)
    have pub_leaves: "g = ?f2 \<or> g = ?f3" if "g \<in> leaves (publish_immutable_manifest m) ?f2" for g
      using leaves_single [OF _ that] by (simp add: pub plan_simps keep1)
    consider "fs' = ?f2" | "fs' = ?f3"
      | "fs' \<in> leaves (then_plan (\<lambda>_. finish_snapshot_commit_transaction H ?w r) (\<lambda>_. release_publication publication)) ?f3"
      using leaves_then [OF 2(2) [unfolded f2]] pub_leaves f3 by auto
    then show thesis
    proof cases
      case 3
      let ?fin = "\<lambda>_ :: world_files. finish_snapshot_commit_transaction H ?w r"
      have rel: "wf_head g = wf_head f" "wf_snapshots g = wf_snapshots f" "wf_intent g = wf_intent f"
        if "g \<in> leaves (release_publication publication) f" for g f
        by (rule leaves_keeps [OF _ that], intro footprint; simp)+
      obtain f where "f \<in> leaves ?fin ?f3" "wf_head fs' = wf_head f" "wf_snapshots fs' = wf_snapshots f" "wf_intent fs' = wf_intent f"
        using leaves_then [OF 3] rel after_leaves [of ?fin ?f3] by blast
      with finish_leaves [of f H ?w r ?f3] st f1 that(2,3) show thesis by auto
    qed (use st f1 that(2) in auto)
  qed
qed

lemma commit_tail_keeps_other:
  assumes "sm_snapshot_number m \<noteq> n"
  shows "plan_keeps (\<lambda>fs. slot_at (wf_snapshots fs) n) (commit_tail H publication m fence fs)"
proof -
  have "plan_keeps (\<lambda>fs. slot_at (wf_snapshots fs) n) (publish_immutable_manifest m f)" for f
    using assms by (auto simp: publish_immutable_manifest_def plan_keeps_def plan_simps Let_def)
  then show ?thesis
    unfolding commit_tail_def
    by (intro plan_keeps_then begin_snapshot_commit_transaction_keeps finish_snapshot_commit_transaction_keeps release_publication_keeps)
      simp_all
qed

text \<open>
  C7. A snapshot commit is atomic or reported.  Wherever a commit of a new snapshot is interrupted, reading the
  canonical head afterwards gives the head from before, or the committed snapshot, or the error that names the
  incomplete commit; and no snapshot stored before is changed.
\<close>

theorem commit_atomic_or_reported:
  assumes head: "fst (canonical_snapshot_head H (sm_world_id m) fs) = Ok head"
    and fresh: "slot_at (wf_snapshots fs) (sm_snapshot_number m) = Absent"
    and run: "perform (commit_snapshot_streaming_inner H Z pick publication m fence) fault fs = (result, fs')"
  shows "(fst (canonical_snapshot_head H (sm_world_id m) fs') = Ok head
      \<or> (\<exists>r. canonical_ref H m = Ok r \<and>
          fst (canonical_snapshot_head H (sm_world_id m) fs') = Ok \<lparr>hd_world_id = sm_world_id m, hd_head = Some r\<rparr>)
      \<or> fst (canonical_snapshot_head H (sm_world_id m) fs') = Err (SnapshotCommitIncomplete (sm_world_id m) (sm_snapshot_number m)))
    \<and> (\<forall>n. n \<noteq> sm_snapshot_number m \<longrightarrow> slot_at (wf_snapshots fs') n = slot_at (wf_snapshots fs) n)"
proof -
  let ?w = "sm_world_id m" and ?n = "sm_snapshot_number m"
  let ?commit = "commit_snapshot_streaming_inner H Z pick publication m fence"
  have leaf: "fs' \<in> leaves ?commit fs" using perform_leaves [of ?commit fault fs] run by simp
  have plan: "snd (?commit fs) = [] \<or> ?commit fs = commit_tail H publication m fence fs"
    using fresh unfolding commit_snapshot_streaming_inner_def commit_tail_def
    by (simp add: check_def refuse_def split: sum.splits)
  have h: "fst (load_or_initialize_canonical_head_locked H ?w fs) = Ok head" using head by (simp add: canonical_snapshot_head_def)
  have ref: "cr_snapshot_number r = ?n" if "canonical_ref H m = Ok r" for r using that by (auto simp: canonical_ref_def)
  from plan leaf consider "fs' = fs" | "fs' \<in> leaves (commit_tail H publication m fence) fs"
    by (auto simp: leaves_def)
  then have state: "fst (load_or_initialize_canonical_head_locked H ?w fs') = Ok head
      \<or> (\<exists>r. canonical_ref H m = Ok r \<and>
          fst (load_or_initialize_canonical_head_locked H ?w fs') = Ok \<lparr>hd_world_id = ?w, hd_head = Some r\<rparr>)
      \<or> fst (load_or_initialize_canonical_head_locked H ?w fs') = Err (SnapshotCommitIncomplete ?w ?n)"
  proof cases
    case 2
    then show ?thesis
    proof (rule commit_tail_states [OF _ fresh h])
      fix r
      assume r: "canonical_ref H m = Ok r" "validate_direct_extension (hd_head head) m = Ok ()" "wf_head fs' = Content head"
        "wf_intent fs' = Content (intent_to m head r)"
      have "hd_head head \<noteq> Some r" using extension_above [OF r(2)] ref [OF r(1)] by auto
      with head_blocked [OF r(4) _ r(3) head_shapes(1) [OF h]] ref [OF r(1)] show ?thesis by simp
    next
      fix r
      assume "canonical_ref H m = Ok r" "validate_direct_extension (hd_head head) m = Ok ()"
        "wf_head fs' = Content \<lparr>hd_world_id = ?w, hd_head = Some r\<rparr>"
        "slot_at (wf_snapshots fs') ?n = Content m" "wf_intent fs' = Absent \<or> wf_intent fs' = Content (intent_to m head r)"
      with head_moved [of fs' ?w "hd_head head" r m H] show ?thesis by blast
    qed (use head_stable [OF h] in blast)
  qed (use h in simp)
  have "slot_at (wf_snapshots fs') n = slot_at (wf_snapshots fs) n" if "n \<noteq> ?n" for n
    using plan leaves_keeps [where f = "\<lambda>fs. slot_at (wf_snapshots fs) n", OF _ leaf] commit_tail_keeps_other [OF that [symmetric]]
    by (auto simp: plan_keeps_def)
  with state show ?thesis by (simp add: canonical_snapshot_head_def)
qed

theorem commit_atomic_or_reported_witness:
  "\<exists>result fs'. perform (commit_snapshot_streaming_inner demo_host plain_zstd (\<lambda>n. n) None first_manifest None) (Some 4) empty_files = (result, fs')
    \<and> fst (canonical_snapshot_head demo_host (WorldId 7) fs') \<in>
      {Ok (head_of None), Ok (head_of (Some \<lparr>cr_snapshot_number = 1, cr_manifest_hash = Hash32 0, cr_epoch = 5, cr_sequence = 5\<rparr>)),
       Err (SnapshotCommitIncomplete (WorldId 7) 1)}"
proof -
  let ?p = "perform (commit_snapshot_streaming_inner demo_host plain_zstd (\<lambda>n. n) None first_manifest None) (Some 4) empty_files"
  have head: "fst (canonical_snapshot_head demo_host (sm_world_id first_manifest) empty_files) = Ok (head_of None)"
    by (simp add: canonical_snapshot_head_def first_manifest_def first_head plan_simps)
  have ref: "canonical_ref demo_host first_manifest = Ok \<lparr>cr_snapshot_number = 1, cr_manifest_hash = Hash32 0, cr_epoch = 5, cr_sequence = 5\<rparr>"
    by (simp add: canonical_ref_def demo_manifest_hash protocol_def) (simp add: first_manifest_def)
  have fresh: "slot_at (wf_snapshots empty_files) (sm_snapshot_number first_manifest) = Absent" by (simp add: empty_files_def slot_at_def)
  from commit_atomic_or_reported [OF head fresh, of plain_zstd "\<lambda>n. n" None None "Some 4" "fst ?p" "snd ?p"] ref
  show ?thesis by (intro exI [of _ "fst ?p"] exI [of _ "snd ?p"]) (auto simp: first_manifest_def)
qed

section \<open>Reading the latest snapshot changes nothing\<close>

lemma head_files:
  assumes "wf_intent g = wf_intent f" "wf_head g = wf_head f" "wf_head_required g = wf_head_required f" "wf_snapshots g = wf_snapshots f"
  shows "load_or_initialize_canonical_head_locked H w g = load_or_initialize_canonical_head_locked H w f"
  unfolding load_or_initialize_canonical_head_locked_def highest_legacy_manifest_locked_def read_head_file_def
    assms(1-3) snapshot_files(2) [OF assms(4)] raw_snapshot_manifests_files [OF assms(4)] ..

lemma namespace_after: "after (validate_canonical_snapshot_namespace H w) f = after (load_or_initialize_canonical_head_locked H w) f"
  by (auto simp: validate_canonical_snapshot_namespace_def after_then after_check after_reply split: sum.splits)

lemma namespace_iff:
  "fst (validate_canonical_snapshot_namespace H w f) = Ok () \<longleftrightarrow>
    (\<exists>head. fst (load_or_initialize_canonical_head_locked H w f) = Ok head \<and> validate_no_orphan_manifests_locked w (hd_head head) f = Ok ())"
proof -
  have "wf_snapshots (after (load_or_initialize_canonical_head_locked H w) f) = wf_snapshots f"
    by (rule after_keeps) (intro footprint; simp)
  from snapshot_files(3) [OF this] show ?thesis
    by (auto simp: validate_canonical_snapshot_namespace_def fst_then fst_check plan_simps)
qed

text \<open>An operation after which the head reads the same and that leaves the snapshot directory alone.\<close>

lemma namespace_stable:
  assumes "fst (validate_canonical_snapshot_namespace H w f) = Ok ()"
  shows "fst (validate_canonical_snapshot_namespace H w (after (load_or_initialize_canonical_head_locked H w) f)) = Ok ()"
proof -
  have "wf_snapshots (after (load_or_initialize_canonical_head_locked H w) f) = wf_snapshots f"
    by (rule after_keeps) (intro footprint; simp)
  from snapshot_files(3) [OF this] assms show ?thesis
    unfolding namespace_iff using head_stable [OF _ after_leaves] by fastforce
qed

lemma latest_Ok:
  assumes "fst (latest_snapshot H w f) = Ok latest"
  obtains head where "fst (validate_canonical_snapshot_namespace H w f) = Ok ()"
    "fst (load_or_initialize_canonical_head_locked H w f) = Ok head"
    "case hd_head head of None \<Rightarrow> latest = None
      | Some r \<Rightarrow> \<exists>m. latest = Some m \<and> slot_at (wf_snapshots f) (cr_snapshot_number r) = Content m \<and> sm_snapshot_number m = cr_snapshot_number r"
    "after (latest_snapshot H w) f = after (load_or_initialize_canonical_head_locked H w) (after (load_or_initialize_canonical_head_locked H w) f)"
proof -
  let ?load = "load_or_initialize_canonical_head_locked H w"
  have ns: "fst (validate_canonical_snapshot_namespace H w f) = Ok ()"
    using assms by (auto simp: latest_snapshot_def fst_then)
  then obtain head where head: "fst (?load f) = Ok head" unfolding namespace_iff by blast
  have h: "fst (canonical_snapshot_head H w (after ?load f)) = Ok head" "after (canonical_snapshot_head H w) g = after ?load g" for g
    using head_stable [OF head after_leaves] by (simp_all add: canonical_snapshot_head_def after_def)
  have snaps: "wf_snapshots (after ?load (after ?load f)) = wf_snapshots f"
    by (simp add: after_keeps [where f = wf_snapshots] footprint)
  have "(case hd_head head of None \<Rightarrow> latest = None
      | Some r \<Rightarrow> \<exists>m. latest = Some m \<and> slot_at (wf_snapshots f) (cr_snapshot_number r) = Content m \<and> sm_snapshot_number m = cr_snapshot_number r)"
    using assms ns h snaps
    by (auto simp: latest_snapshot_def fst_then namespace_after fst_check plan_simps load_snapshot_file_unchecked_def split: option.splits if_splits)
  moreover have "after (latest_snapshot H w) f = after ?load (after ?load f)"
    using ns h by (cases "hd_head head")
      (auto simp: latest_snapshot_def after_then namespace_after after_check after_reply split: sum.splits)
  ultimately show thesis using that ns head by blast
qed

lemma latest_value:
  assumes "fst (load_or_initialize_canonical_head_locked H w f) = Ok head"
  shows "fst (latest_snapshot H w f) = and_then (validate_no_orphan_manifests_locked w (hd_head head) f) (\<lambda>_.
    case hd_head head of None \<Rightarrow> Ok None
    | Some r \<Rightarrow> and_then (load_snapshot_file_unchecked w (cr_snapshot_number r) f) (\<lambda>m. Ok (Some m)))"
proof -
  let ?load = "load_or_initialize_canonical_head_locked H w"
  have snaps: "wf_snapshots (after ?load f) = wf_snapshots f" "wf_snapshots (after ?load (after ?load f)) = wf_snapshots f"
    by (simp_all add: after_keeps [where f = wf_snapshots] footprint)
  have again: "fst (?load (after ?load f)) = Ok head" by (rule head_stable [OF assms after_leaves])
  have same: "after (canonical_snapshot_head H w) g = after ?load g" for g
    by (simp add: canonical_snapshot_head_def after_def)
  have "fst (validate_canonical_snapshot_namespace H w f) = validate_no_orphan_manifests_locked w (hd_head head) f"
    using assms snapshot_files(3) [OF snaps(1)]
    by (cases "validate_no_orphan_manifests_locked w (hd_head head) f")
      (simp_all add: validate_canonical_snapshot_namespace_def fst_then fst_check plan_simps)
  then show ?thesis
    using again snapshot_files(1) [OF snaps(2)]
    by (cases "hd_head head") (simp_all add: latest_snapshot_def fst_then namespace_after canonical_snapshot_head_def [of H w "after ?load f"]
      same fst_check plan_simps)
qed

lemma latest_same:
  assumes "fst (load_or_initialize_canonical_head_locked H w f) = Ok head" "fst (load_or_initialize_canonical_head_locked H w g) = Ok head"
    and "wf_snapshots g = wf_snapshots f"
  shows "fst (latest_snapshot H w g) = fst (latest_snapshot H w f)"
  unfolding latest_value [OF assms(1)] latest_value [OF assms(2)] snapshot_files(1,3) [OF assms(3)] ..

lemma latest_stable:
  assumes "fst (latest_snapshot H w f) = Ok latest"
  shows "fst (latest_snapshot H w (after (latest_snapshot H w) f)) = Ok latest"
    "fst (validate_canonical_snapshot_namespace H w (after (latest_snapshot H w) f)) = Ok ()"
proof -
  let ?load = "load_or_initialize_canonical_head_locked H w"
  obtain head where ns: "fst (validate_canonical_snapshot_namespace H w f) = Ok ()" and head: "fst (?load f) = Ok head"
    and aft: "after (latest_snapshot H w) f = after ?load (after ?load f)"
    using assms by (rule latest_Ok)
  have "fst (?load (after ?load (after ?load f))) = Ok head"
    by (intro head_stable [OF _ after_leaves] head)
  moreover have "wf_snapshots (after ?load (after ?load f)) = wf_snapshots f"
    by (simp add: after_keeps [where f = wf_snapshots] footprint)
  ultimately show "fst (latest_snapshot H w (after (latest_snapshot H w) f)) = Ok latest"
    using latest_same [OF head] assms unfolding aft by simp
  show "fst (validate_canonical_snapshot_namespace H w (after (latest_snapshot H w) f)) = Ok ()"
    unfolding aft by (intro namespace_stable ns)
qed

lemma latest_head_stable:
  assumes "fst (latest_snapshot H w f) = Ok latest" "fst (load_or_initialize_canonical_head_locked H w f) = Ok head"
  shows "fst (load_or_initialize_canonical_head_locked H w (after (latest_snapshot H w) f)) = Ok head"
proof -
  let ?load = "load_or_initialize_canonical_head_locked H w"
  obtain "after (latest_snapshot H w) f = after ?load (after ?load f)" using assms(1) by (rule latest_Ok)
  then show ?thesis using assms(2) by (simp add: head_stable [OF _ after_leaves])
qed

end
