(* ===== verification/Scheduler.thy ===== *)
theory Scheduler
  imports Replica CommitSafety "HOL-Library.Multiset"
begin

text \<open>
  Multi-source reconstruction of a snapshot: \<open>swarm-storage/src/scheduler.rs\<close>.

  A \<open>BlobSource\<close> is a trait object: a record of functions, where the first argument of a read numbers the call,
  so a source may answer the same question differently each time.  \<open>LocalReplicaSource\<close> is the implementation
  over another replica's files.  The worker threads take assignments from one queue; the transfers of different
  blobs touch different files, and the model runs them in queue order.  How many ran at once is an argument.
\<close>

definition DEFAULT_PARALLEL_BLOBS :: nat where "DEFAULT_PARALLEL_BLOBS = 4"
definition MAX_PARALLEL_BLOBS :: nat where "MAX_PARALLEL_BLOBS = 32"
definition DEFAULT_REPLICATION_CHUNK_SIZE :: nat where "DEFAULT_REPLICATION_CHUNK_SIZE = 256 * 1024"
definition MAX_REPLICATION_CHUNK_SIZE :: nat where "MAX_REPLICATION_CHUNK_SIZE = 4 * 1024 * 1024"

record BlobSource =
  bs_peer_id :: PeerId
  bs_has_blob :: "BlobDescriptor \<Rightarrow> bool"
  bs_read_blob_chunk :: "nat \<Rightarrow> BlobDescriptor \<Rightarrow> u64 \<Rightarrow> nat \<Rightarrow> (ReplicationError, bytes \<times> bool) result"

definition LocalReplicaSource :: "host \<Rightarrow> zstd \<Rightarrow> (nat \<Rightarrow> nat) \<Rightarrow> PeerId \<Rightarrow> world_files \<Rightarrow> BlobSource" where
  "LocalReplicaSource H Z pick peer files =
    \<lparr>bs_peer_id = peer, bs_has_blob = has_complete_blob H Z pick files,
      bs_read_blob_chunk = (\<lambda>_ d offset max_bytes. read_encoded_blob_chunk d offset max_bytes files)\<rparr>"

section \<open>Inventory and source selection\<close>

type_synonym ReplicaInventory = "(Hash32, PeerId set) btree_map"

definition record_complete_blob :: "PeerId \<Rightarrow> Hash32 \<Rightarrow> ReplicaInventory \<Rightarrow> ReplicaInventory" where
  "record_complete_blob peer hash inventory =
    bt_insert hash (insert peer (case bt_get inventory hash of None \<Rightarrow> {} | Some peers \<Rightarrow> peers)) inventory"

definition remove_peer :: "PeerId \<Rightarrow> ReplicaInventory \<Rightarrow> ReplicaInventory" where
  "remove_peer peer inventory = filter (\<lambda>e. snd e \<noteq> {}) (map (\<lambda>(h, peers). (h, peers - {peer})) inventory)"

definition sources_for :: "ReplicaInventory \<Rightarrow> Hash32 \<Rightarrow> PeerId list" where
  "sources_for inventory hash = (case bt_get inventory hash of None \<Rightarrow> [] | Some peers \<Rightarrow> sorted_list_of_set peers)"

definition inventory_contains :: "ReplicaInventory \<Rightarrow> PeerId \<Rightarrow> Hash32 \<Rightarrow> bool" where
  "inventory_contains inventory peer hash \<longleftrightarrow> (case bt_get inventory hash of None \<Rightarrow> False | Some peers \<Rightarrow> peer \<in> peers)"

record BlobAssignment =
  ba_descriptor :: BlobDescriptor
  ba_candidates :: "PeerId list"

datatype transfer_error = NoCandidate | SourceError ReplicationError | EmptyChunk

datatype SchedulerError =
    SdReplication ReplicationError
  | SdRetention RetentionError
  | InvalidOptions string
  | DuplicateSource PeerId
  | ConflictingDescriptor Hash32
  | NoSource Hash32
  | AllSourcesFailed Hash32 transfer_error
  | WorkerPanicked

definition load_of :: "(PeerId, u64) btree_map \<Rightarrow> PeerId \<Rightarrow> u64" where
  "load_of assigned peer = (case bt_get assigned peer of None \<Rightarrow> 0 | Some bytes \<Rightarrow> bytes)"

definition by_load :: "(PeerId, u64) btree_map \<Rightarrow> PeerId list \<Rightarrow> PeerId list" where
  "by_load assigned = sort_key (\<lambda>peer. (load_of assigned peer, peer))"

primrec assign_from ::
    "ReplicaInventory \<Rightarrow> (PeerId, u64) btree_map \<Rightarrow> BlobDescriptor list \<Rightarrow> (SchedulerError, BlobAssignment list) result" where
  "assign_from inventory assigned [] = Ok []"
| "assign_from inventory assigned (d # ds) =
    (case by_load assigned (sources_for inventory (bd_hash d)) of
       [] \<Rightarrow> Err (NoSource (bd_hash d))
     | primary # others \<Rightarrow>
         let assigned' = bt_insert primary (saturating_add (load_of assigned primary) (bd_encoded_size d)) assigned in
         and_then (assign_from inventory assigned' ds) (\<lambda>rest.
         Ok (\<lparr>ba_descriptor = d, ba_candidates = primary # by_load assigned' others\<rparr> # rest)))"

definition assign :: "BlobDescriptor list \<Rightarrow> ReplicaInventory \<Rightarrow> (SchedulerError, BlobAssignment list) result" where
  "assign missing inventory = assign_from inventory [] missing"

primrec descriptors_consistent :: "(Hash32, BlobDescriptor) btree_map \<Rightarrow> SnapshotEntry list \<Rightarrow> (SchedulerError, unit) result" where
  "descriptors_consistent known [] = Ok ()"
| "descriptors_consistent known (e # es) =
    (let d = se_blob e in
     and_then (case bt_get known (bd_hash d) of
         None \<Rightarrow> Ok ()
       | Some existing \<Rightarrow> ensure (existing = d) (ConflictingDescriptor (bd_hash d))) (\<lambda>_.
     descriptors_consistent (bt_insert (bd_hash d) d known) es))"

definition validate_descriptor_consistency :: "SnapshotManifestV1 \<Rightarrow> (SchedulerError, unit) result" where
  "validate_descriptor_consistency manifest = descriptors_consistent [] (sm_entries manifest)"

definition record_available :: "BlobSource \<Rightarrow> BlobDescriptor list \<Rightarrow> ReplicaInventory \<Rightarrow> ReplicaInventory" where
  "record_available source missing inventory =
    foldl (\<lambda>inv d. if bs_has_blob source d then record_complete_blob (bs_peer_id source) (bd_hash d) inv else inv) inventory missing"

primrec take_inventory ::
    "BlobDescriptor list \<Rightarrow> PeerId set \<Rightarrow> ReplicaInventory \<Rightarrow> BlobSource list \<Rightarrow> (SchedulerError, ReplicaInventory) result" where
  "take_inventory missing peers inventory [] = Ok inventory"
| "take_inventory missing peers inventory (source # sources) =
    (if bs_peer_id source \<in> peers then Err (DuplicateSource (bs_peer_id source))
     else take_inventory missing (insert (bs_peer_id source) peers) (record_available source missing inventory) sources)"

definition inventory ::
    "host \<Rightarrow> zstd \<Rightarrow> (nat \<Rightarrow> nat) \<Rightarrow> SnapshotManifestV1 \<Rightarrow> BlobSource list \<Rightarrow> world_files \<Rightarrow> (SchedulerError, ReplicaInventory) result" where
  "inventory H Z pick manifest sources fs =
    and_then (validate_descriptor_consistency manifest) (\<lambda>_.
    take_inventory (missing_blobs H Z pick manifest fs) {} [] sources)"

definition assignment_plan ::
    "host \<Rightarrow> zstd \<Rightarrow> (nat \<Rightarrow> nat) \<Rightarrow> SnapshotManifestV1 \<Rightarrow> ReplicaInventory \<Rightarrow> world_files \<Rightarrow> (SchedulerError, BlobAssignment list) result" where
  "assignment_plan H Z pick manifest available fs =
    and_then (validate_descriptor_consistency manifest) (\<lambda>_. assign (missing_blobs H Z pick manifest fs) available)"

section \<open>Options and reports\<close>

record ReplicationOptions =
  ro_max_parallel_blobs :: nat
  ro_chunk_size :: nat

definition ReplicationOptions_default :: ReplicationOptions where
  "ReplicationOptions_default = \<lparr>ro_max_parallel_blobs = DEFAULT_PARALLEL_BLOBS, ro_chunk_size = DEFAULT_REPLICATION_CHUNK_SIZE\<rparr>"

definition validate_options :: "ReplicationOptions \<Rightarrow> (SchedulerError, ReplicationOptions) result" where
  "validate_options options =
    (if ro_max_parallel_blobs options = 0 \<or> MAX_PARALLEL_BLOBS < ro_max_parallel_blobs options
     then Err (InvalidOptions ''max_parallel_blobs must be in 1..=32'')
     else if ro_chunk_size options = 0 \<or> MAX_REPLICATION_CHUNK_SIZE < ro_chunk_size options
     then Err (InvalidOptions ''chunk_size must be in 1..=4194304'')
     else Ok options)"

record SourceReplicationStats =
  ss_attempted_blobs :: nat
  ss_completed_blobs :: nat
  ss_failures :: nat
  ss_corrupt_rejections :: nat
  ss_bytes_received :: u64

definition SourceReplicationStats_default :: SourceReplicationStats where
  "SourceReplicationStats_default = \<lparr>ss_attempted_blobs = 0, ss_completed_blobs = 0, ss_failures = 0,
    ss_corrupt_rejections = 0, ss_bytes_received = 0\<rparr>"

record ReplicationReport =
  rp_total_blobs :: nat
  rp_completed_blobs :: nat
  rp_resumed_blobs :: nat
  rp_source_failures :: nat
  rp_corrupt_rejections :: nat
  rp_resume_verification_retries :: nat
  rp_bytes_received :: u64
  rp_max_parallel_blobs_observed :: nat
  rp_sources_used :: "PeerId set"
  rp_per_source :: "(PeerId, SourceReplicationStats) btree_map"

definition ReplicationReport_default :: ReplicationReport where
  "ReplicationReport_default = \<lparr>rp_total_blobs = 0, rp_completed_blobs = 0, rp_resumed_blobs = 0, rp_source_failures = 0,
    rp_corrupt_rejections = 0, rp_resume_verification_retries = 0, rp_bytes_received = 0,
    rp_max_parallel_blobs_observed = 0, rp_sources_used = {}, rp_per_source = []\<rparr>"

definition with_stats :: "PeerId \<Rightarrow> (SourceReplicationStats \<Rightarrow> SourceReplicationStats) \<Rightarrow> ReplicationReport \<Rightarrow> ReplicationReport" where
  "with_stats peer f report =
    report\<lparr>rp_per_source := bt_insert peer (f (case bt_get (rp_per_source report) peer of
      None \<Rightarrow> SourceReplicationStats_default | Some stats \<Rightarrow> stats)) (rp_per_source report)\<rparr>"

definition record_source_failure :: "PeerId \<Rightarrow> ReplicationError \<Rightarrow> bool \<Rightarrow> ReplicationReport \<Rightarrow> ReplicationReport" where
  "record_source_failure peer error integrity_rejection report =
    (let corrupt = integrity_rejection \<or> (case error of RpStorage (BlobCorrupt _) \<Rightarrow> True | _ \<Rightarrow> False);
         n = (if corrupt then 1 else 0) in
     with_stats peer (\<lambda>stats. stats\<lparr>ss_failures := ss_failures stats + 1, ss_corrupt_rejections := ss_corrupt_rejections stats + n\<rparr>)
       (report\<lparr>rp_source_failures := rp_source_failures report + 1, rp_corrupt_rejections := rp_corrupt_rejections report + n\<rparr>))"

definition record_plain_source_failure :: "PeerId \<Rightarrow> ReplicationReport \<Rightarrow> ReplicationReport" where
  "record_plain_source_failure peer report =
    with_stats peer (\<lambda>stats. stats\<lparr>ss_failures := ss_failures stats + 1\<rparr>)
      (report\<lparr>rp_source_failures := rp_source_failures report + 1\<rparr>)"

definition record_bytes :: "PeerId \<Rightarrow> bytes \<Rightarrow> ReplicationReport \<Rightarrow> ReplicationReport" where
  "record_bytes peer data report =
    with_stats peer (\<lambda>stats. stats\<lparr>ss_bytes_received := saturating_add (ss_bytes_received stats) (of_nat (length data))\<rparr>)
      (report\<lparr>rp_bytes_received := saturating_add (rp_bytes_received report) (of_nat (length data)),
        rp_sources_used := insert peer (rp_sources_used report)\<rparr>)"

definition record_completed :: "PeerId \<Rightarrow> ReplicationReport \<Rightarrow> ReplicationReport" where
  "record_completed peer report =
    with_stats peer (\<lambda>stats. stats\<lparr>ss_completed_blobs := ss_completed_blobs stats + 1\<rparr>)
      (report\<lparr>rp_completed_blobs := rp_completed_blobs report + 1, rp_sources_used := insert peer (rp_sources_used report)\<rparr>)"

section \<open>Transfer of one blob\<close>

lemma unat_of_nat_u64: "n < 2 ^ 64 \<Longrightarrow> unat (of_nat n :: u64) = n"
  by (simp add: unat_of_nat)

lemma add_len_Some: "add_len offset data = Some nxt \<Longrightarrow> unat nxt = unat offset + length data"
  unfolding add_len_def by (metis option.distinct(1) option.inject unat_of_nat_u64)

lemma receive_blob_chunk_grows:
  assumes "fst (receive_blob_chunk H Z pick d offset data finished fs) = Ok (Inr nxt)"
  shows "unat nxt = unat offset + length data" "unat nxt \<le> unat (bd_encoded_size d)"
  using assms add_len_Some [of offset data nxt]
  by (auto simp: receive_blob_chunk_def Let_def plan_simps not_less word_le_nat_alt split: sum.splits option.splits if_splits)

datatype outcome =
    Completed
  | RetryClean
  | GaveUp transfer_error

function chunk_loop ::
    "host \<Rightarrow> zstd \<Rightarrow> (nat \<Rightarrow> nat) \<Rightarrow> BlobSource \<Rightarrow> BlobDescriptor \<Rightarrow> nat \<Rightarrow> u64 \<Rightarrow> bool \<Rightarrow> u64 \<Rightarrow> nat \<Rightarrow> ReplicationReport
      \<Rightarrow> world_files \<Rightarrow> outcome \<times> nat \<times> ReplicationReport \<times> world_files" where
  "chunk_loop H Z pick source d chunk_size attempt_start clean_retry_used offset clock report fs =
    (let peer = bs_peer_id source in
     case bs_read_blob_chunk source clock d offset chunk_size of
       Inl e \<Rightarrow> (GaveUp (SourceError e), Suc clock, record_source_failure peer e False report, fs)
     | Inr (data, finished) \<Rightarrow>
         if data = [] \<and> \<not> finished then (GaveUp EmptyChunk, Suc clock, record_plain_source_failure peer report, fs)
         else let received = receive_blob_chunk H Z pick d offset data finished;
                  fs' = after received fs in
           case flatten (fst (received fs)) of
             Inl e \<Rightarrow>
               if finished \<and> 0 < attempt_start \<and> \<not> clean_retry_used \<and> partial_blob_offset d fs' = Ok 0
               then (RetryClean, Suc clock, report\<lparr>rp_corrupt_rejections := rp_corrupt_rejections report + 1,
                 rp_resume_verification_retries := rp_resume_verification_retries report + 1\<rparr>, fs')
               else (GaveUp (SourceError e), Suc clock, record_source_failure peer e finished report, fs')
           | Inr next_offset \<Rightarrow>
               if finished then (Completed, Suc clock, record_completed peer (record_bytes peer data report), fs')
               else chunk_loop H Z pick source d chunk_size attempt_start clean_retry_used next_offset (Suc clock)
                 (record_bytes peer data report) fs')"
  by pat_completeness auto
termination
proof (relation "measure (\<lambda>(H, Z, pick, source, d, n, start, used, offset, clock, report, fs). unat (bd_encoded_size d) - unat offset)",
    goal_cases)
  case (2 H Z pick source d chunk_size attempt_start used offset clock report fs peer pair data finished received fs' nxt)
  then have "fst (receive_blob_chunk H Z pick d offset data finished fs) = Ok (Inr nxt)" "data \<noteq> []"
    by (auto simp: flatten_def)
  from receive_blob_chunk_grows [OF this(1)] this(2) show ?case by (auto simp: less_diff_conv2)
qed simp

declare chunk_loop.simps [simp del]

definition source_attempt ::
    "host \<Rightarrow> zstd \<Rightarrow> (nat \<Rightarrow> nat) \<Rightarrow> BlobSource \<Rightarrow> BlobDescriptor \<Rightarrow> nat \<Rightarrow> bool \<Rightarrow> bool \<Rightarrow> nat \<Rightarrow> ReplicationReport \<Rightarrow> world_files
      \<Rightarrow> (ReplicationError, outcome) result \<times> bool \<times> nat \<times> ReplicationReport \<times> world_files" where
  "source_attempt H Z pick source d chunk_size clean_retry_used resumed_recorded clock report fs =
    (case partial_blob_offset d fs of
       Inl e \<Rightarrow> (Err e, resumed_recorded, clock, report, fs)
     | Inr offset \<Rightarrow>
         let resumed = 0 < offset \<and> \<not> resumed_recorded;
             report' = (if resumed then report\<lparr>rp_resumed_blobs := rp_resumed_blobs report + 1\<rparr> else report) in
         case chunk_loop H Z pick source d chunk_size offset clean_retry_used offset clock report' fs of
           (result, rest) \<Rightarrow> (Ok result, resumed_recorded \<or> resumed, rest))"

text \<open>The labelled loop over one source: a clean retry happens at most once, see \<open>chunk_loop_one_retry\<close>.\<close>

definition transfer_from ::
    "host \<Rightarrow> zstd \<Rightarrow> (nat \<Rightarrow> nat) \<Rightarrow> BlobSource \<Rightarrow> BlobDescriptor \<Rightarrow> nat \<Rightarrow> bool \<Rightarrow> nat \<Rightarrow> ReplicationReport \<Rightarrow> world_files
      \<Rightarrow> (ReplicationError, outcome) result \<times> bool \<times> nat \<times> ReplicationReport \<times> world_files" where
  "transfer_from H Z pick source d chunk_size resumed clock report fs =
    (case source_attempt H Z pick source d chunk_size False resumed clock report fs of
       (r, resumed', clock', report', fs') \<Rightarrow>
         if r = Ok RetryClean then source_attempt H Z pick source d chunk_size True resumed' clock' report' fs'
         else (r, resumed', clock', report', fs'))"

primrec transfer_candidates ::
    "host \<Rightarrow> zstd \<Rightarrow> (nat \<Rightarrow> nat) \<Rightarrow> (PeerId, BlobSource) btree_map \<Rightarrow> BlobDescriptor \<Rightarrow> nat \<Rightarrow> transfer_error \<Rightarrow> bool \<Rightarrow> nat
      \<Rightarrow> ReplicationReport \<Rightarrow> world_files \<Rightarrow> PeerId list
      \<Rightarrow> (Hash32 \<times> transfer_error, unit) result \<times> nat \<times> ReplicationReport \<times> world_files" where
  "transfer_candidates H Z pick source_map d chunk_size last_error resumed clock report fs [] =
    (Err (bd_hash d, last_error), clock, report, fs)"
| "transfer_candidates H Z pick source_map d chunk_size last_error resumed clock report fs (peer # peers) =
    (case bt_get source_map peer of
       None \<Rightarrow> transfer_candidates H Z pick source_map d chunk_size last_error resumed clock report fs peers
     | Some source \<Rightarrow>
         let report = with_stats peer (\<lambda>stats. stats\<lparr>ss_attempted_blobs := ss_attempted_blobs stats + 1\<rparr>) report in
         case transfer_from H Z pick source d chunk_size resumed clock report fs of
           (r, resumed', clock', report', fs') \<Rightarrow>
             (case r of
                Inl e \<Rightarrow> (Err (bd_hash d, SourceError e), clock', report', fs')
              | Inr Completed \<Rightarrow> (Ok (), clock', report', fs')
              | Inr (GaveUp e) \<Rightarrow> transfer_candidates H Z pick source_map d chunk_size e resumed' clock' report' fs' peers
              | Inr RetryClean \<Rightarrow> transfer_candidates H Z pick source_map d chunk_size last_error resumed' clock' report' fs' peers))"

definition transfer_assignment ::
    "host \<Rightarrow> zstd \<Rightarrow> (nat \<Rightarrow> nat) \<Rightarrow> (PeerId, BlobSource) btree_map \<Rightarrow> nat \<Rightarrow> BlobAssignment \<Rightarrow> nat \<Rightarrow> ReplicationReport \<Rightarrow> world_files
      \<Rightarrow> (Hash32 \<times> transfer_error, unit) result \<times> nat \<times> ReplicationReport \<times> world_files" where
  "transfer_assignment H Z pick source_map chunk_size assignment clock report fs =
    transfer_candidates H Z pick source_map (ba_descriptor assignment) chunk_size NoCandidate False clock report fs
      (ba_candidates assignment)"

section \<open>Reconstruction\<close>

primrec run_queue ::
    "host \<Rightarrow> zstd \<Rightarrow> (nat \<Rightarrow> nat) \<Rightarrow> (PeerId, BlobSource) btree_map \<Rightarrow> nat \<Rightarrow> BlobAssignment list \<Rightarrow> nat \<Rightarrow> ReplicationReport \<Rightarrow> world_files
      \<Rightarrow> (Hash32 \<times> transfer_error, unit) result \<times> nat \<times> ReplicationReport \<times> world_files" where
  "run_queue H Z pick source_map chunk_size [] clock report fs = (Ok (), clock, report, fs)"
| "run_queue H Z pick source_map chunk_size (a # queue) clock report fs =
    (case transfer_assignment H Z pick source_map chunk_size a clock report fs of
       (Inl e, rest) \<Rightarrow> (Err e, rest)
     | (Inr _, clock', report', fs') \<Rightarrow> run_queue H Z pick source_map chunk_size queue clock' report' fs')"

definition finish_replica ::
    "host \<Rightarrow> zstd \<Rightarrow> (nat \<Rightarrow> nat) \<Rightarrow> SnapshotManifestV1 \<Rightarrow> ReplicationReport \<Rightarrow> world_files
      \<Rightarrow> (SchedulerError, ReplicationReport) result \<times> world_files" where
  "finish_replica H Z pick manifest report fs =
    (and_then (map_err SdReplication (flatten (fst (finalize_replica H Z pick manifest fs)))) (\<lambda>_. Ok report),
     after (finalize_replica H Z pick manifest) fs)"

definition reconstruct ::
    "host \<Rightarrow> zstd \<Rightarrow> (nat \<Rightarrow> nat) \<Rightarrow> bool \<Rightarrow> nat \<Rightarrow> nat \<Rightarrow> SnapshotManifestV1 \<Rightarrow> BlobSource list \<Rightarrow> ReplicationOptions \<Rightarrow> world_files
      \<Rightarrow> (SchedulerError, ReplicationReport) result \<times> world_files" where
  "reconstruct H Z pick gc_busy token observed manifest sources options fs =
    (case and_then (validate_options options) (\<lambda>_. validate_descriptor_consistency manifest) of
       Inl e \<Rightarrow> (Err e, fs)
     | Inr _ \<Rightarrow>
         let missing = missing_blobs H Z pick manifest fs in
         if missing = [] then finish_replica H Z pick manifest ReplicationReport_default fs
         else case and_then (inventory H Z pick manifest sources fs) (assign missing) of
             Inl e \<Rightarrow> (Err e, fs)
           | Inr assignments \<Rightarrow>
               let source_map = bt_from_list (map (\<lambda>s. (bs_peer_id s, s)) sources);
                   pin = pin_replication_hashes gc_busy token (sm_world_id manifest) (map bd_hash missing) in
               case fst (pin fs) of
                 Inl e \<Rightarrow> (Err (SdRetention (RtStorage e)), after pin fs)
               | Inr (Inl e) \<Rightarrow> (Err (SdRetention e), after pin fs)
               | Inr (Inr pins) \<Rightarrow>
                   (case run_queue H Z pick source_map (ro_chunk_size options) assignments 0
                       (ReplicationReport_default\<lparr>rp_total_blobs := length missing\<rparr>) (after pin fs) of
                      (Inl (hash, last_error), _, _, fs') \<Rightarrow>
                        (Err (AllSourcesFailed hash last_error), after (remove_pin_paths token pins) fs')
                    | (Inr _, _, report, fs') \<Rightarrow>
                        case finish_replica H Z pick manifest (report\<lparr>rp_max_parallel_blobs_observed := observed\<rparr>) fs' of
                          (r, fs'') \<Rightarrow> (r, after (remove_pin_paths token pins) fs'')))"

section \<open>One clean retry per source\<close>

lemma chunk_loop_one_retry:
  "fst (chunk_loop H Z pick source d n start True offset clock report fs) \<noteq> RetryClean"
proof (induction H Z pick source d n start "True" offset clock report fs rule: chunk_loop.induct)
  case (1 H Z pick source d n start offset clock report fs)
  then show ?case
    by (subst chunk_loop.simps) (auto simp: Let_def split: sum.splits prod.splits if_splits)
qed

section \<open>A transfer ends\<close>

text \<open>The clock counts the chunks that were asked for.  An unfinished chunk brings the offset closer to the size.\<close>

lemma chunk_loop_requests:
  "fst (snd (chunk_loop H Z pick source d n start used offset clock report fs))
    \<le> clock + Suc (unat (bd_encoded_size d) - unat offset)"
proof (induction H Z pick source d n start used offset clock report fs rule: chunk_loop.induct)
  case (1 H Z pick source d n start used offset clock report fs)
  have "fst (snd (chunk_loop H Z pick source d n start used nxt (Suc clock) (record_bytes (bs_peer_id source) data report)
      (after (receive_blob_chunk H Z pick d offset data False) fs))) \<le> Suc (clock + (unat (bd_encoded_size d) - unat offset))"
    if "bs_read_blob_chunk source clock d offset n = Ok (data, False)" "data \<noteq> []"
      "flatten (fst (receive_blob_chunk H Z pick d offset data False fs)) = Ok nxt" for data nxt
  proof -
    have "fst (receive_blob_chunk H Z pick d offset data False fs) = Ok (Inr nxt)"
      using that(3) by (auto simp: flatten_def split: sum.splits)
    from receive_blob_chunk_grows [OF this] that(2) have "unat offset < unat nxt" "unat nxt \<le> unat (bd_encoded_size d)" by simp_all
    moreover have "fst (snd (chunk_loop H Z pick source d n start used nxt (Suc clock) (record_bytes (bs_peer_id source) data report)
        (after (receive_blob_chunk H Z pick d offset data False) fs))) \<le> Suc clock + Suc (unat (bd_encoded_size d) - unat nxt)"
      by (rule 1 [OF refl that(1) refl]) (use that(2,3) in simp_all)
    ultimately show ?thesis by simp
  qed
  then show ?case
    by (subst chunk_loop.simps) (auto simp: Let_def split: sum.splits prod.splits if_splits)
qed

lemma source_attempt_requests:
  assumes "source_attempt H Z pick source d n used resumed clock report fs = (r, resumed', clock', rest)"
  shows "clock' \<le> clock + Suc (unat (bd_encoded_size d))"
proof (cases "partial_blob_offset d fs")
  case (Inl e)
  with assms show ?thesis by (simp add: source_attempt_def)
next
  case (Inr offset)
  let ?report = "if 0 < offset \<and> \<not> resumed then report\<lparr>rp_resumed_blobs := rp_resumed_blobs report + 1\<rparr> else report"
  obtain result next_clock last where
    loop: "chunk_loop H Z pick source d n offset used offset clock ?report fs = (result, next_clock, last)" by (rule prod_cases3)
  with assms Inr have "clock' = fst (snd (chunk_loop H Z pick source d n offset used offset clock ?report fs))"
    by (simp add: source_attempt_def)
  also have "\<dots> \<le> clock + Suc (unat (bd_encoded_size d) - unat offset)" by (rule chunk_loop_requests)
  also have "\<dots> \<le> clock + Suc (unat (bd_encoded_size d))" by simp
  finally show ?thesis .
qed

lemma transfer_from_requests:
  "transfer_from H Z pick source d n resumed clock report fs = (r, resumed', clock', rest) \<Longrightarrow> clock' \<le> clock + 2 * Suc (unat (bd_encoded_size d))"
  by (auto simp: transfer_from_def split: prod.splits if_splits dest!: source_attempt_requests)

lemma transfer_candidates_requests:
  "fst (snd (transfer_candidates H Z pick source_map d n last_error resumed clock report fs peers))
    \<le> clock + length peers * (2 * Suc (unat (bd_encoded_size d)))"
proof (induction peers arbitrary: last_error resumed clock report fs)
  case (Cons peer peers)
  show ?case
    by (auto simp: Let_def split: option.splits prod.splits sum.splits outcome.splits dest!: transfer_from_requests
      intro!: order_trans [OF Cons.IH])
qed simp

text \<open>
  C26. Reconstruction ends, whatever the sources answer.  For every blob of the queue, each candidate is asked for at
  most two rounds of chunks, the second after one clean retry, and a round has at most one chunk for each byte of the
  blob and one more: an endless or stalling source cannot keep a worker busy.
\<close>

theorem transfer_requests_bounded:
  "fst (snd (run_queue H Z pick source_map n queue clock report fs))
    \<le> clock + (\<Sum>a \<leftarrow> queue. length (ba_candidates a) * (2 * Suc (unat (bd_encoded_size (ba_descriptor a)))))"
proof (induction queue arbitrary: clock report fs)
  case (Cons a queue)
  from transfer_candidates_requests [of H Z pick source_map "ba_descriptor a" n NoCandidate False clock report fs "ba_candidates a"]
  have first: "transfer_assignment H Z pick source_map n a clock report fs = (r, clock', rest)
      \<Longrightarrow> clock' \<le> clock + length (ba_candidates a) * (2 * Suc (unat (bd_encoded_size (ba_descriptor a))))" for r clock' rest
    by (simp add: transfer_assignment_def)
  show ?case
  proof (cases "transfer_assignment H Z pick source_map n a clock report fs")
    case (fields r clock' report' fs')
    with first [OF fields] Cons.IH [of clock' report' fs'] show ?thesis by (cases r) simp_all
  qed
qed simp

section \<open>An honest source completes the transfer\<close>

text \<open>The bytes a replica already holds of a blob; no partial file means none.\<close>

definition holds_part :: "world_files \<Rightarrow> BlobDescriptor \<Rightarrow> bytes \<Rightarrow> bool" where
  "holds_part fs d part \<longleftrightarrow> part_slot fs d = Content part \<or> part_slot fs d = Absent \<and> part = []"

lemma part_slot_put [simp]: "part_slot (put_part d part fs) d = Content part"
  by (cases "bd_encoding d") (simp_all add: put_part_def part_slot_def)

lemma part_slot_drop [simp]: "part_slot (drop_part d fs) d = Absent"
  by (cases "bd_encoding d") (simp_all add: drop_part_def slot_at_def part_slot_def)

lemma file_slot_install [simp]: "file_slot (install d file fs) d = Content file"
  by (cases "bd_encoding d") (simp_all add: install_def drop_part_def)

lemma part_slot_install [simp]: "part_slot (install d file fs) d = Absent"
  unfolding install_def by (rule part_slot_drop)

lemma part_slot_appends:
  "part_slot (apply_mutations (map (\<lambda>k. put_part d (g k)) [Suc 0 ..< Suc n]) fs) d = (if n = 0 then part_slot fs d else Content (g n))"
  by (cases n) simp_all

text \<open>A chunk that continues the bytes held is written behind them, and only the last one is judged.\<close>

lemma receive_plan:
  assumes part: "holds_part fs d part" and offset: "length part = unat offset"
    and fits: "unat offset + length data \<le> unat (bd_encoded_size d)"
  obtains ms where "part_slot (apply_mutations ms fs) d = Content (part @ data) \<or> part_slot (apply_mutations ms fs) d = Absent \<and> part @ data = []"
    and "receive_blob_chunk H Z pick d offset data False fs = (Ok (Inr (of_nat (unat offset + length data))), ms)"
    and "unat offset + length data = unat (bd_encoded_size d) \<Longrightarrow> receive_blob_chunk H Z pick d offset data True fs =
      (case verify_encoded_blob H Z pick (Content (part @ data)) d of
         Inl e \<Rightarrow> (Err e, ms @ [drop_part d])
       | Inr _ \<Rightarrow> (Ok (Inr (bd_encoded_size d)), ms
           @ (if slot_exists (file_slot fs d) then [drop_file d] else []) @ [install d (part @ data)]))"
    and "unat offset + length data \<noteq> unat (bd_encoded_size d) \<Longrightarrow> receive_blob_chunk H Z pick d offset data True fs =
      (Ok (Inl (SizeMismatch (bd_encoded_size d) (of_nat (unat offset + length data)))), ms)"
proof -
  have len: "unat offset + length data < 2 ^ 64"
    using fits unsigned_less [of "bd_encoded_size d", where 'a = nat] by simp
  then have add: "add_len offset data = Some (of_nat (unat offset + length data))" by (simp add: add_len_def)
  have le: "\<not> bd_encoded_size d < of_nat (unat offset + length data)"
    using fits add_len_Some [OF add] by (simp add: word_less_nat_alt)
  have off: "of_nat (length part) = offset" using offset by (simp add: word_unat_eq_iff [symmetric])
  let ?s = "part_slot fs d"
  let ?ms = "(if slot_exists ?s then [] else [put_part d []]) @ map (\<lambda>k. put_part d (part @ take k data)) [Suc 0 ..< Suc (length data)]"
  have found: "read_slot (if slot_exists ?s then ?s else Content []) = Ok part"
    using part by (auto simp: holds_part_def)
  have "part_slot (apply_mutations ?ms fs) d = Content (part @ data) \<or> part_slot (apply_mutations ?ms fs) d = Absent \<and> part @ data = []"
    using part by (auto simp: part_slot_appends holds_part_def simp del: upt_Suc)
  moreover have "receive_blob_chunk H Z pick d offset data False fs = (Ok (Inr (of_nat (unat offset + length data))), ?ms)"
    unfolding receive_blob_chunk_def Let_def found sum.case using off add le by (simp del: upt_Suc)
  moreover have "receive_blob_chunk H Z pick d offset data True fs =
      (case verify_encoded_blob H Z pick (Content (part @ data)) d of
         Inl e \<Rightarrow> (Err e, ?ms @ [drop_part d])
       | Inr _ \<Rightarrow> (Ok (Inr (bd_encoded_size d)), ?ms
           @ (if slot_exists (file_slot fs d) then [drop_file d] else []) @ [install d (part @ data)]))"
    if "unat offset + length data = unat (bd_encoded_size d)"
    unfolding receive_blob_chunk_def Let_def found sum.case using off add le that by (simp del: upt_Suc split: sum.splits)
  moreover have "receive_blob_chunk H Z pick d offset data True fs =
      (Ok (Inl (SizeMismatch (bd_encoded_size d) (of_nat (unat offset + length data)))), ?ms)"
    if "unat offset + length data \<noteq> unat (bd_encoded_size d)"
  proof -
    have "of_nat (unat offset + length data) \<noteq> bd_encoded_size d"
      using that unat_of_nat_u64 [OF len] by auto
    then show ?thesis
      unfolding receive_blob_chunk_def Let_def found sum.case using off add le by (simp del: upt_Suc)
  qed
  ultimately show thesis by (rule that)
qed

lemma receive_accepts:
  assumes "holds_part fs d part" "length part = unat offset" "unat offset + length data \<le> unat (bd_encoded_size d)"
  shows "fst (receive_blob_chunk H Z pick d offset data False fs) = Ok (Inr (of_nat (unat offset + length data)))"
    "holds_part (after (receive_blob_chunk H Z pick d offset data False) fs) d (part @ data)"
  by (rule receive_plan [OF assms, of H Z pick]; auto simp: after_def holds_part_def)+

lemma receive_finishes:
  assumes "holds_part fs d part" "length part = unat offset" "unat offset + length data = unat (bd_encoded_size d)"
  shows "is_ok (verify_encoded_blob H Z pick (Content (part @ data)) d) \<Longrightarrow>
      fst (receive_blob_chunk H Z pick d offset data True fs) = Ok (Inr (bd_encoded_size d))"
    "is_ok (verify_encoded_blob H Z pick (Content (part @ data)) d) \<Longrightarrow>
      file_slot (after (receive_blob_chunk H Z pick d offset data True) fs) d = Content (part @ data)"
    "\<not> is_ok (verify_encoded_blob H Z pick (Content (part @ data)) d) \<Longrightarrow>
      \<not> is_ok (flatten (fst (receive_blob_chunk H Z pick d offset data True fs)))"
    "\<not> is_ok (verify_encoded_blob H Z pick (Content (part @ data)) d) \<Longrightarrow>
      part_slot (after (receive_blob_chunk H Z pick d offset data True) fs) d = Absent"
  by (rule receive_plan [OF assms(1,2), of data H Z pick];
      use assms(3) in \<open>auto simp: after_def is_ok_iff flatten_def split: sum.splits\<close>)+

definition serves :: "BlobSource \<Rightarrow> BlobDescriptor \<Rightarrow> nat \<Rightarrow> bytes \<Rightarrow> bool" where
  "serves source d n file \<longleftrightarrow> 0 < n \<and> length file = unat (bd_encoded_size d)
    \<and> (\<forall>clock offset. unat offset \<le> length file \<longrightarrow>
      bs_read_blob_chunk source clock d offset n = Ok (take n (drop (unat offset) file), length file - unat offset \<le> n))"

lemma local_source_serves:
  assumes "file_slot files d = Content file" "length file = unat (bd_encoded_size d)" "0 < n"
  shows "serves (LocalReplicaSource H Z pick peer files) d n file"
  using assms by (auto simp: serves_def LocalReplicaSource_def read_encoded_blob_chunk_def word_less_nat_alt unat_sub
    word_le_nat_alt min_def Let_def)

lemma chunk_loop_honest:
  assumes "serves source d n file" "holds_part fs d part" "length part = unat offset" "unat offset \<le> length file"
  shows "case chunk_loop H Z pick source d n start used offset clock report fs of (result, clock', report', fs') \<Rightarrow>
    if is_ok (verify_encoded_blob H Z pick (Content (part @ drop (unat offset) file)) d)
    then result = Completed \<and> file_slot fs' d = Content (part @ drop (unat offset) file)
    else part_slot fs' d = Absent \<and> (0 < start \<and> \<not> used \<longrightarrow> result = RetryClean) \<and> result \<noteq> Completed"
  using assms
proof (induction H Z pick source d n start used offset clock report fs arbitrary: part rule: chunk_loop.induct)
  case (1 H Z pick source d n start used offset clock report fs part)
  let ?data = "take n (drop (unat offset) file)" and ?fin = "length file - unat offset \<le> n"
  have size: "length file = unat (bd_encoded_size d)" and n: "0 < n"
    and read: "bs_read_blob_chunk source clock d offset n = Ok (?data, ?fin)"
    using 1(2,5) by (auto simp: serves_def)
  let ?recv = "receive_blob_chunk H Z pick d offset ?data ?fin"
  show ?case
  proof (cases ?fin)
    case True
    then have data: "?data = drop (unat offset) file" by simp
    have all: "unat offset + length ?data = unat (bd_encoded_size d)" using data size 1(5) by simp
    note fin_chunk = receive_finishes [OF 1(3,4) all, of H Z pick, unfolded data]
    show ?thesis
    proof (cases "is_ok (verify_encoded_blob H Z pick (Content (part @ drop (unat offset) file)) d)")
      case ok: True
      then show ?thesis using fin_chunk(1,2) True data
        by (subst chunk_loop.simps) (simp add: read Let_def flatten_def)
    next
      case bad: False
      then obtain e where "flatten (fst (?recv fs)) = Inl e"
        using fin_chunk(3) True data by (auto simp: is_ok_iff) (metis sum.exhaust)
      then show ?thesis using fin_chunk(4) bad True data
        by (subst chunk_loop.simps) (simp add: read Let_def partial_blob_offset_def)
    qed
  next
    case False
    have len: "length ?data = n" using False by simp
    have fits: "unat offset + length ?data \<le> unat (bd_encoded_size d)" using False len size by simp
    note next_chunk = receive_accepts [OF 1(3,4) fits, of H Z pick, unfolded len]
    let ?next = "of_nat (unat offset + n) :: u64"
    have unext: "unat ?next = unat offset + n"
      using fits len unsigned_less [of "bd_encoded_size d", where 'a = nat] by (intro unat_of_nat_u64) simp
    have step: "chunk_loop H Z pick source d n start used offset clock report fs =
        chunk_loop H Z pick source d n start used ?next (Suc clock) (record_bytes (bs_peer_id source) ?data report) (after ?recv fs)"
      using next_chunk(1) False n
      by (subst chunk_loop.simps) (auto simp: read Let_def flatten_def)
    have part': "holds_part (after ?recv fs) d (part @ ?data)" using next_chunk(2) False by simp
    have len': "length (part @ ?data) = unat ?next" "unat ?next \<le> length file"
      using 1(4) len unext fits size by simp_all
    have rest: "(part @ ?data) @ drop (unat ?next) file = part @ drop (unat offset) file"
      unfolding unext by (simp add: add.commute flip: drop_drop)
    have fst_flat: "flatten (fst (?recv fs)) = Ok ?next" using next_chunk(1) False by (simp add: flatten_def)
    show ?thesis
      unfolding step rest [symmetric]
      by (rule 1(1) [OF refl read refl _ refl refl fst_flat False 1(2) part' len']) (use False n in auto)
  qed
qed

text \<open>Whatever a source sends, the bytes held stay within the declared size, and a finished transfer is verified.\<close>

lemma receive_rejects:
  assumes part: "holds_part fs d part" and bound: "length part \<le> unat (bd_encoded_size d)"
    and bad: "length part \<noteq> unat offset \<or> unat (bd_encoded_size d) < unat offset + length data"
  shows "holds_part (after (receive_blob_chunk H Z pick d offset data finished) fs) d part"
    "\<not> is_ok (flatten (fst (receive_blob_chunk H Z pick d offset data finished fs)))"
proof -
  let ?s = "part_slot fs d"
  let ?opened = "if slot_exists ?s then [] else [put_part d []]"
  have found: "read_slot (if slot_exists ?s then ?s else Content []) = Ok part"
    using part by (auto simp: holds_part_def)
  have small: "length part < 2 ^ 64"
    using bound unsigned_less [of "bd_encoded_size d", where 'a = nat] by simp
  have "\<exists>e. receive_blob_chunk H Z pick d offset data finished fs = (Ok (Inl e), ?opened)"
  proof (cases "length part = unat offset")
    case False
    then have "of_nat (length part) \<noteq> offset" using unat_of_nat_u64 [OF small] by auto
    then show ?thesis unfolding receive_blob_chunk_def Let_def found sum.case by auto
  next
    case True
    then have "of_nat (length part) = offset" by simp
    moreover have "bd_encoded_size d < nxt" if "add_len offset data = Some nxt" for nxt
      using bad True add_len_Some [OF that] by (simp add: word_less_nat_alt)
    ultimately show ?thesis
      unfolding receive_blob_chunk_def Let_def found sum.case by (auto split: option.splits)
  qed
  then obtain e where plan: "receive_blob_chunk H Z pick d offset data finished fs = (Ok (Inl e), ?opened)" by blast
  show "holds_part (after (receive_blob_chunk H Z pick d offset data finished) fs) d part"
    unfolding after_def plan using part by (auto simp: holds_part_def)
  show "\<not> is_ok (flatten (fst (receive_blob_chunk H Z pick d offset data finished fs)))"
    by (simp add: plan flatten_def)
qed

lemma receive_bounded:
  assumes part: "holds_part fs d part" and bound: "length part \<le> unat (bd_encoded_size d)"
  shows "\<exists>part'. holds_part (after (receive_blob_chunk H Z pick d offset data finished) fs) d part' \<and> length part' \<le> unat (bd_encoded_size d)"
    "finished \<Longrightarrow> is_ok (flatten (fst (receive_blob_chunk H Z pick d offset data finished fs))) \<Longrightarrow>
      has_complete_blob H Z pick (after (receive_blob_chunk H Z pick d offset data finished) fs) d"
proof -
  let ?recv = "receive_blob_chunk H Z pick d offset data finished"
  have "(\<exists>part'. holds_part (after ?recv fs) d part' \<and> length part' \<le> unat (bd_encoded_size d))
    \<and> (finished \<and> is_ok (flatten (fst (?recv fs))) \<longrightarrow> has_complete_blob H Z pick (after ?recv fs) d)"
  proof (cases "length part = unat offset \<and> unat offset + length data \<le> unat (bd_encoded_size d)")
    case False
    with receive_rejects [OF part bound, of offset data H Z pick finished] bound show ?thesis by auto
  next
    case True
    then have len: "length part = unat offset" and fits: "unat offset + length data \<le> unat (bd_encoded_size d)" by auto
    obtain ms where ms: "part_slot (apply_mutations ms fs) d = Content (part @ data) \<or> part_slot (apply_mutations ms fs) d = Absent \<and> part @ data = []"
      and F: "receive_blob_chunk H Z pick d offset data False fs = (Ok (Inr (of_nat (unat offset + length data))), ms)"
      and T: "unat offset + length data = unat (bd_encoded_size d) \<Longrightarrow> receive_blob_chunk H Z pick d offset data True fs =
        (case verify_encoded_blob H Z pick (Content (part @ data)) d of
           Inl e \<Rightarrow> (Err e, ms @ [drop_part d])
         | Inr _ \<Rightarrow> (Ok (Inr (bd_encoded_size d)), ms
             @ (if slot_exists (file_slot fs d) then [drop_file d] else []) @ [install d (part @ data)]))"
      and M: "unat offset + length data \<noteq> unat (bd_encoded_size d) \<Longrightarrow> receive_blob_chunk H Z pick d offset data True fs =
        (Ok (Inl (SizeMismatch (bd_encoded_size d) (of_nat (unat offset + length data)))), ms)"
      by (rule receive_plan [OF part len fits, of H Z pick]) blast
    have ms_part: "holds_part (apply_mutations ms fs) d (part @ data) \<and> length (part @ data) \<le> unat (bd_encoded_size d)"
      using ms len fits by (auto simp: holds_part_def)
    show ?thesis
    proof (cases finished)
      case False
      with F ms_part show ?thesis by (auto simp: after_def)
    next
      case fin: True
      show ?thesis
      proof (cases "unat offset + length data = unat (bd_encoded_size d)")
        case False
        with M fin ms_part show ?thesis by (auto simp: after_def flatten_def)
      next
        case True
        have gone: "holds_part g d []" if "part_slot g d = Absent" for g using that by (simp add: holds_part_def)
        show ?thesis
          using T [OF True] fin
          by (cases "verify_encoded_blob H Z pick (Content (part @ data)) d")
            (auto simp: after_def flatten_def has_complete_blob_def intro!: exI [of _ "[]"] gone)
      qed
    qed
  qed
  then show "\<exists>part'. holds_part (after ?recv fs) d part' \<and> length part' \<le> unat (bd_encoded_size d)"
    "finished \<Longrightarrow> is_ok (flatten (fst (?recv fs))) \<Longrightarrow> has_complete_blob H Z pick (after ?recv fs) d" by auto
qed

definition resumable :: "world_files \<Rightarrow> BlobDescriptor \<Rightarrow> bool" where
  "resumable fs d \<longleftrightarrow> (\<exists>part. holds_part fs d part \<and> length part \<le> unat (bd_encoded_size d))"

lemma chunk_loop_any:
  assumes "resumable fs d"
  shows "case chunk_loop H Z pick source d n start used offset clock report fs of (result, clock', report', fs') \<Rightarrow>
    resumable fs' d \<and> (result = Completed \<longrightarrow> has_complete_blob H Z pick fs' d)"
  using assms
proof (induction H Z pick source d n start used offset clock report fs rule: chunk_loop.induct)
  case (1 H Z pick source d n start used offset clock report fs)
  have recv: "resumable (after (receive_blob_chunk H Z pick d offset data finished) fs) d"
    "finished \<Longrightarrow> is_ok (flatten (fst (receive_blob_chunk H Z pick d offset data finished fs))) \<Longrightarrow>
      has_complete_blob H Z pick (after (receive_blob_chunk H Z pick d offset data finished) fs) d" for data finished
    using receive_bounded 1(2) unfolding resumable_def by blast+
  show ?case
    using 1 recv
    by (subst chunk_loop.simps) (auto simp: Let_def is_ok_iff split: sum.splits prod.splits if_splits)
qed

lemma partial_offset_resumable:
  assumes "holds_part fs d part" "length part \<le> unat (bd_encoded_size d)"
  shows "partial_blob_offset d fs = Ok (of_nat (length part))"
  using assms by (auto simp: holds_part_def partial_blob_offset_def)

lemma source_attempt_loop:
  assumes "partial_blob_offset d fs = Ok offset"
  obtains report0 resumed' where "source_attempt H Z pick source d n used resumed clock report fs =
    (Ok (fst (chunk_loop H Z pick source d n offset used offset clock report0 fs)), resumed',
     snd (chunk_loop H Z pick source d n offset used offset clock report0 fs))"
  using assms that by (simp add: source_attempt_def Let_def split_beta)

lemma source_attempt_any:
  assumes res: "resumable fs d"
    and run: "source_attempt H Z pick source d n used resumed clock report fs = (r, resumed', clock', report', fs')"
  shows "resumable fs' d \<and> is_ok r \<and> (r = Ok Completed \<longrightarrow> has_complete_blob H Z pick fs' d)"
proof -
  obtain part :: bytes where off: "partial_blob_offset d fs = Ok (of_nat (length part))"
    using res partial_offset_resumable unfolding resumable_def by blast
  obtain report0 s where "source_attempt H Z pick source d n used resumed clock report fs =
    (Ok (fst (chunk_loop H Z pick source d n (of_nat (length part)) used (of_nat (length part)) clock report0 fs)), s,
     snd (chunk_loop H Z pick source d n (of_nat (length part)) used (of_nat (length part)) clock report0 fs))"
    by (rule source_attempt_loop [OF off])
  with run chunk_loop_any [OF res, of H Z pick source n "of_nat (length part)" used "of_nat (length part)" clock report0]
  show ?thesis by (auto simp: split_beta)
qed

lemma transfer_from_any:
  assumes res: "resumable fs d"
    and run: "transfer_from H Z pick source d n resumed clock report fs = (r, resumed', clock', report', fs')"
  shows "resumable fs' d \<and> is_ok r \<and> (r = Ok Completed \<longrightarrow> has_complete_blob H Z pick fs' d)"
proof -
  obtain r1 s1 c1 p1 f1 where one: "source_attempt H Z pick source d n False resumed clock report fs = (r1, s1, c1, p1, f1)"
    by (metis prod_cases5)
  note first = source_attempt_any [OF res one]
  show ?thesis
  proof (cases "r1 = Ok RetryClean")
    case True
    with run one have "source_attempt H Z pick source d n True s1 c1 p1 f1 = (r, resumed', clock', report', fs')"
      by (simp add: transfer_from_def)
    with first show ?thesis by (blast dest: source_attempt_any)
  next
    case False
    with run one first show ?thesis by (auto simp: transfer_from_def)
  qed
qed

lemma transfer_from_honest:
  assumes serves: "serves source d n file" and good: "is_ok (verify_encoded_blob H Z pick (Content file) d)"
    and res: "resumable fs d"
  shows "fst (transfer_from H Z pick source d n resumed clock report fs) = Ok Completed"
proof -
  obtain part where part: "holds_part fs d part" and len: "length part \<le> unat (bd_encoded_size d)"
    using res by (auto simp: resumable_def)
  let ?off = "of_nat (length part) :: u64" and ?whole = "part @ drop (length part) file"
  have size: "length file = unat (bd_encoded_size d)" using serves by (simp add: serves_def)
  have uoff: "unat ?off = length part"
    using len unsigned_less [of "bd_encoded_size d", where 'a = nat] by (intro unat_of_nat_u64) simp
  have offset: "partial_blob_offset d fs = Ok ?off" by (rule partial_offset_resumable [OF part len])
  have loop: "case chunk_loop H Z pick source d n start used ?off clock report fs of (result, clock', report', fs') \<Rightarrow>
    if is_ok (verify_encoded_blob H Z pick (Content ?whole) d)
    then result = Completed \<and> file_slot fs' d = Content ?whole
    else part_slot fs' d = Absent \<and> (0 < start \<and> \<not> used \<longrightarrow> result = RetryClean) \<and> result \<noteq> Completed" for start used report
    using chunk_loop_honest [OF serves part, of ?off H Z pick start used clock report, unfolded uoff] len size by simp
  have clean: "fst (source_attempt H Z pick source d n True resumed clock report g) = Ok Completed"
    if "part_slot g d = Absent" for g clock report resumed
  proof -
    have "partial_blob_offset d g = Ok 0" using that by (simp add: partial_blob_offset_def)
    then show ?thesis
      by (rule source_attempt_loop [of _ _ _ H Z pick source n True resumed clock report])
        (use chunk_loop_honest [OF serves, of g "[]" 0 H Z pick 0 True clock] that good in \<open>auto simp: holds_part_def split_beta\<close>)
  qed
  show ?thesis
  proof (rule source_attempt_loop [OF offset, of H Z pick source n False resumed clock report])
    fix report0 resumed'
    let ?c = "chunk_loop H Z pick source d n ?off False ?off clock report0 fs"
    assume run: "source_attempt H Z pick source d n False resumed clock report fs = (Ok (fst ?c), resumed', snd ?c)"
    show ?thesis
    proof (cases "is_ok (verify_encoded_blob H Z pick (Content ?whole) d)")
      case True
      then show ?thesis using loop [of ?off False report0] run by (auto simp: transfer_from_def split_beta)
    next
      case False
      then have "0 < ?off" using good uoff by (cases part) (auto simp: word_less_nat_alt)
      with False loop [of ?off False report0] clean run show ?thesis by (auto simp: transfer_from_def split_beta)
    qed
  qed
qed

lemma transfer_candidates_honest:
  assumes "serves source d n file" "is_ok (verify_encoded_blob H Z pick (Content file) d)" "resumable fs d"
    and "bt_get source_map peer = Some source" "peer \<in> set peers"
  shows "\<exists>clock' report' fs'. transfer_candidates H Z pick source_map d n last_error resumed clock report fs peers
    = (Ok (), clock', report', fs') \<and> has_complete_blob H Z pick fs' d"
  using assms(3,5)
proof (induction peers arbitrary: last_error resumed clock report fs)
  case (Cons p peers)
  show ?case
  proof (cases "bt_get source_map p")
    case None
    with Cons assms(4) show ?thesis by auto
  next
    case (Some src)
    define report1 where "report1 = with_stats p (\<lambda>stats. stats\<lparr>ss_attempted_blobs := Suc (ss_attempted_blobs stats)\<rparr>) report"
    obtain r s c q g where run: "transfer_from H Z pick src d n resumed clock report1 fs = (r, s, c, q, g)"
      by (metis prod_cases5)
    from transfer_from_any [OF Cons.prems(1) run] have ok: "resumable g d" "is_ok r"
      "r = Ok Completed \<longrightarrow> has_complete_blob H Z pick g d" by auto
    show ?thesis
    proof (cases "r = Ok Completed")
      case True
      with ok Some run show ?thesis by (simp add: report1_def [symmetric])
    next
      case False
      have "p \<noteq> peer"
        using False run Some assms(4) transfer_from_honest [OF assms(1,2) Cons.prems(1), of resumed clock report1] by auto
      with Cons.prems(2) have "peer \<in> set peers" by simp
      note rest = Cons.IH [OF ok(1) this]
      from ok(2) obtain result where "r = Ok result" by (auto simp: is_ok_iff)
      with False Some run rest show ?thesis by (cases result) (simp_all add: report1_def [symmetric])
    qed
  qed
qed simp

text \<open>
  C15. One honest source suffices.  If a replica that really has the blob is among the candidates of an assignment,
  the transfer of this blob succeeds whatever the other sources answer and whatever bytes an earlier, interrupted
  transfer left in the partial file, as long as they do not exceed the declared size; afterwards the receiver's
  blob is complete and verified.
\<close>

theorem one_honest_source_suffices:
  assumes "bt_get source_map peer = Some (LocalReplicaSource H Z pick' peer files)" "peer \<in> set (ba_candidates a)"
    and "has_complete_blob H Z pick' files (ba_descriptor a)" "0 < chunk_size" "resumable fs (ba_descriptor a)"
  shows "\<exists>clock' report' fs'. transfer_assignment H Z pick source_map chunk_size a clock report fs
    = (Ok (), clock', report', fs') \<and> has_complete_blob H Z pick fs' (ba_descriptor a)"
proof -
  let ?d = "ba_descriptor a"
  obtain blob where blob: "file_slot files ?d = Content blob" "length blob = unat (bd_encoded_size ?d)"
    "is_ok (verify_encoded_blob H Z pick (Content blob) ?d)"
    using assms(3) by (auto simp: has_complete_blob_def verify_encoded_blob_def stream_blob_Ok is_ok_iff)
  show ?thesis
    unfolding transfer_assignment_def
    by (rule transfer_candidates_honest [OF local_source_serves [OF blob(1,2) assms(4)] blob(3) assms(5,1,2)])
qed

section \<open>A reconstruction that succeeds is complete\<close>

lemma missing_from_Nil:
  assumes "missing_from complete seen es = []" "descriptors_consistent known es = Ok ()"
    and "\<forall>h. h \<in> seen \<longleftrightarrow> bt_get known h \<noteq> None" "\<forall>h d. bt_get known h = Some d \<longrightarrow> complete d"
  shows "\<forall>e\<in>set es. complete (se_blob e)"
  using assms
proof (induction es arbitrary: seen known)
  case (Cons e es)
  let ?d = "se_blob e"
  have here: "complete ?d"
    using Cons.prems by (auto simp: Let_def split: if_splits option.splits)
  moreover have "\<forall>e\<in>set es. complete (se_blob e)"
    by (rule Cons.IH [of "insert (bd_hash ?d) seen" "bt_insert (bd_hash ?d) ?d known"])
      (use Cons.prems here in \<open>auto simp: Let_def split: if_splits\<close>)
  ultimately show ?case by simp
qed simp

lemma missing_blobs_Nil:
  assumes "missing_blobs H Z pick m fs = []" "validate_descriptor_consistency m = Ok ()"
  shows "\<forall>e\<in>set (sm_entries m). has_complete_blob H Z pick fs (se_blob e)"
  using missing_from_Nil [of "has_complete_blob H Z pick fs" "{}" "sm_entries m" "[]"] assms
  by (simp add: missing_blobs_def validate_descriptor_consistency_def)

lemma has_complete_blob_files:
  "file_slot fs' d = file_slot fs d \<Longrightarrow> has_complete_blob H Z pick fs' d = has_complete_blob H Z pick fs d"
  by (simp add: has_complete_blob_def)

lemma answer_Ok: "fst (answer r) = Ok (Inr x) \<longleftrightarrow> r = Ok x" "snd (answer r) = []"
  by (auto simp: answer_def plan_simps split: sum.splits ReplicationError.splits)

lemma history_Ok:
  assumes "fst (validate_replica_history H m fs) = Ok (Inr ())"
  obtains current where "fst (latest_snapshot H (sm_world_id m) fs) = Ok current" "validate_replica_direct_extension H current m = Ok ()"
    "after (validate_replica_history H m) fs = after (latest_snapshot H (sm_world_id m)) fs"
proof (cases "SnapshotManifestV1_validate_semantics H m")
  case (Inl e)
  with assms show thesis by (simp add: validate_replica_history_def plan_simps)
next
  case (Inr u)
  with assms obtain current where c: "fst (latest_snapshot H (sm_world_id m) fs) = Ok current" "validate_replica_direct_extension H current m = Ok ()"
    by (auto simp: validate_replica_history_def fst_then answer_Ok)
  with Inr have "after (validate_replica_history H m) fs = after (latest_snapshot H (sm_world_id m)) fs"
    by (simp add: validate_replica_history_def after_then) (simp add: after_def answer_Ok)
  with c that show thesis by blast
qed

lemma extension_fresh:
  assumes latest: "fst (latest_snapshot H (sm_world_id m) f) = Ok current"
    and ext: "validate_replica_direct_extension H current m = Ok ()" and new: "current \<noteq> Some m"
  shows "slot_at (wf_snapshots f) (sm_snapshot_number m) = Absent"
proof -
  obtain head where ns: "fst (validate_canonical_snapshot_namespace H (sm_world_id m) f) = Ok ()"
    and head: "fst (load_or_initialize_canonical_head_locked H (sm_world_id m) f) = Ok head"
    and shape: "case hd_head head of None \<Rightarrow> current = None
      | Some r \<Rightarrow> \<exists>p. current = Some p \<and> slot_at (wf_snapshots f) (cr_snapshot_number r) = Content p \<and> sm_snapshot_number p = cr_snapshot_number r"
    using latest by (rule latest_Ok) blast
  have "highest_allowed (hd_head head) < sm_snapshot_number m"
    using shape ext new by (auto simp: validate_replica_direct_extension_def dest!: checked_succ_less split: option.splits if_splits)
  with namespace_Ok [OF ns head] have "sm_snapshot_number m \<notin> set (bt_keys (wf_snapshots f))"
    unfolding no_orphans_iff by force
  then have "bt_get (wf_snapshots f) (sm_snapshot_number m) = None"
    by (simp add: bt_get_map_of bt_keys_def map_of_eq_None_iff)
  then show ?thesis by (simp add: slot_at_def)
qed

lemma finalize_effect:
  assumes ok: "fst (finalize_replica H Z pick m fs) = Ok (Inr ())"
  shows "missing_blobs H Z pick m (after (validate_replica_history H m) fs) = []"
    "fst (latest_snapshot H (sm_world_id m) (after (finalize_replica H Z pick m) fs)) = Ok (Some m)"
proof -
  let ?w = "sm_world_id m" and ?commit = "commit_snapshot_streaming_inner H Z pick None m None"
  have hist: "fst (validate_replica_history H m fs) = Ok (Inr ())"
    using ok by (cases "fst (validate_replica_history H m fs)"; cases "the (result_ok (fst (validate_replica_history H m fs)))")
      (auto simp: finalize_replica_def fst_then plan_simps)
  then obtain current where c: "fst (latest_snapshot H ?w fs) = Ok current" "validate_replica_direct_extension H current m = Ok ()"
    and g1: "after (validate_replica_history H m) fs = after (latest_snapshot H ?w) fs" by (rule history_Ok)
  let ?g1 = "after (latest_snapshot H ?w) fs"
  let ?g2 = "after (latest_snapshot H ?w) ?g1"
  note one = latest_stable [OF c(1)] and two = latest_stable [OF latest_stable(1) [OF c(1)]]
  show missing: "missing_blobs H Z pick m (after (validate_replica_history H m) fs) = []"
    using ok hist by (auto simp: finalize_replica_def fst_then plan_simps split: if_splits)
  show "fst (latest_snapshot H ?w (after (finalize_replica H Z pick m) fs)) = Ok (Some m)"
  proof (cases "current = Some m")
    case True
    with hist one missing two show ?thesis
      by (simp add: finalize_replica_def after_then after_if after_reply g1)
  next
    case False
    have commit: "fst (?commit ?g2) = Ok ()"
      using ok hist one missing False by (simp add: finalize_replica_def fst_then g1)
    have fin: "after (finalize_replica H Z pick m) fs = after ?commit ?g2"
      using hist one missing False commit by (simp add: finalize_replica_def after_then after_if after_reply g1)
    have "perform ?commit None ?g2 = (Ok (), after ?commit ?g2)"
      using commit by (simp add: perform_def split_beta after_def)
    from commit_latest [OF two(2) extension_fresh [OF two(1) c(2) False] this] show ?thesis
      unfolding fin by simp
  qed
qed

lemma pins_keep_blobs: "plan_keeps (\<lambda>fs. blob_slot fs h coding) (remove_pin_paths token pins fs)"
  by (rule remove_pin_paths_keeps) (cases coding; simp)

lemma latest_pins:
  assumes "fst (latest_snapshot H w fs) = Ok latest"
  shows "fst (latest_snapshot H w (after (remove_pin_paths token pins) fs)) = Ok latest"
proof -
  obtain head where head: "fst (load_or_initialize_canonical_head_locked H w fs) = Ok head" using assms by (rule latest_Ok)
  have "fst (load_or_initialize_canonical_head_locked H w (after (remove_pin_paths token pins) fs)) = Ok head"
    unfolding head [symmetric]
    by (rule after_keeps [where f = "\<lambda>fs. fst (load_or_initialize_canonical_head_locked H w fs)"])
      (intro footprint arg_cong [where f = fst] head_files; simp)
  moreover have "wf_snapshots (after (remove_pin_paths token pins) fs) = wf_snapshots fs"
    by (rule after_keeps) (intro footprint; simp)
  ultimately show ?thesis using latest_same [OF head] assms by simp
qed

text \<open>
  C16. A reconstruction that reports success has restored the snapshot: every blob the manifest names is complete
  and verified in the receiver's store, and the manifest is the receiver's latest snapshot.
\<close>

theorem reconstruct_restores:
  assumes run: "reconstruct H Z pick gc_busy token observed m sources options fs = (Ok report, fs')"
  shows "(\<forall>e\<in>set (sm_entries m). has_complete_blob H Z pick fs' (se_blob e))
    \<and> fst (latest_snapshot H (sm_world_id m) fs') = Ok (Some m)"
proof -
  let ?fin = "finalize_replica H Z pick m"
  have cons: "validate_descriptor_consistency m = Ok ()"
    using run by (auto simp: reconstruct_def split: sum.splits)
  obtain g pins where fin: "flatten (fst (?fin g)) = Ok ()" and
      fs': "fs' = after ?fin g \<or> fs' = after (remove_pin_paths token pins) (after ?fin g)"
    using run
    by (auto simp: reconstruct_def finish_replica_def Let_def split: sum.splits prod.splits if_splits)
  then have ok: "fst (?fin g) = Ok (Inr ())" by (auto simp: flatten_def)
  have "blob_slot fs' h coding = blob_slot (after (validate_replica_history H m) g) h coding" for h coding
  proof -
    have "blob_slot fs' h coding = blob_slot (after ?fin g) h coding"
      using fs' after_keeps [where f = "\<lambda>fs. blob_slot fs h coding" and op = "remove_pin_paths token pins"]
        pins_keep_blobs by auto
    also have "\<dots> = blob_slot g h coding"
      by (rule after_keeps [where f = "\<lambda>fs. blob_slot fs h coding"]) (intro footprint; simp)
    also have "\<dots> = blob_slot (after (validate_replica_history H m) g) h coding"
      by (rule after_keeps [where f = "\<lambda>fs. blob_slot fs h coding", symmetric]) (intro footprint; simp)
    finally show ?thesis .
  qed
  with missing_blobs_Nil [OF finalize_effect(1) [OF ok] cons]
  have "\<forall>e\<in>set (sm_entries m). has_complete_blob H Z pick fs' (se_blob e)"
    by (simp add: has_complete_blob_def)
  moreover have "fst (latest_snapshot H (sm_world_id m) fs') = Ok (Some m)"
    using fs' finalize_effect(2) [OF ok] latest_pins by auto
  ultimately show ?thesis by blast
qed

section \<open>Assignment of sources\<close>

lemma mset_by_load [simp]: "mset (by_load assigned peers) = mset peers"
  by (simp add: by_load_def)

lemma by_load_Nil [simp]: "by_load assigned peers = [] \<longleftrightarrow> peers = []"
  by (metis mset_by_load mset_zero_iff)

lemma assign_from_covers:
  "case assign_from available assigned missing of
     Inl e \<Rightarrow> (\<exists>d\<in>set missing. sources_for available (bd_hash d) = [] \<and> e = NoSource (bd_hash d))
   | Inr assignments \<Rightarrow> map ba_descriptor assignments = missing
       \<and> list_all (\<lambda>a. ba_candidates a \<noteq> [] \<and> mset (ba_candidates a) = mset (sources_for available (bd_hash (ba_descriptor a)))) assignments"
proof (induction missing arbitrary: assigned)
  case (Cons d missing)
  note IH = Cons.IH
  show ?case
  proof (cases "by_load assigned (sources_for available (bd_hash d))")
    case Nil
    moreover from this have "sources_for available (bd_hash d) = []" by simp
    ultimately show ?thesis by (simp add: by_load_def)
  next
    case (Cons primary others)
    let ?assigned = "bt_insert primary (saturating_add (load_of assigned primary) (bd_encoded_size d)) assigned"
    have sources: "mset (sources_for available (bd_hash d)) = mset (primary # others)"
      using arg_cong [OF Cons, of mset] by simp
    show ?thesis
      using IH [of ?assigned] Cons sources by (cases "assign_from available ?assigned missing") (auto simp: Let_def)
  qed
qed simp

text \<open>
  Every missing blob is assigned to all of its sources.  The selector fails only for a blob no replica
  advertises, and names it; otherwise it returns one assignment per missing blob, in order, whose candidates are
  exactly the replicas that advertise the blob.
\<close>

theorem assignment_covers:
  "case assign missing available of
     Inl e \<Rightarrow> (\<exists>d\<in>set missing. sources_for available (bd_hash d) = [] \<and> e = NoSource (bd_hash d))
   | Inr assignments \<Rightarrow> map ba_descriptor assignments = missing
       \<and> list_all (\<lambda>a. ba_candidates a \<noteq> [] \<and> mset (ba_candidates a) = mset (sources_for available (bd_hash (ba_descriptor a)))) assignments"
  unfolding assign_def by (rule assign_from_covers)

section \<open>Concrete transfers\<close>

definition demo_blob :: BlobDescriptor where
  "demo_blob = \<lparr>bd_hash = Hash32 0, bd_uncompressed_size = 1, bd_encoded_size = 1, bd_encoding = Raw\<rparr>"

definition donor_files :: world_files where
  "donor_files = empty_files\<lparr>wf_raw_blobs := [(Hash32 0, Content [7])]\<rparr>"

text \<open>A source that answers every read with an empty, unfinished chunk.\<close>

definition stalling_source :: BlobSource where
  "stalling_source = \<lparr>bs_peer_id = PeerId 5, bs_has_blob = (\<lambda>_. True), bs_read_blob_chunk = (\<lambda>_ _ _ _. Ok ([], False))\<rparr>"

lemma donor_complete: "has_complete_blob demo_host plain_zstd (\<lambda>n. n) donor_files demo_blob"
proof -
  have "stream_blob demo_host plain_zstd (StIo OtherIo) (\<lambda>n. n) (file_slot donor_files demo_blob) demo_blob = Ok [7]"
    unfolding stream_blob_Ok
    by (simp add: donor_files_def demo_blob_def open_blob_def from_domain_bytes_def slot_at_def bt_get_def)
  then show ?thesis by (simp add: has_complete_blob_def verify_encoded_blob_def) (simp add: donor_files_def demo_blob_def slot_at_def bt_get_def)
qed

theorem one_honest_source_suffices_witness:
  "\<exists>clock' report' fs'. transfer_assignment demo_host plain_zstd (\<lambda>n. n)
      (bt_from_list [(PeerId 5, stalling_source), (PeerId 7, LocalReplicaSource demo_host plain_zstd (\<lambda>n. n) (PeerId 7) donor_files)])
      4 \<lparr>ba_descriptor = demo_blob, ba_candidates = [PeerId 5, PeerId 7]\<rparr> 0 ReplicationReport_default empty_files
    = (Ok (), clock', report', fs') \<and> has_complete_blob demo_host plain_zstd (\<lambda>n. n) fs' demo_blob"
proof -
  let ?map = "bt_from_list [(PeerId 5, stalling_source), (PeerId 7, LocalReplicaSource demo_host plain_zstd (\<lambda>n. n) (PeerId 7) donor_files)]"
  have "bt_get ?map (PeerId 7) = Some (LocalReplicaSource demo_host plain_zstd (\<lambda>n. n) (PeerId 7) donor_files)"
    by (simp add: bt_from_list_get)
  moreover have "resumable empty_files demo_blob"
    by (auto simp: resumable_def holds_part_def part_slot_def demo_blob_def empty_files_def slot_at_def)
  ultimately show ?thesis
    using one_honest_source_suffices [of ?map "PeerId 7" demo_host plain_zstd "\<lambda>n. n" donor_files
        "\<lparr>ba_descriptor = demo_blob, ba_candidates = [PeerId 5, PeerId 7]\<rparr>" 4 empty_files "\<lambda>n. n" 0 ReplicationReport_default] donor_complete
    by simp
qed

lemma first_latest: "fst (latest_snapshot demo_host (WorldId 7) empty_files) = Ok None"
proof -
  have "fst (load_or_initialize_canonical_head_locked demo_host (WorldId 7) empty_files) = Ok (head_of None)"
    by (simp add: first_head plan_simps)
  from latest_value [OF this] namespace_Ok [OF first_namespace this] show ?thesis by simp
qed

lemma first_finalize: "fst (finalize_replica demo_host plain_zstd (\<lambda>n. n) first_manifest empty_files) = Ok (Inr ())"
proof -
  let ?w = "WorldId 7"
  let ?g1 = "after (latest_snapshot demo_host ?w) empty_files"
  let ?g2 = "after (latest_snapshot demo_host ?w) ?g1"
  have world: "sm_world_id first_manifest = ?w" by (simp add: first_manifest_def)
  have sem: "SnapshotManifestV1_validate_semantics demo_host first_manifest = Ok ()"
    by (simp add: SnapshotManifestV1_validate_semantics_def first_manifest_def snapshot_state_root_def to_allocvec_def
      from_domain_bytes_def require_protocol_version_def require_snapshot_entry_order_def ascending_by_def)
  have ext: "validate_replica_direct_extension demo_host None first_manifest = Ok ()"
    by (simp add: validate_replica_direct_extension_def first_manifest_def)
  have hist: "fst (validate_replica_history demo_host first_manifest empty_files) = Ok (Inr ())"
    by (simp add: validate_replica_history_def sem fst_then world first_latest ext answer_Ok)
  obtain current where "after (validate_replica_history demo_host first_manifest) empty_files = ?g1"
    using hist by (rule history_Ok) (simp add: world)
  note g1 = this
  have two: "fst (latest_snapshot demo_host ?w ?g1) = Ok None" "fst (latest_snapshot demo_host ?w ?g2) = Ok None"
    using latest_stable(1) first_latest by blast+
  have "fst (load_or_initialize_canonical_head_locked demo_host ?w ?g2) = Ok (head_of None)"
    by (intro latest_head_stable [OF two(1)] latest_head_stable [OF first_latest]) (simp add: first_head plan_simps)
  moreover have "wf_snapshots ?g2 = wf_snapshots empty_files" "wf_epoch ?g2 = wf_epoch empty_files"
    by (simp_all add: after_keeps [where f = wf_snapshots] after_keeps [where f = wf_epoch] footprint)
  ultimately have commit: "fst (commit_snapshot_streaming_inner demo_host plain_zstd (\<lambda>n. n) None first_manifest None ?g2) = Ok ()"
    by (intro first_commit_at) (simp_all add: empty_files_def)
  have none: "missing_blobs demo_host plain_zstd (\<lambda>n. n) first_manifest ?g1 = []"
    by (simp add: missing_blobs_def first_manifest_def)
  show ?thesis
    by (simp add: finalize_replica_def fst_then hist g1 none world two commit plan_simps)
qed

theorem reconstruct_restores_witness:
  "\<exists>report fs'. reconstruct demo_host plain_zstd (\<lambda>n. n) False 0 1 first_manifest [] ReplicationOptions_default empty_files = (Ok report, fs')
    \<and> fst (latest_snapshot demo_host (WorldId 7) fs') = Ok (Some first_manifest)"
proof -
  have none: "missing_blobs demo_host plain_zstd (\<lambda>n. n) first_manifest empty_files = []"
    by (simp add: missing_blobs_def first_manifest_def)
  have consistent: "validate_descriptor_consistency first_manifest = Ok ()"
    by (simp add: validate_descriptor_consistency_def first_manifest_def)
  have "reconstruct demo_host plain_zstd (\<lambda>n. n) False 0 1 first_manifest [] ReplicationOptions_default empty_files
      = (Ok ReplicationReport_default, after (finalize_replica demo_host plain_zstd (\<lambda>n. n) first_manifest) empty_files)"
    by (simp add: reconstruct_def validate_options_def ReplicationOptions_default_def DEFAULT_PARALLEL_BLOBS_def
      MAX_PARALLEL_BLOBS_def DEFAULT_REPLICATION_CHUNK_SIZE_def MAX_REPLICATION_CHUNK_SIZE_def none finish_replica_def
      first_finalize flatten_def consistent Let_def)
  from reconstruct_restores [OF this] this show ?thesis by (auto simp: first_manifest_def)
qed

end
