(* ===== verification/PromiseStore.thy ===== *)
theory PromiseStore
  imports ControlStore
begin

text \<open>
  The durable recovery promise of \<open>swarm-storage/src/state.rs\<close> as a register: it refines the recovery rule of
  \<open>swarm-consensus/src/recovery.rs\<close>, its round never falls, and one round never holds two ballots.
\<close>

section \<open>The durable recovery promise\<close>

definition promise_admits :: "host \<Rightarrow> world_files \<Rightarrow> RecoveryBallotV1 \<Rightarrow> RecoveryVoteV1 \<Rightarrow> bool" where
  "promise_admits H fs ballot vote \<longleftrightarrow> matches_ballot H vote ballot = Ok True
    \<and> (case wf_recovery_promise fs of
         Content held \<Rightarrow> rb_round (drp_ballot held) < rb_round ballot \<and> same_recovery_base (drp_ballot held) ballot
       | s \<Rightarrow> s = Absent)"

lemma load_recovery_promise_Ok:
  "load_recovery_promise H w fs = Ok p \<Longrightarrow> wf_recovery_promise fs = Content p \<and> matches_ballot H (drp_vote p) (drp_ballot p) = Ok True
    \<and> rb_world_id (drp_ballot p) = w"
  by (auto simp: load_recovery_promise_def split: if_splits)

lemma load_recovery_promise_NotFound:
  "load_recovery_promise H w fs = Err (StIo NotFound) \<Longrightarrow> wf_recovery_promise fs = Absent"
  by (cases "wf_recovery_promise fs") (auto simp: load_recovery_promise_def and_then_eq_Err protocol_def map_err_eq_Err split: if_splits)

lemma promise_mutations:
  "snd (promise_recovery_ballot H ballot vote fs) = [] \<or>
    snd (promise_recovery_ballot H ballot vote fs) = [\<lambda>fs. fs\<lparr>wf_recovery_promise := Content \<lparr>drp_ballot = ballot, drp_vote = vote\<rparr>\<rparr>]
      \<and> promise_admits H fs ballot vote"
  by (auto simp: promise_recovery_ballot_def write_recovery_promise_def snd_check plan_simps Let_def promise_admits_def protocol_def
      map_err_eq_Err split: sum.splits if_splits dest!: load_recovery_promise_Ok load_recovery_promise_NotFound)

definition promise_round :: "world_files \<Rightarrow> u64 option" where
  "promise_round fs = (case wf_recovery_promise fs of Content p \<Rightarrow> Some (rb_round (drp_ballot p)) | _ \<Rightarrow> None)"

definition promise_upd :: "host \<Rightarrow> world_files \<Rightarrow> RecoveryBallotV1 \<times> RecoveryVoteV1 \<Rightarrow> (StorageError, world_files) result" where
  "promise_upd H fs request =
    (case promise_recovery_ballot H (fst request) (snd request) fs of
       (Inl e, ms) \<Rightarrow> Err e
     | (Inr _, ms) \<Rightarrow> Ok (apply_mutations ms fs))"

lemma promise_upd_cases:
  assumes "promise_upd H fs request = Ok fs'"
  shows "fs' = fs \<or> fs' = fs\<lparr>wf_recovery_promise := Content \<lparr>drp_ballot = fst request, drp_vote = snd request\<rparr>\<rparr>
    \<and> promise_admits H fs (fst request) (snd request)"
  using assms promise_mutations [of H "fst request" "snd request" fs]
  by (cases "promise_recovery_ballot H (fst request) (snd request) fs") (auto simp: promise_upd_def split: sum.splits)

interpretation promise_store: exclusive_register "promise_upd H" promise_round wf_recovery_promise for H
proof
  show "promise_round fs \<le> promise_round fs'" if "promise_upd H fs request = Ok fs'" for fs request fs'
    using promise_upd_cases [OF that] by (auto simp: promise_round_def promise_admits_def split: slot.splits)
  show "wf_recovery_promise fs' = wf_recovery_promise fs"
    if "promise_upd H fs request = Ok fs'" "promise_round fs = Some g" "promise_round fs' = Some g" for fs request fs' g
    using promise_upd_cases [OF that(1)] that(2,3) by (auto simp: promise_round_def promise_admits_def split: slot.splits)
qed

lemma promise_written:
  assumes "RecoveryBallotV1_validate_semantics ballot = Ok ()" "RecoveryVoteV1_validate_semantics vote = Ok ()"
    and "matches_ballot H vote ballot = Ok True"
    and "wf_recovery_promise fs = Content \<lparr>drp_ballot = ballot, drp_vote = vote\<rparr>"
  shows "load_recovery_promise H (rb_world_id ballot) fs = Ok \<lparr>drp_ballot = ballot, drp_vote = vote\<rparr>"
proof -
  have "rv_world_id vote = rb_world_id ballot" using assms(3) by (auto simp: matches_ballot_def split: if_splits)
  with assms show ?thesis by (simp add: load_recovery_promise_def protocol_def)
qed

text \<open>
  C14. The durable promise refines the recovery rule.  On a ballot and vote that pass the preliminary checks, the
  store answers exactly as the consensus rule decides from the ballot it holds: it accepts when the rule accepts,
  repeats when the rule calls the ballot idempotent and rejects when the rule errs; and what it then holds is the
  new ballot after an acceptance and the old one otherwise.
\<close>

theorem promise_store_refines_rule:
  assumes "fst (promise_recovery_ballot H ballot vote fs) = Ok answer"
    and "matches_ballot H vote ballot = Ok True"
    and "peer_id_from_public_key H (rb_candidate_public_key ballot) = rb_candidate_peer_id ballot"
    and "peer_id_from_public_key H (rv_voter_public_key vote) = rv_voter_peer_id vote"
  shows "let held = \<lambda>fs. map_option drp_ballot (result_ok (load_recovery_promise H (rb_world_id ballot) fs));
      rule = evaluate_recovery_ballot H (held fs) ballot in
    (answer = RecoveryAccepted \<longleftrightarrow> rule = Ok Accept) \<and> (answer = RecoveryIdempotent \<longleftrightarrow> rule = Ok Idempotent)
    \<and> held (after (promise_recovery_ballot H ballot vote) fs) = (if answer = RecoveryAccepted then Some ballot else held fs)"
proof -
  let ?w = "rb_world_id ballot" and ?op = "promise_recovery_ballot H ballot vote"
  have sem: "RecoveryBallotV1_validate_semantics ballot = Ok ()" "RecoveryVoteV1_validate_semantics vote = Ok ()"
    using assms(1) by (auto simp: promise_recovery_ballot_def fst_check)
  then have gen: "generation_is_well_formed ballot"
    by (auto simp: RecoveryBallotV1_validate_semantics_def)
  have body: "?op fs = (case load_recovery_promise H ?w fs of
        Inl e \<Rightarrow> if e = StIo NotFound then write_recovery_promise H ballot vote else refuse e
      | Inr existing \<Rightarrow>
          let held = drp_ballot existing in
          if rb_round ballot < rb_round held then reply (RecoveryRejected (rb_round held))
          else if rb_round ballot = rb_round held then
            check (protocol (ballot_hash H ballot)) (\<lambda>proposed_hash.
            check (protocol (ballot_hash H held)) (\<lambda>held_hash.
            if proposed_hash = held_hash then reply RecoveryIdempotent
            else reply (RecoveryRejected (rb_round held))))
          else if \<not> same_recovery_base held ballot then reply (RecoveryRejected (rb_round held))
          else write_recovery_promise H ballot vote)"
    using assms(2-4) sem by (simp add: promise_recovery_ballot_def protocol_def)
  have written: "load_recovery_promise H ?w (after ?op fs) = Ok \<lparr>drp_ballot = ballot, drp_vote = vote\<rparr>"
    if "?op fs = write_recovery_promise H ballot vote" "answer = RecoveryAccepted"
    by (rule promise_written [OF sem assms(2)])
      (use that assms(1) in \<open>auto simp: after_def write_recovery_promise_def fst_check snd_check plan_simps\<close>)
  have accepted: "answer = RecoveryAccepted" if "?op fs = write_recovery_promise H ballot vote"
    using that assms(1) by (auto simp: write_recovery_promise_def fst_check plan_simps)
  show ?thesis
  proof (cases "load_recovery_promise H ?w fs")
    case (Inl e)
    with body assms(1) have "?op fs = write_recovery_promise H ballot vote" by (auto simp: plan_simps split: if_splits)
    with accepted written Inl gen show ?thesis by (simp add: evaluate_recovery_ballot_def)
  next
    case (Inr existing)
    let ?held = "drp_ballot existing"
    have base: "same_recovery_base ?held ballot \<longleftrightarrow> same_canonical_base ?held ballot
        \<and> rb_candidate_peer_id ?held = rb_candidate_peer_id ballot \<and> rb_candidate_public_key ?held = rb_candidate_public_key ballot"
      by (auto simp: same_recovery_base_def same_canonical_base_def)
    have quiet: "after ?op fs = fs" if "snd (?op fs) = []" using that by (simp add: after_def)
    consider "rb_round ballot < rb_round ?held" | "rb_round ballot = rb_round ?held"
      | "rb_round ?held < rb_round ballot" "\<not> same_recovery_base ?held ballot"
      | "rb_round ?held < rb_round ballot" "same_recovery_base ?held ballot" by fastforce
    then show ?thesis
    proof cases
      case 1
      with body Inr have "?op fs = reply (RecoveryRejected (rb_round ?held))" by (auto simp: Let_def)
      with 1 quiet assms(1) Inr gen show ?thesis by (auto simp: evaluate_recovery_ballot_def plan_simps)
    next
      case 2
      with body Inr assms(1) obtain h1 h2 where h: "ballot_hash H ballot = Ok h1" "ballot_hash H ?held = Ok h2"
        "?op fs = reply (if h1 = h2 then RecoveryIdempotent else RecoveryRejected (rb_round ?held))"
        by (cases "ballot_hash H ballot"; cases "ballot_hash H ?held") (auto simp: Let_def plan_simps protocol_def split: if_splits)
      with 2 quiet assms(1) Inr gen show ?thesis
        by (auto simp: evaluate_recovery_ballot_def plan_simps split: if_splits)
    next
      case 3
      with body Inr have "?op fs = reply (RecoveryRejected (rb_round ?held))" by (auto simp: Let_def)
      with 3 quiet assms(1) Inr gen base show ?thesis by (auto simp: evaluate_recovery_ballot_def plan_simps)
    next
      case 4
      with body Inr have "?op fs = write_recovery_promise H ballot vote" by (auto simp: Let_def)
      with 4 accepted written Inr gen base show ?thesis by (auto simp: evaluate_recovery_ballot_def)
    qed
  qed
qed

abbreviation sample_vote :: "u64 \<Rightarrow> RecoveryVoteV1" where
  "sample_vote round \<equiv> \<lparr>rv_protocol_version = PROTOCOL_VERSION, rv_world_id = WorldId 1, rv_ballot_hash = Hash32 0,
    rv_base_epoch = 4, rv_target_epoch = 5, rv_round = round, rv_candidate_peer_id = PeerId 0,
    rv_voter_peer_id = PeerId 0, rv_voter_public_key = 7, rv_signature = []\<rparr>"

lemma sample_matches: "matches_ballot (reference_host (\<lambda>_. 0)) (sample_vote r) (sample_ballot r) = Ok True"
  by (simp add: matches_ballot_def ballot_hash_def RecoveryBallotV1_signing_bytes_def frame_def to_allocvec_def from_domain_bytes_def)

theorem promise_store_refines_rule_witness:
  "fst (promise_recovery_ballot (reference_host (\<lambda>_. 0)) (sample_ballot 3) (sample_vote 3) empty_files) = Ok RecoveryAccepted
    \<and> evaluate_recovery_ballot (reference_host (\<lambda>_. 0)) None (sample_ballot 3) = Ok Accept"
proof -
  let ?H = "reference_host (\<lambda>_. 0)"
  have absent: "load_recovery_promise ?H (WorldId 1) empty_files = Err (StIo NotFound)"
    by (simp add: load_recovery_promise_def empty_files_def)
  have "fst (promise_recovery_ballot ?H (sample_ballot 3) (sample_vote 3) empty_files) = Ok RecoveryAccepted"
    by (simp add: promise_recovery_ballot_def RecoveryBallotV1_validate_semantics_def RecoveryVoteV1_validate_semantics_def
      require_protocol_version_def sample_ballot_well_formed sample_matches protocol_def absent peer_id_from_public_key_def
      write_recovery_promise_def encode_def to_allocvec_def plan_simps)
  with promise_store_refines_rule [OF this sample_matches] absent show ?thesis
    by (simp add: peer_id_from_public_key_def Let_def)
qed

end
