(* ===== verification/SnapshotTree.thy ===== *)
theory SnapshotTree
  imports Retention "HOL-Library.Sublist"
begin

text \<open>
  Snapshots of a directory and their restoration: \<open>snapshot_directory_streaming\<close>, \<open>put_file_blob_streaming\<close>,
  \<open>restore_snapshot_streaming\<close> and \<open>discard_incomplete_restore\<close> of \<open>swarm-storage/src/streaming.rs\<close>.

  A directory is the sorted map from the paths below it, as lists of names, to their nodes.  Its order is the
  order of \<open>Path\<close>, which puts a directory before what it holds, so the list is one that \<open>WalkDir\<close> may return and
  its files are in the order \<open>files.sort()\<close> gives.  A name is the list of its bytes.
\<close>

section \<open>Directory trees\<close>

text \<open>A regular file whose content can be read or not, a directory, a symbolic link, or anything else.\<close>

datatype node = FileNode "bytes option" | DirNode | LinkNode | OtherNode

type_synonym tree = "(string list, node) btree_map"

text \<open>
  What a path names: nothing, a file that is not a directory, a symbolic link (and whether the restore marker is
  visible through it), or a directory.
\<close>

datatype place = NoPlace | FilePlace | LinkPlace bool | DirPlace tree

definition node_at :: "place \<Rightarrow> string list \<Rightarrow> node option" where
  "node_at pl p = (case pl of DirPlace t \<Rightarrow> bt_get t p | _ \<Rightarrow> None)"

definition put_node :: "string list \<Rightarrow> node \<Rightarrow> place \<Rightarrow> place" where
  "put_node p n pl = (case pl of DirPlace t \<Rightarrow> DirPlace (bt_insert p n t) | _ \<Rightarrow> pl)"

definition drop_node :: "string list \<Rightarrow> place \<Rightarrow> place" where
  "drop_node p pl = (case pl of DirPlace t \<Rightarrow> DirPlace (bt_remove p t) | _ \<Rightarrow> pl)"

definition tree_files :: "tree \<Rightarrow> (string list \<times> bytes option) list" where
  "tree_files t = List.map_filter (\<lambda>(p, n). case n of FileNode b \<Rightarrow> Some (p, b) | _ \<Rightarrow> None) t"

definition find_link :: "tree \<Rightarrow> string list option" where
  "find_link t = map_option fst (find (\<lambda>e. snd e = LinkNode) t)"

text \<open>\<open>OsStr::to_str\<close>: the bytes of a name are UTF-8.\<close>

definition utf8_continuation :: "nat \<Rightarrow> bool" where
  "utf8_continuation b \<longleftrightarrow> 0x80 \<le> b \<and> b \<le> 0xBF"

definition utf8_second :: "nat \<Rightarrow> nat \<Rightarrow> bool" where
  "utf8_second a b \<longleftrightarrow> (if a = 0xE0 then 0xA0 \<le> b \<and> b \<le> 0xBF
    else if a = 0xED then 0x80 \<le> b \<and> b \<le> 0x9F
    else if a = 0xF0 then 0x90 \<le> b \<and> b \<le> 0xBF
    else if a = 0xF4 then 0x80 \<le> b \<and> b \<le> 0x8F
    else utf8_continuation b)"

fun is_utf8 :: "nat list \<Rightarrow> bool" where
  "is_utf8 [] = True"
| "is_utf8 (a # bs) =
    (if a < 0x80 then is_utf8 bs
     else if 0xC2 \<le> a \<and> a \<le> 0xDF then (case bs of b # rest \<Rightarrow> utf8_continuation b \<and> is_utf8 rest | _ \<Rightarrow> False)
     else if 0xE0 \<le> a \<and> a \<le> 0xEF then
       (case bs of b # c # rest \<Rightarrow> utf8_second a b \<and> utf8_continuation c \<and> is_utf8 rest | _ \<Rightarrow> False)
     else if 0xF0 \<le> a \<and> a \<le> 0xF4 then
       (case bs of b # c # d # rest \<Rightarrow> utf8_second a b \<and> utf8_continuation c \<and> utf8_continuation d \<and> is_utf8 rest | _ \<Rightarrow> False)
     else False)"

abbreviation join_path :: "string list \<Rightarrow> string" where
  "join_path p \<equiv> join_with (CHR ''/'') p"

abbreviation split_path :: "string \<Rightarrow> string list" where
  "split_path s \<equiv> split_on (CHR ''/'') s"

definition portable_relative_path :: "string list \<Rightarrow> (StorageError, string) result" where
  "portable_relative_path path =
    and_then (for_each (\<lambda>part. ensure (is_utf8 (map byte_of part)) (NonUtf8Path (join_path path))) path) (\<lambda>_.
    and_then (validate_portable_path (join_path path)) (\<lambda>_. Ok (join_path path)))"

section \<open>Taking a snapshot\<close>

record SnapshotContext =
  sc_world :: WorldId
  sc_snapshot_number :: u64
  sc_epoch :: u64
  sc_sequence :: u64
  sc_previous_snapshot_hash :: "Hash32 option"
  sc_authority_peer_id :: PeerId
  sc_authority_public_key :: bytes32

definition insert_zst_blob :: "Hash32 \<Rightarrow> bytes \<Rightarrow> mutation" where
  "insert_zst_blob hash encoded fs = fs\<lparr>wf_zst_blobs := bt_insert hash (Content encoded) (wf_zst_blobs fs)\<rparr>"

definition put_file_blob_streaming ::
    "host \<Rightarrow> zstd \<Rightarrow> (nat \<Rightarrow> nat) \<Rightarrow> SnapshotPublicationLease \<Rightarrow> bytes option \<Rightarrow> world_files
      \<Rightarrow> (SnapshotPublicationLease \<times> BlobDescriptor) plan" where
  "put_file_blob_streaming H Z pick lease source fs =
    check (ok_or source (StIo OtherIo)) (\<lambda>content.
    check (ensure (length content < 2 ^ 64) SnapshotNumberExhausted) (\<lambda>_.
    check (ok_or (zc_stream Z content) (StIo OtherIo)) (\<lambda>encoded.
    let hash = hash_uncompressed H content;
        descriptor = \<lparr>bd_hash = hash, bd_uncompressed_size = of_nat (length content),
          bd_encoded_size = of_nat (length encoded), bd_encoding = Zstd\<rparr> in
    then_plan (pin_hash lease hash) (\<lambda>lease fs.
    if slot_exists (blob_slot fs hash Zstd) then
      check (read_slot (blob_slot fs hash Zstd)) (\<lambda>present.
      let existing = descriptor\<lparr>bd_encoded_size := of_nat (length present)\<rparr> in
      if is_ok (verify_encoded_blob_streaming H Z pick (blob_slot fs hash Zstd) existing) then reply (lease, existing)
      else store (lease, descriptor) [remove_zst_blob hash, insert_zst_blob hash encoded])
    else store (lease, descriptor) [insert_zst_blob hash encoded]) fs)))"

primrec put_files ::
    "host \<Rightarrow> zstd \<Rightarrow> (nat \<Rightarrow> nat) \<Rightarrow> SnapshotPublicationLease \<Rightarrow> (string list \<times> bytes option) list \<Rightarrow> world_files
      \<Rightarrow> (SnapshotPublicationLease \<times> SnapshotEntry list) plan" where
  "put_files H Z pick lease [] = (\<lambda>_. reply (lease, []))"
| "put_files H Z pick lease (f # files) = (\<lambda>fs.
    check (portable_relative_path (fst f)) (\<lambda>relative.
    then_plan (put_file_blob_streaming H Z pick lease (snd f)) (\<lambda>(lease, blob).
    then_plan (put_files H Z pick lease files) (\<lambda>(lease, entries) _.
    reply (lease, \<lparr>se_path = relative, se_blob = blob\<rparr> # entries))) fs))"

text \<open>Dropping a lease releases its owner lock; the directory stays until it is recovered.\<close>

definition drop_owner :: "string \<Rightarrow> mutation" where
  "drop_owner publication_id fs =
    (case bt_get (wf_publications fs) publication_id of
       None \<Rightarrow> fs
     | Some dir \<Rightarrow> fs\<lparr>wf_publications := bt_insert publication_id (dir\<lparr>pb_owner_held := False\<rparr>) (wf_publications fs)\<rparr>)"

text \<open>What opening a store does in each world: publications whose owner lock is free are removed.\<close>

definition recover_abandoned_snapshot_publications :: "world_files \<Rightarrow> unit plan" where
  "recover_abandoned_snapshot_publications = then_plan read_live_snapshot_publication_hashes (\<lambda>_ _. reply ())"

definition dropping_lease :: "string \<Rightarrow> 'a plan \<Rightarrow> 'a plan" where
  "dropping_lease publication_id p =
    (case fst p of Inl e \<Rightarrow> (Err e, snd p @ [drop_owner publication_id]) | Inr x \<Rightarrow> p)"

definition snapshot_manifest :: "SnapshotContext \<Rightarrow> SnapshotEntry list \<Rightarrow> Hash32 \<Rightarrow> SnapshotManifestV1" where
  "snapshot_manifest context entries state_root =
    \<lparr>sm_protocol_version = PROTOCOL_VERSION, sm_world_id = sc_world context,
      sm_snapshot_number = sc_snapshot_number context, sm_epoch = sc_epoch context, sm_sequence = sc_sequence context,
      sm_previous_snapshot_hash = sc_previous_snapshot_hash context, sm_entries = entries, sm_state_root = state_root,
      sm_authority_peer_id = sc_authority_peer_id context, sm_authority_public_key = sc_authority_public_key context,
      sm_signature = []\<rparr>"

definition snapshot_directory_streaming ::
    "host \<Rightarrow> zstd \<Rightarrow> (nat \<Rightarrow> nat) \<Rightarrow> string list \<Rightarrow> string \<Rightarrow> place \<Rightarrow> SnapshotContext \<Rightarrow> world_files
      \<Rightarrow> (SnapshotManifestV1 \<times> SnapshotPublicationLease) plan" where
  "snapshot_directory_streaming H Z pick ids path source context fs =
    (case source of
       DirPlace t \<Rightarrow>
         (case find_link t of
            Some p \<Rightarrow> refuse (SymlinkUnsupported (join_path p))
          | None \<Rightarrow>
              then_plan (begin_snapshot_publication (sc_world context) ids) (\<lambda>lease fs.
              dropping_lease (pl_publication_id lease)
                (then_plan (put_files H Z pick lease (tree_files t)) (\<lambda>(lease, entries) _.
                let entries = sort_key se_path entries in
                check (validate_manifest_paths entries) (\<lambda>_.
                check (protocol (snapshot_state_root H entries)) (\<lambda>state_root.
                reply (snapshot_manifest context entries state_root, lease)))) fs)) fs)
     | _ \<Rightarrow> refuse (SourceNotDirectory path))"

section \<open>Restoring a snapshot\<close>

definition RESTORE_INCOMPLETE_MARKER :: string where
  "RESTORE_INCOMPLETE_MARKER = ''.swarmcraft-restore-incomplete''"

abbreviation restore_marker :: "string list" where
  "restore_marker \<equiv> [RESTORE_INCOMPLETE_MARKER]"

definition marker_node :: node where
  "marker_node = FileNode (Some (map (\<lambda>c. of_nat (byte_of c)) ''swarmcraft-restore-incomplete-v1'' @ [10]))"

definition marker_exists :: "place \<Rightarrow> bool" where
  "marker_exists pl = (case pl of DirPlace t \<Rightarrow> bt_get t restore_marker \<noteq> None | LinkPlace visible \<Rightarrow> visible | _ \<Rightarrow> False)"

definition restore_directory_exists :: "string \<Rightarrow> place \<Rightarrow> (StorageError, bool) result" where
  "restore_directory_exists path pl =
    (case pl of NoPlace \<Rightarrow> Ok False | FilePlace \<Rightarrow> Err (StIo OtherIo)
     | LinkPlace _ \<Rightarrow> Err (SymlinkUnsupported path) | DirPlace _ \<Rightarrow> Ok True)"

definition ensure_restore_root :: "string \<Rightarrow> place \<Rightarrow> (place, unit) planned" where
  "ensure_restore_root path pl =
    check (restore_directory_exists path pl) (\<lambda>present. if present then reply () else store () [\<lambda>_. DirPlace []])"

definition validate_existing_restore_tree :: "place \<Rightarrow> (StorageError, unit) result" where
  "validate_existing_restore_tree pl =
    (case pl of
       DirPlace t \<Rightarrow> (case find_link t of Some p \<Rightarrow> Err (SymlinkUnsupported (join_path p)) | None \<Rightarrow> Ok ())
     | _ \<Rightarrow> Err (StIo OtherIo))"

text \<open>\<open>remove_dir_all\<close>: what a directory holds goes before the directory.\<close>

definition remove_dir_all :: "string list \<Rightarrow> tree \<Rightarrow> (place \<Rightarrow> place) list" where
  "remove_dir_all p t = map drop_node (rev (filter (\<lambda>q. take (length p) q = p) (bt_keys t)))"

primrec clear_entries :: "tree \<Rightarrow> (string list \<times> node) list \<Rightarrow> (place, unit) planned" where
  "clear_entries t [] = reply ()"
| "clear_entries t (e # es) =
    (if length (fst e) \<noteq> 1 \<or> fst e = restore_marker then clear_entries t es
     else case snd e of
         OtherNode \<Rightarrow> refuse (UnsafeRelativePath (join_path (fst e)))
       | DirNode \<Rightarrow> (case clear_entries t es of (r, ms) \<Rightarrow> (r, remove_dir_all (fst e) t @ ms))
       | _ \<Rightarrow> (case clear_entries t es of (r, ms) \<Rightarrow> (r, drop_node (fst e) # ms)))"

definition clear_restore_destination :: "place \<Rightarrow> (place, unit) planned" where
  "clear_restore_destination pl = (case pl of DirPlace t \<Rightarrow> clear_entries t t | _ \<Rightarrow> refuse (StIo OtherIo))"

definition restore_directory :: "string list \<Rightarrow> place \<Rightarrow> (place, unit) planned" where
  "restore_directory p pl =
    (case node_at pl p of
       None \<Rightarrow> store () [put_node p DirNode]
     | Some DirNode \<Rightarrow> reply ()
     | Some LinkNode \<Rightarrow> refuse (SymlinkUnsupported (join_path p))
     | Some _ \<Rightarrow> refuse (StIo OtherIo))"

primrec restore_directories :: "string list list \<Rightarrow> place \<Rightarrow> (place, unit) planned" where
  "restore_directories [] = (\<lambda>_. reply ())"
| "restore_directories (p # ps) = then_plan (restore_directory p) (\<lambda>_. restore_directories ps)"

definition ensure_restore_parent :: "string \<Rightarrow> string list \<Rightarrow> place \<Rightarrow> (place, unit) planned" where
  "ensure_restore_parent path output pl =
    check (restore_directory_exists path pl) (\<lambda>present.
    if present then restore_directories (map (\<lambda>k. take k output) [1 ..< length output]) pl else refuse (StIo NotFound))"

definition restore_blob_streaming ::
    "host \<Rightarrow> zstd \<Rightarrow> (nat \<Rightarrow> nat) \<Rightarrow> world_files \<Rightarrow> BlobDescriptor \<Rightarrow> string \<Rightarrow> string list \<Rightarrow> place \<Rightarrow> (place, unit) planned" where
  "restore_blob_streaming H Z pick fs descriptor path output pl =
    (let encoded = blob_slot fs (bd_hash descriptor) (bd_encoding descriptor) in
     check (ensure_encoded_size encoded descriptor) (\<lambda>_.
     then_plan (ensure_restore_parent path output) (\<lambda>_ pl.
     check (stream_blob H Z (BlobCorrupt (bd_hash descriptor)) pick encoded descriptor) (\<lambda>content.
     case node_at pl output of
       None \<Rightarrow> store () [put_node output (FileNode (Some content))]
     | Some LinkNode \<Rightarrow> refuse (SymlinkUnsupported (join_path output))
     | Some DirNode \<Rightarrow> refuse (StIo OtherIo)
     | Some _ \<Rightarrow> store () [drop_node output, put_node output (FileNode (Some content))])) pl))"

primrec restore_entries ::
    "host \<Rightarrow> zstd \<Rightarrow> (nat \<Rightarrow> nat) \<Rightarrow> world_files \<Rightarrow> string \<Rightarrow> SnapshotEntry list \<Rightarrow> place \<Rightarrow> (place, unit) planned" where
  "restore_entries H Z pick fs path [] = (\<lambda>_. reply ())"
| "restore_entries H Z pick fs path (e # es) =
    then_plan (restore_blob_streaming H Z pick fs (se_blob e) path (split_path (se_path e))) (\<lambda>_.
    restore_entries H Z pick fs path es)"

primrec restored_paths :: "(string list \<times> node) list \<Rightarrow> (StorageError, string set) result" where
  "restored_paths [] = Ok {}"
| "restored_paths (e # es) =
    (case snd e of
       LinkNode \<Rightarrow> Err (SymlinkUnsupported (join_path (fst e)))
     | FileNode _ \<Rightarrow>
         if fst e = restore_marker then restored_paths es
         else and_then (portable_relative_path (fst e)) (\<lambda>relative.
           and_then (restored_paths es) (\<lambda>paths. Ok (insert relative paths)))
     | _ \<Rightarrow> restored_paths es)"

definition verify_restored_tree :: "SnapshotManifestV1 \<Rightarrow> place \<Rightarrow> (StorageError, unit) result" where
  "verify_restored_tree manifest pl =
    (case pl of
       DirPlace t \<Rightarrow>
         and_then (restored_paths t) (\<lambda>actual.
         if actual \<noteq> se_path ` set (sm_entries manifest) then Err StateRootMismatch else Ok ())
     | _ \<Rightarrow> Err (StIo OtherIo))"

text \<open>\<open>durable_remove\<close> of the marker: removing a file fails on a directory.\<close>

definition remove_marker :: "place \<Rightarrow> (place, unit) planned" where
  "remove_marker pl =
    (case node_at pl restore_marker of
       None \<Rightarrow> reply ()
     | Some DirNode \<Rightarrow> refuse (StIo OtherIo)
     | Some _ \<Rightarrow> store () [drop_node restore_marker])"

definition restore_snapshot_streaming ::
    "host \<Rightarrow> zstd \<Rightarrow> (nat \<Rightarrow> nat) \<Rightarrow> world_files \<Rightarrow> SnapshotManifestV1 \<Rightarrow> string \<Rightarrow> place \<Rightarrow> (place, unit) planned" where
  "restore_snapshot_streaming H Z pick fs manifest path pl =
    check (verify_snapshot_streaming H Z pick fs manifest) (\<lambda>_.
    if marker_exists pl then refuse (RestoreIncomplete path)
    else then_plan (ensure_restore_root path) (\<lambda>_ pl.
      check (validate_existing_restore_tree pl) (\<lambda>_.
      then_plan (\<lambda>_. store () [put_node restore_marker marker_node]) (\<lambda>_.
      then_plan clear_restore_destination (\<lambda>_.
      then_plan (restore_entries H Z pick fs path (sm_entries manifest)) (\<lambda>_.
      then_plan (\<lambda>pl. check (verify_restored_tree manifest pl) reply) (\<lambda>_.
      remove_marker)))) pl)) pl)"

definition discard_incomplete_restore :: "string \<Rightarrow> place \<Rightarrow> (place, bool) planned" where
  "discard_incomplete_restore path pl =
    (if \<not> marker_exists pl then reply False
     else check (restore_directory_exists path pl) (\<lambda>present.
       if \<not> present then refuse (RestoreIncomplete path)
       else then_plan clear_restore_destination (\<lambda>_. then_plan remove_marker (\<lambda>_ _. reply True)) pl))"

section \<open>Footprints in the store\<close>

lemma put_file_blob_keeps [footprint]:
  "(\<And>fs v. f (fs\<lparr>wf_publications := v\<rparr>) = f fs) \<Longrightarrow> (\<And>fs v. f (fs\<lparr>wf_zst_blobs := v\<rparr>) = f fs) \<Longrightarrow>
    plan_keeps f (put_file_blob_streaming H Z pick lease source fs)"
  unfolding put_file_blob_streaming_def Let_def
  by (auto intro!: footprint simp: insert_zst_blob_def remove_zst_blob_def)

lemma put_files_keeps [footprint]:
  "(\<And>fs v. f (fs\<lparr>wf_publications := v\<rparr>) = f fs) \<Longrightarrow> (\<And>fs v. f (fs\<lparr>wf_zst_blobs := v\<rparr>) = f fs) \<Longrightarrow>
    plan_keeps f (put_files H Z pick lease files fs)"
  by (induction files arbitrary: lease fs) (auto intro!: footprint)

lemma drop_owner_keeps: "(\<And>fs v. f (fs\<lparr>wf_publications := v\<rparr>) = f fs) \<Longrightarrow> f (drop_owner i fs) = f fs"
  by (simp add: drop_owner_def split: option.splits)

lemma store_drop_owner_keeps [footprint]:
  "(\<And>fs v. f (fs\<lparr>wf_publications := v\<rparr>) = f fs) \<Longrightarrow> plan_keeps f (store x [drop_owner i])"
  by (simp add: plan_keeps_def plan_simps drop_owner_keeps)

lemma dropping_lease_keeps [footprint]:
  "(\<And>fs v. f (fs\<lparr>wf_publications := v\<rparr>) = f fs) \<Longrightarrow> plan_keeps f p \<Longrightarrow> plan_keeps f (dropping_lease i p)"
  by (auto simp: dropping_lease_def plan_keeps_def drop_owner_keeps split: sum.splits)

lemma snapshot_directory_keeps [footprint]:
  "(\<And>fs v. f (fs\<lparr>wf_publications := v\<rparr>) = f fs) \<Longrightarrow> (\<And>fs v. f (fs\<lparr>wf_zst_blobs := v\<rparr>) = f fs) \<Longrightarrow>
    plan_keeps f (snapshot_directory_streaming H Z pick ids path source context fs)"
  unfolding snapshot_directory_streaming_def Let_def by (auto intro!: footprint split: place.splits option.splits)

lemma recover_abandoned_keeps [footprint]:
  "(\<And>fs v. f (fs\<lparr>wf_publications := v\<rparr>) = f fs) \<Longrightarrow> plan_keeps f (recover_abandoned_snapshot_publications fs)"
  unfolding recover_abandoned_snapshot_publications_def by (intro footprint)

lemma after_plan: "op fs = p \<Longrightarrow> after op fs = apply_mutations (snd p) fs"
  by (simp add: after_def)

section \<open>Trees and paths\<close>

lemma node_at_simps [simp]:
  "node_at (DirPlace t) p = bt_get t p" "node_at NoPlace p = None" "node_at FilePlace p = None" "node_at (LinkPlace b) p = None"
  by (simp_all add: node_at_def)

lemma put_node_simps [simp]: "put_node p n (DirPlace t) = DirPlace (bt_insert p n t)"
  by (simp add: put_node_def)

lemma drop_node_simps [simp]: "drop_node p (DirPlace t) = DirPlace (bt_remove p t)"
  by (simp add: drop_node_def)

lemma node_at_other:
  "q \<noteq> p \<Longrightarrow> node_at (put_node p n pl) q = node_at pl q" "q \<noteq> p \<Longrightarrow> node_at (drop_node p pl) q = node_at pl q"
  by (cases pl; simp add: put_node_def drop_node_def node_at_def)+

lemma split_on_free: "c \<notin> set p \<Longrightarrow> split_on c p = [p]"
  by (induction p) auto

lemma split_on_sep: "c \<notin> set p \<Longrightarrow> split_on c (p @ c # s) = p # split_on c s"
  by (induction p) auto

lemma split_join: "ps \<noteq> [] \<Longrightarrow> list_all (\<lambda>p. c \<notin> set p) ps \<Longrightarrow> split_on c (join_with c ps) = ps"
  by (induction c ps rule: join_with.induct) (auto simp: split_on_free split_on_sep)

lemma ascii_utf8: "is_ascii s \<Longrightarrow> is_utf8 (map byte_of s)"
  by (induction s) (auto simp: is_ascii_def)

text \<open>A tree a file system can hold: names have no separator and what holds a path is a directory.\<close>

definition wf_tree :: "tree \<Rightarrow> bool" where
  "wf_tree t \<longleftrightarrow> bt_wf t \<and> list_all (\<lambda>p. p \<noteq> [] \<and> list_all (\<lambda>c. CHR ''/'' \<notin> set c) p
    \<and> (length p = 1 \<or> bt_get t (butlast p) = Some DirNode)) (bt_keys t)"

lemma bt_get_key: "bt_get t p = Some n \<Longrightarrow> p \<in> set (bt_keys t)"
  by (auto simp: bt_get_def bt_keys_def dest!: map_of_SomeD intro!: image_eqI)

lemma wf_treeD:
  assumes "wf_tree t" "bt_get t p = Some n"
  shows "p \<noteq> []" "list_all (\<lambda>c. CHR ''/'' \<notin> set c) p" "length p = 1 \<or> bt_get t (butlast p) = Some DirNode" "bt_wf t"
  using assms bt_get_key [of t p n] by (auto simp: wf_tree_def list_all_iff)

lemma wf_tree_prefix:
  assumes "wf_tree t" "bt_get t p = Some n" "0 < k" "k < length p"
  shows "bt_get t (take k p) = Some DirNode"
  using assms(2-)
proof (induction "length p - k" arbitrary: p n)
  case (Suc d)
  from wf_treeD(3) [OF assms(1) Suc.prems(1)] Suc.prems have dir: "bt_get t (butlast p) = Some DirNode" by auto
  show ?case
  proof (cases "k = length p - 1")
    case True
    with dir show ?thesis by (simp add: butlast_conv_take)
  next
    case False
    with Suc have "d = length (butlast p) - k" "k < length (butlast p)" by auto
    with Suc.hyps(1) [OF _ dir \<open>0 < k\<close>] show ?thesis by (simp add: take_butlast)
  qed
qed simp

lemma tree_files_iff: "(p, b) \<in> set (tree_files t) \<longleftrightarrow> (p, FileNode b) \<in> set t"
  unfolding tree_files_def by (force simp: List.map_filter_def split: node.splits)

lemma find_link_None: "find_link t = None \<longleftrightarrow> list_all (\<lambda>e. snd e \<noteq> LinkNode) t"
  by (auto simp: find_link_def find_None_iff list_all_iff)

section \<open>The marker\<close>

abbreviation marker_at :: "place \<Rightarrow> node option" where
  "marker_at pl \<equiv> node_at pl restore_marker"

lemma clear_entries_marker: "plan_keeps marker_at (clear_entries t es)"
proof (induction es)
  case (Cons e es)
  have drops: "list_all (\<lambda>m. \<forall>pl. marker_at (m pl) = marker_at pl) (remove_dir_all (fst e) t)"
    if "fst e \<noteq> restore_marker" "length (fst e) = 1"
  proof -
    have "q \<noteq> restore_marker" if "take 1 q = fst e" for q
      using that \<open>fst e \<noteq> restore_marker\<close> by auto
    with that show ?thesis by (force simp: remove_dir_all_def list_all_iff intro!: node_at_other(2))
  qed
  from Cons show ?case
    by (auto simp: plan_keeps_def node_at_other drops plan_simps split: node.splits prod.splits)
qed (simp add: footprint)

lemma clear_marker: "plan_keeps marker_at (clear_restore_destination pl)"
  unfolding clear_restore_destination_def by (auto intro!: footprint clear_entries_marker split: place.splits)

lemma directories_marker:
  assumes "marker_at pl \<noteq> None"
  shows "plan_keeps marker_at (restore_directories ps pl)"
  using assms
proof (induction ps arbitrary: pl)
  case (Cons p ps)
  have first: "plan_keeps marker_at (restore_directory p pl)"
    using Cons.prems by (cases "p = restore_marker") (auto simp: restore_directory_def node_at_other intro!: footprint split: option.splits node.splits)
  from after_keeps [where op = "restore_directory p", OF first] Cons.prems
  have "marker_at (after (restore_directory p) pl) \<noteq> None" by simp
  with Cons.IH first show ?case by (auto intro!: plan_keeps_then)
qed (simp add: footprint)

lemma blob_marker:
  assumes "marker_at pl \<noteq> None" "output \<noteq> restore_marker"
  shows "plan_keeps marker_at (restore_blob_streaming H Z pick fs d path output pl)"
  unfolding restore_blob_streaming_def Let_def ensure_restore_parent_def
  by (rule plan_keeps_check, rule plan_keeps_then)
    (use assms in \<open>auto intro!: footprint directories_marker simp: node_at_other split: option.splits node.splits\<close>)

lemma entries_marker:
  assumes "marker_at pl \<noteq> None" "list_all (\<lambda>e. se_path e \<noteq> RESTORE_INCOMPLETE_MARKER) es"
  shows "plan_keeps marker_at (restore_entries H Z pick fs path es pl)"
  using assms
proof (induction es arbitrary: pl)
  case (Cons e es)
  let ?blob = "restore_blob_streaming H Z pick fs (se_blob e) path (split_path (se_path e))"
  have "split_path (se_path e) \<noteq> restore_marker"
    using Cons.prems(2) join_split [of "CHR ''/''" "se_path e"] by (metis join_with.simps(2) list.pred_inject(2))
  with Cons.prems(1) have first: "plan_keeps marker_at (?blob pl)" by (rule blob_marker)
  from after_keeps [where op = ?blob, OF first] Cons.prems(1) have "marker_at (after ?blob pl) \<noteq> None" by simp
  with Cons.IH Cons.prems(2) first show ?case by (auto intro!: plan_keeps_then)
qed (simp add: footprint)

text \<open>An operation that, unless it finished, leaves a state of a kind.\<close>

definition all_or_kind :: "('s \<Rightarrow> bool) \<Rightarrow> ('s \<Rightarrow> ('s, 'a) planned) \<Rightarrow> 's \<Rightarrow> bool" where
  "all_or_kind P op pl \<longleftrightarrow> (\<forall>g\<in>leaves op pl. P g \<or> (\<exists>x. fst (op pl) = Ok x \<and> g = after op pl))"

lemma all_or_kindD: "all_or_kind P op pl \<Longrightarrow> g \<in> leaves op pl \<Longrightarrow> P g \<or> (\<exists>x. fst (op pl) = Ok x \<and> g = after op pl)"
  by (simp add: all_or_kind_def)

lemma all_or_kind_then:
  assumes "\<And>g. g \<in> leaves op pl \<Longrightarrow> P g"
    and "\<And>x. fst (op pl) = Ok x \<Longrightarrow> all_or_kind P (k x) (after op pl)"
  shows "all_or_kind P (then_plan op k) pl"
  unfolding all_or_kind_def
proof
  fix g assume "g \<in> leaves (then_plan op k) pl"
  then consider "g \<in> leaves op pl" | x where "fst (op pl) = Ok x" "g \<in> leaves (k x) (after op pl)" by (auto dest: leaves_then)
  then show "P g \<or> (\<exists>x. fst (then_plan op k pl) = Ok x \<and> g = after (then_plan op k) pl)"
  proof cases
    case 2
    with assms(2) [OF 2(1)] show ?thesis by (auto simp: all_or_kind_def fst_then after_then)
  qed (simp add: assms(1))
qed

definition restore_rest ::
    "host \<Rightarrow> zstd \<Rightarrow> (nat \<Rightarrow> nat) \<Rightarrow> world_files \<Rightarrow> SnapshotManifestV1 \<Rightarrow> string \<Rightarrow> place \<Rightarrow> (place, unit) planned" where
  "restore_rest H Z pick fs manifest path =
    then_plan clear_restore_destination (\<lambda>_.
    then_plan (restore_entries H Z pick fs path (sm_entries manifest)) (\<lambda>_.
    then_plan (\<lambda>pl. check (verify_restored_tree manifest pl) reply) (\<lambda>_.
    remove_marker)))"

lemma rest_marked:
  assumes "marker_at pl \<noteq> None" "list_all (\<lambda>e. se_path e \<noteq> RESTORE_INCOMPLETE_MARKER) (sm_entries manifest)"
  shows "all_or_kind (\<lambda>g. marker_at g \<noteq> None) (restore_rest H Z pick fs manifest path) pl"
proof -
  let ?entries = "restore_entries H Z pick fs path (sm_entries manifest)" and ?verify = "\<lambda>pl. check (verify_restored_tree manifest pl) reply"
  have kept: "(\<forall>g\<in>leaves op f. marker_at g \<noteq> None) \<and> marker_at (after op f) \<noteq> None"
    if "marker_at f \<noteq> None" "plan_keeps marker_at (op f)" for f and op :: "place \<Rightarrow> (place, 'x) planned"
    using that leaves_keeps [of marker_at op f] after_keeps [of marker_at op f] by auto
  have last: "all_or_kind (\<lambda>g. marker_at g \<noteq> None) remove_marker f" if "marker_at f \<noteq> None" for f
    using that by (auto simp: all_or_kind_def remove_marker_def leaves_def after_def plan_simps le_Suc_eq split: node.splits)
  have verify: "plan_keeps marker_at (?verify f)" for f by (intro footprint)
  show ?thesis
    unfolding restore_rest_def
    by (intro all_or_kind_then last)
      (use kept [of _ clear_restore_destination] kept [of _ ?entries] kept [of _ ?verify] verify clear_marker assms
        entries_marker [OF _ assms(2)] in metis)+
qed

lemma restore_unfold:
  "restore_snapshot_streaming H Z pick fs manifest path pl =
    check (verify_snapshot_streaming H Z pick fs manifest) (\<lambda>_.
    if marker_exists pl then refuse (RestoreIncomplete path)
    else then_plan (ensure_restore_root path) (\<lambda>_ pl.
      check (validate_existing_restore_tree pl) (\<lambda>_.
      then_plan (\<lambda>_. store () [put_node restore_marker marker_node]) (\<lambda>_. restore_rest H Z pick fs manifest path) pl)) pl)"
  by (simp add: restore_snapshot_streaming_def restore_rest_def)

lemma all_or_kind_check:
  assumes "P pl" "\<And>x. r pl = Ok x \<Longrightarrow> all_or_kind P (k x) pl"
  shows "all_or_kind P (\<lambda>pl. check (r pl) (\<lambda>x. k x pl)) pl"
  using assms by (cases "r pl") (auto simp: all_or_kind_def leaves_def after_def plan_simps)

lemma all_or_kind_if:
  assumes "P pl" "\<not> b pl \<Longrightarrow> all_or_kind P op pl"
  shows "all_or_kind P (\<lambda>pl. if b pl then refuse e else op pl) pl"
  using assms by (auto simp: all_or_kind_def leaves_def after_def plan_simps)

lemma all_or_kind_mono: "all_or_kind P op pl \<Longrightarrow> (\<And>g. P g \<Longrightarrow> Q g) \<Longrightarrow> all_or_kind Q op pl"
  by (auto simp: all_or_kind_def)

lemma marker_at_exists: "marker_at g \<noteq> None \<Longrightarrow> marker_exists g"
  by (cases g) (auto simp: marker_exists_def)

lemma restore_root_leaves:
  assumes "g \<in> leaves (ensure_restore_root path) pl"
  shows "g = pl \<or> pl = NoPlace \<and> g = DirPlace []"
  using assms by (cases pl) (auto simp: ensure_restore_root_def restore_directory_exists_def leaves_def plan_simps le_Suc_eq)

lemma restore_all_or_kind:
  assumes "list_all (\<lambda>e. se_path e \<noteq> RESTORE_INCOMPLETE_MARKER) (sm_entries manifest)"
  shows "all_or_kind (\<lambda>g. marker_exists g \<or> g = pl \<or> pl = NoPlace \<and> g = DirPlace [])
    (restore_snapshot_streaming H Z pick fs manifest path) pl" (is "all_or_kind ?P _ _")
proof -
  let ?mark = "\<lambda>_ :: place. store () [put_node restore_marker marker_node]"
  have marked: "all_or_kind ?P (then_plan ?mark (\<lambda>_. restore_rest H Z pick fs manifest path)) f" if "?P f" "\<exists>t. f = DirPlace t" for f
  proof (rule all_or_kind_then)
    show "?P g" if "g \<in> leaves ?mark f" for g
      using that \<open>?P f\<close> \<open>\<exists>t. f = DirPlace t\<close> by (auto simp: leaves_def plan_simps le_Suc_eq marker_exists_def simp del: bt_insert.simps)
    have "marker_at (after ?mark f) \<noteq> None" using \<open>\<exists>t. f = DirPlace t\<close> by (auto simp: after_def plan_simps simp del: bt_insert.simps)
    then show "all_or_kind ?P (restore_rest H Z pick fs manifest path) (after ?mark f)"
      by (rule all_or_kind_mono [OF rest_marked [OF _ assms]]) (simp add: marker_at_exists)
  qed
  have root: "?P f" if "f \<in> leaves (ensure_restore_root path) pl" for f
    using restore_root_leaves [OF that] by blast
  have checked: "all_or_kind ?P (\<lambda>pl. check (validate_existing_restore_tree pl) (\<lambda>_.
      then_plan ?mark (\<lambda>_. restore_rest H Z pick fs manifest path) pl)) f" if "?P f" for f
  proof (rule all_or_kind_check [where P = ?P and r = validate_existing_restore_tree
        and k = "\<lambda>_. then_plan ?mark (\<lambda>_. restore_rest H Z pick fs manifest path)"])
    show "?P f" by (rule that)
    show "all_or_kind ?P (then_plan ?mark (\<lambda>_. restore_rest H Z pick fs manifest path)) f" if "validate_existing_restore_tree f = Ok x" for x
      by (rule marked [OF \<open>?P f\<close>]) (use that in \<open>auto simp: validate_existing_restore_tree_def split: place.splits\<close>)
  qed
  have all: "all_or_kind ?P (then_plan (ensure_restore_root path) (\<lambda>_ pl. check (validate_existing_restore_tree pl) (\<lambda>_.
      then_plan ?mark (\<lambda>_. restore_rest H Z pick fs manifest path) pl))) pl"
    by (rule all_or_kind_then) (rule root, assumption, rule checked, rule root, rule after_leaves)
  show ?thesis
    unfolding restore_unfold [abs_def]
    by (rule all_or_kind_check [where P = ?P and r = "\<lambda>_. verify_snapshot_streaming H Z pick fs manifest"], blast)
      (rule all_or_kind_if [where P = ?P and b = marker_exists], blast, rule all)
qed

lemma restore_marked_refused:
  assumes "marker_exists pl"
  shows "\<exists>e. restore_snapshot_streaming H Z pick fs manifest path pl = refuse e"
  using assms by (cases "verify_snapshot_streaming H Z pick fs manifest") (auto simp: restore_snapshot_streaming_def)


abbreviation empty_manifest :: SnapshotManifestV1 where
  "empty_manifest \<equiv> \<lparr>sm_protocol_version = PROTOCOL_VERSION, sm_world_id = WorldId 7, sm_snapshot_number = 0, sm_epoch = 1,
    sm_sequence = 0, sm_previous_snapshot_hash = None, sm_entries = [], sm_state_root = Hash32 0,
    sm_authority_peer_id = PeerId 0, sm_authority_public_key = 0, sm_signature = []\<rparr>"


section \<open>A restore that nothing interrupts\<close>

text \<open>The nodes of a tree that holds these files and the directories above them.\<close>

definition layout :: "(string list \<times> bytes) list \<Rightarrow> string list \<Rightarrow> node option" where
  "layout files q =
    (case map_of files q of
       Some content \<Rightarrow> Some (FileNode (Some content))
     | None \<Rightarrow> if q \<noteq> [] \<and> list_ex (\<lambda>f. strict_prefix q (fst f)) files then Some DirNode else None)"

definition marked_layout :: "(string list \<times> bytes) list \<Rightarrow> string list \<Rightarrow> node option" where
  "marked_layout files q = (if q = restore_marker then Some marker_node else layout files q)"

text \<open>Paths that can be files of one tree beside the marker.\<close>

definition restorable :: "string list list \<Rightarrow> bool" where
  "restorable ps \<longleftrightarrow> distinct ps \<and> list_all (\<lambda>p. p \<noteq> [] \<and> hd p \<noteq> RESTORE_INCOMPLETE_MARKER
    \<and> list_all (\<lambda>q. \<not> strict_prefix p q) ps) ps"

lemma restore_directories_ok:
  assumes "bt_wf t" "list_all (\<lambda>q. bt_get t q = None \<or> bt_get t q = Some DirNode) ps"
  shows "fst (restore_directories ps (DirPlace t)) = Ok ()
    \<and> (\<exists>t'. after (restore_directories ps) (DirPlace t) = DirPlace t' \<and> bt_wf t'
        \<and> bt_get t' = (\<lambda>q. if q \<in> set ps then Some DirNode else bt_get t q))"
  using assms
proof (induction ps arbitrary: t)
  case (Cons p ps)
  obtain t1 where t1: "fst (restore_directory p (DirPlace t)) = Ok ()" "after (restore_directory p) (DirPlace t) = DirPlace t1"
    "bt_wf t1" "bt_get t1 = (bt_get t)(p \<mapsto> DirNode)"
  proof (cases "bt_get t p")
    case None
    then have "restore_directory p (DirPlace t) = store () [put_node p DirNode]" by (simp add: restore_directory_def)
    with that [of "bt_insert p DirNode t"] Cons.prems(1) show thesis by (simp add: after_def plan_simps)
  next
    case (Some n)
    with Cons.prems(2) have "restore_directory p (DirPlace t) = reply ()" "n = DirNode" by (auto simp: restore_directory_def)
    with that [of t] Cons.prems(1) Some show thesis by (simp add: after_def plan_simps fun_upd_idem)
  qed
  have "list_all (\<lambda>q. bt_get t1 q = None \<or> bt_get t1 q = Some DirNode) ps"
    using Cons.prems(2) by (auto simp: t1(4) list_all_iff)
  from Cons.IH [OF t1(3) this] obtain t2 where t2: "fst (restore_directories ps (DirPlace t1)) = Ok ()"
    "after (restore_directories ps) (DirPlace t1) = DirPlace t2" "bt_wf t2"
    "bt_get t2 = (\<lambda>q. if q \<in> set ps then Some DirNode else bt_get t1 q)" by blast
  then show ?case by (intro conjI exI [of _ t2]) (auto simp: fst_then after_then t1)
qed (simp add: plan_simps after_def)

lemma prefixes_of: "set (map (\<lambda>k. take k p) [1 ..< length p]) = {q. q \<noteq> [] \<and> strict_prefix q p}"
proof -
  have "\<exists>k\<in>{1..<length p}. q = take k p" if "q \<noteq> []" "strict_prefix q p" for q
    using that by (intro bexI [of _ "length q"]) (auto simp: strict_prefix_def prefix_def Suc_le_eq)
  moreover have "strict_prefix (take k p) p" if "k < length p" for k
    using that by (metis length_take min.absorb4 nat_neq_iff strict_prefix_def take_is_prefix)
  ultimately show ?thesis by (auto simp: image_iff)
qed

lemma restore_blob_ok:
  assumes t: "bt_wf t" "bt_get t = marked_layout files"
    and p: "restorable (p # map fst files)"
    and blob: "stream_blob H Z (BlobCorrupt (bd_hash d)) pick (blob_slot fs (bd_hash d) (bd_encoding d)) d = Ok content"
  shows "fst (restore_blob_streaming H Z pick fs d path p (DirPlace t)) = Ok ()
    \<and> (\<exists>t'. after (restore_blob_streaming H Z pick fs d path p) (DirPlace t) = DirPlace t' \<and> bt_wf t'
        \<and> bt_get t' = marked_layout ((p, content) # files))"
proof -
  let ?ps = "map (\<lambda>k. take k p) [1 ..< length p]"
  have fresh: "p \<noteq> []" "p \<noteq> restore_marker" "map_of files p = None" "\<not> list_ex (\<lambda>f. strict_prefix p (fst f)) files"
    using p by (auto simp: restorable_def list_ex_iff list_all_iff map_of_eq_None_iff)
  have above: "q \<noteq> restore_marker" "map_of files q = None" if "q \<noteq> []" "strict_prefix q p" for q
  proof -
    have "hd q = hd p" using that by (auto simp: strict_prefix_def prefix_def)
    then show "q \<noteq> restore_marker" using p by (auto simp: restorable_def)
    show "map_of files q = None" using p that by (auto simp: restorable_def list_all_iff map_of_eq_None_iff)
  qed
  have "list_all (\<lambda>q. bt_get t q = None \<or> bt_get t q = Some DirNode) ?ps"
    unfolding list_all_iff prefixes_of by (auto simp: t(2) marked_layout_def layout_def above)
  from restore_directories_ok [OF t(1) this] obtain t1 where t1:
    "fst (restore_directories ?ps (DirPlace t)) = Ok ()" "after (restore_directories ?ps) (DirPlace t) = DirPlace t1" "bt_wf t1"
    "bt_get t1 = (\<lambda>q. if q \<noteq> [] \<and> strict_prefix q p then Some DirNode else bt_get t q)"
    unfolding prefixes_of by auto
  have parent: "ensure_restore_parent path p (DirPlace t) = restore_directories ?ps (DirPlace t)"
    by (simp add: ensure_restore_parent_def restore_directory_exists_def)
  then have after_parent: "after (ensure_restore_parent path p) (DirPlace t) = DirPlace t1" using t1(2) by (simp add: after_def)
  have none: "bt_get t1 p = None" using fresh by (simp add: t1(4) t(2) marked_layout_def layout_def)
  let ?rest = "\<lambda>(_::unit) pl. check (stream_blob H Z (BlobCorrupt (bd_hash d)) pick (blob_slot fs (bd_hash d) (bd_encoding d)) d) (\<lambda>content.
     case node_at pl p of
       None \<Rightarrow> store () [put_node p (FileNode (Some content))]
     | Some LinkNode \<Rightarrow> refuse (SymlinkUnsupported (join_path p))
     | Some DirNode \<Rightarrow> refuse (StIo OtherIo)
     | Some _ \<Rightarrow> store () [drop_node p, put_node p (FileNode (Some content))])"
  have size: "ensure_encoded_size (blob_slot fs (bd_hash d) (bd_encoding d)) d = Ok ()"
    using blob by (auto simp: stream_blob_def)
  have body: "restore_blob_streaming H Z pick fs d path p (DirPlace t) = then_plan (ensure_restore_parent path p) ?rest (DirPlace t)"
    by (simp add: restore_blob_streaming_def Let_def size)
  have rest: "?rest () (DirPlace t1) = store () [put_node p (FileNode (Some content))]" using none by (simp add: blob)
  have "fst (restore_blob_streaming H Z pick fs d path p (DirPlace t)) = Ok ()"
    unfolding body fst_then after_parent parent t1(1) using rest by (simp add: plan_simps)
  moreover have "after (restore_blob_streaming H Z pick fs d path p) (DirPlace t) = DirPlace (bt_insert p (FileNode (Some content)) t1)"
  proof -
    have "after (restore_blob_streaming H Z pick fs d path p) (DirPlace t) = after (then_plan (ensure_restore_parent path p) ?rest) (DirPlace t)"
      using body by (simp add: after_def)
    also have "\<dots> = after (?rest ()) (DirPlace t1)" unfolding after_then after_parent parent t1(1) by simp
    finally show ?thesis using rest by (simp add: after_def plan_simps)
  qed
  moreover have "bt_get (bt_insert p (FileNode (Some content)) t1) = marked_layout ((p, content) # files)"
    using above fresh by (auto simp: t1(4) t(2) marked_layout_def layout_def fun_eq_iff split: option.splits)
  ultimately show ?thesis using t1(3) by auto
qed

text \<open>An entry whose blob is stored with this content.\<close>

definition entry_holds :: "host \<Rightarrow> zstd \<Rightarrow> world_files \<Rightarrow> SnapshotEntry \<Rightarrow> bytes \<Rightarrow> bool" where
  "entry_holds H Z fs e content \<longleftrightarrow>
    stream_blob H Z (BlobCorrupt (bd_hash (se_blob e))) (\<lambda>n. n) (blob_slot fs (bd_hash (se_blob e)) (bd_encoding (se_blob e))) (se_blob e)
      = Ok content"

lemma entry_holds_any:
  "entry_holds H Z fs e content \<longleftrightarrow>
    stream_blob H Z failure pick (blob_slot fs (bd_hash (se_blob e)) (bd_encoding (se_blob e))) (se_blob e) = Ok content"
  unfolding entry_holds_def stream_blob_Ok ..

lemma restore_entries_ok:
  assumes "bt_wf t" "bt_get t = marked_layout files"
    and "restorable (rev (map (split_path \<circ> se_path) es) @ map fst files)"
    and "list_all2 (entry_holds H Z fs) es contents"
  shows "fst (restore_entries H Z pick fs path es (DirPlace t)) = Ok ()
    \<and> (\<exists>t'. after (restore_entries H Z pick fs path es) (DirPlace t) = DirPlace t' \<and> bt_wf t'
        \<and> bt_get t' = marked_layout (rev (zip (map (split_path \<circ> se_path) es) contents) @ files))"
  using assms
proof (induction es arbitrary: t files contents)
  case (Cons e es)
  from Cons.prems(4) obtain c cs where c: "contents = c # cs" "entry_holds H Z fs e c" "list_all2 (entry_holds H Z fs) es cs"
    by (auto simp: list_all2_Cons1)
  let ?p = "split_path (se_path e)"
  let ?blob = "restore_blob_streaming H Z pick fs (se_blob e) path ?p"
  have first: "restorable (?p # map fst files)"
    using Cons.prems(3) by (auto simp: restorable_def list_all_iff)
  have "stream_blob H Z (BlobCorrupt (bd_hash (se_blob e))) pick (blob_slot fs (bd_hash (se_blob e)) (bd_encoding (se_blob e))) (se_blob e) = Ok c"
    using c(2) by (rule entry_holds_any [THEN iffD1])
  from restore_blob_ok [OF Cons.prems(1,2) first this, of path]
  obtain t1 where t1: "fst (?blob (DirPlace t)) = Ok ()" "after ?blob (DirPlace t) = DirPlace t1" "bt_wf t1"
    "bt_get t1 = marked_layout ((?p, c) # files)" by blast
  have "restorable (rev (map (split_path \<circ> se_path) es) @ map fst ((?p, c) # files))"
    using Cons.prems(3) by (auto simp: restorable_def list_all_iff comp_def)
  from Cons.IH [OF t1(3,4) this c(3)] show ?case
    by (auto simp: fst_then after_then t1(1,2) c(1))
qed (auto simp: plan_simps after_def)

lemma apply_drops:
  assumes "bt_wf t"
  shows "\<exists>t'. apply_mutations (map drop_node ps) (DirPlace t) = DirPlace t' \<and> bt_wf t'
    \<and> bt_get t' = (\<lambda>q. if q \<in> set ps then None else bt_get t q)"
  using assms
proof (induction ps arbitrary: t)
  case (Cons p ps)
  from Cons.IH [OF bt_wf_remove [OF Cons.prems], of p] show ?case by (auto simp: fun_eq_iff)
qed auto

text \<open>What \<open>clear_restore_destination\<close> removes.\<close>

primrec cleared :: "tree \<Rightarrow> (string list \<times> node) list \<Rightarrow> string list list" where
  "cleared t [] = []"
| "cleared t (e # es) =
    (if length (fst e) \<noteq> 1 \<or> fst e = restore_marker then cleared t es
     else if snd e = DirNode then rev (filter (\<lambda>q. take (length (fst e)) q = fst e) (bt_keys t)) @ cleared t es
     else fst e # cleared t es)"

lemma clear_entries_plan:
  assumes "list_all (\<lambda>e. length (fst e) = 1 \<longrightarrow> snd e \<noteq> OtherNode) es"
  shows "clear_entries t es = store () (map drop_node (cleared t es))"
  using assms by (induction es) (auto simp: store_def reply_def remove_dir_all_def split: node.splits)

lemma cleared_iff:
  "q \<in> set (cleared t es) \<longleftrightarrow> (\<exists>e\<in>set es. length (fst e) = 1 \<and> fst e \<noteq> restore_marker
    \<and> (if snd e = DirNode then q \<in> set (bt_keys t) \<and> take 1 q = fst e else q = fst e))"
  by (induction es) auto

lemma clear_all:
  assumes t: "wf_tree t" "bt_get t restore_marker = Some (FileNode b)"
    and nodes: "list_all (\<lambda>e. length (fst e) = 1 \<longrightarrow> snd e \<noteq> OtherNode) t"
  shows "fst (clear_restore_destination (DirPlace t)) = Ok ()
    \<and> (\<exists>t'. after clear_restore_destination (DirPlace t) = DirPlace t'
        \<and> bt_wf t' \<and> bt_get t' = (\<lambda>q. if q = restore_marker then Some (FileNode b) else None))"
proof -
  have wf: "bt_wf t" using t(1) by (simp add: wf_tree_def)
  from clear_entries_plan [OF nodes, of t]
  have plan: "clear_restore_destination (DirPlace t) = store () (map drop_node (cleared t t))"
    by (simp add: clear_restore_destination_def)
  have all: "q \<in> set (cleared t t)" if q: "bt_get t q = Some n" "q \<noteq> restore_marker" for q n
  proof -
    have "\<exists>m. bt_get t (take 1 q) = Some m \<and> take 1 q \<noteq> restore_marker \<and> (q \<noteq> take 1 q \<longrightarrow> m = DirNode)"
    proof (cases "length q = 1")
      case False
      then have "bt_get t (take 1 q) = Some DirNode"
        using wf_tree_prefix [OF t(1) q(1), of 1] wf_treeD(1) [OF t(1) q(1)] by (cases q) auto
      then show ?thesis using t(2) by auto
    qed (use q in auto)
    then obtain m where m: "bt_get t (take 1 q) = Some m" "take 1 q \<noteq> restore_marker" "q \<noteq> take 1 q \<longrightarrow> m = DirNode" by blast
    then have "(take 1 q, m) \<in> set t" using bt_get_iff [OF wf] by auto
    moreover have "length (take 1 q) = 1" using wf_treeD(1) [OF t(1) q(1)] by (cases q) auto
    ultimately show ?thesis
      unfolding cleared_iff using m bt_get_key [OF q(1)] by (intro bexI [of _ "(take 1 q, m)"]) auto
  qed
  have keep: "restore_marker \<notin> set (cleared t t)" by (auto simp: cleared_iff split: if_splits)
  from apply_drops [OF wf, of "cleared t t"] obtain t' where
    t': "apply_mutations (map drop_node (cleared t t)) (DirPlace t) = DirPlace t'" "bt_wf t'"
      "bt_get t' = (\<lambda>q. if q \<in> set (cleared t t) then None else bt_get t q)" by blast
  have "bt_get t' q = (if q = restore_marker then Some (FileNode b) else None)" for q
    using all [of q] keep t(2) by (cases "bt_get t q") (auto simp: t'(3))
  with t'(1,2) show ?thesis by (auto simp: plan after_def plan_simps fun_eq_iff)
qed

lemma wf_tree_mark:
  assumes "wf_tree t" "bt_get t restore_marker = None"
  shows "wf_tree (bt_insert restore_marker marker_node t)"
proof -
  have "CHR ''/'' \<notin> set RESTORE_INCOMPLETE_MARKER" by (simp add: RESTORE_INCOMPLETE_MARKER_def)
  moreover have "butlast p \<noteq> restore_marker" if "bt_get t (butlast p) = Some n" for p n using that assms(2) by auto
  ultimately show ?thesis
    using assms(1) by (auto simp: wf_tree_def list_all_iff bt_insert_keys)
qed

lemma clear_ok:
  assumes t: "wf_tree t" "bt_get t restore_marker = None"
    and nodes: "list_all (\<lambda>e. length (fst e) = 1 \<longrightarrow> snd e \<noteq> OtherNode) t"
  shows "fst (clear_restore_destination (DirPlace (bt_insert restore_marker marker_node t))) = Ok ()
    \<and> (\<exists>t'. after clear_restore_destination (DirPlace (bt_insert restore_marker marker_node t)) = DirPlace t'
        \<and> bt_wf t' \<and> bt_get t' = marked_layout [])"
proof -
  let ?t = "bt_insert restore_marker marker_node t"
  have wf: "bt_wf t" "bt_wf ?t" using t(1) by (simp_all add: wf_tree_def)
  have "(p, n) \<in> set ?t \<longleftrightarrow> (if p = restore_marker then n = marker_node else (p, n) \<in> set t)" for p n
    using bt_get_iff [OF wf(2), of p n] bt_get_iff [OF wf(1), of p n] by auto
  then have nodes': "list_all (\<lambda>e. length (fst e) = 1 \<longrightarrow> snd e \<noteq> OtherNode) ?t"
    using nodes by (auto simp: list_all_iff marker_node_def split: if_splits)
  obtain b where b: "marker_node = FileNode b" by (simp add: marker_node_def)
  then have node: "bt_get ?t restore_marker = Some (FileNode b)" by simp
  have layout: "marked_layout [] = (\<lambda>q. if q = restore_marker then Some marker_node else None)"
    by (auto simp: marked_layout_def layout_def)
  show ?thesis unfolding layout using clear_all [OF wf_tree_mark [OF t] node nodes'] unfolding b [symmetric] .
qed



lemma restored_paths_ok:
  assumes "list_all (\<lambda>e. snd e \<noteq> LinkNode) es"
    and "\<And>p b. (p, FileNode b) \<in> set es \<Longrightarrow> p \<noteq> restore_marker \<Longrightarrow> portable_relative_path p = Ok (join_path p)"
  shows "restored_paths es = Ok (join_path ` {p. p \<noteq> restore_marker \<and> (\<exists>b. (p, FileNode b) \<in> set es)})"
  using assms
proof (induction es)
  case (Cons e es)
  have ih: "restored_paths es = Ok (join_path ` {p. p \<noteq> restore_marker \<and> (\<exists>b. (p, FileNode b) \<in> set es)})"
    by (rule Cons.IH) (use Cons.prems in auto)
  obtain p n where e: "e = (p, n)" by (cases e)
  with Cons.prems ih show ?case by (cases n) auto
qed simp

text \<open>A destination a restore can start from.\<close>

fun clean_destination :: "place \<Rightarrow> bool" where
  "clean_destination NoPlace = True"
| "clean_destination (DirPlace t) \<longleftrightarrow> wf_tree t \<and> bt_get t restore_marker = None
    \<and> list_all (\<lambda>e. snd e \<noteq> LinkNode \<and> (length (fst e) = 1 \<longrightarrow> snd e \<noteq> OtherNode)) t"
| "clean_destination _ = False"

lemma portable_split:
  assumes "validate_portable_path s = Ok ()"
  shows "portable_relative_path (split_path s) = Ok s"
proof -
  have "list_all (\<lambda>c. is_utf8 (map byte_of c)) (split_path s)"
    using assms by (auto simp: validate_portable_path_Ok list_all_iff component_ok_def is_ok_iff portable_component_key_Ok ascii_utf8)
  then have "for_each (\<lambda>part. ensure (is_utf8 (map byte_of part)) e) (split_path s) = Ok ()" for e
    by (simp add: list_all_iff)
  with assms show ?thesis by (simp add: portable_relative_path_def)
qed

lemma layout_FileNode: "layout files q = Some (FileNode b) \<longleftrightarrow> (\<exists>c. b = Some c \<and> map_of files q = Some c)"
  by (auto simp: layout_def split: option.splits if_splits)

lemma layout_not_link: "layout files q \<noteq> Some LinkNode"
  by (auto simp: layout_def split: option.splits)

lemma restored_tree_verifies:
  assumes t: "bt_wf t" "bt_get t = marked_layout (rev (zip (map (split_path \<circ> se_path) (sm_entries manifest)) contents))"
    and len: "length contents = length (sm_entries manifest)"
    and paths: "restorable (map (split_path \<circ> se_path) (sm_entries manifest))"
    and portable: "\<And>e. e \<in> set (sm_entries manifest) \<Longrightarrow> validate_portable_path (se_path e) = Ok ()"
  shows "verify_restored_tree manifest (DirPlace t) = Ok ()"
proof -
  let ?es = "sm_entries manifest" and ?paths = "map (split_path \<circ> se_path) (sm_entries manifest)"
  let ?files = "rev (zip ?paths contents)"
  have distinct: "distinct (map fst ?files)" using paths len by (simp add: restorable_def flip: rev_map)
  have file_iff: "(p, FileNode b) \<in> set t \<and> p \<noteq> restore_marker \<longleftrightarrow> p \<noteq> restore_marker \<and> (\<exists>c. b = Some c \<and> (p, c) \<in> set ?files)" for p b
    using bt_get_iff [OF t(1), of p "FileNode b"] map_of_eq_Some_iff [OF distinct, of p]
    by (auto simp: t(2) marked_layout_def layout_FileNode)
  have marker_free: "p \<noteq> restore_marker" if "p \<in> set ?paths" for p
    using paths that by (auto simp: restorable_def list_all_iff)
  have not_link: "(p, LinkNode) \<notin> set t" for p
    using bt_get_iff [OF t(1), of p LinkNode] layout_not_link [of ?files p]
    by (simp add: t(2) marked_layout_def marker_node_def split: if_splits)
  have "restored_paths t = Ok (join_path ` {p. p \<noteq> restore_marker \<and> (\<exists>b. (p, FileNode b) \<in> set t)})"
  proof (rule restored_paths_ok)
    show "list_all (\<lambda>e. snd e \<noteq> LinkNode) t"
      using not_link by (auto simp: list_all_iff)
    show "portable_relative_path p = Ok (join_path p)" if "(p, FileNode b) \<in> set t" "p \<noteq> restore_marker" for p b
    proof -
      from that file_iff [of p b] have "p \<in> set ?paths" by (auto dest: set_zip_leftD)
      then obtain e where "e \<in> set ?es" "p = split_path (se_path e)" by auto
      with portable_split [OF portable] show ?thesis by simp
    qed
  qed
  also have "{p. p \<noteq> restore_marker \<and> (\<exists>b. (p, FileNode b) \<in> set t)} = {p. p \<noteq> restore_marker \<and> p \<in> fst ` set ?files}"
    (is "Collect ?kept = Collect ?named")
  proof (rule Collect_cong)
    fix p show "?kept p = ?named p"
    proof
      assume "?kept p"
      then obtain b where "(p, FileNode b) \<in> set t \<and> p \<noteq> restore_marker" by blast
      then obtain c where "p \<noteq> restore_marker" "(p, c) \<in> set ?files" unfolding file_iff by blast
      then show "?named p" by (metis fst_conv image_eqI)
    next
      assume "?named p"
      then obtain c where "p \<noteq> restore_marker \<and> (\<exists>c'. Some c = Some c' \<and> (p, c') \<in> set ?files)" by fastforce
      then show "?kept p" unfolding file_iff [symmetric] by blast
    qed
  qed
  also have "fst ` set ?files = set ?paths" using len by (metis length_map map_fst_zip set_map set_rev)
  also have "{p. p \<noteq> restore_marker \<and> p \<in> set ?paths} = set ?paths" using marker_free by auto
  finally show ?thesis by (simp add: verify_restored_tree_def image_image)
qed

lemma layout_marker:
  assumes "restorable (map fst files)"
  shows "layout files restore_marker = None"
proof -
  have "hd (fst f) \<noteq> RESTORE_INCOMPLETE_MARKER" if "f \<in> set files" for f
    using assms that by (auto simp: restorable_def list_all_iff)
  then show ?thesis by (fastforce simp: layout_def list_ex_iff strict_prefix_def prefix_def dest: map_of_SomeD split: option.splits)
qed

lemma restore_succeeds:
  assumes verified: "verify_snapshot_streaming H Z pick fs manifest = Ok ()" and clean: "clean_destination pl"
    and paths: "restorable (map (split_path \<circ> se_path) (sm_entries manifest))"
    and blobs: "list_all2 (entry_holds H Z fs) (sm_entries manifest) contents"
  shows "fst (restore_snapshot_streaming H Z pick fs manifest path pl) = Ok ()
    \<and> (\<exists>t. after (restore_snapshot_streaming H Z pick fs manifest path) pl = DirPlace t \<and> bt_wf t
        \<and> bt_get t = layout (rev (zip (map (split_path \<circ> se_path) (sm_entries manifest)) contents)))"
proof -
  let ?es = "sm_entries manifest" and ?paths = "map (split_path \<circ> se_path) (sm_entries manifest)"
  let ?files = "rev (zip ?paths contents)" and ?rest = "restore_rest H Z pick fs manifest path"
  have len: "length contents = length ?es" using blobs by (simp add: list_all2_lengthD)
  obtain t where t: "wf_tree t" "bt_get t restore_marker = None" "list_all (\<lambda>e. length (fst e) = 1 \<longrightarrow> snd e \<noteq> OtherNode) t"
    "list_all (\<lambda>e. snd e \<noteq> LinkNode) t" "fst (ensure_restore_root path pl) = Ok ()" "after (ensure_restore_root path) pl = DirPlace t"
  proof (cases pl)
    case NoPlace
    then show thesis using that [of "[]"]
      by (simp add: ensure_restore_root_def restore_directory_exists_def plan_simps after_def wf_tree_def bt_keys_def)
  next
    case (DirPlace t)
    then show thesis using that [of t] clean
      by (simp add: ensure_restore_root_def restore_directory_exists_def plan_simps after_def list_all_iff)
  qed (use clean in simp_all)
  have fresh: "\<not> marker_exists pl" using clean by (cases pl) (auto simp: marker_exists_def)
  have valid: "validate_existing_restore_tree (DirPlace t) = Ok ()"
    using t(4) find_link_None [of t] by (simp add: validate_existing_restore_tree_def)
  let ?marked = "DirPlace (bt_insert restore_marker marker_node t)"
  from clear_ok [OF t(1-3)] obtain t0 where t0: "fst (clear_restore_destination ?marked) = Ok ()"
    "after clear_restore_destination ?marked = DirPlace t0" "bt_wf t0" "bt_get t0 = marked_layout []" by blast
  have "restorable (rev ?paths @ map fst ([] :: (string list \<times> bytes) list))" using paths by (simp add: restorable_def)
  from restore_entries_ok [OF t0(3,4) this blobs, of pick path] obtain t1 where
    t1: "fst (restore_entries H Z pick fs path ?es (DirPlace t0)) = Ok ()"
      "after (restore_entries H Z pick fs path ?es) (DirPlace t0) = DirPlace t1" "bt_wf t1" "bt_get t1 = marked_layout ?files"
    by auto
  have portable: "validate_portable_path (se_path e) = Ok ()" if "e \<in> set ?es" for e
    using verified that
    by (auto simp: verify_snapshot_streaming_def validate_manifest_shape_def validate_manifest_paths_def check_manifest_paths_Ok
      list_all_iff split: if_splits)
  note tree = restored_tree_verifies [OF t1(3,4) len paths portable]
  have "remove_marker (DirPlace t1) = store () [drop_node restore_marker]"
    by (simp add: remove_marker_def t1(4) marked_layout_def marker_node_def)
  then have rest: "fst (?rest ?marked) = Ok ()" "after ?rest ?marked = DirPlace (bt_remove restore_marker t1)"
    unfolding restore_rest_def by (simp_all add: fst_then after_then t0(1,2) t1(1,2) fst_check tree plan_simps)
      (simp_all add: after_def tree plan_simps)
  let ?go = "\<lambda>_ pl. check (validate_existing_restore_tree pl) (\<lambda>_.
    then_plan (\<lambda>_. store () [put_node restore_marker marker_node]) (\<lambda>_. ?rest) pl)"
  let ?restore = "restore_snapshot_streaming H Z pick fs manifest path"
  have marking: "after (\<lambda>_. store () [put_node restore_marker marker_node]) (DirPlace t) = ?marked"
    by (simp add: after_def plan_simps)
  have op: "?restore pl = then_plan (ensure_restore_root path) ?go pl" by (simp add: restore_unfold verified fresh)
  then have "fst (?restore pl) = Ok ()" by (simp add: fst_then t(5,6) valid plan_simps marking rest(1))
  moreover have "after ?restore pl = after (then_plan (ensure_restore_root path) ?go) pl" by (simp add: after_def op)
  then have "after ?restore pl = DirPlace (bt_remove restore_marker t1)"
    by (simp add: after_then t(5,6) after_check valid plan_simps marking rest(2))
  moreover have "restorable (map fst ?files)" using paths len by (simp add: restorable_def flip: rev_map)
  then have "bt_get (bt_remove restore_marker t1) = layout ?files"
    by (simp add: fun_eq_iff t1(4) marked_layout_def layout_marker)
  ultimately show ?thesis using t1(3) by simp
qed

end
