(* ===== verification/StoreMachine.thy ===== *)
theory StoreMachine
  imports Scheduler PromiseStore SnapshotTree
begin

text \<open>
  The storage crate as one machine: every operation that can change the files of a world, run one after another,
  each complete or interrupted after any number of its mutations.  The lemmas say what survives every such run.
\<close>

section \<open>The machine\<close>

datatype store_op =
    OpCreateWorld WorldMetadataV1
  | OpSaveEpoch EpochRecordV1
  | OpReserve AuthorityLeaseGrantV1
  | OpSaveReservation AuthorityLeaseGrantV1
  | OpClearReservation
  | OpSaveTransfer AuthorityTransferV1
  | OpSaveSleep SleepRecordV1
  | OpClearSleep
  | OpPromiseRecovery RecoveryBallotV1 RecoveryVoteV1
  | OpClearRecoveryPromise u64
  | OpSaveRecoveryCertificate RecoveryCertificateV1
  | OpClearRecoveryCertificate
  | OpSaveDescriptor WorldDescriptorV1
  | OpSavePendingJoin JoinRequestV1
  | OpClearPendingJoin
  | OpSavePendingLeave LeaveRequestV1
  | OpClearPendingLeave
  | OpPromiseMembership MembershipProposalV1 MembershipVoteV1
  | OpClearMembershipPromise Hash32
  | OpSaveMembershipCertificate MembershipCertificateV1
  | OpSaveMembership MembershipRecordV1
  | OpRemoveLocalMembership
  | OpSaveConfig WorldConfigV1
  | OpSaveSolo SoloBranchV1
  | OpPreserveConflict SoloBranchV1
  | OpSetSeeding bool
  | OpPutBlob bytes
  | OpReadHead
  | OpCheckNamespace
  | OpCommit "SnapshotPublicationLease option" SnapshotManifestV1 "SnapshotCommitFence option"
  | OpLoadSnapshot u64
  | OpListSnapshots
  | OpLatestSnapshot
  | OpNextNumber
  | OpPin bool nat "Hash32 list"
  | OpUnpin nat "Hash32 list"
  | OpBeginPublication "string list"
  | OpPinHash SnapshotPublicationLease Hash32
  | OpReleasePublication string
  | OpDropOwner string
  | OpRecoverPublications
  | OpSnapshot "string list" string place SnapshotContext
  | OpPrune RetentionPolicy
  | OpCollect bool
  | OpRetain bool RetentionPolicy
  | OpReceiveChunk BlobDescriptor u64 bytes bool
  | OpCheckHistory SnapshotManifestV1
  | OpFinalize SnapshotManifestV1

definition discard :: "'a plan \<Rightarrow> unit plan" where
  "discard p = (and_then (fst p) (\<lambda>_. Ok ()), snd p)"

record store_env =
  se_host :: host
  se_zstd :: zstd
  se_pick :: "nat \<Rightarrow> nat"
  se_world :: WorldId

definition store_body :: "store_env \<Rightarrow> store_op \<Rightarrow> world_files \<Rightarrow> unit plan" where
  "store_body E op fs = (let H = se_host E; Z = se_zstd E; pick = se_pick E; w = se_world E in
    case op of
      OpCreateWorld md \<Rightarrow> create_world H md fs
    | OpSaveEpoch r \<Rightarrow> save_epoch_record H r fs
    | OpReserve r \<Rightarrow> discard (reserve_recovery H r fs)
    | OpSaveReservation r \<Rightarrow> save_recovery_reservation H r fs
    | OpClearReservation \<Rightarrow> clear_recovery_reservation fs
    | OpSaveTransfer r \<Rightarrow> save_transfer_record H r fs
    | OpSaveSleep r \<Rightarrow> save_sleep_record H r fs
    | OpClearSleep \<Rightarrow> clear_sleep_record fs
    | OpPromiseRecovery b v \<Rightarrow> discard (promise_recovery_ballot H b v fs)
    | OpClearRecoveryPromise e \<Rightarrow> discard (clear_recovery_promise_after_epoch_advance H w e fs)
    | OpSaveRecoveryCertificate c \<Rightarrow> save_recovery_certificate H c fs
    | OpClearRecoveryCertificate \<Rightarrow> clear_recovery_certificate fs
    | OpSaveDescriptor d \<Rightarrow> save_world_descriptor d fs
    | OpSavePendingJoin r \<Rightarrow> save_pending_join H r fs
    | OpClearPendingJoin \<Rightarrow> clear_pending_join fs
    | OpSavePendingLeave r \<Rightarrow> save_pending_leave H r fs
    | OpClearPendingLeave \<Rightarrow> clear_pending_leave fs
    | OpPromiseMembership p v \<Rightarrow> discard (promise_membership_proposal H p v fs)
    | OpClearMembershipPromise h \<Rightarrow> discard (clear_membership_promise_after_commit H w h fs)
    | OpSaveMembershipCertificate c \<Rightarrow> save_membership_certificate H c fs
    | OpSaveMembership r \<Rightarrow> save_membership_record H r fs
    | OpRemoveLocalMembership \<Rightarrow> remove_local_membership fs
    | OpSaveConfig c \<Rightarrow> save_world_config H c fs
    | OpSaveSolo b \<Rightarrow> save_solo_branch H b fs
    | OpPreserveConflict b \<Rightarrow> discard (preserve_solo_conflict H b fs)
    | OpSetSeeding b \<Rightarrow> set_background_seeding H w b fs
    | OpPutBlob bs \<Rightarrow> discard (put_blob H Z bs fs)
    | OpReadHead \<Rightarrow> discard (canonical_snapshot_head H w fs)
    | OpCheckNamespace \<Rightarrow> validate_canonical_snapshot_namespace H w fs
    | OpCommit p m f \<Rightarrow> commit_snapshot_streaming_inner H Z pick p m f fs
    | OpLoadSnapshot n \<Rightarrow> discard (load_snapshot H w n fs)
    | OpListSnapshots \<Rightarrow> discard (list_snapshots H w fs)
    | OpLatestSnapshot \<Rightarrow> discard (latest_snapshot H w fs)
    | OpNextNumber \<Rightarrow> discard (next_snapshot_number H w fs)
    | OpPin busy t hs \<Rightarrow> discard (pin_replication_hashes busy t w hs fs)
    | OpUnpin t hs \<Rightarrow> remove_pin_paths t hs fs
    | OpBeginPublication ids \<Rightarrow> discard (begin_snapshot_publication w ids fs)
    | OpPinHash l h \<Rightarrow> discard (pin_hash l h fs)
    | OpReleasePublication p \<Rightarrow> release_snapshot_publication_pins p fs
    | OpDropOwner p \<Rightarrow> store () [drop_owner p]
    | OpRecoverPublications \<Rightarrow> recover_abandoned_snapshot_publications fs
    | OpSnapshot ids path source context \<Rightarrow> discard (snapshot_directory_streaming H Z pick ids path source context fs)
    | OpPrune policy \<Rightarrow> discard (prune_snapshots H w policy fs)
    | OpCollect busy \<Rightarrow> discard (garbage_collect_blobs H busy w fs)
    | OpRetain busy policy \<Rightarrow> discard (apply_retention H busy w policy fs)
    | OpReceiveChunk d n bs fin \<Rightarrow> discard (receive_blob_chunk H Z pick d n bs fin fs)
    | OpCheckHistory m \<Rightarrow> discard (validate_replica_history H m fs)
    | OpFinalize m \<Rightarrow> discard (finalize_replica H Z pick m fs))"

text \<open>The world a record names selects the directory: an operation on another world leaves these files alone.\<close>

definition addressed :: "WorldId \<Rightarrow> store_op \<Rightarrow> bool" where
  "addressed w op = (case op of
      OpCreateWorld md \<Rightarrow> md_world_id md = w
    | OpSaveEpoch r \<Rightarrow> er_world_id r = w
    | OpReserve r \<Rightarrow> lg_world_id r = w
    | OpSaveReservation r \<Rightarrow> lg_world_id r = w
    | OpSaveTransfer r \<Rightarrow> at_world_id r = w
    | OpSaveSleep r \<Rightarrow> sl_world_id r = w
    | OpPromiseRecovery b v \<Rightarrow> rb_world_id b = w
    | OpSaveRecoveryCertificate c \<Rightarrow> rb_world_id (rcert_ballot c) = w
    | OpSaveDescriptor d \<Rightarrow> wd_world_id d = w
    | OpSavePendingJoin r \<Rightarrow> jr_world_id r = w
    | OpSavePendingLeave r \<Rightarrow> lv_world_id r = w
    | OpPromiseMembership p v \<Rightarrow> mr_world_id (mp_proposed p) = w
    | OpSaveMembershipCertificate c \<Rightarrow> certificate_world c = w
    | OpSaveMembership r \<Rightarrow> mr_world_id r = w
    | OpSaveConfig c \<Rightarrow> wc_world_id c = w
    | OpSaveSolo b \<Rightarrow> sb_world_id b = w
    | OpPreserveConflict b \<Rightarrow> sb_world_id b = w
    | OpSnapshot ids path source context \<Rightarrow> sc_world context = w
    | OpCommit p m f \<Rightarrow> sm_world_id m = w
    | OpCheckHistory m \<Rightarrow> sm_world_id m = w
    | OpFinalize m \<Rightarrow> sm_world_id m = w
    | _ \<Rightarrow> True)"

definition store_plan :: "store_env \<Rightarrow> store_op \<Rightarrow> world_files \<Rightarrow> unit plan" where
  "store_plan E op fs = (if addressed (se_world E) op then store_body E op fs else reply ())"

text \<open>One step: an operation and, when it is interrupted, after how many mutations.\<close>

definition store_exec :: "store_env \<Rightarrow> world_files \<Rightarrow> store_op \<times> nat option \<Rightarrow> world_files" where
  "store_exec E fs step = snd (perform (store_plan E (fst step)) (snd step) fs)"

definition store_run :: "store_env \<Rightarrow> world_files \<Rightarrow> (store_op \<times> nat option) list \<Rightarrow> world_files" where
  "store_run E fs steps = foldl (store_exec E) fs steps"

lemma discard_keeps [footprint]: "plan_keeps f p \<Longrightarrow> plan_keeps f (discard p)"
  by (simp add: plan_keeps_def discard_def)

lemma store_exec_leaves: "store_exec E fs step \<in> leaves (store_plan E (fst step)) fs"
  unfolding store_exec_def by (rule perform_leaves)

section \<open>The epoch record\<close>

lemma store_plan_keeps [footprint]:
  "(addressed (se_world E) op \<Longrightarrow> plan_keeps f (store_body E op fs)) \<Longrightarrow> plan_keeps f (store_plan E op fs)"
  by (simp add: store_plan_def footprint)

definition saves_epoch :: "store_op \<Rightarrow> bool" where
  "saves_epoch op = (case op of OpSaveEpoch _ \<Rightarrow> True | _ \<Rightarrow> False)"

lemma store_body_epoch: "\<not> saves_epoch op \<Longrightarrow> plan_keeps wf_epoch (store_body E op fs)"
  unfolding store_body_def Let_def by (cases op) (simp_all add: footprint saves_epoch_def)

definition epoch_token :: "world_files \<Rightarrow> AuthorityGeneration option" where
  "epoch_token fs = (case wf_epoch fs of Content r \<Rightarrow> Some (epoch_generation r) | _ \<Rightarrow> None)"

definition epoch_owner :: "world_files \<Rightarrow> EpochRecordV1 option" where
  "epoch_owner fs = (case wf_epoch fs of Content r \<Rightarrow> Some r | _ \<Rightarrow> None)"

lemma save_epoch_leaves:
  assumes "g \<in> leaves (save_epoch_record H r) fs"
  shows "g = fs \<or> g = fs\<lparr>wf_epoch := Content r\<rparr> \<and> epoch_token fs < Some (epoch_generation r)"
proof -
  have "snd (save_epoch_record H r fs) = [] \<or>
      snd (save_epoch_record H r fs) = [\<lambda>fs. fs\<lparr>wf_epoch := Content r\<rparr>] \<and> epoch_token fs < Some (epoch_generation r)"
    by (auto simp: save_epoch_record_def write_epoch_def snd_check plan_simps epoch_token_def load_epoch_record_def
        not_less_iff_gr_or_eq split: sum.splits if_splits slot.splits)
  with leaves_unchanged [OF _ assms] leaves_single [OF _ assms] show ?thesis by blast
qed

lemma store_plan_cases:
  assumes "g \<in> leaves (store_plan E op) fs"
  shows "g = fs \<or> g \<in> leaves (store_body E op) fs"
  using assms by (auto simp: leaves_def store_plan_def plan_simps)

lemma leaves_discard: "snd (q fs) = snd (p fs) \<Longrightarrow> g \<in> leaves q fs \<Longrightarrow> g \<in> leaves p fs"
  by (simp add: leaves_def)

lemma epoch_step:
  "wf_epoch (store_exec E fs step) = wf_epoch fs \<or>
    (\<exists>r. wf_epoch (store_exec E fs step) = Content r \<and> epoch_token fs < Some (epoch_generation r))"
proof (cases "saves_epoch (fst step)")
  case False
  from leaves_keeps [OF store_plan_keeps [OF store_body_epoch [OF False]] store_exec_leaves] show ?thesis by simp
next
  case True
  then obtain r where r: "fst step = OpSaveEpoch r" by (auto simp: saves_epoch_def split: store_op.splits)
  have "snd (store_body E (OpSaveEpoch r) fs) = snd (save_epoch_record (se_host E) r fs)"
    by (simp add: store_body_def)
  with store_plan_cases [OF store_exec_leaves [of E fs step]] r
  have "store_exec E fs step = fs \<or> store_exec E fs step \<in> leaves (save_epoch_record (se_host E) r) fs"
    using leaves_discard by metis
  with save_epoch_leaves show ?thesis by fastforce
qed

interpretation epoch_store: fenced_machine "store_exec E" "\<lambda>_. True" epoch_token epoch_owner for E
proof
  fix fs step
  show "epoch_token fs \<le> epoch_token (store_exec E fs step)"
    using epoch_step [of E fs step] by (auto simp: epoch_token_def less_imp_le)
  show "epoch_token (store_exec E fs step) = epoch_token fs \<Longrightarrow>
      epoch_owner (store_exec E fs step) = None \<or> epoch_owner (store_exec E fs step) = epoch_owner fs"
    using epoch_step [of E fs step] by (auto simp: epoch_token_def epoch_owner_def)
qed simp

text \<open>
  C10. The epoch record never goes back and is never replaced by another of the same generation.  In every run of
  storage operations, interrupted anywhere, the record on disk is the one it was or one of a later generation.
\<close>

theorem epoch_record_never_regresses:
  assumes "wf_epoch fs = Content r"
  shows "\<exists>r'. wf_epoch (store_run E fs steps) = Content r' \<and> (r' = r \<or> epoch_generation r < epoch_generation r')"
proof -
  have run: "store_run E fs steps = epoch_store.run E fs steps"
    by (simp add: store_run_def epoch_store.run_def)
  have mono: "Some (epoch_generation r) \<le> epoch_token (store_run E fs steps)"
    using epoch_store.run_token_mono [of fs E steps] assms by (simp add: run epoch_token_def)
  then obtain r' where r': "wf_epoch (store_run E fs steps) = Content r'"
    by (auto simp: epoch_token_def split: slot.splits)
  have "epoch_token (store_run E fs steps) = epoch_token fs \<Longrightarrow>
      epoch_owner (store_run E fs steps) = None \<or> epoch_owner (store_run E fs steps) = epoch_owner fs"
    unfolding run using epoch_store.run_owner_fenced by blast
  with r' assms have "epoch_generation r' = epoch_generation r \<Longrightarrow> r' = r"
    by (simp add: epoch_token_def epoch_owner_def)
  moreover have "epoch_generation r \<le> epoch_generation r'" using mono r' by (simp add: epoch_token_def)
  ultimately show ?thesis using r' by (metis order_le_less)
qed

section \<open>The recovery promise\<close>

definition clears_promise :: "store_op \<Rightarrow> bool" where
  "clears_promise op = (case op of OpClearRecoveryPromise _ \<Rightarrow> True | _ \<Rightarrow> False)"

definition promises :: "store_op \<Rightarrow> bool" where
  "promises op = (case op of OpPromiseRecovery _ _ \<Rightarrow> True | _ \<Rightarrow> False)"

lemma store_body_promise:
  "\<not> clears_promise op \<Longrightarrow> \<not> promises op \<Longrightarrow> plan_keeps wf_recovery_promise (store_body E op fs)"
  unfolding store_body_def Let_def by (cases op) (simp_all add: footprint clears_promise_def promises_def)

text \<open>The step from one held promise to the next: nothing changes, or the round grows over the same base.\<close>

definition promise_extends :: "DurableRecoveryPromiseV1 \<Rightarrow> DurableRecoveryPromiseV1 \<Rightarrow> bool" where
  "promise_extends p p' \<longleftrightarrow> p' = p
    \<or> rb_round (drp_ballot p) < rb_round (drp_ballot p') \<and> same_recovery_base (drp_ballot p) (drp_ballot p')"

lemma promise_extends_trans: "promise_extends p q \<Longrightarrow> promise_extends q r \<Longrightarrow> promise_extends p r"
  by (auto simp: promise_extends_def same_recovery_base_def)

lemma promise_step:
  assumes "wf_recovery_promise fs = Content p" "\<not> clears_promise (fst step)"
  shows "\<exists>p'. wf_recovery_promise (store_exec E fs step) = Content p' \<and> promise_extends p p'"
proof (cases "promises (fst step)")
  case False
  from leaves_keeps [OF store_plan_keeps [OF store_body_promise [OF assms(2) False]] store_exec_leaves] assms(1)
  show ?thesis by (simp add: promise_extends_def)
next
  case True
  then obtain b v where op: "fst step = OpPromiseRecovery b v" by (auto simp: promises_def split: store_op.splits)
  let ?op = "promise_recovery_ballot (se_host E) b v"
  have "snd (store_body E (OpPromiseRecovery b v) fs) = snd (?op fs)" by (simp add: store_body_def discard_def Let_def)
  with store_plan_cases [OF store_exec_leaves [of E fs step]] op
  have "store_exec E fs step = fs \<or> store_exec E fs step \<in> leaves ?op fs" using leaves_discard by metis
  moreover have "store_exec E fs step = fs \<or> store_exec E fs step = fs\<lparr>wf_recovery_promise := Content \<lparr>drp_ballot = b, drp_vote = v\<rparr>\<rparr>
      \<and> promise_admits (se_host E) fs b v" if "store_exec E fs step \<in> leaves ?op fs"
    using promise_mutations [of "se_host E" b v fs] leaves_unchanged [OF _ that] leaves_single [OF _ that] by blast
  ultimately show ?thesis using assms(1) by (auto simp: promise_extends_def promise_admits_def)
qed

lemma promise_run:
  assumes "wf_recovery_promise fs = Content p" "list_all (\<lambda>step. \<not> clears_promise (fst step)) steps"
  shows "\<exists>p'. wf_recovery_promise (store_run E fs steps) = Content p' \<and> promise_extends p p'"
  using assms
proof (induction steps arbitrary: fs p)
  case (Cons step steps)
  from promise_step [OF Cons.prems(1), of step E] Cons.prems(2)
  obtain q where q: "wf_recovery_promise (store_exec E fs step) = Content q" "promise_extends p q" by auto
  from Cons.IH [OF q(1)] Cons.prems(2) obtain p' where "wf_recovery_promise (store_run E (store_exec E fs step) steps) = Content p'" "promise_extends q p'"
    by auto
  then show ?case using promise_extends_trans [OF q(2)] by (auto simp: store_run_def)
qed (simp add: store_run_def promise_extends_def)


section \<open>Witnesses\<close>

definition demo_env :: "WorldId \<Rightarrow> store_env" where
  "demo_env w = \<lparr>se_host = demo_host, se_zstd = plain_zstd, se_pick = (\<lambda>n. n), se_world = w\<rparr>"

definition demo_epoch :: "u64 \<Rightarrow> EpochRecordV1" where
  "demo_epoch n = \<lparr>er_protocol_version = PROTOCOL_VERSION, er_world_id = WorldId 7, er_epoch_number = n,
    er_previous_epoch_hash = None, er_base_state_hash = Hash32 0, er_authority_peer_id = PeerId 0,
    er_authority_public_key = 0, er_mode = Quorum, er_fencing_token = n, er_reason = [], er_signature = []\<rparr>"

theorem epoch_record_never_regresses_witness:
  "wf_epoch (empty_files\<lparr>wf_epoch := Content (demo_epoch 2)\<rparr>) = Content (demo_epoch 2)
    \<and> (\<exists>r. wf_epoch (store_run (demo_env (WorldId 7)) (empty_files\<lparr>wf_epoch := Content (demo_epoch 2)\<rparr>)
          [(OpSaveEpoch (demo_epoch 1), None), (OpSaveEpoch (demo_epoch 3), Some 0), (OpRemoveLocalMembership, None)]) = Content r
      \<and> (r = demo_epoch 2 \<or> epoch_generation (demo_epoch 2) < epoch_generation r))"
  using epoch_record_never_regresses [of "empty_files\<lparr>wf_epoch := Content (demo_epoch 2)\<rparr>" "demo_epoch 2" "demo_env (WorldId 7)"
    "[(OpSaveEpoch (demo_epoch 1), None), (OpSaveEpoch (demo_epoch 3), Some 0), (OpRemoveLocalMembership, None)]"] by simp

abbreviation sample_certificate_at :: "u64 \<Rightarrow> RecoveryCertificateV1" where
  "sample_certificate_at r \<equiv> \<lparr>rcert_ballot = sample_ballot r, rcert_votes = [sample_vote r]\<rparr>"

abbreviation promised_files :: "u64 \<Rightarrow> world_files" where
  "promised_files r \<equiv> empty_files\<lparr>wf_recovery_promise := Content \<lparr>drp_ballot = sample_ballot r, drp_vote = sample_vote r\<rparr>\<rparr>"

lemma sample_certificate_shape: "0 < r \<Longrightarrow> validate_recovery_certificate_shape demo_host (sample_certificate_at r) [PeerId 0] = Ok ()"
  by (simp add: validate_recovery_certificate_shape_def sample_ballot_well_formed check_recovery_vote_def sample_matches quorum_size_def Let_def)

lemma sample_promise_loads:
  "0 < r \<Longrightarrow> load_recovery_promise demo_host (WorldId 1) (promised_files r) = Ok \<lparr>drp_ballot = sample_ballot r, drp_vote = sample_vote r\<rparr>"
  by (simp add: load_recovery_promise_def RecoveryBallotV1_validate_semantics_def RecoveryVoteV1_validate_semantics_def
    require_protocol_version_def sample_ballot_well_formed sample_matches protocol_def)

lemma sample_promise_moves:
  "store_run (demo_env (WorldId 1)) (promised_files 3) [(OpPromiseRecovery (sample_ballot 4) (sample_vote 4), None)] = promised_files 4"
proof -
  have "promise_recovery_ballot demo_host (sample_ballot 4) (sample_vote 4) (promised_files 3)
      = write_recovery_promise demo_host (sample_ballot 4) (sample_vote 4)"
    by (simp add: promise_recovery_ballot_def sample_promise_loads RecoveryBallotV1_validate_semantics_def RecoveryVoteV1_validate_semantics_def
      require_protocol_version_def sample_ballot_well_formed sample_matches protocol_def peer_id_from_public_key_def same_recovery_base_def)
  then show ?thesis
    by (simp add: store_run_def store_exec_def store_plan_def addressed_def store_body_def discard_def demo_env_def perform_def
      write_recovery_promise_def demo_encode plan_simps)
qed


end
