(* ===== verification/HeadSafety.thy ===== *)
theory HeadSafety
  imports StoreMachine
begin

text \<open>
  What every run of storage operations keeps of the canonical snapshot head: it never moves back, and a world whose
  commit was interrupted between intent and head stays blocked.
\<close>

section \<open>An incomplete commit\<close>

text \<open>The files after a commit that was interrupted between its intent and its head.\<close>

definition commit_pending :: "WorldId \<Rightarrow> SnapshotCommitIntentV1 \<Rightarrow> CanonicalSnapshotHeadV1 \<Rightarrow> world_files \<Rightarrow> bool" where
  "commit_pending w it head fs \<longleftrightarrow> wf_intent fs = Content it \<and> it_world_id it = w \<and> wf_head fs = Content head
    \<and> hd_world_id head = w \<and> hd_head head \<noteq> Some (it_next_head it)"

abbreviation incomplete :: "WorldId \<Rightarrow> SnapshotCommitIntentV1 \<Rightarrow> StorageError" where
  "incomplete w it \<equiv> SnapshotCommitIncomplete w (cr_snapshot_number (it_next_head it))"

lemma pending_load: "commit_pending w it head fs \<Longrightarrow> load_or_initialize_canonical_head_locked H w fs = refuse (incomplete w it)"
  by (simp add: commit_pending_def load_or_initialize_canonical_head_locked_def read_head_file_def)

lemma then_plan_refuse: "op fs = refuse e \<Longrightarrow> then_plan op k fs = refuse e"
  by (simp add: then_plan_def refuse_def)

lemma pending_reads:
  assumes "commit_pending w it head fs"
  shows "canonical_snapshot_head H w fs = refuse (incomplete w it)"
    "validate_canonical_snapshot_namespace H w fs = refuse (incomplete w it)"
    "list_snapshots H w fs = refuse (incomplete w it)"
    "latest_snapshot H w fs = refuse (incomplete w it)"
    "next_snapshot_number H w fs = refuse (incomplete w it)"
    "prune_snapshots H w policy fs = refuse (incomplete w it)"
    "sm_world_id m = w \<Longrightarrow> begin_snapshot_commit_transaction H m fence fs = refuse (incomplete w it)"
proof -
  note load = pending_load [OF assms, of H]
  show 1: "canonical_snapshot_head H w fs = refuse (incomplete w it)" by (simp add: canonical_snapshot_head_def load)
  show 2: "validate_canonical_snapshot_namespace H w fs = refuse (incomplete w it)"
    by (simp add: validate_canonical_snapshot_namespace_def then_plan_refuse load)
  show 3: "list_snapshots H w fs = refuse (incomplete w it)" by (simp add: list_snapshots_def then_plan_refuse 2)
  show "latest_snapshot H w fs = refuse (incomplete w it)" by (simp add: latest_snapshot_def then_plan_refuse 2)
  show "next_snapshot_number H w fs = refuse (incomplete w it)" by (simp add: next_snapshot_number_def then_plan_refuse 1)
  show "prune_snapshots H w policy fs = refuse (incomplete w it)" by (simp add: prune_snapshots_def then_plan_refuse 3)
  show "sm_world_id m = w \<Longrightarrow> begin_snapshot_commit_transaction H m fence fs = refuse (incomplete w it)"
    by (simp add: begin_snapshot_commit_transaction_def then_plan_refuse load)
qed

lemma pending_writes:
  assumes "commit_pending w it head fs"
  shows "plan_keeps f (garbage_collect_blobs H busy w fs)" "plan_keeps f (apply_retention H busy w policy fs)"
    "plan_keeps f (load_snapshot H w n fs)"
proof -
  note reads = pending_reads [OF assms]
  show "plan_keeps f (garbage_collect_blobs H busy w fs)"
    by (simp add: garbage_collect_blobs_def then_plan_refuse reads footprint)
  show "plan_keeps f (apply_retention H busy w policy fs)" by (simp add: apply_retention_def then_plan_refuse reads footprint)
  show "plan_keeps f (load_snapshot H w n fs)" by (auto simp: load_snapshot_def then_plan_refuse reads intro!: footprint)
qed

lemma pending_manifest_writes:
  assumes "commit_pending (sm_world_id m) it head fs"
  shows "plan_keeps f (commit_snapshot_streaming_inner H Z pick p m fence fs)"
    "plan_keeps f (validate_replica_history H m fs)" "plan_keeps f (finalize_replica H Z pick m fs)"
proof -
  note reads = pending_reads [OF assms]
  show "plan_keeps f (commit_snapshot_streaming_inner H Z pick p m fence fs)"
    by (auto simp: commit_snapshot_streaming_inner_def then_plan_refuse reads intro!: footprint)
  show "plan_keeps f (validate_replica_history H m fs)"
    by (auto simp: validate_replica_history_def then_plan_refuse reads intro!: footprint split: sum.splits)
  show "plan_keeps f (finalize_replica H Z pick m fs)"
  proof (cases "SnapshotManifestV1_validate_semantics H m")
    case (Inl e)
    then have "finalize_replica H Z pick m fs = reply (Inl (RpProtocol e))"
      by (simp add: finalize_replica_def validate_replica_history_def then_plan_def reply_def)
    then show ?thesis by (simp add: footprint)
  next
    case (Inr u)
    then have "finalize_replica H Z pick m fs = refuse (incomplete (sm_world_id m) it)"
      by (simp add: finalize_replica_def validate_replica_history_def then_plan_refuse reads)
    then show ?thesis by (simp add: footprint)
  qed
qed

lemma pending_create:
  assumes "commit_pending (md_world_id md) it head fs"
  shows "plan_keeps wf_intent (create_world H md fs)" "plan_keeps wf_head (create_world H md fs)"
proof -
  let ?save = "\<lambda>fs :: world_files.
      if md_storage_schema_version md \<noteq> STORAGE_SCHEMA_VERSION then refuse WorldMetadataMismatch
      else check (protocol (genesis_world_id H (md_genesis md))) (\<lambda>id.
        if id \<noteq> md_world_id md then refuse WorldMetadataMismatch
        else store () [\<lambda>fs. fs\<lparr>wf_world := Content md\<rparr>])"
  have first: "plan_keeps wf_intent (?save fs)" "plan_keeps wf_head (?save fs)" by (auto intro!: footprint)
  have pend: "commit_pending (md_world_id md) it head (after ?save fs)"
    using assms after_keeps [where op = ?save, OF first(1)] after_keeps [where op = ?save, OF first(2)]
    unfolding commit_pending_def by metis
  have rest: "then_plan (canonical_snapshot_head H (md_world_id md)) k (after ?save fs) = refuse (incomplete (md_world_id md) it)"
    for k :: "CanonicalSnapshotHeadV1 \<Rightarrow> world_files \<Rightarrow> unit plan"
    by (rule then_plan_refuse) (rule pending_reads(1) [OF pend])
  show "plan_keeps wf_intent (create_world H md fs)" "plan_keeps wf_head (create_world H md fs)"
    unfolding create_world_def
    by (rule plan_keeps_then, rule first, simp only: rest plan_keeps_refuse)+
qed

text \<open>The operations that read the canonical head, and so may write it.\<close>

definition reads_head :: "store_op \<Rightarrow> bool" where
  "reads_head op = (case op of OpCreateWorld _ \<Rightarrow> True | OpReadHead \<Rightarrow> True | OpCheckNamespace \<Rightarrow> True | OpCommit _ _ _ \<Rightarrow> True
    | OpLoadSnapshot _ \<Rightarrow> True | OpListSnapshots \<Rightarrow> True | OpLatestSnapshot \<Rightarrow> True | OpNextNumber \<Rightarrow> True | OpPrune _ \<Rightarrow> True
    | OpCollect _ \<Rightarrow> True | OpRetain _ _ \<Rightarrow> True | OpCheckHistory _ \<Rightarrow> True | OpFinalize _ \<Rightarrow> True | _ \<Rightarrow> False)"

lemma others_keep_head:
  "\<not> reads_head op \<Longrightarrow> plan_keeps wf_head (store_body E op fs)"
  "\<not> reads_head op \<Longrightarrow> plan_keeps wf_intent (store_body E op fs)"
  unfolding store_body_def Let_def by (cases op; simp add: footprint reads_head_def)+

lemma pending_kept:
  assumes "commit_pending (se_world E) it head fs"
  shows "plan_keeps wf_intent (store_plan E op fs) \<and> plan_keeps wf_head (store_plan E op fs)"
proof (cases "reads_head op \<and> addressed (se_world E) op")
  case False
  then show ?thesis using others_keep_head [of op E fs] by (auto simp: store_plan_def footprint)
next
  case True
  note reads = pending_reads [OF assms] and writes = pending_writes [OF assms]
  have manifests: "plan_keeps f (commit_snapshot_streaming_inner H Z pick p m fence fs)" "plan_keeps f (validate_replica_history H m fs)"
    "plan_keeps f (finalize_replica H Z pick m fs)" if "sm_world_id m = se_world E" for f :: "world_files \<Rightarrow> 'x" and H Z pick p m fence
    using pending_manifest_writes [of m it head fs] assms that by simp_all
  have create: "plan_keeps wf_intent (create_world H md fs)" "plan_keeps wf_head (create_world H md fs)" if "md_world_id md = se_world E" for H md
    using pending_create [of md it head fs] assms that by simp_all
  from True have "plan_keeps wf_intent (store_body E op fs) \<and> plan_keeps wf_head (store_body E op fs)"
    unfolding store_body_def Let_def
    by (cases op) (simp_all add: reads_head_def addressed_def footprint reads writes manifests create)
  then show ?thesis by (simp add: store_plan_def footprint)
qed

interpretation pending: invariant_machine "store_exec E" "commit_pending (se_world E) it head" for E it head
proof
  show "commit_pending (se_world E) it head (store_exec E fs step)" if "commit_pending (se_world E) it head fs" for fs step
    using pending_kept [OF that, of "fst step"] that leaves_keeps [OF _ store_exec_leaves, of wf_intent E step fs]
      leaves_keeps [OF _ store_exec_leaves, of wf_head E step fs]
    by (simp add: commit_pending_def)
qed

text \<open>
  C21. An interrupted commit blocks the world for good.  Once a commit has stopped between writing its intent and
  moving the head, no sequence of storage operations, complete or interrupted, removes the intent or moves the
  head: every later read of the canonical head fails with the same error.
\<close>

theorem interrupted_commit_blocks_world:
  assumes "wf_intent fs = Content it" "it_world_id it = se_world E" "wf_head fs = Content head" "hd_world_id head = se_world E"
    and "hd_head head \<noteq> Some (it_next_head it)"
  shows "fst (canonical_snapshot_head H (se_world E) (store_run E fs steps))
    = Err (SnapshotCommitIncomplete (se_world E) (cr_snapshot_number (it_next_head it)))"
proof -
  have "commit_pending (se_world E) it head fs" using assms by (simp add: commit_pending_def)
  then have "commit_pending (se_world E) it head (store_run E fs steps)"
    using pending.run_inv [of E it head fs steps] by (simp add: store_run_def pending.run_def)
  from pending_reads(1) [OF this] show ?thesis by (simp add: plan_simps)
qed

section \<open>The head never moves back\<close>

lemma present_head_kept:
  assumes "slot_exists (wf_head fs)"
  shows "plan_keeps wf_head (load_or_initialize_canonical_head_locked H w fs)"
  using assms unfolding load_or_initialize_canonical_head_locked_def by (auto intro!: footprint)

lemma present_reads:
  assumes here: "slot_exists (wf_head fs)"
  shows "plan_keeps wf_head (canonical_snapshot_head H w fs)"
    "plan_keeps wf_head (validate_canonical_snapshot_namespace H w fs)"
    "plan_keeps wf_head (list_snapshots H w fs)"
    "plan_keeps wf_head (latest_snapshot H w fs)"
    "plan_keeps wf_head (next_snapshot_number H w fs)"
    "plan_keeps wf_head (load_snapshot H w n fs)"
    "plan_keeps wf_head (prune_snapshots H w policy fs)"
    "plan_keeps wf_head (garbage_collect_blobs H busy w fs)"
    "plan_keeps wf_head (validate_replica_history H m fs)"
proof -
  have canonical: "plan_keeps wf_head (canonical_snapshot_head H w g)" if "slot_exists (wf_head g)" for g w
    unfolding canonical_snapshot_head_def by (rule present_head_kept [OF that])
  have ns: "plan_keeps wf_head (validate_canonical_snapshot_namespace H w fs)" for w
    unfolding validate_canonical_snapshot_namespace_def
    by (intro plan_keeps_then present_head_kept here plan_keeps_check plan_keeps_reply)
  have latest: "plan_keeps wf_head (latest_snapshot H w fs)" for w
  proof -
    have "slot_exists (wf_head (after (validate_canonical_snapshot_namespace H w) fs))"
      using after_keeps [where f = wf_head and op = "validate_canonical_snapshot_namespace H w", OF ns] here by simp
    then show ?thesis
      unfolding latest_snapshot_def
      by (auto intro!: plan_keeps_then ns canonical plan_keeps_check plan_keeps_reply split: option.splits)
  qed
  show lst: "plan_keeps wf_head (list_snapshots H w fs)"
    unfolding list_snapshots_def by (intro plan_keeps_then ns plan_keeps_check plan_keeps_reply)
  show "plan_keeps wf_head (canonical_snapshot_head H w fs)" by (rule canonical [OF here])
  show "plan_keeps wf_head (validate_canonical_snapshot_namespace H w fs)" by (rule ns)
  show "plan_keeps wf_head (latest_snapshot H w fs)" by (rule latest)
  show "plan_keeps wf_head (next_snapshot_number H w fs)"
    unfolding next_snapshot_number_def by (auto intro!: plan_keeps_then canonical here plan_keeps_check plan_keeps_reply split: option.splits)
  show "plan_keeps wf_head (load_snapshot H w n fs)"
    unfolding load_snapshot_def by (intro plan_keeps_then ns plan_keeps_check plan_keeps_reply)
  show "plan_keeps wf_head (prune_snapshots H w policy fs)"
    unfolding prune_snapshots_def by (auto intro!: plan_keeps_then lst footprint simp: list_all_iff remove_snapshot_def Let_def)
  show "plan_keeps wf_head (garbage_collect_blobs H busy w fs)"
    unfolding garbage_collect_blobs_def Let_def
    by (auto intro!: plan_keeps_then [where op = "list_snapshots H w"] lst footprint simp: remove_raw_blob_def remove_zst_blob_def)
  show "plan_keeps wf_head (validate_replica_history H m fs)"
    unfolding validate_replica_history_def
    by (auto intro!: plan_keeps_then latest footprint simp: answer_def split: sum.splits ReplicationError.splits)
qed

lemma present_writes:
  assumes here: "slot_exists (wf_head fs)"
  shows "plan_keeps wf_head (apply_retention H busy w policy fs)" "plan_keeps wf_head (create_world H md fs)"
proof -
  have kept: "slot_exists (wf_head (after op g))" if "slot_exists (wf_head g)" "plan_keeps wf_head (op g)" for g and op :: "world_files \<Rightarrow> 'x plan"
    using after_keeps [of wf_head op g] that by simp
  note reads = present_reads
  show "plan_keeps wf_head (apply_retention H busy w policy fs)"
    unfolding apply_retention_def
    by (auto intro!: plan_keeps_then reads kept here plan_keeps_reply split: sum.split)
  show "plan_keeps wf_head (create_world H md fs)"
    unfolding create_world_def
    by (rule plan_keeps_then, force intro!: footprint, rule plan_keeps_then, rule reads, rule kept [OF here])
      (auto intro!: footprint)
qed

text \<open>The head on disk is the same or a later one.\<close>

definition head_advances :: "CanonicalSnapshotHeadV1 \<Rightarrow> world_files \<Rightarrow> bool" where
  "head_advances h g \<longleftrightarrow> (\<exists>h'. wf_head g = Content h' \<and> (h' = h \<or> highest_allowed (hd_head h) < highest_allowed (hd_head h')))"

lemma same_head_advances: "wf_head fs = Content h \<Longrightarrow> wf_head g = wf_head fs \<Longrightarrow> head_advances h g"
  by (simp add: head_advances_def)

lemma kept_head_advances:
  "wf_head fs = Content h \<Longrightarrow> plan_keeps wf_head (op fs) \<Longrightarrow> g \<in> leaves op fs \<Longrightarrow> head_advances h g"
  using leaves_keeps [of wf_head op fs g] by (simp add: head_advances_def)

lemma tail_advances:
  assumes h: "wf_head fs = Content h" and fresh: "slot_at (wf_snapshots fs) (sm_snapshot_number m) = Absent"
    and g: "g \<in> leaves (commit_tail H p m fence) fs"
  shows "head_advances h g"
proof (cases "fst (load_or_initialize_canonical_head_locked H (sm_world_id m) fs)")
  case (Inl e)
  have here: "slot_exists (wf_head fs)" using h by simp
  have "plan_keeps wf_head (commit_tail H p m fence fs)"
    unfolding commit_tail_def begin_snapshot_commit_transaction_def using Inl
    by (intro plan_keeps_then present_head_kept [OF here]) (auto simp: fst_then)
  from kept_head_advances [OF h this g] show ?thesis .
next
  case (Inr head)
  with head_shapes(3) [OF Inr] h have head: "head = h" by auto
  from g fresh Inr show ?thesis
  proof (rule commit_tail_states, goal_cases)
    case 1
    have "plan_keeps wf_head (load_or_initialize_canonical_head_locked H (sm_world_id m) fs)" using h by (simp add: present_head_kept)
    from kept_head_advances [where op = "load_or_initialize_canonical_head_locked H (sm_world_id m)", OF h this 1] show ?case .
  next
    case (2 r)
    then show ?case using head by (simp add: head_advances_def)
  next
    case (3 r)
    then have "cr_snapshot_number r = sm_snapshot_number m" by (auto simp: canonical_ref_def)
    with 3 extension_above [of "hd_head head" m] head show ?case by (simp add: head_advances_def)
  qed
qed

lemma commit_advances:
  assumes h: "wf_head fs = Content h" and g: "g \<in> leaves (commit_snapshot_streaming_inner H Z pick p m fence) fs"
  shows "head_advances h g"
proof (cases "slot_exists (slot_at (wf_snapshots fs) (sm_snapshot_number m))")
  case True
  have here: "slot_exists (wf_head fs)" using h by simp
  from True have "plan_keeps wf_head (commit_snapshot_streaming_inner H Z pick p m fence fs)"
    unfolding commit_snapshot_streaming_inner_def
    by (auto intro!: plan_keeps_check plan_keeps_then present_reads(2) here footprint)
  from kept_head_advances [OF h this g] show ?thesis .
next
  case False
  then have "snd (commit_snapshot_streaming_inner H Z pick p m fence fs) = []
      \<or> snd (commit_snapshot_streaming_inner H Z pick p m fence fs) = snd (commit_tail H p m fence fs)"
    unfolding commit_snapshot_streaming_inner_def commit_tail_def by (auto simp: snd_check split: sum.splits)
  with g have "g = fs \<or> g \<in> leaves (commit_tail H p m fence) fs" by (auto simp: leaves_def)
  with False h tail_advances [of fs h m g H p fence] show ?thesis by (auto simp: head_advances_def)
qed

text \<open>An operation that starts by reading.\<close>

lemma advances_then:
  assumes "wf_head fs = Content h" "plan_keeps wf_head (op fs)" "g \<in> leaves (then_plan op k) fs"
    and "\<And>x f. wf_head f = Content h \<Longrightarrow> g \<in> leaves (k x) f \<Longrightarrow> head_advances h g"
  shows "head_advances h g"
  using leaves_then [OF assms(3)] kept_head_advances [where op = op and fs = fs and h = h and g = g] after_keeps [where f = wf_head and op = op and fs = fs] assms(1,2,4)
  by auto

lemma leaves_reply: "g \<in> leaves (\<lambda>_. reply x) f \<longleftrightarrow> g = f"
  by (auto simp: leaves_def plan_simps)

lemma advances_reply: "wf_head f = Content h \<Longrightarrow> g \<in> leaves (\<lambda>_. reply x) f \<Longrightarrow> head_advances h g"
  by (simp add: leaves_reply head_advances_def)

lemma leaves_cong: "op f = op' f \<Longrightarrow> leaves op f = leaves op' f"
  by (simp add: leaves_def)

text \<open>The end of \<open>finalize_replica\<close>.\<close>

abbreviation finalize_commit ::
    "host \<Rightarrow> zstd \<Rightarrow> (nat \<Rightarrow> nat) \<Rightarrow> SnapshotManifestV1 \<Rightarrow> world_files \<Rightarrow> (ReplicationError, unit) result plan" where
  "finalize_commit H Z pick m \<equiv> then_plan (commit_snapshot_streaming_inner H Z pick None m None) (\<lambda>_ _. reply (Inr ()))"

abbreviation finalize_complete ::
    "host \<Rightarrow> zstd \<Rightarrow> (nat \<Rightarrow> nat) \<Rightarrow> SnapshotManifestV1 \<Rightarrow> world_files \<Rightarrow> (ReplicationError, unit) result plan" where
  "finalize_complete H Z pick m \<equiv> then_plan (latest_snapshot H (sm_world_id m)) (\<lambda>latest.
    if latest = Some m then (\<lambda>_. reply (Inr ())) else finalize_commit H Z pick m)"

lemma finalize_commit_advances:
  assumes "wf_head f = Content h" "g \<in> leaves (finalize_commit H Z pick m) f"
  shows "head_advances h g"
proof -
  let ?commit = "commit_snapshot_streaming_inner H Z pick None m None"
  from leaves_then [OF assms(2)] have "g \<in> leaves ?commit f \<or> g = after ?commit f" by (auto simp: leaves_reply)
  with after_leaves [of ?commit f] have "g \<in> leaves ?commit f" by auto
  then show ?thesis by (rule commit_advances [OF assms(1)])
qed

lemma finalize_complete_advances:
  assumes "wf_head f = Content h" "g \<in> leaves (finalize_complete H Z pick m) f"
  shows "head_advances h g"
  by (rule advances_then [OF assms(1) present_reads(4) assms(2)])
    (auto simp: assms(1) split: if_splits dest: finalize_commit_advances advances_reply)

lemma finalize_advances:
  assumes h: "wf_head fs = Content h" and g: "g \<in> leaves (finalize_replica H Z pick m) fs"
  shows "head_advances h g"
proof (rule advances_then [OF h present_reads(9) g [unfolded finalize_replica_def]])
  show "slot_exists (wf_head fs)" using h by simp
next
  fix x f
  assume f: "wf_head f = Content h" and g: "g \<in> leaves (case x of Inl e \<Rightarrow> (\<lambda>_. reply (Inl e)) | Inr _ \<Rightarrow> (\<lambda>fs.
      if missing_blobs H Z pick m fs \<noteq> [] then reply (Inl (Incomplete (sm_snapshot_number m)))
      else finalize_complete H Z pick m fs)) f"
  show "head_advances h g"
  proof (cases "(\<exists>e. x = Inl e) \<or> missing_blobs H Z pick m f \<noteq> []")
    case True
    with g have "g = f" by (cases x) (auto simp: leaves_def plan_simps)
    with f show ?thesis by (simp add: head_advances_def)
  next
    case False
    with g have "g \<in> leaves (finalize_complete H Z pick m) f"
      by (cases x) (auto elim!: leaves_cong [THEN equalityD1, THEN subsetD, rotated])
    then show ?thesis by (rule finalize_complete_advances [OF f])
  qed
qed

lemma head_step:
  assumes h: "wf_head fs = Content h"
  shows "head_advances h (store_exec E fs step)"
proof -
  obtain op fault where step: "step = (op, fault)" by (cases step)
  let ?g = "store_exec E fs step"
  have here: "slot_exists (wf_head fs)" using h by simp
  from store_plan_cases [OF store_exec_leaves [of E fs step]] step
  consider "?g = fs" | "?g \<in> leaves (store_body E op) fs" by auto
  then show ?thesis
  proof cases
    case 1
    then show ?thesis using h by (simp add: head_advances_def)
  next
    case 2
    show ?thesis
    proof (cases "\<exists>p m f. op = OpCommit p m f \<or> op = OpFinalize m")
      case True
      then obtain p m f where "op = OpCommit p m f \<or> op = OpFinalize m" by blast
      then have "?g \<in> leaves (commit_snapshot_streaming_inner (se_host E) (se_zstd E) (se_pick E) p m f) fs
          \<or> ?g \<in> leaves (finalize_replica (se_host E) (se_zstd E) (se_pick E) m) fs"
        using 2 by (auto simp: leaves_def store_body_def discard_def Let_def)
      then show ?thesis using commit_advances [OF h] finalize_advances [OF h] by blast
    next
      case False
      have "plan_keeps wf_head (store_body E op fs)"
        using False present_reads [OF here] present_writes [OF here] others_keep_head(1) [of op E fs]
        unfolding store_body_def Let_def by (cases op) (simp_all add: reads_head_def discard_keeps)
      from kept_head_advances [OF h this 2] show ?thesis .
    qed
  qed
qed

text \<open>The head as a fenced register: the number it points at is the token, the head itself the owner.\<close>

definition head_number :: "world_files \<Rightarrow> u64 option" where
  "head_number fs = (case wf_head fs of Content h \<Rightarrow> Some (highest_allowed (hd_head h)) | _ \<Rightarrow> None)"

definition head_content :: "world_files \<Rightarrow> CanonicalSnapshotHeadV1 option" where
  "head_content fs = (case wf_head fs of Content h \<Rightarrow> Some h | _ \<Rightarrow> None)"

lemma head_step_number:
  "head_number fs \<le> head_number (store_exec E fs step)"
  "head_number (store_exec E fs step) = head_number fs \<Longrightarrow>
    head_content (store_exec E fs step) = None \<or> head_content (store_exec E fs step) = head_content fs"
proof -
  consider h where "wf_head fs = Content h" | "head_number fs = None" by (cases "wf_head fs") (auto simp: head_number_def)
  then have "head_number fs \<le> head_number (store_exec E fs step) \<and> (head_number (store_exec E fs step) = head_number fs \<longrightarrow>
      head_content (store_exec E fs step) = None \<or> head_content (store_exec E fs step) = head_content fs)"
  proof cases
    case (1 h)
    with head_step [OF 1, of E step] show ?thesis by (auto simp: head_advances_def head_number_def head_content_def)
  next
    case 2
    then show ?thesis by (auto simp: head_number_def head_content_def split: slot.splits)
  qed
  then show "head_number fs \<le> head_number (store_exec E fs step)"
    "head_number (store_exec E fs step) = head_number fs \<Longrightarrow>
      head_content (store_exec E fs step) = None \<or> head_content (store_exec E fs step) = head_content fs" by blast+
qed

interpretation head_store: fenced_machine "store_exec E" "\<lambda>_. True" head_number head_content for E
  by unfold_locales (simp_all add: head_step_number)

text \<open>
  C4. The canonical head never moves back.  In every run of storage operations, interrupted anywhere, the head on
  disk is the one it was or points at a snapshot of a higher number; it never disappears and one number never has
  two heads.
\<close>

theorem canonical_head_never_regresses:
  assumes "wf_head fs = Content h"
  shows "\<exists>h'. wf_head (store_run E fs steps) = Content h'
    \<and> (h' = h \<or> highest_allowed (hd_head h) < highest_allowed (hd_head h'))"
proof -
  let ?g = "store_run E fs steps"
  have run: "?g = epoch_store.run E fs steps" by (simp add: store_run_def epoch_store.run_def)
  have mono: "head_number fs \<le> head_number ?g" unfolding run by (rule head_store.run_token_mono) simp
  have owner: "head_number ?g = head_number fs \<Longrightarrow> head_content ?g = None \<or> head_content ?g = head_content fs"
    unfolding run using head_store.run_owner_fenced by blast
  have fs: "head_number fs = Some (highest_allowed (hd_head h))" "head_content fs = Some h"
    using assms by (simp_all add: head_number_def head_content_def)
  obtain h' where g: "wf_head ?g = Content h'"
    using mono unfolding fs by (cases "wf_head ?g") (simp_all add: head_number_def)
  then have g': "head_number ?g = Some (highest_allowed (hd_head h'))" "head_content ?g = Some h'"
    by (simp_all add: head_number_def head_content_def)
  have "highest_allowed (hd_head h) \<le> highest_allowed (hd_head h')" using mono unfolding fs g' by simp
  moreover have "highest_allowed (hd_head h') = highest_allowed (hd_head h) \<Longrightarrow> h' = h" using owner unfolding fs g' by simp
  ultimately show ?thesis using g by (metis order_le_less)
qed

section \<open>Witnesses\<close>

definition interrupted_files :: world_files where
  "interrupted_files = empty_files\<lparr>wf_head := Content (head_of None), wf_intent := Content \<lparr>it_world_id = WorldId 7, it_previous_head = None,
    it_next_head = \<lparr>cr_snapshot_number = 1, cr_manifest_hash = Hash32 0, cr_epoch = 1, cr_sequence = 5\<rparr>\<rparr>\<rparr>"

theorem interrupted_commit_blocks_world_witness:
  "fst (canonical_snapshot_head demo_host (WorldId 7) (store_run (demo_env (WorldId 7)) interrupted_files
      [(OpReadHead, None), (OpCommit None first_manifest None, None), (OpRetain False RetentionPolicy_default, Some 0)]))
    = Err (SnapshotCommitIncomplete (WorldId 7) 1)"
  using interrupted_commit_blocks_world [of interrupted_files "\<lparr>it_world_id = WorldId 7, it_previous_head = None,
      it_next_head = \<lparr>cr_snapshot_number = 1, cr_manifest_hash = Hash32 0, cr_epoch = 1, cr_sequence = 5\<rparr>\<rparr>" "demo_env (WorldId 7)" "head_of None" demo_host]
  by (simp add: interrupted_files_def demo_env_def)

theorem canonical_head_never_regresses_witness:
  "wf_head (empty_files\<lparr>wf_head := Content (head_of None)\<rparr>) = Content (head_of None)
    \<and> (\<exists>h. wf_head (store_run (demo_env (WorldId 7)) (empty_files\<lparr>wf_head := Content (head_of None)\<rparr>)
        [(OpCommit None first_manifest None, None), (OpCommit None first_manifest None, Some 2)]) = Content h
      \<and> (h = head_of None \<or> 0 < highest_allowed (hd_head h)))"
  using canonical_head_never_regresses [of "empty_files\<lparr>wf_head := Content (head_of None)\<rparr>" "head_of None" "demo_env (WorldId 7)"
    "[(OpCommit None first_manifest None, None), (OpCommit None first_manifest None, Some 2)]"]
  by simp

end
