(* ===== verification/SnapshotRoundTrip.thy ===== *)
theory SnapshotRoundTrip
  imports SnapshotTree
begin

text \<open>
  What a snapshot of a directory holds is what restoring it returns: the composition of
  \<open>snapshot_directory_streaming\<close> and \<open>restore_snapshot_streaming\<close>.
\<close>

section \<open>Storing the blob of one file\<close>

text \<open>What the compressed blobs of a store decode to.\<close>

definition stored_contents :: "zstd \<Rightarrow> world_files \<Rightarrow> bytes set" where
  "stored_contents Z fs = {b. \<exists>hash encoded. slot_at (wf_zst_blobs fs) hash = Content encoded \<and> zc_decode Z encoded = Some (b, True)}"

text \<open>The hypotheses on one directory and store: the coder is faithful, and no two of these contents collide.\<close>

definition blobs_distinct :: "host \<Rightarrow> zstd \<Rightarrow> bytes set \<Rightarrow> bool" where
  "blobs_distinct H Z M \<longleftrightarrow> zstd_faithful Z \<and> collision_free H ((@) BLOB_HASH_DOMAIN ` M)
    \<and> (\<forall>b\<in>M. \<forall>encoded. zc_stream Z b = Some encoded \<longrightarrow> length encoded < 2 ^ 64)"

lemma blobs_distinctD:
  assumes "blobs_distinct H Z M" "b \<in> M" "c \<in> M" "hash_uncompressed H b = hash_uncompressed H c"
  shows "b = c"
  using assms unfolding blobs_distinct_def collision_free_def hash_uncompressed_def from_domain_bytes_def
  by (auto dest!: inj_onD)

lemma entry_holds_iff:
  assumes "bd_encoding (se_blob e) = Zstd"
  shows "entry_holds H Z fs e content \<longleftrightarrow>
    (\<exists>encoded. slot_at (wf_zst_blobs fs) (bd_hash (se_blob e)) = Content encoded \<and> length encoded = unat (bd_encoded_size (se_blob e))
      \<and> zc_decode Z encoded = Some (content, True) \<and> length content = unat (bd_uncompressed_size (se_blob e))
      \<and> hash_uncompressed H content = bd_hash (se_blob e))"
  unfolding entry_holds_def stream_blob_Ok using assms
  by (fastforce simp: open_blob_def hash_uncompressed_def ok_or_def split: option.splits)

text \<open>What storing one more content keeps: the entries that hold, and the bound on what is stored.\<close>

definition blobs_grow :: "host \<Rightarrow> zstd \<Rightarrow> bytes set \<Rightarrow> world_files \<Rightarrow> world_files \<Rightarrow> bool" where
  "blobs_grow H Z M fs fs' \<longleftrightarrow> stored_contents Z fs' \<subseteq> M
    \<and> (\<forall>e c. bd_encoding (se_blob e) = Zstd \<longrightarrow> entry_holds H Z fs e c \<longrightarrow> entry_holds H Z fs' e c)"

lemma blobs_grow_refl: "stored_contents Z fs \<subseteq> M \<Longrightarrow> blobs_grow H Z M fs fs"
  by (simp add: blobs_grow_def)

lemma blobs_grow_trans: "blobs_grow H Z M f g \<Longrightarrow> blobs_grow H Z M g h \<Longrightarrow> blobs_grow H Z M f h"
  by (simp add: blobs_grow_def)

lemma blobs_grow_cong:
  assumes "wf_zst_blobs fs' = wf_zst_blobs fs" "stored_contents Z fs \<subseteq> M"
  shows "blobs_grow H Z M fs fs'"
  using assms by (simp add: blobs_grow_def stored_contents_def entry_holds_iff)

lemma entry_holds_stored: "bd_encoding (se_blob e) = Zstd \<Longrightarrow> entry_holds H Z fs e c \<Longrightarrow> c \<in> stored_contents Z fs"
  by (auto simp: entry_holds_iff stored_contents_def)

lemma put_blob_grows:
  assumes distinct: "blobs_distinct H Z M" and stored: "stored_contents Z fs \<subseteq> M"
    and c: "content \<in> M" "zc_stream Z content = Some encoded"
    and fs': "wf_zst_blobs fs' = bt_insert (hash_uncompressed H content) (Content encoded) m"
      "\<And>h. h \<noteq> hash_uncompressed H content \<Longrightarrow> slot_at m h = slot_at (wf_zst_blobs fs) h"
    and new: "\<And>e. bd_encoding (se_blob e) = Zstd \<Longrightarrow> bd_hash (se_blob e) = hash_uncompressed H content \<Longrightarrow> \<not> entry_holds H Z fs e content"
  shows "blobs_grow H Z M fs fs'"
proof -
  have slots: "slot_at (wf_zst_blobs fs') h = (if h = hash_uncompressed H content then Content encoded else slot_at (wf_zst_blobs fs) h)" for h
    using fs' by simp
  have "zc_decode Z encoded = Some (content, True)" using distinct c(2) by (auto simp: blobs_distinct_def zstd_faithful_def)
  then have "stored_contents Z fs' \<subseteq> M"
    using stored c(1) by (auto simp: stored_contents_def slots split: if_splits)
  moreover have "entry_holds H Z fs' e b" if e: "bd_encoding (se_blob e) = Zstd" "entry_holds H Z fs e b" for e b
  proof -
    have "b \<in> M" using entry_holds_stored [OF e] stored by blast
    with new [OF e(1)] e(2) blobs_distinctD [OF distinct _ c(1)] have "bd_hash (se_blob e) \<noteq> hash_uncompressed H content"
      by (metis e(1) entry_holds_iff)
    with e show ?thesis by (simp add: entry_holds_iff slots)
  qed
  ultimately show ?thesis by (simp add: blobs_grow_def)
qed

lemma new_blob_holds:
  assumes "blobs_distinct H Z M" "content \<in> M" "length content < 2 ^ 64" "zc_stream Z content = Some encoded"
    and "slot_at (wf_zst_blobs fs') (hash_uncompressed H content) = Content encoded"
  shows "entry_holds H Z fs' \<lparr>se_path = p, se_blob = \<lparr>bd_hash = hash_uncompressed H content,
    bd_uncompressed_size = of_nat (length content), bd_encoded_size = of_nat (length encoded), bd_encoding = Zstd\<rparr>\<rparr> content"
proof -
  have "length encoded < 2 ^ 64" "zc_decode Z encoded = Some (content, True)"
    using assms(1,2,4) by (auto simp: blobs_distinct_def zstd_faithful_def)
  with assms(3,5) show ?thesis by (simp add: entry_holds_iff unat_of_nat)
qed

lemma put_file_blob_ok:
  assumes distinct: "blobs_distinct H Z M" and stored: "stored_contents Z fs \<subseteq> M"
    and source: "\<And>b. source = Some b \<Longrightarrow> b \<in> M"
    and ok: "fst (put_file_blob_streaming H Z pick lease source fs) = Ok (lease', d)"
  shows "\<exists>content. source = Some content \<and> bd_encoding d = Zstd
    \<and> entry_holds H Z (after (put_file_blob_streaming H Z pick lease source) fs) \<lparr>se_path = p, se_blob = d\<rparr> content
    \<and> blobs_grow H Z M fs (after (put_file_blob_streaming H Z pick lease source) fs)"
proof -
  let ?put = "put_file_blob_streaming H Z pick lease source"
  from ok obtain content encoded where c: "source = Some content" "length content < 2 ^ 64" "zc_stream Z content = Some encoded"
    by (auto simp: put_file_blob_streaming_def fst_check ok_or_def ensure_def Let_def split: option.splits if_splits)
  let ?h = "hash_uncompressed H content"
  let ?d = "\<lparr>bd_hash = ?h, bd_uncompressed_size = of_nat (length content), bd_encoded_size = of_nat (length encoded),
    bd_encoding = Zstd\<rparr> :: BlobDescriptor"
  let ?pin = "pin_hash lease ?h"
  let ?k = "\<lambda>lease fs. if slot_exists (blob_slot fs ?h Zstd) then
      check (read_slot (blob_slot fs ?h Zstd)) (\<lambda>present.
      let existing = ?d\<lparr>bd_encoded_size := of_nat (length present)\<rparr> in
      if is_ok (verify_encoded_blob_streaming H Z pick (blob_slot fs ?h Zstd) existing) then reply (lease, existing)
      else store (lease, ?d) [remove_zst_blob ?h, insert_zst_blob ?h encoded])
    else store (lease, ?d) [insert_zst_blob ?h encoded]"
  have op: "?put fs = then_plan ?pin ?k fs"
    using c by (simp add: put_file_blob_streaming_def Let_def)
  from ok obtain lease1 where pin: "fst (?pin fs) = Ok lease1" unfolding op by (auto simp: fst_then)
  let ?f = "after ?pin fs"
  have k: "fst (?k lease1 ?f) = Ok (lease', d)" using ok unfolding op by (simp add: fst_then pin)
  have "after ?put fs = after (then_plan ?pin ?k) fs" by (simp only: after_def op)
  then have after: "after ?put fs = after (?k lease1) ?f" by (simp add: after_then pin)
  have zst: "wf_zst_blobs ?f = wf_zst_blobs fs"
    by (rule after_keeps [where f = wf_zst_blobs and op = ?pin]) (intro footprint, simp)
  have M: "content \<in> M" using source c(1) .
  have start: "blobs_grow H Z M fs ?f" by (rule blobs_grow_cong [OF zst stored])
  then have stored': "stored_contents Z ?f \<subseteq> M" by (simp add: blobs_grow_def)
  note grows = put_blob_grows [OF distinct stored' M c(3)] and holds = new_blob_holds [OF distinct M c(2,3)]
  have result: ?thesis if "entry_holds H Z (after ?put fs) \<lparr>se_path = p, se_blob = d\<rparr> content" "bd_encoding d = Zstd"
    "blobs_grow H Z M ?f (after ?put fs)"
    using that c(1) blobs_grow_trans [OF start] by blast
  show ?thesis
  proof (cases "slot_at (wf_zst_blobs ?f) ?h")
    case Absent
    then have plan: "?k lease1 ?f = store (lease1, ?d) [insert_zst_blob ?h encoded]" by simp
    have "d = ?d" and f': "after ?put fs = insert_zst_blob ?h encoded ?f"
      using k unfolding after after_plan [where op = "?k lease1", OF plan] plan by (simp_all add: plan_simps)
    moreover have "blobs_grow H Z M ?f (after ?put fs)"
      by (rule grows [where m = "wf_zst_blobs ?f"]) (simp_all add: f' insert_zst_blob_def entry_holds_iff Absent)
    ultimately show ?thesis using holds [of "after ?put fs" p] by (intro result) (simp_all add: insert_zst_blob_def)
  next
    case (Content present)
    let ?existing = "?d\<lparr>bd_encoded_size := of_nat (length present)\<rparr>"
    let ?sound = "is_ok (verify_encoded_blob_streaming H Z pick (blob_slot ?f ?h Zstd) ?existing)"
    show ?thesis
    proof (cases ?sound)
      case True
      then have plan: "?k lease1 ?f = reply (lease1, ?existing)" using Content by simp
      have d: "d = ?existing" and f': "after ?put fs = ?f"
        using k unfolding after after_plan [where op = "?k lease1", OF plan] plan by (simp_all add: plan_simps)
      from True obtain b where held: "entry_holds H Z ?f \<lparr>se_path = p, se_blob = ?existing\<rparr> b"
        unfolding entry_holds_any [of _ _ _ _ _ "BlobCorrupt ?h" pick]
        by (auto simp: is_ok_iff verify_encoded_blob_streaming_def)
      have "b \<in> M" using entry_holds_stored [OF _ held] stored' by auto
      moreover have "hash_uncompressed H b = ?h" using held by (auto simp: entry_holds_iff)
      ultimately have "b = content" using blobs_distinctD [OF distinct _ M] by blast
      then show ?thesis using held d f' stored' by (intro result) (simp_all add: blobs_grow_refl)
    next
      case False
      then have plan: "?k lease1 ?f = store (lease1, ?d) [remove_zst_blob ?h, insert_zst_blob ?h encoded]" using Content by simp
      have "d = ?d" and f': "after ?put fs = insert_zst_blob ?h encoded (remove_zst_blob ?h ?f)"
        using k unfolding after after_plan [where op = "?k lease1", OF plan] plan by (simp_all add: plan_simps)
      moreover have "blobs_grow H Z M ?f (after ?put fs)"
      proof (rule grows [where m = "bt_remove ?h (wf_zst_blobs ?f)"])
        fix e :: SnapshotEntry assume e: "bd_encoding (se_blob e) = Zstd" "bd_hash (se_blob e) = ?h"
        show "\<not> entry_holds H Z ?f e content"
        proof
          assume "entry_holds H Z ?f e content"
          with e Content c(2) unsigned_less [of "bd_encoded_size (se_blob e)"]
          have "entry_holds H Z ?f \<lparr>se_path = p, se_blob = ?existing\<rparr> content"
            by (auto simp: entry_holds_iff unat_of_nat)
          with False show False
            unfolding entry_holds_any [of _ _ _ _ _ "BlobCorrupt ?h" pick]
            by (simp add: verify_encoded_blob_streaming_def is_ok_iff)
        qed
      qed (simp_all add: f' insert_zst_blob_def remove_zst_blob_def)
      ultimately show ?thesis using holds [of "after ?put fs" p] by (intro result) (simp_all add: insert_zst_blob_def)
    qed
  qed (use k in \<open>simp_all add: plan_simps\<close>)
qed

section \<open>Storing a directory\<close>

lemma put_files_ok:
  assumes distinct: "blobs_distinct H Z M"
    and "stored_contents Z fs \<subseteq> M" "\<And>p b. (p, Some b) \<in> set files \<Longrightarrow> b \<in> M"
    and "fst (put_files H Z pick lease files fs) = Ok (lease', entries)"
  shows "\<exists>contents. map snd files = map Some contents \<and> map se_path entries = map (join_path \<circ> fst) files
    \<and> list_all2 (\<lambda>e c. bd_encoding (se_blob e) = Zstd \<and> entry_holds H Z (after (put_files H Z pick lease files) fs) e c) entries contents
    \<and> blobs_grow H Z M fs (after (put_files H Z pick lease files) fs)"
  using assms(2-)
proof (induction files arbitrary: lease fs entries)
  case Nil
  then show ?case by (simp add: plan_simps after_def blobs_grow_refl)
next
  case (Cons f files)
  obtain p source where f: "f = (p, source)" by (cases f)
  let ?put = "put_file_blob_streaming H Z pick lease source"
  let ?k = "\<lambda>relative (lease, blob). then_plan (put_files H Z pick lease files) (\<lambda>(lease, entries) _.
    reply (lease, \<lparr>se_path = relative, se_blob = blob\<rparr> # entries)) :: world_files \<Rightarrow> (SnapshotPublicationLease \<times> SnapshotEntry list) plan"
  from Cons.prems(3) obtain relative where relative: "portable_relative_path p = Ok relative"
    by (auto simp: f fst_check)
  then have path: "relative = join_path p" by (auto simp: portable_relative_path_def)
  let ?all = "put_files H Z pick lease (f # files)"
  have op: "?all fs = then_plan ?put (?k relative) fs" by (simp add: f relative)
  from Cons.prems(3) obtain lease1 d entries1 where put: "fst (?put fs) = Ok (lease1, d)"
      and rest: "fst (put_files H Z pick lease1 files (after ?put fs)) = Ok (lease', entries1)"
      and entries: "entries = \<lparr>se_path = relative, se_blob = d\<rparr> # entries1"
    unfolding op by (auto simp: fst_then plan_simps)
  let ?rest = "put_files H Z pick lease1 files" and ?f1 = "after ?put fs"
  have "after ?all fs = after (then_plan ?put (?k relative)) fs" by (simp only: after_def op)
  then have after: "after ?all fs = after ?rest ?f1"
    by (simp add: after_then put rest) (simp add: after_def plan_simps)
  from put_file_blob_ok [OF distinct Cons.prems(1) _ put, of relative] Cons.prems(2) f obtain content
    where c: "source = Some content" "bd_encoding d = Zstd" "entry_holds H Z ?f1 \<lparr>se_path = relative, se_blob = d\<rparr> content"
      "blobs_grow H Z M fs ?f1" by auto
  have "stored_contents Z ?f1 \<subseteq> M" using c(4) by (simp add: blobs_grow_def)
  moreover have "b \<in> M" if "(p, Some b) \<in> set files" for p b using Cons.prems(2) [of p b] that by simp
  ultimately obtain contents where ih: "map snd files = map Some contents"
    "map se_path entries1 = map (join_path \<circ> fst) files"
    "list_all2 (\<lambda>e c. bd_encoding (se_blob e) = Zstd \<and> entry_holds H Z (after ?rest ?f1) e c) entries1 contents"
    "blobs_grow H Z M ?f1 (after ?rest ?f1)"
    using Cons.IH [OF _ _ rest] by blast
  have "entry_holds H Z (after ?rest ?f1) \<lparr>se_path = relative, se_blob = d\<rparr> content"
    using ih(4) c(2,3) by (simp add: blobs_grow_def)
  with ih c(1,2) blobs_grow_trans [OF c(4) ih(4)] show ?case
    unfolding after by (intro exI [of _ "content # contents"]) (simp add: f entries path)
qed

text \<open>The files of a tree with distinct names can be the files of a restored tree.\<close>

lemma tree_restorable:
  assumes t: "wf_tree t" "bt_get t restore_marker = None" and ps: "distinct ps" "\<And>p. p \<in> set ps \<Longrightarrow> \<exists>b. bt_get t p = Some (FileNode b)"
  shows "restorable ps"
proof -
  have "p \<noteq> [] \<and> hd p \<noteq> RESTORE_INCOMPLETE_MARKER" if "p \<in> set ps" for p
  proof -
    from ps(2) [OF that] obtain b where b: "bt_get t p = Some (FileNode b)" by blast
    then have "p \<noteq> []" using wf_treeD(1) [OF t(1)] by blast
    moreover have "bt_get t [hd p] \<noteq> None"
    proof (cases "length p = 1")
      case True
      then have "p = [hd p]" by (cases p) auto
      with b show ?thesis by simp
    next
      case False
      with \<open>p \<noteq> []\<close> have "take 1 p = [hd p]" "1 < length p" by (cases p; auto)+
      with wf_tree_prefix [OF t(1) b, of 1] show ?thesis by simp
    qed
    ultimately show ?thesis using t(2) by auto
  qed
  moreover have "\<not> strict_prefix p q" if pq: "p \<in> set ps" "q \<in> set ps" for p q
  proof
    assume "strict_prefix p q"
    then have "take (length p) q = p" "length p < length q" by (auto simp: strict_prefix_def prefix_def)
    moreover from ps(2) pq obtain b c where "bt_get t p = Some (FileNode b)" "bt_get t q = Some (FileNode c)" by blast
    ultimately show False using wf_tree_prefix [OF t(1), of q _ "length p"] wf_treeD(1) [OF t(1), of p] by auto
  qed
  ultimately show ?thesis using ps(1) by (simp add: restorable_def list_all_iff)
qed

lemma after_dropping: "fst (op fs) = Ok x \<Longrightarrow> after (\<lambda>fs. dropping_lease i (op fs)) fs = after op fs"
  by (simp add: after_def dropping_lease_def)

text \<open>What a successful snapshot has stored: a manifest that verifies, whose entries are the directory's files.\<close>

lemma snapshot_stored:
  assumes t: "wf_tree t" and distinct: "blobs_distinct H Z ({b. \<exists>p. bt_get t p = Some (FileNode (Some b))} \<union> stored_contents Z fs)"
    and ok: "fst (snapshot_directory_streaming H Z pick ids path (DirPlace t) context fs) = Ok (manifest, lease)"
  shows "\<exists>entries contents. map snd (tree_files t) = map Some contents \<and> map se_path entries = map (join_path \<circ> fst) (tree_files t)
    \<and> list_all2 (entry_holds H Z (after (snapshot_directory_streaming H Z pick ids path (DirPlace t) context) fs)) entries contents
    \<and> sm_entries manifest = sort_key se_path entries \<and> validate_manifest_shape H manifest = Ok ()"
proof -
  let ?M = "{b. \<exists>p. bt_get t p = Some (FileNode (Some b))} \<union> stored_contents Z fs"
  let ?open = "begin_snapshot_publication (sc_world context) ids"
  let ?snap = "snapshot_directory_streaming H Z pick ids path (DirPlace t) context"
  let ?finish = "\<lambda>(lease, entries) (_ :: world_files).
    let entries = sort_key se_path entries in
    check (validate_manifest_paths entries) (\<lambda>_.
    check (protocol (snapshot_state_root H entries)) (\<lambda>state_root.
    reply (snapshot_manifest context entries state_root, lease)))
    :: (SnapshotManifestV1 \<times> SnapshotPublicationLease) plan"
  let ?body = "\<lambda>lease. then_plan (put_files H Z pick lease (tree_files t)) ?finish"
  from ok have link: "find_link t = None" by (auto simp: snapshot_directory_streaming_def plan_simps split: option.splits)
  have op: "?snap fs = then_plan ?open (\<lambda>lease fs. dropping_lease (pl_publication_id lease) (?body lease fs)) fs"
    by (simp add: snapshot_directory_streaming_def link)
  have dropping: "fst (dropping_lease i p) = Ok x \<longleftrightarrow> fst p = Ok x" for i x and p :: "(SnapshotManifestV1 \<times> SnapshotPublicationLease) plan"
    by (auto simp: dropping_lease_def split: sum.splits)
  from ok obtain lease0 where opened: "fst (?open fs) = Ok lease0" and body: "fst (?body lease0 (after ?open fs)) = Ok (manifest, lease)"
    unfolding op by (auto simp: fst_then dropping)
  let ?f = "after ?open fs"
  let ?put = "put_files H Z pick lease0 (tree_files t)"
  from body obtain entries where put: "fst (?put ?f) = Ok (lease, entries)"
    and finish: "fst (?finish (lease, entries) (after ?put ?f)) = Ok (manifest, lease)"
    by (auto simp: fst_then fst_check Let_def plan_simps)
  have plan: "?finish (lease, entries) (after ?put ?f) = reply (manifest, lease)"
    using finish by (auto simp: Let_def fst_check plan_simps protocol_def)
  have "after ?snap fs = after (then_plan ?open (\<lambda>lease fs. dropping_lease (pl_publication_id lease) (?body lease fs))) fs"
    by (simp only: after_def op)
  also have "\<dots> = after (?body lease0) ?f"
    unfolding after_then [of ?open] opened sum.case by (rule after_dropping [where op = "?body lease0", OF body])
  also have "\<dots> = after ?put ?f"
    unfolding after_then [of ?put] put sum.case after_plan [where op = "?finish (lease, entries)", OF plan]
    by (simp add: plan_simps)
  finally have after: "after ?snap fs = after ?put ?f" .
  have zst: "wf_zst_blobs ?f = wf_zst_blobs fs"
    by (rule after_keeps [where f = wf_zst_blobs and op = ?open]) (intro footprint, simp)
  have "stored_contents Z ?f \<subseteq> ?M" by (auto simp: stored_contents_def zst)
  moreover have "b \<in> ?M" if "(p, Some b) \<in> set (tree_files t)" for p b
    using that t bt_get_iff [of t p] by (auto simp: tree_files_iff wf_tree_def)
  ultimately obtain contents where "map snd (tree_files t) = map Some contents" "map se_path entries = map (join_path \<circ> fst) (tree_files t)"
    "list_all2 (\<lambda>e c. bd_encoding (se_blob e) = Zstd \<and> entry_holds H Z (after ?put ?f) e c) entries contents"
    using put_files_ok [OF distinct _ _ put] by blast
  moreover from this(3) have "list_all2 (entry_holds H Z (after ?put ?f)) entries contents"
    by (rule list_all2_mono) simp
  moreover have "sm_entries manifest = sort_key se_path entries \<and> validate_manifest_shape H manifest = Ok ()"
    using finish by (auto simp: Let_def fst_check plan_simps snapshot_manifest_def validate_manifest_shape_def)
  ultimately show ?thesis unfolding after by blast
qed

section \<open>The round trip\<close>

lemma map_insort_key: "map f (insort_key (\<lambda>x. g (f x)) x xs) = insort_key g (f x) (map f xs)"
  by (induction xs) auto

lemma map_sort_key: "map f (sort_key (\<lambda>x. g (f x)) xs) = sort_key g (map f xs)"
  by (induction xs) (auto simp: map_insort_key)

lemma zip_parts: "zip (map f (map fst zs)) (map snd zs) = map (\<lambda>z. (f (fst z), snd z)) zs"
  by (simp add: zip_map_map zip_same_conv_map)

lemma list_all2_each: "list_all2 P xs ys \<Longrightarrow> \<forall>x\<in>set xs. \<exists>y. P x y"
  by (metis in_set_conv_nth list_all2_conv_all_nth)

lemma tree_files_distinct: "distinct (map fst t) \<Longrightarrow> distinct (map fst (tree_files t))"
  unfolding tree_files_def by (induction t) (auto simp: List.map_filter_simps split: node.splits, force simp: List.map_filter_def split: node.splits)

lemma layout_DirNode:
  assumes "restorable (map fst files)"
  shows "layout files q = Some DirNode \<longleftrightarrow> q \<noteq> [] \<and> (\<exists>f\<in>set files. strict_prefix q (fst f))"
proof -
  have "map_of files q = None" if "f \<in> set files" "strict_prefix q (fst f)" for f
    using assms that by (fastforce simp: restorable_def list_all_iff map_of_eq_None_iff)
  then show ?thesis by (auto simp: layout_def list_ex_iff split: option.splits)
qed

text \<open>The files a snapshot names, in the order of the manifest.\<close>

lemma directory_files:
  assumes t: "wf_tree t" and contents: "map snd (tree_files t) = map Some contents"
    and paths: "map se_path entries = map (join_path \<circ> fst) (tree_files t)"
  shows "map (split_path \<circ> se_path) entries = map fst (tree_files t)"
    and "set (zip (map (split_path \<circ> se_path) entries) contents) = {(p, c). bt_get t p = Some (FileNode (Some c))}"
    and "\<And>p b. bt_get t p = Some (FileNode b) \<Longrightarrow> b \<noteq> None"
proof -
  have wf: "bt_wf t" using t by (simp add: wf_tree_def)
  have held: "bt_get t p = Some (FileNode b) \<longleftrightarrow> (p, b) \<in> set (tree_files t)" for p b
    using bt_get_iff [OF wf] by (simp add: tree_files_iff)
  have "split_path (join_path p) = p" if "(p, b) \<in> set (tree_files t)" for p b
    using that wf_treeD(1,2) [OF t] split_join by (metis held)
  then have "map (split_path \<circ> join_path \<circ> fst) (tree_files t) = map fst (tree_files t)" by auto
  with arg_cong [OF paths, of "map split_path"] show names: "map (split_path \<circ> se_path) entries = map fst (tree_files t)"
    by (simp add: comp_assoc)
  show present: "b \<noteq> None" if "bt_get t p = Some (FileNode b)" for p b
  proof -
    have "b \<in> set (map snd (tree_files t))" using that by (force simp: held)
    then show ?thesis unfolding contents by auto
  qed
  have "contents = map (the \<circ> snd) (tree_files t)"
    using arg_cong [OF contents, of "map the"] by (simp add: comp_def)
  then have "zip (map (split_path \<circ> se_path) entries) contents = map (\<lambda>f. (fst f, the (snd f))) (tree_files t)"
    unfolding names by (simp add: zip_map_map zip_same_conv_map)
  then show "set (zip (map (split_path \<circ> se_path) entries) contents) = {(p, c). bt_get t p = Some (FileNode (Some c))}"
    using present by (force simp: held)
qed

text \<open>
  C6. What was snapshotted is what is restored.  When \<open>snapshot_directory_streaming\<close> succeeds on a directory that
  holds no restore marker, restoring its manifest from the store it leaves succeeds into every destination that
  is absent or is a plain directory without a marker, whatever it held, and the restored tree has exactly the
  files of the source with their contents, and exactly the directories that lead to one.  This is for a faithful
  coder, and for contents and stored blobs among which the hash has no collision.
\<close>

theorem snapshot_restore_round_trip:
  assumes t: "wf_tree t" "bt_get t restore_marker = None" and clean: "clean_destination pl"
    and distinct: "blobs_distinct H Z ({b. \<exists>p. bt_get t p = Some (FileNode (Some b))} \<union> stored_contents Z fs)"
    and ok: "fst (snapshot_directory_streaming H Z pick ids path (DirPlace t) context fs) = Ok (manifest, lease)"
    and fs': "fs' = after (snapshot_directory_streaming H Z pick ids path (DirPlace t) context) fs"
  shows "fst (restore_snapshot_streaming H Z pick' fs' manifest dest pl) = Ok ()
    \<and> (\<exists>t'. after (restore_snapshot_streaming H Z pick' fs' manifest dest) pl = DirPlace t'
        \<and> (\<forall>p b. bt_get t' p = Some (FileNode b) \<longleftrightarrow> bt_get t p = Some (FileNode b))
        \<and> (\<forall>p. bt_get t' p = Some DirNode \<longleftrightarrow> p \<noteq> [] \<and> (\<exists>q b. bt_get t q = Some (FileNode b) \<and> strict_prefix p q)))"
proof -
  let ?es = "sm_entries manifest" and ?paths = "map (split_path \<circ> se_path) (sm_entries manifest)"
  from snapshot_stored [OF t(1) distinct ok] obtain entries contents where
    stored: "map snd (tree_files t) = map Some contents" "map se_path entries = map (join_path \<circ> fst) (tree_files t)"
      "list_all2 (entry_holds H Z fs') entries contents" "?es = sort_key se_path entries" "validate_manifest_shape H manifest = Ok ()"
    unfolding fs' by blast
  let ?zs = "sort_key (\<lambda>z. se_path (fst z)) (zip entries contents)"
  have es: "?es = map fst ?zs"
    using map_sort_key [of fst se_path "zip entries contents"] list_all2_lengthD [OF stored(3)] stored(4) by simp
  have blobs: "list_all2 (entry_holds H Z fs') ?es (map snd ?zs)"
    using stored(3) unfolding es by (auto simp: list_all2_iff zip_map_fst_snd)
  let ?files = "rev (zip ?paths (map snd ?zs))"
  note source = directory_files [OF t(1) stored(1,2)]
  have files: "set ?files = {(p, c). bt_get t p = Some (FileNode (Some c))}"
    unfolding source(2) [symmetric] es set_rev zip_parts by (simp add: zip_map1 image_image split_beta')
  have "distinct (map (split_path \<circ> se_path) entries)"
    unfolding source(1) by (rule tree_files_distinct) (use t(1) in \<open>simp add: wf_tree_def bt_wf_distinct\<close>)
  then have "distinct ?paths" unfolding stored(4) by (simp add: distinct_map)
  moreover have "\<exists>b. bt_get t p = Some (FileNode b)" if "p \<in> set ?paths" for p
  proof -
    have "p \<in> set (map fst (tree_files t))" using that unfolding stored(4) source(1) [symmetric] by simp
    then show ?thesis using bt_get_iff [of t p] t(1) by (fastforce simp: tree_files_iff wf_tree_def)
  qed
  ultimately have paths: "restorable ?paths" by (rule tree_restorable [OF t])
  have "verify_blob_streaming H Z pick' fs' (se_blob e) = Ok ()" if "e \<in> set ?es" for e
    using list_all2_each [OF blobs] that unfolding verify_blob_streaming_Ok by (metis entry_holds_any)
  then have verified: "verify_snapshot_streaming H Z pick' fs' manifest = Ok ()"
    unfolding verify_snapshot_streaming_def using stored(5) by simp
  from restore_succeeds [OF verified clean paths blobs, of dest] obtain t' where
    t': "fst (restore_snapshot_streaming H Z pick' fs' manifest dest pl) = Ok ()"
      "after (restore_snapshot_streaming H Z pick' fs' manifest dest) pl = DirPlace t'" "bt_get t' = layout ?files" by blast
  have restorable: "restorable (map fst ?files)"
    using paths list_all2_lengthD [OF blobs] by (simp add: restorable_def flip: rev_map)
  then have "map_of ?files p = Some c \<longleftrightarrow> bt_get t p = Some (FileNode (Some c))" for p c
    using map_of_eq_Some_iff [of ?files p c] unfolding files by (simp add: restorable_def)
  then have "bt_get t' p = Some (FileNode b) \<longleftrightarrow> bt_get t p = Some (FileNode b)" for p b
    using source(3) [of p b] by (auto simp: t'(3) layout_FileNode)
  moreover have "bt_get t' p = Some DirNode \<longleftrightarrow> p \<noteq> [] \<and> (\<exists>q b. bt_get t q = Some (FileNode b) \<and> strict_prefix p q)" for p
    unfolding t'(3) layout_DirNode [OF restorable] files using source(3) by fastforce
  ultimately show ?thesis using t'(1,2) by blast
qed

abbreviation sample_tree :: tree where
  "sample_tree \<equiv> [([''region''], DirNode), ([''region'', ''r0''], FileNode (Some [7, 8]))]"

abbreviation sample_context :: SnapshotContext where
  "sample_context \<equiv> \<lparr>sc_world = WorldId 7, sc_snapshot_number = 0, sc_epoch = 1, sc_sequence = 0,
    sc_previous_snapshot_hash = None, sc_authority_peer_id = PeerId 1, sc_authority_public_key = 1\<rparr>"

lemma sample_path: "portable_relative_path [''region'', ''r0''] = Ok ''region/r0''"
  by code_simp

lemma sample_paths: "validate_manifest_paths [\<lparr>se_path = ''region/r0'', se_blob = d\<rparr>] = Ok ()"
proof -
  have "is_ok (validate_portable_path ''region/r0'')" "is_ok (portable_path_collision_key ''region/r0'')" by code_simp+
  then show ?thesis by (auto simp: validate_manifest_paths_def check_manifest_path_def is_ok_iff)
qed

lemma sample_snapshot_ok: "is_ok (fst (snapshot_directory_streaming demo_host plain_zstd (\<lambda>_. 1) [''p''] ''w'' (DirPlace sample_tree) sample_context empty_files))"
proof -
  have link: "find_link sample_tree = None" by (simp add: find_link_def)
  have files: "tree_files sample_tree = [([''region'', ''r0''], Some [7, 8])]" by (simp add: tree_files_def List.map_filter_simps)
  have root: "snapshot_state_root demo_host es = Ok (Hash32 0)" for es
    by (simp add: snapshot_state_root_def from_domain_bytes_def to_allocvec_def)
  let ?open = "begin_snapshot_publication (WorldId 7) [''p'']"
  let ?lease = "\<lparr>pl_world = WorldId 7, pl_publication_id = ''p'', pl_pinned_hashes = {}\<rparr>"
  let ?held = "empty_files\<lparr>wf_publications := [(''p'', \<lparr>pb_owner_file = True, pb_owner_held = True, pb_pins = []\<rparr>)]\<rparr>"
  have opened: "fst (?open empty_files) = Ok ?lease" "after ?open empty_files = ?held"
    by (simp_all add: begin_snapshot_publication_def empty_files_def plan_simps after_def)
  let ?put = "put_file_blob_streaming demo_host plain_zstd (\<lambda>_. 1) ?lease (Some [7, 8])"
  have "is_ok (fst (?put ?held))"
    by (simp add: put_file_blob_streaming_def pin_hash_def fst_then after_def plan_simps empty_files_def slot_at_def bt_get_def Let_def)
  then obtain lease d where put: "fst (?put ?held) = Ok (lease, d)" by (auto simp: is_ok_iff)
  then have "fst (put_files demo_host plain_zstd (\<lambda>_. 1) ?lease (tree_files sample_tree) ?held) = Ok (lease, [\<lparr>se_path = ''region/r0'', se_blob = d\<rparr>])"
    by (simp add: files sample_path fst_then plan_simps)
  then show ?thesis
    by (simp add: snapshot_directory_streaming_def link fst_then opened dropping_lease_def sample_paths root protocol_def plan_simps Let_def)
qed

theorem snapshot_restore_round_trip_witness:
  "\<exists>manifest lease t'.
    fst (snapshot_directory_streaming demo_host plain_zstd (\<lambda>_. 1) [''p''] ''w'' (DirPlace sample_tree) sample_context empty_files)
      = Ok (manifest, lease)
    \<and> after (restore_snapshot_streaming demo_host plain_zstd (\<lambda>_. 2)
        (after (snapshot_directory_streaming demo_host plain_zstd (\<lambda>_. 1) [''p''] ''w'' (DirPlace sample_tree) sample_context) empty_files)
        manifest ''copy'') (DirPlace [([''old''], FileNode None)]) = DirPlace t'
    \<and> bt_get t' [''region'', ''r0''] = Some (FileNode (Some [7, 8])) \<and> bt_get t' [''region''] = Some DirNode \<and> bt_get t' [''old''] \<noteq> Some (FileNode None)"
proof -
  let ?snap = "snapshot_directory_streaming demo_host plain_zstd (\<lambda>_. 1) [''p''] ''w'' (DirPlace sample_tree) sample_context"
  obtain manifest lease where ok: "fst (?snap empty_files) = Ok (manifest, lease)"
    using sample_snapshot_ok by (auto simp: is_ok_iff)
  have tree: "wf_tree sample_tree" "bt_get sample_tree restore_marker = None" "clean_destination (DirPlace [([''old''], FileNode None)])"
    by code_simp+
  have "stored_contents plain_zstd empty_files = {}" by (simp add: stored_contents_def empty_files_def)
  moreover have "{b. \<exists>p. bt_get sample_tree p = Some (FileNode (Some b))} = {[7, 8]}" by (auto simp: bt_get_def split: if_splits)
  ultimately have "blobs_distinct demo_host plain_zstd ({b. \<exists>p. bt_get sample_tree p = Some (FileNode (Some b))} \<union> stored_contents plain_zstd empty_files)"
    by (simp add: blobs_distinct_def zstd_faithful_def collision_free_def)
  from snapshot_restore_round_trip [OF tree this ok refl, of "\<lambda>_. 2" "''copy''"] obtain t' where
    t': "after (restore_snapshot_streaming demo_host plain_zstd (\<lambda>_. 2) (after ?snap empty_files) manifest ''copy'') (DirPlace [([''old''], FileNode None)]) = DirPlace t'"
      "bt_get t' p = Some (FileNode b) \<longleftrightarrow> bt_get sample_tree p = Some (FileNode b)"
      "bt_get t' p = Some DirNode \<longleftrightarrow> p \<noteq> [] \<and> (\<exists>q b. bt_get sample_tree q = Some (FileNode b) \<and> strict_prefix p q)" for p b
    by blast
  have "bt_get sample_tree [''region'', ''r0''] = Some (FileNode (Some [7, 8]))" "bt_get sample_tree [''old''] = None" by (simp_all add: bt_get_def)
  then have "bt_get t' [''region'', ''r0''] = Some (FileNode (Some [7, 8]))" "bt_get t' [''region''] = Some DirNode" "bt_get t' [''old''] \<noteq> Some (FileNode None)"
    unfolding t'(2,3) by (auto intro!: exI [of _ "[''region'', ''r0'']"])
  with ok t'(1) show ?thesis by blast
qed

end
