(* ===== verification/NetworkWire.thy ===== *)
theory NetworkWire
  imports DiscoveryRecords
begin

text \<open>
  The messages of \<open>swarm-network/src/wire.rs\<close> with their size limits.  \<open>serde_json\<close> is a parameter: the length of
  the JSON text of a value, \<open>None\<close> when it cannot be written.  A transport identity is its bytes.
\<close>

section \<open>Messages\<close>

type_synonym TransportPeerId = bytes

definition MAX_BLOB_CHUNK :: nat where "MAX_BLOB_CHUNK = 256 * 1024"
definition MAX_MISSING_BLOBS :: nat where "MAX_MISSING_BLOBS = 16384"
definition MAX_WORLD_MEMBERS :: nat where "MAX_WORLD_MEMBERS = 1024"
definition MAX_RECOVERY_VOTES :: nat where "MAX_RECOVERY_VOTES = 1024"
definition MAX_MEMBERSHIP_VOTES :: nat where "MAX_MEMBERSHIP_VOTES = 1024"
definition MAX_WORLD_ARTIFACTS :: nat where "MAX_WORLD_ARTIFACTS = 4096"
definition MAX_PRESENTATION_TAGS :: nat where "MAX_PRESENTATION_TAGS = 64"
definition MAX_DISCOVERY_RESULTS :: nat where "MAX_DISCOVERY_RESULTS = 64"
definition MAX_DISCOVERY_TAGS :: nat where "MAX_DISCOVERY_TAGS = 16"
definition MAX_DISCOVERY_QUERY_BYTES :: nat where "MAX_DISCOVERY_QUERY_BYTES = 512"
definition MAX_DISCOVERY_ANNOUNCEMENT_BYTES :: nat where "MAX_DISCOVERY_ANNOUNCEMENT_BYTES = 16 * 1024"
definition MAX_DISCOVERY_MEMBERSHIP_PROOF_BYTES :: nat where "MAX_DISCOVERY_MEMBERSHIP_PROOF_BYTES = 512 * 1024"
definition MAX_DISCOVERY_MEMBERSHIP_CERTIFICATES :: nat where "MAX_DISCOVERY_MEMBERSHIP_CERTIFICATES = 256"
definition MAX_HANDSHAKE_TRANSPORT_ID_BYTES :: nat where "MAX_HANDSHAKE_TRANSPORT_ID_BYTES = 128"

lemmas wire_limits = MAX_BLOB_CHUNK_def MAX_MISSING_BLOBS_def MAX_WORLD_MEMBERS_def MAX_RECOVERY_VOTES_def
  MAX_MEMBERSHIP_VOTES_def MAX_WORLD_ARTIFACTS_def MAX_PRESENTATION_TAGS_def MAX_DISCOVERY_RESULTS_def
  MAX_DISCOVERY_TAGS_def MAX_DISCOVERY_QUERY_BYTES_def MAX_DISCOVERY_ANNOUNCEMENT_BYTES_def
  MAX_DISCOVERY_MEMBERSHIP_PROOF_BYTES_def MAX_DISCOVERY_MEMBERSHIP_CERTIFICATES_def MAX_HANDSHAKE_TRANSPORT_ID_BYTES_def

record ReplicaAckV1 =
  ra_world_id :: WorldId
  ra_snapshot_number :: u64
  ra_manifest_hash :: Hash32
  ra_state_root :: Hash32
  ra_complete :: bool

datatype HostRuntimeReadinessV1 =
    RuntimeReady | MissingConfiguration | EulaRequired | MissingJava | MissingServerJar | MissingSwarmCraftMod
  | RuntimeUnverified | RuntimeIncompatible

datatype ServerModsReadinessV1 = ModsReady | ModsMissing | ModsIncompatible | ModsUnverified

record HostCapabilityV1 =
  hc_world_id :: WorldId
  hc_compatibility_fingerprint :: Hash32
  hc_runtime :: HostRuntimeReadinessV1
  hc_server_mods :: ServerModsReadinessV1
  hc_conflict_free :: bool
  hc_recovery_quorum_without_authority :: bool

record BlobResumeV1 =
  br_hash :: Hash32
  br_offset :: u64

record PeerHelloProofV1 =
  hp_hello :: PeerHelloV1
  hp_challenge :: bytes32
  hp_claimant_transport_peer :: bytes
  hp_receiver_transport_peer :: bytes
  hp_signature :: bytes

datatype (plugins only: code) WireRequest =
    RqHello PeerHelloV1
  | RqPing u64
  | RqWorldStatus WorldId
  | RqWorldDescriptor WorldId
  | RqJoinRequest JoinRequestV1
  | RqLeaveRequest LeaveRequestV1
  | RqSnapshotManifest SnapshotManifestV1
  | RqMissingBlobs WorldId u64 "Hash32 list"
  | RqBlobChunk WorldId Hash32 BlobEncoding u64 bytes bool
  | RqReplicaAck ReplicaAckV1
  | RqMembership MembershipRecordV1
  | RqEpoch EpochRecordV1
  | RqAuthorityTransfer AuthorityTransferV1
  | RqLeaseGrant AuthorityLeaseGrantV1
  | RqSleep SleepRecordV1
  | RqRecoveryBallot RecoveryBallotV1
  | RqRecoveryEpoch EpochRecordV1 RecoveryCertificateV1
  | RqWorldConfig WorldConfigV1
  | RqSoloBranch SoloBranchV1
  | RqHostCapability WorldId
  | RqDiscoveryPublic DiscoveryFilterV1
  | RqDiscoveryResolve WorldId
  | RqFriendPresence PeerId PeerId bytes32
  | RqMembershipProposal MembershipProposalV1
  | RqMembershipCommit MembershipCertificateV1
  | RqHelloChallenge bytes32
  | RqHelloProof PeerHelloProofV1
  | RqDiscoveryFreshnessContext WorldId Hash32 PeerId bytes32 u64 u64
  | RqDiscoveryFreshnessVote DiscoveryFreshnessChallengeV1

datatype (plugins only: code) WireResponse =
    RsHelloAccepted u16
  | RsPong u64
  | RsWorldStatus "WorldStatusV1 option"
  | RsWorldDescriptor "WorldDescriptorV1 option"
  | RsJoinAccepted u64
  | RsLeaveAccepted u64
  | RsManifestAccepted u64 "BlobResumeV1 list"
  | RsMissingBlobs "BlobResumeV1 list"
  | RsBlobChunkAccepted Hash32 u64
  | RsReplicaAckAccepted
  | RsMembershipAccepted u64
  | RsEpochAccepted u64 u64
  | RsTransferAccepted
  | RsLeaseAccepted u64 u64
  | RsSleepAccepted u64 u64
  | RsError string string
  | RsRecoveryVote RecoveryVoteV1
  | RsRecoveryRejected u64 string
  | RsWorldConfigAccepted u64
  | RsSoloBranchAccepted
  | RsHostCapability "HostCapabilityV1 option"
  | RsDiscoveryWorlds "WorldAnnouncementV1 list"
  | RsDiscoveryResolved "WorldAnnouncementV1 option"
  | RsFriendPresence "FriendPresenceV1 option"
  | RsMembershipVote MembershipVoteV1
  | RsMembershipCommitAccepted u64
  | RsHelloChallengeAccepted
  | RsDiscoveryFreshnessContext "DiscoveryMembershipProofV1 option"
  | RsDiscoveryFreshnessVote "DiscoveryFreshnessVoteV1 option"

text \<open>The world whose membership a request needs before it is dispatched.\<close>

definition membership_world_id :: "WireRequest \<Rightarrow> WorldId option" where
  "membership_world_id m = (case m of
      RqWorldStatus w \<Rightarrow> Some w
    | RqWorldDescriptor w \<Rightarrow> Some w
    | RqMissingBlobs w _ _ \<Rightarrow> Some w
    | RqBlobChunk w _ _ _ _ _ \<Rightarrow> Some w
    | RqHostCapability w \<Rightarrow> Some w
    | RqLeaveRequest r \<Rightarrow> Some (lv_world_id r)
    | RqSnapshotManifest m \<Rightarrow> Some (sm_world_id m)
    | RqReplicaAck a \<Rightarrow> Some (ra_world_id a)
    | RqMembership r \<Rightarrow> Some (mr_world_id r)
    | RqEpoch r \<Rightarrow> Some (er_world_id r)
    | RqAuthorityTransfer t \<Rightarrow> Some (at_world_id t)
    | RqLeaseGrant l \<Rightarrow> Some (lg_world_id l)
    | RqSleep r \<Rightarrow> Some (sl_world_id r)
    | RqRecoveryBallot b \<Rightarrow> Some (rb_world_id b)
    | RqRecoveryEpoch r _ \<Rightarrow> Some (er_world_id r)
    | RqWorldConfig c \<Rightarrow> Some (wc_world_id c)
    | RqSoloBranch b \<Rightarrow> Some (sb_world_id b)
    | _ \<Rightarrow> None)"

section \<open>Limits\<close>

datatype WireLimitError =
    BlobChunkTooLarge nat
  | TooManyBlobHashes nat
  | TooManyMembers nat
  | TooManyRecoveryVotes nat
  | TooManyMembershipVotes nat
  | TooManyWorldArtifacts nat
  | TooManyPresentationTags nat
  | TooManyDiscoveryResults nat
  | TooManyDiscoveryTags nat
  | DiscoveryFilterTooLarge nat
  | DiscoveryAnnouncementTooLarge nat
  | TooManyDiscoveryMembershipCertificates nat
  | DiscoveryMembershipProofTooLarge nat
  | HandshakeTransportIdTooLarge

record json_sizes =
  js_filter :: "DiscoveryFilterV1 \<Rightarrow> nat option"
  js_announcement :: "WorldAnnouncementV1 \<Rightarrow> nat option"
  js_proof :: "DiscoveryMembershipProofV1 \<Rightarrow> nat option"

definition json_within :: "nat option \<Rightarrow> nat \<Rightarrow> (nat \<Rightarrow> WireLimitError) \<Rightarrow> (WireLimitError, unit) result" where
  "json_within len limit error =
    (case len of None \<Rightarrow> Err (error (2 ^ 64 - 1)) | Some n \<Rightarrow> if limit < n then Err (error n) else Ok ())"

definition validate_discovery_filter :: "json_sizes \<Rightarrow> DiscoveryFilterV1 \<Rightarrow> (WireLimitError, unit) result" where
  "validate_discovery_filter J query =
    (if MAX_DISCOVERY_TAGS < length (df_tags query) then Err (TooManyDiscoveryTags (length (df_tags query)))
     else json_within (js_filter J query) MAX_DISCOVERY_QUERY_BYTES DiscoveryFilterTooLarge)"

definition validate_announcement_size :: "json_sizes \<Rightarrow> WorldAnnouncementV1 \<Rightarrow> (WireLimitError, unit) result" where
  "validate_announcement_size J value =
    json_within (js_announcement J value) MAX_DISCOVERY_ANNOUNCEMENT_BYTES DiscoveryAnnouncementTooLarge"

definition proposal_size :: "MembershipProposalV1 \<Rightarrow> nat" where
  "proposal_size p = max (length (mr_members (mp_previous p))) (length (mr_members (mp_proposed p)))"

definition WireRequest_validate_limits :: "json_sizes \<Rightarrow> WireRequest \<Rightarrow> (WireLimitError, unit) result" where
  "WireRequest_validate_limits J m = (case m of
      RqBlobChunk _ _ _ _ data _ \<Rightarrow>
    ensure (length data \<le> MAX_BLOB_CHUNK) (BlobChunkTooLarge (length data))
    | RqMissingBlobs _ _ hashes \<Rightarrow>
    ensure (length hashes \<le> MAX_MISSING_BLOBS) (TooManyBlobHashes (length hashes))
    | RqMembership record \<Rightarrow>
    ensure (length (mr_members record) \<le> MAX_WORLD_MEMBERS) (TooManyMembers (length (mr_members record)))
    | RqRecoveryEpoch _ certificate \<Rightarrow>
    ensure (length (rcert_votes certificate) \<le> MAX_RECOVERY_VOTES) (TooManyRecoveryVotes (length (rcert_votes certificate)))
    | RqMembershipProposal proposal \<Rightarrow>
    ensure (proposal_size proposal \<le> MAX_WORLD_MEMBERS) (TooManyMembers (proposal_size proposal))
    | RqMembershipCommit certificate \<Rightarrow>
    and_then (ensure (proposal_size (mc_proposal certificate) \<le> MAX_WORLD_MEMBERS)
      (TooManyMembers (proposal_size (mc_proposal certificate)))) (\<lambda>_.
    ensure (length (mc_votes certificate) \<le> MAX_MEMBERSHIP_VOTES) (TooManyMembershipVotes (length (mc_votes certificate))))
    | RqWorldConfig config \<Rightarrow>
    (let artifacts = length (rc_required_server_mods (wc_compatibility config))
           + length (rc_required_client_mods (wc_compatibility config)) + length (rc_datapacks (wc_compatibility config));
         tags = length (wp_tags (wc_presentation config)) in
     and_then (ensure (artifacts \<le> MAX_WORLD_ARTIFACTS) (TooManyWorldArtifacts artifacts)) (\<lambda>_.
     ensure (tags \<le> MAX_PRESENTATION_TAGS) (TooManyPresentationTags tags)))
    | RqDiscoveryPublic query \<Rightarrow> validate_discovery_filter J query
    | RqHelloProof proof \<Rightarrow>
    ensure (length (hp_claimant_transport_peer proof) \<le> MAX_HANDSHAKE_TRANSPORT_ID_BYTES
      \<and> length (hp_receiver_transport_peer proof) \<le> MAX_HANDSHAKE_TRANSPORT_ID_BYTES) HandshakeTransportIdTooLarge
    | _ \<Rightarrow> Ok ())"

definition list_maximum :: "nat list \<Rightarrow> nat" where
  "list_maximum ns = foldl max 0 ns"

definition WireResponse_validate_limits :: "json_sizes \<Rightarrow> WireResponse \<Rightarrow> (WireLimitError, unit) result" where
  "WireResponse_validate_limits J m = (case m of
      RsDiscoveryWorlds values \<Rightarrow>
    (if MAX_DISCOVERY_RESULTS < length values then Err (TooManyDiscoveryResults (length values))
     else for_each (validate_announcement_size J) values)
    | RsDiscoveryResolved (Some value) \<Rightarrow> validate_announcement_size J value
    | RsDiscoveryFreshnessContext (Some proof) \<Rightarrow>
    (let certificates = dm_membership_certificates proof;
         member_count = list_maximum (map (proposal_size \<circ> mc_proposal) certificates
           @ [length (mr_members (dm_initial_membership proof)), length (mr_members (dm_current_membership proof))]
           @ (case dm_pending_membership proof of None \<Rightarrow> [] | Some p \<Rightarrow> [proposal_size p]));
         vote_count = list_maximum (map (length \<circ> mc_votes) certificates) in
     and_then (ensure (length certificates \<le> MAX_DISCOVERY_MEMBERSHIP_CERTIFICATES)
       (TooManyDiscoveryMembershipCertificates (length certificates))) (\<lambda>_.
     and_then (ensure (member_count \<le> MAX_WORLD_MEMBERS) (TooManyMembers member_count)) (\<lambda>_.
     and_then (ensure (vote_count \<le> MAX_MEMBERSHIP_VOTES) (TooManyMembershipVotes vote_count)) (\<lambda>_.
     json_within (js_proof J proof) MAX_DISCOVERY_MEMBERSHIP_PROOF_BYTES DiscoveryMembershipProofTooLarge))))
    | _ \<Rightarrow> Ok ())"

end
