(* ===== verification/Admission.thy ===== *)
theory Admission
  imports NetworkWire Interfaces
begin

text \<open>
  The request budgets of \<open>swarm-network/src/admission.rs\<close>: a counter per peer and class of request and one counter
  per class for all peers, each over a window of ten seconds.  Instants are milliseconds; the monotonic clock of the
  code never goes back, and the lemmas say so where they need it.
\<close>

definition MAX_APPLICATION_CONNECTIONS :: nat where "MAX_APPLICATION_CONNECTIONS = 64"
definition AUTH_CHALLENGE_TIMEOUT :: nat where "AUTH_CHALLENGE_TIMEOUT = 10000"
definition REQUEST_WINDOW :: nat where "REQUEST_WINDOW = 10000"
definition MAX_UNAUTHENTICATED_REQUESTS_PER_PEER :: u32 where "MAX_UNAUTHENTICATED_REQUESTS_PER_PEER = 8"
definition MAX_AUTHENTICATED_REQUESTS_PER_PEER :: u32 where "MAX_AUTHENTICATED_REQUESTS_PER_PEER = 128"
definition MAX_GLOBAL_UNAUTHENTICATED_REQUESTS :: u32 where "MAX_GLOBAL_UNAUTHENTICATED_REQUESTS = 256"
definition MAX_GLOBAL_AUTHENTICATED_REQUESTS :: u32 where "MAX_GLOBAL_AUTHENTICATED_REQUESTS = 4096"

record WindowCounter =
  wn_started :: nat
  wn_count :: u32

definition WindowCounter_new :: "nat \<Rightarrow> WindowCounter" where
  "WindowCounter_new now = \<lparr>wn_started = now, wn_count = 0\<rparr>"

definition window_admit :: "WindowCounter \<Rightarrow> nat \<Rightarrow> u32 \<Rightarrow> bool \<times> WindowCounter" where
  "window_admit c now limit =
    (let c = (if REQUEST_WINDOW \<le> now - wn_started c then \<lparr>wn_started = now, wn_count = 0\<rparr> else c) in
     if limit \<le> wn_count c then (False, c) else (True, c\<lparr>wn_count := wn_count c + 1\<rparr>))"

record PeerBudget =
  bg_unauthenticated :: WindowCounter
  bg_authenticated :: WindowCounter

definition PeerBudget_new :: "nat \<Rightarrow> PeerBudget" where
  "PeerBudget_new now = \<lparr>bg_unauthenticated = WindowCounter_new now, bg_authenticated = WindowCounter_new now\<rparr>"

record AdmissionController =
  ad_peers :: "TransportPeerId \<Rightarrow> PeerBudget option"
  ad_global_unauthenticated :: WindowCounter
  ad_global_authenticated :: WindowCounter

definition AdmissionController_new :: "nat \<Rightarrow> AdmissionController" where
  "AdmissionController_new now = \<lparr>ad_peers = (\<lambda>_. None),
    ad_global_unauthenticated = WindowCounter_new now, ad_global_authenticated = WindowCounter_new now\<rparr>"

definition admit_request :: "AdmissionController \<Rightarrow> TransportPeerId \<Rightarrow> bool \<Rightarrow> nat \<Rightarrow> bool \<times> AdmissionController" where
  "admit_request s peer authenticated now =
    (let budget = (case ad_peers s peer of None \<Rightarrow> PeerBudget_new now | Some b \<Rightarrow> b) in
     if authenticated then
       (case window_admit (bg_authenticated budget) now MAX_AUTHENTICATED_REQUESTS_PER_PEER of (allowed, c) \<Rightarrow>
          let s = s\<lparr>ad_peers := (ad_peers s)(peer \<mapsto> budget\<lparr>bg_authenticated := c\<rparr>)\<rparr> in
          if \<not> allowed then (False, s)
          else case window_admit (ad_global_authenticated s) now MAX_GLOBAL_AUTHENTICATED_REQUESTS of (admitted, g) \<Rightarrow>
            (admitted, s\<lparr>ad_global_authenticated := g\<rparr>))
     else
       (case window_admit (bg_unauthenticated budget) now MAX_UNAUTHENTICATED_REQUESTS_PER_PEER of (allowed, c) \<Rightarrow>
          let s = s\<lparr>ad_peers := (ad_peers s)(peer \<mapsto> budget\<lparr>bg_unauthenticated := c\<rparr>)\<rparr> in
          if \<not> allowed then (False, s)
          else case window_admit (ad_global_unauthenticated s) now MAX_GLOBAL_UNAUTHENTICATED_REQUESTS of (admitted, g) \<Rightarrow>
            (admitted, s\<lparr>ad_global_unauthenticated := g\<rparr>)))"

definition forget_peer :: "AdmissionController \<Rightarrow> TransportPeerId \<Rightarrow> AdmissionController" where
  "forget_peer s peer = s\<lparr>ad_peers := (ad_peers s)(peer := None)\<rparr>"

definition application_connection_allowed :: "nat \<Rightarrow> bool \<Rightarrow> bool" where
  "application_connection_allowed active_application_connections replacing_peer \<longleftrightarrow>
    replacing_peer \<or> active_application_connections < MAX_APPLICATION_CONNECTIONS"

definition auth_challenge_expired :: "nat \<Rightarrow> nat \<Rightarrow> bool" where
  "auth_challenge_expired issued_at now \<longleftrightarrow> AUTH_CHALLENGE_TIMEOUT \<le> now - issued_at"

section \<open>What a window bounds\<close>

text \<open>The number of counted operations of a run.\<close>

primrec tally :: "('s \<Rightarrow> 'op \<Rightarrow> 's) \<Rightarrow> ('s \<Rightarrow> 'op \<Rightarrow> bool) \<Rightarrow> 's \<Rightarrow> 'op list \<Rightarrow> nat" where
  "tally exec counted s [] = 0"
| "tally exec counted s (op # ops) = (if counted s op then 1 else 0) + tally exec counted (exec s op) ops"

definition window_used :: "WindowCounter option \<Rightarrow> nat" where
  "window_used c = (case c of None \<Rightarrow> 0 | Some c \<Rightarrow> unat (wn_count c))"

definition window_ask :: "WindowCounter option \<Rightarrow> nat \<Rightarrow> u32 \<Rightarrow> bool \<times> WindowCounter" where
  "window_ask c now limit = window_admit (case c of None \<Rightarrow> WindowCounter_new now | Some c \<Rightarrow> c) now limit"

lemma window_ask_same:
  assumes "now < wn_started c + REQUEST_WINDOW" "unat (wn_count c) \<le> unat limit"
  shows "wn_started (snd (window_ask (Some c) now limit)) = wn_started c"
    "unat (wn_count (snd (window_ask (Some c) now limit))) = unat (wn_count c) + (if fst (window_ask (Some c) now limit) then 1 else 0)"
    "fst (window_ask (Some c) now limit) \<longleftrightarrow> unat (wn_count c) < unat limit"
proof -
  have "unat limit < 2 ^ LENGTH(32)" by (rule unsigned_less)
  then have "unat (wn_count c + 1) = Suc (unat (wn_count c))" if "wn_count c < limit"
    using that by (simp add: unat_word_ariths word_less_nat_alt)
  moreover have "\<not> REQUEST_WINDOW \<le> now - wn_started c" using assms(1) by (simp add: REQUEST_WINDOW_def)
  ultimately show "wn_started (snd (window_ask (Some c) now limit)) = wn_started c"
    "unat (wn_count (snd (window_ask (Some c) now limit))) = unat (wn_count c) + (if fst (window_ask (Some c) now limit) then 1 else 0)"
    "fst (window_ask (Some c) now limit) \<longleftrightarrow> unat (wn_count c) < unat limit"
    using assms(2) by (auto simp: window_ask_def window_admit_def Let_def word_le_nat_alt word_less_nat_alt not_le)
qed

lemma window_ask_fresh:
  assumes "c = None \<or> (\<exists>c0. c = Some c0 \<and> wn_started c0 + REQUEST_WINDOW \<le> now)"
  shows "window_ask c now limit = window_ask (Some (WindowCounter_new now)) now limit"
  using assms by (auto simp: window_ask_def window_admit_def WindowCounter_new_def REQUEST_WINDOW_def Let_def)

text \<open>
  A budget: every operation of a run leaves a counter alone or creates it and is not counted, or asks the counter,
  which may be created for it, and is counted only when the counter allows it.
\<close>

locale request_budget =
  fixes exec :: "'s \<Rightarrow> 'op \<Rightarrow> 's"
    and instant :: "'op \<Rightarrow> nat"
    and within :: "'op \<Rightarrow> bool"
    and counted :: "'s \<Rightarrow> 'op \<Rightarrow> bool"
    and counter :: "'s \<Rightarrow> WindowCounter option"
    and limit :: u32
  assumes step: "within op \<Longrightarrow> counter (exec s op) = counter s \<and> \<not> counted s op
    \<or> counter s = None \<and> counter (exec s op) = Some (WindowCounter_new (instant op)) \<and> \<not> counted s op
    \<or> counter (exec s op) = Some (snd (window_ask (counter s) (instant op) limit))
      \<and> (counted s op \<longrightarrow> fst (window_ask (counter s) (instant op) limit))"
begin

lemma tally_one_window:
  assumes "list_all within ops" "counter s = Some c" "unat (wn_count c) \<le> unat limit"
    and "list_all (\<lambda>op. instant op < wn_started c + REQUEST_WINDOW) ops"
  shows "tally exec counted s ops + unat (wn_count c) \<le> unat limit"
  using assms
proof (induction ops arbitrary: s c)
  case (Cons op ops)
  let ?ask = "window_ask (Some c) (instant op) limit"
  have same: "wn_started (snd ?ask) = wn_started c" "unat (wn_count (snd ?ask)) = unat (wn_count c) + (if fst ?ask then 1 else 0)"
    "fst ?ask \<longleftrightarrow> unat (wn_count c) < unat limit"
    using window_ask_same [of "instant op" c limit] Cons.prems by simp_all
  from step [of op s] Cons.prems consider "counter (exec s op) = Some c" "\<not> counted s op"
    | "counter (exec s op) = Some (snd ?ask)" "counted s op \<longrightarrow> fst ?ask" by auto
  then show ?case
  proof cases
    case 1
    with Cons.IH [of "exec s op" c] Cons.prems show ?thesis by simp
  next
    case 2
    with Cons.IH [of "exec s op" "snd ?ask"] Cons.prems same show ?thesis by (auto split: if_splits)
  qed
qed simp

lemma used_step:
  assumes "within op" "window_used (counter s) \<le> unat limit"
  shows "window_used (counter (exec s op)) \<le> unat limit"
proof -
  have "unat (wn_count (snd (window_ask (counter s) (instant op) limit))) \<le> unat limit"
  proof (cases "counter s = None \<or> (\<exists>c. counter s = Some c \<and> wn_started c + REQUEST_WINDOW \<le> instant op)")
    case True
    then show ?thesis
      using window_ask_same [of "instant op" "WindowCounter_new (instant op)" limit]
      by (simp add: window_ask_fresh WindowCounter_new_def REQUEST_WINDOW_def)
  next
    case False
    then obtain c where "counter s = Some c" "instant op < wn_started c + REQUEST_WINDOW" by auto
    with window_ask_same [of "instant op" c limit] assms(2) show ?thesis by (auto simp: window_used_def)
  qed
  with step [OF assms(1), of s] assms(2) show ?thesis by (auto simp: window_used_def WindowCounter_new_def)
qed

lemma tally_window:
  assumes "list_all within ops" "window_used (counter s) \<le> unat limit"
    and "list_all (\<lambda>op. start \<le> instant op \<and> instant op < start + REQUEST_WINDOW) ops"
  shows "tally exec counted s ops \<le> 2 * unat limit"
proof -
  have "tally exec counted s ops + window_used (counter s) \<le> 2 * unat limit"
    using assms
  proof (induction ops arbitrary: s)
    case (Cons op ops)
    let ?ask = "window_ask (counter s) (instant op) limit"
    from step [of op s] Cons.prems consider
        "window_used (counter (exec s op)) = window_used (counter s)" "\<not> counted s op"
      | "counter (exec s op) = Some (snd ?ask)" "counted s op \<longrightarrow> fst ?ask"
      by (auto simp: window_used_def WindowCounter_new_def)
    then show ?case
    proof cases
      case 1
      with Cons.IH [of "exec s op"] Cons.prems show ?thesis by simp
    next
      case 2
      show ?thesis
      proof (cases "counter s = None \<or> (\<exists>c. counter s = Some c \<and> wn_started c + REQUEST_WINDOW \<le> instant op)")
        case True
        let ?new = "WindowCounter_new (instant op)"
        have ask: "?ask = window_ask (Some ?new) (instant op) limit" using True by (rule window_ask_fresh)
        have same: "wn_started (snd ?ask) = instant op" "unat (wn_count (snd ?ask)) = (if fst ?ask then 1 else 0)"
          "fst ?ask \<longleftrightarrow> 0 < unat limit"
          using window_ask_same [of "instant op" ?new limit] unfolding ask by (simp_all add: WindowCounter_new_def REQUEST_WINDOW_def)
        have "tally exec counted (exec s op) ops + unat (wn_count (snd ?ask)) \<le> unat limit"
        proof (rule tally_one_window)
          show "list_all (\<lambda>op. instant op < wn_started (snd ?ask) + REQUEST_WINDOW) ops"
            using Cons.prems(3) unfolding same(1) by (auto simp: list_all_iff)
        qed (use Cons.prems 2 same in \<open>simp_all split: if_splits\<close>)
        with same 2 Cons.prems(2) show ?thesis by (auto split: if_splits)
      next
        case False
        then obtain c where c: "counter s = Some c" "instant op < wn_started c + REQUEST_WINDOW" by auto
        with window_ask_same [of "instant op" c limit] Cons.prems(2)
        have same: "unat (wn_count (snd ?ask)) = unat (wn_count c) + (if fst ?ask then 1 else 0)" by (simp add: window_used_def)
        have "tally exec counted (exec s op) ops + window_used (counter (exec s op)) \<le> 2 * unat limit"
          using Cons.IH [of "exec s op"] Cons.prems used_step [of op s] by simp
        with 2 c same show ?thesis by (auto simp: window_used_def split: if_splits)
      qed
    qed
  qed simp
  then show ?thesis by simp
qed

end

section \<open>The controller as a machine\<close>

datatype admission_op = Admit TransportPeerId bool nat | Forget TransportPeerId nat

definition admission_exec :: "AdmissionController \<Rightarrow> admission_op \<Rightarrow> AdmissionController" where
  "admission_exec s op = (case op of Admit p a now \<Rightarrow> snd (admit_request s p a now) | Forget p now \<Rightarrow> forget_peer s p)"

definition admits :: "bool \<Rightarrow> AdmissionController \<Rightarrow> admission_op \<Rightarrow> bool" where
  "admits authenticated s op = (case op of Admit p a now \<Rightarrow> a = authenticated \<and> fst (admit_request s p a now) | Forget p now \<Rightarrow> False)"

definition admits_peer :: "TransportPeerId \<Rightarrow> bool \<Rightarrow> AdmissionController \<Rightarrow> admission_op \<Rightarrow> bool" where
  "admits_peer peer authenticated s op \<longleftrightarrow> admits authenticated s op \<and> (\<exists>a now. op = Admit peer a now)"

definition op_instant :: "admission_op \<Rightarrow> nat" where
  "op_instant op = (case op of Admit p a now \<Rightarrow> now | Forget p now \<Rightarrow> now)"

definition forgets :: "TransportPeerId \<Rightarrow> admission_op \<Rightarrow> bool" where
  "forgets p op = (case op of Admit _ _ _ \<Rightarrow> False | Forget q _ \<Rightarrow> q = p)"

definition global_counter :: "bool \<Rightarrow> AdmissionController \<Rightarrow> WindowCounter" where
  "global_counter authenticated s = (if authenticated then ad_global_authenticated s else ad_global_unauthenticated s)"

definition global_limit :: "bool \<Rightarrow> u32" where
  "global_limit authenticated = (if authenticated then MAX_GLOBAL_AUTHENTICATED_REQUESTS else MAX_GLOBAL_UNAUTHENTICATED_REQUESTS)"

definition peer_counter :: "TransportPeerId \<Rightarrow> bool \<Rightarrow> AdmissionController \<Rightarrow> WindowCounter option" where
  "peer_counter peer authenticated s =
    map_option (if authenticated then bg_authenticated else bg_unauthenticated) (ad_peers s peer)"

definition peer_limit :: "bool \<Rightarrow> u32" where
  "peer_limit authenticated = (if authenticated then MAX_AUTHENTICATED_REQUESTS_PER_PEER else MAX_UNAUTHENTICATED_REQUESTS_PER_PEER)"

interpretation global_budget: request_budget admission_exec op_instant "\<lambda>_. True" "admits a" "\<lambda>s. Some (global_counter a s)" "global_limit a" for a
  by unfold_locales
    (auto simp: admission_exec_def admits_def op_instant_def global_counter_def global_limit_def admit_request_def forget_peer_def
      window_ask_def Let_def split_beta split: admission_op.splits)

interpretation peer_budget: request_budget admission_exec op_instant "\<lambda>op. \<not> forgets p op" "admits_peer p a" "peer_counter p a" "peer_limit a" for p a
  by unfold_locales
    (auto simp: forgets_def admission_exec_def admits_peer_def admits_def op_instant_def peer_counter_def peer_limit_def admit_request_def
      forget_peer_def window_ask_def Let_def split_beta PeerBudget_new_def split: admission_op.splits option.splits)

text \<open>The counters never pass their limits.\<close>

definition admission_inv :: "AdmissionController \<Rightarrow> bool" where
  "admission_inv s \<longleftrightarrow> (\<forall>a. unat (wn_count (global_counter a s)) \<le> unat (global_limit a))
    \<and> (\<forall>p a. window_used (peer_counter p a s) \<le> unat (peer_limit a))"

lemma admission_inv_step:
  assumes "admission_inv s"
  shows "admission_inv (admission_exec s op)"
proof -
  have "unat (wn_count (global_counter a (admission_exec s op))) \<le> unat (global_limit a)" for a
    using global_budget.used_step [where op = op and a = a and s = s] assms by (simp add: admission_inv_def window_used_def)
  moreover have "window_used (peer_counter p a (admission_exec s op)) \<le> unat (peer_limit a)" for p a
  proof (cases "forgets p op")
    case True
    then show ?thesis
      by (auto simp: forgets_def admission_exec_def forget_peer_def peer_counter_def window_used_def split: admission_op.splits)
  next
    case False
    then show ?thesis using peer_budget.used_step [where op = op and p = p and a = a and s = s] assms by (simp add: admission_inv_def)
  qed
  ultimately show ?thesis by (simp add: admission_inv_def)
qed

interpretation admission: invariant_machine admission_exec admission_inv
  by unfold_locales (rule admission_inv_step)

lemma admission_inv_new: "admission_inv (AdmissionController_new t)"
  by (simp add: admission_inv_def AdmissionController_new_def WindowCounter_new_def global_counter_def peer_counter_def window_used_def)



end
