(* ===== verification/DaemonRules.thy ===== *)
theory DaemonRules
  imports StoreMachine NetworkWire MembershipConsensus Identity
begin

text \<open>
  The checks of the replication daemon, \<open>swarm-cli/src/daemon.rs\<close>, and of the modules it calls:
  \<open>launch_guard.rs\<close> and the expiry rule of \<open>invite.rs\<close>.  A check reads the files of one world and
  refuses or goes on.  It is a plan, because asking for the latest snapshot may initialise the canonical head; an
  error of the storage is the plan's own error, every other error is its value.
\<close>

section \<open>Refusing and going on\<close>

datatype DaemonError =
    DeCore CoreError
  | DeProtocol ProtocolError
  | DeMembership MembershipConsensusError
  | DeRecovery RecoveryCertificateError
  | DeSolo SoloHistoryError
  | DeGeneration GenerationError
  | DeElection ElectionError
  | DeReplication ReplicationError
  | Refused string

type_synonym ('s, 'a) handled = "('s, (DaemonError, 'a) result) planned"

definition accept :: "'a \<Rightarrow> ('s, 'a) handled" where
  "accept x = reply (Inr x)"

definition bail :: "string \<Rightarrow> ('s, 'a) handled" where
  "bail message = reply (Inl (Refused message))"

definition demand :: "('e \<Rightarrow> DaemonError) \<Rightarrow> ('e, 'a) result \<Rightarrow> ('a \<Rightarrow> ('s, 'b) handled) \<Rightarrow> ('s, 'b) handled" where
  "demand f r k = (case r of Inl e \<Rightarrow> reply (Inl (f e)) | Inr x \<Rightarrow> k x)"

definition then_ok :: "('s \<Rightarrow> ('s, 'a) handled) \<Rightarrow> ('a \<Rightarrow> 's \<Rightarrow> ('s, 'b) handled) \<Rightarrow> 's \<Rightarrow> ('s, 'b) handled" where
  "then_ok op k = then_plan op (\<lambda>r s. case r of Inl e \<Rightarrow> reply (Inl e) | Inr x \<Rightarrow> k x s)"

section \<open>Members\<close>

definition authorized_descriptor_member :: "host \<Rightarrow> WorldDescriptorV1 \<Rightarrow> PeerId \<Rightarrow> (DaemonError, WorldMemberV1) result" where
  "authorized_descriptor_member H descriptor peer =
    (case WorldDescriptorV1_member descriptor peer of
       None \<Rightarrow> Err (Refused ''peer is not an authorized member of this world'')
     | Some member \<Rightarrow>
         if peer_id_from_public_key H (wm_public_key member) \<noteq> peer
         then Err (Refused ''world membership public key does not match peer identity'')
         else if wm_banned member then Err (Refused ''peer is banned from this world'')
         else Ok member)"

definition authorize_member :: "host \<Rightarrow> WorldId \<Rightarrow> PeerId \<Rightarrow> world_files \<Rightarrow> (world_files, unit) handled" where
  "authorize_member H world peer fs =
    check (load_world_descriptor world fs) (\<lambda>descriptor.
    demand (\<lambda>e. e) (authorized_descriptor_member H descriptor peer) (\<lambda>_. accept ()))"

definition solo_mode_allowed :: "host \<Rightarrow> WorldId \<Rightarrow> world_files \<Rightarrow> (DaemonError, bool) result" where
  "solo_mode_allowed H world fs =
    (case load_world_config world fs of
       Inl _ \<Rightarrow> Ok False
     | Inr config \<Rightarrow>
         and_then (map_err DeCore (verify_world_config_signature H config)) (\<lambda>_.
         Ok (ap_allow_solo_advancement (wc_authority_policy config))))"

definition epoch_record_hash :: "host \<Rightarrow> EpochRecordV1 \<Rightarrow> (ProtocolError, Hash32) result" where
  "epoch_record_hash H record = and_then (to_allocvec H (EpochRecordV1_sval record)) (\<lambda>bytes.
    Ok (from_domain_bytes H (domain ''swarmcraft/epoch-record/v1'') bytes))"

definition find_descriptor :: "SnapshotManifestV1 \<Rightarrow> Hash32 \<Rightarrow> BlobDescriptor option" where
  "find_descriptor manifest hash = find (\<lambda>d. bd_hash d = hash) (map se_blob (sm_entries manifest))"

section \<open>Membership transitions\<close>

definition sign_membership_vote :: "host \<Rightarrow> PeerIdentity \<Rightarrow> MembershipProposalV1 \<Rightarrow> (DaemonError, MembershipVoteV1) result" where
  "sign_membership_vote H i proposal =
    and_then (map_err DeProtocol (membership_vote_for H proposal (peer_id H i) (public_key H i))) (\<lambda>vote.
    and_then (map_err DeProtocol (MembershipVoteV1_signing_bytes H vote)) (\<lambda>bytes.
    Ok (vote\<lparr>mv_signature := identity_sign H i bytes\<rparr>)))"

definition verify_membership_vote_signature :: "host \<Rightarrow> MembershipVoteV1 \<Rightarrow> (DaemonError, unit) result" where
  "verify_membership_vote_signature H vote =
    and_then (map_err DeProtocol (MembershipVoteV1_signing_bytes H vote)) (\<lambda>bytes.
    map_err DeCore (verify_signature H (mv_voter_peer_id vote) (mv_voter_public_key vote) bytes (mv_signature vote)))"

definition ensure_no_membership_prepare :: "host \<Rightarrow> WorldId \<Rightarrow> world_files \<Rightarrow> (world_files, unit) handled" where
  "ensure_no_membership_prepare H world fs =
    (if is_ok (load_membership_promise H world fs)
     then bail ''authority/recovery transition is fenced by a durable membership prepare'' else accept ())"

definition proposal_member :: "MembershipProposalV1 \<Rightarrow> PeerId \<Rightarrow> WorldMemberV1 option" where
  "proposal_member proposal peer =
    find (\<lambda>m. wm_peer_id m = peer \<and> \<not> wm_banned m) (mr_members (mp_previous proposal) @ mr_members (mp_proposed proposal))"

definition validate_membership_proposal_for_local ::
    "host \<Rightarrow> PeerIdentity \<Rightarrow> u64 \<Rightarrow> MembershipProposalV1 \<Rightarrow> world_files \<Rightarrow> (world_files, unit) handled" where
  "validate_membership_proposal_for_local H i unix_millis proposal fs =
    (let world = mr_world_id (mp_proposed proposal) in
     case proposal_member proposal (peer_id H i) of
       None \<Rightarrow> bail ''local peer is not an active voter in either membership configuration''
     | Some local_member \<Rightarrow>
       if wm_public_key local_member \<noteq> public_key H i
       then bail ''local peer key does not match the membership proposal''
       else case load_membership_record world fs of
         Inr current \<Rightarrow>
           demand DeCore (verify_membership_signature H current) (\<lambda>_.
           demand DeProtocol (record_hash H current) (\<lambda>current_hash.
           demand DeProtocol (record_hash H (mp_previous proposal)) (\<lambda>previous_hash.
           if current_hash \<noteq> previous_hash
           then bail ''membership proposal does not extend the locally committed configuration''
           else accept ())))
       | Inl _ \<Rightarrow>
           check (load_pending_join H world fs) (\<lambda>join.
           demand DeCore (verify_join_request_signature H join) (\<lambda>_.
           demand DeCore (verify_invite_signature H (jr_invite join)) (\<lambda>_.
           if inv_expires_unix_ms (jr_invite join) < unix_millis
           then bail ''pending join invite expired before membership commit''
           else if wm_peer_id (jr_joining_member join) \<noteq> peer_id H i
             \<or> wm_public_key (jr_joining_member join) \<noteq> public_key H i
             \<or> find (\<lambda>m. wm_peer_id m = peer_id H i) (mr_members (mp_proposed proposal)) \<noteq> Some (jr_joining_member join)
             \<or> inv_inviter_peer_id (jr_invite join) \<noteq> mr_authority_peer_id (mp_previous proposal)
             \<or> inv_inviter_public_key (jr_invite join) \<noteq> mr_authority_public_key (mp_previous proposal)
           then bail ''membership proposal does not match the locally staged join''
           else accept ()))))"

definition validate_membership_certificate_signatures :: "host \<Rightarrow> MembershipCertificateV1 \<Rightarrow> (DaemonError, unit) result" where
  "validate_membership_certificate_signatures H certificate =
    and_then (map_err DeCore (verify_membership_signature H (mp_previous (mc_proposal certificate)))) (\<lambda>_.
    and_then (map_err DeCore (verify_membership_signature H (mp_proposed (mc_proposal certificate)))) (\<lambda>_.
    and_then (map_err DeMembership (validate_membership_certificate_shape H certificate)) (\<lambda>_.
    for_each (verify_membership_vote_signature H) (mc_votes certificate))))"

definition extends_or_repeats :: "host \<Rightarrow> MembershipRecordV1 \<Rightarrow> MembershipProposalV1 \<Rightarrow> (DaemonError, bool) result" where
  "extends_or_repeats H current proposal =
    (if current = mp_proposed proposal then Ok True
     else and_then (map_err DeProtocol (record_hash H current)) (\<lambda>current_hash.
       and_then (map_err DeProtocol (record_hash H (mp_previous proposal))) (\<lambda>previous_hash.
       Ok (current_hash = previous_hash))))"

definition no_other_promise :: "host \<Rightarrow> MembershipProposalV1 \<Rightarrow> world_files \<Rightarrow> (world_files, unit) handled" where
  "no_other_promise H proposal fs =
    (case load_membership_promise H (mr_world_id (mp_proposed proposal)) fs of
       Inl _ \<Rightarrow> accept ()
     | Inr promise \<Rightarrow>
         demand DeProtocol (proposal_hash H (dmp_proposal promise)) (\<lambda>promised.
         demand DeProtocol (proposal_hash H proposal) (\<lambda>proposed.
         if promised \<noteq> proposed then bail ''membership certificate conflicts with this peer's durable prepare''
         else accept ())))"

definition validate_membership_certificate_for_local ::
    "host \<Rightarrow> PeerIdentity \<Rightarrow> u64 \<Rightarrow> MembershipCertificateV1 \<Rightarrow> world_files \<Rightarrow> (world_files, unit) handled" where
  "validate_membership_certificate_for_local H i unix_millis certificate fs =
    demand (\<lambda>e. e) (validate_membership_certificate_signatures H certificate) (\<lambda>_.
    let proposal = mc_proposal certificate; world = mr_world_id (mp_proposed proposal) in
    then_ok (\<lambda>fs. case load_membership_record world fs of
        Inr current \<Rightarrow>
          demand DeCore (verify_membership_signature H current) (\<lambda>_.
          demand (\<lambda>e. e) (extends_or_repeats H current proposal) (\<lambda>fits.
          if \<not> fits then bail ''membership certificate does not extend the locally committed configuration''
          else accept ()))
      | Inl _ \<Rightarrow> validate_membership_proposal_for_local H i unix_millis proposal fs) (\<lambda>_.
    no_other_promise H proposal) fs)"

definition clear_satisfied_pending_membership :: "host \<Rightarrow> WorldDescriptorV1 \<Rightarrow> world_files \<Rightarrow> unit plan" where
  "clear_satisfied_pending_membership H descriptor =
    then_plan (\<lambda>fs. case load_pending_join H (wd_world_id descriptor) fs of
        Inl _ \<Rightarrow> reply ()
      | Inr join \<Rightarrow>
          (case WorldDescriptorV1_member descriptor (wm_peer_id (jr_joining_member join)) of
             None \<Rightarrow> reply ()
           | Some m \<Rightarrow> if wm_public_key m = wm_public_key (jr_joining_member join) \<and> \<not> wm_banned m
               then clear_pending_join fs else reply ())) (\<lambda>_ fs.
    case load_pending_leave H (wd_world_id descriptor) fs of
        Inl _ \<Rightarrow> reply ()
      | Inr leave \<Rightarrow> if WorldDescriptorV1_member descriptor (lv_leaving_peer_id leave) = None
          then clear_pending_leave fs else reply ())"

definition publish_members :: "host \<Rightarrow> MembershipRecordV1 \<Rightarrow> WorldDescriptorV1 \<Rightarrow> world_files \<Rightarrow> WorldDescriptorV1 plan" where
  "publish_members H record descriptor =
    (let descriptor = WorldDescriptorV1_normalize (descriptor\<lparr>wd_members := mr_members record\<rparr>) in
     then_plan (save_membership_record H record) (\<lambda>_.
     then_plan (save_world_descriptor descriptor) (\<lambda>_ _. reply descriptor)))"

definition apply_membership_certificate :: "host \<Rightarrow> MembershipCertificateV1 \<Rightarrow> world_files \<Rightarrow> (world_files, unit) handled" where
  "apply_membership_certificate H certificate fs =
    demand (\<lambda>e. e) (validate_membership_certificate_signatures H certificate) (\<lambda>_.
    let proposal = mc_proposal certificate; world = mr_world_id (mp_proposed proposal) in
    then_ok (\<lambda>fs. case load_membership_record world fs of
        Inr current \<Rightarrow>
          demand (\<lambda>e. e) (extends_or_repeats H current proposal) (\<lambda>fits.
          if \<not> fits then bail ''cannot apply membership certificate over an unrelated committed configuration''
          else accept ())
      | Inl _ \<Rightarrow>
          check (load_pending_join H world fs) (\<lambda>join.
          if find (\<lambda>m. wm_peer_id m = wm_peer_id (jr_joining_member join)) (mr_members (mp_proposed proposal))
              \<noteq> Some (jr_joining_member join)
          then bail ''membership certificate does not contain the locally pending join''
          else accept ())) (\<lambda>_ fs.
    check (load_world_descriptor world fs) (\<lambda>descriptor.
    then_plan (publish_members H (mp_proposed proposal) descriptor) (\<lambda>descriptor fs.
    demand DeProtocol (record_hash H (mp_proposed proposal)) (\<lambda>committed.
    then_plan (clear_membership_promise_after_commit H world committed) (\<lambda>_.
    then_plan (clear_satisfied_pending_membership H descriptor) (\<lambda>_ _. accept ())) fs)) fs)) fs)"

definition recover_committed_membership ::
    "host \<Rightarrow> PeerIdentity \<Rightarrow> u64 \<Rightarrow> WorldId \<Rightarrow> world_files \<Rightarrow> (world_files, unit) handled" where
  "recover_committed_membership H i unix_millis world fs =
    (case load_membership_certificate world fs of
       Inl _ \<Rightarrow> accept ()
     | Inr certificate \<Rightarrow>
         let proposed = mp_proposed (mc_proposal certificate);
             apply = then_ok (validate_membership_certificate_for_local H i unix_millis certificate)
               (\<lambda>_. apply_membership_certificate H certificate) in
         case load_membership_record world fs of
           Inl _ \<Rightarrow> apply fs
         | Inr current \<Rightarrow>
             demand DeCore (verify_membership_signature H current) (\<lambda>_.
             if current = proposed then
               demand DeProtocol (record_hash H current) (\<lambda>committed.
               then_plan (clear_membership_promise_after_commit H world committed) (\<lambda>_ _. accept ()) fs)
             else if mr_epoch proposed < mr_epoch current
               \<or> mr_epoch proposed = mr_epoch current \<and> mr_sequence proposed < mr_sequence current
             then accept ()
             else apply fs))"

section \<open>Authority\<close>

definition authorize_world_config_current_authority ::
    "host \<Rightarrow> PeerId \<Rightarrow> WorldConfigV1 \<Rightarrow> world_files \<Rightarrow> (world_files, unit) handled" where
  "authorize_world_config_current_authority H sender config fs =
    (if sender \<noteq> wc_authority_peer_id config then bail ''world config sender does not match its signed authority''
     else case load_epoch_record (wc_world_id config) fs of
       Inr epoch \<Rightarrow>
         if wc_authority_peer_id config \<noteq> er_authority_peer_id epoch
           \<or> wc_authority_public_key config \<noteq> er_authority_public_key epoch
         then bail ''world config is not signed by the current accepted authority'' else accept ()
     | Inl _ \<Rightarrow>
         check (load_membership_record (wc_world_id config) fs) (\<lambda>membership.
         demand DeCore (verify_membership_signature H membership) (\<lambda>_.
         if wc_authority_peer_id config \<noteq> mr_authority_peer_id membership
           \<or> wc_authority_public_key config \<noteq> mr_authority_public_key membership
         then bail ''world config is not signed by the bootstrap authority'' else accept ())))"

text \<open>A member that may hold authority under a key.\<close>

definition eligible_authority :: "WorldMemberV1 \<Rightarrow> bytes32 \<Rightarrow> bool" where
  "eligible_authority m key \<longleftrightarrow> \<not> wm_banned m \<and> wm_authority_eligible m \<and> wm_public_key m = key"

definition authorize_manifest :: "host \<Rightarrow> PeerId \<Rightarrow> SnapshotManifestV1 \<Rightarrow> world_files \<Rightarrow> (world_files, unit) handled" where
  "authorize_manifest H sender manifest fs =
    (let world = sm_world_id manifest in
     check (load_world H world fs) (\<lambda>_.
     then_ok (authorize_member H world sender) (\<lambda>_ fs.
     check (load_world_descriptor world fs) (\<lambda>descriptor.
     case WorldDescriptorV1_member descriptor (sm_authority_peer_id manifest) of
       None \<Rightarrow> bail ''snapshot authority is not an authorized world member''
     | Some authority \<Rightarrow>
       if \<not> eligible_authority authority (sm_authority_public_key manifest)
       then bail ''snapshot authority is not eligible or public key does not match membership''
       else demand DeCore (verify_snapshot_signature H manifest) (\<lambda>_.
         then_plan (validate_replica_history H manifest) (\<lambda>history fs.
         demand DeReplication history (\<lambda>_.
         case load_epoch_record world fs of
           Inl _ \<Rightarrow> accept ()
         | Inr epoch \<Rightarrow>
             if sm_epoch manifest \<noteq> er_epoch_number epoch
               \<or> sm_authority_peer_id manifest \<noteq> er_authority_peer_id epoch
               \<or> sm_authority_public_key manifest \<noteq> er_authority_public_key epoch
             then bail ''snapshot does not belong to the accepted authority epoch'' else accept ())) fs))) fs))"

definition authorize_epoch :: "host \<Rightarrow> PeerId \<Rightarrow> EpochRecordV1 \<Rightarrow> world_files \<Rightarrow> (world_files, unit) handled" where
  "authorize_epoch H sender record fs =
    (let world = er_world_id record in
     demand DeProtocol (EpochRecordV1_validate_semantics record) (\<lambda>_.
     then_ok (authorize_member H world sender) (\<lambda>_.
     then_ok (authorize_member H world (er_authority_peer_id record)) (\<lambda>_ fs.
     check (load_world_descriptor world fs) (\<lambda>descriptor.
     case WorldDescriptorV1_member descriptor (er_authority_peer_id record) of
       None \<Rightarrow> bail ''epoch authority is not a member''
     | Some authority \<Rightarrow>
       if \<not> eligible_authority authority (er_authority_public_key record)
       then bail ''epoch authority is not eligible or key does not match membership''
       else demand DeProtocol (EpochRecordV1_signing_bytes H record) (\<lambda>bytes.
         demand DeCore (verify_signature H (er_authority_peer_id record) (er_authority_public_key record) bytes (er_signature record)) (\<lambda>_.
         then_plan (latest_snapshot H world) (\<lambda>latest _.
         case latest of
           None \<Rightarrow> bail ''cannot accept an authority epoch without a base snapshot''
         | Some manifest \<Rightarrow>
             if sm_state_root manifest \<noteq> er_base_state_hash record
             then bail ''epoch base state hash does not match the latest verified snapshot'' else accept ()) fs))))) fs))"

text \<open>The voters of a recovery: the members of the record that are not banned.\<close>

definition canonical_members :: "MembershipRecordV1 \<Rightarrow> PeerId list" where
  "canonical_members membership = map wm_peer_id (filter (\<lambda>m. \<not> wm_banned m) (mr_members membership))"

definition validate_recovery_epoch ::
    "host \<Rightarrow> PeerId \<Rightarrow> EpochRecordV1 \<Rightarrow> RecoveryCertificateV1 \<Rightarrow> world_files \<Rightarrow> (world_files, unit) handled" where
  "validate_recovery_epoch H sender record certificate fs =
    (let ballot = rcert_ballot certificate; world = er_world_id record in
     if er_mode record \<noteq> Recovery then bail ''recovery certificate attached to a non-recovery epoch''
     else then_ok (authorize_epoch H sender record) (\<lambda>_ fs.
       demand DeCore (verify_recovery_ballot_signature H ballot) (\<lambda>_.
       if sender \<noteq> rb_candidate_peer_id ballot
         \<or> er_authority_peer_id record \<noteq> rb_candidate_peer_id ballot
         \<or> er_authority_public_key record \<noteq> rb_candidate_public_key ballot
         \<or> er_epoch_number record \<noteq> rb_target_epoch ballot
         \<or> er_fencing_token record \<noteq> rb_target_fencing_token ballot
         \<or> er_base_state_hash record \<noteq> rb_base_state_hash ballot
       then bail ''recovery epoch does not match its signed ballot''
       else then_plan (latest_snapshot H world) (\<lambda>latest fs.
         case latest of
           None \<Rightarrow> bail ''recovery epoch has no canonical base snapshot''
         | Some manifest \<Rightarrow>
             demand DeProtocol (manifest_hash H manifest) (\<lambda>hash.
             if hash \<noteq> rb_base_snapshot_hash ballot \<or> sm_state_root manifest \<noteq> rb_base_state_hash ballot
             then bail ''recovery certificate canonical base does not match local verified history''
             else check (load_membership_record world fs) (\<lambda>membership.
               demand DeCore (verify_membership_signature H membership) (\<lambda>_.
               demand DeProtocol (record_hash H membership) (\<lambda>membership_hash.
               if membership_hash \<noteq> rb_membership_hash ballot
               then bail ''recovery certificate membership hash is stale''
               else demand DeRecovery (validate_recovery_certificate_shape H certificate (canonical_members membership)) (\<lambda>_.
                 demand DeCore (for_each (verify_recovery_vote_signature H) (rcert_votes certificate)) (\<lambda>_.
                 accept ()))))))) fs)) fs)"

definition validate_non_recovery_epoch_transition ::
    "host \<Rightarrow> EpochRecordV1 \<Rightarrow> EpochRecordV1 \<Rightarrow> world_files \<Rightarrow> (world_files, unit) handled" where
  "validate_non_recovery_epoch_transition H current record fs =
    (let world = er_world_id record in
     if er_mode record = Recovery then bail ''recovery transition requires a quorum certificate''
     else if er_authority_peer_id record = er_authority_peer_id current then
       (if er_authority_public_key record \<noteq> er_authority_public_key current
        then bail ''same authority peer cannot change its canonical public key''
        else if er_mode record = Solo then
          demand (\<lambda>e. e) (solo_mode_allowed H world fs) (\<lambda>allowed.
          if \<not> allowed then bail ''solo advancement is disabled by the signed world configuration''
          else check (load_world_descriptor world fs) (\<lambda>descriptor.
            if 1 < length (filter (\<lambda>m. \<not> wm_banned m) (wd_members descriptor))
            then bail ''multi-member worlds cannot enter writable solo mode without a committed clean relinquishment''
            else accept ()))
        else accept ())
     else check (load_transfer_record world fs) (\<lambda>transfer.
       if at_phase transfer \<noteq> Committed
         \<or> at_from_peer_id transfer \<noteq> er_authority_peer_id current
         \<or> at_to_peer_id transfer \<noteq> er_authority_peer_id record
         \<or> at_next_epoch transfer \<noteq> er_epoch_number record
         \<or> at_next_fencing_token transfer \<noteq> er_fencing_token record
       then bail ''epoch authority change does not match the committed transfer''
       else accept ()))"

definition same_transfer :: "AuthorityTransferV1 \<Rightarrow> AuthorityTransferV1 \<Rightarrow> bool" where
  "same_transfer a b \<longleftrightarrow> at_from_peer_id a = at_from_peer_id b \<and> at_to_peer_id a = at_to_peer_id b
    \<and> at_base_snapshot_hash a = at_base_snapshot_hash b \<and> at_next_epoch a = at_next_epoch b
    \<and> at_next_fencing_token a = at_next_fencing_token b"

definition valid_progression :: "TransferPhase \<Rightarrow> TransferPhase \<Rightarrow> bool" where
  "valid_progression previous phase \<longleftrightarrow> previous = Prepared \<and> phase = Accepted \<or> previous = Accepted \<and> phase = Committed"

definition transfer_continues :: "AuthorityTransferV1 \<Rightarrow> world_files \<Rightarrow> (world_files, unit) handled" where
  "transfer_continues transfer fs =
    (case load_transfer_record (at_world_id transfer) fs of
       Inr previous \<Rightarrow>
         if \<not> valid_progression (at_phase previous) (at_phase transfer) \<or> \<not> same_transfer previous transfer
         then bail ''authority transfer does not continue the persisted transfer state'' else accept ()
     | Inl _ \<Rightarrow>
         if at_phase transfer \<noteq> Prepared then bail ''authority transfer must begin in the prepared phase'' else accept ())"

definition transfer_generation_ok :: "AuthorityTransferV1 \<Rightarrow> world_files \<Rightarrow> (world_files, unit) handled" where
  "transfer_generation_ok transfer fs =
    (case load_epoch_record (at_world_id transfer) fs of
       Inl _ \<Rightarrow> accept ()
     | Inr epoch \<Rightarrow>
         demand DeGeneration (checked_next (epoch_generation epoch)) (\<lambda>expected.
         if at_next_epoch transfer \<noteq> ag_epoch expected \<or> at_next_fencing_token transfer \<noteq> ag_fencing_token expected
         then bail ''transfer generation does not advance the accepted epoch exactly once'' else accept ()))"

definition validate_transfer :: "host \<Rightarrow> AuthorityTransferV1 \<Rightarrow> world_files \<Rightarrow> (world_files, unit) handled" where
  "validate_transfer H transfer fs =
    (let world = at_world_id transfer in
     check (load_world_descriptor world fs) (\<lambda>descriptor.
     case WorldDescriptorV1_member descriptor (at_from_peer_id transfer) of
       None \<Rightarrow> bail ''transfer source is not a world member''
     | Some source \<Rightarrow> (case WorldDescriptorV1_member descriptor (at_to_peer_id transfer) of
       None \<Rightarrow> bail ''transfer target is not a world member''
     | Some target \<Rightarrow>
       if wm_banned source \<or> wm_banned target \<or> \<not> wm_authority_eligible target
       then bail ''transfer participants are banned or target is not authority eligible''
       else if at_signer_peer_id transfer
         \<noteq> (case at_phase transfer of Accepted \<Rightarrow> at_to_peer_id transfer | _ \<Rightarrow> at_from_peer_id transfer)
       then bail ''transfer phase was signed by the wrong participant''
       else (case WorldDescriptorV1_member descriptor (at_signer_peer_id transfer) of
         None \<Rightarrow> bail ''transfer signer is not a member''
       | Some signer \<Rightarrow>
         if wm_public_key signer \<noteq> at_signer_public_key transfer
         then bail ''transfer signer key does not match membership''
         else then_plan (latest_snapshot H world) (\<lambda>latest fs.
           case latest of
             None \<Rightarrow> bail ''cannot transfer authority without a snapshot''
           | Some manifest \<Rightarrow>
               demand DeProtocol (manifest_hash H manifest) (\<lambda>hash.
               if hash \<noteq> at_base_snapshot_hash transfer
               then bail ''transfer does not reference the exact latest snapshot''
               else then_ok (transfer_generation_ok transfer) (\<lambda>_. transfer_continues transfer) fs)) fs))))"

section \<open>Sleep and recovery windows\<close>

definition load_sleep_record_fail_closed :: "host \<Rightarrow> WorldId \<Rightarrow> world_files \<Rightarrow> (world_files, SleepRecordV1 option) handled" where
  "load_sleep_record_fail_closed H world fs =
    (case load_sleep_record world fs of
       Inl e \<Rightarrow> if e = StIo NotFound then accept None else refuse e
     | Inr record \<Rightarrow> demand DeCore (verify_sleep_record_signature H record) (\<lambda>_. accept (Some record)))"

definition ensure_direct_launch_safe :: "host \<Rightarrow> WorldId \<Rightarrow> world_files \<Rightarrow> (world_files, unit) handled" where
  "ensure_direct_launch_safe H world =
    then_ok (load_sleep_record_fail_closed H world) (\<lambda>sleeping fs.
    if sleeping = None then accept ()
    else check (load_world_descriptor world fs) (\<lambda>descriptor.
      if 1 < length (filter (\<lambda>m. \<not> wm_banned m) (wd_members descriptor))
      then bail ''multi-member wake requires a quorum-backed authority transition; direct solo authority launch is fail-closed''
      else accept ()))"

definition validate_sleep_recovery_base ::
    "host \<Rightarrow> SleepRecordV1 \<Rightarrow> EpochRecordV1 \<Rightarrow> SnapshotManifestV1 \<Rightarrow> (DaemonError, unit) result" where
  "validate_sleep_recovery_base H record epoch latest =
    (let mismatch = Err (Refused ''sleep boundary does not match the accepted generation and exact canonical snapshot'') in
     and_then (map_err DeCore (verify_sleep_record_signature H record)) (\<lambda>_.
     if sl_world_id record \<noteq> er_world_id epoch \<or> sl_epoch record \<noteq> er_epoch_number epoch
       \<or> sl_fencing_token record \<noteq> er_fencing_token epoch \<or> sl_authority_peer_id record \<noteq> er_authority_peer_id epoch
       \<or> sl_authority_public_key record \<noteq> er_authority_public_key epoch
     then mismatch
     else and_then (map_err DeProtocol (manifest_hash H latest)) (\<lambda>hash.
       if sl_latest_snapshot_hash record \<noteq> hash then mismatch else Ok ())))"

definition MAX_INVITE_LIFETIME_MS :: u64 where
  "MAX_INVITE_LIFETIME_MS = 24 * 60 * 60000"

definition validate_invite_expiry :: "u64 \<Rightarrow> u64 \<Rightarrow> (DaemonError, unit) result" where
  "validate_invite_expiry expires_unix_ms now_unix_ms =
    (if expires_unix_ms \<le> now_unix_ms then Err (Refused ''invite expired'')
     else and_then (ok_or (checked_add now_unix_ms MAX_INVITE_LIFETIME_MS)
         (Refused ''invite lifetime overflows the timestamp range'')) (\<lambda>latest_allowed.
       if latest_allowed < expires_unix_ms then Err (Refused ''invite expiry exceeds the maximum bearer lifetime'') else Ok ()))"

section \<open>Passing a check\<close>

named_theorems passes

lemma passes_basic [passes]:
  "fst (accept y) = Ok (Ok x) \<longleftrightarrow> y = x" "fst (bail m) \<noteq> Ok (Ok x)" "fst (reply (Err e)) \<noteq> Ok (Ok x)"
  "fst (refuse f) \<noteq> Ok (Ok x)"
  by (simp_all add: accept_def bail_def reply_def refuse_def)

lemma passes_check [passes]: "fst (check r k) = Ok z \<longleftrightarrow> (\<exists>y. r = Ok y \<and> fst (k y) = Ok z)"
  by (cases r) (simp_all add: refuse_def)

lemma passes_demand [passes]: "fst (demand f r k) = Ok (Ok x) \<longleftrightarrow> (\<exists>y. r = Ok y \<and> fst (k y) = Ok (Ok x))"
  by (cases r) (simp_all add: demand_def reply_def)

lemma passes_then [passes]: "fst (then_plan op k s) = Ok z \<longleftrightarrow> (\<exists>y. fst (op s) = Ok y \<and> fst (k y (after op s)) = Ok z)"
  by (simp add: fst_then)

lemma passes_then_ok [passes]:
  "fst (then_ok op k s) = Ok (Ok x) \<longleftrightarrow> (\<exists>y. fst (op s) = Ok (Ok y) \<and> fst (k y (after op s)) = Ok (Ok x))"
  by (cases "fst (op s)"; cases "projr (fst (op s))") (auto simp: then_ok_def passes split: sum.splits)

lemma passes_if [passes]:
  "fst (if b then bail m else p) = Ok (Ok x) \<longleftrightarrow> \<not> b \<and> fst p = Ok (Ok x)"
  by (simp add: passes)

lemma passes_option [passes]:
  "fst (case v of None \<Rightarrow> bail m | Some y \<Rightarrow> k y) = Ok (Ok x) \<longleftrightarrow> (\<exists>y. v = Some y \<and> fst (k y) = Ok (Ok x))"
  by (cases v) (simp_all add: passes)

section \<open>What the checks leave alone\<close>

named_theorems silence

text \<open>A check that only reads.\<close>

definition silent :: "('s, 'a) planned \<Rightarrow> bool" where
  "silent p \<longleftrightarrow> snd p = []"

lemma silent_basic [silence]: "silent (reply x)" "silent (refuse e)" "silent (accept y)" "silent (bail m)"
  by (simp_all add: silent_def reply_def refuse_def accept_def bail_def)

lemma silent_check [silence]: "(\<And>x. r = Ok x \<Longrightarrow> silent (k x)) \<Longrightarrow> silent (check r k)"
  by (cases r) (simp_all add: silence)

lemma silent_demand [silence]: "(\<And>x. r = Ok x \<Longrightarrow> silent (k x)) \<Longrightarrow> silent (demand f r k)"
  by (cases r) (simp_all add: demand_def silence)

lemma silent_after: "silent (op s) \<Longrightarrow> after op s = s"
  by (simp add: silent_def after_def)

lemma silent_then [silence]: "silent (op s) \<Longrightarrow> (\<And>x. fst (op s) = Ok x \<Longrightarrow> silent (k x s)) \<Longrightarrow> silent (then_plan op k s)"
  by (cases "op s"; cases "fst (op s)") (auto simp: silent_def then_plan_def split: prod.splits)

lemma silent_then_ok [silence]: "silent (op s) \<Longrightarrow> (\<And>x. fst (op s) = Ok (Inr x) \<Longrightarrow> silent (k x s)) \<Longrightarrow> silent (then_ok op k s)"
  unfolding then_ok_def by (rule silent_then) (auto intro: silence split: sum.splits)

lemma silent_keeps: "silent p \<Longrightarrow> plan_keeps f p"
  by (simp add: silent_def plan_keeps_def)

lemma plan_keeps_handled [footprint]:
  "plan_keeps f (accept x)" "plan_keeps f (bail m)"
  by (simp_all add: silent_keeps silence)

lemma plan_keeps_demand [footprint]: "(\<And>x. r = Ok x \<Longrightarrow> plan_keeps f (k x)) \<Longrightarrow> plan_keeps f (demand g r k)"
  by (cases r) (simp_all add: demand_def plan_keeps_reply)

lemma plan_keeps_then_ok [footprint]:
  assumes "plan_keeps f (op s)" "\<And>x. fst (op s) = Ok (Inr x) \<Longrightarrow> plan_keeps f (k x (after op s))"
  shows "plan_keeps f (then_ok op k s)"
  unfolding then_ok_def
  by (rule plan_keeps_then [where op = op, OF assms(1)]) (auto simp: plan_keeps_reply assms(2) split: sum.splits)

lemma authorize_member_silent [silence]: "silent (authorize_member H w p fs)"
  unfolding authorize_member_def by (auto intro!: silence)

lemma ensure_no_membership_prepare_silent [silence]: "silent (ensure_no_membership_prepare H w fs)"
  unfolding ensure_no_membership_prepare_def by (auto intro!: silence)

lemma validate_membership_proposal_for_local_silent [silence]: "silent (validate_membership_proposal_for_local H i t p fs)"
  unfolding validate_membership_proposal_for_local_def Let_def by (auto intro!: silence split: option.splits sum.splits)

lemma no_other_promise_silent [silence]: "silent (no_other_promise H p fs)"
  unfolding no_other_promise_def by (auto intro!: silence split: sum.splits)

lemma validate_membership_certificate_for_local_silent [silence]: "silent (validate_membership_certificate_for_local H i t c fs)"
  unfolding validate_membership_certificate_for_local_def Let_def by (auto intro!: silence split: sum.splits)

lemma authorize_world_config_current_authority_silent [silence]: "silent (authorize_world_config_current_authority H p c fs)"
  unfolding authorize_world_config_current_authority_def by (auto intro!: silence split: sum.splits)

lemma validate_non_recovery_epoch_transition_silent [silence]: "silent (validate_non_recovery_epoch_transition H c r fs)"
  unfolding validate_non_recovery_epoch_transition_def Let_def by (auto intro!: silence)

lemma transfer_checks_silent [silence]: "silent (transfer_continues t fs)" "silent (transfer_generation_ok t fs)"
  unfolding transfer_continues_def transfer_generation_ok_def by (auto intro!: silence split: sum.splits)

lemma load_sleep_record_fail_closed_silent [silence]: "silent (load_sleep_record_fail_closed H w fs)"
  unfolding load_sleep_record_fail_closed_def by (auto intro!: silence split: sum.splits)

text \<open>The others may initialise the canonical head, and nothing else.\<close>

definition head_only :: "(world_files \<Rightarrow> 'b) \<Rightarrow> bool" where
  "head_only f \<longleftrightarrow> (\<forall>fs v. f (fs\<lparr>wf_head := v\<rparr>) = f fs) \<and> (\<forall>fs v. f (fs\<lparr>wf_head_required := v\<rparr>) = f fs)
    \<and> (\<forall>fs v. f (fs\<lparr>wf_intent := v\<rparr>) = f fs)"

lemma authorize_manifest_keeps [footprint]: "head_only f \<Longrightarrow> plan_keeps f (authorize_manifest H p m fs)"
  unfolding authorize_manifest_def Let_def head_only_def
  by (auto intro!: footprint silent_keeps [OF authorize_member_silent] split: option.splits sum.splits)

lemma authorize_epoch_keeps [footprint]: "head_only f \<Longrightarrow> plan_keeps f (authorize_epoch H p r fs)"
  unfolding authorize_epoch_def Let_def head_only_def
  by (auto intro!: footprint silent_keeps [OF authorize_member_silent] split: option.splits)

lemma validate_recovery_epoch_keeps [footprint]: "head_only f \<Longrightarrow> plan_keeps f (validate_recovery_epoch H p r c fs)"
  unfolding validate_recovery_epoch_def Let_def
  by (auto simp: head_only_def intro!: footprint split: option.splits)

lemma validate_transfer_keeps [footprint]: "head_only f \<Longrightarrow> plan_keeps f (validate_transfer H t fs)"
  unfolding validate_transfer_def Let_def head_only_def
  by (auto intro!: footprint silent_keeps [OF transfer_checks_silent(1)] silent_keeps [OF transfer_checks_silent(2)] split: option.splits)

end
