(* ===== verification/HostReadiness.thy ===== *)
theory HostReadiness
  imports DaemonRules
begin

text \<open>
  Whether a machine can host a world, and whether its host may be switched off:
  \<open>swarm-cli/src/host_readiness.rs\<close>.  What the machine itself shows (its launch configuration, the files it
  names, the two verification records, the inventory of server mods) is a record of answers.  The explanatory text of
  a report is left out.
\<close>

section \<open>The machine\<close>

definition RUNTIME_VERIFICATION_SCHEMA :: u16 where "RUNTIME_VERIFICATION_SCHEMA = 1"
definition MOD_VERIFICATION_SCHEMA :: u16 where "MOD_VERIFICATION_SCHEMA = 1"
definition HOST_READINESS_MAX_AGE_MS :: u64 where "HOST_READINESS_MAX_AGE_MS = 6000"
definition LEGACY_COMPAT_ARTIFACT :: string where "LEGACY_COMPAT_ARTIFACT = ''swarmcraft.legacy-compatibility''"

record RuntimeLaunchConfig =
  lc_java :: string
  lc_server_jar :: string
  lc_mod_jar :: string
  lc_accept_eula :: bool
  lc_game_endpoint :: "string option"

record RuntimeVerificationRecord =
  vr_schema_version :: u16
  vr_world_id :: WorldId
  vr_compatibility_fingerprint :: Hash32
  vr_java :: string
  vr_server_jar :: string
  vr_mod_jar :: string
  vr_server_jar_hash :: string
  vr_mod_jar_hash :: string

record ServerModsVerificationRecord =
  vm_schema_version :: u16
  vm_world_id :: WorldId
  vm_compatibility_fingerprint :: Hash32
  vm_state :: ServerModsReadinessV1

datatype ModIssueKind =
    InvalidJar | DuplicateModId | ConflictingVersion | MissingRequired | HashMismatch | VersionMismatch
  | UnexpectedMod | ClientOnly

record machine_view =
  mw_config :: "RuntimeLaunchConfig option"
  mw_java_available :: "string \<Rightarrow> bool"
  mw_is_file :: "string \<Rightarrow> bool"
  mw_file_hash :: "string \<Rightarrow> (DaemonError, string) result"
  mw_runtime_record :: "RuntimeVerificationRecord slot"
  mw_mods_record :: "ServerModsVerificationRecord slot"
  mw_evaluate_mods :: "RuntimeCompatibilityManifestV1 \<Rightarrow> (DaemonError, bool \<times> ModIssueKind list) result"

definition record_runtime_verified ::
    "machine_view \<Rightarrow> WorldId \<Rightarrow> RuntimeLaunchConfig \<Rightarrow> Hash32 \<Rightarrow> (DaemonError, machine_view) result" where
  "record_runtime_verified M world config compatibility =
    (if \<not> mw_java_available M (lc_java config) then Err (Refused ''verified runtime Java executable is no longer available'')
     else if \<not> mw_is_file M (lc_server_jar config) then Err (Refused ''verified runtime server jar is missing'')
     else if \<not> mw_is_file M (lc_mod_jar config) then Err (Refused ''verified SwarmCraft Fabric mod is missing'')
     else and_then (mw_file_hash M (lc_server_jar config)) (\<lambda>server.
       and_then (mw_file_hash M (lc_mod_jar config)) (\<lambda>mod_hash.
       Ok (M\<lparr>mw_runtime_record := Content \<lparr>vr_schema_version = RUNTIME_VERIFICATION_SCHEMA, vr_world_id = world,
         vr_compatibility_fingerprint = compatibility, vr_java = lc_java config, vr_server_jar = lc_server_jar config,
         vr_mod_jar = lc_mod_jar config, vr_server_jar_hash = server, vr_mod_jar_hash = mod_hash\<rparr>\<rparr>))))"

definition local_runtime_readiness :: "machine_view \<Rightarrow> WorldId \<Rightarrow> Hash32 \<Rightarrow> (DaemonError, HostRuntimeReadinessV1) result" where
  "local_runtime_readiness M world compatibility =
    (case mw_config M of
       None \<Rightarrow> Ok MissingConfiguration
     | Some config \<Rightarrow>
       if \<not> lc_accept_eula config then Ok EulaRequired
       else if \<not> mw_java_available M (lc_java config) then Ok MissingJava
       else if \<not> mw_is_file M (lc_server_jar config) then Ok MissingServerJar
       else if \<not> mw_is_file M (lc_mod_jar config) then Ok MissingSwarmCraftMod
       else case read_json_slot (mw_runtime_record M) of
         Inl _ \<Rightarrow> Ok RuntimeUnverified
       | Inr record \<Rightarrow>
         if vr_schema_version record \<noteq> RUNTIME_VERIFICATION_SCHEMA \<or> vr_world_id record \<noteq> world
           \<or> vr_compatibility_fingerprint record \<noteq> compatibility
         then Ok RuntimeIncompatible
         else if vr_java record \<noteq> lc_java config \<or> vr_server_jar record \<noteq> lc_server_jar config \<or> vr_mod_jar record \<noteq> lc_mod_jar config
         then Ok RuntimeUnverified
         else and_then (mw_file_hash M (lc_server_jar config)) (\<lambda>server.
           if vr_server_jar_hash record \<noteq> server then Ok RuntimeIncompatible
           else and_then (mw_file_hash M (lc_mod_jar config)) (\<lambda>mod_hash.
             if vr_mod_jar_hash record \<noteq> mod_hash then Ok RuntimeIncompatible else Ok RuntimeReady)))"

definition local_server_mod_readiness ::
    "host \<Rightarrow> machine_view \<Rightarrow> WorldId \<Rightarrow> Hash32 \<Rightarrow> world_files \<Rightarrow> (DaemonError, ServerModsReadinessV1) result" where
  "local_server_mod_readiness H M world compatibility fs =
    (case load_world_config world fs of
       Inl _ \<Rightarrow> Ok ModsUnverified
     | Inr config \<Rightarrow>
       if \<not> is_ok (verify_world_config_signature H config) then Ok ModsIncompatible
       else and_then (map_err DeProtocol (compatibility_fingerprint H config)) (\<lambda>declared.
         if declared \<noteq> compatibility then Ok ModsIncompatible
         else if list_all (\<lambda>a. ar_artifact_id a = LEGACY_COMPAT_ARTIFACT) (rc_required_server_mods (wc_compatibility config))
         then Ok ModsReady
         else and_then (mw_evaluate_mods M (wc_compatibility config)) (\<lambda>(ready, issues).
           if \<not> ready then Ok (if MissingRequired \<in> set issues then ModsMissing else ModsIncompatible)
           else case read_json_slot (mw_mods_record M) of
             Inl _ \<Rightarrow> Ok ModsUnverified
           | Inr record \<Rightarrow>
             if vm_schema_version record \<noteq> MOD_VERIFICATION_SCHEMA \<or> vm_world_id record \<noteq> world
               \<or> vm_compatibility_fingerprint record \<noteq> compatibility
             then Ok ModsIncompatible
             else Ok (if vm_state record = ModsReady then ModsReady else ModsUnverified))))"

definition local_host_capability ::
    "host \<Rightarrow> machine_view \<Rightarrow> WorldId \<Rightarrow> bool \<Rightarrow> world_files \<Rightarrow> (world_files, HostCapabilityV1 option) handled" where
  "local_host_capability H M world recovery_quorum fs =
    (case load_world H world fs of
       Inl _ \<Rightarrow> accept None
     | Inr metadata \<Rightarrow> (case load_world_descriptor world fs of
         Inl _ \<Rightarrow> accept None
       | Inr descriptor \<Rightarrow>
         let compatibility = wd_compatibility_fingerprint descriptor;
             foreign = gen_compatibility_fingerprint (md_genesis metadata) \<noteq> compatibility in
         demand (\<lambda>e. e) (local_runtime_readiness M world compatibility) (\<lambda>runtime.
         demand (\<lambda>e. e) (local_server_mod_readiness H M world compatibility fs) (\<lambda>server_mods.
         check (list_solo_conflicts world fs) (\<lambda>conflicts.
         accept (Some \<lparr>hc_world_id = world, hc_compatibility_fingerprint = compatibility,
           hc_runtime = (if foreign then RuntimeIncompatible else runtime),
           hc_server_mods = (if foreign then ModsIncompatible else server_mods),
           hc_conflict_free = (conflicts = []), hc_recovery_quorum_without_authority = recovery_quorum\<rparr>))))))"

section \<open>The other members\<close>

record PeerReadinessObservation =
  po_peer_id :: PeerId
  po_reachable :: bool
  po_status :: "WorldStatusV1 option"
  po_capability :: "HostCapabilityV1 option"

definition status_matches_canonical ::
    "WorldStatusV1 \<Rightarrow> WorldDescriptorV1 \<Rightarrow> EpochRecordV1 \<Rightarrow> SnapshotManifestV1 \<Rightarrow> Hash32 \<Rightarrow> bool" where
  "status_matches_canonical status descriptor epoch latest latest_hash \<longleftrightarrow>
    ws_world_id status = wd_world_id descriptor \<and> ws_epoch status = er_epoch_number epoch
    \<and> ws_sequence status = sm_sequence latest \<and> ws_latest_snapshot status = Some latest_hash
    \<and> ws_state_hash status = Some (sm_state_root latest)
    \<and> ws_compatibility_fingerprint status = wd_compatibility_fingerprint descriptor"

definition observation_current ::
    "WorldDescriptorV1 \<Rightarrow> EpochRecordV1 \<Rightarrow> SnapshotManifestV1 \<Rightarrow> Hash32 \<Rightarrow> PeerReadinessObservation \<Rightarrow> bool" where
  "observation_current descriptor epoch latest latest_hash ob \<longleftrightarrow>
    (case po_status ob of None \<Rightarrow> False | Some status \<Rightarrow> status_matches_canonical status descriptor epoch latest latest_hash)"

definition surviving_recovery_quorum ::
    "host \<Rightarrow> WorldDescriptorV1 \<Rightarrow> EpochRecordV1 \<Rightarrow> SnapshotManifestV1 \<Rightarrow> PeerId \<Rightarrow> PeerReadinessObservation list
      \<Rightarrow> (DaemonError, bool) result" where
  "surviving_recovery_quorum H descriptor epoch latest local_peer observations =
    (if local_peer = er_authority_peer_id epoch then Ok False
     else case WorldDescriptorV1_member descriptor local_peer of
       None \<Rightarrow> Ok False
     | Some self \<Rightarrow>
       if wm_banned self \<or> \<not> wm_authority_eligible self then Ok False
       else and_then (map_err DeProtocol (manifest_hash H latest)) (\<lambda>latest_hash.
         let survives = (\<lambda>ob. po_reachable ob \<and> po_peer_id ob \<noteq> er_authority_peer_id epoch \<and> po_peer_id ob \<noteq> local_peer
               \<and> (case WorldDescriptorV1_member descriptor (po_peer_id ob) of None \<Rightarrow> False | Some m \<Rightarrow> \<not> wm_banned m)
               \<and> observation_current descriptor epoch latest latest_hash ob);
             survivors = insert local_peer (set (map po_peer_id (filter survives observations))) in
         Ok (has_quorum (length (filter (\<lambda>m. \<not> wm_banned m) (wd_members descriptor))) (card survivors))))"

datatype HostReadinessState =
    HostSafe | HostSleeping | WorldWillStop | HostSyncing | BlockedByRuntime | BlockedByMods | BlockedByQuorum
  | DegradedSafety | HostConflict | NotCurrentHost | HostUnknown

record HostPeerReadiness =
  pr_peer_id :: string
  pr_reachable :: bool
  pr_current_state :: bool
  pr_authority_eligible :: bool
  pr_capability_fresh :: bool
  pr_runtime :: HostRuntimeReadinessV1
  pr_server_mods :: ServerModsReadinessV1
  pr_conflict_free :: bool
  pr_recovery_quorum_without_authority :: bool

record HostReadinessReport =
  hr_world_id :: string
  hr_generated_unix_ms :: u64
  hr_local_peer_id :: string
  hr_current_host_peer_id :: "string option"
  hr_state :: HostReadinessState
  hr_safe_to_shutdown :: bool
  hr_successor_peer_id :: "string option"
  hr_handoff_candidate_peer_id :: "string option"
  hr_world_data_replicated :: bool
  hr_peers :: "HostPeerReadiness list"

definition peer_readiness ::
    "host \<Rightarrow> WorldDescriptorV1 \<Rightarrow> EpochRecordV1 \<Rightarrow> SnapshotManifestV1 \<Rightarrow> Hash32 \<Rightarrow> PeerReadinessObservation list
      \<Rightarrow> WorldMemberV1 \<Rightarrow> HostPeerReadiness" where
  "peer_readiness H descriptor epoch latest latest_hash observations m =
    (let observation = find (\<lambda>ob. po_peer_id ob = wm_peer_id m) observations;
         capability = Option.bind observation po_capability;
         matching = (case capability of None \<Rightarrow> False | Some c \<Rightarrow> hc_world_id c = wd_world_id descriptor
           \<and> hc_compatibility_fingerprint c = wd_compatibility_fingerprint descriptor);
         claims = (\<lambda>f. case capability of None \<Rightarrow> False | Some c \<Rightarrow> matching \<and> f c) in
     \<lparr>pr_peer_id = PeerId_display H (wm_peer_id m),
      pr_reachable = (case observation of None \<Rightarrow> False | Some ob \<Rightarrow> po_reachable ob),
      pr_current_state = (case observation of None \<Rightarrow> False | Some ob \<Rightarrow> observation_current descriptor epoch latest latest_hash ob),
      pr_authority_eligible = (wm_authority_eligible m
        \<and> (case Option.bind observation po_status of None \<Rightarrow> False | Some status \<Rightarrow> ws_authority_eligible status)),
      pr_capability_fresh = (capability \<noteq> None),
      pr_runtime = (case capability of None \<Rightarrow> RuntimeUnverified | Some c \<Rightarrow> if matching then hc_runtime c else RuntimeIncompatible),
      pr_server_mods = (case capability of None \<Rightarrow> ModsUnverified | Some c \<Rightarrow> if matching then hc_server_mods c else ModsIncompatible),
      pr_conflict_free = claims hc_conflict_free,
      pr_recovery_quorum_without_authority = claims hc_recovery_quorum_without_authority\<rparr>)"

definition eligible_current :: "HostPeerReadiness \<Rightarrow> bool" where
  "eligible_current p \<longleftrightarrow> pr_reachable p \<and> pr_current_state p \<and> pr_authority_eligible p"

definition ready_host :: "HostPeerReadiness \<Rightarrow> bool" where
  "ready_host p \<longleftrightarrow> pr_runtime p = RuntimeReady \<and> pr_server_mods p = ModsReady \<and> pr_conflict_free p"

definition evaluate_host_readiness ::
    "host \<Rightarrow> u64 \<Rightarrow> PeerId \<Rightarrow> WorldDescriptorV1 \<Rightarrow> EpochRecordV1 \<Rightarrow> SnapshotManifestV1 \<Rightarrow> bool \<Rightarrow> PeerReadinessObservation list
      \<Rightarrow> (DaemonError, HostReadinessReport) result" where
  "evaluate_host_readiness H unix_millis local_peer descriptor epoch latest has_conflicts observations =
    and_then (map_err DeProtocol (manifest_hash H latest)) (\<lambda>latest_hash.
    let peers = sort_key pr_peer_id (map (peer_readiness H descriptor epoch latest latest_hash observations)
          (filter (\<lambda>m. wm_peer_id m \<noteq> local_peer \<and> \<not> wm_banned m) (wd_members descriptor)));
        base = (\<lambda>state safe successor handoff. \<lparr>hr_world_id = WorldId_display H (wd_world_id descriptor),
          hr_generated_unix_ms = unix_millis, hr_local_peer_id = PeerId_display H local_peer,
          hr_current_host_peer_id = Some (PeerId_display H (er_authority_peer_id epoch)), hr_state = state,
          hr_safe_to_shutdown = safe, hr_successor_peer_id = successor, hr_handoff_candidate_peer_id = handoff,
          hr_world_data_replicated = list_ex pr_current_state peers, hr_peers = peers\<rparr>);
        current = filter eligible_current peers in
    if local_peer \<noteq> er_authority_peer_id epoch then Ok (base NotCurrentHost False None None)
    else if has_conflicts then Ok (base HostConflict False None None)
    else if er_mode epoch = Solo then Ok (base DegradedSafety False None None)
    else case find (\<lambda>p. ready_host p \<and> pr_recovery_quorum_without_authority p) current of
      Some successor \<Rightarrow> Ok (base HostSafe True (Some (pr_peer_id successor)) (Some (pr_peer_id successor)))
    | None \<Rightarrow> (case find ready_host current of
        Some candidate \<Rightarrow> Ok (base BlockedByQuorum False None (Some (pr_peer_id candidate)))
      | None \<Rightarrow>
        if list_ex (\<lambda>p. pr_runtime p \<noteq> RuntimeReady) current then Ok (base BlockedByRuntime False None None)
        else if list_ex (\<lambda>p. pr_server_mods p \<noteq> ModsReady) current then Ok (base BlockedByMods False None None)
        else if list_ex (\<lambda>p. \<not> pr_conflict_free p) current then Ok (base DegradedSafety False None None)
        else if list_ex (\<lambda>p. pr_reachable p \<and> \<not> pr_current_state p) peers then Ok (base HostSyncing False None None)
        else Ok (base WorldWillStop False None None)))"

definition unknown_report :: "host \<Rightarrow> u64 \<Rightarrow> WorldId \<Rightarrow> PeerId \<Rightarrow> PeerId option \<Rightarrow> HostReadinessReport" where
  "unknown_report H unix_millis world local_peer current_host = \<lparr>hr_world_id = WorldId_display H world,
    hr_generated_unix_ms = unix_millis, hr_local_peer_id = PeerId_display H local_peer,
    hr_current_host_peer_id = map_option (PeerId_display H) current_host, hr_state = HostUnknown, hr_safe_to_shutdown = False,
    hr_successor_peer_id = None, hr_handoff_candidate_peer_id = None, hr_world_data_replicated = False, hr_peers = []\<rparr>"

definition evaluate_from_storage ::
    "host \<Rightarrow> zstd \<Rightarrow> (nat \<Rightarrow> nat) \<Rightarrow> u64 \<Rightarrow> PeerId \<Rightarrow> WorldId \<Rightarrow> PeerReadinessObservation list
      \<Rightarrow> world_files \<Rightarrow> (world_files, HostReadinessReport) handled" where
  "evaluate_from_storage H Z pick unix_millis local_peer world observations fs =
    (case load_world_descriptor world fs of
       Inl _ \<Rightarrow> accept (unknown_report H unix_millis world local_peer None)
     | Inr descriptor \<Rightarrow> (case load_epoch_record world fs of
       Inl _ \<Rightarrow> accept (unknown_report H unix_millis world local_peer None)
     | Inr epoch \<Rightarrow>
       let unknown = unknown_report H unix_millis world local_peer (Some (er_authority_peer_id epoch)) in
       if is_ok (load_sleep_record world fs) then
         accept \<lparr>hr_world_id = WorldId_display H world, hr_generated_unix_ms = unix_millis,
           hr_local_peer_id = PeerId_display H local_peer,
           hr_current_host_peer_id = Some (PeerId_display H (er_authority_peer_id epoch)), hr_state = HostSleeping,
           hr_safe_to_shutdown = True, hr_successor_peer_id = None, hr_handoff_candidate_peer_id = None,
           hr_world_data_replicated = list_ex (\<lambda>ob. po_status ob \<noteq> None) observations, hr_peers = []\<rparr>
       else then_plan (latest_snapshot H world) (\<lambda>latest fs.
         case latest of
           None \<Rightarrow> accept unknown
         | Some latest \<Rightarrow>
           if \<not> is_ok (verify_snapshot_streaming H Z pick fs latest) \<or> \<not> is_ok (verify_snapshot_signature H latest)
           then accept unknown
           else check (list_solo_conflicts world fs) (\<lambda>conflicts.
             demand (\<lambda>e. e) (evaluate_host_readiness H unix_millis local_peer descriptor epoch latest (conflicts \<noteq> []) observations) accept)) fs))"

definition load_host_readiness_report :: "host \<Rightarrow> u64 \<Rightarrow> WorldId \<Rightarrow> HostReadinessReport slot \<Rightarrow> (DaemonError, HostReadinessReport) result" where
  "load_host_readiness_report H now world stored =
    (case read_json_slot stored of
       Inl _ \<Rightarrow> Err (Refused ''cannot read'')
     | Inr report \<Rightarrow>
       if hr_world_id report \<noteq> WorldId_display H world then Err (Refused ''host-readiness report references a different world'')
       else if HOST_READINESS_MAX_AGE_MS < saturating_sub now (hr_generated_unix_ms report) then
         Ok (report\<lparr>hr_state := HostUnknown, hr_safe_to_shutdown := False, hr_successor_peer_id := None,
           hr_handoff_candidate_peer_id := None,
           hr_peers := map (\<lambda>p. p\<lparr>pr_reachable := False, pr_current_state := False, pr_capability_fresh := False,
             pr_recovery_quorum_without_authority := False\<rparr>) (hr_peers report)\<rparr>)
       else Ok report)"

end
