(* ===== verification/DaemonState.thy ===== *)
theory DaemonState
  imports HostReadiness "HOL-Library.AList"
begin

text \<open>
  The state of the replication daemon for one world, and the effects its handlers have on it
  (\<open>swarm-cli/src/daemon.rs\<close>, \<open>authority_permit.rs\<close>).

  The durable part is the files of the world, the permit the game server watches, the file that requests a wake and
  the published readiness report.
  The rest is the entry of the world in each map of \<open>LeaseRuntime\<close>, the negotiated manifest, the table of open
  requests, and what was put on the wire.  A map that the code iterates over is an association list, whose order is
  the order of the iteration.  Instants are milliseconds of one clock.

  A handler is a plan over this state: a storage operation contributes its own mutations, a message or a change of
  the runtime contributes one.  An interrupted handler has made a prefix of them, which is what a failing file
  operation or a failing send leaves behind.
\<close>

section \<open>State\<close>

definition AUTHORITY_LEASE_DURATION_MS :: u64 where "AUTHORITY_LEASE_DURATION_MS = 5000"
definition RECOVERY_SETTLE_DELAY :: nat where "RECOVERY_SETTLE_DELAY = 2000"
definition STATUS_FRESHNESS :: nat where "STATUS_FRESHNESS = 3000"
definition REPLICATION_RATE_LIMIT_BACKOFF :: nat where "REPLICATION_RATE_LIMIT_BACKOFF = 11000"

datatype OutboundContext =
    ManifestContext u64
  | BlobChunkContext u64 Hash32 u64 bool
  | LeaseContext PeerId AuthorityGeneration
  | RecoveryBallotContext PeerId Hash32
  | MembershipProposalContext PeerId Hash32
  | MembershipCommitContext PeerId u64
  | EpochContext PeerId AuthorityGeneration
  | StatusContext PeerId
  | HostCapabilityContext PeerId

record LeaseAck =
  la_generation :: AuthorityGeneration
  la_observed_at :: nat

record InboundLease =
  il_generation :: AuthorityGeneration
  il_expires_at :: nat

record ObservedStatus =
  os_status :: WorldStatusV1
  os_observed_at :: nat

record ObservedCapability =
  oc_capability :: HostCapabilityV1
  oc_observed_at :: nat

record ReplicationState =
  rs_snapshot_number :: u64
  rs_pending :: "BlobResumeV1 list"
  rs_in_flight :: bool
  rs_retry_at :: "nat option"

record daemon =
  dn_files :: world_files
  dn_permit :: "(AuthorityGeneration \<times> u64) option"
  dn_wake_request :: bool
  dn_readiness :: "HostReadinessReport slot"
  dn_pending_manifest :: "SnapshotManifestV1 option"
  dn_authenticated_peers :: "(TransportPeerId \<times> PeerId) list"
  dn_lease_acks :: "PeerId \<Rightarrow> LeaseAck option"
  dn_recovery_ballot :: "RecoveryBallotV1 option"
  dn_recovery_votes :: "(PeerId \<times> RecoveryVoteV1) list"
  dn_membership_votes :: "(PeerId \<times> MembershipVoteV1) list"
  dn_recovery_round_floor :: "u64 option"
  dn_epoch_acks :: "PeerId \<Rightarrow> AuthorityGeneration option"
  dn_permit_heartbeat :: "u64 option"
  dn_inbound_lease :: "InboundLease option"
  dn_peer_status :: "PeerId \<Rightarrow> ObservedStatus option"
  dn_peer_capability :: "PeerId \<Rightarrow> ObservedCapability option"
  dn_recovery_not_before :: "nat option"
  dn_recovery_replication_sent :: "PeerId set"
  dn_replications :: "(TransportPeerId \<times> ReplicationState) list"
  dn_outbound :: "(nat \<times> OutboundContext) list"
  dn_next_request :: nat
  dn_sent :: "(TransportPeerId \<times> WireRequest) list"
  dn_replies :: "(TransportPeerId \<times> WireResponse) list"

text \<open>A daemon that has just started over a set of files.\<close>

definition daemon_start ::
    "world_files \<Rightarrow> (AuthorityGeneration \<times> u64) option \<Rightarrow> bool \<Rightarrow> HostReadinessReport slot \<Rightarrow> daemon" where
  "daemon_start fs permit wake readiness = \<lparr>dn_files = fs, dn_permit = permit, dn_wake_request = wake,
    dn_readiness = readiness, dn_pending_manifest = None,
    dn_authenticated_peers = [], dn_lease_acks = (\<lambda>_. None), dn_recovery_ballot = None, dn_recovery_votes = [],
    dn_membership_votes = [], dn_recovery_round_floor = None, dn_epoch_acks = (\<lambda>_. None), dn_permit_heartbeat = None,
    dn_inbound_lease = None, dn_peer_status = (\<lambda>_. None), dn_peer_capability = (\<lambda>_. None),
    dn_recovery_not_before = None, dn_recovery_replication_sent = {}, dn_replications = [], dn_outbound = [],
    dn_next_request = 0, dn_sent = [], dn_replies = []\<rparr>"

text \<open>
  The process: the storage it works on and its identity; and what the machine tells it at one moment: the two clocks,
  a random number, what it has to run the world with, and whether the readiness report can be published, a failure
  that the daemon only logs.
\<close>

record daemon_env =
  de_store :: store_env
  de_identity :: PeerIdentity

abbreviation de_host :: "daemon_env \<Rightarrow> host" where "de_host E \<equiv> se_host (de_store E)"
abbreviation de_zstd :: "daemon_env \<Rightarrow> zstd" where "de_zstd E \<equiv> se_zstd (de_store E)"
abbreviation de_pick :: "daemon_env \<Rightarrow> nat \<Rightarrow> nat" where "de_pick E \<equiv> se_pick (de_store E)"
abbreviation de_world :: "daemon_env \<Rightarrow> WorldId" where "de_world E \<equiv> se_world (de_store E)"
abbreviation de_peer :: "daemon_env \<Rightarrow> PeerId" where "de_peer E \<equiv> peer_id (de_host E) (de_identity E)"
abbreviation de_key :: "daemon_env \<Rightarrow> bytes32" where "de_key E \<equiv> public_key (de_host E) (de_identity E)"

record moment =
  mo_now :: nat
  mo_unix_millis :: u64
  mo_nonce :: bytes32
  mo_machine :: machine_view
  mo_publishes :: bool

section \<open>Effects\<close>

definition at_files :: "(world_files \<Rightarrow> (world_files, 'a) planned) \<Rightarrow> daemon \<Rightarrow> (daemon, 'a) planned" where
  "at_files op d = (fst (op (dn_files d)), map (\<lambda>m d. d\<lparr>dn_files := m (dn_files d)\<rparr>) (snd (op (dn_files d))))"

definition remember :: "(daemon \<Rightarrow> daemon) \<Rightarrow> daemon \<Rightarrow> (daemon, unit) handled" where
  "remember f d = store (Ok ()) [f]"

definition respond :: "TransportPeerId \<Rightarrow> WireResponse \<Rightarrow> daemon \<Rightarrow> (daemon, unit) handled" where
  "respond peer response = remember (\<lambda>d. d\<lparr>dn_replies := dn_replies d @ [(peer, response)]\<rparr>)"

text \<open>Sending a request gives its number; the table of open requests is kept by the caller.\<close>

definition send_request :: "TransportPeerId \<Rightarrow> WireRequest \<Rightarrow> daemon \<Rightarrow> (daemon, nat) handled" where
  "send_request peer request d = store (Ok (dn_next_request d))
    [\<lambda>d. d\<lparr>dn_sent := dn_sent d @ [(peer, request)], dn_next_request := Suc (dn_next_request d)\<rparr>]"

definition track :: "nat \<Rightarrow> OutboundContext \<Rightarrow> daemon \<Rightarrow> (daemon, unit) handled" where
  "track number context = remember (\<lambda>d. d\<lparr>dn_outbound := (number, context) # dn_outbound d\<rparr>)"

definition send_tracked :: "TransportPeerId \<Rightarrow> WireRequest \<Rightarrow> OutboundContext \<Rightarrow> daemon \<Rightarrow> (daemon, unit) handled" where
  "send_tracked peer request context = then_ok (send_request peer request) (\<lambda>number. track number context)"

definition send_only :: "TransportPeerId \<Rightarrow> WireRequest \<Rightarrow> daemon \<Rightarrow> (daemon, unit) handled" where
  "send_only peer request = then_ok (send_request peer request) (\<lambda>_ _. accept ())"

definition clear_permit :: "daemon \<Rightarrow> (daemon, unit) handled" where
  "clear_permit = remember (\<lambda>d. d\<lparr>dn_permit := None\<rparr>)"

definition refresh_permit :: "AuthorityGeneration \<Rightarrow> u64 \<Rightarrow> daemon \<Rightarrow> (daemon, unit) handled" where
  "refresh_permit generation heartbeat = remember (\<lambda>d. d\<lparr>dn_permit := Some (generation, heartbeat)\<rparr>)"

definition forget_heartbeat :: "daemon \<Rightarrow> daemon" where
  "forget_heartbeat d = d\<lparr>dn_permit_heartbeat := None\<rparr>"

definition clear_world_wake_request :: "daemon \<Rightarrow> (daemon, unit) handled" where
  "clear_world_wake_request = remember (\<lambda>d. d\<lparr>dn_wake_request := False\<rparr>)"

text \<open>A loop whose body may fail.\<close>

primrec each :: "('a \<Rightarrow> 's \<Rightarrow> ('s, unit) handled) \<Rightarrow> 'a list \<Rightarrow> 's \<Rightarrow> ('s, unit) handled" where
  "each f [] s = accept ()"
| "each f (x # xs) s = then_ok (f x) (\<lambda>_. each f xs) s"

text \<open>An effect whose failure is only logged.\<close>

definition tolerate :: "('s \<Rightarrow> ('s, unit) handled) \<Rightarrow> 's \<Rightarrow> ('s, unit) handled" where
  "tolerate op s = (Ok (Ok ()), snd (op s))"

text \<open>\<open>Option::context\<close>.\<close>

definition some_or :: "string \<Rightarrow> 'a option \<Rightarrow> ('a \<Rightarrow> ('s, 'b) handled) \<Rightarrow> ('s, 'b) handled" where
  "some_or message x k = (case x of None \<Rightarrow> bail message | Some v \<Rightarrow> k v)"

section \<open>Reading the runtime\<close>

definition connected :: "daemon \<Rightarrow> PeerId \<Rightarrow> bool" where
  "connected d peer \<longleftrightarrow> peer \<in> set (map snd (dn_authenticated_peers d))"

definition fresh :: "nat \<Rightarrow> nat \<Rightarrow> bool" where
  "fresh now observed_at \<longleftrightarrow> now - observed_at \<le> STATUS_FRESHNESS"

definition member_count :: "WorldDescriptorV1 \<Rightarrow> nat" where
  "member_count descriptor = length (filter (\<lambda>m. \<not> wm_banned m) (wd_members descriptor))"

definition host_capability_ready :: "HostCapabilityV1 \<Rightarrow> WorldId \<Rightarrow> Hash32 \<Rightarrow> bool" where
  "host_capability_ready capability world compatibility \<longleftrightarrow>
    hc_world_id capability = world \<and> hc_compatibility_fingerprint capability = compatibility
    \<and> hc_runtime capability = RuntimeReady \<and> hc_server_mods capability = ModsReady \<and> hc_conflict_free capability"

definition observed_host_candidate_ready :: "daemon \<Rightarrow> WorldId \<Rightarrow> PeerId \<Rightarrow> Hash32 \<Rightarrow> nat \<Rightarrow> bool" where
  "observed_host_candidate_ready d world peer compatibility now \<longleftrightarrow> connected d peer
    \<and> (case dn_peer_capability d peer of
         None \<Rightarrow> False
       | Some observed \<Rightarrow> fresh now (oc_observed_at observed) \<and> host_capability_ready (oc_capability observed) world compatibility)"

definition recovery_window_open :: "daemon \<Rightarrow> AuthorityGeneration \<Rightarrow> nat \<Rightarrow> bool" where
  "recovery_window_open d generation now =
    (let waited = (case dn_recovery_not_before d of None \<Rightarrow> False | Some deadline \<Rightarrow> deadline \<le> now) in
     case dn_inbound_lease d of
       None \<Rightarrow> waited
     | Some lease \<Rightarrow>
         if generation < il_generation lease then False
         else if il_generation lease = generation then il_expires_at lease + RECOVERY_SETTLE_DELAY \<le> now
         else waited)"

definition has_context :: "daemon \<Rightarrow> OutboundContext \<Rightarrow> bool" where
  "has_context d context \<longleftrightarrow> context \<in> set (map snd (dn_outbound d))"

definition world_status :: "daemon_env \<Rightarrow> world_files \<Rightarrow> (world_files, WorldStatusV1 option) handled" where
  "world_status E fs =
    (let H = de_host E; world = de_world E in
     case load_world H world fs of
       Inl _ \<Rightarrow> accept None
     | Inr metadata \<Rightarrow> then_plan (latest_snapshot H world) (\<lambda>latest fs.
         let eligible = (case load_world_descriptor world fs of
               Inl _ \<Rightarrow> False
             | Inr descriptor \<Rightarrow> (case WorldDescriptorV1_member descriptor (de_peer E) of
                 None \<Rightarrow> False | Some m \<Rightarrow> wm_authority_eligible m \<and> \<not> wm_banned m));
             status = (\<lambda>hash. \<lparr>ws_world_id = world,
               ws_epoch = (case load_epoch_record world fs of
                   Inr record \<Rightarrow> er_epoch_number record
                 | Inl _ \<Rightarrow> (case latest of None \<Rightarrow> 0 | Some manifest \<Rightarrow> sm_epoch manifest)),
               ws_sequence = (case latest of None \<Rightarrow> 0 | Some manifest \<Rightarrow> sm_sequence manifest),
               ws_latest_snapshot = hash, ws_state_hash = map_option sm_state_root latest,
               ws_compatibility_fingerprint = gen_compatibility_fingerprint (md_genesis metadata),
               ws_authority_eligible = eligible\<rparr>) in
         case latest of
           None \<Rightarrow> accept (Some (status None))
         | Some manifest \<Rightarrow> demand DeProtocol (manifest_hash H manifest) (\<lambda>hash. accept (Some (status (Some hash))))) fs)"

definition peer_readiness_observations :: "daemon_env \<Rightarrow> WorldDescriptorV1 \<Rightarrow> nat \<Rightarrow> daemon \<Rightarrow> PeerReadinessObservation list" where
  "peer_readiness_observations E descriptor now d =
    map (\<lambda>m. let peer = wm_peer_id m in
      \<lparr>po_peer_id = peer, po_reachable = connected d peer,
       po_status = (case dn_peer_status d peer of
           None \<Rightarrow> None | Some ob \<Rightarrow> if fresh now (os_observed_at ob) then Some (os_status ob) else None),
       po_capability = (case dn_peer_capability d peer of
           None \<Rightarrow> None | Some ob \<Rightarrow> if fresh now (oc_observed_at ob) then Some (oc_capability ob) else None)\<rparr>)
      (filter (\<lambda>m. wm_peer_id m \<noteq> de_peer E \<and> \<not> wm_banned m) (wd_members descriptor))"

definition local_recovery_quorum_without_authority :: "daemon_env \<Rightarrow> nat \<Rightarrow> daemon \<Rightarrow> (daemon, bool) handled" where
  "local_recovery_quorum_without_authority E now d =
    (case load_world_descriptor (de_world E) (dn_files d) of
       Inl _ \<Rightarrow> accept False
     | Inr descriptor \<Rightarrow> (case load_epoch_record (de_world E) (dn_files d) of
       Inl _ \<Rightarrow> accept False
     | Inr epoch \<Rightarrow> then_plan (at_files (latest_snapshot (de_host E) (de_world E))) (\<lambda>latest d.
         case latest of
           None \<Rightarrow> accept False
         | Some latest \<Rightarrow> demand (\<lambda>e. e) (surviving_recovery_quorum (de_host E) descriptor epoch latest (de_peer E)
             (peer_readiness_observations E descriptor now d)) accept) d))"

definition publish_host_readiness_snapshot :: "daemon_env \<Rightarrow> moment \<Rightarrow> daemon \<Rightarrow> (daemon, unit) handled" where
  "publish_host_readiness_snapshot E t d =
    (let observations = (case load_world_descriptor (de_world E) (dn_files d) of
         Inl _ \<Rightarrow> [] | Inr descriptor \<Rightarrow> peer_readiness_observations E descriptor (mo_now t) d) in
     then_ok (at_files (evaluate_from_storage (de_host E) (de_zstd E) (de_pick E) (mo_unix_millis t) (de_peer E) (de_world E) observations))
       (\<lambda>report. remember (\<lambda>d. d\<lparr>dn_readiness := Content report\<rparr>)) d)"

text \<open>Forgetting a world that sleeps, or whose sleep record cannot be read.\<close>

definition clear_sleeping_world :: "daemon \<Rightarrow> daemon" where
  "clear_sleeping_world d = d\<lparr>dn_lease_acks := (\<lambda>_. None), dn_recovery_ballot := None, dn_recovery_votes := [],
    dn_membership_votes := [], dn_recovery_round_floor := None, dn_epoch_acks := (\<lambda>_. None),
    dn_permit_heartbeat := None, dn_inbound_lease := None, dn_recovery_not_before := None,
    dn_recovery_replication_sent := {}\<rparr>"

definition clear_runtime_world :: "daemon \<Rightarrow> daemon" where
  "clear_runtime_world d = d\<lparr>dn_lease_acks := (\<lambda>_. None), dn_recovery_ballot := None, dn_recovery_votes := [],
    dn_membership_votes := [], dn_recovery_round_floor := None, dn_epoch_acks := (\<lambda>_. None),
    dn_peer_status := (\<lambda>_. None), dn_peer_capability := (\<lambda>_. None),
    dn_permit_heartbeat := None, dn_inbound_lease := None, dn_recovery_not_before := None,
    dn_recovery_replication_sent := {}\<rparr>"

end
