(* ===== verification/DaemonRequests.thy ===== *)
theory DaemonRequests
  imports DaemonState
begin

text \<open>
  The requests a daemon answers: \<open>handle_request\<close> of \<open>swarm-cli/src/daemon.rs\<close>, one definition for each kind of
  request, and the pushes that follow an authentication.  The request is about the world of the daemon's files.
\<close>

section \<open>Pushing what is committed\<close>

definition push_record :: "(world_files \<Rightarrow> (StorageError, 'a) result) \<Rightarrow> ('a \<Rightarrow> WireRequest) \<Rightarrow> TransportPeerId \<Rightarrow> daemon \<Rightarrow> (daemon, unit) handled" where
  "push_record load request transport d =
    (case load (dn_files d) of Inl _ \<Rightarrow> accept () | Inr x \<Rightarrow> send_only transport (request x) d)"

definition push_committed_world_payload :: "daemon_env \<Rightarrow> TransportPeerId \<Rightarrow> bool \<Rightarrow> daemon \<Rightarrow> (daemon, unit) handled" where
  "push_committed_world_payload E transport include_membership =
    (let world = de_world E in
     then_ok (push_record (load_world_config world) RqWorldConfig transport) (\<lambda>_.
     then_ok (push_record (load_solo_branch world) RqSoloBranch transport) (\<lambda>_.
     then_ok (\<lambda>d. case load_epoch_record world (dn_files d) of
         Inl _ \<Rightarrow> accept ()
       | Inr epoch \<Rightarrow>
           if er_mode epoch = Recovery then
             (case load_recovery_certificate world (dn_files d) of
                Inl _ \<Rightarrow> accept ()
              | Inr certificate \<Rightarrow> send_only transport (RqRecoveryEpoch epoch certificate) d)
           else send_only transport (RqEpoch epoch) d) (\<lambda>_.
     then_ok (if include_membership then push_record (load_membership_record world) RqMembership transport else (\<lambda>_. accept ())) (\<lambda>_.
     then_ok (push_record (load_transfer_record world) RqAuthorityTransfer transport) (\<lambda>_.
     then_ok (push_record (load_sleep_record world) RqSleep transport) (\<lambda>_.
     then_plan (at_files (latest_snapshot (de_host E) world)) (\<lambda>latest d.
       case latest of
         None \<Rightarrow> accept ()
       | Some manifest \<Rightarrow> demand DeCore (verify_snapshot_signature (de_host E) manifest) (\<lambda>_.
           send_tracked transport (RqSnapshotManifest manifest) (ManifestContext (sm_snapshot_number manifest)) d)))))))))"

text \<open>The part of \<open>push_known_worlds\<close> that concerns this world.\<close>

definition push_known_worlds :: "daemon_env \<Rightarrow> TransportPeerId \<Rightarrow> PeerId \<Rightarrow> daemon \<Rightarrow> (daemon, unit) handled" where
  "push_known_worlds E transport peer d =
    (let H = de_host E; world = de_world E; fs = dn_files d;
         payload = (\<lambda>descriptor d.
           if is_ok (authorized_descriptor_member H descriptor peer) then push_committed_world_payload E transport True d
           else accept ()) in
     case load_world_descriptor world fs of
       Inl _ \<Rightarrow> accept ()
     | Inr descriptor \<Rightarrow>
       then_ok (\<lambda>_. if (case load_epoch_record world fs of Inl _ \<Rightarrow> False | Inr epoch \<Rightarrow> er_authority_peer_id epoch = de_peer E)
           then accept True else check (background_seeding_enabled fs) accept) (\<lambda>pushes d.
       if \<not> pushes then accept ()
       else case load_membership_record world fs of
         Inl _ \<Rightarrow> payload descriptor d
       | Inr membership \<Rightarrow> (case load_membership_certificate world fs of
         Inl _ \<Rightarrow> payload descriptor d
       | Inr certificate \<Rightarrow>
           demand DeProtocol (record_hash H (mp_proposed (mc_proposal certificate))) (\<lambda>proposed.
           demand DeProtocol (record_hash H membership) (\<lambda>committed.
           if proposed = committed \<and> proposal_member (mc_proposal certificate) peer \<noteq> None
           then send_tracked transport (RqMembershipCommit certificate) (MembershipCommitContext peer (mr_sequence membership)) d
           else payload descriptor d)))) d)"

definition push_pending_membership_requests :: "daemon_env \<Rightarrow> TransportPeerId \<Rightarrow> PeerId \<Rightarrow> daemon \<Rightarrow> (daemon, unit) handled" where
  "push_pending_membership_requests E transport peer =
    (let H = de_host E; world = de_world E in
     then_ok (\<lambda>d. case load_pending_join H world (dn_files d) of
         Inl _ \<Rightarrow> accept ()
       | Inr join \<Rightarrow> if inv_inviter_peer_id (jr_invite join) = peer then send_only transport (RqJoinRequest join) d else accept ()) (\<lambda>_ d.
     case load_pending_leave H world (dn_files d) of
       Inl _ \<Rightarrow> accept ()
     | Inr leave \<Rightarrow> (case load_membership_record world (dn_files d) of
         Inl _ \<Rightarrow> accept ()
       | Inr membership \<Rightarrow>
           if mr_authority_peer_id membership = peer then send_only transport (RqLeaveRequest leave) d else accept ())))"

section \<open>Joining and leaving\<close>

text \<open>A transition that is already prepared is sent again if it is the one asked for.\<close>

definition resume_membership_proposal ::
    "daemon_env \<Rightarrow> TransportPeerId \<Rightarrow> PeerId \<Rightarrow> MembershipRecordV1 \<Rightarrow> bool \<Rightarrow> (u64 \<Rightarrow> WireResponse) \<Rightarrow> DurableMembershipPromiseV1
      \<Rightarrow> daemon \<Rightarrow> (daemon, unit) handled" where
  "resume_membership_proposal E transport peer current wanted response promise d =
    (let H = de_host E; proposal = dmp_proposal promise in
     demand DeProtocol (record_hash H (mp_previous proposal)) (\<lambda>previous.
     demand DeProtocol (record_hash H current) (\<lambda>committed.
     if previous = committed \<and> wanted then
       then_ok (send_request transport (RqMembershipProposal proposal)) (\<lambda>number d.
       demand DeProtocol (proposal_hash H proposal) (\<lambda>hash.
       then_ok (track number (MembershipProposalContext peer hash)) (\<lambda>_.
       respond transport (response (mr_sequence (mp_proposed proposal)))) d)) d
     else bail ''another membership transition is already durably prepared'')))"

text \<open>The authority signs the next membership, votes for it, and stores both before it asks anyone.\<close>

definition propose_membership ::
    "daemon_env \<Rightarrow> TransportPeerId \<Rightarrow> PeerId \<Rightarrow> WorldId \<Rightarrow> MembershipRecordV1 \<Rightarrow> WorldDescriptorV1 \<Rightarrow> (u64 \<Rightarrow> WireResponse)
      \<Rightarrow> daemon \<Rightarrow> (daemon, unit) handled" where
  "propose_membership E transport peer world current descriptor response d =
    (let H = de_host E; i = de_identity E in
     some_or ''membership sequence counter exhausted'' (checked_add (mr_sequence current) 1) (\<lambda>number.
     demand DeProtocol (record_hash H current) (\<lambda>current_hash.
     demand DeCore (sign_membership H i \<lparr>mr_protocol_version = mr_protocol_version current, mr_world_id = world,
       mr_epoch = mr_epoch current, mr_sequence = number, mr_previous_membership_hash = Some current_hash,
       mr_members = wd_members (WorldDescriptorV1_normalize descriptor), mr_authority_peer_id = de_peer E,
       mr_authority_public_key = de_key E, mr_signature = []\<rparr>) (\<lambda>proposed.
     let proposal = \<lparr>mp_previous = current, mp_proposed = proposed\<rparr> in
     demand DeMembership (validate_membership_proposal_shape H proposal) (\<lambda>_.
     demand (\<lambda>e. e) (sign_membership_vote H i proposal) (\<lambda>vote.
     then_plan (at_files (promise_membership_proposal H proposal vote)) (\<lambda>promised.
     if promised = MembershipRejected then (\<lambda>_. bail ''membership proposal conflicts with a durable prepare'')
     else then_ok (remember (\<lambda>d. d\<lparr>dn_membership_votes := AList.update (de_peer E) vote (dn_membership_votes d)\<rparr>)) (\<lambda>_.
       then_ok clear_permit (\<lambda>_.
       then_ok (remember forget_heartbeat) (\<lambda>_.
       then_ok (send_request transport (RqMembershipProposal proposal)) (\<lambda>number d.
       demand DeProtocol (proposal_hash H proposal) (\<lambda>hash.
       then_ok (track number (MembershipProposalContext peer hash)) (\<lambda>_.
       respond transport (response (mr_sequence proposed))) d)))))) d))))))"

definition handle_join_request ::
    "daemon_env \<Rightarrow> moment \<Rightarrow> TransportPeerId \<Rightarrow> PeerId \<Rightarrow> JoinRequestV1 \<Rightarrow> daemon \<Rightarrow> (daemon, unit) handled" where
  "handle_join_request E t transport sender request d =
    (let H = de_host E; fs = dn_files d; world = jr_world_id request; invite = jr_invite request; joining = jr_joining_member request in
     if sender \<noteq> wm_peer_id joining then bail ''join request transport identity does not match joining peer''
     else demand DeCore (verify_join_request_signature H request) (\<lambda>_.
     demand DeCore (verify_invite_signature H invite) (\<lambda>_.
     demand (\<lambda>e. e) (validate_invite_expiry (inv_expires_unix_ms invite) (mo_unix_millis t)) (\<lambda>_.
     check (load_world H world fs) (\<lambda>metadata.
     demand DeProtocol (genesis_world_id H (inv_genesis invite)) (\<lambda>genesis_world.
     if genesis_world \<noteq> world
       \<or> gen_compatibility_fingerprint (inv_genesis invite) \<noteq> gen_compatibility_fingerprint (md_genesis metadata)
     then bail ''invite does not match local world genesis''
     else check (load_membership_record world fs) (\<lambda>current.
     demand DeCore (verify_membership_signature H current) (\<lambda>_.
     if mr_authority_peer_id current \<noteq> de_peer E \<or> mr_authority_public_key current \<noteq> de_key E
     then bail ''only the current local authority may accept a join request''
     else if inv_inviter_peer_id invite \<noteq> mr_authority_peer_id current \<or> inv_inviter_public_key invite \<noteq> mr_authority_public_key current
     then bail ''join invite was not issued by the current authority''
     else check (load_world_descriptor world fs) (\<lambda>descriptor.
     some_or ''invite signer is not a current world member'' (WorldDescriptorV1_member descriptor (inv_inviter_peer_id invite)) (\<lambda>inviter.
     if wm_banned inviter \<or> wm_public_key inviter \<noteq> inv_inviter_public_key invite
     then bail ''invite signer is banned or key does not match current membership''
     else case WorldDescriptorV1_member descriptor (wm_peer_id joining) of
       Some m \<Rightarrow>
         if wm_public_key m \<noteq> wm_public_key joining \<or> wm_banned m then bail ''joining peer conflicts with existing membership''
         else then_ok (respond transport (RsJoinAccepted (mr_sequence current))) (\<lambda>_. push_known_worlds E transport sender) d
     | None \<Rightarrow> (case load_membership_promise H world fs of
         Inr promise \<Rightarrow> resume_membership_proposal E transport sender current
           (find (\<lambda>m. wm_peer_id m = wm_peer_id joining) (mr_members (mp_proposed (dmp_proposal promise))) = Some joining)
           RsJoinAccepted promise d
       | Inl _ \<Rightarrow> propose_membership E transport sender world current
           (descriptor\<lparr>wd_members := wd_members descriptor @ [joining]\<rparr>) RsJoinAccepted d)))))))))))"

definition handle_leave_request :: "daemon_env \<Rightarrow> TransportPeerId \<Rightarrow> PeerId \<Rightarrow> LeaveRequestV1 \<Rightarrow> daemon \<Rightarrow> (daemon, unit) handled" where
  "handle_leave_request E transport sender request d =
    (let H = de_host E; fs = dn_files d; world = lv_world_id request; leaver = lv_leaving_peer_id request in
     if sender \<noteq> leaver then bail ''leave request transport identity does not match leaving peer''
     else demand DeCore (verify_leave_request_signature H request) (\<lambda>_.
     check (load_membership_record world fs) (\<lambda>current.
     demand DeCore (verify_membership_signature H current) (\<lambda>_.
     if mr_authority_peer_id current \<noteq> de_peer E \<or> mr_authority_public_key current \<noteq> de_key E
     then bail ''only the current local authority may accept a leave request''
     else if leaver = mr_authority_peer_id current then bail ''authority must transfer authority before leaving''
     else demand DeProtocol (record_hash H current) (\<lambda>current_hash.
     if current_hash \<noteq> lv_membership_hash request then bail ''leave request references stale membership''
     else check (load_world_descriptor world fs) (\<lambda>descriptor.
     some_or ''leaving peer is not a current world member'' (WorldDescriptorV1_member descriptor leaver) (\<lambda>leaving.
     if wm_banned leaving \<or> wm_public_key leaving \<noteq> lv_leaving_public_key request
     then bail ''leaving peer key does not match current membership''
     else case load_membership_promise H world fs of
       Inr promise \<Rightarrow> resume_membership_proposal E transport sender current
         (list_all (\<lambda>m. wm_peer_id m \<noteq> leaver) (mr_members (mp_proposed (dmp_proposal promise)))) RsLeaveAccepted promise d
     | Inl _ \<Rightarrow> propose_membership E transport sender (mr_world_id current) current
         (descriptor\<lparr>wd_members := filter (\<lambda>m. wm_peer_id m \<noteq> leaver) (wd_members descriptor)\<rparr>) RsLeaveAccepted d)))))))"

section \<open>Replication\<close>

definition finalize_and_ack :: "daemon_env \<Rightarrow> TransportPeerId \<Rightarrow> SnapshotManifestV1 \<Rightarrow> daemon \<Rightarrow> (daemon, unit) handled" where
  "finalize_and_ack E transport manifest d =
    (let H = de_host E in
     demand DeCore (verify_snapshot_signature H manifest) (\<lambda>_.
     then_plan (at_files (finalize_replica H (de_zstd E) (de_pick E) manifest)) (\<lambda>finalized d.
     demand DeReplication finalized (\<lambda>_.
     demand DeProtocol (manifest_hash H manifest) (\<lambda>hash.
     send_only transport (RqReplicaAck \<lparr>ra_world_id = sm_world_id manifest, ra_snapshot_number = sm_snapshot_number manifest,
       ra_manifest_hash = hash, ra_state_root = sm_state_root manifest, ra_complete = True\<rparr>) d))) d))"

primrec resume_points :: "world_files \<Rightarrow> BlobDescriptor list \<Rightarrow> (ReplicationError, BlobResumeV1 list) result" where
  "resume_points fs [] = Ok []"
| "resume_points fs (b # bs) =
    and_then (partial_blob_offset b fs) (\<lambda>offset.
    and_then (resume_points fs bs) (\<lambda>rest. Ok (\<lparr>br_hash = bd_hash b, br_offset = offset\<rparr> # rest)))"

definition finish_manifest :: "daemon_env \<Rightarrow> TransportPeerId \<Rightarrow> SnapshotManifestV1 \<Rightarrow> daemon \<Rightarrow> (daemon, unit) handled" where
  "finish_manifest E transport manifest =
    then_ok (finalize_and_ack E transport manifest) (\<lambda>_. remember (\<lambda>d. d\<lparr>dn_pending_manifest := None\<rparr>))"

definition handle_snapshot_manifest ::
    "daemon_env \<Rightarrow> TransportPeerId \<Rightarrow> PeerId \<Rightarrow> SnapshotManifestV1 \<Rightarrow> daemon \<Rightarrow> (daemon, unit) handled" where
  "handle_snapshot_manifest E transport sender manifest =
    then_ok (at_files (authorize_manifest (de_host E) sender manifest)) (\<lambda>_ d.
    demand DeReplication (resume_points (dn_files d) (missing_blobs (de_host E) (de_zstd E) (de_pick E) manifest (dn_files d))) (\<lambda>missing.
    then_ok (remember (\<lambda>d. d\<lparr>dn_pending_manifest := Some manifest\<rparr>)) (\<lambda>_.
    then_ok (respond transport (RsManifestAccepted (sm_snapshot_number manifest) missing)) (\<lambda>_.
    if missing = [] then finish_manifest E transport manifest else (\<lambda>_. accept ()))) d))"

definition handle_blob_chunk ::
    "daemon_env \<Rightarrow> TransportPeerId \<Rightarrow> PeerId \<Rightarrow> WorldId \<Rightarrow> Hash32 \<Rightarrow> BlobEncoding \<Rightarrow> u64 \<Rightarrow> bytes \<Rightarrow> bool \<Rightarrow> daemon \<Rightarrow> (daemon, unit) handled" where
  "handle_blob_chunk E transport sender world hash encoding offset data finished =
    then_ok (at_files (authorize_member (de_host E) world sender)) (\<lambda>_ d.
    some_or ''blob chunk arrived without a negotiated manifest'' (dn_pending_manifest d) (\<lambda>manifest.
    some_or ''blob hash is not referenced by negotiated manifest'' (find_descriptor manifest hash) (\<lambda>descriptor.
    if bd_encoding descriptor \<noteq> encoding then bail ''blob encoding does not match manifest''
    else then_plan (at_files (receive_blob_chunk (de_host E) (de_zstd E) (de_pick E) descriptor offset data finished)) (\<lambda>received d.
      demand DeReplication received (\<lambda>next_offset.
      then_ok (respond transport (RsBlobChunkAccepted hash next_offset)) (\<lambda>_ d.
      if finished \<and> missing_blobs (de_host E) (de_zstd E) (de_pick E) manifest (dn_files d) = []
      then finish_manifest E transport manifest d else accept ()) d)) d)))"

definition handle_missing_blobs ::
    "daemon_env \<Rightarrow> TransportPeerId \<Rightarrow> PeerId \<Rightarrow> WorldId \<Rightarrow> u64 \<Rightarrow> Hash32 list \<Rightarrow> daemon \<Rightarrow> (daemon, unit) handled" where
  "handle_missing_blobs E transport sender world number hashes =
    then_ok (at_files (authorize_member (de_host E) world sender)) (\<lambda>_.
    then_plan (at_files (load_snapshot (de_host E) world number)) (\<lambda>manifest.
    respond transport (RsMissingBlobs (map (\<lambda>b. \<lparr>br_hash = bd_hash b, br_offset = 0\<rparr>)
      (List.map_filter (find_descriptor manifest) hashes)))))"

definition handle_replica_ack :: "daemon_env \<Rightarrow> TransportPeerId \<Rightarrow> PeerId \<Rightarrow> ReplicaAckV1 \<Rightarrow> daemon \<Rightarrow> (daemon, unit) handled" where
  "handle_replica_ack E transport sender ack =
    then_ok (at_files (authorize_member (de_host E) (ra_world_id ack) sender)) (\<lambda>_.
    if \<not> ra_complete ack then (\<lambda>_. bail ''incomplete replica acknowledgement rejected'')
    else respond transport RsReplicaAckAccepted)"

section \<open>Membership\<close>

definition handle_membership_proposal ::
    "daemon_env \<Rightarrow> moment \<Rightarrow> TransportPeerId \<Rightarrow> PeerId \<Rightarrow> MembershipProposalV1 \<Rightarrow> daemon \<Rightarrow> (daemon, unit) handled" where
  "handle_membership_proposal E t transport sender proposal d =
    (let H = de_host E in
     if sender \<noteq> mr_authority_peer_id (mp_proposed proposal) then bail ''membership proposal sender is not its signed authority''
     else demand DeCore (verify_membership_signature H (mp_previous proposal)) (\<lambda>_.
     demand DeCore (verify_membership_signature H (mp_proposed proposal)) (\<lambda>_.
     demand DeMembership (validate_membership_proposal_shape H proposal) (\<lambda>_.
     then_ok (at_files (validate_membership_proposal_for_local H (de_identity E) (mo_unix_millis t) proposal)) (\<lambda>_ d.
     demand (\<lambda>e. e) (sign_membership_vote H (de_identity E) proposal) (\<lambda>vote.
     then_plan (at_files (promise_membership_proposal H proposal vote)) (\<lambda>promised d.
     then_ok (\<lambda>d. case promised of
         MembershipAccepted \<Rightarrow> accept vote
       | MembershipIdempotent \<Rightarrow>
           check (load_membership_promise H (mr_world_id (mp_proposed proposal)) (dn_files d)) (\<lambda>promise. accept (dmp_vote promise))
       | MembershipRejected \<Rightarrow> bail ''membership proposal conflicts with this peer's durable prepare'') (\<lambda>durable_vote.
     then_ok clear_permit (\<lambda>_.
     then_ok (remember forget_heartbeat) (\<lambda>_.
     respond transport (RsMembershipVote durable_vote)))) d) d)) d))))"

definition handle_membership_commit ::
    "daemon_env \<Rightarrow> moment \<Rightarrow> TransportPeerId \<Rightarrow> PeerId \<Rightarrow> MembershipCertificateV1 \<Rightarrow> daemon \<Rightarrow> (daemon, unit) handled" where
  "handle_membership_commit E t transport sender certificate d =
    (let H = de_host E; proposed = mp_proposed (mc_proposal certificate) in
     if sender \<noteq> mr_authority_peer_id proposed then bail ''membership commit sender is not its signed authority''
     else then_ok (at_files (validate_membership_certificate_for_local H (de_identity E) (mo_unix_millis t) certificate)) (\<lambda>_.
     then_plan (at_files (save_membership_certificate H certificate)) (\<lambda>_.
     then_ok (at_files (apply_membership_certificate H certificate)) (\<lambda>_.
     then_ok clear_permit (\<lambda>_.
     then_ok (remember (\<lambda>d. forget_heartbeat (d\<lparr>dn_membership_votes := []\<rparr>))) (\<lambda>_.
     respond transport (RsMembershipCommitAccepted (mr_sequence proposed))))))) d)"

text \<open>A record that keeps the members and moves the authority on.\<close>

definition same_voter_extension :: "host \<Rightarrow> MembershipRecordV1 \<Rightarrow> MembershipRecordV1 \<Rightarrow> (world_files, unit) handled" where
  "same_voter_extension H record current =
    (if mr_members record \<noteq> mr_members current then bail ''membership voter-set changes require a joint membership certificate''
     else demand DeProtocol (record_hash H current) (\<lambda>current_hash.
       let stray = bail ''same-voter membership record must directly extend the committed membership'' in
       if mr_previous_membership_hash record \<noteq> Some current_hash then stray
       else some_or ''membership sequence counter exhausted'' (checked_add (mr_sequence current) 1) (\<lambda>expected.
         if mr_sequence record \<noteq> expected then stray
         else if mr_epoch record < mr_epoch current then bail ''stale membership record rejected''
         else accept ())))"

definition publish_membership :: "host \<Rightarrow> MembershipRecordV1 \<Rightarrow> world_files \<Rightarrow> (world_files, unit) handled" where
  "publish_membership H record fs =
    check (load_world_descriptor (mr_world_id record) fs) (\<lambda>descriptor.
    then_plan (publish_members H record descriptor) (\<lambda>descriptor.
    then_plan (clear_satisfied_pending_membership H descriptor) (\<lambda>_ _. accept ())) fs)"

definition handle_membership :: "daemon_env \<Rightarrow> TransportPeerId \<Rightarrow> PeerId \<Rightarrow> MembershipRecordV1 \<Rightarrow> daemon \<Rightarrow> (daemon, unit) handled" where
  "handle_membership E transport sender record d =
    (let H = de_host E; world = mr_world_id record;
         accepted = respond transport (RsMembershipAccepted (mr_sequence record));
         publish = then_ok (at_files (publish_membership H record)) (\<lambda>_. accepted) in
     demand DeCore (verify_membership_signature H record) (\<lambda>_.
     then_ok (at_files (authorize_member H world (mr_authority_peer_id record))) (\<lambda>_ d.
     then_ok (\<lambda>d. case load_epoch_record world (dn_files d) of
         Inl _ \<Rightarrow> accept ()
       | Inr epoch \<Rightarrow>
           if er_epoch_number epoch < mr_epoch record then bail ''membership cannot advance before its authority epoch is accepted''
           else if mr_epoch record = er_epoch_number epoch
             \<and> (mr_authority_peer_id record \<noteq> er_authority_peer_id epoch \<or> mr_authority_public_key record \<noteq> er_authority_public_key epoch)
           then bail ''membership authority does not match the accepted epoch'' else accept ()) (\<lambda>_ d.
     case load_membership_record world (dn_files d) of
       Inr current \<Rightarrow>
         if record = current then accepted d
         else then_ok (at_files (\<lambda>_. same_voter_extension H record current)) (\<lambda>_. publish) d
     | Inl _ \<Rightarrow>
         if mr_sequence record \<noteq> 1 \<or> mr_previous_membership_hash record \<noteq> None
         then bail ''non-genesis membership requires a joint membership certificate'' else publish d) d) d))"

section \<open>Configuration and solo history\<close>

definition handle_world_config :: "daemon_env \<Rightarrow> TransportPeerId \<Rightarrow> PeerId \<Rightarrow> WorldConfigV1 \<Rightarrow> daemon \<Rightarrow> (daemon, unit) handled" where
  "handle_world_config E transport sender config d =
    (let H = de_host E; world = wc_world_id config in
     demand DeCore (verify_world_config_signature H config) (\<lambda>_.
     check (load_world H world (dn_files d)) (\<lambda>metadata.
     check (load_world_descriptor world (dn_files d)) (\<lambda>descriptor.
     demand DeProtocol (compatibility_fingerprint H config) (\<lambda>declared.
     if declared \<noteq> gen_compatibility_fingerprint (md_genesis metadata) \<or> declared \<noteq> wd_compatibility_fingerprint descriptor
     then bail ''world config compatibility fingerprint does not match canonical genesis''
     else then_ok (at_files (authorize_member H world sender)) (\<lambda>_.
     then_ok (at_files (authorize_member H world (wc_authority_peer_id config))) (\<lambda>_.
     if sender \<noteq> wc_authority_peer_id config then (\<lambda>_. bail ''world config must be sent by its signed authority'')
     else then_ok (at_files (authorize_world_config_current_authority H sender config)) (\<lambda>_.
     then_plan (at_files (save_world_config H config)) (\<lambda>_.
     respond transport (RsWorldConfigAccepted (wc_sequence config)))))) d)))))"

definition handle_solo_branch :: "daemon_env \<Rightarrow> TransportPeerId \<Rightarrow> PeerId \<Rightarrow> SoloBranchV1 \<Rightarrow> daemon \<Rightarrow> (daemon, unit) handled" where
  "handle_solo_branch E transport sender branch d =
    (let H = de_host E; world = sb_world_id branch;
         accepted = respond transport RsSoloBranchAccepted;
         adopt = then_plan (at_files (save_solo_branch H branch)) (\<lambda>_. accepted) in
     demand DeCore (verify_solo_branch_signature H branch) (\<lambda>_.
     then_ok (at_files (authorize_member H world sender)) (\<lambda>_.
     then_ok (at_files (authorize_member H world (sb_authority_peer_id branch))) (\<lambda>_ d.
     if sender \<noteq> sb_authority_peer_id branch then bail ''solo branch must be sent by its signed authority''
     else case load_solo_branch world (dn_files d) of
       Inl _ \<Rightarrow> adopt d
     | Inr local \<Rightarrow> demand DeSolo (reconcile_solo_history local branch) (\<lambda>outcome.
         case outcome of
           Equivalent \<Rightarrow> accepted d
         | KeepLocal \<Rightarrow> accepted d
         | AdoptRemote \<Rightarrow> adopt d
         | SoloConflict \<Rightarrow>
             then_plan (at_files (preserve_solo_conflict H local)) (\<lambda>_.
             then_plan (at_files (preserve_solo_conflict H branch)) (\<lambda>_.
             respond transport (RsError ''SOLO_HISTORY_CONFLICT''
               ''independently advanced solo histories were preserved; manual resolution is required''))) d))) d))"

section \<open>Recovery\<close>

text \<open>The candidate has shown the exact canonical base, recently, and can host.\<close>

definition recovery_candidate_ready ::
    "daemon \<Rightarrow> nat \<Rightarrow> RecoveryBallotV1 \<Rightarrow> WorldDescriptorV1 \<Rightarrow> SnapshotManifestV1 \<Rightarrow> (DaemonError, unit) result" where
  "recovery_candidate_ready d now ballot descriptor latest =
    (let missing = Err (Refused ''recovery candidate is missing fresh authenticated canonical status'');
         candidate = rb_candidate_peer_id ballot in
     case dn_peer_status d candidate of
       None \<Rightarrow> missing
     | Some observed \<Rightarrow>
       if \<not> fresh now (os_observed_at observed) then missing
       else let status = os_status observed in
         if ws_world_id status \<noteq> rb_world_id ballot \<or> ws_epoch status \<noteq> rb_base_epoch ballot
           \<or> ws_sequence status \<noteq> sm_sequence latest
           \<or> ws_latest_snapshot status \<noteq> Some (rb_base_snapshot_hash ballot)
           \<or> ws_state_hash status \<noteq> Some (rb_base_state_hash ballot)
           \<or> ws_compatibility_fingerprint status \<noteq> wd_compatibility_fingerprint descriptor
         then Err (Refused ''recovery candidate status does not match the exact canonical base'')
         else if \<not> observed_host_candidate_ready d (rb_world_id ballot) candidate (wd_compatibility_fingerprint descriptor) now
         then Err (Refused ''recovery candidate lacks fresh runtime, mod, and conflict-free host capability'')
         else Ok ())"

text \<open>The accepted authority is gone: its lease is over and it is not connected, or it put the world to sleep.\<close>

definition authority_gone ::
    "daemon_env \<Rightarrow> nat \<Rightarrow> EpochRecordV1 \<Rightarrow> SnapshotManifestV1 \<Rightarrow> daemon \<Rightarrow> (daemon, unit) handled" where
  "authority_gone E now current latest =
    then_ok (at_files (load_sleep_record_fail_closed (de_host E) (er_world_id current))) (\<lambda>sleeping d.
    case sleeping of
      Some record \<Rightarrow> demand (\<lambda>e. e) (validate_sleep_recovery_base (de_host E) record current latest) (\<lambda>_. accept ())
    | None \<Rightarrow>
        if connected d (er_authority_peer_id current) then bail ''cannot vote for recovery while the accepted authority is connected''
        else if \<not> recovery_window_open d (epoch_generation current) now
        then bail ''cannot vote for recovery before the accepted authority lease expires''
        else accept ())"

definition check_recovery_ballot :: "daemon_env \<Rightarrow> moment \<Rightarrow> PeerId \<Rightarrow> RecoveryBallotV1 \<Rightarrow> daemon \<Rightarrow> (daemon, unit) handled" where
  "check_recovery_ballot E t sender ballot =
    (let H = de_host E; world = rb_world_id ballot in
     then_ok (at_files (ensure_no_membership_prepare H world)) (\<lambda>_ d.
     if sender \<noteq> rb_candidate_peer_id ballot then bail ''recovery ballot sender is not the signed candidate''
     else demand DeCore (verify_recovery_ballot_signature H ballot) (\<lambda>_.
     check (load_world_descriptor world (dn_files d)) (\<lambda>descriptor.
     some_or ''recovery candidate is not a member'' (WorldDescriptorV1_member descriptor (rb_candidate_peer_id ballot)) (\<lambda>candidate.
     if \<not> eligible_authority candidate (rb_candidate_public_key ballot)
     then bail ''recovery candidate is not authority eligible or its key does not match membership''
     else check (load_epoch_record world (dn_files d)) (\<lambda>current.
     demand DeGeneration (checked_next (epoch_generation current)) (\<lambda>expected.
     if rb_base_epoch ballot \<noteq> er_epoch_number current \<or> rb_base_fencing_token ballot \<noteq> er_fencing_token current
       \<or> rb_target_epoch ballot \<noteq> ag_epoch expected \<or> rb_target_fencing_token ballot \<noteq> ag_fencing_token expected
     then bail ''recovery ballot does not target the next accepted generation''
     else then_plan (at_files (latest_snapshot H world)) (\<lambda>found d.
       some_or ''recovery ballot has no canonical base snapshot'' found (\<lambda>latest.
       check (verify_snapshot_streaming H (de_zstd E) (de_pick E) (dn_files d) latest) (\<lambda>_.
       demand DeCore (verify_snapshot_signature H latest) (\<lambda>_.
       demand DeProtocol (manifest_hash H latest) (\<lambda>hash.
       if hash \<noteq> rb_base_snapshot_hash ballot \<or> sm_state_root latest \<noteq> rb_base_state_hash ballot
       then bail ''recovery ballot canonical base does not match the latest verified snapshot''
       else then_ok (authority_gone E (mo_now t) current latest) (\<lambda>_ d.
         demand (\<lambda>e. e) (recovery_candidate_ready d (mo_now t) ballot descriptor latest) (\<lambda>_.
         check (load_membership_record world (dn_files d)) (\<lambda>membership.
         demand DeCore (verify_membership_signature H membership) (\<lambda>_.
         demand DeProtocol (record_hash H membership) (\<lambda>membership_hash.
         if membership_hash \<noteq> rb_membership_hash ballot then bail ''recovery ballot membership hash is stale''
         else accept ()))))) d))))) d)))))))"

definition recovery_vote_for :: "daemon_env \<Rightarrow> RecoveryBallotV1 \<Rightarrow> (DaemonError, RecoveryVoteV1) result" where
  "recovery_vote_for E ballot =
    (let H = de_host E in
     and_then (map_err DeProtocol (ballot_hash H ballot)) (\<lambda>hash.
     map_err DeCore (sign_recovery_vote H (de_identity E) \<lparr>rv_protocol_version = PROTOCOL_VERSION, rv_world_id = rb_world_id ballot,
       rv_ballot_hash = hash, rv_base_epoch = rb_base_epoch ballot, rv_target_epoch = rb_target_epoch ballot,
       rv_round = rb_round ballot, rv_candidate_peer_id = rb_candidate_peer_id ballot, rv_voter_peer_id = de_peer E,
       rv_voter_public_key = de_key E, rv_signature = []\<rparr>)))"

definition handle_recovery_ballot ::
    "daemon_env \<Rightarrow> moment \<Rightarrow> TransportPeerId \<Rightarrow> PeerId \<Rightarrow> RecoveryBallotV1 \<Rightarrow> daemon \<Rightarrow> (daemon, unit) handled" where
  "handle_recovery_ballot E t transport sender ballot =
    then_ok (check_recovery_ballot E t sender ballot) (\<lambda>_ d.
    demand (\<lambda>e. e) (recovery_vote_for E ballot) (\<lambda>vote.
    then_plan (at_files (promise_recovery_ballot (de_host E) ballot vote)) (\<lambda>promised d.
    case promised of
      RecoveryAccepted \<Rightarrow> respond transport (RsRecoveryVote vote) d
    | RecoveryIdempotent \<Rightarrow> check (load_recovery_promise (de_host E) (rb_world_id ballot) (dn_files d)) (\<lambda>durable.
        respond transport (RsRecoveryVote (drp_vote durable)) d)
    | RecoveryRejected highest \<Rightarrow> respond transport (RsRecoveryRejected highest
        ''durable recovery promise rejects stale or conflicting ballot'') d) d))"

text \<open>The record directly extends the accepted one.\<close>

definition extends_epoch :: "host \<Rightarrow> EpochRecordV1 \<Rightarrow> EpochRecordV1 \<Rightarrow> string \<Rightarrow> (DaemonError, unit) result" where
  "extends_epoch H current record message =
    and_then (map_err DeGeneration (checked_next (epoch_generation current))) (\<lambda>expected.
    if er_epoch_number record \<noteq> ag_epoch expected \<or> er_fencing_token record \<noteq> ag_fencing_token expected
    then Err (Refused message)
    else and_then (map_err DeProtocol (epoch_record_hash H current)) (\<lambda>hash.
      if er_previous_epoch_hash record \<noteq> Some hash then Err (Refused message) else Ok ()))"

text \<open>No newer promise, and no other one of the same round.\<close>

definition promise_permits :: "host \<Rightarrow> WorldId \<Rightarrow> RecoveryCertificateV1 \<Rightarrow> world_files \<Rightarrow> (world_files, unit) handled" where
  "promise_permits H world certificate fs =
    (let round = rb_round (rcert_ballot certificate) in
     case load_recovery_promise H world fs of
       Inl _ \<Rightarrow> accept ()
     | Inr promise \<Rightarrow>
       if round < rb_round (drp_ballot promise) then bail ''certified recovery epoch is stale relative to a newer durable promise''
       else if rb_round (drp_ballot promise) = round then
         demand DeProtocol (ballot_hash H (drp_ballot promise)) (\<lambda>held.
         demand DeProtocol (ballot_hash H (rcert_ballot certificate)) (\<lambda>certified.
         if held \<noteq> certified then bail ''certified recovery epoch conflicts with this peer's durable same-round promise''
         else accept ()))
       else accept ())"

text \<open>What follows an accepted recovery epoch: the world is awake and the promise has served.\<close>

definition settle_recovery :: "daemon_env \<Rightarrow> EpochRecordV1 \<Rightarrow> daemon \<Rightarrow> (daemon, unit) handled" where
  "settle_recovery E record =
    then_plan (at_files clear_sleep_record) (\<lambda>_.
    then_ok clear_world_wake_request (\<lambda>_.
    then_plan (at_files (clear_recovery_promise_after_epoch_advance (de_host E) (er_world_id record) (er_epoch_number record))) (\<lambda>_ _.
    accept ())))"

text \<open>A certificate is stored with the world its ballot names.\<close>

definition handle_recovery_epoch ::
    "daemon_env \<Rightarrow> TransportPeerId \<Rightarrow> PeerId \<Rightarrow> EpochRecordV1 \<Rightarrow> RecoveryCertificateV1 \<Rightarrow> daemon \<Rightarrow> (daemon, unit) handled" where
  "handle_recovery_epoch E transport sender record certificate =
    (let H = de_host E; world = er_world_id record;
         accepted = respond transport (RsEpochAccepted (er_epoch_number record) (er_fencing_token record));
         adopt = then_ok (at_files (promise_permits H world certificate)) (\<lambda>_.
           then_plan (at_files (store_plan (de_store E) (OpSaveRecoveryCertificate certificate))) (\<lambda>_.
           then_plan (at_files (save_epoch_record H record)) (\<lambda>_.
           then_ok (settle_recovery E record) (\<lambda>_.
           then_ok (remember (\<lambda>d. d\<lparr>dn_inbound_lease := None\<rparr>)) (\<lambda>_. accepted))))) in
     then_ok (at_files (ensure_no_membership_prepare H world)) (\<lambda>_.
     then_ok (at_files (validate_recovery_epoch H sender record certificate)) (\<lambda>_ d.
     case load_epoch_record world (dn_files d) of
       Inl _ \<Rightarrow> adopt d
     | Inr current \<Rightarrow>
       if record = current then
         then_plan (at_files (store_plan (de_store E) (OpSaveRecoveryCertificate certificate))) (\<lambda>_.
         then_ok (settle_recovery E record) (\<lambda>_. accepted)) d
       else demand (\<lambda>e. e) (extends_epoch H current record ''certified recovery epoch does not directly extend the accepted epoch'') (\<lambda>_.
         adopt d))))"

section \<open>Epochs, transfers, leases and sleep\<close>

definition handle_epoch :: "daemon_env \<Rightarrow> TransportPeerId \<Rightarrow> PeerId \<Rightarrow> EpochRecordV1 \<Rightarrow> daemon \<Rightarrow> (daemon, unit) handled" where
  "handle_epoch E transport sender record =
    (let H = de_host E; world = er_world_id record;
         accepted = respond transport (RsEpochAccepted (er_epoch_number record) (er_fencing_token record));
         adopt = then_plan (at_files (save_epoch_record H record)) (\<lambda>_.
           then_plan (at_files clear_sleep_record) (\<lambda>_. accepted)) in
     then_ok (at_files (ensure_no_membership_prepare H world)) (\<lambda>_ d.
     if er_mode record = Recovery then bail ''recovery epoch requires a durable quorum certificate''
     else then_ok (at_files (authorize_epoch H sender record)) (\<lambda>_ d.
       case load_epoch_record world (dn_files d) of
         Inr current \<Rightarrow>
           if record = current then accepted d
           else demand (\<lambda>e. e) (extends_epoch H current record ''epoch and fencing token must advance exactly once from the accepted epoch'') (\<lambda>_.
             then_ok (at_files (validate_non_recovery_epoch_transition H current record)) (\<lambda>_. adopt) d)
       | Inl _ \<Rightarrow> then_plan (at_files (latest_snapshot H world)) (\<lambda>latest.
           if (case latest of None \<Rightarrow> False | Some latest \<Rightarrow> er_epoch_number record < sm_epoch latest \<or> er_fencing_token record = 0)
           then (\<lambda>_. bail ''epoch record is older than the local canonical snapshot'') else adopt) d) d))"

definition handle_authority_transfer :: "daemon_env \<Rightarrow> TransportPeerId \<Rightarrow> AuthorityTransferV1 \<Rightarrow> daemon \<Rightarrow> (daemon, unit) handled" where
  "handle_authority_transfer E transport transfer =
    (let H = de_host E; world = at_world_id transfer in
     then_ok (at_files (ensure_no_membership_prepare H world)) (\<lambda>_ d.
     demand DeCore (verify_transfer_signature H transfer) (\<lambda>_.
     then_ok (at_files (authorize_member H world (at_signer_peer_id transfer))) (\<lambda>_.
     then_ok (at_files (validate_transfer H transfer)) (\<lambda>_.
     then_plan (at_files (save_transfer_record H transfer)) (\<lambda>_.
     respond transport RsTransferAccepted))) d)))"

definition handle_lease_grant ::
    "daemon_env \<Rightarrow> moment \<Rightarrow> TransportPeerId \<Rightarrow> PeerId \<Rightarrow> AuthorityLeaseGrantV1 \<Rightarrow> daemon \<Rightarrow> (daemon, unit) handled" where
  "handle_lease_grant E t transport sender lease =
    (let H = de_host E; world = lg_world_id lease; received = AuthorityGeneration (lg_epoch lease) (lg_fencing_token lease) in
     then_ok (at_files (ensure_no_membership_prepare H world)) (\<lambda>_ d.
     demand DeCore (verify_lease_signature H lease) (\<lambda>_.
     if sender \<noteq> lg_authority_peer_id lease then bail ''lease sender is not the signed authority''
     else then_ok (at_files (authorize_member H world (lg_authority_peer_id lease))) (\<lambda>_ d.
       check (load_world_descriptor world (dn_files d)) (\<lambda>descriptor.
       some_or ''lease authority is not a member'' (WorldDescriptorV1_member descriptor (lg_authority_peer_id lease)) (\<lambda>m.
       if \<not> eligible_authority m (lg_authority_public_key lease)
       then bail ''lease authority is not eligible or key does not match membership''
       else if lg_lease_duration_ms lease \<noteq> AUTHORITY_LEASE_DURATION_MS then bail ''lease duration does not match the authority policy''
       else check (load_epoch_record world (dn_files d)) (\<lambda>epoch.
         if received \<noteq> epoch_generation epoch
         then bail ''future authority generations require a recovery ballot, not a lease reservation''
         else if lg_authority_peer_id lease \<noteq> er_authority_peer_id epoch \<or> lg_authority_public_key lease \<noteq> er_authority_public_key epoch
         then bail ''lease does not match the accepted authority epoch''
         else let expires_at = mo_now t + unat (lg_lease_duration_ms lease) in
           then_ok (remember (\<lambda>d. d\<lparr>dn_inbound_lease := Some \<lparr>il_generation = epoch_generation epoch, il_expires_at = expires_at\<rparr>,
             dn_recovery_not_before := Some (expires_at + RECOVERY_SETTLE_DELAY)\<rparr>)) (\<lambda>_.
           respond transport (RsLeaseAccepted (lg_epoch lease) (lg_fencing_token lease))) d)))) d)))"

definition handle_sleep :: "daemon_env \<Rightarrow> TransportPeerId \<Rightarrow> PeerId \<Rightarrow> SleepRecordV1 \<Rightarrow> daemon \<Rightarrow> (daemon, unit) handled" where
  "handle_sleep E transport sender record =
    (let H = de_host E; world = sl_world_id record in
     then_ok (at_files (ensure_no_membership_prepare H world)) (\<lambda>_ d.
     if sender \<noteq> sl_authority_peer_id record then bail ''sleep sender is not the signed authority''
     else demand DeCore (verify_sleep_record_signature H record) (\<lambda>_.
     then_ok (at_files (authorize_member H world (sl_authority_peer_id record))) (\<lambda>_ d.
     check (load_world_descriptor world (dn_files d)) (\<lambda>descriptor.
     some_or ''sleep authority is not a member'' (WorldDescriptorV1_member descriptor (sl_authority_peer_id record)) (\<lambda>m.
     if \<not> eligible_authority m (sl_authority_public_key record)
     then bail ''sleep authority is not eligible or key does not match membership''
     else check (load_epoch_record world (dn_files d)) (\<lambda>epoch.
       if sl_epoch record \<noteq> er_epoch_number epoch \<or> sl_fencing_token record \<noteq> er_fencing_token epoch
         \<or> sl_authority_peer_id record \<noteq> er_authority_peer_id epoch
       then bail ''sleep record does not match the accepted authority generation''
       else then_plan (at_files (latest_snapshot H world)) (\<lambda>found d.
         some_or ''cannot sleep a world without a snapshot'' found (\<lambda>latest.
         demand DeProtocol (manifest_hash H latest) (\<lambda>hash.
         if hash \<noteq> sl_latest_snapshot_hash record then bail ''sleep record does not reference the exact latest snapshot''
         else then_plan (at_files (save_sleep_record H record)) (\<lambda>_.
           respond transport (RsSleepAccepted (sl_epoch record) (sl_fencing_token record))) d))) d)))) d)))"

section \<open>The dispatcher\<close>

definition handle_host_capability :: "daemon_env \<Rightarrow> moment \<Rightarrow> TransportPeerId \<Rightarrow> daemon \<Rightarrow> (daemon, unit) handled" where
  "handle_host_capability E t transport =
    then_ok (local_recovery_quorum_without_authority E (mo_now t)) (\<lambda>recovery_quorum.
    then_ok (at_files (local_host_capability (de_host E) (mo_machine t) (de_world E) recovery_quorum)) (\<lambda>capability.
    respond transport (RsHostCapability capability)))"

definition dispatch_request ::
    "daemon_env \<Rightarrow> moment \<Rightarrow> TransportPeerId \<Rightarrow> PeerId \<Rightarrow> WireRequest \<Rightarrow> daemon \<Rightarrow> (daemon, unit) handled" where
  "dispatch_request E t transport sender request = (let
      discovery = respond transport (RsError ''DISCOVERY_ENDPOINT_REQUIRED'' ''discovery requests are handled by the discovery service'');
      handshake = (\<lambda>_. bail ''application handshake requests are handled by the network authentication layer'')
    in case request of
      RqPing nonce \<Rightarrow> respond transport (RsPong nonce)
    | RqWorldStatus _ \<Rightarrow> then_ok (at_files (world_status E)) (\<lambda>status. respond transport (RsWorldStatus status))
    | RqHostCapability _ \<Rightarrow> handle_host_capability E t transport
    | RqWorldDescriptor world \<Rightarrow> (\<lambda>d. respond transport (RsWorldDescriptor (result_ok (load_world_descriptor world (dn_files d)))) d)
    | RqJoinRequest join \<Rightarrow> handle_join_request E t transport sender join
    | RqLeaveRequest leave \<Rightarrow> handle_leave_request E transport sender leave
    | RqSnapshotManifest manifest \<Rightarrow> handle_snapshot_manifest E transport sender manifest
    | RqBlobChunk world hash encoding offset data finished \<Rightarrow> handle_blob_chunk E transport sender world hash encoding offset data finished
    | RqMissingBlobs world number hashes \<Rightarrow> handle_missing_blobs E transport sender world number hashes
    | RqReplicaAck ack \<Rightarrow> handle_replica_ack E transport sender ack
    | RqMembershipProposal proposal \<Rightarrow> handle_membership_proposal E t transport sender proposal
    | RqMembershipCommit certificate \<Rightarrow> handle_membership_commit E t transport sender certificate
    | RqMembership record \<Rightarrow> handle_membership E transport sender record
    | RqWorldConfig config \<Rightarrow> handle_world_config E transport sender config
    | RqSoloBranch branch \<Rightarrow> handle_solo_branch E transport sender branch
    | RqRecoveryBallot ballot \<Rightarrow> handle_recovery_ballot E t transport sender ballot
    | RqRecoveryEpoch record certificate \<Rightarrow> handle_recovery_epoch E transport sender record certificate
    | RqEpoch record \<Rightarrow> handle_epoch E transport sender record
    | RqAuthorityTransfer transfer \<Rightarrow> handle_authority_transfer E transport transfer
    | RqLeaseGrant lease \<Rightarrow> handle_lease_grant E t transport sender lease
    | RqSleep record \<Rightarrow> handle_sleep E transport sender record
    | RqDiscoveryPublic _ \<Rightarrow> discovery
    | RqDiscoveryResolve _ \<Rightarrow> discovery
    | RqFriendPresence _ _ _ \<Rightarrow> discovery
    | RqDiscoveryFreshnessContext _ _ _ _ _ _ \<Rightarrow> discovery
    | RqDiscoveryFreshnessVote _ \<Rightarrow> discovery
    | RqHello _ \<Rightarrow> handshake
    | RqHelloChallenge _ \<Rightarrow> handshake
    | RqHelloProof _ \<Rightarrow> handshake)"

definition handle_request ::
    "daemon_env \<Rightarrow> moment \<Rightarrow> TransportPeerId \<Rightarrow> PeerId \<Rightarrow> WireRequest \<Rightarrow> daemon \<Rightarrow> (daemon, unit) handled" where
  "handle_request E t transport sender request =
    then_ok (case membership_world_id request of
        None \<Rightarrow> (\<lambda>_. accept ())
      | Some world \<Rightarrow> at_files (authorize_member (de_host E) world sender)) (\<lambda>_.
    dispatch_request E t transport sender request)"

text \<open>The world a request is about.\<close>

definition request_world :: "WireRequest \<Rightarrow> WorldId option" where
  "request_world request = (case request of
      RqJoinRequest join \<Rightarrow> Some (jr_world_id join)
    | RqMembershipProposal proposal \<Rightarrow> Some (mr_world_id (mp_proposed proposal))
    | RqMembershipCommit certificate \<Rightarrow> Some (certificate_world certificate)
    | _ \<Rightarrow> membership_world_id request)"

end
