(* ===== verification/DaemonResponses.thy ===== *)
theory DaemonResponses
  imports DaemonRequests
begin

text \<open>
  What a daemon does with the answers to its own requests, and when a connection opens, fails or closes:
  \<open>handle_response\<close>, the replication pump and the event loop of \<open>swarm-cli/src/daemon.rs\<close>.
\<close>

section \<open>Sending blobs\<close>

definition drop_replication :: "TransportPeerId \<Rightarrow> daemon \<Rightarrow> daemon" where
  "drop_replication transport d = d\<lparr>dn_replications := AList.delete transport (dn_replications d)\<rparr>"

definition change_replication :: "TransportPeerId \<Rightarrow> (ReplicationState \<Rightarrow> ReplicationState) \<Rightarrow> daemon \<Rightarrow> daemon" where
  "change_replication transport f d = d\<lparr>dn_replications := AList.map_entry transport f (dn_replications d)\<rparr>"

text \<open>One transfer goes on: blobs that are complete are passed over, the next chunk of the first other one is sent.\<close>

primrec pump_chunks :: "daemon_env \<Rightarrow> TransportPeerId \<Rightarrow> u64 \<Rightarrow> BlobResumeV1 list \<Rightarrow> daemon \<Rightarrow> (daemon, unit) handled" where
  "pump_chunks E transport number [] d = remember (drop_replication transport) d"
| "pump_chunks E transport number (resume # rest) d =
    then_plan (at_files (load_snapshot (de_host E) (de_world E) number)) (\<lambda>manifest d.
    some_or ''pending replication blob is not referenced by its snapshot manifest'' (find_descriptor manifest (br_hash resume)) (\<lambda>descriptor.
    if bd_encoded_size descriptor < br_offset resume then
      then_ok (remember (drop_replication transport)) (\<lambda>_ _. bail ''pending replication offset exceeds the encoded blob size'') d
    else if br_offset resume = bd_encoded_size descriptor then
      then_ok (remember (change_replication transport (\<lambda>r. r\<lparr>rs_pending := rest\<rparr>))) (\<lambda>_. pump_chunks E transport number rest) d
    else demand DeReplication (read_encoded_blob_chunk descriptor (br_offset resume) MAX_BLOB_CHUNK (dn_files d)) (\<lambda>(data, finished).
      some_or ''blob replication offset overflow'' (add_len (br_offset resume) data) (\<lambda>next_offset.
      then_ok (send_tracked transport (RqBlobChunk (de_world E) (bd_hash descriptor) (bd_encoding descriptor) (br_offset resume) data finished)
          (BlobChunkContext number (bd_hash descriptor) next_offset finished)) (\<lambda>_.
      remember (change_replication transport (\<lambda>r. r\<lparr>rs_in_flight := True, rs_retry_at := None\<rparr>))) d)))) d"

definition send_next_replication_chunk :: "daemon_env \<Rightarrow> nat \<Rightarrow> TransportPeerId \<Rightarrow> daemon \<Rightarrow> (daemon, unit) handled" where
  "send_next_replication_chunk E now transport d =
    (case map_of (dn_replications d) transport of
       None \<Rightarrow> accept ()
     | Some r \<Rightarrow>
       if rs_in_flight r \<or> (case rs_retry_at r of None \<Rightarrow> False | Some retry_at \<Rightarrow> now < retry_at) then accept ()
       else pump_chunks E transport (rs_snapshot_number r) (rs_pending r) d)"

definition retry_due_replication :: "daemon_env \<Rightarrow> nat \<Rightarrow> daemon \<Rightarrow> (daemon, unit) handled" where
  "retry_due_replication E now d =
    each (\<lambda>transport d.
      if transport \<in> set (map fst (dn_authenticated_peers d)) then send_next_replication_chunk E now transport d
      else remember (drop_replication transport) d)
      (map fst (filter (\<lambda>(_, r). \<not> rs_in_flight r \<and> (case rs_retry_at r of None \<Rightarrow> False | Some retry_at \<Rightarrow> retry_at \<le> now))
        (dn_replications d))) d"

section \<open>Answers\<close>

definition manifest_accepted ::
    "daemon_env \<Rightarrow> nat \<Rightarrow> TransportPeerId \<Rightarrow> u64 \<Rightarrow> u64 \<Rightarrow> BlobResumeV1 list \<Rightarrow> daemon \<Rightarrow> (daemon, unit) handled" where
  "manifest_accepted E now transport number accepted missing d =
    (if accepted \<noteq> number then bail ''manifest response snapshot number mismatch''
     else then_plan (at_files (load_snapshot (de_host E) (de_world E) number)) (\<lambda>manifest d.
       then_ok (each (\<lambda>resume _.
           some_or ''peer requested blob not referenced by manifest'' (find_descriptor manifest (br_hash resume)) (\<lambda>descriptor.
           if bd_encoded_size descriptor < br_offset resume then bail ''peer requested blob resume offset beyond encoded size''
           else accept ())) missing) (\<lambda>_.
       if missing = [] then remember (drop_replication transport)
       else then_ok (remember (\<lambda>d. d\<lparr>dn_replications := AList.update transport
             \<lparr>rs_snapshot_number = number, rs_pending = missing, rs_in_flight = False, rs_retry_at = None\<rparr> (dn_replications d)\<rparr>)) (\<lambda>_.
         send_next_replication_chunk E now transport)) d) d)"

definition blob_chunk_accepted ::
    "daemon_env \<Rightarrow> nat \<Rightarrow> TransportPeerId \<Rightarrow> u64 \<Rightarrow> Hash32 \<Rightarrow> u64 \<Rightarrow> bool \<Rightarrow> Hash32 \<Rightarrow> u64 \<Rightarrow> daemon \<Rightarrow> (daemon, unit) handled" where
  "blob_chunk_accepted E now transport number hash next_offset finished accepted_hash accepted_offset d =
    (let give_up = (\<lambda>message. then_ok (remember (drop_replication transport)) (\<lambda>_ _. bail message) d) in
     if accepted_hash \<noteq> hash \<or> accepted_offset \<noteq> next_offset
     then give_up ''blob chunk acknowledgement does not match the in-flight chunk''
     else case map_of (dn_replications d) transport of
       None \<Rightarrow> accept ()
     | Some r \<Rightarrow>
       if rs_snapshot_number r \<noteq> number then give_up ''blob chunk acknowledgement references a superseded snapshot''
       else case rs_pending r of
         [] \<Rightarrow> give_up ''blob chunk acknowledgement arrived without pending replication state''
       | resume # rest \<Rightarrow>
         if br_hash resume \<noteq> hash \<or> accepted_offset \<le> br_offset resume
         then give_up ''blob chunk acknowledgement does not advance the negotiated blob''
         else then_ok (remember (change_replication transport (\<lambda>r. r\<lparr>rs_in_flight := False, rs_retry_at := None,
             rs_pending := (if finished then rest else resume\<lparr>br_offset := accepted_offset\<rparr> # rest)\<rparr>))) (\<lambda>_.
           send_next_replication_chunk E now transport) d)"

definition validate_generation_response :: "AuthorityGeneration \<Rightarrow> u64 \<Rightarrow> u64 \<Rightarrow> (DaemonError, unit) result" where
  "validate_generation_response generation epoch fencing_token =
    (if epoch \<noteq> ag_epoch generation \<or> fencing_token \<noteq> ag_fencing_token generation
     then Err (Refused ''acknowledgement generation mismatch'') else Ok ())"

text \<open>The first acknowledged lease of a recovered world is followed by its membership and its snapshot.\<close>

definition lease_accepted ::
    "daemon_env \<Rightarrow> nat \<Rightarrow> TransportPeerId \<Rightarrow> PeerId \<Rightarrow> AuthorityGeneration \<Rightarrow> u64 \<Rightarrow> u64 \<Rightarrow> daemon \<Rightarrow> (daemon, unit) handled" where
  "lease_accepted E now transport peer generation epoch fencing_token d =
    demand (\<lambda>e. e) (validate_generation_response generation epoch fencing_token) (\<lambda>_.
    then_ok (remember (\<lambda>d. d\<lparr>dn_lease_acks := (dn_lease_acks d)(peer \<mapsto> \<lparr>la_generation = generation, la_observed_at = now\<rparr>)\<rparr>)) (\<lambda>_ d.
    case load_epoch_record (de_world E) (dn_files d) of
      Inl _ \<Rightarrow> accept ()
    | Inr record \<Rightarrow>
      if er_mode record = Recovery \<and> epoch_generation record = generation \<and> peer \<notin> dn_recovery_replication_sent d then
        then_ok (remember (\<lambda>d. d\<lparr>dn_recovery_replication_sent := insert peer (dn_recovery_replication_sent d)\<rparr>)) (\<lambda>_.
        then_ok (push_record (load_membership_record (de_world E)) RqMembership transport) (\<lambda>_.
        then_plan (at_files (latest_snapshot (de_host E) (de_world E))) (\<lambda>latest d.
          case latest of
            None \<Rightarrow> accept ()
          | Some manifest \<Rightarrow>
              if sm_epoch manifest = ag_epoch generation then send_only transport (RqSnapshotManifest manifest) d else accept ()))) d
      else accept ()) d)"

definition recovery_vote_received ::
    "daemon_env \<Rightarrow> PeerId \<Rightarrow> Hash32 \<Rightarrow> RecoveryVoteV1 \<Rightarrow> daemon \<Rightarrow> (daemon, unit) handled" where
  "recovery_vote_received E peer hash vote d =
    (let H = de_host E in
     demand DeCore (verify_recovery_vote_signature H vote) (\<lambda>_.
     case dn_recovery_ballot d of
       None \<Rightarrow> accept ()
     | Some ballot \<Rightarrow>
       let stray = bail ''recovery vote does not match the active ballot or authenticated peer'' in
       demand DeProtocol (ballot_hash H ballot) (\<lambda>active.
       if active \<noteq> hash then stray
       else demand DeProtocol (matches_ballot H vote ballot) (\<lambda>matches.
         if \<not> matches \<or> rv_voter_peer_id vote \<noteq> peer then stray
         else remember (\<lambda>d. d\<lparr>dn_recovery_votes := AList.update peer vote (dn_recovery_votes d)\<rparr>) d))))"

definition recovery_rejected :: "daemon_env \<Rightarrow> Hash32 \<Rightarrow> u64 \<Rightarrow> daemon \<Rightarrow> (daemon, unit) handled" where
  "recovery_rejected E hash highest d =
    (let active_round = (case dn_recovery_ballot d of
         None \<Rightarrow> 0
       | Some ballot \<Rightarrow> if ballot_hash (de_host E) ballot = Ok hash then rb_round ballot else 0) in
     if active_round \<le> highest then
       remember (\<lambda>d. d\<lparr>dn_recovery_round_floor := Some (case dn_recovery_round_floor d of None \<Rightarrow> highest | Some r \<Rightarrow> max r highest),
         dn_recovery_ballot := None, dn_recovery_votes := []\<rparr>) d
     else accept ())"

definition membership_vote_received ::
    "daemon_env \<Rightarrow> PeerId \<Rightarrow> Hash32 \<Rightarrow> MembershipVoteV1 \<Rightarrow> daemon \<Rightarrow> (daemon, unit) handled" where
  "membership_vote_received E peer hash vote d =
    (let H = de_host E in
     demand (\<lambda>e. e) (verify_membership_vote_signature H vote) (\<lambda>_.
     case load_membership_promise H (de_world E) (dn_files d) of
       Inl _ \<Rightarrow> accept ()
     | Inr promise \<Rightarrow>
       let stray = bail ''membership vote does not match the active proposal or authenticated peer'' in
       demand DeProtocol (proposal_hash H (dmp_proposal promise)) (\<lambda>active.
       if active \<noteq> hash then stray
       else demand DeProtocol (matches_proposal H vote (dmp_proposal promise)) (\<lambda>matches.
         if \<not> matches \<or> mv_voter_peer_id vote \<noteq> peer then stray
         else remember (\<lambda>d. d\<lparr>dn_membership_votes := AList.update peer vote (dn_membership_votes d)\<rparr>) d))))"

definition membership_commit_accepted ::
    "daemon_env \<Rightarrow> TransportPeerId \<Rightarrow> PeerId \<Rightarrow> u64 \<Rightarrow> u64 \<Rightarrow> daemon \<Rightarrow> (daemon, unit) handled" where
  "membership_commit_accepted E transport peer number accepted d =
    (if accepted \<noteq> number then bail ''membership commit acknowledgement sequence mismatch''
     else check (load_world_descriptor (de_world E) (dn_files d)) (\<lambda>descriptor.
       case WorldDescriptorV1_member descriptor peer of
         None \<Rightarrow> accept ()
       | Some m \<Rightarrow> if wm_banned m then accept () else push_committed_world_payload E transport False d))"

definition observe_status :: "daemon_env \<Rightarrow> nat \<Rightarrow> PeerId \<Rightarrow> WorldStatusV1 option \<Rightarrow> daemon \<Rightarrow> (daemon, unit) handled" where
  "observe_status E now peer status =
    (case status of
       None \<Rightarrow> remember (\<lambda>d. d\<lparr>dn_peer_status := (dn_peer_status d)(peer := None)\<rparr>)
     | Some s \<Rightarrow>
       if ws_world_id s \<noteq> de_world E then (\<lambda>_. bail ''world status response references the wrong world'')
       else remember (\<lambda>d. d\<lparr>dn_peer_status := (dn_peer_status d)(peer \<mapsto> \<lparr>os_status = s, os_observed_at = now\<rparr>)\<rparr>))"

definition observe_capability :: "daemon_env \<Rightarrow> nat \<Rightarrow> PeerId \<Rightarrow> HostCapabilityV1 option \<Rightarrow> daemon \<Rightarrow> (daemon, unit) handled" where
  "observe_capability E now peer capability =
    (case capability of
       None \<Rightarrow> remember (\<lambda>d. d\<lparr>dn_peer_capability := (dn_peer_capability d)(peer := None)\<rparr>)
     | Some c \<Rightarrow>
       if hc_world_id c \<noteq> de_world E then (\<lambda>_. bail ''host-capability response references the wrong world'')
       else remember (\<lambda>d. d\<lparr>dn_peer_capability := (dn_peer_capability d)(peer \<mapsto> \<lparr>oc_capability = c, oc_observed_at = now\<rparr>)\<rparr>))"

text \<open>A chunk that was turned away: kept for a later attempt when the peer was busy, given up otherwise.\<close>

definition chunk_refused :: "nat \<Rightarrow> TransportPeerId \<Rightarrow> u64 \<Rightarrow> string \<Rightarrow> daemon \<Rightarrow> (daemon, unit) handled" where
  "chunk_refused now transport number code =
    (if code = ''RATE_LIMITED'' then remember (change_replication transport (\<lambda>r.
         if rs_snapshot_number r = number then r\<lparr>rs_in_flight := False, rs_retry_at := Some (now + REPLICATION_RATE_LIMIT_BACKOFF)\<rparr> else r))
     else remember (drop_replication transport))"

definition handle_response ::
    "daemon_env \<Rightarrow> nat \<Rightarrow> TransportPeerId \<Rightarrow> OutboundContext option \<Rightarrow> WireResponse \<Rightarrow> daemon \<Rightarrow> (daemon, unit) handled" where
  "handle_response E now transport context response = (case context of
      None \<Rightarrow> (\<lambda>_. accept ())
    | Some (ManifestContext number) \<Rightarrow> (case response of
        RsManifestAccepted accepted missing \<Rightarrow> manifest_accepted E now transport number accepted missing
      | _ \<Rightarrow> (\<lambda>_. accept ()))
    | Some (BlobChunkContext number hash next_offset finished) \<Rightarrow> (case response of
        RsBlobChunkAccepted accepted_hash accepted_offset \<Rightarrow>
          blob_chunk_accepted E now transport number hash next_offset finished accepted_hash accepted_offset
      | RsError code message \<Rightarrow> chunk_refused now transport number code
      | _ \<Rightarrow> (\<lambda>_. accept ()))
    | Some (LeaseContext peer generation) \<Rightarrow> (case response of
        RsLeaseAccepted epoch fencing_token \<Rightarrow> lease_accepted E now transport peer generation epoch fencing_token
      | _ \<Rightarrow> (\<lambda>_. accept ()))
    | Some (RecoveryBallotContext peer hash) \<Rightarrow> (case response of
        RsRecoveryVote vote \<Rightarrow> recovery_vote_received E peer hash vote
      | RsRecoveryRejected highest reason \<Rightarrow> recovery_rejected E hash highest
      | _ \<Rightarrow> (\<lambda>_. accept ()))
    | Some (MembershipProposalContext peer hash) \<Rightarrow> (case response of
        RsMembershipVote vote \<Rightarrow> membership_vote_received E peer hash vote
      | _ \<Rightarrow> (\<lambda>_. accept ()))
    | Some (MembershipCommitContext peer number) \<Rightarrow> (case response of
        RsMembershipCommitAccepted accepted \<Rightarrow> membership_commit_accepted E transport peer number accepted
      | _ \<Rightarrow> (\<lambda>_. accept ()))
    | Some (EpochContext peer generation) \<Rightarrow> (case response of
        RsEpochAccepted epoch fencing_token \<Rightarrow> (\<lambda>d.
          demand (\<lambda>e. e) (validate_generation_response generation epoch fencing_token) (\<lambda>_.
          remember (\<lambda>d. d\<lparr>dn_epoch_acks := (dn_epoch_acks d)(peer \<mapsto> generation)\<rparr>) d))
      | _ \<Rightarrow> (\<lambda>_. accept ()))
    | Some (StatusContext peer) \<Rightarrow> (case response of
        RsWorldStatus status \<Rightarrow> observe_status E now peer status
      | _ \<Rightarrow> (\<lambda>_. accept ()))
    | Some (HostCapabilityContext peer) \<Rightarrow> (case response of
        RsHostCapability capability \<Rightarrow> observe_capability E now peer capability
      | _ \<Rightarrow> (\<lambda>_. accept ())))"

section \<open>Connections\<close>

definition forget_peer_state :: "PeerId \<Rightarrow> daemon \<Rightarrow> daemon" where
  "forget_peer_state peer d = d\<lparr>dn_lease_acks := (dn_lease_acks d)(peer := None),
    dn_recovery_votes := AList.delete peer (dn_recovery_votes d),
    dn_membership_votes := AList.delete peer (dn_membership_votes d),
    dn_epoch_acks := (dn_epoch_acks d)(peer := None),
    dn_peer_status := (dn_peer_status d)(peer := None),
    dn_peer_capability := (dn_peer_capability d)(peer := None)\<rparr>"

definition peer_disconnected :: "TransportPeerId \<Rightarrow> daemon \<Rightarrow> daemon" where
  "peer_disconnected transport d =
    drop_replication transport (case map_of (dn_authenticated_peers d) transport of
        None \<Rightarrow> d
      | Some peer \<Rightarrow> forget_peer_state peer (d\<lparr>dn_authenticated_peers := AList.delete transport (dn_authenticated_peers d)\<rparr>))"

definition request_failed :: "TransportPeerId \<Rightarrow> nat \<Rightarrow> daemon \<Rightarrow> daemon" where
  "request_failed transport number d =
    (let closed = d\<lparr>dn_outbound := AList.delete number (dn_outbound d)\<rparr> in
     case map_of (dn_outbound d) number of
       None \<Rightarrow> closed
     | Some context \<Rightarrow> (case context of
         LeaseContext peer _ \<Rightarrow> closed\<lparr>dn_lease_acks := (dn_lease_acks d)(peer := None)\<rparr>
       | RecoveryBallotContext peer _ \<Rightarrow> closed\<lparr>dn_recovery_votes := AList.delete peer (dn_recovery_votes d)\<rparr>
       | MembershipProposalContext peer _ \<Rightarrow> closed\<lparr>dn_membership_votes := AList.delete peer (dn_membership_votes d)\<rparr>
       | MembershipCommitContext _ _ \<Rightarrow> closed
       | EpochContext peer _ \<Rightarrow> closed\<lparr>dn_epoch_acks := (dn_epoch_acks d)(peer := None)\<rparr>
       | StatusContext peer \<Rightarrow> closed\<lparr>dn_peer_status := (dn_peer_status d)(peer := None)\<rparr>
       | HostCapabilityContext peer \<Rightarrow> closed\<lparr>dn_peer_capability := (dn_peer_capability d)(peer := None)\<rparr>
       | ManifestContext _ \<Rightarrow> closed
       | BlobChunkContext _ _ _ _ \<Rightarrow> drop_replication transport closed))"

definition peer_authenticated :: "daemon_env \<Rightarrow> TransportPeerId \<Rightarrow> PeerId \<Rightarrow> daemon \<Rightarrow> (daemon, unit) handled" where
  "peer_authenticated E transport peer =
    then_ok (remember (\<lambda>d. d\<lparr>dn_authenticated_peers := AList.update transport peer (dn_authenticated_peers d)\<rparr>)) (\<lambda>_.
    then_ok (push_pending_membership_requests E transport peer) (\<lambda>_.
    push_known_worlds E transport peer))"

text \<open>An answer to request \<open>number\<close>; \<open>peer\<close> is the identity the network layer has authenticated, if any.\<close>

definition receive_response ::
    "daemon_env \<Rightarrow> nat \<Rightarrow> TransportPeerId \<Rightarrow> PeerId option \<Rightarrow> nat \<Rightarrow> WireResponse \<Rightarrow> daemon \<Rightarrow> (daemon, unit) handled" where
  "receive_response E now transport peer number response =
    then_ok (case response of
        RsHelloAccepted _ \<Rightarrow> (case peer of None \<Rightarrow> (\<lambda>_. accept ()) | Some p \<Rightarrow> peer_authenticated E transport p)
      | _ \<Rightarrow> (\<lambda>_. accept ())) (\<lambda>_ d.
    then_ok (remember (\<lambda>d. d\<lparr>dn_outbound := AList.delete number (dn_outbound d)\<rparr>)) (\<lambda>_.
    handle_response E now transport (map_of (dn_outbound d) number) response) d)"

end
