(* ===== verification/DaemonTick.thy ===== *)
theory DaemonTick
  imports DaemonResponses
begin

text \<open>
  The periodic maintenance of the daemon, \<open>maintain_authority_leases\<close> of \<open>swarm-cli/src/daemon.rs\<close>, for one world:
  it finishes a membership transition, keeps the authority's lease and permit, or drives a recovery ballot.
\<close>

section \<open>Asking the members\<close>

definition request_world_statuses :: "daemon_env \<Rightarrow> WorldDescriptorV1 \<Rightarrow> daemon \<Rightarrow> (daemon, unit) handled" where
  "request_world_statuses E descriptor d =
    check (load_world (de_host E) (wd_world_id descriptor) (dn_files d)) (\<lambda>_.
    each (\<lambda>(transport, peer) d.
      if peer = de_peer E \<or> WorldDescriptorV1_member descriptor peer = None \<or> has_context d (StatusContext peer) then accept ()
      else send_tracked transport (RqWorldStatus (wd_world_id descriptor)) (StatusContext peer) d) (dn_authenticated_peers d) d)"

definition request_host_capabilities :: "daemon_env \<Rightarrow> WorldDescriptorV1 \<Rightarrow> daemon \<Rightarrow> (daemon, unit) handled" where
  "request_host_capabilities E descriptor d =
    each (\<lambda>(transport, peer) d.
      if peer = de_peer E then accept ()
      else case WorldDescriptorV1_member descriptor peer of
        None \<Rightarrow> accept ()
      | Some m \<Rightarrow>
          if wm_banned m \<or> has_context d (HostCapabilityContext peer) then accept ()
          else send_tracked transport (RqHostCapability (wd_world_id descriptor)) (HostCapabilityContext peer) d) (dn_authenticated_peers d) d"

text \<open>A request to every other member that is connected and not banned, unless it is excused.\<close>

definition send_to_members ::
    "daemon_env \<Rightarrow> WorldDescriptorV1 \<Rightarrow> (PeerId \<Rightarrow> daemon \<Rightarrow> bool) \<Rightarrow> WireRequest \<Rightarrow> (PeerId \<Rightarrow> OutboundContext) \<Rightarrow> daemon \<Rightarrow> (daemon, unit) handled" where
  "send_to_members E descriptor excused request context d =
    each (\<lambda>(transport, peer) d.
      case WorldDescriptorV1_member descriptor peer of
        None \<Rightarrow> accept ()
      | Some m \<Rightarrow>
          if wm_banned m \<or> peer = de_peer E \<or> excused peer d then accept ()
          else send_tracked transport request (context peer) d) (dn_authenticated_peers d) d"

text \<open>The members other than this one that are connected and meet a condition, and this one.\<close>

definition confirmed_members :: "daemon_env \<Rightarrow> WorldDescriptorV1 \<Rightarrow> (PeerId \<Rightarrow> bool) \<Rightarrow> daemon \<Rightarrow> nat" where
  "confirmed_members E descriptor confirms d =
    1 + length (filter (\<lambda>m. wm_peer_id m \<noteq> de_peer E \<and> \<not> wm_banned m \<and> connected d (wm_peer_id m) \<and> confirms (wm_peer_id m))
      (wd_members descriptor))"

section \<open>A membership transition\<close>

definition distinct_peers :: "PeerId list \<Rightarrow> PeerId list" where
  "distinct_peers ps = rev (remdups (rev ps))"

definition send_to_peers ::
    "(PeerId \<Rightarrow> daemon \<Rightarrow> bool) \<Rightarrow> WireRequest \<Rightarrow> (PeerId \<Rightarrow> OutboundContext) \<Rightarrow> PeerId list \<Rightarrow> daemon \<Rightarrow> (daemon, unit) handled" where
  "send_to_peers excused request context =
    each (\<lambda>peer d. case find (\<lambda>(_, p). p = peer) (dn_authenticated_peers d) of
        None \<Rightarrow> accept ()
      | Some (transport, _) \<Rightarrow> if excused peer d then accept () else send_tracked transport request (context peer) d)"

definition commit_membership_transition :: "daemon_env \<Rightarrow> MembershipCertificateV1 \<Rightarrow> daemon \<Rightarrow> (daemon, unit) handled" where
  "commit_membership_transition E certificate d =
    (let H = de_host E; proposal = mc_proposal certificate;
         everyone = mr_members (mp_previous proposal) @ mr_members (mp_proposed proposal) in
     case validate_membership_certificate_shape H certificate of
       Inl e \<Rightarrow> (case e of
           OldQuorumUnavailable _ _ \<Rightarrow> accept ()
         | NewQuorumUnavailable _ _ \<Rightarrow> accept ()
         | _ \<Rightarrow> reply (Err (DeMembership e)))
     | Inr _ \<Rightarrow>
       demand (\<lambda>e. e) (for_each (verify_membership_vote_signature H) (mc_votes certificate)) (\<lambda>_.
       then_plan (at_files (save_membership_certificate H certificate)) (\<lambda>_.
       then_ok (at_files (apply_membership_certificate H certificate)) (\<lambda>_.
       then_ok (remember (\<lambda>d. d\<lparr>dn_membership_votes := []\<rparr>)) (\<lambda>_.
       send_to_peers (\<lambda>_ _. False) (RqMembershipCommit certificate) (\<lambda>peer. MembershipCommitContext peer (mr_sequence (mp_proposed proposal)))
         (distinct_peers (filter (\<lambda>p. p \<noteq> de_peer E) (map wm_peer_id everyone)))))) d))"

definition maintain_membership_transition :: "daemon_env \<Rightarrow> DurableMembershipPromiseV1 \<Rightarrow> daemon \<Rightarrow> (daemon, unit) handled" where
  "maintain_membership_transition E promise d =
    (let H = de_host E; proposal = dmp_proposal promise; proposed = mp_proposed proposal; world = mr_world_id proposed;
         everyone = mr_members (mp_previous proposal) @ mr_members proposed in
     if mr_authority_peer_id proposed \<noteq> de_peer E \<or> mr_authority_public_key proposed \<noteq> de_key E then accept ()
     else check (load_membership_record world (dn_files d)) (\<lambda>current.
     if current = proposed then
       demand DeProtocol (record_hash H current) (\<lambda>committed.
       then_plan (at_files (clear_membership_promise_after_commit H world committed)) (\<lambda>_ _. accept ()) d)
     else demand DeProtocol (record_hash H current) (\<lambda>current_hash.
     demand DeProtocol (record_hash H (mp_previous proposal)) (\<lambda>previous_hash.
     if current_hash \<noteq> previous_hash then bail ''durable membership proposal no longer extends the committed membership''
     else demand (\<lambda>e. e) (verify_membership_vote_signature H (dmp_vote promise)) (\<lambda>_.
     then_ok (remember (\<lambda>d. d\<lparr>dn_membership_votes := AList.update (de_peer E) (dmp_vote promise) (dn_membership_votes d)\<rparr>)) (\<lambda>_ d.
     demand DeProtocol (proposal_hash H proposal) (\<lambda>hash.
     then_ok (send_to_peers (\<lambda>peer d. has_context d (MembershipProposalContext peer hash)) (RqMembershipProposal proposal)
         (\<lambda>peer. MembershipProposalContext peer hash)
         (distinct_peers (filter (\<lambda>p. p \<noteq> de_peer E) (map wm_peer_id (filter (\<lambda>m. \<not> wm_banned m) everyone))))) (\<lambda>_ d.
     commit_membership_transition E \<lparr>mc_proposal = proposal,
       mc_votes = filter (\<lambda>vote. matches_proposal H vote proposal = Ok True) (map snd (dn_membership_votes d))\<rparr> d) d)) d)))))"

section \<open>Keeping authority\<close>

definition ensure_recovery_snapshot :: "daemon_env \<Rightarrow> EpochRecordV1 \<Rightarrow> world_files \<Rightarrow> (world_files, unit) handled" where
  "ensure_recovery_snapshot E epoch =
    (let H = de_host E; world = er_world_id epoch in
     then_plan (latest_snapshot H world) (\<lambda>found fs.
     some_or ''recovery epoch has no base snapshot'' found (\<lambda>latest.
     if sm_epoch latest < er_epoch_number epoch then
       (if checked_add (sm_epoch latest) 1 \<noteq> Some (er_epoch_number epoch) \<or> sm_state_root latest \<noteq> er_base_state_hash epoch
        then bail ''recovery epoch does not directly promote the latest canonical snapshot''
        else then_plan (next_snapshot_number H world) (\<lambda>number fs.
          some_or ''snapshot sequence counter exhausted'' (checked_add (sm_sequence latest) 1) (\<lambda>sequence.
          demand DeProtocol (manifest_hash H latest) (\<lambda>latest_hash.
          demand DeCore (sign_snapshot H (de_identity E) \<lparr>sm_protocol_version = PROTOCOL_VERSION, sm_world_id = world,
            sm_snapshot_number = number, sm_epoch = er_epoch_number epoch, sm_sequence = sequence,
            sm_previous_snapshot_hash = Some latest_hash, sm_entries = sm_entries latest, sm_state_root = sm_state_root latest,
            sm_authority_peer_id = de_peer E, sm_authority_public_key = de_key E, sm_signature = []\<rparr>) (\<lambda>promoted.
          then_plan (canonical_snapshot_head H world) (\<lambda>head.
          then_plan (commit_snapshot_fenced H (de_zstd E) (de_pick E) promoted
            \<lparr>sf_expected_epoch = er_epoch_number epoch, sf_expected_fencing_token = er_fencing_token epoch, sf_expected_head = hd_head head\<rparr>)
            (\<lambda>_ _. accept ())) fs)))) fs)
     else if sm_epoch latest \<noteq> er_epoch_number epoch \<or> sm_authority_peer_id latest \<noteq> de_peer E
       \<or> sm_authority_public_key latest \<noteq> de_key E \<or> sm_state_root latest \<noteq> er_base_state_hash epoch
     then bail ''latest snapshot conflicts with the accepted recovery epoch''
     else accept ())))"

definition ensure_recovery_membership :: "daemon_env \<Rightarrow> EpochRecordV1 \<Rightarrow> world_files \<Rightarrow> (world_files, unit) handled" where
  "ensure_recovery_membership E epoch fs =
    (let H = de_host E in
     check (load_membership_record (er_world_id epoch) fs) (\<lambda>membership.
     if er_epoch_number epoch < mr_epoch membership then bail ''membership is ahead of the accepted recovery epoch''
     else if mr_epoch membership \<noteq> er_epoch_number epoch \<or> mr_authority_peer_id membership \<noteq> de_peer E
       \<or> mr_authority_public_key membership \<noteq> de_key E then
       some_or ''membership sequence counter exhausted'' (checked_add (mr_sequence membership) 1) (\<lambda>number.
       demand DeProtocol (record_hash H membership) (\<lambda>hash.
       demand DeCore (sign_membership H (de_identity E) \<lparr>mr_protocol_version = mr_protocol_version membership,
         mr_world_id = er_world_id epoch, mr_epoch = er_epoch_number epoch, mr_sequence = number,
         mr_previous_membership_hash = Some hash, mr_members = mr_members membership, mr_authority_peer_id = de_peer E,
         mr_authority_public_key = de_key E, mr_signature = []\<rparr>) (\<lambda>promoted.
       then_plan (save_membership_record H promoted) (\<lambda>_ _. accept ()) fs)))
     else accept ()))"

definition ensure_recovery_artifacts :: "daemon_env \<Rightarrow> EpochRecordV1 \<Rightarrow> world_files \<Rightarrow> (world_files, unit) handled" where
  "ensure_recovery_artifacts E epoch = then_ok (ensure_recovery_snapshot E epoch) (\<lambda>_. ensure_recovery_membership E epoch)"

definition maintain_recovery_epoch_quorum ::
    "daemon_env \<Rightarrow> WorldDescriptorV1 \<Rightarrow> EpochRecordV1 \<Rightarrow> daemon \<Rightarrow> (daemon, bool) handled" where
  "maintain_recovery_epoch_quorum E descriptor epoch d =
    (let generation = epoch_generation epoch in
     check (load_recovery_certificate (wd_world_id descriptor) (dn_files d)) (\<lambda>certificate.
     if rb_target_epoch (rcert_ballot certificate) \<noteq> ag_epoch generation
       \<or> rb_target_fencing_token (rcert_ballot certificate) \<noteq> ag_fencing_token generation
       \<or> rb_candidate_peer_id (rcert_ballot certificate) \<noteq> de_peer E
     then bail ''durable recovery certificate does not match the accepted recovery generation''
     else then_ok (send_to_members E descriptor
         (\<lambda>peer d. dn_epoch_acks d peer = Some generation \<or> has_context d (EpochContext peer generation))
         (RqRecoveryEpoch epoch certificate) (\<lambda>peer. EpochContext peer generation)) (\<lambda>_ d.
       accept (has_quorum (member_count descriptor)
         (confirmed_members E descriptor (\<lambda>peer. dn_epoch_acks d peer = Some generation) d))) d))"

definition signed_lease :: "daemon_env \<Rightarrow> moment \<Rightarrow> WorldId \<Rightarrow> AuthorityGeneration \<Rightarrow> (DaemonError, AuthorityLeaseGrantV1) result" where
  "signed_lease E t world generation =
    map_err DeCore (sign_lease (de_host E) (de_identity E) \<lparr>lg_protocol_version = PROTOCOL_VERSION, lg_world_id = world,
      lg_epoch = ag_epoch generation, lg_fencing_token = ag_fencing_token generation,
      lg_lease_duration_ms = AUTHORITY_LEASE_DURATION_MS, lg_authority_peer_id = de_peer E, lg_authority_public_key = de_key E,
      lg_nonce = mo_nonce t, lg_signature = []\<rparr>)"

definition refresh_solo_branch :: "daemon_env \<Rightarrow> EpochRecordV1 \<Rightarrow> world_files \<Rightarrow> (world_files, unit) handled" where
  "refresh_solo_branch E epoch =
    (let H = de_host E; world = er_world_id epoch in
     if er_mode epoch \<noteq> Solo then (\<lambda>_. accept ())
     else then_plan (latest_snapshot H world) (\<lambda>found fs.
       some_or ''solo epoch has no snapshot'' found (\<lambda>latest.
       demand DeCore (verify_snapshot_signature H latest) (\<lambda>_.
       check (load_solo_branch world fs) (\<lambda>branch.
       demand DeCore (verify_solo_branch_signature H branch) (\<lambda>_.
       if sb_authority_peer_id branch \<noteq> de_peer E \<or> sb_world_id branch \<noteq> world
       then bail ''solo branch authority does not match the local accepted authority''
       else demand DeProtocol (manifest_hash H latest) (\<lambda>hash.
         if sb_head_snapshot_hash branch = hash \<and> sb_state_hash branch = sm_state_root latest then accept ()
         else demand DeCore (sign_solo_branch H (de_identity E) (branch\<lparr>sb_head_snapshot_hash := hash, sb_head_epoch := er_epoch_number epoch,
             sb_head_sequence := sm_sequence latest, sb_state_hash := sm_state_root latest\<rparr>)) (\<lambda>signed.
           then_plan (save_solo_branch H signed) (\<lambda>_ _. accept ()) fs))))))))"

text \<open>The epoch that follows the accepted one, signed by this peer.\<close>

definition next_epoch ::
    "daemon_env \<Rightarrow> EpochRecordV1 \<Rightarrow> WorldId \<Rightarrow> SnapshotManifestV1 \<Rightarrow> EpochMode \<Rightarrow> string \<Rightarrow> (DaemonError, EpochRecordV1) result" where
  "next_epoch E previous world latest mode reason =
    (let H = de_host E in
     and_then (map_err DeGeneration (checked_next (epoch_generation previous))) (\<lambda>generation.
     and_then (map_err DeProtocol (epoch_record_hash H previous)) (\<lambda>hash.
     let unsigned_record = \<lparr>er_protocol_version = PROTOCOL_VERSION, er_world_id = world, er_epoch_number = ag_epoch generation,
       er_previous_epoch_hash = Some hash, er_base_state_hash = sm_state_root latest, er_authority_peer_id = de_peer E,
       er_authority_public_key = de_key E, er_mode = mode, er_fencing_token = ag_fencing_token generation, er_reason = reason,
       er_signature = []\<rparr> in
     and_then (map_err DeProtocol (EpochRecordV1_signing_bytes H unsigned_record)) (\<lambda>bytes.
     Ok (unsigned_record\<lparr>er_signature := identity_sign H (de_identity E) bytes\<rparr>)))))"

definition promote_solo_to_quorum :: "daemon_env \<Rightarrow> WorldDescriptorV1 \<Rightarrow> EpochRecordV1 \<Rightarrow> daemon \<Rightarrow> (daemon, unit) handled" where
  "promote_solo_to_quorum E descriptor epoch =
    (let H = de_host E; world = wd_world_id descriptor in
     then_plan (at_files (latest_snapshot H world)) (\<lambda>found d.
     some_or ''cannot restore quorum without a solo head snapshot'' found (\<lambda>latest.
     demand (\<lambda>e. e) (next_epoch E epoch world latest Quorum ''quorum restored after explicit solo history replication'') (\<lambda>promoted.
     then_plan (at_files (save_epoch_record H promoted)) (\<lambda>_.
     send_to_members E descriptor (\<lambda>_ _. False) (RqEpoch promoted) (\<lambda>peer. EpochContext peer (epoch_generation promoted))) d))))"

definition lease_confirms :: "AuthorityGeneration \<Rightarrow> nat \<Rightarrow> daemon \<Rightarrow> PeerId \<Rightarrow> bool" where
  "lease_confirms generation now d peer \<longleftrightarrow>
    (case dn_lease_acks d peer of
       None \<Rightarrow> False
     | Some ack \<Rightarrow> la_generation ack = generation \<and> now - la_observed_at ack < unat AUTHORITY_LEASE_DURATION_MS)"

text \<open>The permit of the game server: refreshed with a new heartbeat while a quorum confirms the lease.\<close>

definition keep_permit :: "AuthorityGeneration \<Rightarrow> daemon \<Rightarrow> (daemon, unit) handled" where
  "keep_permit generation d =
    (let heartbeat = saturating_add (case dn_permit_heartbeat d of None \<Rightarrow> 0 | Some h \<Rightarrow> h) 1 in
     then_ok (remember (\<lambda>d. d\<lparr>dn_permit_heartbeat := Some heartbeat\<rparr>)) (\<lambda>_. refresh_permit generation heartbeat) d)"

definition maintain_local_authority ::
    "daemon_env \<Rightarrow> moment \<Rightarrow> WorldDescriptorV1 \<Rightarrow> EpochRecordV1 \<Rightarrow> daemon \<Rightarrow> (daemon, unit) handled" where
  "maintain_local_authority E t descriptor epoch =
    (let world = wd_world_id descriptor; generation = epoch_generation epoch;
         tidy = then_plan (at_files clear_recovery_reservation) (\<lambda>_.
           then_plan (at_files (clear_recovery_promise_after_epoch_advance (de_host E) world (er_epoch_number epoch))) (\<lambda>_ _. accept ())) in
     then_ok (if er_mode epoch = Recovery then maintain_recovery_epoch_quorum E descriptor epoch else (\<lambda>_. accept True)) (\<lambda>active.
     if \<not> active then clear_permit
     else (\<lambda>d. demand (\<lambda>e. e) (signed_lease E t world generation) (\<lambda>lease.
       then_ok (send_to_members E descriptor (\<lambda>peer d. has_context d (LeaseContext peer generation)) (RqLeaseGrant lease)
           (\<lambda>peer. LeaseContext peer generation)) (\<lambda>_ d.
       if has_quorum (member_count descriptor) (confirmed_members E descriptor (lease_confirms generation (mo_now t) d) d) then
         (if er_mode epoch = Solo then
            then_ok (at_files (refresh_solo_branch E epoch)) (\<lambda>_.
            then_ok (promote_solo_to_quorum E descriptor epoch) (\<lambda>_. clear_permit)) d
          else then_ok (keep_permit generation) (\<lambda>_. tidy) d)
       else then_ok clear_permit (\<lambda>_.
         then_ok (request_world_statuses E descriptor) (\<lambda>_. tidy)) d) d))))"

section \<open>Driving a recovery\<close>

text \<open>What a recovery attempt starts from.\<close>

record RecoveryAttempt =
  ra_descriptor :: WorldDescriptorV1
  ra_previous :: EpochRecordV1
  ra_latest :: SnapshotManifestV1
  ra_visible_peers :: "PeerId list"
  ra_recovery_generation :: AuthorityGeneration
  ra_wake :: bool

definition active_ballot_usable :: "daemon_env \<Rightarrow> RecoveryAttempt \<Rightarrow> Hash32 \<Rightarrow> Hash32 \<Rightarrow> u64 \<Rightarrow> RecoveryBallotV1 \<Rightarrow> bool" where
  "active_ballot_usable E a base_hash membership_hash floor b \<longleftrightarrow>
    rb_base_epoch b = er_epoch_number (ra_previous a) \<and> rb_base_fencing_token b = er_fencing_token (ra_previous a)
    \<and> rb_target_epoch b = ag_epoch (ra_recovery_generation a)
    \<and> rb_target_fencing_token b = ag_fencing_token (ra_recovery_generation a)
    \<and> rb_candidate_peer_id b = de_peer E \<and> rb_base_snapshot_hash b = base_hash
    \<and> rb_base_state_hash b = sm_state_root (ra_latest a) \<and> rb_membership_hash b = membership_hash \<and> floor \<le> rb_round b"

text \<open>A new ballot is promised to itself first; whether the attempt goes on.\<close>

definition open_recovery_ballot ::
    "daemon_env \<Rightarrow> RecoveryAttempt \<Rightarrow> Hash32 \<Rightarrow> Hash32 \<Rightarrow> u64 \<Rightarrow> daemon \<Rightarrow> (daemon, bool) handled" where
  "open_recovery_ballot E a base_hash membership_hash floor d =
    (let H = de_host E; world = wd_world_id (ra_descriptor a) in
     some_or ''recovery round counter exhausted'' (checked_add floor 1) (\<lambda>round.
     demand DeCore (sign_recovery_ballot H (de_identity E) \<lparr>rb_protocol_version = PROTOCOL_VERSION, rb_world_id = world,
       rb_base_epoch = er_epoch_number (ra_previous a), rb_base_fencing_token = er_fencing_token (ra_previous a),
       rb_target_epoch = ag_epoch (ra_recovery_generation a), rb_target_fencing_token = ag_fencing_token (ra_recovery_generation a),
       rb_round = max round 1, rb_candidate_peer_id = de_peer E, rb_candidate_public_key = de_key E,
       rb_base_snapshot_hash = base_hash, rb_base_state_hash = sm_state_root (ra_latest a),
       rb_membership_hash = membership_hash, rb_signature = []\<rparr>) (\<lambda>ballot.
     demand (\<lambda>e. e) (recovery_vote_for E ballot) (\<lambda>vote.
     let open_with = (\<lambda>vote d. then_ok (remember (\<lambda>d. d\<lparr>dn_recovery_votes := [(de_peer E, vote)], dn_recovery_ballot := Some ballot\<rparr>))
           (\<lambda>_ _. accept True) d) in
     then_plan (at_files (promise_recovery_ballot H ballot vote)) (\<lambda>promised d.
     case promised of
       RecoveryAccepted \<Rightarrow> open_with vote d
     | RecoveryIdempotent \<Rightarrow> check (load_recovery_promise H world (dn_files d)) (\<lambda>durable. open_with (drp_vote durable) d)
     | RecoveryRejected highest \<Rightarrow>
         then_ok (remember (\<lambda>d. d\<lparr>dn_recovery_round_floor := Some highest\<rparr>)) (\<lambda>_ _. accept False) d) d))))"

definition send_to_visible ::
    "daemon_env \<Rightarrow> PeerId list \<Rightarrow> (PeerId \<Rightarrow> daemon \<Rightarrow> bool) \<Rightarrow> WireRequest \<Rightarrow> (PeerId \<Rightarrow> OutboundContext) \<Rightarrow> daemon \<Rightarrow> (daemon, unit) handled" where
  "send_to_visible E visible excused request context d =
    each (\<lambda>(transport, peer) d.
      if peer = de_peer E \<or> peer \<notin> set visible \<or> excused peer d then accept ()
      else send_tracked transport request (context peer) d) (dn_authenticated_peers d) d"

definition promote_recovery_epoch ::
    "daemon_env \<Rightarrow> RecoveryAttempt \<Rightarrow> daemon \<Rightarrow> (daemon, EpochRecordV1) handled" where
  "promote_recovery_epoch E a d =
    demand (\<lambda>e. e) (next_epoch E (ra_previous a) (er_world_id (ra_previous a)) (ra_latest a) Recovery
      (if ra_wake a then ''quorum wake from exact durable sleep boundary''
       else ''automatic crash recovery after durable quorum ballot'')) (\<lambda>promoted.
    then_plan (at_files (save_epoch_record (de_host E) promoted)) (\<lambda>_ _. accept promoted) d)"

text \<open>The certificate is stored before the epoch it justifies.\<close>

definition conclude_recovery ::
    "daemon_env \<Rightarrow> RecoveryAttempt \<Rightarrow> RecoveryCertificateV1 \<Rightarrow> daemon \<Rightarrow> (daemon, unit) handled" where
  "conclude_recovery E a certificate =
    (let H = de_host E; world = wd_world_id (ra_descriptor a) in
     then_plan (at_files (store_plan (de_store E) (OpSaveRecoveryCertificate certificate))) (\<lambda>_.
     then_ok (promote_recovery_epoch E a) (\<lambda>promoted.
     then_ok (if ra_wake a then then_plan (at_files clear_sleep_record) (\<lambda>_. clear_world_wake_request) else (\<lambda>_. accept ())) (\<lambda>_.
     then_plan (at_files (clear_recovery_promise_after_epoch_advance H world (er_epoch_number promoted))) (\<lambda>_.
     then_ok (remember (\<lambda>d. d\<lparr>dn_lease_acks := (\<lambda>_. None), dn_epoch_acks := (\<lambda>_. None), dn_inbound_lease := None,
       dn_recovery_replication_sent := {}, dn_recovery_ballot := None, dn_recovery_votes := []\<rparr>)) (\<lambda>_.
     send_to_visible E (ra_visible_peers a) (\<lambda>_ _. False) (RqRecoveryEpoch promoted certificate)
       (\<lambda>peer. EpochContext peer (ra_recovery_generation a))))))))"

text \<open>The ballot goes to the visible members; a quorum of votes concludes it.\<close>

definition press_recovery_ballot :: "daemon_env \<Rightarrow> RecoveryAttempt \<Rightarrow> daemon \<Rightarrow> (daemon, unit) handled" where
  "press_recovery_ballot E a d =
    (let H = de_host E; members = map wm_peer_id (filter (\<lambda>m. \<not> wm_banned m) (wd_members (ra_descriptor a))) in
     some_or ''active recovery ballot disappeared'' (dn_recovery_ballot d) (\<lambda>ballot.
     demand DeProtocol (ballot_hash H ballot) (\<lambda>hash.
     then_ok (send_to_visible E (ra_visible_peers a) (\<lambda>peer d. has_context d (RecoveryBallotContext peer hash)) (RqRecoveryBallot ballot)
         (\<lambda>peer. RecoveryBallotContext peer hash)) (\<lambda>_ d.
     let votes = filter (\<lambda>vote. matches_ballot H vote ballot = Ok True) (map snd (dn_recovery_votes d));
         certificate = \<lparr>rcert_ballot = ballot, rcert_votes = votes\<rparr> in
     if \<not> has_quorum (length members) (length votes) then accept ()
     else demand DeRecovery (validate_recovery_certificate_shape H certificate members) (\<lambda>_.
       demand DeCore (for_each (verify_recovery_vote_signature H) votes) (\<lambda>_.
       conclude_recovery E a certificate d))) d)))"

definition drive_recovery_ballot :: "daemon_env \<Rightarrow> RecoveryAttempt \<Rightarrow> daemon \<Rightarrow> (daemon, unit) handled" where
  "drive_recovery_ballot E a d =
    (let H = de_host E; world = wd_world_id (ra_descriptor a) in
     demand DeProtocol (manifest_hash H (ra_latest a)) (\<lambda>base_hash.
     check (load_membership_record world (dn_files d)) (\<lambda>membership.
     demand DeCore (verify_membership_signature H membership) (\<lambda>_.
     demand DeProtocol (record_hash H membership) (\<lambda>membership_hash.
     let durable_round = (case load_recovery_promise H world (dn_files d) of Inl _ \<Rightarrow> 0 | Inr promise \<Rightarrow> rb_round (drp_ballot promise));
         floor = max (case dn_recovery_round_floor d of None \<Rightarrow> 0 | Some r \<Rightarrow> r) durable_round;
         usable = (case dn_recovery_ballot d of None \<Rightarrow> False | Some b \<Rightarrow> active_ballot_usable E a base_hash membership_hash floor b) in
     then_ok (if usable then (\<lambda>_. accept True) else open_recovery_ballot E a base_hash membership_hash floor) (\<lambda>active.
     if \<not> active then (\<lambda>_. accept ()) else press_recovery_ballot E a) d)))))"

section \<open>One world, once a second\<close>

text \<open>The members that can be seen with the exact canonical state, and those of them that can host.\<close>

definition sees_canonical :: "daemon \<Rightarrow> nat \<Rightarrow> WorldDescriptorV1 \<Rightarrow> EpochRecordV1 \<Rightarrow> SnapshotManifestV1 \<Rightarrow> Hash32 \<Rightarrow> PeerId \<Rightarrow> bool" where
  "sees_canonical d now descriptor epoch latest latest_hash peer \<longleftrightarrow> connected d peer
    \<and> (case dn_peer_status d peer of
         None \<Rightarrow> False
       | Some ob \<Rightarrow> fresh now (os_observed_at ob) \<and> status_matches_canonical (os_status ob) descriptor epoch latest latest_hash)"

definition recovery_candidates ::
    "daemon_env \<Rightarrow> nat \<Rightarrow> WorldDescriptorV1 \<Rightarrow> EpochRecordV1 \<Rightarrow> SnapshotManifestV1 \<Rightarrow> Hash32 \<Rightarrow> bool \<Rightarrow> daemon \<Rightarrow> PeerId list \<times> AuthorityCandidate list" where
  "recovery_candidates E now descriptor epoch latest latest_hash local_ready d =
    (let candidate = (\<lambda>peer number sequence. \<lparr>ac_peer_id = peer, ac_accepted_epoch = number, ac_canonical_sequence = sequence,
           ac_snapshot_complete = True, ac_compatible = True, ac_authority_eligible = True, ac_banned = False\<rparr>);
         seen = filter (\<lambda>m. wm_peer_id m \<noteq> de_peer E \<and> \<not> wm_banned m
           \<and> sees_canonical d now descriptor epoch latest latest_hash (wm_peer_id m)) (wd_members descriptor);
         able = filter (\<lambda>m. wm_authority_eligible m
           \<and> (case dn_peer_status d (wm_peer_id m) of None \<Rightarrow> False | Some ob \<Rightarrow> ws_authority_eligible (os_status ob))
           \<and> observed_host_candidate_ready d (wd_world_id descriptor) (wm_peer_id m) (wd_compatibility_fingerprint descriptor) now) seen in
     (de_peer E # map wm_peer_id seen,
      (if local_ready then [candidate (de_peer E) (er_epoch_number epoch) (sm_sequence latest)] else [])
        @ map (\<lambda>m. candidate (wm_peer_id m) (er_epoch_number epoch) (sm_sequence latest)) able))"

definition attempt_recovery ::
    "daemon_env \<Rightarrow> moment \<Rightarrow> WorldDescriptorV1 \<Rightarrow> EpochRecordV1 \<Rightarrow> SleepRecordV1 option \<Rightarrow> bool \<Rightarrow> daemon \<Rightarrow> (daemon, unit) handled" where
  "attempt_recovery E t descriptor epoch sleeping wake =
    (let H = de_host E; world = de_world E in
     then_plan (at_files (latest_snapshot H world)) (\<lambda>found d.
     case found of
       None \<Rightarrow> accept ()
     | Some latest \<Rightarrow>
       check (verify_snapshot_streaming H (de_zstd E) (de_pick E) (dn_files d) latest) (\<lambda>_.
       demand DeCore (verify_snapshot_signature H latest) (\<lambda>_.
       demand DeProtocol (manifest_hash H latest) (\<lambda>latest_hash.
       demand (\<lambda>e. e) (case sleeping of None \<Rightarrow> Ok () | Some record \<Rightarrow> validate_sleep_recovery_base H record epoch latest) (\<lambda>_.
       then_ok (at_files (local_host_capability H (mo_machine t) world False)) (\<lambda>capability d.
       let local_ready = (case capability of
             None \<Rightarrow> False | Some c \<Rightarrow> host_capability_ready c world (wd_compatibility_fingerprint descriptor));
           (visible, candidates) = recovery_candidates E (mo_now t) descriptor epoch latest latest_hash local_ready d in
       if \<not> has_quorum (member_count descriptor) (length visible) \<or> candidates = [] then accept ()
       else demand DeElection (elect_authority candidates) (\<lambda>elected.
       if elected \<noteq> de_peer E then accept ()
       else demand DeGeneration (checked_next (epoch_generation epoch)) (\<lambda>generation.
         drive_recovery_ballot E \<lparr>ra_descriptor = descriptor, ra_previous = epoch, ra_latest = latest, ra_visible_peers = visible,
           ra_recovery_generation = generation, ra_wake = wake\<rparr> d))) d))))))"

definition maintain_member ::
    "daemon_env \<Rightarrow> moment \<Rightarrow> SleepRecordV1 option \<Rightarrow> bool \<Rightarrow> daemon \<Rightarrow> (daemon, unit) handled" where
  "maintain_member E t sleeping wake d =
    (let world = de_world E in
     case load_world_descriptor world (dn_files d) of
       Inl _ \<Rightarrow> clear_permit d
     | Inr descriptor \<Rightarrow> (case WorldDescriptorV1_member descriptor (de_peer E) of
       None \<Rightarrow> clear_permit d
     | Some self \<Rightarrow>
       if wm_banned self \<or> wm_public_key self \<noteq> de_key E then clear_permit d
       else case load_epoch_record world (dn_files d) of
         Inl _ \<Rightarrow> clear_permit d
       | Inr epoch \<Rightarrow>
         then_ok (remember (\<lambda>d. d\<lparr>dn_recovery_not_before := (case dn_recovery_not_before d of
             None \<Rightarrow> Some (mo_now t + (unat AUTHORITY_LEASE_DURATION_MS + RECOVERY_SETTLE_DELAY)) | Some n \<Rightarrow> Some n)\<rparr>)) (\<lambda>_ d.
         if \<not> wake \<and> er_authority_peer_id epoch = de_peer E \<and> er_authority_public_key epoch = de_key E then
           then_ok (if er_mode epoch = Recovery then at_files (ensure_recovery_artifacts E epoch) else (\<lambda>_. accept ())) (\<lambda>_.
           then_ok (request_world_statuses E descriptor) (\<lambda>_.
           then_ok (request_host_capabilities E descriptor) (\<lambda>_.
           maintain_local_authority E t descriptor epoch))) d
         else then_ok clear_permit (\<lambda>_.
           then_ok (remember forget_heartbeat) (\<lambda>_.
           if \<not> wm_authority_eligible self \<or> member_count descriptor \<le> 1 then (\<lambda>_. accept ())
           else then_ok (request_world_statuses E descriptor) (\<lambda>_.
             then_ok (request_host_capabilities E descriptor) (\<lambda>_ d.
             if \<not> wake \<and> connected d (er_authority_peer_id epoch) then accept ()
             else if \<not> wake \<and> \<not> recovery_window_open d (epoch_generation epoch) (mo_now t) then accept ()
             else attempt_recovery E t descriptor epoch sleeping wake d)))) d) d))"

definition maintain_world :: "daemon_env \<Rightarrow> moment \<Rightarrow> daemon \<Rightarrow> (daemon, unit) handled" where
  "maintain_world E t =
    (let H = de_host E; world = de_world E in
     then_ok (at_files (recover_committed_membership H (de_identity E) (mo_unix_millis t) world)) (\<lambda>_.
     then_ok (if mo_publishes t then tolerate (publish_host_readiness_snapshot E t) else (\<lambda>_. accept ())) (\<lambda>_ d.
     case fst (load_sleep_record_fail_closed H world (dn_files d)) of
       Inr (Inr sleeping) \<Rightarrow>
         let wake = (sleeping \<noteq> None \<and> dn_wake_request d) in
         if sleeping \<noteq> None \<and> \<not> wake then
           then_ok clear_permit (\<lambda>_.
           then_ok (remember clear_sleeping_world) (\<lambda>_ d.
           case load_world_descriptor world (dn_files d) of
             Inl _ \<Rightarrow> accept ()
           | Inr descriptor \<Rightarrow> then_ok (request_world_statuses E descriptor) (\<lambda>_. request_host_capabilities E descriptor) d)) d
         else (case load_membership_promise H world (dn_files d) of
             Inr promise \<Rightarrow> then_ok clear_permit (\<lambda>_.
               then_ok (remember forget_heartbeat) (\<lambda>_. maintain_membership_transition E promise)) d
           | Inl _ \<Rightarrow> maintain_member E t sleeping wake d)
     | _ \<Rightarrow> then_ok clear_permit (\<lambda>_. remember clear_runtime_world) d)))"

end
