(* ===== verification/DaemonMachine.thy ===== *)
theory DaemonMachine
  imports DaemonTick
begin

text \<open>
  The daemon of one world as a machine: an event is a request, an answer, a change of a connection, a tick, a wake
  request, a storage operation of another process, or a restart.  An event that is interrupted has made a prefix of
  its mutations.
\<close>

section \<open>Events\<close>

datatype (plugins only: code) daemon_event =
    Request moment TransportPeerId PeerId WireRequest
  | Response nat TransportPeerId "PeerId option" nat WireResponse
  | Authenticated TransportPeerId PeerId
  | OutboundFailure TransportPeerId nat
  | Disconnected TransportPeerId
  | Tick moment
  | WakeRequested
  | Elsewhere store_op
  | Restart

text \<open>The promises of a recovery are made and cleared by the daemon only.\<close>

definition daemon_owned :: "store_op \<Rightarrow> bool" where
  "daemon_owned op \<longleftrightarrow> promises op \<or> clears_promise op"

definition restarted :: "daemon \<Rightarrow> daemon" where
  "restarted d = (daemon_start (dn_files d) (dn_permit d) (dn_wake_request d) (dn_readiness d))
    \<lparr>dn_sent := dn_sent d, dn_replies := dn_replies d\<rparr>"

definition daemon_plan :: "daemon_env \<Rightarrow> daemon_event \<Rightarrow> daemon \<Rightarrow> (daemon, unit) handled" where
  "daemon_plan E event = (case event of
      Request t transport sender request \<Rightarrow>
        if request_world request \<in> {None, Some (de_world E)} then handle_request E t transport sender request else (\<lambda>_. accept ())
    | Response now transport peer number response \<Rightarrow> receive_response E now transport peer number response
    | Authenticated transport peer \<Rightarrow> peer_authenticated E transport peer
    | OutboundFailure transport number \<Rightarrow> remember (request_failed transport number)
    | Disconnected transport \<Rightarrow> remember (peer_disconnected transport)
    | Tick t \<Rightarrow> then_ok (retry_due_replication E (mo_now t)) (\<lambda>_. maintain_world E t)
    | WakeRequested \<Rightarrow> remember (\<lambda>d. d\<lparr>dn_wake_request := True\<rparr>)
    | Elsewhere op \<Rightarrow> if daemon_owned op then (\<lambda>_. accept ()) else then_plan (at_files (store_plan (de_store E) op)) (\<lambda>_ _. accept ())
    | Restart \<Rightarrow> remember restarted)"

definition daemon_exec :: "daemon_env \<Rightarrow> daemon \<Rightarrow> daemon_event \<times> nat option \<Rightarrow> daemon" where
  "daemon_exec E d step = snd (perform (daemon_plan E (fst step)) (snd step) d)"

text \<open>The instant of an event, where it has one.\<close>

definition event_now :: "daemon_event \<Rightarrow> nat option" where
  "event_now event = (case event of
      Request t _ _ _ \<Rightarrow> Some (mo_now t) | Response now _ _ _ _ \<Rightarrow> Some now | Tick t \<Rightarrow> Some (mo_now t) | _ \<Rightarrow> None)"

section \<open>Plans within a relation\<close>

text \<open>Every state that a plan passes through is related to the one it started from.\<close>

definition within :: "('s \<Rightarrow> 's \<Rightarrow> bool) \<Rightarrow> ('s, 'a) planned \<Rightarrow> 's \<Rightarrow> bool" where
  "within R p s \<longleftrightarrow> (\<forall>k \<le> length (snd p). R s (apply_mutations (take k (snd p)) s))"

lemma within_leaves: "within R (op s) s \<Longrightarrow> s' \<in> leaves op s \<Longrightarrow> R s s'"
  by (auto simp: within_def leaves_def)

lemma within_after: "within R (op s) s \<Longrightarrow> R s (after op s)"
  using within_leaves after_leaves by metis

lemma withinI: "(\<And>s'. s' \<in> leaves op s \<Longrightarrow> R s s') \<Longrightarrow> within R (op s) s"
  by (auto simp: within_def leaves_def)

locale step_relation =
  fixes R :: "'s \<Rightarrow> 's \<Rightarrow> bool"
  assumes refl: "R s s"
    and trans: "R s t \<Longrightarrow> R t u \<Longrightarrow> R s u"
begin

lemma within_none: "snd p = [] \<Longrightarrow> within R p s"
  by (simp add: within_def refl)

lemma within_reply: "within R (reply x) s"
  by (simp add: within_none reply_def)

lemma within_refuse: "within R (refuse e) s"
  by (simp add: within_none refuse_def)

lemma within_accept: "within R (accept x) s"
  by (simp add: accept_def within_reply)

lemma within_bail: "within R (bail m) s"
  by (simp add: bail_def within_reply)

lemma within_check: "(\<And>x. r = Ok x \<Longrightarrow> within R (k x) s) \<Longrightarrow> within R (check r k) s"
  by (cases r) (simp_all add: within_refuse)

lemma within_demand: "(\<And>x. r = Ok x \<Longrightarrow> within R (k x) s) \<Longrightarrow> within R (demand f r k) s"
  by (cases r) (simp_all add: demand_def within_reply)

lemma within_some_or: "(\<And>x. v = Some x \<Longrightarrow> within R (k x) s) \<Longrightarrow> within R (some_or m v k) s"
  by (cases v) (simp_all add: some_or_def within_bail)

lemma within_remember: "R s (f s) \<Longrightarrow> within R (store x [f]) s"
  by (simp add: within_def store_def refl le_Suc_eq)

lemma within_then:
  assumes "within R (op s) s" "\<And>x. fst (op s) = Ok x \<Longrightarrow> within R (k x (after op s)) (after op s)"
  shows "within R (then_plan op k s) s"
proof (rule withinI)
  fix s'
  assume "s' \<in> leaves (then_plan op k) s"
  then consider "s' \<in> leaves op s" | x where "fst (op s) = Ok x" "s' \<in> leaves (k x) (after op s)" using leaves_then by fast
  then show "R s s'"
  proof cases
    case 1
    with assms(1) show ?thesis by (rule within_leaves)
  next
    case 2
    with assms(2) have "R (after op s) s'" using within_leaves by metis
    with within_after [where op = op, OF assms(1)] show ?thesis by (rule trans)
  qed
qed

lemma within_then_ok:
  assumes "within R (op s) s" "\<And>x. fst (op s) = Ok (Inr x) \<Longrightarrow> within R (k x (after op s)) (after op s)"
  shows "within R (then_ok op k s) s"
  unfolding then_ok_def
  by (rule within_then [where op = op, OF assms(1)]) (auto simp: within_reply assms(2) split: sum.splits)

lemma within_each:
  assumes "\<And>x t. x \<in> set xs \<Longrightarrow> R s t \<Longrightarrow> within R (f x t) t"
  shows "within R (each f xs s) s"
  using assms
proof (induction xs arbitrary: s)
  case (Cons x xs)
  have first: "within R (f x s) s" using Cons.prems refl by simp
  show ?case
    unfolding each.simps
  proof (rule within_then_ok [where op = "f x", OF first])
    fix y
    show "within R (each f xs (after (f x) s)) (after (f x) s)"
    proof (rule Cons.IH)
      fix y t
      assume "y \<in> set xs" "R (after (f x) s) t"
      then show "within R (f y t) t" using Cons.prems trans [OF within_after [where op = "f x", OF first]] by simp
    qed
  qed
qed (simp add: within_accept)

lemma within_tolerate: "within R (op s) s \<Longrightarrow> within R (tolerate op s) s"
  by (simp add: tolerate_def within_def)

lemmas rules = within_reply within_refuse within_accept within_bail within_check within_demand within_some_or
  within_then within_then_ok within_tolerate

end

section \<open>Effects\<close>

lemma leaves_at_files: "d' \<in> leaves (at_files op) d \<longleftrightarrow> (\<exists>fs' \<in> leaves op (dn_files d). d' = d\<lparr>dn_files := fs'\<rparr>)"
proof -
  have lift: "apply_mutations (map (\<lambda>m d. d\<lparr>dn_files := m (dn_files d)\<rparr>) ms) d = d\<lparr>dn_files := apply_mutations ms (dn_files d)\<rparr>" for ms d
    by (induction ms arbitrary: d) simp_all
  show ?thesis by (auto simp: leaves_def at_files_def take_map lift)
qed

lemma after_at_files [simp]: "after (at_files op) d = d\<lparr>dn_files := after op (dn_files d)\<rparr>"
proof -
  have lift: "apply_mutations (map (\<lambda>m d. d\<lparr>dn_files := m (dn_files d)\<rparr>) ms) d = d\<lparr>dn_files := apply_mutations ms (dn_files d)\<rparr>" for ms d
    by (induction ms arbitrary: d) simp_all
  show ?thesis by (simp add: after_def at_files_def lift)
qed

lemma fst_at_files [simp]: "fst (at_files op d) = fst (op (dn_files d))"
  by (simp add: at_files_def)

lemma after_remember [simp]: "after (remember f) d = f d"
  by (simp add: after_def remember_def store_def)

end
