(* ===== verification/DaemonActions.thy ===== *)
theory DaemonActions
  imports DaemonMachine
begin

text \<open>
  What a daemon may do: its actions as a step relation, each with the condition under which it is allowed.  The
  handlers of \<open>DaemonRequests\<close>, \<open>DaemonResponses\<close> and \<open>DaemonTick\<close> are shown to implement it, and the properties of
  the daemon are properties of the actions.
\<close>

section \<open>Conditions\<close>

definition epoch_at :: "world_files \<Rightarrow> u64" where
  "epoch_at fs = (case wf_epoch fs of Content r \<Rightarrow> er_epoch_number r | _ \<Rightarrow> 0)"

text \<open>A ballot for the generation after the accepted one.\<close>

definition targets_next :: "daemon_env \<Rightarrow> world_files \<Rightarrow> RecoveryBallotV1 \<Rightarrow> bool" where
  "targets_next E fs b \<longleftrightarrow> rb_world_id b = de_world E
    \<and> (\<exists>current g. load_epoch_record (de_world E) fs = Ok current \<and> checked_next (epoch_generation current) = Ok g
      \<and> rb_base_epoch b = er_epoch_number current \<and> rb_base_fencing_token b = er_fencing_token current
      \<and> rb_target_epoch b = ag_epoch g \<and> rb_target_fencing_token b = ag_fencing_token g)"

text \<open>A vote that stands: it is the one promised on disk.\<close>

definition standing :: "daemon_env \<Rightarrow> world_files \<Rightarrow> RecoveryVoteV1 \<Rightarrow> bool" where
  "standing E fs v \<longleftrightarrow> (\<exists>p. load_recovery_promise (de_host E) (de_world E) fs = Ok p \<and> drp_vote p = v)"

definition authority_silent :: "daemon_env \<Rightarrow> nat \<Rightarrow> daemon \<Rightarrow> bool" where
  "authority_silent E now d \<longleftrightarrow> is_ok (load_sleep_record (de_world E) (dn_files d))
    \<or> (\<exists>current. load_epoch_record (de_world E) (dn_files d) = Ok current
        \<and> \<not> connected d (er_authority_peer_id current) \<and> recovery_window_open d (epoch_generation current) now)"

text \<open>The authority of the accepted generation, with a quorum that confirmed its lease within the last five seconds.\<close>

definition holds_authority :: "daemon_env \<Rightarrow> nat \<Rightarrow> daemon \<Rightarrow> AuthorityGeneration \<Rightarrow> bool" where
  "holds_authority E now d g \<longleftrightarrow>
    load_sleep_record (de_world E) (dn_files d) = Err (StIo NotFound)
    \<and> \<not> is_ok (load_membership_promise (de_host E) (de_world E) (dn_files d))
    \<and> (\<exists>epoch descriptor. load_epoch_record (de_world E) (dn_files d) = Ok epoch \<and> epoch_generation epoch = g
      \<and> er_authority_peer_id epoch = de_peer E \<and> er_authority_public_key epoch = de_key E \<and> er_mode epoch \<noteq> Solo
      \<and> load_world_descriptor (de_world E) (dn_files d) = Ok descriptor
      \<and> has_quorum (member_count descriptor) (confirmed_members E descriptor (lease_confirms g now d) d)
      \<and> (er_mode epoch = Recovery \<longrightarrow>
          has_quorum (member_count descriptor) (confirmed_members E descriptor (\<lambda>peer. dn_epoch_acks d peer = Some g) d)))"

text \<open>A recovery epoch with the quorum certificate behind it.\<close>

definition certified_recovery :: "daemon_env \<Rightarrow> world_files \<Rightarrow> EpochRecordV1 \<Rightarrow> bool" where
  "certified_recovery E fs r \<longleftrightarrow> er_mode r = Recovery
    \<and> (\<exists>c members. ((\<exists>membership. load_membership_record (de_world E) fs = Ok membership \<and> members = canonical_members membership)
          \<or> (\<exists>descriptor. load_world_descriptor (de_world E) fs = Ok descriptor
              \<and> members = map wm_peer_id (filter (\<lambda>m. \<not> wm_banned m) (wd_members descriptor))))
      \<and> validate_recovery_certificate_shape (de_host E) c members = Ok ()
      \<and> (\<forall>v \<in> set (rcert_votes c). verify_recovery_vote_signature (de_host E) v = Ok ())
      \<and> rb_target_epoch (rcert_ballot c) = er_epoch_number r \<and> rb_target_fencing_token (rcert_ballot c) = er_fencing_token r
      \<and> rb_candidate_peer_id (rcert_ballot c) = er_authority_peer_id r
      \<and> (rb_world_id (rcert_ballot c) = de_world E \<longrightarrow> wf_recovery_certificate fs = Content c))"

text \<open>The direct successor of an epoch.\<close>

definition succeeds :: "host \<Rightarrow> EpochRecordV1 \<Rightarrow> EpochRecordV1 \<Rightarrow> bool" where
  "succeeds H current r \<longleftrightarrow> (\<exists>g hash. checked_next (epoch_generation current) = Ok g
    \<and> er_epoch_number r = ag_epoch g \<and> er_fencing_token r = ag_fencing_token g
    \<and> epoch_record_hash H current = Ok hash \<and> er_previous_epoch_hash r = Some hash)"

lemma extends_epoch_eq_Ok [simp]: "extends_epoch H current r m = Inr u \<longleftrightarrow> succeeds H current r"
  by (auto simp: extends_epoch_def succeeds_def)

definition epoch_justified :: "daemon_env \<Rightarrow> world_files \<Rightarrow> EpochRecordV1 \<Rightarrow> bool" where
  "epoch_justified E fs r \<longleftrightarrow> er_world_id r = de_world E
    \<and> (\<forall>current. load_epoch_record (de_world E) fs = Ok current \<longrightarrow>
        succeeds (de_host E) current r
        \<and> (certified_recovery E fs r
          \<or> er_mode r \<noteq> Recovery \<and> er_authority_peer_id r = er_authority_peer_id current
              \<and> er_authority_public_key r = er_authority_public_key current
          \<or> er_mode r \<noteq> Recovery \<and> (\<exists>transfer. load_transfer_record (de_world E) fs = Ok transfer \<and> at_phase transfer = Committed
              \<and> at_from_peer_id transfer = er_authority_peer_id current \<and> at_to_peer_id transfer = er_authority_peer_id r
              \<and> at_next_epoch transfer = er_epoch_number r \<and> at_next_fencing_token transfer = er_fencing_token r)))"

text \<open>The members change with a certificate of the voters; a record without one keeps them, or is the first.\<close>

definition certified_membership :: "daemon_env \<Rightarrow> MembershipRecordV1 \<Rightarrow> bool" where
  "certified_membership E r \<longleftrightarrow>
    (\<exists>c. validate_membership_certificate_signatures (de_host E) c = Ok () \<and> mp_proposed (mc_proposal c) = r)"

definition members_justified :: "daemon_env \<Rightarrow> world_files \<Rightarrow> MembershipRecordV1 \<Rightarrow> bool" where
  "members_justified E fs r \<longleftrightarrow> mr_world_id r = de_world E
    \<and> (certified_membership E r
      \<or> (\<forall>current. load_membership_record (de_world E) fs = Ok current \<longrightarrow> mr_members r = mr_members current))"

text \<open>A transfer is signed by the peer whose turn it is.\<close>

definition signed_transfer :: "daemon_env \<Rightarrow> AuthorityTransferV1 \<Rightarrow> bool" where
  "signed_transfer E t \<longleftrightarrow> verify_transfer_signature (de_host E) t = Ok ()
    \<and> at_signer_peer_id t = (case at_phase t of Accepted \<Rightarrow> at_to_peer_id t | _ \<Rightarrow> at_from_peer_id t)"

definition guarded_op :: "store_op \<Rightarrow> bool" where
  "guarded_op op = (case op of
      OpSaveEpoch _ \<Rightarrow> True | OpPromiseRecovery _ _ \<Rightarrow> True | OpClearRecoveryPromise _ \<Rightarrow> True
    | OpSaveMembership _ \<Rightarrow> True | OpRemoveLocalMembership \<Rightarrow> True | OpSaveDescriptor _ \<Rightarrow> True | OpSaveTransfer _ \<Rightarrow> True
    | OpCreateWorld _ \<Rightarrow> True | _ \<Rightarrow> False)"

text \<open>The occasion of an action: the instant, and whether the world may be put to sleep.\<close>

type_synonym occasion = "nat \<times> bool"

definition saves_sleep :: "store_op \<Rightarrow> bool" where
  "saves_sleep op = (case op of OpSaveSleep _ \<Rightarrow> True | _ \<Rightarrow> False)"

definition plain_at :: "occasion \<Rightarrow> store_op \<Rightarrow> bool" where
  "plain_at now op \<longleftrightarrow> \<not> guarded_op op \<and> (saves_sleep op \<longrightarrow> snd now)"

section \<open>Actions\<close>

definition is_vote :: "WireResponse \<Rightarrow> bool" where
  "is_vote r = (case r of RsRecoveryVote _ \<Rightarrow> True | _ \<Rightarrow> False)"

definition votes_sent :: "daemon \<Rightarrow> WireResponse list" where
  "votes_sent d = filter is_vote (map snd (dn_replies d))"

definition own_votes :: "daemon_env \<Rightarrow> daemon \<Rightarrow> RecoveryVoteV1 set" where
  "own_votes E d = {v. (de_peer E, v) \<in> set (dn_recovery_votes d)}"

definition lease_term :: nat where
  "lease_term = unat AUTHORITY_LEASE_DURATION_MS + RECOVERY_SETTLE_DELAY"

definition lease_kept :: "nat \<Rightarrow> daemon \<Rightarrow> daemon \<Rightarrow> bool" where
  "lease_kept now d d' \<longleftrightarrow> dn_inbound_lease d' \<in> {dn_inbound_lease d, None}
    \<and> (dn_recovery_not_before d' \<in> {dn_recovery_not_before d, None}
      \<or> dn_recovery_not_before d = None \<and> dn_recovery_not_before d' = Some (now + lease_term))"

inductive daemon_action :: "daemon_env \<Rightarrow> occasion \<Rightarrow> daemon \<Rightarrow> daemon \<Rightarrow> bool" for E :: daemon_env and now :: occasion where
  quiet: "dn_files d' = dn_files d \<Longrightarrow> dn_permit d' \<in> {dn_permit d, None} \<Longrightarrow> lease_kept (fst now) d d'
    \<Longrightarrow> votes_sent d' = votes_sent d \<Longrightarrow> own_votes E d' \<subseteq> own_votes E d \<Longrightarrow> daemon_action E now d d'"
| lease: "load_epoch_record (de_world E) (dn_files d) = Ok epoch
    \<Longrightarrow> lease = \<lparr>il_generation = epoch_generation epoch, il_expires_at = fst now + unat AUTHORITY_LEASE_DURATION_MS\<rparr>
    \<Longrightarrow> daemon_action E now d (d\<lparr>dn_inbound_lease := Some lease, dn_recovery_not_before := Some (fst now + lease_term)\<rparr>)"
| permit: "holds_authority E (fst now) d g \<Longrightarrow> daemon_action E now d (d\<lparr>dn_permit := Some (g, heartbeat)\<rparr>)"
| vote: "standing E (dn_files d) v \<Longrightarrow> authority_silent E (fst now) d
    \<Longrightarrow> daemon_action E now d (d\<lparr>dn_replies := dn_replies d @ [(transport, RsRecoveryVote v)]\<rparr>)"
| own_vote: "standing E (dn_files d) v \<Longrightarrow> authority_silent E (fst now) d
    \<Longrightarrow> daemon_action E now d (d\<lparr>dn_recovery_votes := [(de_peer E, v)], dn_recovery_ballot := Some b\<rparr>)"
| plain: "plain_at now op \<Longrightarrow> fs' \<in> leaves (store_plan (de_store E) op) (dn_files d)
    \<Longrightarrow> daemon_action E now d (d\<lparr>dn_files := fs'\<rparr>)"
| promise: "targets_next E (dn_files d) b \<Longrightarrow> recovery_vote_for E b = Ok v
    \<Longrightarrow> fs' \<in> leaves (promise_recovery_ballot (de_host E) b v) (dn_files d) \<Longrightarrow> daemon_action E now d (d\<lparr>dn_files := fs'\<rparr>)"
| clear_promise: "n \<le> epoch_at (dn_files d)
    \<Longrightarrow> fs' \<in> leaves (clear_recovery_promise_after_epoch_advance (de_host E) (de_world E) n) (dn_files d)
    \<Longrightarrow> daemon_action E now d (d\<lparr>dn_files := fs'\<rparr>)"
| epoch: "epoch_justified E (dn_files d) r \<Longrightarrow> fs' \<in> leaves (save_epoch_record (de_host E) r) (dn_files d)
    \<Longrightarrow> daemon_action E now d (d\<lparr>dn_files := fs'\<rparr>)"
| members: "members_justified E (dn_files d) r \<Longrightarrow> fs' \<in> leaves (save_membership_record (de_host E) r) (dn_files d)
    \<Longrightarrow> daemon_action E now d (d\<lparr>dn_files := fs'\<rparr>)"
| descriptor: "wf_membership (dn_files d) = Content r \<Longrightarrow> wd_members w = wd_members (WorldDescriptorV1_normalize (w\<lparr>wd_members := mr_members r\<rparr>))
    \<Longrightarrow> wd_world_id w = de_world E \<Longrightarrow> fs' \<in> leaves (save_world_descriptor w) (dn_files d)
    \<Longrightarrow> daemon_action E now d (d\<lparr>dn_files := fs'\<rparr>)"
| transfer: "fst (transfer_continues r (dn_files d)) = Ok (Ok ()) \<Longrightarrow> signed_transfer E r \<Longrightarrow> at_world_id r = de_world E
    \<Longrightarrow> fs' \<in> leaves (save_transfer_record (de_host E) r) (dn_files d) \<Longrightarrow> daemon_action E now d (d\<lparr>dn_files := fs'\<rparr>)"

text \<open>The daemon never asks itself for a vote, and negotiates the manifests of its own world.\<close>

definition tame :: "daemon_env \<Rightarrow> daemon \<Rightarrow> bool" where
  "tame E d \<longleftrightarrow> (\<forall>m. dn_pending_manifest d = Some m \<longrightarrow> sm_world_id m = de_world E)
    \<and> (\<forall>h. RecoveryBallotContext (de_peer E) h \<notin> snd ` set (dn_outbound d))"

definition acts :: "daemon_env \<Rightarrow> occasion \<Rightarrow> daemon \<Rightarrow> daemon \<Rightarrow> bool" where
  "acts E now d d' \<longleftrightarrow> (tame E d \<longrightarrow> tame E d' \<and> (daemon_action E now)\<^sup>*\<^sup>* d d')"

interpretation acts: step_relation "acts E now" for E now
  by unfold_locales (auto simp: acts_def intro: rtranclp_trans)

lemma acts_tame: "(tame E d \<Longrightarrow> within (acts E now) p d) \<Longrightarrow> within (acts E now) p d"
  by (cases "tame E d") (auto simp: within_def acts_def)

lemma acts_action: "(tame E d \<Longrightarrow> tame E d' \<and> daemon_action E now d d') \<Longrightarrow> acts E now d d'"
  by (auto simp: acts_def)

lemma tame_files [simp]: "tame E (d\<lparr>dn_files := fs\<rparr>) = tame E d"
  by (simp add: tame_def)

end
