(* ===== verification/DaemonRefinement.thy ===== *)
theory DaemonRefinement
  imports DaemonActions
begin

text \<open>
  The handlers implement the actions: every state that an event of the daemon passes through is reached by a
  sequence of allowed actions.
\<close>

named_theorems effects

section \<open>Effects on the files\<close>

definition file_acts :: "daemon_env \<Rightarrow> occasion \<Rightarrow> daemon \<Rightarrow> world_files \<Rightarrow> world_files \<Rightarrow> bool" where
  "file_acts E now d fs fs' \<longleftrightarrow> acts E now (d\<lparr>dn_files := fs\<rparr>) (d\<lparr>dn_files := fs'\<rparr>)"

interpretation file_acts: step_relation "file_acts E now d" for E now d
  by unfold_locales (auto simp: file_acts_def acts.refl intro: acts.trans)

lemmas acts_rules [effects] = acts.rules file_acts.rules

lemma within_silent: "silent (p :: (world_files, 'a) planned) \<Longrightarrow> within (file_acts E now d) p fs"
  unfolding silent_def by (rule file_acts.within_none)

lemma within_at_files [effects]:
  assumes "within (file_acts E now d) (op (dn_files d)) (dn_files d)"
  shows "within (acts E now) (at_files op d) d"
proof (rule withinI)
  fix d'
  assume "d' \<in> leaves (at_files op) d"
  then obtain fs' where "fs' \<in> leaves op (dn_files d)" "d' = d\<lparr>dn_files := fs'\<rparr>" by (auto simp: leaves_at_files)
  with within_leaves [where op = op, OF assms] show "acts E now d d'" by (simp add: file_acts_def)
qed

lemma file_action:
  assumes "\<And>fs'. fs' \<in> leaves op fs \<Longrightarrow> daemon_action E now (d\<lparr>dn_files := fs\<rparr>) (d\<lparr>dn_files := fs'\<rparr>)"
  shows "within (file_acts E now d) (op fs) fs"
  by (rule withinI) (auto simp: file_acts_def intro!: acts_action assms)

lemma plain_op:
  assumes "plain_at now sop" "snd (op fs) = snd (store_plan (de_store E) sop fs)"
  shows "within (file_acts E now d) (op fs) fs"
proof (rule file_action)
  fix fs'
  assume "fs' \<in> leaves op fs"
  then have "fs' \<in> leaves (store_plan (de_store E) sop) fs" using assms(2) by (simp add: leaves_def)
  with daemon_action.plain [where d = "d\<lparr>dn_files := fs\<rparr>" and E = E and op = sop and now = now, OF assms(1)]
  show "daemon_action E now (d\<lparr>dn_files := fs\<rparr>) (d\<lparr>dn_files := fs'\<rparr>)" by simp
qed

lemmas plain_defs = plain_at_def saves_sleep_def guarded_op_def store_plan_def addressed_def store_body_def discard_def Let_def

lemma store_plan_acts [effects]: "plain_at now sop \<Longrightarrow> within (file_acts E now d) (store_plan (de_store E) sop fs) fs"
  by (rule plain_op) simp_all

lemma reading_acts [effects]:
  "within (file_acts E now d) (latest_snapshot (de_host E) (de_world E) fs) fs"
  "within (file_acts E now d) (load_snapshot (de_host E) (de_world E) n fs) fs"
  "within (file_acts E now d) (canonical_snapshot_head (de_host E) (de_world E) fs) fs"
  "within (file_acts E now d) (next_snapshot_number (de_host E) (de_world E) fs) fs"
  "sm_world_id m = de_world E \<Longrightarrow> within (file_acts E now d) (validate_replica_history (de_host E) m fs) fs"
  by (rule plain_op [where sop = OpLatestSnapshot] plain_op [where sop = "OpLoadSnapshot n"] plain_op [where sop = OpReadHead]
      plain_op [where sop = OpNextNumber] plain_op [where sop = "OpCheckHistory m"]; simp add: plain_defs)+

lemma replica_acts [effects]:
  "within (file_acts E now d) (receive_blob_chunk (de_host E) (de_zstd E) (de_pick E) b n bs fin fs) fs"
  "sm_world_id m = de_world E \<Longrightarrow> within (file_acts E now d) (finalize_replica (de_host E) (de_zstd E) (de_pick E) m fs) fs"
  "sm_world_id m = de_world E \<Longrightarrow> within (file_acts E now d) (commit_snapshot_fenced (de_host E) (de_zstd E) (de_pick E) m f fs) fs"
  by (rule plain_op [where sop = "OpReceiveChunk b n bs fin"] plain_op [where sop = "OpFinalize m"]
      plain_op [where sop = "OpCommit None m (Some f)"]; simp add: plain_defs commit_snapshot_fenced_def)+

lemma record_acts [effects]:
  "within (file_acts E now d) (clear_recovery_reservation fs) fs"
  "within (file_acts E now d) (clear_sleep_record fs) fs"
  "within (file_acts E now d) (clear_pending_join fs) fs"
  "within (file_acts E now d) (clear_pending_leave fs) fs"
  "within (file_acts E now d) (clear_membership_promise_after_commit (de_host E) (de_world E) h fs) fs"
  "snd now \<Longrightarrow> sl_world_id sl = de_world E \<Longrightarrow> within (file_acts E now d) (save_sleep_record (de_host E) sl fs) fs"
  "mr_world_id (mp_proposed p) = de_world E \<Longrightarrow> within (file_acts E now d) (promise_membership_proposal (de_host E) p v fs) fs"
  "certificate_world c = de_world E \<Longrightarrow> within (file_acts E now d) (save_membership_certificate (de_host E) c fs) fs"
  "wc_world_id wc = de_world E \<Longrightarrow> within (file_acts E now d) (save_world_config (de_host E) wc fs) fs"
  "sb_world_id b = de_world E \<Longrightarrow> within (file_acts E now d) (save_solo_branch (de_host E) b fs) fs"
  "sb_world_id b = de_world E \<Longrightarrow> within (file_acts E now d) (preserve_solo_conflict (de_host E) b fs) fs"
  by (rule plain_op [where sop = OpClearReservation] plain_op [where sop = OpClearSleep] plain_op [where sop = OpClearPendingJoin]
      plain_op [where sop = OpClearPendingLeave] plain_op [where sop = "OpClearMembershipPromise h"] plain_op [where sop = "OpSaveSleep sl"]
      plain_op [where sop = "OpPromiseMembership p v"] plain_op [where sop = "OpSaveMembershipCertificate c"]
      plain_op [where sop = "OpSaveConfig wc"] plain_op [where sop = "OpSaveSolo b"] plain_op [where sop = "OpPreserveConflict b"];
      simp add: plain_defs)+

section \<open>Effects on the runtime\<close>

lemma remember_acts:
  assumes "tame E d \<Longrightarrow> tame E (f d)" "dn_files (f d) = dn_files d" "dn_permit (f d) \<in> {dn_permit d, None}" "lease_kept (fst now) d (f d)"
    "votes_sent (f d) = votes_sent d" "tame E d \<Longrightarrow> own_votes E (f d) \<subseteq> own_votes E d"
  shows "within (acts E now) (remember f d) d"
  unfolding remember_def
  by (rule acts.within_remember acts_action)+ (use assms in \<open>blast intro!: daemon_action.quiet\<close>)

lemmas quiet_defs = tame_def lease_kept_def votes_sent_def own_votes_def

lemma respond_acts [effects]: "\<not> is_vote r \<Longrightarrow> within (acts E now) (respond transport r d) d"
  unfolding respond_def by (rule remember_acts) (simp_all add: quiet_defs)

lemma send_request_acts [effects]: "within (acts E now) (send_request transport r d) d"
  unfolding send_request_def by (rule acts.within_remember acts_action)+ (auto simp: quiet_defs intro!: daemon_action.quiet)

lemma track_acts [effects]: "(\<And>h. c \<noteq> RecoveryBallotContext (de_peer E) h) \<Longrightarrow> within (acts E now) (track n c d) d"
  unfolding track_def by (rule remember_acts) (auto simp: quiet_defs)

lemma send_tracked_acts [effects]: "(\<And>h. c \<noteq> RecoveryBallotContext (de_peer E) h) \<Longrightarrow> within (acts E now) (send_tracked transport r c d) d"
  unfolding send_tracked_def by (intro effects) simp_all

lemma send_only_acts [effects]: "within (acts E now) (send_only transport r d) d"
  unfolding send_only_def by (intro effects)

lemma permit_acts [effects]: "within (acts E now) (clear_permit d) d" "within (acts E now) (clear_world_wake_request d) d"
  unfolding clear_permit_def clear_world_wake_request_def by (rule remember_acts; simp add: quiet_defs)+

section \<open>Facts the handlers rely on\<close>

lemmas silent_acts [effects] = authorize_member_silent [THEN within_silent] ensure_no_membership_prepare_silent [THEN within_silent]
  validate_membership_proposal_for_local_silent [THEN within_silent] validate_membership_certificate_for_local_silent [THEN within_silent]
  authorize_world_config_current_authority_silent [THEN within_silent] validate_non_recovery_epoch_transition_silent [THEN within_silent]
  transfer_checks_silent [THEN within_silent] load_sleep_record_fail_closed_silent [THEN within_silent]

lemmas silent_afters [simp] = silent_after [where op = "authorize_member H w p" for H w p, OF authorize_member_silent]
  silent_after [where op = "ensure_no_membership_prepare H w" for H w, OF ensure_no_membership_prepare_silent]
  silent_after [where op = "validate_membership_proposal_for_local H i t p" for H i t p, OF validate_membership_proposal_for_local_silent]
  silent_after [where op = "validate_membership_certificate_for_local H i t c" for H i t c, OF validate_membership_certificate_for_local_silent]
  silent_after [where op = "authorize_world_config_current_authority H p c" for H p c, OF authorize_world_config_current_authority_silent]
  silent_after [where op = "validate_non_recovery_epoch_transition H c r" for H c r, OF validate_non_recovery_epoch_transition_silent]
  silent_after [where op = "load_sleep_record_fail_closed H w" for H w, OF load_sleep_record_fail_closed_silent]

lemma loaded_worlds:
  "load_epoch_record w fs = Ok r1 \<Longrightarrow> er_world_id r1 = w"
  "load_membership_record w fs = Ok r2 \<Longrightarrow> mr_world_id r2 = w"
  "load_world_descriptor w fs = Ok r3 \<Longrightarrow> wd_world_id r3 = w"
  "load_solo_branch w fs = Ok r4 \<Longrightarrow> sb_world_id r4 = w"
  "load_membership_certificate w fs = Ok r5 \<Longrightarrow> certificate_world r5 = w"
  "load_membership_promise H w fs = Ok r6 \<Longrightarrow> mr_world_id (mp_proposed (dmp_proposal r6)) = w"
  by (auto simp: load_epoch_record_def load_membership_record_def load_world_descriptor_def load_solo_branch_def
    load_membership_certificate_def load_membership_promise_def)

lemma signed_worlds:
  "sign_membership H i r1 = Ok r1' \<Longrightarrow> mr_world_id r1' = mr_world_id r1"
  "sign_snapshot H i r2 = Ok r2' \<Longrightarrow> sm_world_id r2' = sm_world_id r2"
  "sign_solo_branch H i r3 = Ok r3' \<Longrightarrow> sb_world_id r3' = sb_world_id r3"
  by (auto simp: sign_membership_def sign_snapshot_def sign_solo_branch_def Let_def)

section \<open>Requests\<close>

lemma push_record_acts [effects]: "within (acts E now) (push_record load request transport d) d"
  unfolding push_record_def by (auto intro!: effects split: sum.splits)

lemma push_committed_world_payload_acts [effects]: "within (acts E now) (push_committed_world_payload E transport b d) d"
  unfolding push_committed_world_payload_def Let_def by (auto intro!: effects split: sum.splits option.splits)

lemma push_known_worlds_acts [effects]: "within (acts E now) (push_known_worlds E transport peer d) d"
  unfolding push_known_worlds_def Let_def by (auto intro!: effects split: sum.splits option.splits)

lemma push_pending_membership_requests_acts [effects]: "within (acts E now) (push_pending_membership_requests E transport peer d) d"
  unfolding push_pending_membership_requests_def Let_def by (auto intro!: effects split: sum.splits)

lemma resume_membership_proposal_acts [effects]:
  "(\<And>n. \<not> is_vote (response n)) \<Longrightarrow> within (acts E now) (resume_membership_proposal E transport peer current wanted response promise d) d"
  unfolding resume_membership_proposal_def Let_def by (auto intro!: effects)

lemma forget_heartbeat_acts [effects]: "within (acts E now) (remember forget_heartbeat d) d"
  by (rule remember_acts) (simp_all add: forget_heartbeat_def quiet_defs)

lemma membership_votes_acts [effects]: "within (acts E now) (remember (\<lambda>d. d\<lparr>dn_membership_votes := f d\<rparr>) d) d"
  by (rule remember_acts) (simp_all add: quiet_defs)

lemma propose_membership_acts [effects]:
  "(\<And>n. \<not> is_vote (response n)) \<Longrightarrow> world = de_world E \<Longrightarrow>
    within (acts E now) (propose_membership E transport peer world current descriptor response d) d"
  unfolding propose_membership_def Let_def by (auto intro!: effects dest!: signed_worlds)

lemma handle_join_request_acts [effects]:
  "jr_world_id r = de_world E \<Longrightarrow> within (acts E now) (handle_join_request E t transport sender r d) d"
  unfolding handle_join_request_def Let_def by (auto simp: is_vote_def intro!: effects split: sum.splits option.splits)

lemma handle_leave_request_acts [effects]:
  "lv_world_id r = de_world E \<Longrightarrow> within (acts E now) (handle_leave_request E transport sender r d) d"
  unfolding handle_leave_request_def Let_def
  by (auto simp: is_vote_def intro!: effects split: sum.splits dest!: loaded_worlds)

lemma finalize_and_ack_acts [effects]:
  "sm_world_id m = de_world E \<Longrightarrow> within (acts E now) (finalize_and_ack E transport m d) d"
  unfolding finalize_and_ack_def Let_def by (auto intro!: effects)

lemma finish_manifest_acts [effects]:
  "sm_world_id m = de_world E \<Longrightarrow> within (acts E now) (finish_manifest E transport m d) d"
  unfolding finish_manifest_def by (auto intro!: effects remember_acts simp: quiet_defs)

lemma authorize_manifest_acts [effects]:
  "sm_world_id m = de_world E \<Longrightarrow> within (file_acts E now d) (authorize_manifest (de_host E) p m fs) fs"
  unfolding authorize_manifest_def Let_def by (auto intro!: effects split: option.splits sum.splits)

lemma handle_snapshot_manifest_acts [effects]:
  "sm_world_id m = de_world E \<Longrightarrow> within (acts E now) (handle_snapshot_manifest E transport sender m d) d"
  unfolding handle_snapshot_manifest_def by (auto intro!: effects remember_acts simp: quiet_defs is_vote_def)

lemma handle_blob_chunk_acts [effects]:
  "within (acts E now) (handle_blob_chunk E transport sender w h e n bs fin d) d"
proof (rule acts_tame)
  assume "tame E d"
  then have "\<And>m. dn_pending_manifest d = Some m \<Longrightarrow> sm_world_id m = de_world E" by (simp add: tame_def)
  then show ?thesis unfolding handle_blob_chunk_def by (auto intro!: effects simp: is_vote_def)
qed

lemma handle_missing_blobs_acts [effects]:
  "w = de_world E \<Longrightarrow> within (acts E now) (handle_missing_blobs E transport sender w n hs d) d"
  unfolding handle_missing_blobs_def by (auto intro!: effects simp: is_vote_def)

lemma handle_replica_ack_acts [effects]: "within (acts E now) (handle_replica_ack E transport sender a d) d"
  unfolding handle_replica_ack_def by (auto intro!: effects simp: is_vote_def)

lemma handle_membership_proposal_acts [effects]:
  "mr_world_id (mp_proposed p) = de_world E \<Longrightarrow> within (acts E now) (handle_membership_proposal E t transport sender p d) d"
  unfolding handle_membership_proposal_def Let_def
  by (auto intro!: effects simp: is_vote_def split: MembershipPromiseResult.splits)

lemma handle_world_config_acts [effects]:
  "wc_world_id c = de_world E \<Longrightarrow> within (acts E now) (handle_world_config E transport sender c d) d"
  unfolding handle_world_config_def Let_def by (auto intro!: effects simp: is_vote_def)

lemma handle_solo_branch_acts [effects]:
  "sb_world_id b = de_world E \<Longrightarrow> within (acts E now) (handle_solo_branch E transport sender b d) d"
  unfolding handle_solo_branch_def Let_def
  by (auto intro!: effects simp: is_vote_def split: SoloReconciliation.splits sum.splits dest!: loaded_worlds)

lemma handle_sleep_acts [effects]:
  "snd now \<Longrightarrow> sl_world_id r = de_world E \<Longrightarrow> within (acts E now) (handle_sleep E transport sender r d) d"
  unfolding handle_sleep_def Let_def by (auto intro!: effects simp: is_vote_def)

section \<open>Memberships\<close>

lemma save_membership_acts [effects]:
  "members_justified E fs r \<Longrightarrow> within (file_acts E now d) (save_membership_record (de_host E) r fs) fs"
  by (rule file_action) (use daemon_action.members [of E "d\<lparr>dn_files := fs\<rparr>"] in simp)

lemma save_descriptor_acts:
  assumes "wf_membership fs = Content r" "wd_world_id w = de_world E"
    "wd_members w = wd_members (WorldDescriptorV1_normalize (w\<lparr>wd_members := mr_members r\<rparr>))"
  shows "within (file_acts E now d) (save_world_descriptor w fs) fs"
  by (rule file_action) (use daemon_action.descriptor [of "d\<lparr>dn_files := fs\<rparr>" r w E] assms in simp)

lemma saved_membership: "fst (save_membership_record H r fs) = Ok () \<Longrightarrow> wf_membership (after (save_membership_record H r) fs) = Content r"
  by (auto simp: save_membership_record_def after_def fst_check snd_check plan_simps write_membership_def protocol_def
    load_membership_record_def split: if_splits sum.splits)

lemma publish_members_acts [effects]:
  assumes "members_justified E fs r" "wd_world_id w = de_world E"
  shows "within (file_acts E now d) (publish_members (de_host E) r w fs) fs"
  unfolding publish_members_def Let_def
  by (intro effects save_descriptor_acts)
    (use assms saved_membership in \<open>auto simp: WorldDescriptorV1_normalize_def\<close>)

lemma published_descriptor:
  "fst (publish_members H r w fs) = Ok w' \<Longrightarrow> w' = WorldDescriptorV1_normalize (w\<lparr>wd_members := mr_members r\<rparr>)"
  by (auto simp: publish_members_def Let_def fst_then plan_simps)

lemma clear_satisfied_pending_membership_acts [effects]:
  "wd_world_id w = de_world E \<Longrightarrow> within (file_acts E now d) (clear_satisfied_pending_membership (de_host E) w fs) fs"
  unfolding clear_satisfied_pending_membership_def by (auto intro!: effects split: sum.splits option.splits)

lemma apply_membership_certificate_acts [effects]:
  assumes "certificate_world c = de_world E"
  shows "within (file_acts E now d) (apply_membership_certificate (de_host E) c fs) fs"
  using assms unfolding apply_membership_certificate_def Let_def
  by (auto intro!: effects simp: certificate_world_def members_justified_def certified_membership_def WorldDescriptorV1_normalize_def
    split: sum.splits dest!: loaded_worlds published_descriptor)

lemma handle_membership_commit_acts [effects]:
  "certificate_world c = de_world E \<Longrightarrow> within (acts E now) (handle_membership_commit E t transport sender c d) d"
  unfolding handle_membership_commit_def Let_def
  by (auto intro!: effects remember_acts simp: is_vote_def forget_heartbeat_def quiet_defs)

lemma recover_committed_membership_acts [effects]:
  "within (file_acts E now d) (recover_committed_membership (de_host E) i t (de_world E) fs) fs"
  unfolding recover_committed_membership_def Let_def
  by (auto intro!: effects split: sum.splits intro: loaded_worlds)

lemma same_voter_extension_silent [silence]: "silent (same_voter_extension H r c)"
  unfolding same_voter_extension_def Let_def some_or_def by (auto intro!: silence split: option.splits)

lemma publish_membership_acts [effects]:
  "members_justified E fs r \<Longrightarrow> within (file_acts E now d) (publish_membership (de_host E) r fs) fs"
  unfolding publish_membership_def
  by (auto intro!: effects simp: WorldDescriptorV1_normalize_def members_justified_def dest!: loaded_worlds published_descriptor)

lemma same_voter_extension_Ok: "fst (same_voter_extension H r c) = Ok (Ok ()) \<Longrightarrow> mr_members r = mr_members c"
  by (auto simp: same_voter_extension_def bail_def reply_def split: if_splits)

lemma handle_membership_acts [effects]:
  assumes "mr_world_id r = de_world E"
  shows "within (acts E now) (handle_membership E transport sender r d) d"
proof -
  have "silent ((\<lambda>_ :: world_files. same_voter_extension H r c) fs)" for H c fs using same_voter_extension_silent by simp
  note extension = within_silent [OF this] silent_after [where op = "\<lambda>_. same_voter_extension H r c" for H c, OF this]
  show ?thesis
    using assms unfolding handle_membership_def Let_def
    by (auto intro!: effects extension(1) simp: is_vote_def extension(2) members_justified_def split: sum.splits dest!: same_voter_extension_Ok)
qed

section \<open>What reading keeps\<close>

definition sans_head :: "world_files \<Rightarrow> world_files" where
  "sans_head fs = fs\<lparr>wf_head := Absent, wf_head_required := False, wf_intent := Absent\<rparr>"

lemma head_only_sans: "head_only f \<Longrightarrow> sans_head fs' = sans_head fs \<Longrightarrow> f fs' = f fs"
  unfolding head_only_def sans_head_def by metis

lemma head_only_sans_head: "head_only sans_head"
  by (simp add: head_only_def sans_head_def)

lemma head_only_loads:
  "head_only (load_epoch_record w)" "head_only (load_transfer_record w)" "head_only (load_recovery_promise H w)"
  "head_only (load_membership_record w)" "head_only (load_world_descriptor w)" "head_only (load_sleep_record w)"
  "head_only (load_membership_promise H w)" "head_only wf_epoch" "head_only epoch_at" "head_only wf_recovery_certificate"
  "head_only (\<lambda>fs. fst (transfer_continues t fs))" "head_only (load_sleep_record_fail_closed H w)" "head_only wf_sleep"
  by (simp_all add: head_only_def load_epoch_record_def load_transfer_record_def load_recovery_promise_def load_membership_record_def
    load_world_descriptor_def load_sleep_record_def load_membership_promise_def epoch_at_def transfer_continues_def
    load_sleep_record_fail_closed_def)

lemma after_reads:
  "head_only f \<Longrightarrow> f (after (latest_snapshot H w) fs) = f fs"
  "head_only f \<Longrightarrow> f (after (authorize_epoch H s r) fs) = f fs"
  "head_only f \<Longrightarrow> f (after (validate_recovery_epoch H s r c) fs) = f fs"
  "head_only f \<Longrightarrow> f (after (validate_transfer H t) fs) = f fs"
  by (rule after_keeps footprint | simp add: head_only_def)+

lemmas kept_loads [simp] = head_only_loads [THEN after_reads(1)] head_only_loads [THEN after_reads(2)]
  head_only_loads [THEN after_reads(3)] head_only_loads [THEN after_reads(4)]

definition reads_only :: "daemon \<Rightarrow> daemon \<Rightarrow> bool" where
  "reads_only d d' \<longleftrightarrow> (\<exists>fs'. d' = d\<lparr>dn_files := fs'\<rparr> \<and> sans_head fs' = sans_head (dn_files d))"

interpretation reads: step_relation reads_only
proof
  show "reads_only d d" for d unfolding reads_only_def by (rule exI [of _ "dn_files d"]) simp
  show "reads_only d d' \<Longrightarrow> reads_only d' d'' \<Longrightarrow> reads_only d d''" for d d' d'' by (auto simp: reads_only_def)
qed

lemma reads_at_files:
  assumes "\<And>f :: world_files \<Rightarrow> world_files. head_only f \<Longrightarrow> plan_keeps f (op (dn_files d))"
  shows "within reads_only (at_files op d) d"
  by (rule withinI)
    (auto simp: reads_only_def leaves_at_files dest!: leaves_keeps [where op = op, OF assms [OF head_only_sans_head]])

section \<open>Transfers and leases\<close>

lemma validate_transfer_acts [effects]:
  "at_world_id t = de_world E \<Longrightarrow> within (file_acts E now d) (validate_transfer (de_host E) t fs) fs"
  unfolding validate_transfer_def Let_def by (auto intro!: effects split: option.splits)

lemma validate_transfer_Ok:
  assumes "fst (validate_transfer H t fs) = Ok (Ok ())"
  shows "fst (transfer_continues t fs) = Ok (Ok ())"
    "at_signer_peer_id t = (case at_phase t of Accepted \<Rightarrow> at_to_peer_id t | _ \<Rightarrow> at_from_peer_id t)"
  using assms unfolding validate_transfer_def Let_def
  by (auto simp: passes silent_after [where op = "transfer_generation_ok t", OF transfer_checks_silent(2)])

lemma save_transfer_acts:
  "fst (transfer_continues t fs) = Ok (Ok ()) \<Longrightarrow> signed_transfer E t \<Longrightarrow> at_world_id t = de_world E \<Longrightarrow>
    within (file_acts E now d) (save_transfer_record (de_host E) t fs) fs"
  by (rule file_action) (use daemon_action.transfer [of t "d\<lparr>dn_files := fs\<rparr>" E] in simp)

lemma handle_authority_transfer_acts [effects]:
  "at_world_id t = de_world E \<Longrightarrow> within (acts E now) (handle_authority_transfer E transport t d) d"
  unfolding handle_authority_transfer_def Let_def
  by (auto intro!: effects save_transfer_acts simp: is_vote_def signed_transfer_def validate_transfer_Ok)

lemma remember_action:
  "daemon_action E now d (f d) \<Longrightarrow> (tame E d \<Longrightarrow> tame E (f d)) \<Longrightarrow> within (acts E now) (remember f d) d"
  unfolding remember_def by (rule acts.within_remember acts_action)+ simp

lemma handle_lease_grant_acts [effects]:
  assumes "lg_world_id l = de_world E"
  shows "within (acts E (mo_now t, drowsy)) (handle_lease_grant E t transport sender l d) d"
proof -
  have lease: "within (acts E (mo_now t, drowsy)) (remember (\<lambda>d. d\<lparr>dn_inbound_lease := Some \<lparr>il_generation = epoch_generation epoch,
      il_expires_at = mo_now t + unat AUTHORITY_LEASE_DURATION_MS\<rparr>,
      dn_recovery_not_before := Some (mo_now t + unat AUTHORITY_LEASE_DURATION_MS + RECOVERY_SETTLE_DELAY)\<rparr>) d) d"
    if "load_epoch_record (de_world E) (dn_files d) = Ok epoch" for epoch d
    by (rule remember_action) (use daemon_action.lease [OF that refl, of "(mo_now t, drowsy)"] in \<open>simp_all add: lease_term_def add.assoc tame_def\<close>)
  show ?thesis
    using assms unfolding handle_lease_grant_def Let_def by (auto intro!: effects lease simp: is_vote_def)
qed

end
