(* ===== verification/RecoveryRefinement.thy ===== *)
theory RecoveryRefinement
  imports DaemonRefinement
begin

text \<open>
  The handlers of epochs, recovery ballots and recovery epochs implement the actions, and with them the handling of
  every request.
\<close>

section \<open>Epochs\<close>

lemma save_epoch_acts:
  "epoch_justified E fs r \<Longrightarrow> within (file_acts E now d) (save_epoch_record (de_host E) r fs) fs"
  by (rule file_action) (use daemon_action.epoch [of E "d\<lparr>dn_files := fs\<rparr>"] in simp)

lemma saved_epoch: "fst (save_epoch_record H r fs) = Ok () \<Longrightarrow> wf_epoch (after (save_epoch_record H r) fs) = Content r"
  by (auto simp: save_epoch_record_def after_def fst_check snd_check plan_simps write_epoch_def protocol_def
    load_epoch_record_def split: if_splits sum.splits)

lemma authorize_epoch_acts [effects]:
  "er_world_id r = de_world E \<Longrightarrow> within (file_acts E now d) (authorize_epoch (de_host E) p r fs) fs"
  unfolding authorize_epoch_def Let_def by (auto intro!: effects split: option.splits)

lemma non_recovery_transition_Ok:
  assumes "fst (validate_non_recovery_epoch_transition H current r fs) = Ok (Ok ())"
  shows "er_mode r \<noteq> Recovery"
    "er_authority_peer_id r = er_authority_peer_id current \<and> er_authority_public_key r = er_authority_public_key current
      \<or> (\<exists>transfer. load_transfer_record (er_world_id r) fs = Ok transfer \<and> at_phase transfer = Committed
          \<and> at_from_peer_id transfer = er_authority_peer_id current \<and> at_to_peer_id transfer = er_authority_peer_id r
          \<and> at_next_epoch transfer = er_epoch_number r \<and> at_next_fencing_token transfer = er_fencing_token r)"
  using assms unfolding validate_non_recovery_epoch_transition_def Let_def by (auto simp: passes split: if_splits)

lemma handle_epoch_acts [effects]:
  assumes "er_world_id r = de_world E"
  shows "within (acts E now) (handle_epoch E transport sender r d) d"
  using assms unfolding handle_epoch_def Let_def
  by (auto intro!: effects save_epoch_acts simp: is_vote_def epoch_justified_def split: sum.splits dest!: non_recovery_transition_Ok)

section \<open>Recovery epochs\<close>

lemma validate_recovery_epoch_acts [effects]:
  "er_world_id r = de_world E \<Longrightarrow> within (file_acts E now d) (validate_recovery_epoch (de_host E) p r c fs) fs"
  unfolding validate_recovery_epoch_def Let_def by (auto intro!: effects split: option.splits)

lemma validate_recovery_epoch_Ok:
  assumes "fst (validate_recovery_epoch H p r c fs) = Ok (Ok ())"
  shows "er_mode r = Recovery"
    "\<exists>membership. load_membership_record (er_world_id r) fs = Ok membership
      \<and> validate_recovery_certificate_shape H c (canonical_members membership) = Ok ()"
    "\<forall>v \<in> set (rcert_votes c). verify_recovery_vote_signature H v = Ok ()"
    "rb_target_epoch (rcert_ballot c) = er_epoch_number r" "rb_target_fencing_token (rcert_ballot c) = er_fencing_token r"
    "rb_candidate_peer_id (rcert_ballot c) = er_authority_peer_id r"
  using assms unfolding validate_recovery_epoch_def Let_def by (auto simp: passes split: if_splits)

lemma promise_permits_silent [silence]: "silent (promise_permits H w c fs)"
  unfolding promise_permits_def Let_def by (auto intro!: silence split: sum.splits)

lemmas promise_permits_facts = promise_permits_silent [THEN within_silent]
  silent_after [where op = "promise_permits H w c" for H w c, OF promise_permits_silent]

lemma certificate_keeps:
  "(\<And>fs v. f (fs\<lparr>wf_recovery_certificate := v\<rparr>) = f fs) \<Longrightarrow> f (after (store_plan S (OpSaveRecoveryCertificate c)) fs) = f fs"
  by (rule after_keeps) (auto simp: store_plan_def addressed_def store_body_def discard_def intro!: footprint)

lemma certificate_kept_loads [simp]:
  "load_epoch_record w (after (store_plan S (OpSaveRecoveryCertificate c)) fs) = load_epoch_record w fs"
  "load_membership_record w (after (store_plan S (OpSaveRecoveryCertificate c)) fs) = load_membership_record w fs"
  "epoch_at (after (store_plan S (OpSaveRecoveryCertificate c)) fs) = epoch_at fs"
  by (rule certificate_keeps; simp add: load_epoch_record_def load_membership_record_def epoch_at_def)+

lemma saved_certificate:
  "fst (store_plan S (OpSaveRecoveryCertificate c) fs) = Ok u \<Longrightarrow> rb_world_id (rcert_ballot c) = se_world S
    \<Longrightarrow> wf_recovery_certificate (after (store_plan S (OpSaveRecoveryCertificate c)) fs) = Content c"
  by (auto simp: store_plan_def addressed_def store_body_def discard_def after_def save_recovery_certificate_def Let_def fst_check snd_check plan_simps)

lemma certified_recovery_epoch:
  assumes "fst (validate_recovery_epoch (de_host E) p r c fs) = Ok (Ok ())" "er_world_id r = de_world E"
    "fst (store_plan (de_store E) (OpSaveRecoveryCertificate c) (after (validate_recovery_epoch (de_host E) p r c) fs)) = Ok ()"
  shows "certified_recovery E (after (store_plan (de_store E) (OpSaveRecoveryCertificate c))
    (after (validate_recovery_epoch (de_host E) p r c) fs)) r"
  using validate_recovery_epoch_Ok [OF assms(1)] saved_certificate [OF assms(3)] assms(2)
  unfolding certified_recovery_def by (intro conjI) (auto intro!: exI [of _ c])

lemma certified_justified:
  "er_world_id r = de_world E \<Longrightarrow> certified_recovery E fs r
    \<Longrightarrow> (\<And>current. load_epoch_record (de_world E) fs = Ok current \<Longrightarrow> succeeds (de_host E) current r) \<Longrightarrow> epoch_justified E fs r"
  by (simp add: epoch_justified_def)

lemma clear_promise_acts [effects]:
  "w = de_world E \<Longrightarrow> n \<le> epoch_at fs
    \<Longrightarrow> within (file_acts E now d) (clear_recovery_promise_after_epoch_advance (de_host E) w n fs) fs"
  by (rule file_action) (use daemon_action.clear_promise [of n "d\<lparr>dn_files := fs\<rparr>" _ E] in simp)

lemma clear_sleep_epoch [simp]: "epoch_at (after clear_sleep_record fs) = epoch_at fs"
  by (rule after_keeps) (auto simp: epoch_at_def intro!: footprint)

lemma after_wake: "after clear_world_wake_request d = d\<lparr>dn_wake_request := False\<rparr>"
  by (simp add: clear_world_wake_request_def)

lemma settle_recovery_acts [effects]:
  "er_world_id r = de_world E \<Longrightarrow> er_epoch_number r \<le> epoch_at (dn_files d) \<Longrightarrow> within (acts E now) (settle_recovery E r d) d"
  unfolding settle_recovery_def by (auto intro!: effects simp: after_wake)

lemma loaded_epoch_at: "load_epoch_record w fs = Ok r \<Longrightarrow> epoch_at fs = er_epoch_number r"
  by (auto simp: load_epoch_record_def epoch_at_def)

lemma saved_epoch_at: "fst (save_epoch_record H r fs) = Ok () \<Longrightarrow> epoch_at (after (save_epoch_record H r) fs) = er_epoch_number r"
  by (simp add: epoch_at_def saved_epoch)

lemma forget_lease_acts [effects]: "within (acts E now) (remember (\<lambda>d. d\<lparr>dn_inbound_lease := None\<rparr>) d) d"
  by (rule remember_acts) (simp_all add: quiet_defs)

lemma handle_recovery_epoch_acts [effects]:
  assumes "er_world_id r = de_world E"
  shows "within (acts E now) (handle_recovery_epoch E transport sender r c d) d"
  using assms unfolding handle_recovery_epoch_def Let_def
  by (auto intro!: effects save_epoch_acts promise_permits_facts(1) certified_justified certified_recovery_epoch
    simp: is_vote_def plain_at_def saves_sleep_def guarded_op_def promise_permits_facts(2) loaded_epoch_at saved_epoch_at split: sum.splits)

section \<open>Recovery ballots\<close>

lemma authority_gone_reads: "within reads_only (authority_gone E now current latest d) d"
  unfolding authority_gone_def
  by (auto intro!: reads.rules reads_at_files silent_keeps load_sleep_record_fail_closed_silent split: option.splits)

lemma check_recovery_ballot_reads: "within reads_only (check_recovery_ballot E t sender b d) d"
  unfolding check_recovery_ballot_def Let_def
  by (auto intro!: reads.rules reads_at_files authority_gone_reads silent_keeps [OF ensure_no_membership_prepare_silent] footprint
    simp: head_only_def)

lemma authority_gone_acts [effects]: "within (acts E now) (authority_gone E now' current latest d) d"
  unfolding authority_gone_def by (auto intro!: effects split: option.splits)

lemma check_recovery_ballot_acts [effects]:
  "rb_world_id b = de_world E \<Longrightarrow> within (acts E now) (check_recovery_ballot E t sender b d) d"
  unfolding check_recovery_ballot_def Let_def by (auto intro!: effects)

lemma fail_closed_Some: "fst (load_sleep_record_fail_closed H w fs) = Ok (Ok (Some r)) \<Longrightarrow> is_ok (load_sleep_record w fs)"
  unfolding load_sleep_record_fail_closed_def by (auto simp: passes split: sum.splits if_splits)

lemma runtime_of_files [simp]:
  "connected (d\<lparr>dn_files := fs\<rparr>) = connected d" "recovery_window_open (d\<lparr>dn_files := fs\<rparr>) = recovery_window_open d"
  by (simp_all add: connected_def recovery_window_open_def fun_eq_iff)

lemma authority_gone_Ok:
  assumes "fst (authority_gone E now current latest d) = Ok (Ok ())" "load_epoch_record (de_world E) (dn_files d) = Ok current"
  shows "authority_silent E now d"
proof -
  have "er_world_id current = de_world E" using assms(2) by (rule loaded_worlds)
  with assms(1) obtain sleeping where read: "fst (load_sleep_record_fail_closed (de_host E) (de_world E) (dn_files d)) = Ok (Ok sleeping)"
    and rest: "sleeping = None \<Longrightarrow> \<not> connected d (er_authority_peer_id current) \<and> recovery_window_open d (epoch_generation current) now"
    by (auto simp: authority_gone_def passes split: option.splits)
  with assms(2) show ?thesis
    by (cases sleeping) (simp_all add: authority_silent_def fail_closed_Some)
qed

lemma head_only_targets: "head_only (\<lambda>fs. targets_next E fs b)"
  using head_only_loads(1) unfolding targets_next_def head_only_def by simp

lemma authority_silent_sans:
  assumes "sans_head fs' = sans_head (dn_files d)"
  shows "authority_silent E now (d\<lparr>dn_files := fs'\<rparr>) = authority_silent E now d"
proof -
  note same = head_only_loads(1,6) [THEN head_only_sans, OF assms, of "de_world E"]
  show ?thesis by (simp add: authority_silent_def same)
qed

lemma check_recovery_ballot_Ok:
  assumes "fst (check_recovery_ballot E t sender b d) = Ok (Ok ())" "rb_world_id b = de_world E"
  shows "targets_next E (dn_files d) b" "authority_silent E (mo_now t) d"
proof -
  show "targets_next E (dn_files d) b"
    using assms unfolding check_recovery_ballot_def Let_def targets_next_def by (auto simp: passes some_or_def)
  have latest: "sans_head (after (latest_snapshot H w) fs) = sans_head fs" for H w fs
    using head_only_sans_head by (rule after_reads)
  show "authority_silent E (mo_now t) d"
    using assms unfolding check_recovery_ballot_def Let_def
    by (auto simp: passes some_or_def authority_silent_sans latest dest!: authority_gone_Ok)
qed

lemma checked_ballot:
  assumes "fst (check_recovery_ballot E t sender b d) = Ok (Ok ())" "rb_world_id b = de_world E"
  shows "targets_next E (dn_files (after (check_recovery_ballot E t sender b) d)) b"
    "authority_silent E (mo_now t) (after (check_recovery_ballot E t sender b) d)"
proof -
  obtain fs' where fs': "after (check_recovery_ballot E t sender b) d = d\<lparr>dn_files := fs'\<rparr>" "sans_head fs' = sans_head (dn_files d)"
    using within_after [where op = "check_recovery_ballot E t sender b", OF check_recovery_ballot_reads] by (auto simp: reads_only_def)
  show "targets_next E (dn_files (after (check_recovery_ballot E t sender b) d)) b"
    using check_recovery_ballot_Ok(1) [OF assms] head_only_sans [OF head_only_targets fs'(2)] fs'(1) by simp
  show "authority_silent E (mo_now t) (after (check_recovery_ballot E t sender b) d)"
    using check_recovery_ballot_Ok(2) [OF assms] fs' by (simp add: authority_silent_sans)
qed

lemma promise_acts:
  "targets_next E fs b \<Longrightarrow> recovery_vote_for E b = Ok v \<Longrightarrow> within (file_acts E now d) (promise_recovery_ballot (de_host E) b v fs) fs"
  by (rule file_action) (use daemon_action.promise [of E "d\<lparr>dn_files := fs\<rparr>"] in simp)

lemma promise_standing:
  assumes "fst (promise_recovery_ballot (de_host E) b v fs) = Ok RecoveryAccepted" "rb_world_id b = de_world E"
  shows "standing E (after (promise_recovery_ballot (de_host E) b v) fs) v"
proof -
  have "RecoveryBallotV1_validate_semantics b = Ok ()" "RecoveryVoteV1_validate_semantics v = Ok ()" "matches_ballot (de_host E) v b = Ok True"
    "wf_recovery_promise (after (promise_recovery_ballot (de_host E) b v) fs) = Content \<lparr>drp_ballot = b, drp_vote = v\<rparr>"
    using assms(1) by (auto simp: promise_recovery_ballot_def write_recovery_promise_def after_def fst_check snd_check plan_simps Let_def
      protocol_def split: sum.splits if_splits)
  from promise_written [OF this] show ?thesis using assms(2) by (simp add: standing_def)
qed

lemma promise_kept_loads [simp]:
  "load_epoch_record w (after (promise_recovery_ballot H b v) fs) = load_epoch_record w fs"
  "load_sleep_record w (after (promise_recovery_ballot H b v) fs) = load_sleep_record w fs"
  by (rule after_keeps footprint | simp add: load_epoch_record_def load_sleep_record_def)+

lemma respond_vote_acts:
  "standing E (dn_files d) v \<Longrightarrow> authority_silent E (fst now) d \<Longrightarrow> within (acts E now) (respond transport (RsRecoveryVote v) d) d"
  unfolding respond_def by (rule remember_action) (auto simp: tame_def intro: daemon_action.vote)

lemma handle_recovery_ballot_acts [effects]:
  assumes "rb_world_id b = de_world E"
  shows "within (acts E (mo_now t, drowsy)) (handle_recovery_ballot E t transport sender b d) d"
proof -
  have silent: "authority_silent E now (d\<lparr>dn_files := after (promise_recovery_ballot H b v) (dn_files d)\<rparr>) = authority_silent E now d" for now d H v
    by (simp add: authority_silent_def)
  show ?thesis
    using assms checked_ballot [of E t sender b d] unfolding handle_recovery_ballot_def
    by (auto intro!: acts_rules within_at_files check_recovery_ballot_acts promise_acts respond_vote_acts promise_standing
        respond_acts [of "RsRecoveryRejected n m" for n m]
      simp: silent is_vote_def standing_def [of _ _ "drp_vote _"] split: RecoveryPromiseResult.splits)
qed

section \<open>The dispatcher\<close>

lemma world_status_acts [effects]: "within (file_acts E now d) (world_status E fs) fs"
  unfolding world_status_def Let_def by (auto intro!: effects split: sum.splits option.splits)

lemma local_recovery_quorum_acts [effects]: "within (acts E now) (local_recovery_quorum_without_authority E n d) d"
  unfolding local_recovery_quorum_without_authority_def by (auto intro!: effects split: sum.splits option.splits)

lemma local_host_capability_acts [effects]: "within (file_acts E now d) (local_host_capability (de_host E) m (de_world E) q fs) fs"
  unfolding local_host_capability_def Let_def by (auto intro!: effects split: sum.splits option.splits)

lemma handle_host_capability_acts [effects]: "within (acts E now) (handle_host_capability E t transport d) d"
  unfolding handle_host_capability_def by (auto intro!: effects simp: is_vote_def)

lemma dispatch_request_acts [effects]:
  assumes "request_world request \<in> {None, Some (de_world E)}" "\<And>r. request = RqSleep r \<Longrightarrow> drowsy"
  shows "within (acts E (mo_now t, drowsy)) (dispatch_request E t transport sender request d) d"
  using assms unfolding dispatch_request_def request_world_def membership_world_id_def Let_def
  by (cases request) (auto intro!: effects simp: is_vote_def)

lemma handle_request_acts [effects]:
  assumes "request_world request \<in> {None, Some (de_world E)}" "\<And>r. request = RqSleep r \<Longrightarrow> drowsy"
  shows "within (acts E (mo_now t, drowsy)) (handle_request E t transport sender request d) d"
  using assms unfolding handle_request_def by (auto intro!: effects split: option.splits)

end
