(* ===== verification/EventRefinement.thy ===== *)
theory EventRefinement
  imports RecoveryRefinement
begin

text \<open>
  Answers, connections and the periodic maintenance implement the actions, and with them every event of the daemon.
\<close>

section \<open>Sending\<close>

definition sans_sends :: "daemon \<Rightarrow> daemon" where
  "sans_sends d = d\<lparr>dn_outbound := [], dn_next_request := 0, dn_sent := []\<rparr>"

definition sends_only :: "daemon \<Rightarrow> daemon \<Rightarrow> bool" where
  "sends_only d d' \<longleftrightarrow> sans_sends d' = sans_sends d"

interpretation sends: step_relation sends_only
  by unfold_locales (simp_all add: sends_only_def)

lemma send_tracked_sends: "within sends_only (send_tracked transport request context d) d"
  unfolding send_tracked_def send_request_def track_def remember_def
  by (auto intro!: sends.rules sends.within_remember simp: sends_only_def sans_sends_def)

lemma sending:
  "within sends_only (request_world_statuses E descriptor d) d"
  "within sends_only (request_host_capabilities E descriptor d) d"
  "within sends_only (send_to_members E descriptor excused request context d) d"
  "within sends_only (send_to_visible E visible excused request context d) d"
  unfolding request_world_statuses_def request_host_capabilities_def send_to_members_def send_to_visible_def
  by (auto intro!: sends.rules sends.within_each send_tracked_sends split: option.splits)

lemma sends_onlyD:
  assumes "sends_only d d'"
  shows "dn_files d' = dn_files d" "connected d' = connected d" "recovery_window_open d' = recovery_window_open d"
    "dn_lease_acks d' = dn_lease_acks d" "dn_epoch_acks d' = dn_epoch_acks d" "dn_recovery_ballot d' = dn_recovery_ballot d"
    "dn_recovery_votes d' = dn_recovery_votes d"
proof -
  note same = assms [unfolded sends_only_def]
  show "dn_files d' = dn_files d" "dn_lease_acks d' = dn_lease_acks d" "dn_epoch_acks d' = dn_epoch_acks d"
    "dn_recovery_ballot d' = dn_recovery_ballot d" "dn_recovery_votes d' = dn_recovery_votes d"
    using arg_cong [OF same, of dn_files] arg_cong [OF same, of dn_lease_acks] arg_cong [OF same, of dn_epoch_acks]
      arg_cong [OF same, of dn_recovery_ballot] arg_cong [OF same, of dn_recovery_votes] by (simp_all add: sans_sends_def)
  show "connected d' = connected d" "recovery_window_open d' = recovery_window_open d"
    using arg_cong [OF same, of dn_authenticated_peers] arg_cong [OF same, of dn_inbound_lease] arg_cong [OF same, of dn_recovery_not_before]
    by (simp_all add: sans_sends_def connected_def recovery_window_open_def fun_eq_iff)
qed

lemmas after_sends [simp] =
  sends_onlyD [OF within_after [where op = "request_world_statuses E w" for E w, OF sending(1)]]
  sends_onlyD [OF within_after [where op = "request_host_capabilities E w" for E w, OF sending(2)]]
  sends_onlyD [OF within_after [where op = "send_to_members E w u r c" for E w u r c, OF sending(3)]]
  sends_onlyD [OF within_after [where op = "send_to_visible E v u r c" for E v u r c, OF sending(4)]]

lemma send_all_acts [effects]:
  "within (acts E now) (request_world_statuses E descriptor d) d"
  "within (acts E now) (request_host_capabilities E descriptor d) d"
  "(\<And>peer h. peer \<noteq> de_peer E \<Longrightarrow> context peer \<noteq> RecoveryBallotContext (de_peer E) h)
    \<Longrightarrow> within (acts E now) (send_to_members E descriptor excused request context d) d"
  "(\<And>peer h. peer \<noteq> de_peer E \<Longrightarrow> context peer \<noteq> RecoveryBallotContext (de_peer E) h)
    \<Longrightarrow> within (acts E now) (send_to_visible E visible excused request context d) d"
  "(\<And>peer h. peer \<in> set peers \<Longrightarrow> context peer \<noteq> RecoveryBallotContext (de_peer E) h)
    \<Longrightarrow> within (acts E now) (send_to_peers excused request context peers d) d"
  unfolding request_world_statuses_def request_host_capabilities_def send_to_members_def send_to_visible_def send_to_peers_def
  by (auto intro!: effects acts.within_each split: option.splits)

section \<open>Answers and connections\<close>

lemma replication_acts [effects]:
  "within (acts E now) (remember (drop_replication transport) d) d"
  "within (acts E now) (remember (change_replication transport f) d) d"
  "within (acts E now) (remember (\<lambda>d. d\<lparr>dn_replications := g d\<rparr>) d) d"
  by (rule remember_acts; simp add: quiet_defs drop_replication_def change_replication_def)+

lemma pump_chunks_acts [effects]: "within (acts E now) (pump_chunks E transport number pending d) d"
  by (induction pending arbitrary: d) (auto intro!: effects split: prod.splits)

lemma send_next_replication_chunk_acts [effects]: "within (acts E now) (send_next_replication_chunk E n transport d) d"
  unfolding send_next_replication_chunk_def by (auto intro!: effects split: option.splits)

lemma retry_due_replication_acts [effects]: "within (acts E now) (retry_due_replication E n d) d"
  unfolding retry_due_replication_def by (auto intro!: effects acts.within_each)

lemma manifest_accepted_acts [effects]: "within (acts E now) (manifest_accepted E n transport number accepted missing d) d"
  unfolding manifest_accepted_def by (auto intro!: effects acts.within_each)

lemma blob_chunk_accepted_acts [effects]:
  "within (acts E now) (blob_chunk_accepted E n transport number hash offset finished accepted_hash accepted_offset d) d"
  unfolding blob_chunk_accepted_def Let_def by (auto intro!: effects split: option.splits list.splits)

lemma lease_accepted_acts [effects]: "within (acts E now) (lease_accepted E n transport peer g e f d) d"
  unfolding lease_accepted_def by (auto intro!: effects remember_acts simp: quiet_defs split: sum.splits option.splits)

lemma update_other: "k \<noteq> p \<Longrightarrow> (k, v) \<in> set (AList.update p x l) \<longleftrightarrow> (k, v) \<in> set l"
  by (induction l) auto

lemma recovery_vote_received_acts:
  assumes "peer \<noteq> de_peer E"
  shows "within (acts E now) (recovery_vote_received E peer hash vote d) d"
proof -
  have "own_votes E (d\<lparr>dn_recovery_votes := AList.update peer vote (dn_recovery_votes d)\<rparr>) = own_votes E d" for d
    using assms by (simp add: own_votes_def update_other)
  with assms show ?thesis
    unfolding recovery_vote_received_def Let_def
    by (auto intro!: effects remember_acts simp: tame_def lease_kept_def votes_sent_def split: option.splits)
qed

lemma recovery_rejected_acts [effects]: "within (acts E now) (recovery_rejected E hash highest d) d"
  unfolding recovery_rejected_def Let_def by (auto intro!: effects remember_acts simp: quiet_defs)

lemma membership_vote_received_acts [effects]: "within (acts E now) (membership_vote_received E peer hash vote d) d"
  unfolding membership_vote_received_def Let_def by (auto intro!: effects split: sum.splits)

lemma membership_commit_accepted_acts [effects]: "within (acts E now) (membership_commit_accepted E transport peer n accepted d) d"
  unfolding membership_commit_accepted_def by (auto intro!: effects split: option.splits)

lemma observe_acts [effects]:
  "within (acts E now) (observe_status E n peer status d) d" "within (acts E now) (observe_capability E n peer capability d) d"
  unfolding observe_status_def observe_capability_def by (auto intro!: effects remember_acts simp: quiet_defs split: option.splits)

lemma chunk_refused_acts [effects]: "within (acts E now) (chunk_refused n transport number code d) d"
  unfolding chunk_refused_def by (auto intro!: effects)

lemma epoch_acks_acts [effects]: "within (acts E now) (remember (\<lambda>d. d\<lparr>dn_epoch_acks := f d\<rparr>) d) d"
  by (rule remember_acts) (simp_all add: quiet_defs)

lemma handle_response_acts:
  assumes "\<And>h. ctx \<noteq> Some (RecoveryBallotContext (de_peer E) h)"
  shows "within (acts E now) (handle_response E n transport ctx response d) d"
proof (cases ctx)
  case (Some c)
  with assms show ?thesis
    unfolding handle_response_def
    by (cases c) (auto intro!: effects recovery_vote_received_acts split: WireResponse.split)
qed (auto simp: handle_response_def intro: effects)

lemma peer_authenticated_acts [effects]: "within (acts E now) (peer_authenticated E transport peer d) d"
  unfolding peer_authenticated_def by (auto intro!: effects remember_acts simp: quiet_defs)

lemma closed_outbound_acts [effects]:
  "within (acts E now) (remember (\<lambda>d. d\<lparr>dn_outbound := AList.delete n (dn_outbound d)\<rparr>) d) d"
  by (rule remember_acts) (auto simp: quiet_defs AList.delete_eq)

lemma receive_response_acts [effects]: "within (acts E now) (receive_response E n transport peer number response d) d"
proof -
  have answer: "within (acts E now) (then_ok (remember (\<lambda>d. d\<lparr>dn_outbound := AList.delete number (dn_outbound d)\<rparr>)) (\<lambda>_.
    handle_response E n transport (map_of (dn_outbound d) number) response) d) d" for d
  proof (rule acts_tame)
    assume "tame E d"
    then have "map_of (dn_outbound d) number \<noteq> Some (RecoveryBallotContext (de_peer E) h)" for h
      by (force simp: tame_def dest: map_of_SomeD)
    then show ?thesis by (auto intro!: effects handle_response_acts)
  qed
  have hello: "within (acts E now) ((case response of
      RsHelloAccepted _ \<Rightarrow> (case peer of None \<Rightarrow> (\<lambda>_. accept ()) | Some p \<Rightarrow> peer_authenticated E transport p)
    | _ \<Rightarrow> (\<lambda>_. accept ())) d) d"
    by (cases response) (auto intro!: effects split: option.splits)
  show ?thesis unfolding receive_response_def by (rule acts.within_then_ok, rule hello, rule answer)
qed

lemma delete_shrinks: "own_votes E (d\<lparr>dn_recovery_votes := AList.delete p (dn_recovery_votes d)\<rparr>) \<subseteq> own_votes E d"
  by (auto simp: own_votes_def AList.delete_eq)

lemma forget_peer_acts: "acts E now d (forget_peer_state peer d)"
  unfolding forget_peer_state_def
  by (rule acts_action) (auto simp: quiet_defs AList.delete_eq intro!: daemon_action.quiet)

lemma peer_disconnected_acts [effects]: "within (acts E now) (remember (peer_disconnected transport) d) d"
proof -
  have drop: "acts E now d (drop_replication transport d)"
    and forget: "acts E now d (d\<lparr>dn_authenticated_peers := AList.delete transport (dn_authenticated_peers d)\<rparr>)" for d
    by (rule acts_action, auto simp: drop_replication_def quiet_defs intro!: daemon_action.quiet)+
  show ?thesis
    unfolding remember_def peer_disconnected_def
    by (rule acts.within_remember)
      (auto split: option.splits intro!: drop acts.trans [OF forget acts.trans [OF forget_peer_acts drop]])
qed

lemma request_failed_acts [effects]: "within (acts E now) (remember (request_failed transport number) d) d"
  unfolding request_failed_def Let_def drop_replication_def
  by (rule remember_acts; auto simp: quiet_defs AList.delete_eq split: option.splits OutboundContext.splits)

section \<open>Maintenance\<close>

lemma evaluate_from_storage_acts [effects]:
  "within (file_acts E now d) (evaluate_from_storage (de_host E) (de_zstd E) (de_pick E) n p (de_world E) obs fs) fs"
  unfolding evaluate_from_storage_def Let_def by (auto intro!: effects split: sum.splits option.splits)

lemma publish_host_readiness_snapshot_acts [effects]: "within (acts E now) (publish_host_readiness_snapshot E t d) d"
  unfolding publish_host_readiness_snapshot_def Let_def by (auto intro!: effects remember_acts simp: quiet_defs)

lemma commit_membership_transition_acts [effects]:
  "certificate_world c = de_world E \<Longrightarrow> within (acts E now) (commit_membership_transition E c d) d"
  unfolding commit_membership_transition_def Let_def
  by (auto intro!: effects split: sum.splits MembershipConsensusError.splits)

lemma maintain_membership_transition_acts [effects]:
  "mr_world_id (mp_proposed (dmp_proposal p)) = de_world E \<Longrightarrow> within (acts E now) (maintain_membership_transition E p d) d"
  unfolding maintain_membership_transition_def Let_def by (auto intro!: effects simp: certificate_world_def)

lemma ensure_recovery_snapshot_acts [effects]:
  "er_world_id r = de_world E \<Longrightarrow> within (file_acts E now d) (ensure_recovery_snapshot E r fs) fs"
  unfolding ensure_recovery_snapshot_def Let_def by (auto intro!: effects dest!: signed_worlds)

lemma signed_members: "sign_membership H i r = Ok r' \<Longrightarrow> mr_members r' = mr_members r \<and> mr_world_id r' = mr_world_id r"
  by (auto simp: sign_membership_def Let_def)

lemma ensure_recovery_membership_acts [effects]:
  "er_world_id r = de_world E \<Longrightarrow> within (file_acts E now d) (ensure_recovery_membership E r fs) fs"
  unfolding ensure_recovery_membership_def Let_def
  by (auto intro!: effects simp: members_justified_def dest!: signed_members)

lemma ensure_recovery_artifacts_acts [effects]:
  "er_world_id r = de_world E \<Longrightarrow> within (file_acts E now d) (ensure_recovery_artifacts E r fs) fs"
  unfolding ensure_recovery_artifacts_def by (auto intro!: effects)

lemma refresh_solo_branch_acts [effects]:
  "er_world_id r = de_world E \<Longrightarrow> within (file_acts E now d) (refresh_solo_branch E r fs) fs"
  unfolding refresh_solo_branch_def Let_def by (auto intro!: effects dest!: signed_worlds)

end
