(* ===== verification/TickRefinement.thy ===== *)
theory TickRefinement
  imports EventRefinement
begin

text \<open>
  Keeping authority and driving a recovery implement the actions; so every event of the daemon does.
\<close>

section \<open>What a plan ends with\<close>

definition ends :: "('a \<Rightarrow> 's \<Rightarrow> bool) \<Rightarrow> ('s, 'a) handled \<Rightarrow> 's \<Rightarrow> bool" where
  "ends P p s \<longleftrightarrow> (\<forall>x. fst p = Ok (Ok x) \<longrightarrow> P x (apply_mutations (snd p) s))"

lemma ends_after: "ends P (op s) s \<Longrightarrow> fst (op s) = Ok (Ok x) \<Longrightarrow> P x (after op s)"
  by (simp add: ends_def after_def)

lemma ends_stop: "ends P (bail m) s" "ends P (reply (Err e)) s" "ends P (refuse f) s"
  by (simp_all add: ends_def passes)

lemma ends_accept: "P x s \<Longrightarrow> ends P (accept x) s"
  by (simp add: ends_def passes) (simp add: accept_def reply_def)

lemma ends_check: "(\<And>x. r = Ok x \<Longrightarrow> ends P (k x) s) \<Longrightarrow> ends P (check r k) s"
  by (cases r) (simp_all add: ends_stop)

lemma ends_demand: "(\<And>x. r = Ok x \<Longrightarrow> ends P (k x) s) \<Longrightarrow> ends P (demand f r k) s"
  by (cases r) (simp_all add: ends_stop demand_def)

lemma ends_some_or: "(\<And>x. v = Some x \<Longrightarrow> ends P (k x) s) \<Longrightarrow> ends P (some_or m v k) s"
  by (cases v) (simp_all add: ends_stop some_or_def)

lemma ends_then:
  assumes "\<And>x. fst (op s) = Ok x \<Longrightarrow> ends P (k x (after op s)) (after op s)"
  shows "ends P (then_plan op k s) s"
  using assms unfolding ends_def passes by (auto simp: after_then after_def [symmetric, of "then_plan op k" s] after_def [symmetric, of "k x" for x])

lemma ends_then_ok:
  assumes "\<And>x. fst (op s) = Ok (Ok x) \<Longrightarrow> ends P (k x (after op s)) (after op s)"
  shows "ends P (then_ok op k s) s"
  unfolding then_ok_def by (rule ends_then) (auto simp: ends_stop assms split: sum.splits)

lemmas ends_rules = ends_stop ends_accept ends_check ends_demand ends_some_or ends_then ends_then_ok

section \<open>What the maintenance keeps\<close>

lemma store_keeps:
  "(\<And>fs v. f (fs\<lparr>wf_reservation := v\<rparr>) = f fs) \<Longrightarrow> f (after clear_recovery_reservation fs) = f fs"
  "(\<And>fs v. f (fs\<lparr>wf_sleep := v\<rparr>) = f fs) \<Longrightarrow> f (after clear_sleep_record fs) = f fs"
  "(\<And>fs v. f (fs\<lparr>wf_recovery_promise := v\<rparr>) = f fs) \<Longrightarrow> f (after (promise_recovery_ballot H b v) fs) = f fs"
  by (rule after_keeps footprint | assumption)+

lemma tidy_keeps [simp]: "epoch_at (after clear_recovery_reservation fs) = epoch_at fs"
  by (rule store_keeps) (simp add: epoch_at_def)

lemma promise_kept [simp]: "load_world_descriptor w (after (promise_recovery_ballot H b v) fs) = load_world_descriptor w fs"
  by (rule store_keeps) (simp add: load_world_descriptor_def)

lemma certificate_kept [simp]: "load_world_descriptor w (after (store_plan S (OpSaveRecoveryCertificate c)) fs) = load_world_descriptor w fs"
  by (rule certificate_keeps) (simp add: load_world_descriptor_def)

lemma local_host_capability_silent [silence]: "silent (local_host_capability H M w q fs)"
  unfolding local_host_capability_def Let_def by (auto intro!: silence split: sum.splits)

lemma local_host_capability_after [simp]: "after (local_host_capability H M w q) fs = fs"
  by (rule silent_after [where op = "local_host_capability H M w q", OF local_host_capability_silent])

lemma refresh_solo_branch_keeps:
  assumes "head_only f" "\<And>fs v. f (fs\<lparr>wf_solo_branch := v\<rparr>) = f fs"
  shows "plan_keeps f (refresh_solo_branch E r fs)"
  using assms unfolding refresh_solo_branch_def Let_def head_only_def some_or_def
  by (auto intro!: footprint split: option.splits)

lemma refresh_solo_branch_kept [simp]: "load_epoch_record w (after (refresh_solo_branch E r) fs) = load_epoch_record w fs"
  by (rule after_keeps, rule refresh_solo_branch_keeps) (simp_all add: head_only_loads, simp add: load_epoch_record_def)

section \<open>Keeping authority\<close>

lemma next_epoch_Ok:
  assumes "next_epoch E previous w latest mode reason = Ok r"
  shows "succeeds (de_host E) previous r" "er_world_id r = w" "er_mode r = mode" "er_authority_peer_id r = de_peer E"
    "er_authority_public_key r = de_key E"
    "checked_next (epoch_generation previous) = Ok (AuthorityGeneration (er_epoch_number r) (er_fencing_token r))"
  using assms unfolding next_epoch_def succeeds_def Let_def by (auto simp: map_err_eq_Ok)

lemma promote_solo_to_quorum_acts:
  assumes "load_epoch_record (de_world E) (dn_files d) = Ok epoch" "wd_world_id descriptor = de_world E"
    "er_authority_peer_id epoch = de_peer E" "er_authority_public_key epoch = de_key E"
  shows "within (acts E now) (promote_solo_to_quorum E descriptor epoch d) d"
  using assms unfolding promote_solo_to_quorum_def Let_def
  by (auto intro!: effects save_epoch_acts simp: epoch_justified_def next_epoch_Ok)

lemma refresh_permit_acts:
  "holds_authority E (fst now) d g \<Longrightarrow> within (acts E now) (refresh_permit g heartbeat d) d"
  unfolding refresh_permit_def by (rule remember_action) (auto simp: tame_def intro: daemon_action.permit)

lemma heartbeat_acts [effects]: "within (acts E now) (remember (\<lambda>d. d\<lparr>dn_permit_heartbeat := v\<rparr>) d) d"
  by (rule remember_acts) (simp_all add: quiet_defs)

lemma keep_permit_acts:
  assumes "holds_authority E (fst now) d g"
  shows "within (acts E now) (keep_permit g d) d"
proof -
  have "holds_authority E (fst now) (d\<lparr>dn_permit_heartbeat := v\<rparr>) g" for v
    using assms by (simp add: holds_authority_def confirmed_members_def connected_def lease_confirms_def [abs_def])
  then show ?thesis unfolding keep_permit_def Let_def by (auto intro!: effects refresh_permit_acts)
qed

text \<open>What leaves the files alone.\<close>

definition still :: "daemon \<Rightarrow> daemon \<Rightarrow> bool" where
  "still d d' \<longleftrightarrow> dn_files d' = dn_files d"

interpretation still: step_relation still
  by unfold_locales (simp_all add: still_def)

lemma keep_permit_still: "within still (keep_permit g d) d"
  unfolding keep_permit_def refresh_permit_def Let_def remember_def
  by (auto intro!: still.rules still.within_remember simp: still_def)

lemma keep_permit_files [simp]: "dn_files (after (keep_permit g) d) = dn_files d"
  using within_after [where op = "keep_permit g", OF keep_permit_still] by (simp add: still_def)

lemma accept_after [simp]: "after (\<lambda>_. accept x) d = d"
  by (simp add: after_def accept_def reply_def)

lemma clear_permit_after [simp]: "after clear_permit d = d\<lparr>dn_permit := None\<rparr>"
  by (simp add: clear_permit_def)

lemma maintain_recovery_epoch_quorum_acts [effects]:
  "within (acts E now) (maintain_recovery_epoch_quorum E descriptor epoch d) d"
  unfolding maintain_recovery_epoch_quorum_def Let_def by (auto intro!: effects)

lemma maintain_recovery_epoch_quorum_sends: "within sends_only (maintain_recovery_epoch_quorum E descriptor epoch d) d"
  unfolding maintain_recovery_epoch_quorum_def Let_def by (auto intro!: sends.rules sending)

lemmas maintain_recovery_epoch_quorum_after [simp] =
  sends_onlyD [OF within_after [where op = "maintain_recovery_epoch_quorum E w r" for E w r, OF maintain_recovery_epoch_quorum_sends]]

lemma maintain_recovery_epoch_quorum_True:
  assumes "fst (maintain_recovery_epoch_quorum E descriptor epoch d) = Ok (Ok True)"
  shows "has_quorum (member_count descriptor) (confirmed_members E descriptor (\<lambda>peer. dn_epoch_acks d peer = Some (epoch_generation epoch)) d)"
  using assms unfolding maintain_recovery_epoch_quorum_def Let_def
  by (auto simp: passes confirmed_members_def split: if_splits)

lemma maintain_local_authority_acts:
  assumes "load_sleep_record (de_world E) (dn_files d) = Err (StIo NotFound)"
    "\<not> is_ok (load_membership_promise (de_host E) (de_world E) (dn_files d))"
    "load_epoch_record (de_world E) (dn_files d) = Ok epoch" "load_world_descriptor (de_world E) (dn_files d) = Ok descriptor"
    "er_authority_peer_id epoch = de_peer E" "er_authority_public_key epoch = de_key E"
  shows "within (acts E (mo_now t, drowsy)) (maintain_local_authority E t descriptor epoch d) d"
proof -
  have worlds: "er_world_id epoch = de_world E" "wd_world_id descriptor = de_world E" using assms loaded_worlds by metis+
  have permit: "within (acts E (mo_now t, drowsy)) (keep_permit (epoch_generation epoch) d') d'"
    if "dn_files d' = dn_files d" "connected d' = connected d" "dn_epoch_acks d' = dn_epoch_acks d" "er_mode epoch \<noteq> Solo"
      "has_quorum (member_count descriptor) (confirmed_members E descriptor (lease_confirms (epoch_generation epoch) (mo_now t) d') d')"
      "er_mode epoch = Recovery \<Longrightarrow> fst (maintain_recovery_epoch_quorum E descriptor epoch d) = Ok (Ok True)" for d'
    using that assms maintain_recovery_epoch_quorum_True [of E descriptor epoch d]
    by (intro keep_permit_acts) (auto simp: holds_authority_def confirmed_members_def)
  show ?thesis
    using assms worlds unfolding maintain_local_authority_def Let_def
    by (auto intro!: effects permit promote_solo_to_quorum_acts simp: loaded_epoch_at passes)
qed

section \<open>Driving a recovery\<close>

text \<open>What an attempt relies on, and the ballots it may use.\<close>

definition attempt_ready :: "daemon_env \<Rightarrow> nat \<Rightarrow> RecoveryAttempt \<Rightarrow> daemon \<Rightarrow> bool" where
  "attempt_ready E now a d \<longleftrightarrow> load_epoch_record (de_world E) (dn_files d) = Ok (ra_previous a)
    \<and> checked_next (epoch_generation (ra_previous a)) = Ok (ra_recovery_generation a)
    \<and> load_world_descriptor (de_world E) (dn_files d) = Ok (ra_descriptor a) \<and> authority_silent E now d"

definition attempt_ballot :: "daemon_env \<Rightarrow> RecoveryAttempt \<Rightarrow> RecoveryBallotV1 \<Rightarrow> bool" where
  "attempt_ballot E a b \<longleftrightarrow> rb_base_epoch b = er_epoch_number (ra_previous a) \<and> rb_base_fencing_token b = er_fencing_token (ra_previous a)
    \<and> rb_target_epoch b = ag_epoch (ra_recovery_generation a) \<and> rb_target_fencing_token b = ag_fencing_token (ra_recovery_generation a)
    \<and> rb_candidate_peer_id b = de_peer E"

lemma attempt_worlds:
  assumes "attempt_ready E now a d"
  shows "wd_world_id (ra_descriptor a) = de_world E" "er_world_id (ra_previous a) = de_world E"
  using assms loaded_worlds unfolding attempt_ready_def by metis+

lemma signed_ballot:
  assumes "sign_recovery_ballot H i b = Ok b'"
  shows "rb_world_id b' = rb_world_id b" "rb_base_epoch b' = rb_base_epoch b" "rb_base_fencing_token b' = rb_base_fencing_token b"
    "rb_target_epoch b' = rb_target_epoch b" "rb_target_fencing_token b' = rb_target_fencing_token b"
    "rb_candidate_peer_id b' = peer_id H i"
  using assms by (auto simp: sign_recovery_ballot_def Let_def)

lemma promise_keeps_attempt:
  "attempt_ready E now a d \<Longrightarrow> attempt_ready E now a (d\<lparr>dn_files := after (promise_recovery_ballot H b v) (dn_files d)\<rparr>)"
  by (auto simp: attempt_ready_def authority_silent_def)

lemma own_vote_acts:
  "standing E (dn_files d) v \<Longrightarrow> authority_silent E (fst now) d
    \<Longrightarrow> within (acts E now) (remember (\<lambda>d. d\<lparr>dn_recovery_votes := [(de_peer E, v)], dn_recovery_ballot := Some b\<rparr>) d) d"
  by (rule remember_action) (auto simp: tame_def intro: daemon_action.own_vote)

lemma round_floor_acts [effects]: "within (acts E now) (remember (\<lambda>d. d\<lparr>dn_recovery_round_floor := v\<rparr>) d) d"
  by (rule remember_acts) (simp_all add: quiet_defs)

lemma open_recovery_ballot_acts:
  assumes "attempt_ready E (fst now) a d"
  shows "within (acts E now) (open_recovery_ballot E a base_hash membership_hash floor d) d"
proof -
  have targets: "targets_next E (dn_files d) b" if "rb_world_id b = de_world E" "attempt_ballot E a b" for b
    using assms that by (auto simp: attempt_ready_def attempt_ballot_def targets_next_def)
  have silent: "authority_silent E (fst now) (d\<lparr>dn_files := after (promise_recovery_ballot H b v) (dn_files d)\<rparr>)" for H b v
    using promise_keeps_attempt [OF assms] by (simp add: attempt_ready_def)
  show ?thesis
    using attempt_worlds [OF assms] unfolding open_recovery_ballot_def Let_def
    by (auto intro!: effects promise_acts own_vote_acts promise_standing targets silent
      simp: attempt_ballot_def signed_ballot standing_def [of _ _ "drp_vote _"] split: RecoveryPromiseResult.splits)
qed

lemma opened_ballot:
  assumes "attempt_ready E now a d"
  shows "ends (\<lambda>x d'. x \<longrightarrow> attempt_ready E now a d' \<and> (\<exists>b. dn_recovery_ballot d' = Some b \<and> attempt_ballot E a b))
    (open_recovery_ballot E a base_hash membership_hash floor d) d"
proof -
  have same: "attempt_ready E now a (d\<lparr>dn_recovery_votes := votes, dn_recovery_ballot := ballot\<rparr>) = attempt_ready E now a d" for d votes ballot
    by (simp add: attempt_ready_def authority_silent_def connected_def recovery_window_open_def)
  note ready = promise_keeps_attempt [OF assms]
  show ?thesis
    unfolding open_recovery_ballot_def Let_def
    by (auto intro!: ends_rules simp: same ready attempt_ballot_def signed_ballot split: RecoveryPromiseResult.splits)
qed

lemma promote_recovery_epoch_ends:
  "ends (\<lambda>r d'. epoch_at (dn_files d') = er_epoch_number r) (promote_recovery_epoch E a d) d"
  unfolding promote_recovery_epoch_def by (auto intro!: ends_rules simp: saved_epoch_at)

lemmas promoted_epoch_at = ends_after [where op = "promote_recovery_epoch E a" for E a, OF promote_recovery_epoch_ends]

lemma promote_recovery_epoch_acts:
  "(\<And>r reason. next_epoch E (ra_previous a) (er_world_id (ra_previous a)) (ra_latest a) Recovery reason = Ok r
      \<Longrightarrow> epoch_justified E (dn_files d) r) \<Longrightarrow> within (acts E now) (promote_recovery_epoch E a d) d"
  unfolding promote_recovery_epoch_def by (auto intro!: effects save_epoch_acts)

lemma conclude_recovery_acts:
  assumes "attempt_ready E (fst now) a d" "attempt_ballot E a (rcert_ballot c)"
    "validate_recovery_certificate_shape (de_host E) c (map wm_peer_id (filter (\<lambda>m. \<not> wm_banned m) (wd_members (ra_descriptor a)))) = Ok ()"
    "\<forall>v \<in> set (rcert_votes c). verify_recovery_vote_signature (de_host E) v = Ok ()"
  shows "within (acts E now) (conclude_recovery E a c d) d"
proof -
  have justified: "epoch_justified E (after (store_plan (de_store E) (OpSaveRecoveryCertificate c)) (dn_files d)) r"
    if "next_epoch E (ra_previous a) (de_world E) (ra_latest a) Recovery reason = Ok r"
      "fst (store_plan (de_store E) (OpSaveRecoveryCertificate c) (dn_files d)) = Ok ()" for r reason
  proof (rule certified_justified)
    note r = next_epoch_Ok [OF that(1)]
    show "er_world_id r = de_world E" by (rule r)
    show "succeeds (de_host E) current r"
      if "load_epoch_record (de_world E) (after (store_plan (de_store E) (OpSaveRecoveryCertificate c)) (dn_files d)) = Ok current" for current
      using that r(1) assms(1) by (simp add: attempt_ready_def)
    have "ra_recovery_generation a = AuthorityGeneration (er_epoch_number r) (er_fencing_token r)"
      using r(6) assms(1) by (simp add: attempt_ready_def)
    then show "certified_recovery E (after (store_plan (de_store E) (OpSaveRecoveryCertificate c)) (dn_files d)) r"
      using r(3,4) assms saved_certificate [OF that(2)] unfolding certified_recovery_def attempt_ready_def attempt_ballot_def
      by (intro conjI exI [of _ c] exI [of _ "map wm_peer_id (filter (\<lambda>m. \<not> wm_banned m) (wd_members (ra_descriptor a)))"]) auto
  qed
  show ?thesis
    using attempt_worlds [OF assms(1)] unfolding conclude_recovery_def Let_def
    by (auto intro!: effects promote_recovery_epoch_acts justified remember_acts simp: plain_at_def saves_sleep_def guarded_op_def quiet_defs promoted_epoch_at
      after_then after_wake split: sum.splits)
qed

lemma attempt_sends [simp]:
  "attempt_ready E now a (after (send_to_visible E v u r c) d) = attempt_ready E now a d"
  by (simp add: attempt_ready_def authority_silent_def)

lemma press_recovery_ballot_acts:
  assumes "attempt_ready E (fst now) a d" "\<And>b. dn_recovery_ballot d = Some b \<Longrightarrow> attempt_ballot E a b"
  shows "within (acts E now) (press_recovery_ballot E a d) d"
  using assms unfolding press_recovery_ballot_def Let_def by (auto intro!: effects conclude_recovery_acts)

lemma drive_recovery_ballot_acts:
  assumes "attempt_ready E (fst now) a d"
  shows "within (acts E now) (drive_recovery_ballot E a d) d"
proof -
  have opened: "within (acts E now) (press_recovery_ballot E a (after (open_recovery_ballot E a x y z) d)) (after (open_recovery_ballot E a x y z) d)"
    if "fst (open_recovery_ballot E a x y z d) = Ok (Ok True)" for x y z
    using ends_after [where op = "open_recovery_ballot E a x y z", OF opened_ballot [OF assms] that]
    by (auto intro!: press_recovery_ballot_acts)
  have usable: "within (acts E now) (press_recovery_ballot E a d) d"
    if "dn_recovery_ballot d = Some b" "active_ballot_usable E a x y z b" for x y z b
    using that by (intro press_recovery_ballot_acts assms) (auto simp: active_ballot_usable_def attempt_ballot_def)
  show ?thesis
    unfolding drive_recovery_ballot_def Let_def
    by (auto intro!: effects open_recovery_ballot_acts assms opened usable simp: passes split: option.splits)
qed

lemma attempt_recovery_acts:
  assumes "load_epoch_record (de_world E) (dn_files d) = Ok epoch" "load_world_descriptor (de_world E) (dn_files d) = Ok descriptor"
    "authority_silent E (mo_now t) d"
  shows "within (acts E (mo_now t, drowsy)) (attempt_recovery E t descriptor epoch sleeping wake d) d"
proof -
  have "attempt_ready E (mo_now t) \<lparr>ra_descriptor = descriptor, ra_previous = epoch, ra_latest = latest, ra_visible_peers = visible,
      ra_recovery_generation = g, ra_wake = wake\<rparr> (d\<lparr>dn_files := after (latest_snapshot (de_host E) (de_world E)) (dn_files d)\<rparr>)"
    if "checked_next (epoch_generation epoch) = Ok g" for latest visible g
    using assms that authority_silent_sans [OF after_reads(1) [OF head_only_sans_head]] by (simp add: attempt_ready_def)
  note drive = drive_recovery_ballot_acts [where now = "(mo_now t, drowsy)", simplified, OF this]
  show ?thesis
    unfolding attempt_recovery_def Let_def by (auto intro!: effects drive split: option.splits prod.splits)
qed

lemma not_before_acts:
  "within (acts E (mo_now t, drowsy)) (remember (\<lambda>d. d\<lparr>dn_recovery_not_before := (case dn_recovery_not_before d of
    None \<Rightarrow> Some (mo_now t + (unat AUTHORITY_LEASE_DURATION_MS + RECOVERY_SETTLE_DELAY)) | Some n \<Rightarrow> Some n)\<rparr>) d) d"
  by (rule remember_acts) (auto simp: quiet_defs lease_term_def split: option.splits)

lemma forget_heartbeat_simps [simp]:
  "dn_files (forget_heartbeat d) = dn_files d" "connected (forget_heartbeat d) = connected d"
  "recovery_window_open (forget_heartbeat d) = recovery_window_open d"
  by (simp_all add: forget_heartbeat_def connected_def recovery_window_open_def fun_eq_iff)

lemma ensure_recovery_artifacts_keeps:
  assumes "head_only f" "\<And>fs v. f (fs\<lparr>wf_snapshots := v\<rparr>) = f fs" "\<And>fs v. f (fs\<lparr>wf_publications := v\<rparr>) = f fs"
    "\<And>fs v. f (fs\<lparr>wf_membership := v\<rparr>) = f fs"
  shows "plan_keeps f (ensure_recovery_artifacts E r fs)"
  using assms unfolding ensure_recovery_artifacts_def ensure_recovery_snapshot_def ensure_recovery_membership_def Let_def head_only_def some_or_def
  by (auto intro!: footprint split: option.splits)

lemma ensure_recovery_artifacts_kept [simp]:
  "load_sleep_record w (after (ensure_recovery_artifacts E r) fs) = load_sleep_record w fs"
  "load_membership_promise H w (after (ensure_recovery_artifacts E r) fs) = load_membership_promise H w fs"
  "load_epoch_record w (after (ensure_recovery_artifacts E r) fs) = load_epoch_record w fs"
  "load_world_descriptor w (after (ensure_recovery_artifacts E r) fs) = load_world_descriptor w fs"
  by (rule after_keeps, rule ensure_recovery_artifacts_keeps; (rule head_only_loads
      | simp add: load_sleep_record_def load_membership_promise_def load_epoch_record_def load_world_descriptor_def))+

lemma maintain_member_acts:
  assumes sleep: "fst (load_sleep_record_fail_closed (de_host E) (de_world E) (dn_files d)) = Ok (Ok sleeping)" "wake \<longleftrightarrow> sleeping \<noteq> None"
    and "\<not> is_ok (load_membership_promise (de_host E) (de_world E) (dn_files d))"
  shows "within (acts E (mo_now t, drowsy)) (maintain_member E t sleeping wake d) d"
proof -
  have awake: "load_sleep_record (de_world E) (dn_files d) = Err (StIo NotFound)" if "\<not> wake"
    using sleep that by (auto simp: load_sleep_record_fail_closed_def passes split: sum.splits if_splits)
  have asleep: "is_ok (load_sleep_record (de_world E) (dn_files d))" if wake
    using sleep that by (auto dest: fail_closed_Some)
  show ?thesis
    using assms(3) awake asleep unfolding maintain_member_def Let_def
    by (auto intro!: effects not_before_acts maintain_local_authority_acts attempt_recovery_acts loaded_worlds(1)
      simp: authority_silent_def passes split: sum.splits option.splits)
qed

lemma clear_world_acts [effects]:
  "within (acts E now) (remember clear_sleeping_world d) d" "within (acts E now) (remember clear_runtime_world d) d"
  by (rule remember_acts; simp add: clear_sleeping_world_def clear_runtime_world_def quiet_defs)+

lemma maintain_world_acts [effects]: "within (acts E (mo_now t, drowsy)) (maintain_world E t d) d"
  unfolding maintain_world_def Let_def
  by (auto intro!: effects maintain_member_acts split: sum.splits option.splits intro: loaded_worlds)

end
