(* ===== verification/DaemonSafety.thy ===== *)
theory DaemonSafety
  imports TickRefinement PromiseStore
begin

text \<open>
  The daemon as a whole: its events refine the actions, and what follows for the votes it casts, the leases it
  honours, the epochs and the members it accepts.
\<close>

section \<open>Events refine actions\<close>

definition puts_to_sleep :: "daemon_event \<Rightarrow> bool" where
  "puts_to_sleep event = (case event of Request _ _ _ request \<Rightarrow> (case request of RqSleep _ \<Rightarrow> True | _ \<Rightarrow> False) | _ \<Rightarrow> False)"

text \<open>An event that has no instant of its own can happen at any.\<close>

definition happens :: "daemon_event \<Rightarrow> nat \<Rightarrow> bool" where
  "happens event now = (case event_now event of None \<Rightarrow> True | Some instant \<Rightarrow> now = instant)"

lemma happens_sometime: "\<exists>now. happens event now"
  by (cases "event_now event") (simp_all add: happens_def)

text \<open>What an event may do: allowed actions, or one storage operation of another process.\<close>

definition daemon_moves :: "daemon_env \<Rightarrow> daemon_event \<Rightarrow> daemon \<Rightarrow> daemon \<Rightarrow> bool" where
  "daemon_moves E event d d' = (case event of
      Elsewhere op \<Rightarrow> d' = d \<or> \<not> daemon_owned op
        \<and> (\<exists>fs' \<in> leaves (store_plan (de_store E) op) (dn_files d). d' = d\<lparr>dn_files := fs'\<rparr>)
    | _ \<Rightarrow> (\<forall>now. happens event now \<longrightarrow> (daemon_action E (now, puts_to_sleep event))\<^sup>*\<^sup>* d d'))"

lemma restart_acts [effects]: "within (acts E now) (remember restarted d) d"
  by (rule remember_acts) (simp_all add: restarted_def daemon_start_def quiet_defs)

lemma wake_acts [effects]: "within (acts E now) (remember (\<lambda>d. d\<lparr>dn_wake_request := True\<rparr>) d) d"
  by (rule remember_acts) (simp_all add: quiet_defs)

lemma event_acts:
  assumes "\<And>op. event \<noteq> Elsewhere op" "happens event now"
  shows "within (acts E (now, puts_to_sleep event)) (daemon_plan E event d) d"
proof (cases event)
  case (Request t transport sender request)
  with assms(2) show ?thesis
    by (auto simp: daemon_plan_def happens_def event_now_def puts_to_sleep_def intro!: acts.within_accept handle_request_acts)
next
  case (Tick t)
  with assms(2) show ?thesis by (auto simp: daemon_plan_def happens_def event_now_def intro!: effects)
qed (use assms in \<open>auto simp: daemon_plan_def intro!: effects\<close>)

lemma event_moves_both:
  assumes "tame E d"
  shows "tame E (daemon_exec E d step) \<and> daemon_moves E (fst step) d (daemon_exec E d step)"
proof -
  have leaf: "daemon_exec E d step \<in> leaves (daemon_plan E (fst step)) d" unfolding daemon_exec_def by (rule perform_leaves)
  show ?thesis
  proof (cases "\<exists>op. fst step = Elsewhere op")
    case True
    then obtain op where op: "fst step = Elsewhere op" ..
    have "daemon_exec E d step = d \<or> \<not> daemon_owned op \<and> daemon_exec E d step \<in> leaves (at_files (store_plan (de_store E) op)) d"
      using leaf op by (auto simp: daemon_plan_def leaves_def accept_def reply_def then_plan_def split: sum.splits prod.splits if_splits)
    then show ?thesis using op assms by (auto simp: daemon_moves_def leaves_at_files)
  next
    case False
    then have "acts E (now, puts_to_sleep (fst step)) d (daemon_exec E d step)" if "happens (fst step) now" for now
      using within_leaves [where op = "daemon_plan E (fst step)", OF event_acts leaf] that by blast
    with assms have "happens (fst step) now \<Longrightarrow> tame E (daemon_exec E d step)
        \<and> (daemon_action E (now, puts_to_sleep (fst step)))\<^sup>*\<^sup>* d (daemon_exec E d step)" for now
      by (simp add: acts_def)
    then show ?thesis
      using False happens_sometime [of "fst step"] by (auto simp: daemon_moves_def split: daemon_event.splits)
  qed
qed

lemma event_moves:
  assumes "tame E d"
  shows "tame E (daemon_exec E d step)" "daemon_moves E (fst step) d (daemon_exec E d step)"
  using event_moves_both [OF assms] by simp_all

lemma event_actions:
  "tame E d \<Longrightarrow> (\<And>op. fst step \<noteq> Elsewhere op) \<Longrightarrow> happens (fst step) now
    \<Longrightarrow> (daemon_action E (now, puts_to_sleep (fst step)))\<^sup>*\<^sup>* d (daemon_exec E d step)"
  using event_moves(2) [of E d step] by (auto simp: daemon_moves_def split: daemon_event.splits)

text \<open>The daemon after a sequence of events.\<close>

primrec daemon_run :: "daemon_env \<Rightarrow> daemon \<Rightarrow> (daemon_event \<times> nat option) list \<Rightarrow> daemon" where
  "daemon_run E d [] = d"
| "daemon_run E d (step # steps) = daemon_run E (daemon_exec E d step) steps"

lemma start_tame: "tame E (daemon_start fs permit wake readiness)"
  by (simp add: daemon_start_def tame_def)

lemma run_tame: "tame E d \<Longrightarrow> tame E (daemon_run E d steps)"
  by (induction steps arbitrary: d) (simp_all add: event_moves(1))

text \<open>
  C11. The daemon refines its action system.  Whatever an event does to a daemon after any run, interrupted after any of
  its mutations, is a sequence of allowed actions at the instant of the event: a vote is sent only when it is the one
  promised on disk and the authority is silent, a permit is refreshed only with a quorum of confirmed leases, an
  epoch is stored only when it is justified, members change only with a certificate, a promise is made only for the
  next generation and dropped only when that generation is reached.  A storage operation of another process
  between two events is one operation on the files.
\<close>

theorem events_refine_actions:
  "daemon_moves E (fst step) (daemon_run E (daemon_start fs permit wake readiness) steps)
    (daemon_exec E (daemon_run E (daemon_start fs permit wake readiness) steps) step)"
  using event_moves(2) [OF run_tame [OF start_tame]] .

section \<open>What happens to epoch and promise\<close>

text \<open>The accepted epoch grows; a promise is kept, made for the next epoch, or dropped once its epoch is reached.\<close>

definition promise_moves :: "daemon_env \<Rightarrow> world_files \<Rightarrow> world_files \<Rightarrow> bool" where
  "promise_moves E fs fs' \<longleftrightarrow> epoch_at fs \<le> epoch_at fs'
    \<and> (wf_recovery_promise fs' = wf_recovery_promise fs
      \<or> (\<exists>b v. wf_recovery_promise fs' = Content \<lparr>drp_ballot = b, drp_vote = v\<rparr> \<and> promise_admits (de_host E) fs b v \<and> targets_next E fs b)
      \<or> wf_recovery_promise fs' = Absent
        \<and> (\<forall>p. wf_recovery_promise fs = Content p \<longrightarrow> rb_target_epoch (drp_ballot p) \<le> epoch_at fs))"

lemma promise_moves_refl: "promise_moves E fs fs"
  by (simp add: promise_moves_def)

lemma promise_moves_kept:
  "wf_epoch fs' = wf_epoch fs \<Longrightarrow> wf_recovery_promise fs' = wf_recovery_promise fs \<Longrightarrow> promise_moves E fs fs'"
  by (simp add: promise_moves_def epoch_at_def)

lemma plan_moves:
  assumes "plan_keeps wf_epoch (op fs)" "plan_keeps wf_recovery_promise (op fs)" "fs' \<in> leaves op fs"
  shows "promise_moves E fs fs'"
  using leaves_keeps [where op = op, OF assms(1,3)] leaves_keeps [where op = op, OF assms(2,3)] by (rule promise_moves_kept)

lemma epoch_at_token: "epoch_token fs \<le> epoch_token fs' \<Longrightarrow> epoch_at fs \<le> epoch_at fs'"
  by (auto simp: epoch_token_def epoch_at_def less_eq_AuthorityGeneration_def split: slot.splits)

lemma save_epoch_moves: "fs' \<in> leaves (save_epoch_record H r) fs \<Longrightarrow> promise_moves E fs fs'"
  using save_epoch_leaves [of fs' H r fs] epoch_at_token [of fs fs']
  by (auto simp: promise_moves_def epoch_token_def less_imp_le)

lemma store_moves:
  assumes "\<not> daemon_owned op" "fs' \<in> leaves (store_plan S op) fs"
  shows "promise_moves E fs fs'"
proof (cases "saves_epoch op")
  case True
  then obtain r where "op = OpSaveEpoch r" by (auto simp: saves_epoch_def split: store_op.splits)
  then have "fs' = fs \<or> fs' \<in> leaves (save_epoch_record (se_host S) r) fs"
    using store_plan_cases [OF assms(2)] by (auto simp: leaves_def store_body_def)
  then show ?thesis using save_epoch_moves promise_moves_refl by blast
next
  case False
  with assms(1) show ?thesis
    by (intro plan_moves [where op = "store_plan S op", OF store_plan_keeps store_plan_keeps assms(2)] store_body_epoch store_body_promise)
      (simp_all add: daemon_owned_def)
qed

lemma action_moves: "daemon_action E now d d' \<Longrightarrow> promise_moves E (dn_files d) (dn_files d')"
proof (induction rule: daemon_action.induct)
  case (plain op fs' d)
  then have "\<not> daemon_owned op"
    by (cases op) (simp_all add: plain_at_def guarded_op_def daemon_owned_def promises_def clears_promise_def)
  from store_moves [OF this plain(2)] show ?case by simp
next
  case (promise d b v fs')
  have "fs' = dn_files d \<or> fs' = (dn_files d)\<lparr>wf_recovery_promise := Content \<lparr>drp_ballot = b, drp_vote = v\<rparr>\<rparr>
      \<and> promise_admits (de_host E) (dn_files d) b v"
    using promise_mutations [of "de_host E" b v "dn_files d"] leaves_unchanged [OF _ promise(3)] leaves_single [OF _ promise(3)] by blast
  with promise(1) show ?case by (auto simp: promise_moves_def epoch_at_def)
next
  case (clear_promise n d fs')
  have "snd (clear_recovery_promise_after_epoch_advance (de_host E) (de_world E) n (dn_files d)) = []
    \<or> snd (clear_recovery_promise_after_epoch_advance (de_host E) (de_world E) n (dn_files d)) = [\<lambda>fs. fs\<lparr>wf_recovery_promise := Absent\<rparr>]
      \<and> (\<exists>p. wf_recovery_promise (dn_files d) = Content p \<and> rb_target_epoch (drp_ballot p) \<le> n)"
    by (auto simp: clear_recovery_promise_after_epoch_advance_def plan_simps dest: load_recovery_promise_Ok split: sum.splits)
  with leaves_unchanged [OF _ clear_promise(2)] leaves_single [OF _ clear_promise(2)] clear_promise(1)
  show ?case by (auto simp: promise_moves_def epoch_at_def)
next
  case (epoch d r fs')
  from save_epoch_moves [OF epoch(2)] show ?case by simp
next
  case (members d r fs')
  then show ?case
    using plan_moves [where op = "save_membership_record (de_host E) r", OF save_membership_record_keeps save_membership_record_keeps] by simp
next
  case (descriptor d r w fs')
  then show ?case using plan_moves [where op = "save_world_descriptor w", OF save_world_descriptor_keeps save_world_descriptor_keeps] by simp
next
  case (transfer r d fs')
  then show ?case
    using plan_moves [where op = "save_transfer_record (de_host E) r", OF save_transfer_record_keeps save_transfer_record_keeps] by simp
qed (simp_all add: promise_moves_refl)

section \<open>The votes of one daemon\<close>

text \<open>The votes a daemon has cast: sent to a candidate, or counted for its own ballot.\<close>

definition cast_votes :: "daemon_env \<Rightarrow> daemon \<Rightarrow> RecoveryVoteV1 set" where
  "cast_votes E d = {v. RsRecoveryVote v \<in> set (votes_sent d)} \<union> own_votes E d"

primrec votes_cast :: "daemon_env \<Rightarrow> daemon \<Rightarrow> (daemon_event \<times> nat option) list \<Rightarrow> RecoveryVoteV1 set" where
  "votes_cast E d [] = cast_votes E d"
| "votes_cast E d (step # steps) = cast_votes E d \<union> votes_cast E (daemon_exec E d step) steps"

text \<open>Whom a vote elects, for which epoch and over which base.\<close>

definition choice :: "RecoveryVoteV1 \<Rightarrow> u64 \<times> PeerId \<times> u64" where
  "choice v = (rv_target_epoch v, rv_candidate_peer_id v, rv_base_epoch v)"

definition ballot_choice :: "RecoveryBallotV1 \<Rightarrow> u64 \<times> PeerId \<times> u64" where
  "ballot_choice b = (rb_target_epoch b, rb_candidate_peer_id b, rb_base_epoch b)"

lemma matching_choice: "matches_ballot H v b = Ok True \<Longrightarrow> choice v = ballot_choice b"
  by (auto simp: matches_ballot_def choice_def ballot_choice_def split: if_splits)

text \<open>
  The votes \<open>V\<close> that stood so far: the one that stands now is among them, each is for an epoch that is reached or
  agrees with the promise held now, and they elect one candidate for each epoch.
\<close>

definition vote_history :: "daemon_env \<Rightarrow> RecoveryVoteV1 set \<Rightarrow> world_files \<Rightarrow> bool" where
  "vote_history E V fs \<longleftrightarrow> {v. standing E fs v} \<subseteq> V
    \<and> (\<forall>v \<in> V. rv_target_epoch v \<le> epoch_at fs
        \<or> (\<exists>p. wf_recovery_promise fs = Content p \<and> choice v = ballot_choice (drp_ballot p)))
    \<and> single_valued (choice ` V)"

lemma standing_content:
  "standing E fs v \<Longrightarrow> \<exists>p. wf_recovery_promise fs = Content p \<and> drp_vote p = v \<and> choice v = ballot_choice (drp_ballot p)"
  using load_recovery_promise_Ok matching_choice unfolding standing_def by metis

lemma standing_slot: "wf_recovery_promise fs' = wf_recovery_promise fs \<Longrightarrow> standing E fs' = standing E fs"
  by (simp add: standing_def load_recovery_promise_def fun_eq_iff)

lemma single_choice: "single_valued (choice ` V) \<longleftrightarrow> (\<forall>u \<in> V. \<forall>v \<in> V. rv_target_epoch u = rv_target_epoch v \<longrightarrow> choice u = choice v)"
proof -
  have entry: "(t, w) \<in> choice ` V \<longleftrightarrow> (\<exists>u \<in> V. rv_target_epoch u = t \<and> w = snd (choice u))" for t w
    by (auto simp: choice_def image_iff)
  have same: "choice u = choice v \<longleftrightarrow> rv_target_epoch u = rv_target_epoch v \<and> snd (choice u) = snd (choice v)" for u v
    by (auto simp: choice_def)
  show ?thesis unfolding single_valued_def entry same by blast
qed

lemma history_starts: "vote_history E {v. standing E fs v} fs"
  unfolding vote_history_def single_choice by (auto dest!: standing_content)

lemma base_choice: "same_recovery_base b b' \<Longrightarrow> ballot_choice b' = ballot_choice b"
  by (simp add: same_recovery_base_def ballot_choice_def)

lemma targets_next_epoch: "targets_next E fs b \<Longrightarrow> epoch_at fs < rb_target_epoch b"
  by (auto simp: targets_next_def checked_next_Ok_iff loaded_epoch_at word_less_nat_alt)

lemma history_earlier:
  "vote_history E V fs \<Longrightarrow> u \<in> V
    \<Longrightarrow> rv_target_epoch u \<le> epoch_at fs \<or> (\<exists>p. wf_recovery_promise fs = Content p \<and> choice u = ballot_choice (drp_ballot p))"
  by (simp add: vote_history_def)

lemma history_made:
  assumes "vote_history E V fs" "epoch_at fs \<le> epoch_at fs'" "wf_recovery_promise fs' = Content \<lparr>drp_ballot = b, drp_vote = v\<rparr>"
    "promise_admits (de_host E) fs b v" "targets_next E fs b"
  shows "vote_history E (V \<union> {v. standing E fs' v}) fs'"
proof -
  have now: "choice u = ballot_choice b" "rv_target_epoch u = rb_target_epoch b" if "standing E fs' u" for u
    using standing_content [OF that] assms(3) by (auto simp: choice_def ballot_choice_def)
  have past: "rv_target_epoch u \<le> epoch_at fs \<or> choice u = ballot_choice b" if "u \<in> V" for u
    using history_earlier [OF assms(1) that] assms(4) base_choice by (auto simp: promise_admits_def)
  have fresh: "choice u = ballot_choice b" if "u \<in> V" "rv_target_epoch u = rb_target_epoch b" for u
    using past [OF that(1)] that(2) targets_next_epoch [OF assms(5)] by (auto dest: leD)
  have "single_valued (choice ` (V \<union> {v. standing E fs' v}))"
    unfolding single_choice
  proof (intro ballI impI)
    fix u w
    assume uw: "u \<in> V \<union> {v. standing E fs' v}" "w \<in> V \<union> {v. standing E fs' v}" "rv_target_epoch u = rv_target_epoch w"
    show "choice u = choice w"
    proof (cases "u \<in> V \<and> w \<in> V")
      case True
      with assms(1) uw(3) show ?thesis by (simp add: vote_history_def single_choice)
    next
      case False
      then have "rv_target_epoch u = rb_target_epoch b" "rv_target_epoch w = rb_target_epoch b" using uw now(2) by auto
      with uw(1,2) have "choice u = ballot_choice b" "choice w = ballot_choice b" using now(1) fresh by auto
      then show ?thesis by simp
    qed
  qed
  moreover have "rv_target_epoch u \<le> epoch_at fs' \<or> choice u = ballot_choice b" if "u \<in> V" for u
    using past [OF that] assms(2) by auto
  ultimately show ?thesis using now assms(3) by (auto simp: vote_history_def)
qed

lemma history_dropped:
  assumes "vote_history E V fs" "epoch_at fs \<le> epoch_at fs'" "wf_recovery_promise fs' = Absent"
    "\<And>p. wf_recovery_promise fs = Content p \<Longrightarrow> rb_target_epoch (drp_ballot p) \<le> epoch_at fs"
  shows "vote_history E (V \<union> {v. standing E fs' v}) fs'"
proof -
  have none: "\<not> standing E fs' u" for u using standing_content [of E fs' u] assms(3) by auto
  have "rv_target_epoch u \<le> epoch_at fs'" if "u \<in> V" for u
  proof -
    have "rv_target_epoch u \<le> epoch_at fs"
      using history_earlier [OF assms(1) that] assms(4) by (auto simp: choice_def ballot_choice_def)
    with assms(2) show ?thesis by simp
  qed
  then show ?thesis using assms(1) none by (auto simp: vote_history_def)
qed

lemma history_moves:
  assumes "vote_history E V fs" "promise_moves E fs fs'"
  shows "vote_history E (V \<union> {v. standing E fs' v}) fs'"
proof -
  have grows: "epoch_at fs \<le> epoch_at fs'" using assms(2) by (simp add: promise_moves_def)
  from assms(2) consider (kept) "wf_recovery_promise fs' = wf_recovery_promise fs"
    | (made) b v where "wf_recovery_promise fs' = Content \<lparr>drp_ballot = b, drp_vote = v\<rparr>" "promise_admits (de_host E) fs b v" "targets_next E fs b"
    | (dropped) "wf_recovery_promise fs' = Absent" "\<And>p. wf_recovery_promise fs = Content p \<Longrightarrow> rb_target_epoch (drp_ballot p) \<le> epoch_at fs"
    unfolding promise_moves_def by blast
  then show ?thesis
  proof cases
    case kept
    then have "V \<union> {v. standing E fs' v} = V" using assms(1) standing_slot [OF kept] by (auto simp: vote_history_def)
    then show ?thesis using assms kept by (auto simp: vote_history_def promise_moves_def standing_slot [OF kept])
  next
    case made
    with assms(1) grows show ?thesis by (rule history_made)
  next
    case dropped
    with assms(1) grows show ?thesis by (rule history_dropped)
  qed
qed

lemma action_votes:
  "daemon_action E now d d' \<Longrightarrow> cast_votes E d' \<subseteq> cast_votes E d \<union> {v. standing E (dn_files d') v}"
  by (induction rule: daemon_action.induct) (auto simp: cast_votes_def votes_sent_def own_votes_def is_vote_def)

text \<open>A history grows along a step: it stays a history, and it has every vote cast since.\<close>

definition history_grows :: "daemon_env \<Rightarrow> RecoveryVoteV1 set \<Rightarrow> daemon \<Rightarrow> daemon \<Rightarrow> bool" where
  "history_grows E V d d' \<longleftrightarrow> (\<exists>V'. V \<subseteq> V' \<and> vote_history E V' (dn_files d') \<and> cast_votes E d' \<subseteq> cast_votes E d \<union> V')"

lemma history_grows_step:
  assumes "vote_history E V (dn_files d)" "promise_moves E (dn_files d) (dn_files d')"
    "cast_votes E d' \<subseteq> cast_votes E d \<union> {v. standing E (dn_files d') v}"
  shows "history_grows E V d d'"
  unfolding history_grows_def
  by (rule exI [of _ "V \<union> {v. standing E (dn_files d') v}"]) (use assms history_moves [OF assms(1,2)] in auto)

lemma history_actions:
  assumes "(daemon_action E now)\<^sup>*\<^sup>* d d'" "vote_history E V (dn_files d)"
  shows "history_grows E V d d'"
  using assms(1)
proof (induction rule: rtranclp_induct)
  case base
  show ?case using assms(2) by (auto simp: history_grows_def)
next
  case (step d1 d2)
  then obtain V1 where V1: "V \<subseteq> V1" "vote_history E V1 (dn_files d1)" "cast_votes E d1 \<subseteq> cast_votes E d \<union> V1"
    by (auto simp: history_grows_def)
  from history_grows_step [OF V1(2) action_moves [OF step(2)] action_votes [OF step(2)]]
  obtain V2 where "V1 \<subseteq> V2" "vote_history E V2 (dn_files d2)" "cast_votes E d2 \<subseteq> cast_votes E d1 \<union> V2"
    by (auto simp: history_grows_def)
  with V1 show ?case unfolding history_grows_def by (intro exI [of _ V2]) auto
qed

lemma history_event:
  assumes "tame E d" "vote_history E V (dn_files d)"
  shows "history_grows E V d (daemon_exec E d step)"
proof (cases "\<exists>op. fst step = Elsewhere op")
  case True
  then obtain op where op: "fst step = Elsewhere op" ..
  from event_moves(2) [OF assms(1), of step] consider "daemon_exec E d step = d" | fs' where "\<not> daemon_owned op"
      "fs' \<in> leaves (store_plan (de_store E) op) (dn_files d)" "daemon_exec E d step = d\<lparr>dn_files := fs'\<rparr>"
    by (auto simp: daemon_moves_def op)
  then show ?thesis
  proof cases
    case 1
    with assms(2) show ?thesis by (auto simp: history_grows_def)
  next
    case 2
    from history_grows_step [OF assms(2), of "d\<lparr>dn_files := fs'\<rparr>"] store_moves [OF 2(1,2)] 2(3)
    show ?thesis by (auto simp: cast_votes_def votes_sent_def own_votes_def)
  qed
next
  case False
  then obtain now where "(daemon_action E (now, puts_to_sleep (fst step)))\<^sup>*\<^sup>* d (daemon_exec E d step)"
    using event_actions [OF assms(1)] happens_sometime by metis
  then show ?thesis using assms(2) by (rule history_actions)
qed

lemma history_run:
  assumes "tame E d" "vote_history E V (dn_files d)"
  shows "\<exists>V'. V \<subseteq> V' \<and> single_valued (choice ` V') \<and> votes_cast E d steps \<subseteq> cast_votes E d \<union> V'"
  using assms
proof (induction steps arbitrary: d V)
  case Nil
  then show ?case by (auto simp: vote_history_def)
next
  case (Cons step steps)
  from history_event [OF Cons.prems, of step] obtain V1 where V1: "V \<subseteq> V1" "vote_history E V1 (dn_files (daemon_exec E d step))"
    "cast_votes E (daemon_exec E d step) \<subseteq> cast_votes E d \<union> V1" by (auto simp: history_grows_def)
  from Cons.IH [OF event_moves(1) [OF Cons.prems(1)] V1(2)]
  obtain V2 where "V1 \<subseteq> V2" "single_valued (choice ` V2)"
    "votes_cast E (daemon_exec E d step) steps \<subseteq> cast_votes E (daemon_exec E d step) \<union> V2" by blast
  with V1 show ?case by (intro exI [of _ V2]) auto
qed


end
