(* ===== verification/DaemonLease.thy ===== *)
theory DaemonLease
  imports DaemonSafety
begin

text \<open>
  The lease that a daemon grants: while it runs, and until the settling time after it is over, the daemon casts no
  recovery vote.
\<close>

section \<open>A running lease\<close>

definition lease_runs :: "nat \<Rightarrow> daemon \<Rightarrow> bool" where
  "lease_runs t d \<longleftrightarrow> (case dn_inbound_lease d of None \<Rightarrow> True | Some lease \<Rightarrow> t + unat AUTHORITY_LEASE_DURATION_MS \<le> il_expires_at lease)
    \<and> (case dn_recovery_not_before d of None \<Rightarrow> True | Some n \<Rightarrow> t + lease_term \<le> n)"

definition awake :: "daemon_env \<Rightarrow> daemon \<Rightarrow> bool" where
  "awake E d \<longleftrightarrow> \<not> is_ok (load_sleep_record (de_world E) (dn_files d))"

lemma lease_keeps_window_closed: "lease_runs t d \<Longrightarrow> now < t + lease_term \<Longrightarrow> \<not> recovery_window_open d g now"
  by (auto simp: lease_runs_def recovery_window_open_def lease_term_def split: option.splits)

lemma action_lease: "daemon_action E now d d' \<Longrightarrow> t \<le> fst now \<Longrightarrow> lease_runs t d \<Longrightarrow> lease_runs t d'"
  by (induction rule: daemon_action.induct) (auto simp: lease_runs_def lease_kept_def split: option.splits)

section \<open>Sleep\<close>

lemma store_body_sleep:
  "\<not> saves_sleep op \<Longrightarrow> (\<forall>v. op \<noteq> OpClearSleep) \<Longrightarrow> plan_keeps wf_sleep (store_body S op fs)"
  unfolding store_body_def Let_def by (cases op) (simp_all add: footprint saves_sleep_def)

lemma store_awake:
  assumes "\<not> saves_sleep op" "fs' \<in> leaves (store_plan S op) fs" "\<not> is_ok (load_sleep_record w fs)"
  shows "\<not> is_ok (load_sleep_record w fs')"
proof (cases "op = OpClearSleep")
  case True
  then have "fs' = fs \<or> wf_sleep fs' = Absent"
    using store_plan_cases [OF assms(2)]
    by (auto simp: store_body_def clear_sleep_record_def leaves_def store_def reply_def refuse_def take_Cons' split: if_splits slot.splits)
  with assms(3) show ?thesis by (auto simp: load_sleep_record_def)
next
  case False
  with assms show ?thesis
    using leaves_keeps [where op = "store_plan S op", OF store_plan_keeps [OF store_body_sleep] assms(2)] by (simp add: load_sleep_record_def)
qed

lemma sleep_kept:
  assumes "plan_keeps wf_sleep (op (dn_files d))" "fs' \<in> leaves op (dn_files d)"
  shows "awake E (d\<lparr>dn_files := fs'\<rparr>) = awake E d"
  using leaves_keeps [where op = op, OF assms] by (simp add: awake_def load_sleep_record_def)

lemmas guarded_keep_sleep =
  sleep_kept [where op = "promise_recovery_ballot H b v" for H b v, OF promise_recovery_ballot_keeps]
  sleep_kept [where op = "clear_recovery_promise_after_epoch_advance H w n" for H w n, OF clear_recovery_promise_after_epoch_advance_keeps]
  sleep_kept [where op = "save_epoch_record H r" for H r, OF save_epoch_record_keeps]
  sleep_kept [where op = "save_membership_record H r" for H r, OF save_membership_record_keeps]
  sleep_kept [where op = "save_world_descriptor w" for w, OF save_world_descriptor_keeps]
  sleep_kept [where op = "save_transfer_record H r" for H r, OF save_transfer_record_keeps]

lemma action_awake: "daemon_action E now d d' \<Longrightarrow> \<not> snd now \<Longrightarrow> awake E d \<Longrightarrow> awake E d'"
proof (induction rule: daemon_action.induct)
  case (plain op fs' d)
  then show ?case using store_awake [of op fs' "de_store E" "dn_files d"] by (simp add: awake_def plain_at_def)
qed (auto simp: guarded_keep_sleep, simp_all add: awake_def)

lemma action_casts_nothing:
  "daemon_action E now d d' \<Longrightarrow> lease_runs t d \<Longrightarrow> awake E d \<Longrightarrow> fst now < t + lease_term \<Longrightarrow> cast_votes E d' \<subseteq> cast_votes E d"
  by (induction rule: daemon_action.induct)
    (auto simp: cast_votes_def votes_sent_def own_votes_def is_vote_def authority_silent_def awake_def lease_keeps_window_closed)

lemma files_lease [simp]: "lease_runs t (d\<lparr>dn_files := fs\<rparr>) = lease_runs t d" "cast_votes E (d\<lparr>dn_files := fs\<rparr>) = cast_votes E d"
  by (simp_all add: lease_runs_def cast_votes_def votes_sent_def own_votes_def)

text \<open>What holds while the lease runs, along the events that do not put the world to sleep.\<close>

definition lease_guards :: "daemon_env \<Rightarrow> nat \<Rightarrow> RecoveryVoteV1 set \<Rightarrow> daemon \<Rightarrow> bool" where
  "lease_guards E t V d \<longleftrightarrow> tame E d \<and> lease_runs t d \<and> awake E d \<and> cast_votes E d \<subseteq> V"

lemma actions_lease_guards:
  assumes "(daemon_action E (now, False))\<^sup>*\<^sup>* d d'" "t \<le> now" "now < t + lease_term" "lease_runs t d \<and> awake E d \<and> cast_votes E d \<subseteq> V"
  shows "lease_runs t d' \<and> awake E d' \<and> cast_votes E d' \<subseteq> V"
  using assms(1)
proof (induction rule: rtranclp_induct)
  case (step d1 d2)
  with assms(2,3) show ?case
    using action_lease [OF step(2), of t] action_awake [OF step(2)] action_casts_nothing [OF step(2), of t] by auto
qed (rule assms(4))

definition puts_asleep :: "daemon_event \<Rightarrow> bool" where
  "puts_asleep event \<longleftrightarrow> puts_to_sleep event \<or> (case event of Elsewhere op \<Rightarrow> saves_sleep op | _ \<Rightarrow> False)"

definition happens_within :: "nat \<Rightarrow> nat \<Rightarrow> daemon_event \<Rightarrow> bool" where
  "happens_within from until event = (case event_now event of None \<Rightarrow> True | Some now \<Rightarrow> from \<le> now \<and> now < until)"

lemma happens_within_instant:
  "happens_within from until event \<Longrightarrow> from < until \<Longrightarrow> \<exists>now. happens event now \<and> from \<le> now \<and> now < until"
  by (cases "event_now event") (auto simp: happens_within_def happens_def)

lemma event_lease_guards:
  assumes "lease_guards E t V d" "\<not> puts_asleep (fst step)" "happens_within t (t + lease_term) (fst step)"
  shows "lease_guards E t V (daemon_exec E d step)"
proof -
  have tame: "tame E d" using assms(1) by (simp add: lease_guards_def)
  have "lease_runs t (daemon_exec E d step) \<and> awake E (daemon_exec E d step) \<and> cast_votes E (daemon_exec E d step) \<subseteq> V"
  proof (cases "\<exists>op. fst step = Elsewhere op")
    case True
    then obtain op where op: "fst step = Elsewhere op" ..
    then have "\<not> saves_sleep op" using assms(2) by (simp add: puts_asleep_def)
    then show ?thesis
      using event_moves(2) [OF tame, of step] assms(1) store_awake [of op _ "de_store E" "dn_files d"]
      by (auto simp: op daemon_moves_def lease_guards_def awake_def)
  next
    case False
    have "t < t + lease_term" by (simp add: lease_term_def RECOVERY_SETTLE_DELAY_def)
    from happens_within_instant [OF assms(3) this] obtain now where now: "happens (fst step) now" "t \<le> now" "now < t + lease_term" by blast
    have "(daemon_action E (now, False))\<^sup>*\<^sup>* d (daemon_exec E d step)"
      using event_actions [OF tame, of step now] False now(1) assms(2) by (simp add: puts_asleep_def)
    from actions_lease_guards [OF this now(2,3), of V] assms(1) show ?thesis by (simp add: lease_guards_def)
  qed
  then show ?thesis using event_moves(1) [OF tame] by (simp add: lease_guards_def)
qed

lemma run_lease_guards:
  assumes "lease_guards E t V d" "list_all (\<lambda>step. \<not> puts_asleep (fst step) \<and> happens_within t (t + lease_term) (fst step)) steps"
  shows "votes_cast E d steps \<subseteq> V"
  using assms
proof (induction steps arbitrary: d)
  case (Cons step steps)
  from event_lease_guards [OF Cons.prems(1), of step] Cons.prems(2) Cons.IH [of "daemon_exec E d step"]
  have "votes_cast E (daemon_exec E d step) steps \<subseteq> V" by simp
  then show ?case using Cons.prems(1) by (simp add: lease_guards_def)
qed (simp add: lease_guards_def)

section \<open>Granting a lease\<close>

lemma uninterrupted: "daemon_exec E d (event, None) = after (daemon_plan E event) d"
  by (simp add: daemon_exec_def perform_def after_def split_beta)

lemma ends_remember: "P () (f s) \<Longrightarrow> ends P (remember f s) s"
  by (simp add: ends_def remember_def store_def accept_def)

lemma granted_lease:
  "ends (\<lambda>_ d'. lease_runs (mo_now t) d' \<and> cast_votes E d' = cast_votes E d \<and> awake E d' = awake E d)
    (handle_lease_grant E t transport sender lease d) d"
proof -
  have files: "after (authorize_member H w p) fs = fs" "after (ensure_no_membership_prepare H w) fs = fs" for H w p fs by simp_all
  have cast: "cast_votes E (d\<lparr>dn_inbound_lease := x, dn_recovery_not_before := y,
      dn_replies := dn_replies d @ [(transport, RsLeaseAccepted a b)]\<rparr>) = cast_votes E d" for d x y a b
    by (simp add: cast_votes_def votes_sent_def own_votes_def is_vote_def)
  show ?thesis
    unfolding handle_lease_grant_def Let_def respond_def
    by (auto intro!: ends_rules ends_remember simp: lease_runs_def lease_term_def cast awake_def)
qed

lemma granted_lease_request:
  assumes "lg_world_id lease = de_world E" "fst (daemon_plan E (Request t transport sender (RqLeaseGrant lease)) d) = Ok (Ok ())"
    "tame E d" "awake E d"
  shows "lease_guards E (mo_now t) (cast_votes E d) (daemon_exec E d (Request t transport sender (RqLeaseGrant lease), None))"
proof -
  let ?op = "daemon_plan E (Request t transport sender (RqLeaseGrant lease))"
  have plan: "?op = handle_request E t transport sender (RqLeaseGrant lease)"
    using assms(1) by (simp add: daemon_plan_def request_world_def membership_world_id_def)
  have "ends (\<lambda>_ d'. lease_runs (mo_now t) d' \<and> cast_votes E d' = cast_votes E d \<and> awake E d' = awake E d) (?op d) d"
    unfolding plan handle_request_def
    by (auto simp: membership_world_id_def dispatch_request_def Let_def intro!: ends_then_ok granted_lease)
  from ends_after [where op = ?op, OF this assms(2)] assms(4) event_moves(1) [OF assms(3), of "(Request t transport sender (RqLeaseGrant lease), None)"]
  show ?thesis by (simp add: lease_guards_def uninterrupted)
qed

text \<open>
  C3. A granted lease blocks recovery.  Once a daemon has accepted the authority's lease, it casts no recovery vote,
  neither for another candidate nor for itself, until seven seconds later: the five seconds of the lease and the
  two of the settling time.  No event in that time changes this, restarts included, unless the world is put to
  sleep.
\<close>

theorem lease_blocks_recovery_votes:
  assumes "lg_world_id lease = de_world E" "fst (daemon_plan E (Request t transport sender (RqLeaseGrant lease)) d) = Ok (Ok ())"
    and "tame E d" "awake E d"
    and "list_all (\<lambda>step. \<not> puts_asleep (fst step) \<and> happens_within (mo_now t) (mo_now t + 7000) (fst step)) steps"
  shows "votes_cast E (daemon_exec E d (Request t transport sender (RqLeaseGrant lease), None)) steps \<subseteq> cast_votes E d"
proof -
  have "lease_term = 7000" by (simp add: lease_term_def RECOVERY_SETTLE_DELAY_def AUTHORITY_LEASE_DURATION_MS_def)
  then show ?thesis using run_lease_guards [OF granted_lease_request [OF assms(1-4)]] assms(5) by simp
qed

section \<open>Witness\<close>

definition demo_daemon_env :: daemon_env where
  "demo_daemon_env = \<lparr>de_store = demo_env (WorldId 7), de_identity = \<lparr>signing_key = 0\<rparr>\<rparr>"

definition demo_descriptor :: WorldDescriptorV1 where
  "demo_descriptor = \<lparr>wd_protocol_version = PROTOCOL_VERSION, wd_world_id = WorldId 7, wd_compatibility_fingerprint = Hash32 0,
    wd_members = [\<lparr>wm_peer_id = PeerId 0, wm_public_key = 0, wm_authority_eligible = True, wm_banned = False\<rparr>],
    wd_preferred_replication_factor = 1\<rparr>"

definition demo_world_files :: world_files where
  "demo_world_files = empty_files\<lparr>wf_epoch := Content (demo_epoch 2), wf_descriptor := Content demo_descriptor\<rparr>"

definition demo_daemon :: daemon where
  "demo_daemon = daemon_start demo_world_files None False Absent"

definition demo_lease_draft :: AuthorityLeaseGrantV1 where
  "demo_lease_draft = \<lparr>lg_protocol_version = PROTOCOL_VERSION, lg_world_id = WorldId 7, lg_epoch = 2, lg_fencing_token = 2,
    lg_lease_duration_ms = AUTHORITY_LEASE_DURATION_MS, lg_authority_peer_id = PeerId 0, lg_authority_public_key = 0,
    lg_nonce = 0, lg_signature = []\<rparr>"

lemma demo_loads:
  "load_world_descriptor (WorldId 7) demo_world_files = Ok demo_descriptor"
  "load_epoch_record (WorldId 7) demo_world_files = Ok (demo_epoch 2)"
  "\<not> is_ok (load_sleep_record (WorldId 7) demo_world_files)"
  "\<not> is_ok (load_membership_promise demo_host (WorldId 7) demo_world_files)"
  by (simp_all add: demo_world_files_def empty_files_def load_world_descriptor_def load_epoch_record_def load_sleep_record_def
    load_membership_promise_def demo_descriptor_def demo_epoch_def WorldDescriptorV1_validate_semantics_def
    EpochRecordV1_validate_semantics_def require_protocol_version_def require_strict_peer_order_def protocol_def)

lemma demo_lease:
  obtains lease where "verify_lease_signature demo_host lease = Ok ()" "lease\<lparr>lg_signature := []\<rparr> = demo_lease_draft"
proof -
  obtain lease where lease: "sign_lease demo_host \<lparr>signing_key = 0\<rparr> demo_lease_draft = Ok lease" "lease\<lparr>lg_signature := []\<rparr> = demo_lease_draft"
    by (simp add: sign_lease_def demo_lease_draft_def AuthorityLeaseGrantV1_validate_semantics_def require_protocol_version_def
      AuthorityLeaseGrantV1_signing_bytes_def frame_def to_allocvec_def peer_id_def public_key_def peer_id_from_public_key_def)
  show ?thesis by (rule that [OF lease_sig.sign_then_verify [OF reference_host_signs lease(1)] lease(2)])
qed

theorem lease_blocks_recovery_votes_witness:
  "\<exists>lease. \<forall>t. fst (daemon_plan demo_daemon_env (Request t [] (PeerId 0) (RqLeaseGrant lease)) demo_daemon) = Ok (Ok ())
    \<and> votes_cast demo_daemon_env (daemon_exec demo_daemon_env demo_daemon (Request t [] (PeerId 0) (RqLeaseGrant lease), None))
        [(Restart, None), (Tick (t\<lparr>mo_now := mo_now t + 6999\<rparr>), None), (OutboundFailure [] 3, Some 1)] = {}"
proof -
  obtain lease where lease: "verify_lease_signature demo_host lease = Ok ()" "lease\<lparr>lg_signature := []\<rparr> = demo_lease_draft" by (rule demo_lease)
  have fields: "lg_world_id lease = WorldId 7" "lg_epoch lease = 2" "lg_fencing_token lease = 2" "lg_lease_duration_ms lease = AUTHORITY_LEASE_DURATION_MS"
    "lg_authority_peer_id lease = PeerId 0" "lg_authority_public_key lease = 0"
    using arg_cong [OF lease(2), of lg_world_id] arg_cong [OF lease(2), of lg_epoch] arg_cong [OF lease(2), of lg_fencing_token]
      arg_cong [OF lease(2), of lg_lease_duration_ms] arg_cong [OF lease(2), of lg_authority_peer_id]
      arg_cong [OF lease(2), of lg_authority_public_key] by (simp_all add: demo_lease_draft_def)
  have env: "de_host demo_daemon_env = demo_host" "de_world demo_daemon_env = WorldId 7"
    by (simp_all add: demo_daemon_env_def demo_env_def)
  have files: "dn_files demo_daemon = demo_world_files" by (simp add: demo_daemon_def daemon_start_def)
  have member: "authorize_member demo_host (WorldId 7) (PeerId 0) demo_world_files = accept ()"
    by (simp add: authorize_member_def demo_loads authorized_descriptor_member_def demo_descriptor_def WorldDescriptorV1_member_def
      peer_id_from_public_key_def demand_def)
  have accepted: "fst (daemon_plan demo_daemon_env (Request t [] (PeerId 0) (RqLeaseGrant lease)) demo_daemon) = Ok (Ok ())" for t
    using member demo_loads(1,2,4) lease(1)
    by (simp add: daemon_plan_def request_world_def membership_world_id_def fields env files handle_request_def dispatch_request_def
      handle_lease_grant_def Let_def passes some_or_def ensure_no_membership_prepare_def WorldDescriptorV1_member_def demo_descriptor_def
      eligible_authority_def demo_epoch_def respond_def) (simp add: remember_def store_def accept_def)
  have start: "tame demo_daemon_env demo_daemon" "awake demo_daemon_env demo_daemon" "cast_votes demo_daemon_env demo_daemon = {}"
    using demo_loads(3) by (simp_all add: tame_def awake_def env files cast_votes_def votes_sent_def own_votes_def)
      (simp_all add: demo_daemon_def daemon_start_def)
  have "votes_cast demo_daemon_env (daemon_exec demo_daemon_env demo_daemon (Request t [] (PeerId 0) (RqLeaseGrant lease), None))
      [(Restart, None), (Tick (t\<lparr>mo_now := mo_now t + 6999\<rparr>), None), (OutboundFailure [] 3, Some 1)] = {}" for t
    using lease_blocks_recovery_votes [of lease demo_daemon_env t "[]" "PeerId 0" demo_daemon
        "[(Restart, None), (Tick (t\<lparr>mo_now := mo_now t + 6999\<rparr>), None), (OutboundFailure [] 3, Some 1)]"]
      accepted start fields(1) env(2) by (simp add: puts_asleep_def puts_to_sleep_def happens_within_def event_now_def)
  with accepted show ?thesis by blast
qed

end
