(* ===== verification/DaemonRecords.thy ===== *)
theory DaemonRecords
  imports DaemonLease
begin

text \<open>
  The records that a daemon accepts: every epoch follows from the one before it, the members change only with a
  certificate, and what a peer outside the world, a finished transfer or a missing membership makes it refuse.
\<close>

section \<open>Records that may be trusted\<close>

text \<open>The members \<open>ms\<close> the daemon started with, and those of a record that the voters certified.\<close>

definition admissible :: "daemon_env \<Rightarrow> WorldMemberV1 list \<Rightarrow> WorldMemberV1 list \<Rightarrow> bool" where
  "admissible E ms0 ms \<longleftrightarrow> ms = ms0 \<or> (\<exists>r. certified_membership E r \<and> ms = mr_members r)"

definition voters :: "WorldMemberV1 list \<Rightarrow> PeerId list" where
  "voters ms = map wm_peer_id (filter (\<lambda>m. \<not> wm_banned m) ms)"

definition records_sound :: "daemon_env \<Rightarrow> WorldMemberV1 list \<Rightarrow> world_files \<Rightarrow> bool" where
  "records_sound E ms0 fs \<longleftrightarrow>
    (\<exists>m. load_membership_record (de_world E) fs = Ok m \<and> admissible E ms0 (mr_members m))
    \<and> (\<forall>x. load_world_descriptor (de_world E) fs = Ok x \<longrightarrow> admissible E ms0 (wd_members x))
    \<and> (\<forall>t. load_transfer_record (de_world E) fs = Ok t \<longrightarrow> signed_transfer E t)"

text \<open>
  An epoch that may follow another: its direct successor, and a recovery with the signed votes of a quorum, an
  epoch of the same authority, or the outcome of a transfer that the former authority signed.
\<close>

definition follows :: "daemon_env \<Rightarrow> WorldMemberV1 list \<Rightarrow> EpochRecordV1 \<Rightarrow> EpochRecordV1 \<Rightarrow> bool" where
  "follows E ms0 current r \<longleftrightarrow> succeeds (de_host E) current r
    \<and> (er_mode r = Recovery \<and> (\<exists>c ms. admissible E ms0 ms \<and> validate_recovery_certificate_shape (de_host E) c (voters ms) = Ok ()
          \<and> (\<forall>v \<in> set (rcert_votes c). verify_recovery_vote_signature (de_host E) v = Ok ())
          \<and> rb_target_epoch (rcert_ballot c) = er_epoch_number r \<and> rb_candidate_peer_id (rcert_ballot c) = er_authority_peer_id r)
      \<or> er_mode r \<noteq> Recovery \<and> er_authority_peer_id r = er_authority_peer_id current
          \<and> er_authority_public_key r = er_authority_public_key current
      \<or> er_mode r \<noteq> Recovery \<and> (\<exists>transfer. signed_transfer E transfer \<and> at_phase transfer = Committed
          \<and> at_from_peer_id transfer = er_authority_peer_id current \<and> at_to_peer_id transfer = er_authority_peer_id r
          \<and> at_next_epoch transfer = er_epoch_number r \<and> at_next_fencing_token transfer = er_fencing_token r))"

lemma certified_follows:
  assumes "certified_recovery E fs r" "records_sound E ms0 fs"
  obtains c ms where "admissible E ms0 ms" "validate_recovery_certificate_shape (de_host E) c (voters ms) = Ok ()"
    "\<forall>v \<in> set (rcert_votes c). verify_recovery_vote_signature (de_host E) v = Ok ()"
    "rb_target_epoch (rcert_ballot c) = er_epoch_number r" "rb_candidate_peer_id (rcert_ballot c) = er_authority_peer_id r"
proof -
  obtain c members where c: "(\<exists>m. load_membership_record (de_world E) fs = Ok m \<and> members = canonical_members m)
        \<or> (\<exists>x. load_world_descriptor (de_world E) fs = Ok x \<and> members = voters (wd_members x))"
      "validate_recovery_certificate_shape (de_host E) c members = Ok ()"
      "\<forall>v \<in> set (rcert_votes c). verify_recovery_vote_signature (de_host E) v = Ok ()"
      "rb_target_epoch (rcert_ballot c) = er_epoch_number r" "rb_candidate_peer_id (rcert_ballot c) = er_authority_peer_id r"
    using assms(1) unfolding certified_recovery_def voters_def by blast
  have "\<exists>ms. admissible E ms0 ms \<and> members = voters ms"
    using c(1) assms(2) by (auto simp: records_sound_def canonical_members_def voters_def)
  then show thesis using that c(2-5) by blast
qed

lemma justified_follows:
  assumes "epoch_justified E fs r" "load_epoch_record (de_world E) fs = Ok current" "records_sound E ms0 fs"
  shows "follows E ms0 current r"
proof -
  have "certified_recovery E fs r \<Longrightarrow> er_mode r = Recovery" by (simp add: certified_recovery_def)
  then show ?thesis
    using assms certified_follows [of E fs r ms0] unfolding epoch_justified_def follows_def records_sound_def by metis
qed

lemma saved_epoch_loads:
  assumes "fs' \<in> leaves (save_epoch_record H r) fs" "fs' \<noteq> fs" "er_world_id r = w"
  shows "load_epoch_record w fs' = Ok r"
proof -
  have "EpochRecordV1_validate_semantics r = Ok ()"
    using assms(1,2) by (cases "EpochRecordV1_validate_semantics r") (auto simp: save_epoch_record_def leaves_def protocol_def refuse_def)
  moreover have "wf_epoch fs' = Content r" using save_epoch_leaves [OF assms(1)] assms(2) by auto
  ultimately show ?thesis using assms(3) by (simp add: load_epoch_record_def protocol_def)
qed

section \<open>Actions keep the records sound\<close>

definition record_slots :: "world_files \<Rightarrow> MembershipRecordV1 slot \<times> WorldDescriptorV1 slot \<times> AuthorityTransferV1 slot" where
  "record_slots fs = (wf_membership fs, wf_descriptor fs, wf_transfer fs)"

lemma sound_slots: "record_slots fs' = record_slots fs \<Longrightarrow> records_sound E ms0 fs' = records_sound E ms0 fs"
  by (simp add: record_slots_def records_sound_def load_membership_record_def load_world_descriptor_def load_transfer_record_def)

lemma sound_kept:
  "plan_keeps record_slots (op fs) \<Longrightarrow> fs' \<in> leaves op fs \<Longrightarrow> records_sound E ms0 fs' = records_sound E ms0 fs"
  using leaves_keeps [where op = op] sound_slots by metis

lemma store_body_records: "\<not> guarded_op op \<Longrightarrow> plan_keeps record_slots (store_body S op fs)"
  unfolding store_body_def Let_def by (cases op) (simp_all add: footprint guarded_op_def record_slots_def)

lemma store_records:
  "\<not> guarded_op op \<Longrightarrow> fs' \<in> leaves (store_plan S op) fs \<Longrightarrow> records_sound E ms0 fs' = records_sound E ms0 fs"
  by (rule sound_kept [where op = "store_plan S op"]) (auto intro!: store_plan_keeps store_body_records)

lemmas sound_kept_ops =
  sound_kept [where op = "promise_recovery_ballot H b v" for H b v, OF promise_recovery_ballot_keeps]
  sound_kept [where op = "clear_recovery_promise_after_epoch_advance H w n" for H w n, OF clear_recovery_promise_after_epoch_advance_keeps]
  sound_kept [where op = "save_epoch_record H r" for H r, OF save_epoch_record_keeps]

text \<open>A plan with at most one mutation, and what it has checked before it makes that mutation.\<close>

definition writes_once :: "('s \<Rightarrow> 's) \<Rightarrow> bool \<Rightarrow> ('s, 'a) planned \<Rightarrow> bool" where
  "writes_once m checked p \<longleftrightarrow> snd p = [] \<or> snd p = [m] \<and> checked"

lemma writes_once_rules:
  "writes_once m b (reply x)" "writes_once m b (refuse e)" "b \<Longrightarrow> writes_once m b (store x [m])"
  "(\<And>x. r = Ok x \<Longrightarrow> writes_once m b (k x)) \<Longrightarrow> writes_once m b (check r k)"
  "(c \<Longrightarrow> writes_once m b p) \<Longrightarrow> (\<not> c \<Longrightarrow> writes_once m b q) \<Longrightarrow> writes_once m b (if c then p else q)"
  by (cases r; auto simp: writes_once_def reply_def refuse_def store_def)+

lemma writes_once_leaves:
  assumes "writes_once m b (op fs)" "fs' \<in> leaves op fs"
  shows "fs' = fs \<or> fs' = m fs \<and> b"
  using assms leaves_unchanged [OF _ assms(2)] leaves_single [OF _ assms(2)] by (auto simp: writes_once_def)

lemma saved_membership_loads:
  assumes "fs' \<in> leaves (save_membership_record H r) fs"
  shows "fs' = fs \<or> fs' = fs\<lparr>wf_membership := Content r\<rparr> \<and> MembershipRecordV1_validate_semantics r = Ok ()"
proof (rule writes_once_leaves [where op = "save_membership_record H r", OF _ assms])
  show "writes_once (\<lambda>fs. fs\<lparr>wf_membership := Content r\<rparr>) (MembershipRecordV1_validate_semantics r = Ok ()) (save_membership_record H r fs)"
    unfolding save_membership_record_def write_membership_def
    by (intro writes_once_rules) (auto simp: protocol_def map_err_eq_Ok intro!: writes_once_rules split: sum.split)
qed

lemma saved_membership_sound:
  assumes "members_justified E fs r" "fs' \<in> leaves (save_membership_record (de_host E) r) fs" "records_sound E ms0 fs"
  shows "records_sound E ms0 fs'"
proof (cases "fs' = fs")
  case False
  with saved_membership_loads [OF assms(2)] assms(1) have "load_membership_record (de_world E) fs' = Ok r"
    by (auto simp: load_membership_record_def members_justified_def protocol_def)
  moreover have "admissible E ms0 (mr_members r)"
    using assms(1,3) by (auto simp: members_justified_def records_sound_def admissible_def)
  ultimately show ?thesis
    using assms(3) False saved_membership_loads [OF assms(2)]
    by (auto simp: records_sound_def load_world_descriptor_def load_transfer_record_def)
qed (use assms(3) in simp)

lemma saved_descriptor_sound:
  assumes "wf_membership fs = Content r" "wd_members w = wd_members (WorldDescriptorV1_normalize (w\<lparr>wd_members := mr_members r\<rparr>))"
    "fs' \<in> leaves (save_world_descriptor w) fs" "records_sound E ms0 fs"
  shows "records_sound E ms0 fs'"
proof -
  have r: "admissible E ms0 (mr_members r)" "sort_dedup wm_peer_id (mr_members r) = mr_members r"
    using assms(1,4) by (auto simp: records_sound_def load_membership_record_def protocol_def MembershipRecordV1_validate_semantics_def
      sort_dedup_id map_err_eq_Ok split: if_splits)
  have "writes_once (\<lambda>fs. fs\<lparr>wf_descriptor := Content (WorldDescriptorV1_normalize w)\<rparr>) True (save_world_descriptor w fs)"
    unfolding save_world_descriptor_def Let_def by (intro writes_once_rules TrueI)
  from writes_once_leaves [where op = "save_world_descriptor w", OF this assms(3)] have "fs' = fs \<or> fs' = fs\<lparr>wf_descriptor := Content (WorldDescriptorV1_normalize w)\<rparr>" by simp
  then show ?thesis
    using assms(2,4) r by (auto simp: records_sound_def load_world_descriptor_def load_membership_record_def load_transfer_record_def
      WorldDescriptorV1_normalize_def split: if_splits)
qed

lemma saved_transfer_sound:
  assumes "signed_transfer E r" "fs' \<in> leaves (save_transfer_record (de_host E) r) fs" "records_sound E ms0 fs"
  shows "records_sound E ms0 fs'"
proof -
  have "writes_once (\<lambda>fs. fs\<lparr>wf_transfer := Content r\<rparr>) True (save_transfer_record (de_host E) r fs)"
    unfolding save_transfer_record_def by (intro writes_once_rules TrueI)
  from writes_once_leaves [where op = "save_transfer_record (de_host E) r", OF this assms(2)] have "fs' = fs \<or> fs' = fs\<lparr>wf_transfer := Content r\<rparr>" by simp
  then show ?thesis
    using assms(1,3) by (auto simp: records_sound_def load_world_descriptor_def load_membership_record_def load_transfer_record_def split: if_splits)
qed

lemma action_records: "daemon_action E now d d' \<Longrightarrow> records_sound E ms0 (dn_files d) \<Longrightarrow> records_sound E ms0 (dn_files d')"
proof (induction rule: daemon_action.induct)
  case (plain op fs' d)
  then show ?case using store_records [of op fs' "de_store E" "dn_files d" E ms0] by (simp add: plain_at_def)
qed (simp_all add: sound_kept_ops record_slots_def saved_membership_sound saved_descriptor_sound saved_transfer_sound)

section \<open>Epochs\<close>

lemma epoch_kept:
  assumes "plan_keeps wf_epoch (op fs)" "fs' \<in> leaves op fs"
  shows "load_epoch_record w fs' = load_epoch_record w fs"
  using leaves_keeps [where op = op, OF assms] by (simp add: load_epoch_record_def)

lemmas epoch_kept_ops =
  epoch_kept [where op = "promise_recovery_ballot H b v" for H b v, OF promise_recovery_ballot_keeps]
  epoch_kept [where op = "clear_recovery_promise_after_epoch_advance H w n" for H w n, OF clear_recovery_promise_after_epoch_advance_keeps]
  epoch_kept [where op = "save_membership_record H r" for H r, OF save_membership_record_keeps]
  epoch_kept [where op = "save_world_descriptor w" for w, OF save_world_descriptor_keeps]
  epoch_kept [where op = "save_transfer_record H r" for H r, OF save_transfer_record_keeps]

lemma store_epoch_kept:
  assumes "\<not> guarded_op op" "fs' \<in> leaves (store_plan S op) fs"
  shows "load_epoch_record w fs' = load_epoch_record w fs"
proof (rule epoch_kept [where op = "store_plan S op", OF store_plan_keeps assms(2)])
  have "\<not> saves_epoch op" using assms(1) by (cases op) (simp_all add: guarded_op_def saves_epoch_def)
  then show "plan_keeps wf_epoch (store_body S op fs)" by (rule store_body_epoch)
qed

lemma action_epoch:
  "daemon_action E now d d' \<Longrightarrow> records_sound E ms0 (dn_files d) \<Longrightarrow> load_epoch_record (de_world E) (dn_files d) = Ok r
    \<Longrightarrow> \<exists>r'. load_epoch_record (de_world E) (dn_files d') = Ok r' \<and> (r' = r \<or> follows E ms0 r r')"
proof (induction rule: daemon_action.induct)
  case (plain op fs' d)
  then show ?case using store_epoch_kept [of op fs' "de_store E" "dn_files d"] by (simp add: plain_at_def)
next
  case (epoch d r' fs')
  show ?case
  proof (cases "fs' = dn_files d")
    case False
    have "load_epoch_record (de_world E) fs' = Ok r'"
      using saved_epoch_loads [OF epoch(2) False] epoch(1) by (simp add: epoch_justified_def)
    with justified_follows [OF epoch(1,4,3)] show ?thesis by simp
  qed (use epoch in simp)
qed (simp_all add: epoch_kept_ops)

text \<open>The accepted epoch and the records around it, at the end of a chain from \<open>r0\<close>.\<close>

definition chain_sound :: "daemon_env \<Rightarrow> WorldMemberV1 list \<Rightarrow> EpochRecordV1 \<Rightarrow> world_files \<Rightarrow> bool" where
  "chain_sound E ms0 r0 fs \<longleftrightarrow> records_sound E ms0 fs
    \<and> (\<exists>r. load_epoch_record (de_world E) fs = Ok r \<and> (follows E ms0)\<^sup>*\<^sup>* r0 r)"

lemma action_chain: "daemon_action E now d d' \<Longrightarrow> chain_sound E ms0 r0 (dn_files d) \<Longrightarrow> chain_sound E ms0 r0 (dn_files d')"
  unfolding chain_sound_def using action_records action_epoch by (metis rtranclp.rtrancl_into_rtrancl)

lemma actions_chain: "(daemon_action E now)\<^sup>*\<^sup>* d d' \<Longrightarrow> chain_sound E ms0 r0 (dn_files d) \<Longrightarrow> chain_sound E ms0 r0 (dn_files d')"
  by (induction rule: rtranclp_induct) (auto intro: action_chain)

text \<open>Other processes leave the epoch, the members and the transfer alone.\<close>

definition undisturbed :: "daemon_event \<Rightarrow> bool" where
  "undisturbed event = (case event of Elsewhere op \<Rightarrow> \<not> guarded_op op | _ \<Rightarrow> True)"

lemma event_chain:
  assumes "tame E d" "undisturbed (fst step)" "chain_sound E ms0 r0 (dn_files d)"
  shows "chain_sound E ms0 r0 (dn_files (daemon_exec E d step))"
proof (cases "\<exists>op. fst step = Elsewhere op")
  case True
  then obtain op where op: "fst step = Elsewhere op" ..
  with assms(2) have "\<not> guarded_op op" by (simp add: undisturbed_def)
  with event_moves(2) [OF assms(1), of step] assms(3) store_records [of op] store_epoch_kept [of op]
  show ?thesis by (auto simp: op daemon_moves_def chain_sound_def)
next
  case False
  then obtain now where "(daemon_action E (now, puts_to_sleep (fst step)))\<^sup>*\<^sup>* d (daemon_exec E d step)"
    using event_actions [OF assms(1)] happens_sometime by metis
  then show ?thesis using assms(3) by (rule actions_chain)
qed

lemma run_chain:
  assumes "tame E d" "list_all (\<lambda>step. undisturbed (fst step)) steps" "chain_sound E ms0 r0 (dn_files d)"
  shows "chain_sound E ms0 r0 (dn_files (daemon_run E d steps))"
  using assms
proof (induction steps arbitrary: d)
  case (Cons step steps)
  from Cons.IH [OF event_moves(1) [OF Cons.prems(1)]] event_chain [OF Cons.prems(1) _ Cons.prems(3)] Cons.prems(2)
  show ?case by simp
qed simp


definition demo_membership :: MembershipRecordV1 where
  "demo_membership = \<lparr>mr_protocol_version = PROTOCOL_VERSION, mr_world_id = WorldId 7, mr_epoch = 2, mr_sequence = 0,
    mr_previous_membership_hash = None, mr_members = wd_members demo_descriptor, mr_authority_peer_id = PeerId 0,
    mr_authority_public_key = 0, mr_signature = []\<rparr>"


end
