(* ===== verification/DaemonRefusals.thy ===== *)
theory DaemonRefusals
  imports DaemonRecords HeadSafety
begin

text \<open>
  What the daemon refuses: the requests of a peer that is no member, a transfer after a finished one, and a
  membership record where none is stored.
\<close>

section \<open>Peers outside the world\<close>

definition authorized :: "host \<Rightarrow> WorldId \<Rightarrow> PeerId \<Rightarrow> world_files \<Rightarrow> bool" where
  "authorized H world peer fs = (case load_world_descriptor world fs of
      Inl _ \<Rightarrow> False
    | Inr descriptor \<Rightarrow> (case WorldDescriptorV1_member descriptor peer of
        None \<Rightarrow> False | Some m \<Rightarrow> peer_id_from_public_key H (wm_public_key m) = peer \<and> \<not> wm_banned m))"

lemma authorize_member_iff: "fst (authorize_member H world peer fs) = Ok (Ok ()) \<longleftrightarrow> authorized H world peer fs"
  by (auto simp: authorize_member_def authorized_def authorized_descriptor_member_def passes split: sum.splits option.splits)

lemma refused_first:
  assumes "silent (op s)" "fst (op s) \<noteq> Ok (Ok ())"
  shows "snd (then_ok op k s) = [] \<and> fst (then_ok op k s) \<noteq> Ok (Ok x)"
proof -
  have "fst (then_ok op k s) \<noteq> Ok (Ok x)" using assms(2) by (auto simp: passes)
  moreover have "snd (then_ok op k s) = []"
    using assms by (cases "op s"; cases "fst (op s)"; cases "projr (fst (op s))")
      (auto simp: then_ok_def then_plan_def silent_def reply_def split: sum.splits)
  ultimately show ?thesis by simp
qed



section \<open>A file is kept\<close>

definition keeps_file :: "(world_files \<Rightarrow> 'f) \<Rightarrow> daemon \<Rightarrow> daemon \<Rightarrow> bool" where
  "keeps_file f d d' \<longleftrightarrow> f (dn_files d') = f (dn_files d)"

interpretation keeps: step_relation "keeps_file f"
  by unfold_locales (simp_all add: keeps_file_def)

lemma keeps_file_plan:
  assumes "plan_keeps f (op (dn_files d))"
  shows "within (keeps_file f) (at_files op d) d"
  by (rule withinI) (auto simp: leaves_at_files keeps_file_def dest: leaves_keeps [where op = op, OF assms])

lemma keeps_respond: "within (keeps_file f) (respond transport response d) d"
  by (simp add: respond_def remember_def keeps.within_remember keeps_file_def)

section \<open>Transfers after a finished one\<close>

lemma finished_transfer:
  assumes "load_transfer_record (at_world_id t) fs = Ok previous" "at_phase previous = Committed"
  shows "fst (validate_transfer H t fs) \<noteq> Ok (Ok ())"
proof
  assume "fst (validate_transfer H t fs) = Ok (Ok ())"
  from validate_transfer_Ok(1) [OF this] assms show False
    by (simp add: transfer_continues_def valid_progression_def passes)
qed


definition demo_transfer :: "TransferPhase \<Rightarrow> u64 \<Rightarrow> AuthorityTransferV1" where
  "demo_transfer phase n = \<lparr>at_protocol_version = PROTOCOL_VERSION, at_world_id = WorldId 7, at_from_peer_id = PeerId 0,
    at_to_peer_id = PeerId 1, at_base_snapshot_hash = Hash32 0, at_next_epoch = n, at_next_fencing_token = n, at_phase = phase,
    at_signer_peer_id = PeerId 0, at_signer_public_key = 0, at_signature = []\<rparr>"


section \<open>A membership where none is stored\<close>

lemma after_sum: "after (\<lambda>s. case f s of Inl a \<Rightarrow> p a s | Inr b \<Rightarrow> q b s) s = (case f s of Inl a \<Rightarrow> after (p a) s | Inr b \<Rightarrow> after (q b) s)"
  by (cases "f s") (simp_all add: after_def)

lemma after_bail: "after (\<lambda>_. bail m) s = s"
  by (simp add: after_def bail_def reply_def)

lemmas after_checks = after_sum after_if after_bail

lemma first_membership_refused:
  assumes "wf_membership fs = Absent" "wf_certificate fs = Absent" "mr_sequence r = 1"
  shows "snd (save_membership_record H r fs) = []" "fst (save_membership_record H r fs) \<noteq> Ok ()"
  using assms by (auto simp: save_membership_record_def certified_membership_bootstrap_def snd_check fst_check plan_simps
    split: sum.splits)

lemma first_membership_unpublished:
  assumes "wf_membership fs = Absent" "wf_certificate fs = Absent" "mr_sequence r = 1"
  shows "snd (publish_membership H r fs) = []" "fst (publish_membership H r fs) \<noteq> Ok (Ok ())"
proof -
  obtain e where "save_membership_record H r fs = refuse e"
    using first_membership_refused [OF assms, of H] by (cases "save_membership_record H r fs") (auto simp: refuse_def elim: sum.exhaust)
  then have "then_plan (publish_members H r w) k fs = refuse e" for w and k :: "WorldDescriptorV1 \<Rightarrow> world_files \<Rightarrow> (world_files, unit) handled"
    unfolding publish_members_def Let_def by (intro then_plan_refuse)
  then show "snd (publish_membership H r fs) = []" "fst (publish_membership H r fs) \<noteq> Ok (Ok ())"
    by (cases "load_world_descriptor (mr_world_id r) fs"; simp add: publish_membership_def refuse_def)+
qed



end
