(* ===== verification/StalePromise.thy ===== *)
theory StalePromise
  imports DaemonRefusals
begin

text \<open>
  A recovery promise whose epoch has been reached binds the voter no longer, but as long as it is stored it keeps
  the voter from promising anything else: a ballot for the next epoch has another base.
\<close>

definition stale :: "DurableRecoveryPromiseV1 \<Rightarrow> world_files \<Rightarrow> bool" where
  "stale p fs \<longleftrightarrow> rb_target_epoch (drp_ballot p) \<le> epoch_at fs"

lemma stale_moves:
  assumes "promise_moves E fs fs'" "stale p fs"
  shows "stale p fs'" and "wf_recovery_promise fs' = Content p \<Longrightarrow> wf_recovery_promise fs = Content p"
proof -
  show "stale p fs'" using assms by (auto simp: stale_def promise_moves_def)
  assume now: "wf_recovery_promise fs' = Content p"
  have "\<not> targets_next E fs (drp_ballot p)"
    using assms(2) targets_next_epoch [of E fs "drp_ballot p"] by (auto simp: stale_def)
  with assms(1) now show "wf_recovery_promise fs = Content p" by (auto simp: promise_moves_def)
qed

text \<open>Every step either keeps the stale promise and adds no vote but its own, or loses the promise for good.\<close>

definition held :: "daemon_env \<Rightarrow> DurableRecoveryPromiseV1 \<Rightarrow> daemon \<Rightarrow> daemon \<Rightarrow> bool" where
  "held E p d d' \<longleftrightarrow> (stale p (dn_files d) \<longrightarrow> stale p (dn_files d')
    \<and> (wf_recovery_promise (dn_files d') = Content p
       \<longrightarrow> wf_recovery_promise (dn_files d) = Content p \<and> cast_votes E d' \<subseteq> cast_votes E d \<union> {drp_vote p}))"

lemma held_step:
  assumes "promise_moves E (dn_files d) (dn_files d')" "cast_votes E d' \<subseteq> cast_votes E d \<union> {v. standing E (dn_files d') v}"
  shows "held E p d d'"
  unfolding held_def using stale_moves [OF assms(1)] assms(2) standing_content [of E "dn_files d'"] by fastforce

interpretation held: step_relation "held E p"
  by unfold_locales (auto simp: held_def)

lemma held_actions: "(daemon_action E now)\<^sup>*\<^sup>* d d' \<Longrightarrow> held E p d d'"
  by (induction rule: rtranclp_induct) (auto intro: held.refl held.trans [OF _ held_step [OF action_moves action_votes]])

lemma held_event:
  assumes "tame E d"
  shows "held E p d (daemon_exec E d step)"
proof (cases "\<exists>op. fst step = Elsewhere op")
  case True
  then obtain op where op: "fst step = Elsewhere op" ..
  from event_moves(2) [OF assms, of step] consider "daemon_exec E d step = d" | fs' where "\<not> daemon_owned op"
      "fs' \<in> leaves (store_plan (de_store E) op) (dn_files d)" "daemon_exec E d step = d\<lparr>dn_files := fs'\<rparr>"
    by (auto simp: daemon_moves_def op)
  then show ?thesis
  proof cases
    case 1
    then show ?thesis by (simp add: held.refl)
  next
    case 2
    from held_step [of E d "d\<lparr>dn_files := fs'\<rparr>"] store_moves [OF 2(1,2)] 2(3)
    show ?thesis by (auto simp: cast_votes_def votes_sent_def own_votes_def)
  qed
next
  case False
  then obtain now where "(daemon_action E (now, puts_to_sleep (fst step)))\<^sup>*\<^sup>* d (daemon_exec E d step)"
    using event_actions [OF assms] happens_sometime by metis
  then show ?thesis by (rule held_actions)
qed

lemma held_run: "tame E d \<Longrightarrow> held E p d (daemon_run E d steps)"
  by (induction steps arbitrary: d) (auto intro: held.refl held.trans held_event event_moves(1))

text \<open>
  A stale promise silences the voter.  Let a daemon hold the promise of a ballot whose target epoch it has already
  accepted, and let it handle any events.  If the promise is still stored at the end, the daemon has cast no
  recovery vote in all that time, neither for itself nor for any other candidate, except for repeating the old one.
\<close>

theorem stale_promise_silences_voter:
  assumes "tame E d" "rb_target_epoch (drp_ballot p) \<le> epoch_at (dn_files d)"
    and "wf_recovery_promise (dn_files (daemon_run E d steps)) = Content p"
  shows "votes_cast E d steps \<subseteq> cast_votes E d \<union> {drp_vote p}"
  using assms
proof (induction steps arbitrary: d)
  case (Cons step steps)
  let ?d = "daemon_exec E d step"
  have tame: "tame E ?d" using Cons.prems(1) by (rule event_moves(1))
  have stale: "stale p (dn_files d)" using Cons.prems(2) by (simp add: stale_def)
  with held_event [OF Cons.prems(1), of p step] have "stale p (dn_files ?d)" by (simp add: held_def)
  then have "wf_recovery_promise (dn_files ?d) = Content p" using held_run [OF tame, of p steps] Cons.prems(3) by (simp add: held_def)
  with held_event [OF Cons.prems(1), of p step] stale have "cast_votes E ?d \<subseteq> cast_votes E d \<union> {drp_vote p}" by (simp add: held_def)
  moreover have "votes_cast E ?d steps \<subseteq> cast_votes E ?d \<union> {drp_vote p}"
    by (rule Cons.IH [OF tame]) (use \<open>stale p (dn_files ?d)\<close> Cons.prems(3) in \<open>simp_all add: stale_def\<close>)
  ultimately show ?case by auto
qed auto

text \<open>The handler of an ordinary epoch record is one of the steps that leave the promise where it is.\<close>

lemma handle_epoch_keeps_promise: "within (keeps_file wf_recovery_promise) (handle_epoch E transport sender r d) d"
  unfolding handle_epoch_def Let_def
  by (auto intro!: keeps.rules keeps_file_plan keeps_respond footprint silent_keeps [OF ensure_no_membership_prepare_silent]
      silent_keeps [OF validate_non_recovery_epoch_transition_silent] simp: head_only_def split: sum.splits)

definition demo_promise :: DurableRecoveryPromiseV1 where
  "demo_promise = \<lparr>drp_ballot = \<lparr>rb_protocol_version = PROTOCOL_VERSION, rb_world_id = WorldId 7, rb_base_epoch = 1,
      rb_base_fencing_token = 1, rb_target_epoch = 2, rb_target_fencing_token = 2, rb_round = 1, rb_candidate_peer_id = PeerId 0,
      rb_candidate_public_key = 0, rb_base_snapshot_hash = Hash32 0, rb_base_state_hash = Hash32 0, rb_membership_hash = Hash32 0,
      rb_signature = []\<rparr>,
    drp_vote = \<lparr>rv_protocol_version = PROTOCOL_VERSION, rv_world_id = WorldId 7, rv_ballot_hash = Hash32 0, rv_base_epoch = 1,
      rv_target_epoch = 2, rv_round = 1, rv_candidate_peer_id = PeerId 0, rv_voter_peer_id = PeerId 1, rv_voter_public_key = 1,
      rv_signature = []\<rparr>\<rparr>"

theorem stale_promise_silences_voter_witness:
  "votes_cast demo_daemon_env (daemon_start (demo_world_files\<lparr>wf_recovery_promise := Content demo_promise\<rparr>) None False Absent)
    [(WakeRequested, None), (OutboundFailure [] 3, None), (Restart, Some 0)] \<subseteq> {drp_vote demo_promise}"
proof -
  let ?d = "daemon_start (demo_world_files\<lparr>wf_recovery_promise := Content demo_promise\<rparr>) None False Absent"
  have stale: "rb_target_epoch (drp_ballot demo_promise) \<le> epoch_at (dn_files ?d)"
    by (simp add: demo_promise_def epoch_at_def daemon_start_def demo_world_files_def demo_epoch_def)
  have stays: "wf_recovery_promise (dn_files (daemon_run demo_daemon_env ?d [(WakeRequested, None), (OutboundFailure [] 3, None), (Restart, Some 0)]))
      = Content demo_promise"
    by (simp add: daemon_exec_def daemon_plan_def perform_def remember_def store_def request_failed_def daemon_start_def)
  have "cast_votes demo_daemon_env ?d = {}"
    by (simp add: cast_votes_def votes_sent_def own_votes_def daemon_start_def)
  with stale_promise_silences_voter [OF start_tame stale stays] show ?thesis by (simp only: Un_empty_left)
qed

end
