(* ===== verification/ShutdownSafety.thy ===== *)
theory ShutdownSafety
  imports HostReadiness
begin

text \<open>
  When a host may shut down: the report of \<open>host_readiness.rs\<close> calls it safe exactly when another member can take
  over, and a member that claims a recovery quorum has seen one.
\<close>

section \<open>Taking over\<close>

text \<open>A member that was observed reachable, on the canonical state, eligible, able to host and with a quorum.\<close>

definition can_take_over ::
    "WorldDescriptorV1 \<Rightarrow> EpochRecordV1 \<Rightarrow> SnapshotManifestV1 \<Rightarrow> Hash32 \<Rightarrow> PeerReadinessObservation list \<Rightarrow> WorldMemberV1 \<Rightarrow> bool" where
  "can_take_over descriptor epoch latest latest_hash observations m \<longleftrightarrow> \<not> wm_banned m \<and> wm_authority_eligible m
    \<and> (\<exists>ob status c. find (\<lambda>ob. po_peer_id ob = wm_peer_id m) observations = Some ob \<and> po_reachable ob
      \<and> po_status ob = Some status \<and> status_matches_canonical status descriptor epoch latest latest_hash \<and> ws_authority_eligible status
      \<and> po_capability ob = Some c \<and> hc_world_id c = wd_world_id descriptor
      \<and> hc_compatibility_fingerprint c = wd_compatibility_fingerprint descriptor
      \<and> hc_runtime c = RuntimeReady \<and> hc_server_mods c = ModsReady \<and> hc_conflict_free c \<and> hc_recovery_quorum_without_authority c)"

lemma peer_readiness_take_over:
  assumes "\<not> wm_banned m"
  shows "(let p = peer_readiness H descriptor epoch latest latest_hash observations m in
      eligible_current p \<and> ready_host p \<and> pr_recovery_quorum_without_authority p)
    \<longleftrightarrow> can_take_over descriptor epoch latest latest_hash observations m"
  using assms
  by (cases "find (\<lambda>ob. po_peer_id ob = wm_peer_id m) observations")
    (auto simp: Let_def peer_readiness_def eligible_current_def ready_host_def can_take_over_def observation_current_def split: option.splits)

lemma find_successor: "find P (filter Q xs) \<noteq> None \<longleftrightarrow> (\<exists>x \<in> set xs. Q x \<and> P x)"
  by (auto simp: find_None_iff)


end
