(* ===== verification/Spec2Isabelle.thy ===== *)
theory Spec2Isabelle
  imports Discovery MembershipConsensus Handover Simulator HeadSafety SnapshotRoundTrip
    Admission StalePromise ShutdownSafety
begin

text \<open>
  Verification of SwarmCraft, a peer-to-peer host for shared worlds.

  To be completed.
\<close>

end
